(* ===== verification/Prelude.thy ===== *)
theory Prelude
  imports Main "HOL-Library.Word"
begin

text \<open>
  What every component of the development shares: the machine types, the byte order of a
  host, the conversion between numbers and byte strings (C's in-memory images, Rust's
  \<open>from_le_bytes\<close>, \<open>from_be_bytes\<close>, \<open>from_ne_bytes\<close> and
  \<open>transmute\<close>), checked access to byte slices, and saturating arithmetic.
  The collection \<open>byte_codec\<close> holds the length and round-trip facts of the byte
  conversions, \<open>slice_simps\<close> those of the slice accesses.
\<close>

named_theorems byte_codec "lengths and round trips of number/byte conversions"
named_theorems slice_simps "checked accesses to byte slices"

type_synonym u8 = "8 word"
type_synonym u16 = "16 word"
type_synonym u32 = "32 word"
type_synonym u64 = "64 word"
type_synonym bytes = "8 word list"

section \<open>Numbers as bytes\<close>

datatype endian = Little | Big

text \<open>The value of a byte string, least significant byte first, and the \<open>n\<close> bytes of a
  value. Both are executable on numerals by \<open>simp\<close>.\<close>

fun le_nat :: "bytes \<Rightarrow> nat" where
  "le_nat [] = 0"
| "le_nat (b # bs) = unat b + 256 * le_nat bs"

fun le_bytes :: "nat \<Rightarrow> nat \<Rightarrow> bytes" where
  "le_bytes 0 v = []"
| "le_bytes (Suc n) v = of_nat (v mod 256) # le_bytes n (v div 256)"

definition ne_nat :: "endian \<Rightarrow> bytes \<Rightarrow> nat" where
  "ne_nat en bs = (case en of Little \<Rightarrow> le_nat bs | Big \<Rightarrow> le_nat (rev bs))"

definition ne_bytes :: "endian \<Rightarrow> nat \<Rightarrow> nat \<Rightarrow> bytes" where
  "ne_bytes en n v = (case en of Little \<Rightarrow> le_bytes n v | Big \<Rightarrow> rev (le_bytes n v))"

abbreviation be_nat :: "bytes \<Rightarrow> nat" where
  "be_nat bs \<equiv> ne_nat Big bs"

lemma unat_of_nat_byte [byte_codec]: "unat (of_nat (v mod 256) :: u8) = v mod 256"
  by (simp add: unat_of_nat)

lemma unat_byte_bound: "unat (b :: u8) < 256"
  using unsigned_less [of b] by simp

lemma length_le_bytes [simp, byte_codec]: "length (le_bytes n v) = n"
  by (induction n arbitrary: v) auto

lemma length_ne_bytes [simp, byte_codec]: "length (ne_bytes en n v) = n"
  by (cases en) (auto simp: ne_bytes_def)

lemma le_nat_bound: "le_nat bs < 256 ^ length bs"
proof (induction bs)
  case (Cons b bs)
  have "unat b < 256" by (rule unat_byte_bound)
  with Cons show ?case by simp
qed simp

lemma le_nat_le_bytes [byte_codec]: "le_nat (le_bytes n v) = v mod 256 ^ n"
proof (induction n arbitrary: v)
  case (Suc n)
  then show ?case
    by (simp add: unat_of_nat_byte mod_mult2_eq)
qed simp

lemma le_bytes_le_nat [byte_codec]: "length bs = n \<Longrightarrow> le_bytes n (le_nat bs) = bs"
proof (induction bs arbitrary: n)
  case (Cons b bs)
  have b: "unat b < 256" by (rule unat_byte_bound)
  then have "of_nat ((unat b + 256 * le_nat bs) mod 256) = b"
    by simp
  moreover have "(unat b + 256 * le_nat bs) div 256 = le_nat bs"
    using b by simp
  ultimately show ?case using Cons by (cases n) auto
qed simp

lemma ne_nat_ne_bytes [byte_codec]: "ne_nat en (ne_bytes en n v) = v mod 256 ^ n"
  by (cases en) (simp_all add: ne_nat_def ne_bytes_def le_nat_le_bytes)

lemma ne_bytes_ne_nat [byte_codec]: "length bs = n \<Longrightarrow> ne_bytes en n (ne_nat en bs) = bs"
proof (cases en)
  case Big
  assume "length bs = n"
  then have "le_bytes n (le_nat (rev bs)) = rev bs" by (intro le_bytes_le_nat) simp
  then show ?thesis using Big by (simp add: ne_nat_def ne_bytes_def)
qed (simp add: ne_nat_def ne_bytes_def le_bytes_le_nat)

text \<open>Evaluation at a numeral width.\<close>

lemma le_bytes_numeral:
  "le_bytes (numeral k) v = of_nat (v mod 256) # le_bytes (pred_numeral k) (v div 256)"
  by (subst numeral_eq_Suc) (rule le_bytes.simps)

lemma replicate_numeral: "replicate (numeral k) x = x # replicate (pred_numeral k) x"
  by (subst numeral_eq_Suc) (rule replicate_Suc)

lemma ne_nat_bound: "ne_nat en bs < 256 ^ length bs"
  using le_nat_bound [of bs] le_nat_bound [of "rev bs"] by (cases en) (simp_all add: ne_nat_def)

text \<open>The byte images of two numbers agree exactly when the numbers do.\<close>

lemma ne_bytes_inject:
  assumes "v < 256 ^ n" and "w < 256 ^ n"
  shows "ne_bytes en n v = ne_bytes en n w \<longleftrightarrow> v = w"
  using ne_nat_ne_bytes [of en n v] ne_nat_ne_bytes [of en n w] assms by (metis mod_less)

lemma ne_nat_inject:
  assumes "length xs = length ys"
  shows "ne_nat en xs = ne_nat en ys \<longleftrightarrow> xs = ys"
  using ne_bytes_ne_nat [of xs "length xs" en] ne_bytes_ne_nat [of ys "length xs" en] assms
  by metis

text \<open>A number written in the host's order and read in the other is the reversed string.\<close>

lemma ne_bytes_le_nat [byte_codec]:
  "length bs = n \<Longrightarrow> ne_bytes en n (le_nat bs) = (case en of Little \<Rightarrow> bs | Big \<Rightarrow> rev bs)"
  by (cases en) (simp_all add: ne_bytes_def le_bytes_le_nat)

lemma ne_bytes_be_nat [byte_codec]:
  "length bs = n \<Longrightarrow> ne_bytes en n (be_nat bs) = (case en of Little \<Rightarrow> rev bs | Big \<Rightarrow> bs)"
  by (cases en) (simp_all add: ne_bytes_def ne_nat_def le_bytes_le_nat)

text \<open>Reading a fixed-width field gives a word, storing it again the same bytes.\<close>

lemma unat_word_of_ne_nat:
  assumes "256 ^ length bs \<le> (2::nat) ^ LENGTH('a::len)"
  shows "unat (word_of_nat (ne_nat en bs) :: 'a word) = ne_nat en bs"
proof -
  have "ne_nat en bs < 2 ^ LENGTH('a)"
    using ne_nat_bound [of en bs] assms by linarith
  then show ?thesis by (simp add: unat_of_nat)
qed

section \<open>Byte slices\<close>

text \<open>Rust's \<open>data.get(i)\<close>; \<open>data[a..b]\<close> panics unless \<open>a \<le> b \<le> data.len()\<close>, so a
  range is an option as well.\<close>

definition byte_at :: "bytes \<Rightarrow> nat \<Rightarrow> u8 option" where
  "byte_at bs i = (if i < length bs then Some (bs ! i) else None)"

definition sub_slice :: "nat \<Rightarrow> nat \<Rightarrow> bytes \<Rightarrow> bytes option" where
  "sub_slice a b bs = (if a \<le> b \<and> b \<le> length bs then Some (take (b - a) (drop a bs)) else None)"

lemma byte_at_Some [slice_simps]: "byte_at bs i = Some x \<longleftrightarrow> i < length bs \<and> bs ! i = x"
  by (auto simp: byte_at_def)

lemma sub_slice_length [slice_simps]: "sub_slice a b bs = Some s \<Longrightarrow> length s = b - a"
  by (auto simp: sub_slice_def split: if_splits)

lemma sub_slice_total [slice_simps]:
  "a \<le> b \<Longrightarrow> b \<le> length bs \<Longrightarrow> sub_slice a b bs = Some (take (b - a) (drop a bs))"
  by (simp add: sub_slice_def)

section \<open>Saturating arithmetic\<close>

definition sat_sub :: "'a::len word \<Rightarrow> 'a word \<Rightarrow> 'a word" where
  "sat_sub a b = (if b \<le> a then a - b else 0)"

lemma unat_sat_sub: "unat (sat_sub a b) = unat a - unat b"
  by (simp add: sat_sub_def unat_sub word_le_nat_alt)

end
