(* ===== verification/CLayout.thy ===== *)
theory CLayout
  imports Prelude
begin

text \<open>
  The layout rules of C aggregates, for the kernel types of the bundled \<open>vmlinux.h\<close>
  headers: scalars, pointers, enumerations, arrays, structs, unions, bit-fields and
  anonymous members, under the two data models of the supported kernels (LP64 for x86-64
  and aarch64, ILP32 for arm). \<open>lay\<close> gives size and alignment in bytes, \<open>member\<close>
  resolves a member name to its bit offset and type, descending into anonymous members,
  and \<open>field_at\<close> resolves an access path as the CO-RE relocations of the tracker do.
  The collection \<open>c_layout\<close> holds the computed layout of every kernel type.
\<close>

named_theorems c_layout "computed layouts of kernel types"

section \<open>Types\<close>

datatype abi = LP64 | ILP32

datatype cprim = CChar | CShort | CInt | CLong | CLongLong | CBool | CInt128

datatype ctype =
    Prim cprim
  | Ptr
  | Enum "(string \<times> int) list"
  | EnumByte "(string \<times> int) list"
  | Arr ctype nat
  | Struct "cmember list"
  | PackedStruct "cmember list"
  | Union "cmember list"
and cmember =
    Mem string ctype
  | Bits string ctype nat
  | Anon ctype

text \<open>An unnamed bit-field has the empty name; function pointers are \<open>Ptr\<close>.\<close>

section \<open>Size and alignment\<close>

fun prim_size :: "abi \<Rightarrow> cprim \<Rightarrow> nat" where
  "prim_size a CChar = 1"
| "prim_size a CShort = 2"
| "prim_size a CInt = 4"
| "prim_size a CLong = (case a of LP64 \<Rightarrow> 8 | ILP32 \<Rightarrow> 4)"
| "prim_size a CLongLong = 8"
| "prim_size a CBool = 1"
| "prim_size a CInt128 = 16"

definition ptr_size :: "abi \<Rightarrow> nat" where
  "ptr_size a = (case a of LP64 \<Rightarrow> 8 | ILP32 \<Rightarrow> 4)"

definition align_up :: "nat \<Rightarrow> nat \<Rightarrow> nat" where
  "align_up x a = (x + (a - 1)) div a * a"

definition wider :: "nat \<Rightarrow> nat \<Rightarrow> nat" where
  "wider x y = (if x < y then y else x)"

text \<open>Where a bit-field of width \<open>w\<close> in units of \<open>z\<close> bytes starts, from the first free
  bit: it stays inside one unit, else it moves to the next.\<close>

definition bits_start :: "nat \<Rightarrow> nat \<Rightarrow> nat \<Rightarrow> nat" where
  "bits_start z w off =
     (if w = 0 then align_up off (8 * z)
      else if off div (8 * z) \<noteq> (off + w - 1) div (8 * z) then align_up off (8 * z)
      else off)"

fun lay :: "abi \<Rightarrow> ctype \<Rightarrow> nat \<times> nat"
  and lay_struct :: "abi \<Rightarrow> cmember list \<Rightarrow> nat \<Rightarrow> nat \<Rightarrow> nat \<times> nat"
  and lay_packed :: "abi \<Rightarrow> cmember list \<Rightarrow> nat \<Rightarrow> nat"
  and lay_union :: "abi \<Rightarrow> cmember list \<Rightarrow> nat \<Rightarrow> nat \<Rightarrow> nat \<times> nat" where
  "lay a (Prim p) = (prim_size a p, prim_size a p)"
| "lay a Ptr = (ptr_size a, ptr_size a)"
| "lay a (Enum es) = (4, 4)"
| "lay a (EnumByte es) = (1, 1)"
| "lay a (Arr t n) = (fst (lay a t) * n, snd (lay a t))"
| "lay a (Struct ms) =
     (case lay_struct a ms 0 1 of (e, al) \<Rightarrow> (align_up ((e + 7) div 8) al, al))"
| "lay a (PackedStruct ms) = ((lay_packed a ms 0 + 7) div 8, 1)"
| "lay a (Union ms) =
     (case lay_union a ms 0 1 of (e, al) \<Rightarrow> (align_up ((e + 7) div 8) al, al))"
| "lay_struct a [] off al = (off, al)"
| "lay_struct a (Mem n t # ms) off al =
     (case lay a t of (z, b) \<Rightarrow> lay_struct a ms (align_up off (8 * b) + 8 * z) (wider al b))"
| "lay_struct a (Anon t # ms) off al =
     (case lay a t of (z, b) \<Rightarrow> lay_struct a ms (align_up off (8 * b) + 8 * z) (wider al b))"
| "lay_struct a (Bits n t w # ms) off al =
     (case lay a t of (z, b) \<Rightarrow>
        lay_struct a ms (bits_start z w off + w) (if n = [] then al else wider al b))"
| "lay_packed a [] off = off"
| "lay_packed a (Mem n t # ms) off = lay_packed a ms (align_up off 8 + 8 * fst (lay a t))"
| "lay_packed a (Anon t # ms) off = lay_packed a ms (align_up off 8 + 8 * fst (lay a t))"
| "lay_packed a (Bits n t w # ms) off = lay_packed a ms (off + w)"
| "lay_union a [] e al = (e, al)"
| "lay_union a (Mem n t # ms) e al =
     (case lay a t of (z, b) \<Rightarrow> lay_union a ms (wider e (8 * z)) (wider al b))"
| "lay_union a (Anon t # ms) e al =
     (case lay a t of (z, b) \<Rightarrow> lay_union a ms (wider e (8 * z)) (wider al b))"
| "lay_union a (Bits n t w # ms) e al =
     (case lay a t of (z, b) \<Rightarrow> lay_union a ms (wider e w) (if n = [] then al else wider al b))"

definition csize :: "abi \<Rightarrow> ctype \<Rightarrow> nat" where
  "csize a t = fst (lay a t)"

section \<open>Members and access paths\<close>

text \<open>The bit offset and the type of a named member; members of anonymous structs and
  unions count as members of the enclosing type.\<close>

fun member :: "abi \<Rightarrow> string \<Rightarrow> ctype \<Rightarrow> (nat \<times> ctype) option"
  and member_struct :: "abi \<Rightarrow> string \<Rightarrow> cmember list \<Rightarrow> nat \<Rightarrow> (nat \<times> ctype) option"
  and member_packed :: "abi \<Rightarrow> string \<Rightarrow> cmember list \<Rightarrow> nat \<Rightarrow> (nat \<times> ctype) option"
  and member_union :: "abi \<Rightarrow> string \<Rightarrow> cmember list \<Rightarrow> (nat \<times> ctype) option" where
  "member a f (Struct ms) = member_struct a f ms 0"
| "member a f (PackedStruct ms) = member_packed a f ms 0"
| "member a f (Union ms) = member_union a f ms"
| "member a f (Prim p) = None"
| "member a f Ptr = None"
| "member a f (Enum es) = None"
| "member a f (EnumByte es) = None"
| "member a f (Arr t n) = None"
| "member_struct a f [] off = None"
| "member_struct a f (Mem n t # ms) off =
     (case lay a t of (z, b) \<Rightarrow>
        (if n = f then Some (align_up off (8 * b), t)
         else member_struct a f ms (align_up off (8 * b) + 8 * z)))"
| "member_struct a f (Anon t # ms) off =
     (case lay a t of (z, b) \<Rightarrow>
        (case member a f t of
           Some (o', t') \<Rightarrow> Some (align_up off (8 * b) + o', t')
         | None \<Rightarrow> member_struct a f ms (align_up off (8 * b) + 8 * z)))"
| "member_struct a f (Bits n t w # ms) off =
     (case lay a t of (z, b) \<Rightarrow>
        (if n = f \<and> n \<noteq> [] then Some (bits_start z w off, t)
         else member_struct a f ms (bits_start z w off + w)))"
| "member_packed a f [] off = None"
| "member_packed a f (Mem n t # ms) off =
     (if n = f then Some (align_up off 8, t)
      else member_packed a f ms (align_up off 8 + 8 * fst (lay a t)))"
| "member_packed a f (Anon t # ms) off =
     (case member a f t of
        Some (o', t') \<Rightarrow> Some (align_up off 8 + o', t')
      | None \<Rightarrow> member_packed a f ms (align_up off 8 + 8 * fst (lay a t)))"
| "member_packed a f (Bits n t w # ms) off =
     (if n = f \<and> n \<noteq> [] then Some (off, t) else member_packed a f ms (off + w))"
| "member_union a f [] = None"
| "member_union a f (Mem n t # ms) = (if n = f then Some (0, t) else member_union a f ms)"
| "member_union a f (Anon t # ms) =
     (case member a f t of Some r \<Rightarrow> Some r | None \<Rightarrow> member_union a f ms)"
| "member_union a f (Bits n t w # ms) =
     (if n = f \<and> n \<noteq> [] then Some (0, t) else member_union a f ms)"

text \<open>Byte offset and size of the field an access path names.\<close>

fun path_bits :: "abi \<Rightarrow> ctype \<Rightarrow> string list \<Rightarrow> (nat \<times> ctype) option" where
  "path_bits a t [] = Some (0, t)"
| "path_bits a t (f # fs) =
     (case member a f t of
        None \<Rightarrow> None
      | Some (o1, t1) \<Rightarrow>
          (case path_bits a t1 fs of None \<Rightarrow> None | Some (o2, t2) \<Rightarrow> Some (o1 + o2, t2)))"

definition field_at :: "abi \<Rightarrow> ctype \<Rightarrow> string list \<Rightarrow> (nat \<times> nat) option" where
  "field_at a t fs =
     (case path_bits a t fs of None \<Rightarrow> None | Some (b, t') \<Rightarrow> Some (b div 8, csize a t'))"

section \<open>Evaluation\<close>

text \<open>
  The defining equations place a member at an offset that is still an expression. The
  conditional equations of \<open>layout_eval\<close> compute each offset to a numeral before they
  go to the next member, so that the layout of a type with hundreds of members is found
  in one linear pass.
\<close>

declare lay.simps(6,8) [simp del]
  and lay_struct.simps(2-4) [simp del] and lay_union.simps(2-4) [simp del]
  and member_struct.simps(2-4) [simp del] and path_bits.simps(2) [simp del]

lemma lay_Struct:
  "lay_struct a ms 0 1 = r \<Longrightarrow>
   lay a (Struct ms) = (align_up ((fst r + 7) div 8) (snd r), snd r)"
  by (auto simp: lay.simps split: prod.split)

lemma lay_Union:
  "lay_union a ms 0 1 = r \<Longrightarrow>
   lay a (Union ms) = (align_up ((fst r + 7) div 8) (snd r), snd r)"
  by (auto simp: lay.simps split: prod.split)

lemma lay_struct_Mem:
  "lay a t = r \<Longrightarrow> align_up off (8 * snd r) + 8 * fst r = e \<Longrightarrow> wider al (snd r) = w \<Longrightarrow>
   lay_struct a (Mem n t # ms) off al = lay_struct a ms e w"
  by (auto simp: lay_struct.simps split: prod.split)

lemma lay_struct_Anon:
  "lay a t = r \<Longrightarrow> align_up off (8 * snd r) + 8 * fst r = e \<Longrightarrow> wider al (snd r) = w \<Longrightarrow>
   lay_struct a (Anon t # ms) off al = lay_struct a ms e w"
  by (auto simp: lay_struct.simps split: prod.split)

lemma lay_struct_Bits:
  "lay a t = r \<Longrightarrow> bits_start (fst r) k off + k = e \<Longrightarrow>
   (if n = [] then al else wider al (snd r)) = w \<Longrightarrow>
   lay_struct a (Bits n t k # ms) off al = lay_struct a ms e w"
  by (auto simp: lay_struct.simps split: prod.split)

lemma lay_union_Mem:
  "lay a t = r \<Longrightarrow> wider e (8 * fst r) = e' \<Longrightarrow> wider al (snd r) = w \<Longrightarrow>
   lay_union a (Mem n t # ms) e al = lay_union a ms e' w"
  by (auto simp: lay_union.simps split: prod.split)

lemma lay_union_Anon:
  "lay a t = r \<Longrightarrow> wider e (8 * fst r) = e' \<Longrightarrow> wider al (snd r) = w \<Longrightarrow>
   lay_union a (Anon t # ms) e al = lay_union a ms e' w"
  by (auto simp: lay_union.simps split: prod.split)

lemma lay_union_Bits:
  "lay a t = r \<Longrightarrow> wider e k = e' \<Longrightarrow> (if n = [] then al else wider al (snd r)) = w \<Longrightarrow>
   lay_union a (Bits n t k # ms) e al = lay_union a ms e' w"
  by (auto simp: lay_union.simps split: prod.split)

lemma member_struct_Mem_hit:
  "lay a t = r \<Longrightarrow>
   member_struct a f (Mem f t # ms) off = Some (align_up off (8 * snd r), t)"
  by (auto simp: member_struct.simps split: prod.split)

lemma member_struct_Mem_miss:
  "n \<noteq> f \<Longrightarrow> lay a t = r \<Longrightarrow> align_up off (8 * snd r) + 8 * fst r = e \<Longrightarrow>
   member_struct a f (Mem n t # ms) off = member_struct a f ms e"
  by (auto simp: member_struct.simps split: prod.split)

lemma member_struct_Anon_hit:
  "member a f t = Some p \<Longrightarrow> lay a t = r \<Longrightarrow>
   member_struct a f (Anon t # ms) off = Some (align_up off (8 * snd r) + fst p, snd p)"
  by (auto simp: member_struct.simps split: prod.split)

lemma member_struct_Anon_miss:
  "member a f t = None \<Longrightarrow> lay a t = r \<Longrightarrow> align_up off (8 * snd r) + 8 * fst r = e \<Longrightarrow>
   member_struct a f (Anon t # ms) off = member_struct a f ms e"
  by (auto simp: member_struct.simps split: prod.split)

lemma member_struct_Bits_miss:
  "n \<noteq> f \<Longrightarrow> lay a t = r \<Longrightarrow> bits_start (fst r) k off + k = e \<Longrightarrow>
   member_struct a f (Bits n t k # ms) off = member_struct a f ms e"
  by (auto simp: member_struct.simps split: prod.split)

lemma path_bits_step:
  "member a f t = Some p \<Longrightarrow> path_bits a (snd p) fs = Some q \<Longrightarrow>
   path_bits a t (f # fs) = Some (fst p + fst q, snd q)"
  by (auto simp: path_bits.simps split: prod.split)

lemmas layout_eval =
  align_up_def bits_start_def ptr_size_def wider_def
  lay_Struct lay_Union lay_struct_Mem lay_struct_Anon lay_struct_Bits
  lay_union_Mem lay_union_Anon lay_union_Bits

lemmas member_eval = layout_eval
  member_struct_Mem_hit member_struct_Mem_miss member_struct_Anon_hit member_struct_Anon_miss
  member_struct_Bits_miss path_bits_step

text \<open>Alignment never moves a field backwards, and by less than one unit forwards.\<close>

lemma align_up_ge: "0 < a \<Longrightarrow> x \<le> align_up x a"
proof -
  assume "0 < a"
  then have "(x + (a - 1)) mod a \<le> a - 1" using mod_less_divisor [of a "x + (a - 1)"] by linarith
  moreover have "align_up x a + (x + (a - 1)) mod a = x + (a - 1)"
    by (simp add: align_up_def)
  ultimately show ?thesis by linarith
qed

lemma align_up_dvd: "a dvd align_up x a"
  by (simp add: align_up_def)

end
