(* ===== verification/Vmlinux_X86.thy ===== *)
theory Vmlinux_X86
  imports CLayout
begin

text \<open>
  The kernel types the socket tracker reads, as the bundled header
  \<^verbatim>\<open>resources/ebpf/vmlinux/x86/vmlinux.h\<close> declares them for x86-64 (data model
  \<open>LP64\<close>): every struct, union, enumeration and type synonym that \<open>struct sock\<close>,
  \<open>struct msghdr\<close>, the socket addresses, \<open>struct task_struct\<close> and the TCP and UDP
  sockets are built from, one definition per declaration, members in declaration order.
  The collection \<open>c_layout\<close> gets the size and alignment of every aggregate, and the
  definitions of the scalar synonyms.
\<close>

definition x86_t___u64 :: ctype where
  "x86_t___u64 = Prim CLongLong"

declare x86_t___u64_def [c_layout]

definition x86_t___addrpair :: ctype where
  "x86_t___addrpair = x86_t___u64"

declare x86_t___addrpair_def [c_layout]

definition x86_t___u32 :: ctype where
  "x86_t___u32 = Prim CInt"

declare x86_t___u32_def [c_layout]

definition x86_t___be32 :: ctype where
  "x86_t___be32 = x86_t___u32"

declare x86_t___be32_def [c_layout]

definition x86_t___u16 :: ctype where
  "x86_t___u16 = Prim CShort"

declare x86_t___u16_def [c_layout]

definition x86_t___portpair :: ctype where
  "x86_t___portpair = x86_t___u32"

declare x86_t___portpair_def [c_layout]

definition x86_t___be16 :: ctype where
  "x86_t___be16 = x86_t___u16"

declare x86_t___be16_def [c_layout]

definition x86_hlist_node :: ctype where
  "x86_hlist_node = Struct [
      Mem ''next'' Ptr,
      Mem ''pprev'' Ptr]"

lemma x86_hlist_node_lay [c_layout]: "lay LP64 x86_hlist_node = (16, 8)"
  by (simp add: x86_hlist_node_def c_layout layout_eval)

definition x86_t_possible_net_t :: ctype where
  "x86_t_possible_net_t = Struct []"

lemma x86_t_possible_net_t_lay [c_layout]: "lay LP64 x86_t_possible_net_t = (0, 1)"
  by (simp add: x86_t_possible_net_t_def c_layout layout_eval)

definition x86_t___u8 :: ctype where
  "x86_t___u8 = Prim CChar"

declare x86_t___u8_def [c_layout]

definition x86_in6_addr :: ctype where
  "x86_in6_addr = Struct [
      Mem ''in6_u'' (Union [
        Mem ''u6_addr8'' (Arr x86_t___u8 16),
        Mem ''u6_addr16'' (Arr x86_t___be16 8),
        Mem ''u6_addr32'' (Arr x86_t___be32 4)])]"

lemma x86_in6_addr_lay [c_layout]: "lay LP64 x86_in6_addr = (16, 4)"
  by (simp add: x86_in6_addr_def c_layout layout_eval)

definition x86_t___s64 :: ctype where
  "x86_t___s64 = Prim CLongLong"

declare x86_t___s64_def [c_layout]

definition x86_t_s64 :: ctype where
  "x86_t_s64 = x86_t___s64"

declare x86_t_s64_def [c_layout]

definition x86_t_atomic64_t :: ctype where
  "x86_t_atomic64_t = Struct [
      Mem ''counter'' x86_t_s64]"

lemma x86_t_atomic64_t_lay [c_layout]: "lay LP64 x86_t_atomic64_t = (8, 8)"
  by (simp add: x86_t_atomic64_t_def c_layout layout_eval)

definition x86_hlist_nulls_node :: ctype where
  "x86_hlist_nulls_node = Struct [
      Mem ''next'' Ptr,
      Mem ''pprev'' Ptr]"

lemma x86_hlist_nulls_node_lay [c_layout]: "lay LP64 x86_hlist_nulls_node = (16, 8)"
  by (simp add: x86_hlist_nulls_node_def c_layout layout_eval)

definition x86_t_u32 :: ctype where
  "x86_t_u32 = x86_t___u32"

declare x86_t_u32_def [c_layout]

definition x86_t_atomic_t :: ctype where
  "x86_t_atomic_t = Struct [
      Mem ''counter'' (Prim CInt)]"

lemma x86_t_atomic_t_lay [c_layout]: "lay LP64 x86_t_atomic_t = (4, 4)"
  by (simp add: x86_t_atomic_t_def c_layout layout_eval)

definition x86_refcount_struct :: ctype where
  "x86_refcount_struct = Struct [
      Mem ''refs'' x86_t_atomic_t]"

lemma x86_refcount_struct_lay [c_layout]: "lay LP64 x86_refcount_struct = (4, 4)"
  by (simp add: x86_refcount_struct_def c_layout layout_eval)

definition x86_t_refcount_t :: ctype where
  "x86_t_refcount_t = x86_refcount_struct"

declare x86_t_refcount_t_def [c_layout]

definition x86_sock_common :: ctype where
  "x86_sock_common = Struct [
      Anon (Union [
        Mem ''skc_addrpair'' x86_t___addrpair,
        Anon (Struct [
          Mem ''skc_daddr'' x86_t___be32,
          Mem ''skc_rcv_saddr'' x86_t___be32])]),
      Anon (Union [
        Mem ''skc_hash'' (Prim CInt),
        Mem ''skc_u16hashes'' (Arr x86_t___u16 2)]),
      Anon (Union [
        Mem ''skc_portpair'' x86_t___portpair,
        Anon (Struct [
          Mem ''skc_dport'' x86_t___be16,
          Mem ''skc_num'' x86_t___u16])]),
      Mem ''skc_family'' (Prim CShort),
      Mem ''skc_state'' (Prim CChar),
      Bits ''skc_reuse'' (Prim CChar) 4,
      Bits ''skc_reuseport'' (Prim CChar) 1,
      Bits ''skc_ipv6only'' (Prim CChar) 1,
      Bits ''skc_net_refcnt'' (Prim CChar) 1,
      Mem ''skc_bound_dev_if'' (Prim CInt),
      Anon (Union [
        Mem ''skc_bind_node'' x86_hlist_node,
        Mem ''skc_portaddr_node'' x86_hlist_node]),
      Mem ''skc_prot'' Ptr,
      Mem ''skc_net'' x86_t_possible_net_t,
      Mem ''skc_v6_daddr'' x86_in6_addr,
      Mem ''skc_v6_rcv_saddr'' x86_in6_addr,
      Mem ''skc_cookie'' x86_t_atomic64_t,
      Anon (Union [
        Mem ''skc_flags'' (Prim CLong),
        Mem ''skc_listener'' Ptr,
        Mem ''skc_tw_dr'' Ptr]),
      Mem ''skc_dontcopy_begin'' (Arr (Prim CInt) 0),
      Anon (Union [
        Mem ''skc_node'' x86_hlist_node,
        Mem ''skc_nulls_node'' x86_hlist_nulls_node]),
      Mem ''skc_tx_queue_mapping'' (Prim CShort),
      Anon (Union [
        Mem ''skc_incoming_cpu'' (Prim CInt),
        Mem ''skc_rcv_wnd'' x86_t_u32,
        Mem ''skc_tw_rcv_nxt'' x86_t_u32]),
      Mem ''skc_refcnt'' x86_t_refcount_t,
      Mem ''skc_dontcopy_end'' (Arr (Prim CInt) 0),
      Anon (Union [
        Mem ''skc_rxhash'' x86_t_u32,
        Mem ''skc_window_clamp'' x86_t_u32,
        Mem ''skc_tw_snd_nxt'' x86_t_u32])]"

lemma x86_sock_common_lay [c_layout]: "lay LP64 x86_sock_common = (128, 8)"
  by (simp add: x86_sock_common_def c_layout layout_eval)

definition x86_t___s32 :: ctype where
  "x86_t___s32 = Prim CInt"

declare x86_t___s32_def [c_layout]

definition x86_sk_buff_list :: ctype where
  "x86_sk_buff_list = Struct [
      Mem ''next'' Ptr,
      Mem ''prev'' Ptr]"

lemma x86_sk_buff_list_lay [c_layout]: "lay LP64 x86_sk_buff_list = (16, 8)"
  by (simp add: x86_sk_buff_list_def c_layout layout_eval)

definition x86_t_arch_spinlock_t :: ctype where
  "x86_t_arch_spinlock_t = Struct []"

lemma x86_t_arch_spinlock_t_lay [c_layout]: "lay LP64 x86_t_arch_spinlock_t = (0, 1)"
  by (simp add: x86_t_arch_spinlock_t_def c_layout layout_eval)

definition x86_raw_spinlock :: ctype where
  "x86_raw_spinlock = Struct [
      Mem ''raw_lock'' x86_t_arch_spinlock_t]"

lemma x86_raw_spinlock_lay [c_layout]: "lay LP64 x86_raw_spinlock = (0, 1)"
  by (simp add: x86_raw_spinlock_def c_layout layout_eval)

definition x86_spinlock :: ctype where
  "x86_spinlock = Struct [
      Anon (Union [
        Mem ''rlock'' x86_raw_spinlock])]"

lemma x86_spinlock_lay [c_layout]: "lay LP64 x86_spinlock = (0, 1)"
  by (simp add: x86_spinlock_def c_layout layout_eval)

definition x86_t_spinlock_t :: ctype where
  "x86_t_spinlock_t = x86_spinlock"

declare x86_t_spinlock_t_def [c_layout]

definition x86_sk_buff_head :: ctype where
  "x86_sk_buff_head = Struct [
      Anon (Union [
        Anon (Struct [
          Mem ''next'' Ptr,
          Mem ''prev'' Ptr]),
        Mem ''list'' x86_sk_buff_list]),
      Mem ''qlen'' x86_t___u32,
      Mem ''lock'' x86_t_spinlock_t]"

lemma x86_sk_buff_head_lay [c_layout]: "lay LP64 x86_sk_buff_head = (24, 8)"
  by (simp add: x86_sk_buff_head_def c_layout layout_eval)

definition x86_t_u16 :: ctype where
  "x86_t_u16 = x86_t___u16"

declare x86_t_u16_def [c_layout]

definition x86_t_u8 :: ctype where
  "x86_t_u8 = x86_t___u8"

declare x86_t_u8_def [c_layout]

definition x86_list_head :: ctype where
  "x86_list_head = Struct [
      Mem ''next'' Ptr,
      Mem ''prev'' Ptr]"

lemma x86_list_head_lay [c_layout]: "lay LP64 x86_list_head = (16, 8)"
  by (simp add: x86_list_head_def c_layout layout_eval)

definition x86_wait_queue_head :: ctype where
  "x86_wait_queue_head = Struct [
      Mem ''lock'' x86_t_spinlock_t,
      Mem ''head'' x86_list_head]"

lemma x86_wait_queue_head_lay [c_layout]: "lay LP64 x86_wait_queue_head = (16, 8)"
  by (simp add: x86_wait_queue_head_def c_layout layout_eval)

definition x86_t_wait_queue_head_t :: ctype where
  "x86_t_wait_queue_head_t = x86_wait_queue_head"

declare x86_t_wait_queue_head_t_def [c_layout]

definition x86_t_socket_lock_t :: ctype where
  "x86_t_socket_lock_t = Struct [
      Mem ''slock'' x86_t_spinlock_t,
      Mem ''owned'' (Prim CInt),
      Mem ''wq'' x86_t_wait_queue_head_t]"

lemma x86_t_socket_lock_t_lay [c_layout]: "lay LP64 x86_t_socket_lock_t = (24, 8)"
  by (simp add: x86_t_socket_lock_t_def c_layout layout_eval)

definition x86_rb_root :: ctype where
  "x86_rb_root = Struct [
      Mem ''rb_node'' Ptr]"

lemma x86_rb_root_lay [c_layout]: "lay LP64 x86_rb_root = (8, 8)"
  by (simp add: x86_rb_root_def c_layout layout_eval)

definition x86_page_frag :: ctype where
  "x86_page_frag = Struct [
      Mem ''page'' Ptr,
      Mem ''offset'' x86_t___u32,
      Mem ''size'' x86_t___u32]"

lemma x86_page_frag_lay [c_layout]: "lay LP64 x86_page_frag = (16, 8)"
  by (simp add: x86_page_frag_def c_layout layout_eval)

definition x86_timer_list :: ctype where
  "x86_timer_list = Struct [
      Mem ''entry'' x86_hlist_node,
      Mem ''expires'' (Prim CLong),
      Mem ''function'' Ptr,
      Mem ''flags'' x86_t_u32]"

lemma x86_timer_list_lay [c_layout]: "lay LP64 x86_timer_list = (40, 8)"
  by (simp add: x86_timer_list_def c_layout layout_eval)

definition x86_t_u64 :: ctype where
  "x86_t_u64 = x86_t___u64"

declare x86_t_u64_def [c_layout]

definition x86_t_netdev_features_t :: ctype where
  "x86_t_netdev_features_t = x86_t_u64"

declare x86_t_netdev_features_t_def [c_layout]

definition x86_t_gfp_t :: ctype where
  "x86_t_gfp_t = Prim CInt"

declare x86_t_gfp_t_def [c_layout]

definition x86_t_bool :: ctype where
  "x86_t_bool = Prim CBool"

declare x86_t_bool_def [c_layout]

definition x86_t_arch_rwlock_t :: ctype where
  "x86_t_arch_rwlock_t = Struct []"

lemma x86_t_arch_rwlock_t_lay [c_layout]: "lay LP64 x86_t_arch_rwlock_t = (0, 1)"
  by (simp add: x86_t_arch_rwlock_t_def c_layout layout_eval)

definition x86_t_rwlock_t :: ctype where
  "x86_t_rwlock_t = Struct [
      Mem ''raw_lock'' x86_t_arch_rwlock_t]"

lemma x86_t_rwlock_t_lay [c_layout]: "lay LP64 x86_t_rwlock_t = (0, 1)"
  by (simp add: x86_t_rwlock_t_def c_layout layout_eval)

definition x86_t___kernel_uid32_t :: ctype where
  "x86_t___kernel_uid32_t = Prim CInt"

declare x86_t___kernel_uid32_t_def [c_layout]

definition x86_t_uid_t :: ctype where
  "x86_t_uid_t = x86_t___kernel_uid32_t"

declare x86_t_uid_t_def [c_layout]

definition x86_t_kuid_t :: ctype where
  "x86_t_kuid_t = Struct [
      Mem ''val'' x86_t_uid_t]"

lemma x86_t_kuid_t_lay [c_layout]: "lay LP64 x86_t_kuid_t = (4, 4)"
  by (simp add: x86_t_kuid_t_def c_layout layout_eval)

definition x86_t_ktime_t :: ctype where
  "x86_t_ktime_t = x86_t_s64"

declare x86_t_ktime_t_def [c_layout]

definition x86_sock_cgroup_data :: ctype where
  "x86_sock_cgroup_data = Struct []"

lemma x86_sock_cgroup_data_lay [c_layout]: "lay LP64 x86_sock_cgroup_data = (0, 1)"
  by (simp add: x86_sock_cgroup_data_def c_layout layout_eval)

definition x86_callback_head :: ctype where
  "x86_callback_head = Struct [
      Mem ''next'' Ptr,
      Mem ''func'' Ptr]"

lemma x86_callback_head_lay [c_layout]: "lay LP64 x86_callback_head = (16, 8)"
  by (simp add: x86_callback_head_def c_layout layout_eval)

definition x86_t_netns_tracker :: ctype where
  "x86_t_netns_tracker = Struct []"

lemma x86_t_netns_tracker_lay [c_layout]: "lay LP64 x86_t_netns_tracker = (0, 1)"
  by (simp add: x86_t_netns_tracker_def c_layout layout_eval)

definition x86_xarray :: ctype where
  "x86_xarray = Struct [
      Mem ''xa_lock'' x86_t_spinlock_t,
      Mem ''xa_flags'' x86_t_gfp_t,
      Mem ''xa_head'' Ptr]"

lemma x86_xarray_lay [c_layout]: "lay LP64 x86_xarray = (16, 8)"
  by (simp add: x86_xarray_def c_layout layout_eval)

definition x86_sock :: ctype where
  "x86_sock = Struct [
      Mem ''__sk_common'' x86_sock_common,
      Mem ''__cacheline_group_begin__sock_write_rx'' (Arr x86_t___u8 0),
      Mem ''sk_drops'' x86_t_atomic_t,
      Mem ''sk_peek_off'' x86_t___s32,
      Mem ''sk_error_queue'' x86_sk_buff_head,
      Mem ''sk_receive_queue'' x86_sk_buff_head,
      Mem ''sk_backlog'' (Struct [
        Mem ''rmem_alloc'' x86_t_atomic_t,
        Mem ''len'' (Prim CInt),
        Mem ''head'' Ptr,
        Mem ''tail'' Ptr]),
      Mem ''__cacheline_group_end__sock_write_rx'' (Arr x86_t___u8 0),
      Mem ''__cacheline_group_begin__sock_read_rx'' (Arr x86_t___u8 0),
      Mem ''sk_rx_dst'' Ptr,
      Mem ''sk_rx_dst_ifindex'' (Prim CInt),
      Mem ''sk_rx_dst_cookie'' x86_t_u32,
      Mem ''sk_ll_usec'' (Prim CInt),
      Mem ''sk_napi_id'' (Prim CInt),
      Mem ''sk_busy_poll_budget'' x86_t_u16,
      Mem ''sk_prefer_busy_poll'' x86_t_u8,
      Mem ''sk_userlocks'' x86_t_u8,
      Mem ''sk_rcvbuf'' (Prim CInt),
      Mem ''sk_filter'' Ptr,
      Anon (Union [
        Mem ''sk_wq'' Ptr,
        Mem ''sk_wq_raw'' Ptr]),
      Mem ''sk_data_ready'' Ptr,
      Mem ''sk_rcvtimeo'' (Prim CLong),
      Mem ''sk_rcvlowat'' (Prim CInt),
      Mem ''__cacheline_group_end__sock_read_rx'' (Arr x86_t___u8 0),
      Mem ''__cacheline_group_begin__sock_read_rxtx'' (Arr x86_t___u8 0),
      Mem ''sk_err'' (Prim CInt),
      Mem ''sk_socket'' Ptr,
      Mem ''sk_memcg'' Ptr,
      Mem ''__cacheline_group_end__sock_read_rxtx'' (Arr x86_t___u8 0),
      Mem ''__cacheline_group_begin__sock_write_rxtx'' (Arr x86_t___u8 0),
      Mem ''sk_lock'' x86_t_socket_lock_t,
      Mem ''sk_reserved_mem'' x86_t_u32,
      Mem ''sk_forward_alloc'' (Prim CInt),
      Mem ''sk_tsflags'' x86_t_u32,
      Mem ''__cacheline_group_end__sock_write_rxtx'' (Arr x86_t___u8 0),
      Mem ''__cacheline_group_begin__sock_write_tx'' (Arr x86_t___u8 0),
      Mem ''sk_write_pending'' (Prim CInt),
      Mem ''sk_omem_alloc'' x86_t_atomic_t,
      Mem ''sk_sndbuf'' (Prim CInt),
      Mem ''sk_wmem_queued'' (Prim CInt),
      Mem ''sk_wmem_alloc'' x86_t_refcount_t,
      Mem ''sk_tsq_flags'' (Prim CLong),
      Anon (Union [
        Mem ''sk_send_head'' Ptr,
        Mem ''tcp_rtx_queue'' x86_rb_root]),
      Mem ''sk_write_queue'' x86_sk_buff_head,
      Mem ''sk_dst_pending_confirm'' x86_t_u32,
      Mem ''sk_pacing_status'' x86_t_u32,
      Mem ''sk_frag'' x86_page_frag,
      Mem ''sk_timer'' x86_timer_list,
      Mem ''sk_pacing_rate'' (Prim CLong),
      Mem ''sk_zckey'' x86_t_atomic_t,
      Mem ''sk_tskey'' x86_t_atomic_t,
      Mem ''__cacheline_group_end__sock_write_tx'' (Arr x86_t___u8 0),
      Mem ''__cacheline_group_begin__sock_read_tx'' (Arr x86_t___u8 0),
      Mem ''sk_max_pacing_rate'' (Prim CLong),
      Mem ''sk_sndtimeo'' (Prim CLong),
      Mem ''sk_priority'' x86_t_u32,
      Mem ''sk_mark'' x86_t_u32,
      Mem ''sk_dst_cache'' Ptr,
      Mem ''sk_route_caps'' x86_t_netdev_features_t,
      Mem ''sk_gso_type'' x86_t_u16,
      Mem ''sk_gso_max_segs'' x86_t_u16,
      Mem ''sk_gso_max_size'' (Prim CInt),
      Mem ''sk_allocation'' x86_t_gfp_t,
      Mem ''sk_txhash'' x86_t_u32,
      Mem ''sk_pacing_shift'' x86_t_u8,
      Mem ''sk_use_task_frag'' x86_t_bool,
      Mem ''__cacheline_group_end__sock_read_tx'' (Arr x86_t___u8 0),
      Bits ''sk_gso_disabled'' x86_t_u8 1,
      Bits ''sk_kern_sock'' x86_t_u8 1,
      Bits ''sk_no_check_tx'' x86_t_u8 1,
      Bits ''sk_no_check_rx'' x86_t_u8 1,
      Mem ''sk_shutdown'' x86_t_u8,
      Mem ''sk_type'' x86_t_u16,
      Mem ''sk_protocol'' x86_t_u16,
      Mem ''sk_lingertime'' (Prim CLong),
      Mem ''sk_prot_creator'' Ptr,
      Mem ''sk_callback_lock'' x86_t_rwlock_t,
      Mem ''sk_err_soft'' (Prim CInt),
      Mem ''sk_ack_backlog'' x86_t_u32,
      Mem ''sk_max_ack_backlog'' x86_t_u32,
      Mem ''sk_uid'' x86_t_kuid_t,
      Mem ''sk_peer_lock'' x86_t_spinlock_t,
      Mem ''sk_bind_phc'' (Prim CInt),
      Mem ''sk_peer_pid'' Ptr,
      Mem ''sk_peer_cred'' Ptr,
      Mem ''sk_stamp'' x86_t_ktime_t,
      Mem ''sk_disconnects'' (Prim CInt),
      Mem ''sk_txrehash'' x86_t_u8,
      Mem ''sk_clockid'' x86_t_u8,
      Bits ''sk_txtime_deadline_mode'' x86_t_u8 1,
      Bits ''sk_txtime_report_errors'' x86_t_u8 1,
      Bits ''sk_txtime_unused'' x86_t_u8 6,
      Mem ''sk_user_data'' Ptr,
      Mem ''sk_cgrp_data'' x86_sock_cgroup_data,
      Mem ''sk_state_change'' Ptr,
      Mem ''sk_write_space'' Ptr,
      Mem ''sk_error_report'' Ptr,
      Mem ''sk_backlog_rcv'' Ptr,
      Mem ''sk_destruct'' Ptr,
      Mem ''sk_reuseport_cb'' Ptr,
      Mem ''sk_bpf_storage'' Ptr,
      Mem ''sk_rcu'' x86_callback_head,
      Mem ''ns_tracker'' x86_t_netns_tracker,
      Mem ''sk_user_frags'' x86_xarray]"

lemma x86_sock_lay [c_layout]: "lay LP64 x86_sock = (704, 8)"
  by (simp add: x86_sock_def c_layout layout_eval)

definition x86_t___kernel_ulong_t :: ctype where
  "x86_t___kernel_ulong_t = Prim CLong"

declare x86_t___kernel_ulong_t_def [c_layout]

definition x86_t___kernel_size_t :: ctype where
  "x86_t___kernel_size_t = x86_t___kernel_ulong_t"

declare x86_t___kernel_size_t_def [c_layout]

definition x86_t_size_t :: ctype where
  "x86_t_size_t = x86_t___kernel_size_t"

declare x86_t_size_t_def [c_layout]

definition x86_iovec :: ctype where
  "x86_iovec = Struct [
      Mem ''iov_base'' Ptr,
      Mem ''iov_len'' x86_t___kernel_size_t]"

lemma x86_iovec_lay [c_layout]: "lay LP64 x86_iovec = (16, 8)"
  by (simp add: x86_iovec_def c_layout layout_eval)

definition x86_t___kernel_loff_t :: ctype where
  "x86_t___kernel_loff_t = Prim CLongLong"

declare x86_t___kernel_loff_t_def [c_layout]

definition x86_t_loff_t :: ctype where
  "x86_t_loff_t = x86_t___kernel_loff_t"

declare x86_t_loff_t_def [c_layout]

definition x86_iov_iter :: ctype where
  "x86_iov_iter = Struct [
      Mem ''iter_type'' x86_t_u8,
      Mem ''nofault'' x86_t_bool,
      Mem ''data_source'' x86_t_bool,
      Mem ''iov_offset'' x86_t_size_t,
      Anon (Union [
        Mem ''__ubuf_iovec'' x86_iovec,
        Anon (Struct [
          Anon (Union [
            Mem ''__iov'' Ptr,
            Mem ''kvec'' Ptr,
            Mem ''bvec'' Ptr,
            Mem ''folioq'' Ptr,
            Mem ''xarray'' Ptr,
            Mem ''ubuf'' Ptr]),
          Mem ''count'' x86_t_size_t])]),
      Anon (Union [
        Mem ''nr_segs'' (Prim CLong),
        Mem ''folioq_slot'' x86_t_u8,
        Mem ''xarray_start'' x86_t_loff_t])]"

lemma x86_iov_iter_lay [c_layout]: "lay LP64 x86_iov_iter = (40, 8)"
  by (simp add: x86_iov_iter_def c_layout layout_eval)

definition x86_msghdr :: ctype where
  "x86_msghdr = Struct [
      Mem ''msg_name'' Ptr,
      Mem ''msg_namelen'' (Prim CInt),
      Mem ''msg_inq'' (Prim CInt),
      Mem ''msg_iter'' x86_iov_iter,
      Anon (Union [
        Mem ''msg_control'' Ptr,
        Mem ''msg_control_user'' Ptr]),
      Bits ''msg_control_is_user'' x86_t_bool 1,
      Bits ''msg_get_inq'' x86_t_bool 1,
      Mem ''msg_flags'' (Prim CInt),
      Mem ''msg_controllen'' x86_t___kernel_size_t,
      Mem ''msg_iocb'' Ptr,
      Mem ''msg_ubuf'' Ptr,
      Mem ''sg_from_iter'' Ptr]"

lemma x86_msghdr_lay [c_layout]: "lay LP64 x86_msghdr = (104, 8)"
  by (simp add: x86_msghdr_def c_layout layout_eval)

definition x86_t___kernel_sa_family_t :: ctype where
  "x86_t___kernel_sa_family_t = Prim CShort"

declare x86_t___kernel_sa_family_t_def [c_layout]

definition x86_in_addr :: ctype where
  "x86_in_addr = Struct [
      Mem ''s_addr'' x86_t___be32]"

lemma x86_in_addr_lay [c_layout]: "lay LP64 x86_in_addr = (4, 4)"
  by (simp add: x86_in_addr_def c_layout layout_eval)

definition x86_sockaddr_in :: ctype where
  "x86_sockaddr_in = Struct [
      Mem ''sin_family'' x86_t___kernel_sa_family_t,
      Mem ''sin_port'' x86_t___be16,
      Mem ''sin_addr'' x86_in_addr,
      Mem ''__pad'' (Arr (Prim CChar) 8)]"

lemma x86_sockaddr_in_lay [c_layout]: "lay LP64 x86_sockaddr_in = (16, 4)"
  by (simp add: x86_sockaddr_in_def c_layout layout_eval)

definition x86_sockaddr_in6 :: ctype where
  "x86_sockaddr_in6 = Struct [
      Mem ''sin6_family'' (Prim CShort),
      Mem ''sin6_port'' x86_t___be16,
      Mem ''sin6_flowinfo'' x86_t___be32,
      Mem ''sin6_addr'' x86_in6_addr,
      Mem ''sin6_scope_id'' x86_t___u32]"

lemma x86_sockaddr_in6_lay [c_layout]: "lay LP64 x86_sockaddr_in6 = (28, 4)"
  by (simp add: x86_sockaddr_in6_def c_layout layout_eval)

definition x86_thread_info :: ctype where
  "x86_thread_info = Struct [
      Mem ''flags'' (Prim CLong),
      Mem ''syscall_work'' (Prim CLong),
      Mem ''status'' x86_t_u32]"

lemma x86_thread_info_lay [c_layout]: "lay LP64 x86_thread_info = (24, 8)"
  by (simp add: x86_thread_info_def c_layout layout_eval)

definition x86_load_weight :: ctype where
  "x86_load_weight = Struct [
      Mem ''weight'' (Prim CLong),
      Mem ''inv_weight'' x86_t_u32]"

lemma x86_load_weight_lay [c_layout]: "lay LP64 x86_load_weight = (16, 8)"
  by (simp add: x86_load_weight_def c_layout layout_eval)

definition x86_rb_node :: ctype where
  "x86_rb_node = Struct [
      Mem ''__rb_parent_color'' (Prim CLong),
      Mem ''rb_right'' Ptr,
      Mem ''rb_left'' Ptr]"

lemma x86_rb_node_lay [c_layout]: "lay LP64 x86_rb_node = (24, 8)"
  by (simp add: x86_rb_node_def c_layout layout_eval)

definition x86_sched_entity :: ctype where
  "x86_sched_entity = Struct [
      Mem ''load'' x86_load_weight,
      Mem ''run_node'' x86_rb_node,
      Mem ''deadline'' x86_t_u64,
      Mem ''min_vruntime'' x86_t_u64,
      Mem ''min_slice'' x86_t_u64,
      Mem ''group_node'' x86_list_head,
      Mem ''on_rq'' (Prim CChar),
      Mem ''sched_delayed'' (Prim CChar),
      Mem ''rel_deadline'' (Prim CChar),
      Mem ''custom_slice'' (Prim CChar),
      Mem ''exec_start'' x86_t_u64,
      Mem ''sum_exec_runtime'' x86_t_u64,
      Mem ''prev_sum_exec_runtime'' x86_t_u64,
      Mem ''vruntime'' x86_t_u64,
      Mem ''vlag'' x86_t_s64,
      Mem ''slice'' x86_t_u64,
      Mem ''nr_migrations'' x86_t_u64]"

lemma x86_sched_entity_lay [c_layout]: "lay LP64 x86_sched_entity = (144, 8)"
  by (simp add: x86_sched_entity_def c_layout layout_eval)

definition x86_sched_rt_entity :: ctype where
  "x86_sched_rt_entity = Struct [
      Mem ''run_list'' x86_list_head,
      Mem ''timeout'' (Prim CLong),
      Mem ''watchdog_stamp'' (Prim CLong),
      Mem ''time_slice'' (Prim CInt),
      Mem ''on_rq'' (Prim CShort),
      Mem ''on_list'' (Prim CShort),
      Mem ''back'' Ptr]"

lemma x86_sched_rt_entity_lay [c_layout]: "lay LP64 x86_sched_rt_entity = (48, 8)"
  by (simp add: x86_sched_rt_entity_def c_layout layout_eval)

definition x86_timerqueue_node :: ctype where
  "x86_timerqueue_node = Struct [
      Mem ''node'' x86_rb_node,
      Mem ''expires'' x86_t_ktime_t]"

lemma x86_timerqueue_node_lay [c_layout]: "lay LP64 x86_timerqueue_node = (32, 8)"
  by (simp add: x86_timerqueue_node_def c_layout layout_eval)

definition x86_hrtimer :: ctype where
  "x86_hrtimer = Struct [
      Mem ''node'' x86_timerqueue_node,
      Mem ''_softexpires'' x86_t_ktime_t,
      Mem ''function'' Ptr,
      Mem ''base'' Ptr,
      Mem ''state'' x86_t_u8,
      Mem ''is_rel'' x86_t_u8,
      Mem ''is_soft'' x86_t_u8,
      Mem ''is_hard'' x86_t_u8]"

lemma x86_hrtimer_lay [c_layout]: "lay LP64 x86_hrtimer = (64, 8)"
  by (simp add: x86_hrtimer_def c_layout layout_eval)

definition x86_t_dl_server_has_tasks_f :: ctype where
  "x86_t_dl_server_has_tasks_f = Ptr"

declare x86_t_dl_server_has_tasks_f_def [c_layout]

definition x86_t_dl_server_pick_f :: ctype where
  "x86_t_dl_server_pick_f = Ptr"

declare x86_t_dl_server_pick_f_def [c_layout]

definition x86_sched_dl_entity :: ctype where
  "x86_sched_dl_entity = Struct [
      Mem ''rb_node'' x86_rb_node,
      Mem ''dl_runtime'' x86_t_u64,
      Mem ''dl_deadline'' x86_t_u64,
      Mem ''dl_period'' x86_t_u64,
      Mem ''dl_bw'' x86_t_u64,
      Mem ''dl_density'' x86_t_u64,
      Mem ''runtime'' x86_t_s64,
      Mem ''deadline'' x86_t_u64,
      Mem ''flags'' (Prim CInt),
      Bits ''dl_throttled'' (Prim CInt) 1,
      Bits ''dl_yielded'' (Prim CInt) 1,
      Bits ''dl_non_contending'' (Prim CInt) 1,
      Bits ''dl_overrun'' (Prim CInt) 1,
      Bits ''dl_server'' (Prim CInt) 1,
      Bits ''dl_server_active'' (Prim CInt) 1,
      Bits ''dl_defer'' (Prim CInt) 1,
      Bits ''dl_defer_armed'' (Prim CInt) 1,
      Bits ''dl_defer_running'' (Prim CInt) 1,
      Mem ''dl_timer'' x86_hrtimer,
      Mem ''inactive_timer'' x86_hrtimer,
      Mem ''rq'' Ptr,
      Mem ''server_has_tasks'' x86_t_dl_server_has_tasks_f,
      Mem ''server_pick_task'' x86_t_dl_server_pick_f]"

lemma x86_sched_dl_entity_lay [c_layout]: "lay LP64 x86_sched_dl_entity = (240, 8)"
  by (simp add: x86_sched_dl_entity_def c_layout layout_eval)

definition x86_sched_statistics :: ctype where
  "x86_sched_statistics = Struct []"

lemma x86_sched_statistics_lay [c_layout]: "lay LP64 x86_sched_statistics = (0, 1)"
  by (simp add: x86_sched_statistics_def c_layout layout_eval)

definition x86_cpumask :: ctype where
  "x86_cpumask = Struct [
      Mem ''bits'' (Arr (Prim CLong) 1)]"

lemma x86_cpumask_lay [c_layout]: "lay LP64 x86_cpumask = (8, 8)"
  by (simp add: x86_cpumask_def c_layout layout_eval)

definition x86_t_cpumask_t :: ctype where
  "x86_t_cpumask_t = x86_cpumask"

declare x86_t_cpumask_t_def [c_layout]

definition x86_rcu_special :: ctype where
  "x86_rcu_special = Union [
      Mem ''b'' (Struct [
        Mem ''blocked'' x86_t_u8,
        Mem ''need_qs'' x86_t_u8,
        Mem ''exp_hint'' x86_t_u8,
        Mem ''need_mb'' x86_t_u8]),
      Mem ''s'' x86_t_u32]"

lemma x86_rcu_special_lay [c_layout]: "lay LP64 x86_rcu_special = (4, 4)"
  by (simp add: x86_rcu_special_def c_layout layout_eval)

definition x86_sched_info :: ctype where
  "x86_sched_info = Struct []"

lemma x86_sched_info_lay [c_layout]: "lay LP64 x86_sched_info = (0, 1)"
  by (simp add: x86_sched_info_def c_layout layout_eval)

definition x86_t___kernel_clockid_t :: ctype where
  "x86_t___kernel_clockid_t = Prim CInt"

declare x86_t___kernel_clockid_t_def [c_layout]

definition x86_t_clockid_t :: ctype where
  "x86_t_clockid_t = x86_t___kernel_clockid_t"

declare x86_t_clockid_t_def [c_layout]

definition x86_timespec_type :: ctype where
  "x86_timespec_type = Enum [(''TT_NONE'', 0), (''TT_NATIVE'', 1), (''TT_COMPAT'', 2)]"

lemma x86_timespec_type_lay [c_layout]: "lay LP64 x86_timespec_type = (4, 4)"
  by (simp add: x86_timespec_type_def c_layout layout_eval)

definition x86_restart_block :: ctype where
  "x86_restart_block = Struct [
      Mem ''arch_data'' (Prim CLong),
      Mem ''fn'' Ptr,
      Anon (Union [
        Mem ''futex'' (Struct [
          Mem ''uaddr'' Ptr,
          Mem ''val'' x86_t_u32,
          Mem ''flags'' x86_t_u32,
          Mem ''bitset'' x86_t_u32,
          Mem ''time'' x86_t_u64,
          Mem ''uaddr2'' Ptr]),
        Mem ''nanosleep'' (Struct [
          Mem ''clockid'' x86_t_clockid_t,
          Mem ''type'' x86_timespec_type,
          Anon (Union [
            Mem ''rmtp'' Ptr,
            Mem ''compat_rmtp'' Ptr]),
          Mem ''expires'' x86_t_u64]),
        Mem ''poll'' (Struct [
          Mem ''ufds'' Ptr,
          Mem ''nfds'' (Prim CInt),
          Mem ''has_timeout'' (Prim CInt),
          Mem ''tv_sec'' (Prim CLong),
          Mem ''tv_nsec'' (Prim CLong)])])]"

lemma x86_restart_block_lay [c_layout]: "lay LP64 x86_restart_block = (56, 8)"
  by (simp add: x86_restart_block_def c_layout layout_eval)

definition x86_t___kernel_pid_t :: ctype where
  "x86_t___kernel_pid_t = Prim CInt"

declare x86_t___kernel_pid_t_def [c_layout]

definition x86_t_pid_t :: ctype where
  "x86_t_pid_t = x86_t___kernel_pid_t"

declare x86_t_pid_t_def [c_layout]

definition x86_t_raw_spinlock_t :: ctype where
  "x86_t_raw_spinlock_t = x86_raw_spinlock"

declare x86_t_raw_spinlock_t_def [c_layout]

definition x86_prev_cputime :: ctype where
  "x86_prev_cputime = Struct [
      Mem ''utime'' x86_t_u64,
      Mem ''stime'' x86_t_u64,
      Mem ''lock'' x86_t_raw_spinlock_t]"

lemma x86_prev_cputime_lay [c_layout]: "lay LP64 x86_prev_cputime = (16, 8)"
  by (simp add: x86_prev_cputime_def c_layout layout_eval)

definition x86_posix_cputimers :: ctype where
  "x86_posix_cputimers = Struct []"

lemma x86_posix_cputimers_lay [c_layout]: "lay LP64 x86_posix_cputimers = (0, 1)"
  by (simp add: x86_posix_cputimers_def c_layout layout_eval)

definition x86_t_sigset_t :: ctype where
  "x86_t_sigset_t = Struct [
      Mem ''sig'' (Arr (Prim CLong) 1)]"

lemma x86_t_sigset_t_lay [c_layout]: "lay LP64 x86_t_sigset_t = (8, 8)"
  by (simp add: x86_t_sigset_t_def c_layout layout_eval)

definition x86_sigpending :: ctype where
  "x86_sigpending = Struct [
      Mem ''list'' x86_list_head,
      Mem ''signal'' x86_t_sigset_t]"

lemma x86_sigpending_lay [c_layout]: "lay LP64 x86_sigpending = (24, 8)"
  by (simp add: x86_sigpending_def c_layout layout_eval)

definition x86_seccomp :: ctype where
  "x86_seccomp = Struct []"

lemma x86_seccomp_lay [c_layout]: "lay LP64 x86_seccomp = (0, 1)"
  by (simp add: x86_seccomp_def c_layout layout_eval)

definition x86_syscall_user_dispatch :: ctype where
  "x86_syscall_user_dispatch = Struct [
      Mem ''selector'' Ptr,
      Mem ''offset'' (Prim CLong),
      Mem ''len'' (Prim CLong),
      Mem ''on_dispatch'' x86_t_bool]"

lemma x86_syscall_user_dispatch_lay [c_layout]: "lay LP64 x86_syscall_user_dispatch = (32, 8)"
  by (simp add: x86_syscall_user_dispatch_def c_layout layout_eval)

definition x86_wake_q_node :: ctype where
  "x86_wake_q_node = Struct [
      Mem ''next'' Ptr]"

lemma x86_wake_q_node_lay [c_layout]: "lay LP64 x86_wake_q_node = (8, 8)"
  by (simp add: x86_wake_q_node_def c_layout layout_eval)

definition x86_task_io_accounting :: ctype where
  "x86_task_io_accounting = Struct []"

lemma x86_task_io_accounting_lay [c_layout]: "lay LP64 x86_task_io_accounting = (0, 1)"
  by (simp add: x86_task_io_accounting_def c_layout layout_eval)

definition x86_t_atomic_long_t :: ctype where
  "x86_t_atomic_long_t = x86_t_atomic64_t"

declare x86_t_atomic_long_t_def [c_layout]

definition x86_mutex :: ctype where
  "x86_mutex = Struct [
      Mem ''owner'' x86_t_atomic_long_t,
      Mem ''wait_lock'' x86_t_raw_spinlock_t,
      Mem ''wait_list'' x86_list_head]"

lemma x86_mutex_lay [c_layout]: "lay LP64 x86_mutex = (24, 8)"
  by (simp add: x86_mutex_def c_layout layout_eval)

definition x86_arch_tlbflush_unmap_batch :: ctype where
  "x86_arch_tlbflush_unmap_batch = Struct [
      Mem ''cpumask'' x86_cpumask]"

lemma x86_arch_tlbflush_unmap_batch_lay [c_layout]: "lay LP64 x86_arch_tlbflush_unmap_batch = (8, 8)"
  by (simp add: x86_arch_tlbflush_unmap_batch_def c_layout layout_eval)

definition x86_tlbflush_unmap_batch :: ctype where
  "x86_tlbflush_unmap_batch = Struct [
      Mem ''arch'' x86_arch_tlbflush_unmap_batch,
      Mem ''flush_required'' x86_t_bool,
      Mem ''writable'' x86_t_bool]"

lemma x86_tlbflush_unmap_batch_lay [c_layout]: "lay LP64 x86_tlbflush_unmap_batch = (16, 8)"
  by (simp add: x86_tlbflush_unmap_batch_def c_layout layout_eval)

definition x86_kmap_ctrl :: ctype where
  "x86_kmap_ctrl = Struct []"

lemma x86_kmap_ctrl_lay [c_layout]: "lay LP64 x86_kmap_ctrl = (0, 1)"
  by (simp add: x86_kmap_ctrl_def c_layout layout_eval)

definition x86_llist_head :: ctype where
  "x86_llist_head = Struct [
      Mem ''first'' Ptr]"

lemma x86_llist_head_lay [c_layout]: "lay LP64 x86_llist_head = (8, 8)"
  by (simp add: x86_llist_head_def c_layout layout_eval)

definition x86_desc_struct :: ctype where
  "x86_desc_struct = Struct [
      Mem ''limit0'' x86_t_u16,
      Mem ''base0'' x86_t_u16,
      Bits ''base1'' x86_t_u16 8,
      Bits ''type'' x86_t_u16 4,
      Bits ''s'' x86_t_u16 1,
      Bits ''dpl'' x86_t_u16 2,
      Bits ''p'' x86_t_u16 1,
      Bits ''limit1'' x86_t_u16 4,
      Bits ''avl'' x86_t_u16 1,
      Bits ''l'' x86_t_u16 1,
      Bits ''d'' x86_t_u16 1,
      Bits ''g'' x86_t_u16 1,
      Bits ''base2'' x86_t_u16 8]"

lemma x86_desc_struct_lay [c_layout]: "lay LP64 x86_desc_struct = (8, 2)"
  by (simp add: x86_desc_struct_def c_layout layout_eval)

definition x86_fpu_state_perm :: ctype where
  "x86_fpu_state_perm = Struct [
      Mem ''__state_perm'' x86_t_u64,
      Mem ''__state_size'' (Prim CInt),
      Mem ''__user_state_size'' (Prim CInt)]"

lemma x86_fpu_state_perm_lay [c_layout]: "lay LP64 x86_fpu_state_perm = (16, 8)"
  by (simp add: x86_fpu_state_perm_def c_layout layout_eval)

definition x86_fregs_state :: ctype where
  "x86_fregs_state = Struct [
      Mem ''cwd'' x86_t_u32,
      Mem ''swd'' x86_t_u32,
      Mem ''twd'' x86_t_u32,
      Mem ''fip'' x86_t_u32,
      Mem ''fcs'' x86_t_u32,
      Mem ''foo'' x86_t_u32,
      Mem ''fos'' x86_t_u32,
      Mem ''st_space'' (Arr x86_t_u32 20),
      Mem ''status'' x86_t_u32]"

lemma x86_fregs_state_lay [c_layout]: "lay LP64 x86_fregs_state = (112, 4)"
  by (simp add: x86_fregs_state_def c_layout layout_eval)

definition x86_fxregs_state :: ctype where
  "x86_fxregs_state = Struct [
      Mem ''cwd'' x86_t_u16,
      Mem ''swd'' x86_t_u16,
      Mem ''twd'' x86_t_u16,
      Mem ''fop'' x86_t_u16,
      Anon (Union [
        Anon (Struct [
          Mem ''rip'' x86_t_u64,
          Mem ''rdp'' x86_t_u64]),
        Anon (Struct [
          Mem ''fip'' x86_t_u32,
          Mem ''fcs'' x86_t_u32,
          Mem ''foo'' x86_t_u32,
          Mem ''fos'' x86_t_u32])]),
      Mem ''mxcsr'' x86_t_u32,
      Mem ''mxcsr_mask'' x86_t_u32,
      Mem ''st_space'' (Arr x86_t_u32 32),
      Mem ''xmm_space'' (Arr x86_t_u32 64),
      Mem ''padding'' (Arr x86_t_u32 12),
      Anon (Union [
        Mem ''padding1'' (Arr x86_t_u32 12),
        Mem ''sw_reserved'' (Arr x86_t_u32 12)])]"

lemma x86_fxregs_state_lay [c_layout]: "lay LP64 x86_fxregs_state = (512, 8)"
  by (simp add: x86_fxregs_state_def c_layout layout_eval)

definition x86_swregs_state :: ctype where
  "x86_swregs_state = Struct [
      Mem ''cwd'' x86_t_u32,
      Mem ''swd'' x86_t_u32,
      Mem ''twd'' x86_t_u32,
      Mem ''fip'' x86_t_u32,
      Mem ''fcs'' x86_t_u32,
      Mem ''foo'' x86_t_u32,
      Mem ''fos'' x86_t_u32,
      Mem ''st_space'' (Arr x86_t_u32 20),
      Mem ''ftop'' x86_t_u8,
      Mem ''changed'' x86_t_u8,
      Mem ''lookahead'' x86_t_u8,
      Mem ''no_update'' x86_t_u8,
      Mem ''rm'' x86_t_u8,
      Mem ''alimit'' x86_t_u8,
      Mem ''info'' Ptr,
      Mem ''entry_eip'' x86_t_u32]"

lemma x86_swregs_state_lay [c_layout]: "lay LP64 x86_swregs_state = (136, 8)"
  by (simp add: x86_swregs_state_def c_layout layout_eval)

definition x86_xstate_header :: ctype where
  "x86_xstate_header = Struct [
      Mem ''xfeatures'' x86_t_u64,
      Mem ''xcomp_bv'' x86_t_u64,
      Mem ''reserved'' (Arr x86_t_u64 6)]"

lemma x86_xstate_header_lay [c_layout]: "lay LP64 x86_xstate_header = (64, 8)"
  by (simp add: x86_xstate_header_def c_layout layout_eval)

definition x86_xregs_state :: ctype where
  "x86_xregs_state = Struct [
      Mem ''i387'' x86_fxregs_state,
      Mem ''header'' x86_xstate_header,
      Mem ''extended_state_area'' (Arr x86_t_u8 0)]"

lemma x86_xregs_state_lay [c_layout]: "lay LP64 x86_xregs_state = (576, 8)"
  by (simp add: x86_xregs_state_def c_layout layout_eval)

definition x86_fpregs_state :: ctype where
  "x86_fpregs_state = Union [
      Mem ''fsave'' x86_fregs_state,
      Mem ''fxsave'' x86_fxregs_state,
      Mem ''soft'' x86_swregs_state,
      Mem ''xsave'' x86_xregs_state,
      Mem ''__padding'' (Arr x86_t_u8 4096)]"

lemma x86_fpregs_state_lay [c_layout]: "lay LP64 x86_fpregs_state = (4096, 8)"
  by (simp add: x86_fpregs_state_def c_layout layout_eval)

definition x86_fpstate :: ctype where
  "x86_fpstate = Struct [
      Mem ''size'' (Prim CInt),
      Mem ''user_size'' (Prim CInt),
      Mem ''xfeatures'' x86_t_u64,
      Mem ''user_xfeatures'' x86_t_u64,
      Mem ''xfd'' x86_t_u64,
      Bits ''is_valloc'' (Prim CInt) 1,
      Bits ''is_guest'' (Prim CInt) 1,
      Bits ''is_confidential'' (Prim CInt) 1,
      Bits ''in_use'' (Prim CInt) 1,
      Bits '''' (Prim CLong) 64,
      Bits '''' (Prim CLong) 64,
      Bits '''' (Prim CLong) 64,
      Mem ''regs'' x86_fpregs_state]"

lemma x86_fpstate_lay [c_layout]: "lay LP64 x86_fpstate = (4160, 8)"
  by (simp add: x86_fpstate_def c_layout layout_eval)

definition x86_fpu :: ctype where
  "x86_fpu = Struct [
      Mem ''last_cpu'' (Prim CInt),
      Mem ''avx512_timestamp'' (Prim CLong),
      Mem ''fpstate'' Ptr,
      Mem ''__task_fpstate'' Ptr,
      Mem ''perm'' x86_fpu_state_perm,
      Mem ''guest_perm'' x86_fpu_state_perm,
      Mem ''__fpstate'' x86_fpstate]"

lemma x86_fpu_lay [c_layout]: "lay LP64 x86_fpu = (4224, 8)"
  by (simp add: x86_fpu_def c_layout layout_eval)

definition x86_thread_struct :: ctype where
  "x86_thread_struct = Struct [
      Mem ''tls_array'' (Arr x86_desc_struct 3),
      Mem ''sp'' (Prim CLong),
      Mem ''es'' (Prim CShort),
      Mem ''ds'' (Prim CShort),
      Mem ''fsindex'' (Prim CShort),
      Mem ''gsindex'' (Prim CShort),
      Mem ''fsbase'' (Prim CLong),
      Mem ''gsbase'' (Prim CLong),
      Mem ''ptrace_bps'' (Arr Ptr 4),
      Mem ''virtual_dr6'' (Prim CLong),
      Mem ''ptrace_dr7'' (Prim CLong),
      Mem ''cr2'' (Prim CLong),
      Mem ''trap_nr'' (Prim CLong),
      Mem ''error_code'' (Prim CLong),
      Mem ''io_bitmap'' Ptr,
      Mem ''iopl_emul'' (Prim CLong),
      Bits ''iopl_warn'' (Prim CInt) 1,
      Mem ''pkru'' x86_t_u32,
      Bits '''' (Prim CLong) 64,
      Bits '''' (Prim CLong) 64,
      Bits '''' (Prim CLong) 64,
      Bits '''' (Prim CLong) 64,
      Bits '''' (Prim CLong) 64,
      Mem ''fpu'' x86_fpu]"

lemma x86_thread_struct_lay [c_layout]: "lay LP64 x86_thread_struct = (4416, 8)"
  by (simp add: x86_thread_struct_def c_layout layout_eval)

definition x86_task_struct_members1 :: "cmember list" where
  "x86_task_struct_members1 = [
    Mem ''thread_info'' x86_thread_info,
    Mem ''__state'' (Prim CInt),
    Mem ''saved_state'' (Prim CInt),
    Mem ''stack'' Ptr,
    Mem ''usage'' x86_t_refcount_t,
    Mem ''flags'' (Prim CInt),
    Mem ''ptrace'' (Prim CInt),
    Mem ''on_rq'' (Prim CInt),
    Mem ''prio'' (Prim CInt),
    Mem ''static_prio'' (Prim CInt),
    Mem ''normal_prio'' (Prim CInt),
    Mem ''rt_priority'' (Prim CInt),
    Mem ''se'' x86_sched_entity,
    Mem ''rt'' x86_sched_rt_entity,
    Mem ''dl'' x86_sched_dl_entity,
    Mem ''dl_server'' Ptr,
    Mem ''sched_class'' Ptr,
    Bits '''' (Prim CLong) 64,
    Bits '''' (Prim CLong) 64,
    Bits '''' (Prim CLong) 64,
    Bits '''' (Prim CLong) 64,
    Bits '''' (Prim CLong) 64,
    Bits '''' (Prim CLong) 64,
    Bits '''' (Prim CLong) 64,
    Mem ''stats'' x86_sched_statistics,
    Mem ''policy'' (Prim CInt),
    Mem ''max_allowed_capacity'' (Prim CLong),
    Mem ''nr_cpus_allowed'' (Prim CInt),
    Mem ''cpus_ptr'' Ptr,
    Mem ''user_cpus_ptr'' Ptr,
    Mem ''cpus_mask'' x86_t_cpumask_t,
    Mem ''migration_pending'' Ptr,
    Mem ''migration_flags'' (Prim CShort),
    Mem ''trc_reader_nesting'' (Prim CInt),
    Mem ''trc_ipi_to_cpu'' (Prim CInt),
    Mem ''trc_reader_special'' x86_rcu_special,
    Mem ''trc_holdout_list'' x86_list_head,
    Mem ''trc_blkd_node'' x86_list_head,
    Mem ''trc_blkd_cpu'' (Prim CInt),
    Mem ''sched_info'' x86_sched_info,
    Mem ''tasks'' x86_list_head,
    Mem ''mm'' Ptr,
    Mem ''active_mm'' Ptr,
    Mem ''faults_disabled_mapping'' Ptr,
    Mem ''exit_state'' (Prim CInt),
    Mem ''exit_code'' (Prim CInt),
    Mem ''exit_signal'' (Prim CInt),
    Mem ''pdeath_signal'' (Prim CInt),
    Mem ''jobctl'' (Prim CLong),
    Mem ''personality'' (Prim CInt),
    Bits ''sched_reset_on_fork'' (Prim CInt) 1,
    Bits ''sched_contributes_to_load'' (Prim CInt) 1,
    Bits ''sched_migrated'' (Prim CInt) 1,
    Bits ''sched_task_hot'' (Prim CInt) 1,
    Bits '''' (Prim CLong) 28,
    Bits ''sched_remote_wakeup'' (Prim CInt) 1,
    Bits ''in_execve'' (Prim CInt) 1,
    Bits ''in_iowait'' (Prim CInt) 1,
    Bits ''restore_sigmask'' (Prim CInt) 1,
    Mem ''atomic_flags'' (Prim CLong),
    Mem ''restart_block'' x86_restart_block,
    Mem ''pid'' x86_t_pid_t,
    Mem ''tgid'' x86_t_pid_t,
    Mem ''real_parent'' Ptr,
    Mem ''parent'' Ptr,
    Mem ''children'' x86_list_head,
    Mem ''sibling'' x86_list_head,
    Mem ''group_leader'' Ptr,
    Mem ''ptraced'' x86_list_head,
    Mem ''ptrace_entry'' x86_list_head,
    Mem ''thread_pid'' Ptr,
    Mem ''pid_links'' (Arr x86_hlist_node 4),
    Mem ''thread_node'' x86_list_head,
    Mem ''vfork_done'' Ptr,
    Mem ''set_child_tid'' Ptr,
    Mem ''clear_child_tid'' Ptr,
    Mem ''worker_private'' Ptr,
    Mem ''utime'' x86_t_u64,
    Mem ''stime'' x86_t_u64,
    Mem ''gtime'' x86_t_u64,
    Mem ''prev_cputime'' x86_prev_cputime,
    Mem ''nvcsw'' (Prim CLong)]"

definition x86_task_struct_members2 :: "cmember list" where
  "x86_task_struct_members2 = [
    Mem ''nivcsw'' (Prim CLong),
    Mem ''start_time'' x86_t_u64,
    Mem ''start_boottime'' x86_t_u64,
    Mem ''min_flt'' (Prim CLong),
    Mem ''maj_flt'' (Prim CLong),
    Mem ''posix_cputimers'' x86_posix_cputimers,
    Mem ''ptracer_cred'' Ptr,
    Mem ''real_cred'' Ptr,
    Mem ''cred'' Ptr,
    Mem ''comm'' (Arr (Prim CChar) 16),
    Mem ''nameidata'' Ptr,
    Mem ''fs'' Ptr,
    Mem ''files'' Ptr,
    Mem ''nsproxy'' Ptr,
    Mem ''signal'' Ptr,
    Mem ''sighand'' Ptr,
    Mem ''blocked'' x86_t_sigset_t,
    Mem ''real_blocked'' x86_t_sigset_t,
    Mem ''saved_sigmask'' x86_t_sigset_t,
    Mem ''pending'' x86_sigpending,
    Mem ''sas_ss_sp'' (Prim CLong),
    Mem ''sas_ss_size'' x86_t_size_t,
    Mem ''sas_ss_flags'' (Prim CInt),
    Mem ''task_works'' Ptr,
    Mem ''seccomp'' x86_seccomp,
    Mem ''syscall_dispatch'' x86_syscall_user_dispatch,
    Mem ''parent_exec_id'' x86_t_u64,
    Mem ''self_exec_id'' x86_t_u64,
    Mem ''alloc_lock'' x86_t_spinlock_t,
    Mem ''pi_lock'' x86_t_raw_spinlock_t,
    Mem ''wake_q'' x86_wake_q_node,
    Mem ''journal_info'' Ptr,
    Mem ''bio_list'' Ptr,
    Mem ''plug'' Ptr,
    Mem ''reclaim_state'' Ptr,
    Mem ''io_context'' Ptr,
    Mem ''ptrace_message'' (Prim CLong),
    Mem ''last_siginfo'' Ptr,
    Mem ''ioac'' x86_task_io_accounting,
    Mem ''perf_recursion'' (Arr x86_t_u8 4),
    Mem ''perf_event_ctxp'' Ptr,
    Mem ''perf_event_mutex'' x86_mutex,
    Mem ''perf_event_list'' x86_list_head,
    Mem ''tlb_ubc'' x86_tlbflush_unmap_batch,
    Mem ''splice_pipe'' Ptr,
    Mem ''task_frag'' x86_page_frag,
    Mem ''nr_dirtied'' (Prim CInt),
    Mem ''nr_dirtied_pause'' (Prim CInt),
    Mem ''dirty_paused_when'' (Prim CLong),
    Mem ''timer_slack_ns'' x86_t_u64,
    Mem ''default_timer_slack_ns'' x86_t_u64,
    Mem ''curr_ret_stack'' (Prim CInt),
    Mem ''curr_ret_depth'' (Prim CInt),
    Mem ''ret_stack'' Ptr,
    Mem ''ftrace_timestamp'' (Prim CLongLong),
    Mem ''ftrace_sleeptime'' (Prim CLongLong),
    Mem ''trace_overrun'' x86_t_atomic_t,
    Mem ''tracing_graph_pause'' x86_t_atomic_t,
    Mem ''trace_recursion'' (Prim CLong),
    Mem ''utask'' Ptr,
    Mem ''kmap_ctrl'' x86_kmap_ctrl,
    Mem ''rcu'' x86_callback_head,
    Mem ''rcu_users'' x86_t_refcount_t,
    Mem ''pagefault_disabled'' (Prim CInt),
    Mem ''oom_reaper_list'' Ptr,
    Mem ''oom_reaper_timer'' x86_timer_list,
    Mem ''stack_vm_area'' Ptr,
    Mem ''stack_refcount'' x86_t_refcount_t,
    Mem ''bpf_storage'' Ptr,
    Mem ''bpf_ctx'' Ptr,
    Mem ''bpf_net_context'' Ptr,
    Mem ''kretprobe_instances'' x86_llist_head,
    Mem ''rethooks'' x86_llist_head,
    Mem ''l1d_flush_kill'' x86_callback_head,
    Bits '''' (Prim CLong) 64,
    Bits '''' (Prim CLong) 64,
    Bits '''' (Prim CLong) 64,
    Bits '''' (Prim CLong) 64,
    Bits '''' (Prim CLong) 64,
    Bits '''' (Prim CLong) 64,
    Mem ''thread'' x86_thread_struct]"

definition x86_task_struct :: ctype where
  "x86_task_struct = Struct (x86_task_struct_members1 @ x86_task_struct_members2)"

lemma x86_task_struct_lay [c_layout]: "lay LP64 x86_task_struct = (6208, 8)"
  by (simp add: x86_task_struct_def x86_task_struct_members1_def x86_task_struct_members2_def c_layout layout_eval)

definition x86_t___s16 :: ctype where
  "x86_t___s16 = Prim CShort"

declare x86_t___s16_def [c_layout]

definition x86_inet_cork :: ctype where
  "x86_inet_cork = Struct [
      Mem ''flags'' (Prim CInt),
      Mem ''addr'' x86_t___be32,
      Mem ''opt'' Ptr,
      Mem ''fragsize'' (Prim CInt),
      Mem ''length'' (Prim CInt),
      Mem ''dst'' Ptr,
      Mem ''tx_flags'' x86_t_u8,
      Mem ''ttl'' x86_t___u8,
      Mem ''tos'' x86_t___s16,
      Mem ''priority'' x86_t_u32,
      Mem ''gso_size'' x86_t___u16,
      Mem ''ts_opt_id'' x86_t_u32,
      Mem ''transmit_time'' x86_t_u64,
      Mem ''mark'' x86_t_u32]"

lemma x86_inet_cork_lay [c_layout]: "lay LP64 x86_inet_cork = (64, 8)"
  by (simp add: x86_inet_cork_def c_layout layout_eval)

definition x86_t___be64 :: ctype where
  "x86_t___be64 = x86_t___u64"

declare x86_t___be64_def [c_layout]

definition x86_flowi_tunnel :: ctype where
  "x86_flowi_tunnel = Struct [
      Mem ''tun_id'' x86_t___be64]"

lemma x86_flowi_tunnel_lay [c_layout]: "lay LP64 x86_flowi_tunnel = (8, 8)"
  by (simp add: x86_flowi_tunnel_def c_layout layout_eval)

definition x86_flowi_common :: ctype where
  "x86_flowi_common = Struct [
      Mem ''flowic_oif'' (Prim CInt),
      Mem ''flowic_iif'' (Prim CInt),
      Mem ''flowic_l3mdev'' (Prim CInt),
      Mem ''flowic_mark'' x86_t___u32,
      Mem ''flowic_tos'' x86_t___u8,
      Mem ''flowic_scope'' x86_t___u8,
      Mem ''flowic_proto'' x86_t___u8,
      Mem ''flowic_flags'' x86_t___u8,
      Mem ''flowic_secid'' x86_t___u32,
      Mem ''flowic_uid'' x86_t_kuid_t,
      Mem ''flowic_multipath_hash'' x86_t___u32,
      Mem ''flowic_tun_key'' x86_flowi_tunnel]"

lemma x86_flowi_common_lay [c_layout]: "lay LP64 x86_flowi_common = (40, 8)"
  by (simp add: x86_flowi_common_def c_layout layout_eval)

definition x86_flowi_uli :: ctype where
  "x86_flowi_uli = Union [
      Mem ''ports'' (Struct [
        Mem ''dport'' x86_t___be16,
        Mem ''sport'' x86_t___be16]),
      Mem ''icmpt'' (Struct [
        Mem ''type'' x86_t___u8,
        Mem ''code'' x86_t___u8]),
      Mem ''gre_key'' x86_t___be32,
      Mem ''mht'' (Struct [
        Mem ''type'' x86_t___u8])]"

lemma x86_flowi_uli_lay [c_layout]: "lay LP64 x86_flowi_uli = (4, 4)"
  by (simp add: x86_flowi_uli_def c_layout layout_eval)

definition x86_flowi4 :: ctype where
  "x86_flowi4 = Struct [
      Mem ''__fl_common'' x86_flowi_common,
      Mem ''saddr'' x86_t___be32,
      Mem ''daddr'' x86_t___be32,
      Mem ''uli'' x86_flowi_uli]"

lemma x86_flowi4_lay [c_layout]: "lay LP64 x86_flowi4 = (56, 8)"
  by (simp add: x86_flowi4_def c_layout layout_eval)

definition x86_flowi6 :: ctype where
  "x86_flowi6 = Struct [
      Mem ''__fl_common'' x86_flowi_common,
      Mem ''daddr'' x86_in6_addr,
      Mem ''saddr'' x86_in6_addr,
      Mem ''flowlabel'' x86_t___be32,
      Mem ''uli'' x86_flowi_uli,
      Mem ''mp_hash'' x86_t___u32]"

lemma x86_flowi6_lay [c_layout]: "lay LP64 x86_flowi6 = (88, 8)"
  by (simp add: x86_flowi6_def c_layout layout_eval)

definition x86_flowi :: ctype where
  "x86_flowi = Struct [
      Mem ''u'' (Union [
        Mem ''__fl_common'' x86_flowi_common,
        Mem ''ip4'' x86_flowi4,
        Mem ''ip6'' x86_flowi6])]"

lemma x86_flowi_lay [c_layout]: "lay LP64 x86_flowi = (88, 8)"
  by (simp add: x86_flowi_def c_layout layout_eval)

definition x86_inet_cork_full :: ctype where
  "x86_inet_cork_full = Struct [
      Mem ''base'' x86_inet_cork,
      Mem ''fl'' x86_flowi]"

lemma x86_inet_cork_full_lay [c_layout]: "lay LP64 x86_inet_cork_full = (152, 8)"
  by (simp add: x86_inet_cork_full_def c_layout layout_eval)

definition x86_inet_sock :: ctype where
  "x86_inet_sock = Struct [
      Mem ''sk'' x86_sock,
      Mem ''pinet6'' Ptr,
      Mem ''inet_flags'' (Prim CLong),
      Mem ''inet_saddr'' x86_t___be32,
      Mem ''uc_ttl'' x86_t___s16,
      Mem ''inet_sport'' x86_t___be16,
      Mem ''inet_opt'' Ptr,
      Mem ''inet_id'' x86_t_atomic_t,
      Mem ''tos'' x86_t___u8,
      Mem ''min_ttl'' x86_t___u8,
      Mem ''mc_ttl'' x86_t___u8,
      Mem ''pmtudisc'' x86_t___u8,
      Mem ''rcv_tos'' x86_t___u8,
      Mem ''convert_csum'' x86_t___u8,
      Mem ''uc_index'' (Prim CInt),
      Mem ''mc_index'' (Prim CInt),
      Mem ''mc_addr'' x86_t___be32,
      Mem ''local_port_range'' x86_t_u32,
      Mem ''mc_list'' Ptr,
      Mem ''cork'' x86_inet_cork_full]"

lemma x86_inet_sock_lay [c_layout]: "lay LP64 x86_inet_sock = (928, 8)"
  by (simp add: x86_inet_sock_def c_layout layout_eval)

definition x86_fastopen_queue :: ctype where
  "x86_fastopen_queue = Struct [
      Mem ''rskq_rst_head'' Ptr,
      Mem ''rskq_rst_tail'' Ptr,
      Mem ''lock'' x86_t_spinlock_t,
      Mem ''qlen'' (Prim CInt),
      Mem ''max_qlen'' (Prim CInt),
      Mem ''ctx'' Ptr]"

lemma x86_fastopen_queue_lay [c_layout]: "lay LP64 x86_fastopen_queue = (32, 8)"
  by (simp add: x86_fastopen_queue_def c_layout layout_eval)

definition x86_request_sock_queue :: ctype where
  "x86_request_sock_queue = Struct [
      Mem ''rskq_lock'' x86_t_spinlock_t,
      Mem ''rskq_defer_accept'' x86_t_u8,
      Mem ''synflood_warned'' x86_t_u32,
      Mem ''qlen'' x86_t_atomic_t,
      Mem ''young'' x86_t_atomic_t,
      Mem ''rskq_accept_head'' Ptr,
      Mem ''rskq_accept_tail'' Ptr,
      Mem ''fastopenq'' x86_fastopen_queue]"

lemma x86_request_sock_queue_lay [c_layout]: "lay LP64 x86_request_sock_queue = (64, 8)"
  by (simp add: x86_request_sock_queue_def c_layout layout_eval)

definition x86_inet_connection_sock :: ctype where
  "x86_inet_connection_sock = Struct [
      Mem ''icsk_inet'' x86_inet_sock,
      Mem ''icsk_accept_queue'' x86_request_sock_queue,
      Mem ''icsk_bind_hash'' Ptr,
      Mem ''icsk_bind2_hash'' Ptr,
      Mem ''icsk_timeout'' (Prim CLong),
      Mem ''icsk_retransmit_timer'' x86_timer_list,
      Mem ''icsk_delack_timer'' x86_timer_list,
      Mem ''icsk_rto'' x86_t___u32,
      Mem ''icsk_rto_min'' x86_t___u32,
      Mem ''icsk_delack_max'' x86_t___u32,
      Mem ''icsk_pmtu_cookie'' x86_t___u32,
      Mem ''icsk_ca_ops'' Ptr,
      Mem ''icsk_af_ops'' Ptr,
      Mem ''icsk_ulp_ops'' Ptr,
      Mem ''icsk_ulp_data'' Ptr,
      Mem ''icsk_clean_acked'' Ptr,
      Mem ''icsk_sync_mss'' Ptr,
      Bits ''icsk_ca_state'' x86_t___u8 5,
      Bits ''icsk_ca_initialized'' x86_t___u8 1,
      Bits ''icsk_ca_setsockopt'' x86_t___u8 1,
      Bits ''icsk_ca_dst_locked'' x86_t___u8 1,
      Mem ''icsk_retransmits'' x86_t___u8,
      Mem ''icsk_pending'' x86_t___u8,
      Mem ''icsk_backoff'' x86_t___u8,
      Mem ''icsk_syn_retries'' x86_t___u8,
      Mem ''icsk_probes_out'' x86_t___u8,
      Mem ''icsk_ext_hdr_len'' x86_t___u16,
      Mem ''icsk_ack'' (Struct [
        Mem ''pending'' x86_t___u8,
        Mem ''quick'' x86_t___u8,
        Mem ''pingpong'' x86_t___u8,
        Mem ''retry'' x86_t___u8,
        Bits ''ato'' x86_t___u32 8,
        Bits ''lrcv_flowlabel'' x86_t___u32 20,
        Bits ''unused'' x86_t___u32 4,
        Mem ''timeout'' (Prim CLong),
        Mem ''lrcvtime'' x86_t___u32,
        Mem ''last_seg_size'' x86_t___u16,
        Mem ''rcv_mss'' x86_t___u16]),
      Mem ''icsk_mtup'' (Struct [
        Mem ''search_high'' (Prim CInt),
        Mem ''search_low'' (Prim CInt),
        Bits ''probe_size'' x86_t_u32 31,
        Bits ''enabled'' x86_t_u32 1,
        Mem ''probe_timestamp'' x86_t_u32]),
      Mem ''icsk_probes_tstamp'' x86_t_u32,
      Mem ''icsk_user_timeout'' x86_t_u32,
      Mem ''icsk_ca_priv'' (Arr x86_t_u64 13)]"

lemma x86_inet_connection_sock_lay [c_layout]: "lay LP64 x86_inet_connection_sock = (1320, 8)"
  by (simp add: x86_inet_connection_sock_def c_layout layout_eval)

definition x86_minmax_sample :: ctype where
  "x86_minmax_sample = Struct [
      Mem ''t'' x86_t_u32,
      Mem ''v'' x86_t_u32]"

lemma x86_minmax_sample_lay [c_layout]: "lay LP64 x86_minmax_sample = (8, 4)"
  by (simp add: x86_minmax_sample_def c_layout layout_eval)

definition x86_minmax :: ctype where
  "x86_minmax = Struct [
      Mem ''s'' (Arr x86_minmax_sample 3)]"

lemma x86_minmax_lay [c_layout]: "lay LP64 x86_minmax = (24, 4)"
  by (simp add: x86_minmax_def c_layout layout_eval)

definition x86_tcp_options_received :: ctype where
  "x86_tcp_options_received = Struct [
      Mem ''ts_recent_stamp'' (Prim CInt),
      Mem ''ts_recent'' x86_t_u32,
      Mem ''rcv_tsval'' x86_t_u32,
      Mem ''rcv_tsecr'' x86_t_u32,
      Bits ''saw_tstamp'' x86_t_u16 1,
      Bits ''tstamp_ok'' x86_t_u16 1,
      Bits ''dsack'' x86_t_u16 1,
      Bits ''wscale_ok'' x86_t_u16 1,
      Bits ''sack_ok'' x86_t_u16 3,
      Bits ''smc_ok'' x86_t_u16 1,
      Bits ''snd_wscale'' x86_t_u16 4,
      Bits ''rcv_wscale'' x86_t_u16 4,
      Bits ''saw_unknown'' x86_t_u8 1,
      Bits ''unused'' x86_t_u8 7,
      Mem ''num_sacks'' x86_t_u8,
      Mem ''user_mss'' x86_t_u16,
      Mem ''mss_clamp'' x86_t_u16]"

lemma x86_tcp_options_received_lay [c_layout]: "lay LP64 x86_tcp_options_received = (24, 4)"
  by (simp add: x86_tcp_options_received_def c_layout layout_eval)

definition x86_tcp_rack :: ctype where
  "x86_tcp_rack = Struct [
      Mem ''mstamp'' x86_t_u64,
      Mem ''rtt_us'' x86_t_u32,
      Mem ''end_seq'' x86_t_u32,
      Mem ''last_delivered'' x86_t_u32,
      Mem ''reo_wnd_steps'' x86_t_u8,
      Bits ''reo_wnd_persist'' x86_t_u8 5,
      Bits ''dsack_seen'' x86_t_u8 1,
      Bits ''advanced'' x86_t_u8 1]"

lemma x86_tcp_rack_lay [c_layout]: "lay LP64 x86_tcp_rack = (24, 8)"
  by (simp add: x86_tcp_rack_def c_layout layout_eval)

definition x86_tcp_sack_block :: ctype where
  "x86_tcp_sack_block = Struct [
      Mem ''start_seq'' x86_t_u32,
      Mem ''end_seq'' x86_t_u32]"

lemma x86_tcp_sack_block_lay [c_layout]: "lay LP64 x86_tcp_sack_block = (8, 4)"
  by (simp add: x86_tcp_sack_block_def c_layout layout_eval)

definition x86_tcp_sock_members1 :: "cmember list" where
  "x86_tcp_sock_members1 = [
    Mem ''inet_conn'' x86_inet_connection_sock,
    Mem ''__cacheline_group_begin__tcp_sock_read_tx'' (Arr x86_t___u8 0),
    Mem ''max_window'' x86_t_u32,
    Mem ''rcv_ssthresh'' x86_t_u32,
    Mem ''reordering'' x86_t_u32,
    Mem ''notsent_lowat'' x86_t_u32,
    Mem ''gso_segs'' x86_t_u16,
    Mem ''lost_skb_hint'' Ptr,
    Mem ''retransmit_skb_hint'' Ptr,
    Mem ''__cacheline_group_end__tcp_sock_read_tx'' (Arr x86_t___u8 0),
    Mem ''__cacheline_group_begin__tcp_sock_read_txrx'' (Arr x86_t___u8 0),
    Mem ''tsoffset'' x86_t_u32,
    Mem ''snd_wnd'' x86_t_u32,
    Mem ''mss_cache'' x86_t_u32,
    Mem ''snd_cwnd'' x86_t_u32,
    Mem ''prr_out'' x86_t_u32,
    Mem ''lost_out'' x86_t_u32,
    Mem ''sacked_out'' x86_t_u32,
    Mem ''tcp_header_len'' x86_t_u16,
    Mem ''scaling_ratio'' x86_t_u8,
    Bits ''chrono_type'' x86_t_u8 2,
    Bits ''repair'' x86_t_u8 1,
    Bits ''tcp_usec_ts'' x86_t_u8 1,
    Bits ''is_sack_reneg'' x86_t_u8 1,
    Bits ''is_cwnd_limited'' x86_t_u8 1,
    Mem ''__cacheline_group_end__tcp_sock_read_txrx'' (Arr x86_t___u8 0),
    Mem ''__cacheline_group_begin__tcp_sock_read_rx'' (Arr x86_t___u8 0),
    Mem ''copied_seq'' x86_t_u32,
    Mem ''rcv_tstamp'' x86_t_u32,
    Mem ''snd_wl1'' x86_t_u32,
    Mem ''tlp_high_seq'' x86_t_u32,
    Mem ''rttvar_us'' x86_t_u32,
    Mem ''retrans_out'' x86_t_u32,
    Mem ''advmss'' x86_t_u16,
    Mem ''urg_data'' x86_t_u16,
    Mem ''lost'' x86_t_u32,
    Mem ''rtt_min'' x86_minmax,
    Mem ''out_of_order_queue'' x86_rb_root,
    Mem ''snd_ssthresh'' x86_t_u32,
    Bits ''recvmsg_inq'' x86_t_u8 1,
    Mem ''__cacheline_group_end__tcp_sock_read_rx'' (Arr x86_t___u8 0),
    Bits '''' (Prim CLong) 64,
    Mem ''__cacheline_group_begin__tcp_sock_write_tx'' (Arr x86_t___u8 0),
    Mem ''segs_out'' x86_t_u32,
    Mem ''data_segs_out'' x86_t_u32,
    Mem ''bytes_sent'' x86_t_u64,
    Mem ''snd_sml'' x86_t_u32,
    Mem ''chrono_start'' x86_t_u32,
    Mem ''chrono_stat'' (Arr x86_t_u32 3),
    Mem ''write_seq'' x86_t_u32,
    Mem ''pushed_seq'' x86_t_u32,
    Mem ''lsndtime'' x86_t_u32,
    Mem ''mdev_us'' x86_t_u32,
    Mem ''rtt_seq'' x86_t_u32,
    Mem ''tcp_wstamp_ns'' x86_t_u64,
    Mem ''tsorted_sent_queue'' x86_list_head,
    Mem ''highest_sack'' Ptr,
    Mem ''ecn_flags'' x86_t_u8,
    Mem ''__cacheline_group_end__tcp_sock_write_tx'' (Arr x86_t___u8 0),
    Mem ''__cacheline_group_begin__tcp_sock_write_txrx'' (Arr x86_t___u8 0),
    Mem ''pred_flags'' x86_t___be32,
    Mem ''tcp_clock_cache'' x86_t_u64,
    Mem ''tcp_mstamp'' x86_t_u64,
    Mem ''rcv_nxt'' x86_t_u32,
    Mem ''snd_nxt'' x86_t_u32,
    Mem ''snd_una'' x86_t_u32,
    Mem ''window_clamp'' x86_t_u32,
    Mem ''srtt_us'' x86_t_u32,
    Mem ''packets_out'' x86_t_u32,
    Mem ''snd_up'' x86_t_u32,
    Mem ''delivered'' x86_t_u32,
    Mem ''delivered_ce'' x86_t_u32,
    Mem ''app_limited'' x86_t_u32,
    Mem ''rcv_wnd'' x86_t_u32,
    Mem ''rx_opt'' x86_tcp_options_received,
    Bits ''nonagle'' x86_t_u8 4,
    Bits ''rate_app_limited'' x86_t_u8 1,
    Mem ''__cacheline_group_end__tcp_sock_write_txrx'' (Arr x86_t___u8 0),
    Bits '''' (Prim CLong) 0,
    Mem ''__cacheline_group_begin__tcp_sock_write_rx'' (Arr x86_t___u8 0)]"

definition x86_tcp_sock_members2 :: "cmember list" where
  "x86_tcp_sock_members2 = [
    Mem ''bytes_received'' x86_t_u64,
    Mem ''segs_in'' x86_t_u32,
    Mem ''data_segs_in'' x86_t_u32,
    Mem ''rcv_wup'' x86_t_u32,
    Mem ''max_packets_out'' x86_t_u32,
    Mem ''cwnd_usage_seq'' x86_t_u32,
    Mem ''rate_delivered'' x86_t_u32,
    Mem ''rate_interval_us'' x86_t_u32,
    Mem ''rcv_rtt_last_tsecr'' x86_t_u32,
    Mem ''first_tx_mstamp'' x86_t_u64,
    Mem ''delivered_mstamp'' x86_t_u64,
    Mem ''bytes_acked'' x86_t_u64,
    Mem ''rcv_rtt_est'' (Struct [
      Mem ''rtt_us'' x86_t_u32,
      Mem ''seq'' x86_t_u32,
      Mem ''time'' x86_t_u64]),
    Mem ''rcvq_space'' (Struct [
      Mem ''space'' x86_t_u32,
      Mem ''seq'' x86_t_u32,
      Mem ''time'' x86_t_u64]),
    Mem ''__cacheline_group_end__tcp_sock_write_rx'' (Arr x86_t___u8 0),
    Mem ''dsack_dups'' x86_t_u32,
    Mem ''compressed_ack_rcv_nxt'' x86_t_u32,
    Mem ''tsq_node'' x86_list_head,
    Mem ''rack'' x86_tcp_rack,
    Mem ''compressed_ack'' x86_t_u8,
    Bits ''dup_ack_counter'' x86_t_u8 2,
    Bits ''tlp_retrans'' x86_t_u8 1,
    Bits ''unused'' x86_t_u8 5,
    Bits ''thin_lto'' x86_t_u8 1,
    Bits ''fastopen_connect'' x86_t_u8 1,
    Bits ''fastopen_no_cookie'' x86_t_u8 1,
    Bits ''fastopen_client_fail'' x86_t_u8 2,
    Bits ''frto'' x86_t_u8 1,
    Mem ''repair_queue'' x86_t_u8,
    Bits ''save_syn'' x86_t_u8 2,
    Bits ''syn_data'' x86_t_u8 1,
    Bits ''syn_fastopen'' x86_t_u8 1,
    Bits ''syn_fastopen_exp'' x86_t_u8 1,
    Bits ''syn_fastopen_ch'' x86_t_u8 1,
    Bits ''syn_data_acked'' x86_t_u8 1,
    Mem ''keepalive_probes'' x86_t_u8,
    Mem ''tcp_tx_delay'' x86_t_u32,
    Mem ''mdev_max_us'' x86_t_u32,
    Mem ''reord_seen'' x86_t_u32,
    Mem ''snd_cwnd_cnt'' x86_t_u32,
    Mem ''snd_cwnd_clamp'' x86_t_u32,
    Mem ''snd_cwnd_used'' x86_t_u32,
    Mem ''snd_cwnd_stamp'' x86_t_u32,
    Mem ''prior_cwnd'' x86_t_u32,
    Mem ''prr_delivered'' x86_t_u32,
    Mem ''last_oow_ack_time'' x86_t_u32,
    Mem ''pacing_timer'' x86_hrtimer,
    Mem ''compressed_ack_timer'' x86_hrtimer,
    Mem ''ooo_last_skb'' Ptr,
    Mem ''duplicate_sack'' (Arr x86_tcp_sack_block 1),
    Mem ''selective_acks'' (Arr x86_tcp_sack_block 4),
    Mem ''recv_sack_cache'' (Arr x86_tcp_sack_block 4),
    Mem ''lost_cnt_hint'' (Prim CInt),
    Mem ''prior_ssthresh'' x86_t_u32,
    Mem ''high_seq'' x86_t_u32,
    Mem ''retrans_stamp'' x86_t_u32,
    Mem ''undo_marker'' x86_t_u32,
    Mem ''undo_retrans'' (Prim CInt),
    Mem ''bytes_retrans'' x86_t_u64,
    Mem ''total_retrans'' x86_t_u32,
    Mem ''rto_stamp'' x86_t_u32,
    Mem ''total_rto'' x86_t_u16,
    Mem ''total_rto_recoveries'' x86_t_u16,
    Mem ''total_rto_time'' x86_t_u32,
    Mem ''urg_seq'' x86_t_u32,
    Mem ''keepalive_time'' (Prim CInt),
    Mem ''keepalive_intvl'' (Prim CInt),
    Mem ''linger2'' (Prim CInt),
    Mem ''bpf_sock_ops_cb_flags'' x86_t_u8,
    Bits ''bpf_chg_cc_inprogress'' x86_t_u8 1,
    Mem ''timeout_rehash'' x86_t_u16,
    Mem ''rcv_ooopack'' x86_t_u32,
    Mem ''mtu_probe'' (Struct [
      Mem ''probe_seq_start'' x86_t_u32,
      Mem ''probe_seq_end'' x86_t_u32]),
    Mem ''plb_rehash'' x86_t_u32,
    Mem ''mtu_info'' x86_t_u32,
    Mem ''fastopen_req'' Ptr,
    Mem ''fastopen_rsk'' Ptr,
    Mem ''saved_syn'' Ptr,
    Bits '''' (Prim CLong) 64]"

definition x86_tcp_sock :: ctype where
  "x86_tcp_sock = Struct (x86_tcp_sock_members1 @ x86_tcp_sock_members2)"

lemma x86_tcp_sock_lay [c_layout]: "lay LP64 x86_tcp_sock = (2176, 8)"
  by (simp add: x86_tcp_sock_def x86_tcp_sock_members1_def x86_tcp_sock_members2_def c_layout layout_eval)

definition x86_in6_pktinfo :: ctype where
  "x86_in6_pktinfo = Struct [
      Mem ''ipi6_addr'' x86_in6_addr,
      Mem ''ipi6_ifindex'' (Prim CInt)]"

lemma x86_in6_pktinfo_lay [c_layout]: "lay LP64 x86_in6_pktinfo = (20, 4)"
  by (simp add: x86_in6_pktinfo_def c_layout layout_eval)

definition x86_t_s16 :: ctype where
  "x86_t_s16 = x86_t___s16"

declare x86_t_s16_def [c_layout]

definition x86_inet6_cork :: ctype where
  "x86_inet6_cork = Struct [
      Mem ''opt'' Ptr,
      Mem ''hop_limit'' x86_t_u8,
      Mem ''tclass'' x86_t_u8]"

lemma x86_inet6_cork_lay [c_layout]: "lay LP64 x86_inet6_cork = (16, 8)"
  by (simp add: x86_inet6_cork_def c_layout layout_eval)

definition x86_ipv6_pinfo :: ctype where
  "x86_ipv6_pinfo = Struct [
      Mem ''saddr'' x86_in6_addr,
      Mem ''sticky_pktinfo'' x86_in6_pktinfo,
      Mem ''daddr_cache'' Ptr,
      Mem ''flow_label'' x86_t___be32,
      Mem ''frag_size'' x86_t___u32,
      Mem ''hop_limit'' x86_t_s16,
      Mem ''mcast_hops'' x86_t_u8,
      Mem ''ucast_oif'' (Prim CInt),
      Mem ''mcast_oif'' (Prim CInt),
      Mem ''rxopt'' (Union [
        Mem ''bits'' (Struct [
          Bits ''srcrt'' x86_t___u16 1,
          Bits ''osrcrt'' x86_t___u16 1,
          Bits ''rxinfo'' x86_t___u16 1,
          Bits ''rxoinfo'' x86_t___u16 1,
          Bits ''rxhlim'' x86_t___u16 1,
          Bits ''rxohlim'' x86_t___u16 1,
          Bits ''hopopts'' x86_t___u16 1,
          Bits ''ohopopts'' x86_t___u16 1,
          Bits ''dstopts'' x86_t___u16 1,
          Bits ''odstopts'' x86_t___u16 1,
          Bits ''rxflow'' x86_t___u16 1,
          Bits ''rxtclass'' x86_t___u16 1,
          Bits ''rxpmtu'' x86_t___u16 1,
          Bits ''rxorigdstaddr'' x86_t___u16 1,
          Bits ''recvfragsize'' x86_t___u16 1]),
        Mem ''all'' x86_t___u16]),
      Mem ''srcprefs'' x86_t___u8,
      Mem ''pmtudisc'' x86_t___u8,
      Mem ''min_hopcount'' x86_t___u8,
      Mem ''tclass'' x86_t___u8,
      Mem ''rcv_flowinfo'' x86_t___be32,
      Mem ''dst_cookie'' x86_t___u32,
      Mem ''ipv6_mc_list'' Ptr,
      Mem ''ipv6_ac_list'' Ptr,
      Mem ''ipv6_fl_list'' Ptr,
      Mem ''opt'' Ptr,
      Mem ''pktoptions'' Ptr,
      Mem ''rxpmtu'' Ptr,
      Mem ''cork'' x86_inet6_cork]"

lemma x86_ipv6_pinfo_lay [c_layout]: "lay LP64 x86_ipv6_pinfo = (152, 8)"
  by (simp add: x86_ipv6_pinfo_def c_layout layout_eval)

definition x86_tcp6_sock :: ctype where
  "x86_tcp6_sock = Struct [
      Mem ''tcp'' x86_tcp_sock,
      Mem ''inet6'' x86_ipv6_pinfo,
      Bits '''' (Prim CLong) 64,
      Bits '''' (Prim CLong) 64,
      Bits '''' (Prim CLong) 64,
      Bits '''' (Prim CLong) 64,
      Bits '''' (Prim CLong) 64]"

lemma x86_tcp6_sock_lay [c_layout]: "lay LP64 x86_tcp6_sock = (2368, 8)"
  by (simp add: x86_tcp6_sock_def c_layout layout_eval)

definition x86_udp_sock :: ctype where
  "x86_udp_sock = Struct [
      Mem ''inet'' x86_inet_sock,
      Mem ''udp_flags'' (Prim CLong),
      Mem ''pending'' (Prim CInt),
      Mem ''encap_type'' x86_t___u8,
      Mem ''udp_lrpa_hash'' x86_t___u16,
      Mem ''udp_lrpa_node'' x86_hlist_nulls_node,
      Mem ''len'' x86_t___u16,
      Mem ''gso_size'' x86_t___u16,
      Mem ''pcslen'' x86_t___u16,
      Mem ''pcrlen'' x86_t___u16,
      Mem ''encap_rcv'' Ptr,
      Mem ''encap_err_rcv'' Ptr,
      Mem ''encap_err_lookup'' Ptr,
      Mem ''encap_destroy'' Ptr,
      Mem ''gro_receive'' Ptr,
      Mem ''gro_complete'' Ptr,
      Mem ''reader_queue'' x86_sk_buff_head,
      Mem ''forward_deficit'' (Prim CInt),
      Mem ''forward_threshold'' (Prim CInt),
      Mem ''peeking_with_offset'' x86_t_bool]"

lemma x86_udp_sock_lay [c_layout]: "lay LP64 x86_udp_sock = (1056, 8)"
  by (simp add: x86_udp_sock_def c_layout layout_eval)

definition x86_udp6_sock :: ctype where
  "x86_udp6_sock = Struct [
      Mem ''udp'' x86_udp_sock,
      Mem ''inet6'' x86_ipv6_pinfo]"

lemma x86_udp6_sock_lay [c_layout]: "lay LP64 x86_udp6_sock = (1208, 8)"
  by (simp add: x86_udp6_sock_def c_layout layout_eval)

end
