(* ===== verification/Vmlinux_Arm64.thy ===== *)
theory Vmlinux_Arm64
  imports CLayout
begin

text \<open>
  The kernel types the socket tracker reads, as the bundled header
  \<^verbatim>\<open>resources/ebpf/vmlinux/aarch64/vmlinux.h\<close> declares them for aarch64 (data model
  \<open>LP64\<close>): every struct, union, enumeration and type synonym that \<open>struct sock\<close>,
  \<open>struct msghdr\<close>, the socket addresses, \<open>struct task_struct\<close> and the TCP and UDP
  sockets are built from, one definition per declaration, members in declaration order.
  The collection \<open>c_layout\<close> gets the size and alignment of every aggregate, and the
  definitions of the scalar synonyms.
\<close>

definition arm64_t___u64 :: ctype where
  "arm64_t___u64 = Prim CLongLong"

declare arm64_t___u64_def [c_layout]

definition arm64_t___addrpair :: ctype where
  "arm64_t___addrpair = arm64_t___u64"

declare arm64_t___addrpair_def [c_layout]

definition arm64_t___u32 :: ctype where
  "arm64_t___u32 = Prim CInt"

declare arm64_t___u32_def [c_layout]

definition arm64_t___be32 :: ctype where
  "arm64_t___be32 = arm64_t___u32"

declare arm64_t___be32_def [c_layout]

definition arm64_t___u16 :: ctype where
  "arm64_t___u16 = Prim CShort"

declare arm64_t___u16_def [c_layout]

definition arm64_t___portpair :: ctype where
  "arm64_t___portpair = arm64_t___u32"

declare arm64_t___portpair_def [c_layout]

definition arm64_t___be16 :: ctype where
  "arm64_t___be16 = arm64_t___u16"

declare arm64_t___be16_def [c_layout]

definition arm64_hlist_node :: ctype where
  "arm64_hlist_node = Struct [
      Mem ''next'' Ptr,
      Mem ''pprev'' Ptr]"

lemma arm64_hlist_node_lay [c_layout]: "lay LP64 arm64_hlist_node = (16, 8)"
  by (simp add: arm64_hlist_node_def c_layout layout_eval)

definition arm64_t_possible_net_t :: ctype where
  "arm64_t_possible_net_t = Struct []"

lemma arm64_t_possible_net_t_lay [c_layout]: "lay LP64 arm64_t_possible_net_t = (0, 1)"
  by (simp add: arm64_t_possible_net_t_def c_layout layout_eval)

definition arm64_t___u8 :: ctype where
  "arm64_t___u8 = Prim CChar"

declare arm64_t___u8_def [c_layout]

definition arm64_in6_addr :: ctype where
  "arm64_in6_addr = Struct [
      Mem ''in6_u'' (Union [
        Mem ''u6_addr8'' (Arr arm64_t___u8 16),
        Mem ''u6_addr16'' (Arr arm64_t___be16 8),
        Mem ''u6_addr32'' (Arr arm64_t___be32 4)])]"

lemma arm64_in6_addr_lay [c_layout]: "lay LP64 arm64_in6_addr = (16, 4)"
  by (simp add: arm64_in6_addr_def c_layout layout_eval)

definition arm64_t___s64 :: ctype where
  "arm64_t___s64 = Prim CLongLong"

declare arm64_t___s64_def [c_layout]

definition arm64_t_s64 :: ctype where
  "arm64_t_s64 = arm64_t___s64"

declare arm64_t_s64_def [c_layout]

definition arm64_t_atomic64_t :: ctype where
  "arm64_t_atomic64_t = Struct [
      Mem ''counter'' arm64_t_s64]"

lemma arm64_t_atomic64_t_lay [c_layout]: "lay LP64 arm64_t_atomic64_t = (8, 8)"
  by (simp add: arm64_t_atomic64_t_def c_layout layout_eval)

definition arm64_hlist_nulls_node :: ctype where
  "arm64_hlist_nulls_node = Struct [
      Mem ''next'' Ptr,
      Mem ''pprev'' Ptr]"

lemma arm64_hlist_nulls_node_lay [c_layout]: "lay LP64 arm64_hlist_nulls_node = (16, 8)"
  by (simp add: arm64_hlist_nulls_node_def c_layout layout_eval)

definition arm64_t_u32 :: ctype where
  "arm64_t_u32 = arm64_t___u32"

declare arm64_t_u32_def [c_layout]

definition arm64_t_atomic_t :: ctype where
  "arm64_t_atomic_t = Struct [
      Mem ''counter'' (Prim CInt)]"

lemma arm64_t_atomic_t_lay [c_layout]: "lay LP64 arm64_t_atomic_t = (4, 4)"
  by (simp add: arm64_t_atomic_t_def c_layout layout_eval)

definition arm64_refcount_struct :: ctype where
  "arm64_refcount_struct = Struct [
      Mem ''refs'' arm64_t_atomic_t]"

lemma arm64_refcount_struct_lay [c_layout]: "lay LP64 arm64_refcount_struct = (4, 4)"
  by (simp add: arm64_refcount_struct_def c_layout layout_eval)

definition arm64_t_refcount_t :: ctype where
  "arm64_t_refcount_t = arm64_refcount_struct"

declare arm64_t_refcount_t_def [c_layout]

definition arm64_sock_common :: ctype where
  "arm64_sock_common = Struct [
      Anon (Union [
        Mem ''skc_addrpair'' arm64_t___addrpair,
        Anon (Struct [
          Mem ''skc_daddr'' arm64_t___be32,
          Mem ''skc_rcv_saddr'' arm64_t___be32])]),
      Anon (Union [
        Mem ''skc_hash'' (Prim CInt),
        Mem ''skc_u16hashes'' (Arr arm64_t___u16 2)]),
      Anon (Union [
        Mem ''skc_portpair'' arm64_t___portpair,
        Anon (Struct [
          Mem ''skc_dport'' arm64_t___be16,
          Mem ''skc_num'' arm64_t___u16])]),
      Mem ''skc_family'' (Prim CShort),
      Mem ''skc_state'' (Prim CChar),
      Bits ''skc_reuse'' (Prim CChar) 4,
      Bits ''skc_reuseport'' (Prim CChar) 1,
      Bits ''skc_ipv6only'' (Prim CChar) 1,
      Bits ''skc_net_refcnt'' (Prim CChar) 1,
      Mem ''skc_bound_dev_if'' (Prim CInt),
      Anon (Union [
        Mem ''skc_bind_node'' arm64_hlist_node,
        Mem ''skc_portaddr_node'' arm64_hlist_node]),
      Mem ''skc_prot'' Ptr,
      Mem ''skc_net'' arm64_t_possible_net_t,
      Mem ''skc_v6_daddr'' arm64_in6_addr,
      Mem ''skc_v6_rcv_saddr'' arm64_in6_addr,
      Mem ''skc_cookie'' arm64_t_atomic64_t,
      Anon (Union [
        Mem ''skc_flags'' (Prim CLong),
        Mem ''skc_listener'' Ptr,
        Mem ''skc_tw_dr'' Ptr]),
      Mem ''skc_dontcopy_begin'' (Arr (Prim CInt) 0),
      Anon (Union [
        Mem ''skc_node'' arm64_hlist_node,
        Mem ''skc_nulls_node'' arm64_hlist_nulls_node]),
      Mem ''skc_tx_queue_mapping'' (Prim CShort),
      Mem ''skc_rx_queue_mapping'' (Prim CShort),
      Anon (Union [
        Mem ''skc_incoming_cpu'' (Prim CInt),
        Mem ''skc_rcv_wnd'' arm64_t_u32,
        Mem ''skc_tw_rcv_nxt'' arm64_t_u32]),
      Mem ''skc_refcnt'' arm64_t_refcount_t,
      Mem ''skc_dontcopy_end'' (Arr (Prim CInt) 0),
      Anon (Union [
        Mem ''skc_rxhash'' arm64_t_u32,
        Mem ''skc_window_clamp'' arm64_t_u32,
        Mem ''skc_tw_snd_nxt'' arm64_t_u32])]"

lemma arm64_sock_common_lay [c_layout]: "lay LP64 arm64_sock_common = (128, 8)"
  by (simp add: arm64_sock_common_def c_layout layout_eval)

definition arm64_t___s32 :: ctype where
  "arm64_t___s32 = Prim CInt"

declare arm64_t___s32_def [c_layout]

definition arm64_sk_buff_list :: ctype where
  "arm64_sk_buff_list = Struct [
      Mem ''next'' Ptr,
      Mem ''prev'' Ptr]"

lemma arm64_sk_buff_list_lay [c_layout]: "lay LP64 arm64_sk_buff_list = (16, 8)"
  by (simp add: arm64_sk_buff_list_def c_layout layout_eval)

definition arm64_t_u8 :: ctype where
  "arm64_t_u8 = arm64_t___u8"

declare arm64_t_u8_def [c_layout]

definition arm64_t_u16 :: ctype where
  "arm64_t_u16 = arm64_t___u16"

declare arm64_t_u16_def [c_layout]

definition arm64_qspinlock :: ctype where
  "arm64_qspinlock = Struct [
      Anon (Union [
        Mem ''val'' arm64_t_atomic_t,
        Anon (Struct [
          Mem ''locked'' arm64_t_u8,
          Mem ''pending'' arm64_t_u8]),
        Anon (Struct [
          Mem ''locked_pending'' arm64_t_u16,
          Mem ''tail'' arm64_t_u16])])]"

lemma arm64_qspinlock_lay [c_layout]: "lay LP64 arm64_qspinlock = (4, 4)"
  by (simp add: arm64_qspinlock_def c_layout layout_eval)

definition arm64_t_arch_spinlock_t :: ctype where
  "arm64_t_arch_spinlock_t = arm64_qspinlock"

declare arm64_t_arch_spinlock_t_def [c_layout]

definition arm64_raw_spinlock :: ctype where
  "arm64_raw_spinlock = Struct [
      Mem ''raw_lock'' arm64_t_arch_spinlock_t]"

lemma arm64_raw_spinlock_lay [c_layout]: "lay LP64 arm64_raw_spinlock = (4, 4)"
  by (simp add: arm64_raw_spinlock_def c_layout layout_eval)

definition arm64_spinlock :: ctype where
  "arm64_spinlock = Struct [
      Anon (Union [
        Mem ''rlock'' arm64_raw_spinlock])]"

lemma arm64_spinlock_lay [c_layout]: "lay LP64 arm64_spinlock = (4, 4)"
  by (simp add: arm64_spinlock_def c_layout layout_eval)

definition arm64_t_spinlock_t :: ctype where
  "arm64_t_spinlock_t = arm64_spinlock"

declare arm64_t_spinlock_t_def [c_layout]

definition arm64_sk_buff_head :: ctype where
  "arm64_sk_buff_head = Struct [
      Anon (Union [
        Anon (Struct [
          Mem ''next'' Ptr,
          Mem ''prev'' Ptr]),
        Mem ''list'' arm64_sk_buff_list]),
      Mem ''qlen'' arm64_t___u32,
      Mem ''lock'' arm64_t_spinlock_t]"

lemma arm64_sk_buff_head_lay [c_layout]: "lay LP64 arm64_sk_buff_head = (24, 8)"
  by (simp add: arm64_sk_buff_head_def c_layout layout_eval)

definition arm64_list_head :: ctype where
  "arm64_list_head = Struct [
      Mem ''next'' Ptr,
      Mem ''prev'' Ptr]"

lemma arm64_list_head_lay [c_layout]: "lay LP64 arm64_list_head = (16, 8)"
  by (simp add: arm64_list_head_def c_layout layout_eval)

definition arm64_wait_queue_head :: ctype where
  "arm64_wait_queue_head = Struct [
      Mem ''lock'' arm64_t_spinlock_t,
      Mem ''head'' arm64_list_head]"

lemma arm64_wait_queue_head_lay [c_layout]: "lay LP64 arm64_wait_queue_head = (24, 8)"
  by (simp add: arm64_wait_queue_head_def c_layout layout_eval)

definition arm64_t_wait_queue_head_t :: ctype where
  "arm64_t_wait_queue_head_t = arm64_wait_queue_head"

declare arm64_t_wait_queue_head_t_def [c_layout]

definition arm64_t_socket_lock_t :: ctype where
  "arm64_t_socket_lock_t = Struct [
      Mem ''slock'' arm64_t_spinlock_t,
      Mem ''owned'' (Prim CInt),
      Mem ''wq'' arm64_t_wait_queue_head_t]"

lemma arm64_t_socket_lock_t_lay [c_layout]: "lay LP64 arm64_t_socket_lock_t = (32, 8)"
  by (simp add: arm64_t_socket_lock_t_def c_layout layout_eval)

definition arm64_rb_root :: ctype where
  "arm64_rb_root = Struct [
      Mem ''rb_node'' Ptr]"

lemma arm64_rb_root_lay [c_layout]: "lay LP64 arm64_rb_root = (8, 8)"
  by (simp add: arm64_rb_root_def c_layout layout_eval)

definition arm64_page_frag :: ctype where
  "arm64_page_frag = Struct [
      Mem ''page'' Ptr,
      Mem ''offset'' arm64_t___u32,
      Mem ''size'' arm64_t___u32]"

lemma arm64_page_frag_lay [c_layout]: "lay LP64 arm64_page_frag = (16, 8)"
  by (simp add: arm64_page_frag_def c_layout layout_eval)

definition arm64_timer_list :: ctype where
  "arm64_timer_list = Struct [
      Mem ''entry'' arm64_hlist_node,
      Mem ''expires'' (Prim CLong),
      Mem ''function'' Ptr,
      Mem ''flags'' arm64_t_u32]"

lemma arm64_timer_list_lay [c_layout]: "lay LP64 arm64_timer_list = (40, 8)"
  by (simp add: arm64_timer_list_def c_layout layout_eval)

definition arm64_t_u64 :: ctype where
  "arm64_t_u64 = arm64_t___u64"

declare arm64_t_u64_def [c_layout]

definition arm64_t_netdev_features_t :: ctype where
  "arm64_t_netdev_features_t = arm64_t_u64"

declare arm64_t_netdev_features_t_def [c_layout]

definition arm64_t_gfp_t :: ctype where
  "arm64_t_gfp_t = Prim CInt"

declare arm64_t_gfp_t_def [c_layout]

definition arm64_t_bool :: ctype where
  "arm64_t_bool = Prim CBool"

declare arm64_t_bool_def [c_layout]

definition arm64_qrwlock :: ctype where
  "arm64_qrwlock = Struct [
      Anon (Union [
        Mem ''cnts'' arm64_t_atomic_t,
        Anon (Struct [
          Mem ''wlocked'' arm64_t_u8,
          Mem ''__lstate'' (Arr arm64_t_u8 3)])]),
      Mem ''wait_lock'' arm64_t_arch_spinlock_t]"

lemma arm64_qrwlock_lay [c_layout]: "lay LP64 arm64_qrwlock = (8, 4)"
  by (simp add: arm64_qrwlock_def c_layout layout_eval)

definition arm64_t_arch_rwlock_t :: ctype where
  "arm64_t_arch_rwlock_t = arm64_qrwlock"

declare arm64_t_arch_rwlock_t_def [c_layout]

definition arm64_t_rwlock_t :: ctype where
  "arm64_t_rwlock_t = Struct [
      Mem ''raw_lock'' arm64_t_arch_rwlock_t]"

lemma arm64_t_rwlock_t_lay [c_layout]: "lay LP64 arm64_t_rwlock_t = (8, 4)"
  by (simp add: arm64_t_rwlock_t_def c_layout layout_eval)

definition arm64_t___kernel_uid32_t :: ctype where
  "arm64_t___kernel_uid32_t = Prim CInt"

declare arm64_t___kernel_uid32_t_def [c_layout]

definition arm64_t_uid_t :: ctype where
  "arm64_t_uid_t = arm64_t___kernel_uid32_t"

declare arm64_t_uid_t_def [c_layout]

definition arm64_t_kuid_t :: ctype where
  "arm64_t_kuid_t = Struct [
      Mem ''val'' arm64_t_uid_t]"

lemma arm64_t_kuid_t_lay [c_layout]: "lay LP64 arm64_t_kuid_t = (4, 4)"
  by (simp add: arm64_t_kuid_t_def c_layout layout_eval)

definition arm64_t_ktime_t :: ctype where
  "arm64_t_ktime_t = arm64_t_s64"

declare arm64_t_ktime_t_def [c_layout]

definition arm64_sock_cgroup_data :: ctype where
  "arm64_sock_cgroup_data = Struct []"

lemma arm64_sock_cgroup_data_lay [c_layout]: "lay LP64 arm64_sock_cgroup_data = (0, 1)"
  by (simp add: arm64_sock_cgroup_data_def c_layout layout_eval)

definition arm64_callback_head :: ctype where
  "arm64_callback_head = Struct [
      Mem ''next'' Ptr,
      Mem ''func'' Ptr]"

lemma arm64_callback_head_lay [c_layout]: "lay LP64 arm64_callback_head = (16, 8)"
  by (simp add: arm64_callback_head_def c_layout layout_eval)

definition arm64_t_netns_tracker :: ctype where
  "arm64_t_netns_tracker = Struct []"

lemma arm64_t_netns_tracker_lay [c_layout]: "lay LP64 arm64_t_netns_tracker = (0, 1)"
  by (simp add: arm64_t_netns_tracker_def c_layout layout_eval)

definition arm64_xarray :: ctype where
  "arm64_xarray = Struct [
      Mem ''xa_lock'' arm64_t_spinlock_t,
      Mem ''xa_flags'' arm64_t_gfp_t,
      Mem ''xa_head'' Ptr]"

lemma arm64_xarray_lay [c_layout]: "lay LP64 arm64_xarray = (16, 8)"
  by (simp add: arm64_xarray_def c_layout layout_eval)

definition arm64_sock :: ctype where
  "arm64_sock = Struct [
      Mem ''__sk_common'' arm64_sock_common,
      Mem ''__cacheline_group_begin__sock_write_rx'' (Arr arm64_t___u8 0),
      Mem ''sk_drops'' arm64_t_atomic_t,
      Mem ''sk_peek_off'' arm64_t___s32,
      Mem ''sk_error_queue'' arm64_sk_buff_head,
      Mem ''sk_receive_queue'' arm64_sk_buff_head,
      Mem ''sk_backlog'' (Struct [
        Mem ''rmem_alloc'' arm64_t_atomic_t,
        Mem ''len'' (Prim CInt),
        Mem ''head'' Ptr,
        Mem ''tail'' Ptr]),
      Mem ''__cacheline_group_end__sock_write_rx'' (Arr arm64_t___u8 0),
      Mem ''__cacheline_group_begin__sock_read_rx'' (Arr arm64_t___u8 0),
      Mem ''sk_rx_dst'' Ptr,
      Mem ''sk_rx_dst_ifindex'' (Prim CInt),
      Mem ''sk_rx_dst_cookie'' arm64_t_u32,
      Mem ''sk_ll_usec'' (Prim CInt),
      Mem ''sk_napi_id'' (Prim CInt),
      Mem ''sk_busy_poll_budget'' arm64_t_u16,
      Mem ''sk_prefer_busy_poll'' arm64_t_u8,
      Mem ''sk_userlocks'' arm64_t_u8,
      Mem ''sk_rcvbuf'' (Prim CInt),
      Mem ''sk_filter'' Ptr,
      Anon (Union [
        Mem ''sk_wq'' Ptr,
        Mem ''sk_wq_raw'' Ptr]),
      Mem ''sk_data_ready'' Ptr,
      Mem ''sk_rcvtimeo'' (Prim CLong),
      Mem ''sk_rcvlowat'' (Prim CInt),
      Mem ''__cacheline_group_end__sock_read_rx'' (Arr arm64_t___u8 0),
      Mem ''__cacheline_group_begin__sock_read_rxtx'' (Arr arm64_t___u8 0),
      Mem ''sk_err'' (Prim CInt),
      Mem ''sk_socket'' Ptr,
      Mem ''sk_memcg'' Ptr,
      Mem ''__cacheline_group_end__sock_read_rxtx'' (Arr arm64_t___u8 0),
      Mem ''__cacheline_group_begin__sock_write_rxtx'' (Arr arm64_t___u8 0),
      Mem ''sk_lock'' arm64_t_socket_lock_t,
      Mem ''sk_reserved_mem'' arm64_t_u32,
      Mem ''sk_forward_alloc'' (Prim CInt),
      Mem ''sk_tsflags'' arm64_t_u32,
      Mem ''__cacheline_group_end__sock_write_rxtx'' (Arr arm64_t___u8 0),
      Mem ''__cacheline_group_begin__sock_write_tx'' (Arr arm64_t___u8 0),
      Mem ''sk_write_pending'' (Prim CInt),
      Mem ''sk_omem_alloc'' arm64_t_atomic_t,
      Mem ''sk_sndbuf'' (Prim CInt),
      Mem ''sk_wmem_queued'' (Prim CInt),
      Mem ''sk_wmem_alloc'' arm64_t_refcount_t,
      Mem ''sk_tsq_flags'' (Prim CLong),
      Anon (Union [
        Mem ''sk_send_head'' Ptr,
        Mem ''tcp_rtx_queue'' arm64_rb_root]),
      Mem ''sk_write_queue'' arm64_sk_buff_head,
      Mem ''sk_dst_pending_confirm'' arm64_t_u32,
      Mem ''sk_pacing_status'' arm64_t_u32,
      Mem ''sk_frag'' arm64_page_frag,
      Mem ''sk_timer'' arm64_timer_list,
      Mem ''sk_pacing_rate'' (Prim CLong),
      Mem ''sk_zckey'' arm64_t_atomic_t,
      Mem ''sk_tskey'' arm64_t_atomic_t,
      Mem ''__cacheline_group_end__sock_write_tx'' (Arr arm64_t___u8 0),
      Mem ''__cacheline_group_begin__sock_read_tx'' (Arr arm64_t___u8 0),
      Mem ''sk_max_pacing_rate'' (Prim CLong),
      Mem ''sk_sndtimeo'' (Prim CLong),
      Mem ''sk_priority'' arm64_t_u32,
      Mem ''sk_mark'' arm64_t_u32,
      Mem ''sk_dst_cache'' Ptr,
      Mem ''sk_route_caps'' arm64_t_netdev_features_t,
      Mem ''sk_gso_type'' arm64_t_u16,
      Mem ''sk_gso_max_segs'' arm64_t_u16,
      Mem ''sk_gso_max_size'' (Prim CInt),
      Mem ''sk_allocation'' arm64_t_gfp_t,
      Mem ''sk_txhash'' arm64_t_u32,
      Mem ''sk_pacing_shift'' arm64_t_u8,
      Mem ''sk_use_task_frag'' arm64_t_bool,
      Mem ''__cacheline_group_end__sock_read_tx'' (Arr arm64_t___u8 0),
      Bits ''sk_gso_disabled'' arm64_t_u8 1,
      Bits ''sk_kern_sock'' arm64_t_u8 1,
      Bits ''sk_no_check_tx'' arm64_t_u8 1,
      Bits ''sk_no_check_rx'' arm64_t_u8 1,
      Mem ''sk_shutdown'' arm64_t_u8,
      Mem ''sk_type'' arm64_t_u16,
      Mem ''sk_protocol'' arm64_t_u16,
      Mem ''sk_lingertime'' (Prim CLong),
      Mem ''sk_prot_creator'' Ptr,
      Mem ''sk_callback_lock'' arm64_t_rwlock_t,
      Mem ''sk_err_soft'' (Prim CInt),
      Mem ''sk_ack_backlog'' arm64_t_u32,
      Mem ''sk_max_ack_backlog'' arm64_t_u32,
      Mem ''sk_uid'' arm64_t_kuid_t,
      Mem ''sk_peer_lock'' arm64_t_spinlock_t,
      Mem ''sk_bind_phc'' (Prim CInt),
      Mem ''sk_peer_pid'' Ptr,
      Mem ''sk_peer_cred'' Ptr,
      Mem ''sk_stamp'' arm64_t_ktime_t,
      Mem ''sk_disconnects'' (Prim CInt),
      Mem ''sk_txrehash'' arm64_t_u8,
      Mem ''sk_clockid'' arm64_t_u8,
      Bits ''sk_txtime_deadline_mode'' arm64_t_u8 1,
      Bits ''sk_txtime_report_errors'' arm64_t_u8 1,
      Bits ''sk_txtime_unused'' arm64_t_u8 6,
      Mem ''sk_user_data'' Ptr,
      Mem ''sk_cgrp_data'' arm64_sock_cgroup_data,
      Mem ''sk_state_change'' Ptr,
      Mem ''sk_write_space'' Ptr,
      Mem ''sk_error_report'' Ptr,
      Mem ''sk_backlog_rcv'' Ptr,
      Mem ''sk_destruct'' Ptr,
      Mem ''sk_reuseport_cb'' Ptr,
      Mem ''sk_bpf_storage'' Ptr,
      Mem ''sk_rcu'' arm64_callback_head,
      Mem ''ns_tracker'' arm64_t_netns_tracker,
      Mem ''sk_user_frags'' arm64_xarray]"

lemma arm64_sock_lay [c_layout]: "lay LP64 arm64_sock = (720, 8)"
  by (simp add: arm64_sock_def c_layout layout_eval)

definition arm64_t___kernel_ulong_t :: ctype where
  "arm64_t___kernel_ulong_t = Prim CLong"

declare arm64_t___kernel_ulong_t_def [c_layout]

definition arm64_t___kernel_size_t :: ctype where
  "arm64_t___kernel_size_t = arm64_t___kernel_ulong_t"

declare arm64_t___kernel_size_t_def [c_layout]

definition arm64_t_size_t :: ctype where
  "arm64_t_size_t = arm64_t___kernel_size_t"

declare arm64_t_size_t_def [c_layout]

definition arm64_iovec :: ctype where
  "arm64_iovec = Struct [
      Mem ''iov_base'' Ptr,
      Mem ''iov_len'' arm64_t___kernel_size_t]"

lemma arm64_iovec_lay [c_layout]: "lay LP64 arm64_iovec = (16, 8)"
  by (simp add: arm64_iovec_def c_layout layout_eval)

definition arm64_t___kernel_loff_t :: ctype where
  "arm64_t___kernel_loff_t = Prim CLongLong"

declare arm64_t___kernel_loff_t_def [c_layout]

definition arm64_t_loff_t :: ctype where
  "arm64_t_loff_t = arm64_t___kernel_loff_t"

declare arm64_t_loff_t_def [c_layout]

definition arm64_iov_iter :: ctype where
  "arm64_iov_iter = Struct [
      Mem ''iter_type'' arm64_t_u8,
      Mem ''nofault'' arm64_t_bool,
      Mem ''data_source'' arm64_t_bool,
      Mem ''iov_offset'' arm64_t_size_t,
      Anon (Union [
        Mem ''__ubuf_iovec'' arm64_iovec,
        Anon (Struct [
          Anon (Union [
            Mem ''__iov'' Ptr,
            Mem ''kvec'' Ptr,
            Mem ''bvec'' Ptr,
            Mem ''folioq'' Ptr,
            Mem ''xarray'' Ptr,
            Mem ''ubuf'' Ptr]),
          Mem ''count'' arm64_t_size_t])]),
      Anon (Union [
        Mem ''nr_segs'' (Prim CLong),
        Mem ''folioq_slot'' arm64_t_u8,
        Mem ''xarray_start'' arm64_t_loff_t])]"

lemma arm64_iov_iter_lay [c_layout]: "lay LP64 arm64_iov_iter = (40, 8)"
  by (simp add: arm64_iov_iter_def c_layout layout_eval)

definition arm64_msghdr :: ctype where
  "arm64_msghdr = Struct [
      Mem ''msg_name'' Ptr,
      Mem ''msg_namelen'' (Prim CInt),
      Mem ''msg_inq'' (Prim CInt),
      Mem ''msg_iter'' arm64_iov_iter,
      Anon (Union [
        Mem ''msg_control'' Ptr,
        Mem ''msg_control_user'' Ptr]),
      Bits ''msg_control_is_user'' arm64_t_bool 1,
      Bits ''msg_get_inq'' arm64_t_bool 1,
      Mem ''msg_flags'' (Prim CInt),
      Mem ''msg_controllen'' arm64_t___kernel_size_t,
      Mem ''msg_iocb'' Ptr,
      Mem ''msg_ubuf'' Ptr,
      Mem ''sg_from_iter'' Ptr]"

lemma arm64_msghdr_lay [c_layout]: "lay LP64 arm64_msghdr = (104, 8)"
  by (simp add: arm64_msghdr_def c_layout layout_eval)

definition arm64_t___kernel_sa_family_t :: ctype where
  "arm64_t___kernel_sa_family_t = Prim CShort"

declare arm64_t___kernel_sa_family_t_def [c_layout]

definition arm64_in_addr :: ctype where
  "arm64_in_addr = Struct [
      Mem ''s_addr'' arm64_t___be32]"

lemma arm64_in_addr_lay [c_layout]: "lay LP64 arm64_in_addr = (4, 4)"
  by (simp add: arm64_in_addr_def c_layout layout_eval)

definition arm64_sockaddr_in :: ctype where
  "arm64_sockaddr_in = Struct [
      Mem ''sin_family'' arm64_t___kernel_sa_family_t,
      Mem ''sin_port'' arm64_t___be16,
      Mem ''sin_addr'' arm64_in_addr,
      Mem ''__pad'' (Arr (Prim CChar) 8)]"

lemma arm64_sockaddr_in_lay [c_layout]: "lay LP64 arm64_sockaddr_in = (16, 4)"
  by (simp add: arm64_sockaddr_in_def c_layout layout_eval)

definition arm64_sockaddr_in6 :: ctype where
  "arm64_sockaddr_in6 = Struct [
      Mem ''sin6_family'' (Prim CShort),
      Mem ''sin6_port'' arm64_t___be16,
      Mem ''sin6_flowinfo'' arm64_t___be32,
      Mem ''sin6_addr'' arm64_in6_addr,
      Mem ''sin6_scope_id'' arm64_t___u32]"

lemma arm64_sockaddr_in6_lay [c_layout]: "lay LP64 arm64_sockaddr_in6 = (28, 4)"
  by (simp add: arm64_sockaddr_in6_def c_layout layout_eval)

definition arm64_thread_info :: ctype where
  "arm64_thread_info = Struct [
      Mem ''flags'' (Prim CLong),
      Anon (Union [
        Mem ''preempt_count'' arm64_t_u64,
        Mem ''preempt'' (Struct [
          Mem ''count'' arm64_t_u32,
          Mem ''need_resched'' arm64_t_u32])]),
      Mem ''cpu'' arm64_t_u32]"

lemma arm64_thread_info_lay [c_layout]: "lay LP64 arm64_thread_info = (24, 8)"
  by (simp add: arm64_thread_info_def c_layout layout_eval)

definition arm64_llist_node :: ctype where
  "arm64_llist_node = Struct [
      Mem ''next'' Ptr]"

lemma arm64_llist_node_lay [c_layout]: "lay LP64 arm64_llist_node = (8, 8)"
  by (simp add: arm64_llist_node_def c_layout layout_eval)

definition arm64___call_single_node :: ctype where
  "arm64___call_single_node = Struct [
      Mem ''llist'' arm64_llist_node,
      Anon (Union [
        Mem ''u_flags'' (Prim CInt),
        Mem ''a_flags'' arm64_t_atomic_t]),
      Mem ''src'' arm64_t_u16,
      Mem ''dst'' arm64_t_u16]"

lemma arm64___call_single_node_lay [c_layout]: "lay LP64 arm64___call_single_node = (16, 8)"
  by (simp add: arm64___call_single_node_def c_layout layout_eval)

definition arm64_load_weight :: ctype where
  "arm64_load_weight = Struct [
      Mem ''weight'' (Prim CLong),
      Mem ''inv_weight'' arm64_t_u32]"

lemma arm64_load_weight_lay [c_layout]: "lay LP64 arm64_load_weight = (16, 8)"
  by (simp add: arm64_load_weight_def c_layout layout_eval)

definition arm64_rb_node :: ctype where
  "arm64_rb_node = Struct [
      Mem ''__rb_parent_color'' (Prim CLong),
      Mem ''rb_right'' Ptr,
      Mem ''rb_left'' Ptr]"

lemma arm64_rb_node_lay [c_layout]: "lay LP64 arm64_rb_node = (24, 8)"
  by (simp add: arm64_rb_node_def c_layout layout_eval)

definition arm64_sched_avg :: ctype where
  "arm64_sched_avg = Struct [
      Mem ''last_update_time'' arm64_t_u64,
      Mem ''load_sum'' arm64_t_u64,
      Mem ''runnable_sum'' arm64_t_u64,
      Mem ''util_sum'' arm64_t_u32,
      Mem ''period_contrib'' arm64_t_u32,
      Mem ''load_avg'' (Prim CLong),
      Mem ''runnable_avg'' (Prim CLong),
      Mem ''util_avg'' (Prim CLong),
      Mem ''util_est'' (Prim CInt)]"

lemma arm64_sched_avg_lay [c_layout]: "lay LP64 arm64_sched_avg = (64, 8)"
  by (simp add: arm64_sched_avg_def c_layout layout_eval)

definition arm64_sched_entity :: ctype where
  "arm64_sched_entity = Struct [
      Mem ''load'' arm64_load_weight,
      Mem ''run_node'' arm64_rb_node,
      Mem ''deadline'' arm64_t_u64,
      Mem ''min_vruntime'' arm64_t_u64,
      Mem ''min_slice'' arm64_t_u64,
      Mem ''group_node'' arm64_list_head,
      Mem ''on_rq'' (Prim CChar),
      Mem ''sched_delayed'' (Prim CChar),
      Mem ''rel_deadline'' (Prim CChar),
      Mem ''custom_slice'' (Prim CChar),
      Mem ''exec_start'' arm64_t_u64,
      Mem ''sum_exec_runtime'' arm64_t_u64,
      Mem ''prev_sum_exec_runtime'' arm64_t_u64,
      Mem ''vruntime'' arm64_t_u64,
      Mem ''vlag'' arm64_t_s64,
      Mem ''slice'' arm64_t_u64,
      Mem ''nr_migrations'' arm64_t_u64,
      Bits '''' (Prim CLong) 64,
      Bits '''' (Prim CLong) 64,
      Bits '''' (Prim CLong) 64,
      Bits '''' (Prim CLong) 64,
      Bits '''' (Prim CLong) 64,
      Bits '''' (Prim CLong) 64,
      Mem ''avg'' arm64_sched_avg]"

lemma arm64_sched_entity_lay [c_layout]: "lay LP64 arm64_sched_entity = (256, 8)"
  by (simp add: arm64_sched_entity_def c_layout layout_eval)

definition arm64_sched_rt_entity :: ctype where
  "arm64_sched_rt_entity = Struct [
      Mem ''run_list'' arm64_list_head,
      Mem ''timeout'' (Prim CLong),
      Mem ''watchdog_stamp'' (Prim CLong),
      Mem ''time_slice'' (Prim CInt),
      Mem ''on_rq'' (Prim CShort),
      Mem ''on_list'' (Prim CShort),
      Mem ''back'' Ptr]"

lemma arm64_sched_rt_entity_lay [c_layout]: "lay LP64 arm64_sched_rt_entity = (48, 8)"
  by (simp add: arm64_sched_rt_entity_def c_layout layout_eval)

definition arm64_timerqueue_node :: ctype where
  "arm64_timerqueue_node = Struct [
      Mem ''node'' arm64_rb_node,
      Mem ''expires'' arm64_t_ktime_t]"

lemma arm64_timerqueue_node_lay [c_layout]: "lay LP64 arm64_timerqueue_node = (32, 8)"
  by (simp add: arm64_timerqueue_node_def c_layout layout_eval)

definition arm64_hrtimer :: ctype where
  "arm64_hrtimer = Struct [
      Mem ''node'' arm64_timerqueue_node,
      Mem ''_softexpires'' arm64_t_ktime_t,
      Mem ''function'' Ptr,
      Mem ''base'' Ptr,
      Mem ''state'' arm64_t_u8,
      Mem ''is_rel'' arm64_t_u8,
      Mem ''is_soft'' arm64_t_u8,
      Mem ''is_hard'' arm64_t_u8]"

lemma arm64_hrtimer_lay [c_layout]: "lay LP64 arm64_hrtimer = (64, 8)"
  by (simp add: arm64_hrtimer_def c_layout layout_eval)

definition arm64_t_dl_server_has_tasks_f :: ctype where
  "arm64_t_dl_server_has_tasks_f = Ptr"

declare arm64_t_dl_server_has_tasks_f_def [c_layout]

definition arm64_t_dl_server_pick_f :: ctype where
  "arm64_t_dl_server_pick_f = Ptr"

declare arm64_t_dl_server_pick_f_def [c_layout]

definition arm64_sched_dl_entity :: ctype where
  "arm64_sched_dl_entity = Struct [
      Mem ''rb_node'' arm64_rb_node,
      Mem ''dl_runtime'' arm64_t_u64,
      Mem ''dl_deadline'' arm64_t_u64,
      Mem ''dl_period'' arm64_t_u64,
      Mem ''dl_bw'' arm64_t_u64,
      Mem ''dl_density'' arm64_t_u64,
      Mem ''runtime'' arm64_t_s64,
      Mem ''deadline'' arm64_t_u64,
      Mem ''flags'' (Prim CInt),
      Bits ''dl_throttled'' (Prim CInt) 1,
      Bits ''dl_yielded'' (Prim CInt) 1,
      Bits ''dl_non_contending'' (Prim CInt) 1,
      Bits ''dl_overrun'' (Prim CInt) 1,
      Bits ''dl_server'' (Prim CInt) 1,
      Bits ''dl_server_active'' (Prim CInt) 1,
      Bits ''dl_defer'' (Prim CInt) 1,
      Bits ''dl_defer_armed'' (Prim CInt) 1,
      Bits ''dl_defer_running'' (Prim CInt) 1,
      Mem ''dl_timer'' arm64_hrtimer,
      Mem ''inactive_timer'' arm64_hrtimer,
      Mem ''rq'' Ptr,
      Mem ''server_has_tasks'' arm64_t_dl_server_has_tasks_f,
      Mem ''server_pick_task'' arm64_t_dl_server_pick_f]"

lemma arm64_sched_dl_entity_lay [c_layout]: "lay LP64 arm64_sched_dl_entity = (240, 8)"
  by (simp add: arm64_sched_dl_entity_def c_layout layout_eval)

definition arm64_sched_statistics :: ctype where
  "arm64_sched_statistics = Struct []"

lemma arm64_sched_statistics_lay [c_layout]: "lay LP64 arm64_sched_statistics = (0, 1)"
  by (simp add: arm64_sched_statistics_def c_layout layout_eval)

definition arm64_cpumask :: ctype where
  "arm64_cpumask = Struct [
      Mem ''bits'' (Arr (Prim CLong) 8)]"

lemma arm64_cpumask_lay [c_layout]: "lay LP64 arm64_cpumask = (64, 8)"
  by (simp add: arm64_cpumask_def c_layout layout_eval)

definition arm64_t_cpumask_t :: ctype where
  "arm64_t_cpumask_t = arm64_cpumask"

declare arm64_t_cpumask_t_def [c_layout]

definition arm64_rcu_special :: ctype where
  "arm64_rcu_special = Union [
      Mem ''b'' (Struct [
        Mem ''blocked'' arm64_t_u8,
        Mem ''need_qs'' arm64_t_u8,
        Mem ''exp_hint'' arm64_t_u8,
        Mem ''need_mb'' arm64_t_u8]),
      Mem ''s'' arm64_t_u32]"

lemma arm64_rcu_special_lay [c_layout]: "lay LP64 arm64_rcu_special = (4, 4)"
  by (simp add: arm64_rcu_special_def c_layout layout_eval)

definition arm64_sched_info :: ctype where
  "arm64_sched_info = Struct []"

lemma arm64_sched_info_lay [c_layout]: "lay LP64 arm64_sched_info = (0, 1)"
  by (simp add: arm64_sched_info_def c_layout layout_eval)

definition arm64_plist_node :: ctype where
  "arm64_plist_node = Struct [
      Mem ''prio'' (Prim CInt),
      Mem ''prio_list'' arm64_list_head,
      Mem ''node_list'' arm64_list_head]"

lemma arm64_plist_node_lay [c_layout]: "lay LP64 arm64_plist_node = (40, 8)"
  by (simp add: arm64_plist_node_def c_layout layout_eval)

definition arm64_t___kernel_clockid_t :: ctype where
  "arm64_t___kernel_clockid_t = Prim CInt"

declare arm64_t___kernel_clockid_t_def [c_layout]

definition arm64_t_clockid_t :: ctype where
  "arm64_t_clockid_t = arm64_t___kernel_clockid_t"

declare arm64_t_clockid_t_def [c_layout]

definition arm64_timespec_type :: ctype where
  "arm64_timespec_type = Enum [(''TT_NONE'', 0), (''TT_NATIVE'', 1), (''TT_COMPAT'', 2)]"

lemma arm64_timespec_type_lay [c_layout]: "lay LP64 arm64_timespec_type = (4, 4)"
  by (simp add: arm64_timespec_type_def c_layout layout_eval)

definition arm64_restart_block :: ctype where
  "arm64_restart_block = Struct [
      Mem ''arch_data'' (Prim CLong),
      Mem ''fn'' Ptr,
      Anon (Union [
        Mem ''futex'' (Struct [
          Mem ''uaddr'' Ptr,
          Mem ''val'' arm64_t_u32,
          Mem ''flags'' arm64_t_u32,
          Mem ''bitset'' arm64_t_u32,
          Mem ''time'' arm64_t_u64,
          Mem ''uaddr2'' Ptr]),
        Mem ''nanosleep'' (Struct [
          Mem ''clockid'' arm64_t_clockid_t,
          Mem ''type'' arm64_timespec_type,
          Anon (Union [
            Mem ''rmtp'' Ptr,
            Mem ''compat_rmtp'' Ptr]),
          Mem ''expires'' arm64_t_u64]),
        Mem ''poll'' (Struct [
          Mem ''ufds'' Ptr,
          Mem ''nfds'' (Prim CInt),
          Mem ''has_timeout'' (Prim CInt),
          Mem ''tv_sec'' (Prim CLong),
          Mem ''tv_nsec'' (Prim CLong)])])]"

lemma arm64_restart_block_lay [c_layout]: "lay LP64 arm64_restart_block = (56, 8)"
  by (simp add: arm64_restart_block_def c_layout layout_eval)

definition arm64_t___kernel_pid_t :: ctype where
  "arm64_t___kernel_pid_t = Prim CInt"

declare arm64_t___kernel_pid_t_def [c_layout]

definition arm64_t_pid_t :: ctype where
  "arm64_t_pid_t = arm64_t___kernel_pid_t"

declare arm64_t_pid_t_def [c_layout]

definition arm64_t_raw_spinlock_t :: ctype where
  "arm64_t_raw_spinlock_t = arm64_raw_spinlock"

declare arm64_t_raw_spinlock_t_def [c_layout]

definition arm64_prev_cputime :: ctype where
  "arm64_prev_cputime = Struct [
      Mem ''utime'' arm64_t_u64,
      Mem ''stime'' arm64_t_u64,
      Mem ''lock'' arm64_t_raw_spinlock_t]"

lemma arm64_prev_cputime_lay [c_layout]: "lay LP64 arm64_prev_cputime = (24, 8)"
  by (simp add: arm64_prev_cputime_def c_layout layout_eval)

definition arm64_posix_cputimers :: ctype where
  "arm64_posix_cputimers = Struct []"

lemma arm64_posix_cputimers_lay [c_layout]: "lay LP64 arm64_posix_cputimers = (0, 1)"
  by (simp add: arm64_posix_cputimers_def c_layout layout_eval)

definition arm64_t_sigset_t :: ctype where
  "arm64_t_sigset_t = Struct [
      Mem ''sig'' (Arr (Prim CLong) 1)]"

lemma arm64_t_sigset_t_lay [c_layout]: "lay LP64 arm64_t_sigset_t = (8, 8)"
  by (simp add: arm64_t_sigset_t_def c_layout layout_eval)

definition arm64_sigpending :: ctype where
  "arm64_sigpending = Struct [
      Mem ''list'' arm64_list_head,
      Mem ''signal'' arm64_t_sigset_t]"

lemma arm64_sigpending_lay [c_layout]: "lay LP64 arm64_sigpending = (24, 8)"
  by (simp add: arm64_sigpending_def c_layout layout_eval)

definition arm64_seccomp :: ctype where
  "arm64_seccomp = Struct []"

lemma arm64_seccomp_lay [c_layout]: "lay LP64 arm64_seccomp = (0, 1)"
  by (simp add: arm64_seccomp_def c_layout layout_eval)

definition arm64_syscall_user_dispatch :: ctype where
  "arm64_syscall_user_dispatch = Struct []"

lemma arm64_syscall_user_dispatch_lay [c_layout]: "lay LP64 arm64_syscall_user_dispatch = (0, 1)"
  by (simp add: arm64_syscall_user_dispatch_def c_layout layout_eval)

definition arm64_wake_q_node :: ctype where
  "arm64_wake_q_node = Struct [
      Mem ''next'' Ptr]"

lemma arm64_wake_q_node_lay [c_layout]: "lay LP64 arm64_wake_q_node = (8, 8)"
  by (simp add: arm64_wake_q_node_def c_layout layout_eval)

definition arm64_task_io_accounting :: ctype where
  "arm64_task_io_accounting = Struct []"

lemma arm64_task_io_accounting_lay [c_layout]: "lay LP64 arm64_task_io_accounting = (0, 1)"
  by (simp add: arm64_task_io_accounting_def c_layout layout_eval)

definition arm64_t_atomic_long_t :: ctype where
  "arm64_t_atomic_long_t = arm64_t_atomic64_t"

declare arm64_t_atomic_long_t_def [c_layout]

definition arm64_optimistic_spin_queue :: ctype where
  "arm64_optimistic_spin_queue = Struct [
      Mem ''tail'' arm64_t_atomic_t]"

lemma arm64_optimistic_spin_queue_lay [c_layout]: "lay LP64 arm64_optimistic_spin_queue = (4, 4)"
  by (simp add: arm64_optimistic_spin_queue_def c_layout layout_eval)

definition arm64_mutex :: ctype where
  "arm64_mutex = Struct [
      Mem ''owner'' arm64_t_atomic_long_t,
      Mem ''wait_lock'' arm64_t_raw_spinlock_t,
      Mem ''osq'' arm64_optimistic_spin_queue,
      Mem ''wait_list'' arm64_list_head]"

lemma arm64_mutex_lay [c_layout]: "lay LP64 arm64_mutex = (32, 8)"
  by (simp add: arm64_mutex_def c_layout layout_eval)

definition arm64_arch_tlbflush_unmap_batch :: ctype where
  "arm64_arch_tlbflush_unmap_batch = Struct []"

lemma arm64_arch_tlbflush_unmap_batch_lay [c_layout]: "lay LP64 arm64_arch_tlbflush_unmap_batch = (0, 1)"
  by (simp add: arm64_arch_tlbflush_unmap_batch_def c_layout layout_eval)

definition arm64_tlbflush_unmap_batch :: ctype where
  "arm64_tlbflush_unmap_batch = Struct [
      Mem ''arch'' arm64_arch_tlbflush_unmap_batch,
      Mem ''flush_required'' arm64_t_bool,
      Mem ''writable'' arm64_t_bool]"

lemma arm64_tlbflush_unmap_batch_lay [c_layout]: "lay LP64 arm64_tlbflush_unmap_batch = (2, 1)"
  by (simp add: arm64_tlbflush_unmap_batch_def c_layout layout_eval)

definition arm64_kmap_ctrl :: ctype where
  "arm64_kmap_ctrl = Struct []"

lemma arm64_kmap_ctrl_lay [c_layout]: "lay LP64 arm64_kmap_ctrl = (0, 1)"
  by (simp add: arm64_kmap_ctrl_def c_layout layout_eval)

definition arm64_llist_head :: ctype where
  "arm64_llist_head = Struct [
      Mem ''first'' Ptr]"

lemma arm64_llist_head_lay [c_layout]: "lay LP64 arm64_llist_head = (8, 8)"
  by (simp add: arm64_llist_head_def c_layout layout_eval)

definition arm64_cpu_context :: ctype where
  "arm64_cpu_context = Struct [
      Mem ''x19'' (Prim CLong),
      Mem ''x20'' (Prim CLong),
      Mem ''x21'' (Prim CLong),
      Mem ''x22'' (Prim CLong),
      Mem ''x23'' (Prim CLong),
      Mem ''x24'' (Prim CLong),
      Mem ''x25'' (Prim CLong),
      Mem ''x26'' (Prim CLong),
      Mem ''x27'' (Prim CLong),
      Mem ''x28'' (Prim CLong),
      Mem ''fp'' (Prim CLong),
      Mem ''sp'' (Prim CLong),
      Mem ''pc'' (Prim CLong)]"

lemma arm64_cpu_context_lay [c_layout]: "lay LP64 arm64_cpu_context = (104, 8)"
  by (simp add: arm64_cpu_context_def c_layout layout_eval)

definition arm64_user_fpsimd_state :: ctype where
  "arm64_user_fpsimd_state = Struct [
      Mem ''vregs'' (Arr (Prim CInt128) 32),
      Mem ''fpsr'' arm64_t___u32,
      Mem ''fpcr'' arm64_t___u32,
      Mem ''__reserved'' (Arr arm64_t___u32 2)]"

lemma arm64_user_fpsimd_state_lay [c_layout]: "lay LP64 arm64_user_fpsimd_state = (528, 16)"
  by (simp add: arm64_user_fpsimd_state_def c_layout layout_eval)

definition arm64_fp_type :: ctype where
  "arm64_fp_type = Enum [(''FP_STATE_CURRENT'', 0), (''FP_STATE_FPSIMD'', 1), (''FP_STATE_SVE'', 2)]"

lemma arm64_fp_type_lay [c_layout]: "lay LP64 arm64_fp_type = (4, 4)"
  by (simp add: arm64_fp_type_def c_layout layout_eval)

definition arm64_debug_info :: ctype where
  "arm64_debug_info = Struct [
      Mem ''suspended_step'' (Prim CInt),
      Mem ''bps_disabled'' (Prim CInt),
      Mem ''wps_disabled'' (Prim CInt),
      Mem ''hbp_break'' (Arr Ptr 16),
      Mem ''hbp_watch'' (Arr Ptr 16)]"

lemma arm64_debug_info_lay [c_layout]: "lay LP64 arm64_debug_info = (272, 8)"
  by (simp add: arm64_debug_info_def c_layout layout_eval)

definition arm64_thread_struct :: ctype where
  "arm64_thread_struct = Struct [
      Mem ''cpu_context'' arm64_cpu_context,
      Bits '''' (Prim CLong) 64,
      Mem ''uw'' (Struct [
        Mem ''tp_value'' (Prim CLong),
        Mem ''tp2_value'' (Prim CLong),
        Mem ''fpmr'' arm64_t_u64,
        Mem ''pad'' (Prim CLong),
        Mem ''fpsimd_state'' arm64_user_fpsimd_state]),
      Mem ''fp_type'' arm64_fp_type,
      Mem ''fpsimd_cpu'' (Prim CInt),
      Mem ''sve_state'' Ptr,
      Mem ''sme_state'' Ptr,
      Mem ''vl'' (Arr (Prim CInt) 2),
      Mem ''vl_onexec'' (Arr (Prim CInt) 2),
      Mem ''fault_address'' (Prim CLong),
      Mem ''fault_code'' (Prim CLong),
      Mem ''debug'' arm64_debug_info,
      Bits '''' (Prim CLong) 64,
      Mem ''kernel_fpsimd_state'' arm64_user_fpsimd_state,
      Mem ''kernel_fpsimd_cpu'' (Prim CInt),
      Mem ''sctlr_user'' arm64_t_u64,
      Mem ''svcr'' arm64_t_u64,
      Mem ''tpidr2_el0'' arm64_t_u64,
      Mem ''por_el0'' arm64_t_u64,
      Bits '''' (Prim CLong) 64]"

lemma arm64_thread_struct_lay [c_layout]: "lay LP64 arm64_thread_struct = (1584, 16)"
  by (simp add: arm64_thread_struct_def c_layout layout_eval)

definition arm64_task_struct_members1 :: "cmember list" where
  "arm64_task_struct_members1 = [
    Mem ''thread_info'' arm64_thread_info,
    Mem ''__state'' (Prim CInt),
    Mem ''saved_state'' (Prim CInt),
    Mem ''stack'' Ptr,
    Mem ''usage'' arm64_t_refcount_t,
    Mem ''flags'' (Prim CInt),
    Mem ''ptrace'' (Prim CInt),
    Mem ''on_cpu'' (Prim CInt),
    Mem ''wake_entry'' arm64___call_single_node,
    Mem ''wakee_flips'' (Prim CInt),
    Mem ''wakee_flip_decay_ts'' (Prim CLong),
    Mem ''last_wakee'' Ptr,
    Mem ''recent_used_cpu'' (Prim CInt),
    Mem ''wake_cpu'' (Prim CInt),
    Mem ''on_rq'' (Prim CInt),
    Mem ''prio'' (Prim CInt),
    Mem ''static_prio'' (Prim CInt),
    Mem ''normal_prio'' (Prim CInt),
    Mem ''rt_priority'' (Prim CInt),
    Mem ''se'' arm64_sched_entity,
    Mem ''rt'' arm64_sched_rt_entity,
    Mem ''dl'' arm64_sched_dl_entity,
    Mem ''dl_server'' Ptr,
    Mem ''sched_class'' Ptr,
    Bits '''' (Prim CLong) 64,
    Bits '''' (Prim CLong) 64,
    Mem ''stats'' arm64_sched_statistics,
    Mem ''policy'' (Prim CInt),
    Mem ''max_allowed_capacity'' (Prim CLong),
    Mem ''nr_cpus_allowed'' (Prim CInt),
    Mem ''cpus_ptr'' Ptr,
    Mem ''user_cpus_ptr'' Ptr,
    Mem ''cpus_mask'' arm64_t_cpumask_t,
    Mem ''migration_pending'' Ptr,
    Mem ''migration_disabled'' (Prim CShort),
    Mem ''migration_flags'' (Prim CShort),
    Mem ''trc_reader_nesting'' (Prim CInt),
    Mem ''trc_ipi_to_cpu'' (Prim CInt),
    Mem ''trc_reader_special'' arm64_rcu_special,
    Mem ''trc_holdout_list'' arm64_list_head,
    Mem ''trc_blkd_node'' arm64_list_head,
    Mem ''trc_blkd_cpu'' (Prim CInt),
    Mem ''sched_info'' arm64_sched_info,
    Mem ''tasks'' arm64_list_head,
    Mem ''pushable_tasks'' arm64_plist_node,
    Mem ''pushable_dl_tasks'' arm64_rb_node,
    Mem ''mm'' Ptr,
    Mem ''active_mm'' Ptr,
    Mem ''faults_disabled_mapping'' Ptr,
    Mem ''exit_state'' (Prim CInt),
    Mem ''exit_code'' (Prim CInt),
    Mem ''exit_signal'' (Prim CInt),
    Mem ''pdeath_signal'' (Prim CInt),
    Mem ''jobctl'' (Prim CLong),
    Mem ''personality'' (Prim CInt),
    Bits ''sched_reset_on_fork'' (Prim CInt) 1,
    Bits ''sched_contributes_to_load'' (Prim CInt) 1,
    Bits ''sched_migrated'' (Prim CInt) 1,
    Bits ''sched_task_hot'' (Prim CInt) 1,
    Bits '''' (Prim CLong) 28,
    Bits ''sched_remote_wakeup'' (Prim CInt) 1,
    Bits ''in_execve'' (Prim CInt) 1,
    Bits ''in_iowait'' (Prim CInt) 1,
    Mem ''atomic_flags'' (Prim CLong),
    Mem ''restart_block'' arm64_restart_block,
    Mem ''pid'' arm64_t_pid_t,
    Mem ''tgid'' arm64_t_pid_t,
    Mem ''real_parent'' Ptr,
    Mem ''parent'' Ptr,
    Mem ''children'' arm64_list_head,
    Mem ''sibling'' arm64_list_head,
    Mem ''group_leader'' Ptr,
    Mem ''ptraced'' arm64_list_head,
    Mem ''ptrace_entry'' arm64_list_head,
    Mem ''thread_pid'' Ptr,
    Mem ''pid_links'' (Arr arm64_hlist_node 4),
    Mem ''thread_node'' arm64_list_head,
    Mem ''vfork_done'' Ptr,
    Mem ''set_child_tid'' Ptr,
    Mem ''clear_child_tid'' Ptr,
    Mem ''worker_private'' Ptr,
    Mem ''utime'' arm64_t_u64,
    Mem ''stime'' arm64_t_u64]"

definition arm64_task_struct_members2 :: "cmember list" where
  "arm64_task_struct_members2 = [
    Mem ''gtime'' arm64_t_u64,
    Mem ''prev_cputime'' arm64_prev_cputime,
    Mem ''nvcsw'' (Prim CLong),
    Mem ''nivcsw'' (Prim CLong),
    Mem ''start_time'' arm64_t_u64,
    Mem ''start_boottime'' arm64_t_u64,
    Mem ''min_flt'' (Prim CLong),
    Mem ''maj_flt'' (Prim CLong),
    Mem ''posix_cputimers'' arm64_posix_cputimers,
    Mem ''ptracer_cred'' Ptr,
    Mem ''real_cred'' Ptr,
    Mem ''cred'' Ptr,
    Mem ''comm'' (Arr (Prim CChar) 16),
    Mem ''nameidata'' Ptr,
    Mem ''fs'' Ptr,
    Mem ''files'' Ptr,
    Mem ''nsproxy'' Ptr,
    Mem ''signal'' Ptr,
    Mem ''sighand'' Ptr,
    Mem ''blocked'' arm64_t_sigset_t,
    Mem ''real_blocked'' arm64_t_sigset_t,
    Mem ''saved_sigmask'' arm64_t_sigset_t,
    Mem ''pending'' arm64_sigpending,
    Mem ''sas_ss_sp'' (Prim CLong),
    Mem ''sas_ss_size'' arm64_t_size_t,
    Mem ''sas_ss_flags'' (Prim CInt),
    Mem ''task_works'' Ptr,
    Mem ''seccomp'' arm64_seccomp,
    Mem ''syscall_dispatch'' arm64_syscall_user_dispatch,
    Mem ''parent_exec_id'' arm64_t_u64,
    Mem ''self_exec_id'' arm64_t_u64,
    Mem ''alloc_lock'' arm64_t_spinlock_t,
    Mem ''pi_lock'' arm64_t_raw_spinlock_t,
    Mem ''wake_q'' arm64_wake_q_node,
    Mem ''journal_info'' Ptr,
    Mem ''bio_list'' Ptr,
    Mem ''plug'' Ptr,
    Mem ''reclaim_state'' Ptr,
    Mem ''io_context'' Ptr,
    Mem ''ptrace_message'' (Prim CLong),
    Mem ''last_siginfo'' Ptr,
    Mem ''ioac'' arm64_task_io_accounting,
    Mem ''perf_recursion'' (Arr arm64_t_u8 4),
    Mem ''perf_event_ctxp'' Ptr,
    Mem ''perf_event_mutex'' arm64_mutex,
    Mem ''perf_event_list'' arm64_list_head,
    Mem ''tlb_ubc'' arm64_tlbflush_unmap_batch,
    Mem ''splice_pipe'' Ptr,
    Mem ''task_frag'' arm64_page_frag,
    Mem ''nr_dirtied'' (Prim CInt),
    Mem ''nr_dirtied_pause'' (Prim CInt),
    Mem ''dirty_paused_when'' (Prim CLong),
    Mem ''timer_slack_ns'' arm64_t_u64,
    Mem ''default_timer_slack_ns'' arm64_t_u64,
    Mem ''curr_ret_stack'' (Prim CInt),
    Mem ''curr_ret_depth'' (Prim CInt),
    Mem ''ret_stack'' Ptr,
    Mem ''ftrace_timestamp'' (Prim CLongLong),
    Mem ''ftrace_sleeptime'' (Prim CLongLong),
    Mem ''trace_overrun'' arm64_t_atomic_t,
    Mem ''tracing_graph_pause'' arm64_t_atomic_t,
    Mem ''trace_recursion'' (Prim CLong),
    Mem ''utask'' Ptr,
    Mem ''kmap_ctrl'' arm64_kmap_ctrl,
    Mem ''rcu'' arm64_callback_head,
    Mem ''rcu_users'' arm64_t_refcount_t,
    Mem ''pagefault_disabled'' (Prim CInt),
    Mem ''oom_reaper_list'' Ptr,
    Mem ''oom_reaper_timer'' arm64_timer_list,
    Mem ''stack_refcount'' arm64_t_refcount_t,
    Mem ''bpf_storage'' Ptr,
    Mem ''bpf_ctx'' Ptr,
    Mem ''bpf_net_context'' Ptr,
    Mem ''kretprobe_instances'' arm64_llist_head,
    Bits '''' (Prim CLong) 64,
    Mem ''thread'' arm64_thread_struct,
    Bits '''' (Prim CLong) 64,
    Bits '''' (Prim CLong) 64,
    Bits '''' (Prim CLong) 64,
    Bits '''' (Prim CLong) 64,
    Bits '''' (Prim CLong) 64,
    Bits '''' (Prim CLong) 64]"

definition arm64_task_struct :: ctype where
  "arm64_task_struct = Struct (arm64_task_struct_members1 @ arm64_task_struct_members2)"

lemma arm64_task_struct_lay [c_layout]: "lay LP64 arm64_task_struct = (3584, 16)"
  by (simp add: arm64_task_struct_def arm64_task_struct_members1_def arm64_task_struct_members2_def c_layout layout_eval)

definition arm64_t___s16 :: ctype where
  "arm64_t___s16 = Prim CShort"

declare arm64_t___s16_def [c_layout]

definition arm64_inet_cork :: ctype where
  "arm64_inet_cork = Struct [
      Mem ''flags'' (Prim CInt),
      Mem ''addr'' arm64_t___be32,
      Mem ''opt'' Ptr,
      Mem ''fragsize'' (Prim CInt),
      Mem ''length'' (Prim CInt),
      Mem ''dst'' Ptr,
      Mem ''tx_flags'' arm64_t_u8,
      Mem ''ttl'' arm64_t___u8,
      Mem ''tos'' arm64_t___s16,
      Mem ''priority'' arm64_t_u32,
      Mem ''gso_size'' arm64_t___u16,
      Mem ''ts_opt_id'' arm64_t_u32,
      Mem ''transmit_time'' arm64_t_u64,
      Mem ''mark'' arm64_t_u32]"

lemma arm64_inet_cork_lay [c_layout]: "lay LP64 arm64_inet_cork = (64, 8)"
  by (simp add: arm64_inet_cork_def c_layout layout_eval)

definition arm64_t___be64 :: ctype where
  "arm64_t___be64 = arm64_t___u64"

declare arm64_t___be64_def [c_layout]

definition arm64_flowi_tunnel :: ctype where
  "arm64_flowi_tunnel = Struct [
      Mem ''tun_id'' arm64_t___be64]"

lemma arm64_flowi_tunnel_lay [c_layout]: "lay LP64 arm64_flowi_tunnel = (8, 8)"
  by (simp add: arm64_flowi_tunnel_def c_layout layout_eval)

definition arm64_flowi_common :: ctype where
  "arm64_flowi_common = Struct [
      Mem ''flowic_oif'' (Prim CInt),
      Mem ''flowic_iif'' (Prim CInt),
      Mem ''flowic_l3mdev'' (Prim CInt),
      Mem ''flowic_mark'' arm64_t___u32,
      Mem ''flowic_tos'' arm64_t___u8,
      Mem ''flowic_scope'' arm64_t___u8,
      Mem ''flowic_proto'' arm64_t___u8,
      Mem ''flowic_flags'' arm64_t___u8,
      Mem ''flowic_secid'' arm64_t___u32,
      Mem ''flowic_uid'' arm64_t_kuid_t,
      Mem ''flowic_multipath_hash'' arm64_t___u32,
      Mem ''flowic_tun_key'' arm64_flowi_tunnel]"

lemma arm64_flowi_common_lay [c_layout]: "lay LP64 arm64_flowi_common = (40, 8)"
  by (simp add: arm64_flowi_common_def c_layout layout_eval)

definition arm64_flowi_uli :: ctype where
  "arm64_flowi_uli = Union [
      Mem ''ports'' (Struct [
        Mem ''dport'' arm64_t___be16,
        Mem ''sport'' arm64_t___be16]),
      Mem ''icmpt'' (Struct [
        Mem ''type'' arm64_t___u8,
        Mem ''code'' arm64_t___u8]),
      Mem ''gre_key'' arm64_t___be32,
      Mem ''mht'' (Struct [
        Mem ''type'' arm64_t___u8])]"

lemma arm64_flowi_uli_lay [c_layout]: "lay LP64 arm64_flowi_uli = (4, 4)"
  by (simp add: arm64_flowi_uli_def c_layout layout_eval)

definition arm64_flowi4 :: ctype where
  "arm64_flowi4 = Struct [
      Mem ''__fl_common'' arm64_flowi_common,
      Mem ''saddr'' arm64_t___be32,
      Mem ''daddr'' arm64_t___be32,
      Mem ''uli'' arm64_flowi_uli]"

lemma arm64_flowi4_lay [c_layout]: "lay LP64 arm64_flowi4 = (56, 8)"
  by (simp add: arm64_flowi4_def c_layout layout_eval)

definition arm64_flowi6 :: ctype where
  "arm64_flowi6 = Struct [
      Mem ''__fl_common'' arm64_flowi_common,
      Mem ''daddr'' arm64_in6_addr,
      Mem ''saddr'' arm64_in6_addr,
      Mem ''flowlabel'' arm64_t___be32,
      Mem ''uli'' arm64_flowi_uli,
      Mem ''mp_hash'' arm64_t___u32]"

lemma arm64_flowi6_lay [c_layout]: "lay LP64 arm64_flowi6 = (88, 8)"
  by (simp add: arm64_flowi6_def c_layout layout_eval)

definition arm64_flowi :: ctype where
  "arm64_flowi = Struct [
      Mem ''u'' (Union [
        Mem ''__fl_common'' arm64_flowi_common,
        Mem ''ip4'' arm64_flowi4,
        Mem ''ip6'' arm64_flowi6])]"

lemma arm64_flowi_lay [c_layout]: "lay LP64 arm64_flowi = (88, 8)"
  by (simp add: arm64_flowi_def c_layout layout_eval)

definition arm64_inet_cork_full :: ctype where
  "arm64_inet_cork_full = Struct [
      Mem ''base'' arm64_inet_cork,
      Mem ''fl'' arm64_flowi]"

lemma arm64_inet_cork_full_lay [c_layout]: "lay LP64 arm64_inet_cork_full = (152, 8)"
  by (simp add: arm64_inet_cork_full_def c_layout layout_eval)

definition arm64_inet_sock :: ctype where
  "arm64_inet_sock = Struct [
      Mem ''sk'' arm64_sock,
      Mem ''pinet6'' Ptr,
      Mem ''inet_flags'' (Prim CLong),
      Mem ''inet_saddr'' arm64_t___be32,
      Mem ''uc_ttl'' arm64_t___s16,
      Mem ''inet_sport'' arm64_t___be16,
      Mem ''inet_opt'' Ptr,
      Mem ''inet_id'' arm64_t_atomic_t,
      Mem ''tos'' arm64_t___u8,
      Mem ''min_ttl'' arm64_t___u8,
      Mem ''mc_ttl'' arm64_t___u8,
      Mem ''pmtudisc'' arm64_t___u8,
      Mem ''rcv_tos'' arm64_t___u8,
      Mem ''convert_csum'' arm64_t___u8,
      Mem ''uc_index'' (Prim CInt),
      Mem ''mc_index'' (Prim CInt),
      Mem ''mc_addr'' arm64_t___be32,
      Mem ''local_port_range'' arm64_t_u32,
      Mem ''mc_list'' Ptr,
      Mem ''cork'' arm64_inet_cork_full]"

lemma arm64_inet_sock_lay [c_layout]: "lay LP64 arm64_inet_sock = (944, 8)"
  by (simp add: arm64_inet_sock_def c_layout layout_eval)

definition arm64_fastopen_queue :: ctype where
  "arm64_fastopen_queue = Struct [
      Mem ''rskq_rst_head'' Ptr,
      Mem ''rskq_rst_tail'' Ptr,
      Mem ''lock'' arm64_t_spinlock_t,
      Mem ''qlen'' (Prim CInt),
      Mem ''max_qlen'' (Prim CInt),
      Mem ''ctx'' Ptr]"

lemma arm64_fastopen_queue_lay [c_layout]: "lay LP64 arm64_fastopen_queue = (40, 8)"
  by (simp add: arm64_fastopen_queue_def c_layout layout_eval)

definition arm64_request_sock_queue :: ctype where
  "arm64_request_sock_queue = Struct [
      Mem ''rskq_lock'' arm64_t_spinlock_t,
      Mem ''rskq_defer_accept'' arm64_t_u8,
      Mem ''synflood_warned'' arm64_t_u32,
      Mem ''qlen'' arm64_t_atomic_t,
      Mem ''young'' arm64_t_atomic_t,
      Mem ''rskq_accept_head'' Ptr,
      Mem ''rskq_accept_tail'' Ptr,
      Mem ''fastopenq'' arm64_fastopen_queue]"

lemma arm64_request_sock_queue_lay [c_layout]: "lay LP64 arm64_request_sock_queue = (80, 8)"
  by (simp add: arm64_request_sock_queue_def c_layout layout_eval)

definition arm64_inet_connection_sock :: ctype where
  "arm64_inet_connection_sock = Struct [
      Mem ''icsk_inet'' arm64_inet_sock,
      Mem ''icsk_accept_queue'' arm64_request_sock_queue,
      Mem ''icsk_bind_hash'' Ptr,
      Mem ''icsk_bind2_hash'' Ptr,
      Mem ''icsk_timeout'' (Prim CLong),
      Mem ''icsk_retransmit_timer'' arm64_timer_list,
      Mem ''icsk_delack_timer'' arm64_timer_list,
      Mem ''icsk_rto'' arm64_t___u32,
      Mem ''icsk_rto_min'' arm64_t___u32,
      Mem ''icsk_delack_max'' arm64_t___u32,
      Mem ''icsk_pmtu_cookie'' arm64_t___u32,
      Mem ''icsk_ca_ops'' Ptr,
      Mem ''icsk_af_ops'' Ptr,
      Mem ''icsk_ulp_ops'' Ptr,
      Mem ''icsk_ulp_data'' Ptr,
      Mem ''icsk_clean_acked'' Ptr,
      Mem ''icsk_sync_mss'' Ptr,
      Bits ''icsk_ca_state'' arm64_t___u8 5,
      Bits ''icsk_ca_initialized'' arm64_t___u8 1,
      Bits ''icsk_ca_setsockopt'' arm64_t___u8 1,
      Bits ''icsk_ca_dst_locked'' arm64_t___u8 1,
      Mem ''icsk_retransmits'' arm64_t___u8,
      Mem ''icsk_pending'' arm64_t___u8,
      Mem ''icsk_backoff'' arm64_t___u8,
      Mem ''icsk_syn_retries'' arm64_t___u8,
      Mem ''icsk_probes_out'' arm64_t___u8,
      Mem ''icsk_ext_hdr_len'' arm64_t___u16,
      Mem ''icsk_ack'' (Struct [
        Mem ''pending'' arm64_t___u8,
        Mem ''quick'' arm64_t___u8,
        Mem ''pingpong'' arm64_t___u8,
        Mem ''retry'' arm64_t___u8,
        Bits ''ato'' arm64_t___u32 8,
        Bits ''lrcv_flowlabel'' arm64_t___u32 20,
        Bits ''unused'' arm64_t___u32 4,
        Mem ''timeout'' (Prim CLong),
        Mem ''lrcvtime'' arm64_t___u32,
        Mem ''last_seg_size'' arm64_t___u16,
        Mem ''rcv_mss'' arm64_t___u16]),
      Mem ''icsk_mtup'' (Struct [
        Mem ''search_high'' (Prim CInt),
        Mem ''search_low'' (Prim CInt),
        Bits ''probe_size'' arm64_t_u32 31,
        Bits ''enabled'' arm64_t_u32 1,
        Mem ''probe_timestamp'' arm64_t_u32]),
      Mem ''icsk_probes_tstamp'' arm64_t_u32,
      Mem ''icsk_user_timeout'' arm64_t_u32,
      Mem ''icsk_ca_priv'' (Arr arm64_t_u64 13)]"

lemma arm64_inet_connection_sock_lay [c_layout]: "lay LP64 arm64_inet_connection_sock = (1352, 8)"
  by (simp add: arm64_inet_connection_sock_def c_layout layout_eval)

definition arm64_minmax_sample :: ctype where
  "arm64_minmax_sample = Struct [
      Mem ''t'' arm64_t_u32,
      Mem ''v'' arm64_t_u32]"

lemma arm64_minmax_sample_lay [c_layout]: "lay LP64 arm64_minmax_sample = (8, 4)"
  by (simp add: arm64_minmax_sample_def c_layout layout_eval)

definition arm64_minmax :: ctype where
  "arm64_minmax = Struct [
      Mem ''s'' (Arr arm64_minmax_sample 3)]"

lemma arm64_minmax_lay [c_layout]: "lay LP64 arm64_minmax = (24, 4)"
  by (simp add: arm64_minmax_def c_layout layout_eval)

definition arm64_tcp_options_received :: ctype where
  "arm64_tcp_options_received = Struct [
      Mem ''ts_recent_stamp'' (Prim CInt),
      Mem ''ts_recent'' arm64_t_u32,
      Mem ''rcv_tsval'' arm64_t_u32,
      Mem ''rcv_tsecr'' arm64_t_u32,
      Bits ''saw_tstamp'' arm64_t_u16 1,
      Bits ''tstamp_ok'' arm64_t_u16 1,
      Bits ''dsack'' arm64_t_u16 1,
      Bits ''wscale_ok'' arm64_t_u16 1,
      Bits ''sack_ok'' arm64_t_u16 3,
      Bits ''smc_ok'' arm64_t_u16 1,
      Bits ''snd_wscale'' arm64_t_u16 4,
      Bits ''rcv_wscale'' arm64_t_u16 4,
      Bits ''saw_unknown'' arm64_t_u8 1,
      Bits ''unused'' arm64_t_u8 7,
      Mem ''num_sacks'' arm64_t_u8,
      Mem ''user_mss'' arm64_t_u16,
      Mem ''mss_clamp'' arm64_t_u16]"

lemma arm64_tcp_options_received_lay [c_layout]: "lay LP64 arm64_tcp_options_received = (24, 4)"
  by (simp add: arm64_tcp_options_received_def c_layout layout_eval)

definition arm64_tcp_rack :: ctype where
  "arm64_tcp_rack = Struct [
      Mem ''mstamp'' arm64_t_u64,
      Mem ''rtt_us'' arm64_t_u32,
      Mem ''end_seq'' arm64_t_u32,
      Mem ''last_delivered'' arm64_t_u32,
      Mem ''reo_wnd_steps'' arm64_t_u8,
      Bits ''reo_wnd_persist'' arm64_t_u8 5,
      Bits ''dsack_seen'' arm64_t_u8 1,
      Bits ''advanced'' arm64_t_u8 1]"

lemma arm64_tcp_rack_lay [c_layout]: "lay LP64 arm64_tcp_rack = (24, 8)"
  by (simp add: arm64_tcp_rack_def c_layout layout_eval)

definition arm64_tcp_sack_block :: ctype where
  "arm64_tcp_sack_block = Struct [
      Mem ''start_seq'' arm64_t_u32,
      Mem ''end_seq'' arm64_t_u32]"

lemma arm64_tcp_sack_block_lay [c_layout]: "lay LP64 arm64_tcp_sack_block = (8, 4)"
  by (simp add: arm64_tcp_sack_block_def c_layout layout_eval)

definition arm64_tcp_sock_members1 :: "cmember list" where
  "arm64_tcp_sock_members1 = [
    Mem ''inet_conn'' arm64_inet_connection_sock,
    Mem ''__cacheline_group_begin__tcp_sock_read_tx'' (Arr arm64_t___u8 0),
    Mem ''max_window'' arm64_t_u32,
    Mem ''rcv_ssthresh'' arm64_t_u32,
    Mem ''reordering'' arm64_t_u32,
    Mem ''notsent_lowat'' arm64_t_u32,
    Mem ''gso_segs'' arm64_t_u16,
    Mem ''lost_skb_hint'' Ptr,
    Mem ''retransmit_skb_hint'' Ptr,
    Mem ''__cacheline_group_end__tcp_sock_read_tx'' (Arr arm64_t___u8 0),
    Mem ''__cacheline_group_begin__tcp_sock_read_txrx'' (Arr arm64_t___u8 0),
    Mem ''tsoffset'' arm64_t_u32,
    Mem ''snd_wnd'' arm64_t_u32,
    Mem ''mss_cache'' arm64_t_u32,
    Mem ''snd_cwnd'' arm64_t_u32,
    Mem ''prr_out'' arm64_t_u32,
    Mem ''lost_out'' arm64_t_u32,
    Mem ''sacked_out'' arm64_t_u32,
    Mem ''tcp_header_len'' arm64_t_u16,
    Mem ''scaling_ratio'' arm64_t_u8,
    Bits ''chrono_type'' arm64_t_u8 2,
    Bits ''repair'' arm64_t_u8 1,
    Bits ''tcp_usec_ts'' arm64_t_u8 1,
    Bits ''is_sack_reneg'' arm64_t_u8 1,
    Bits ''is_cwnd_limited'' arm64_t_u8 1,
    Mem ''__cacheline_group_end__tcp_sock_read_txrx'' (Arr arm64_t___u8 0),
    Mem ''__cacheline_group_begin__tcp_sock_read_rx'' (Arr arm64_t___u8 0),
    Mem ''copied_seq'' arm64_t_u32,
    Mem ''rcv_tstamp'' arm64_t_u32,
    Mem ''snd_wl1'' arm64_t_u32,
    Mem ''tlp_high_seq'' arm64_t_u32,
    Mem ''rttvar_us'' arm64_t_u32,
    Mem ''retrans_out'' arm64_t_u32,
    Mem ''advmss'' arm64_t_u16,
    Mem ''urg_data'' arm64_t_u16,
    Mem ''lost'' arm64_t_u32,
    Mem ''rtt_min'' arm64_minmax,
    Mem ''out_of_order_queue'' arm64_rb_root,
    Mem ''snd_ssthresh'' arm64_t_u32,
    Bits ''recvmsg_inq'' arm64_t_u8 1,
    Mem ''__cacheline_group_end__tcp_sock_read_rx'' (Arr arm64_t___u8 0),
    Bits '''' (Prim CLong) 64,
    Bits '''' (Prim CLong) 64,
    Bits '''' (Prim CLong) 64,
    Bits '''' (Prim CLong) 64,
    Bits '''' (Prim CLong) 64,
    Mem ''__cacheline_group_begin__tcp_sock_write_tx'' (Arr arm64_t___u8 0),
    Mem ''segs_out'' arm64_t_u32,
    Mem ''data_segs_out'' arm64_t_u32,
    Mem ''bytes_sent'' arm64_t_u64,
    Mem ''snd_sml'' arm64_t_u32,
    Mem ''chrono_start'' arm64_t_u32,
    Mem ''chrono_stat'' (Arr arm64_t_u32 3),
    Mem ''write_seq'' arm64_t_u32,
    Mem ''pushed_seq'' arm64_t_u32,
    Mem ''lsndtime'' arm64_t_u32,
    Mem ''mdev_us'' arm64_t_u32,
    Mem ''rtt_seq'' arm64_t_u32,
    Mem ''tcp_wstamp_ns'' arm64_t_u64,
    Mem ''tsorted_sent_queue'' arm64_list_head,
    Mem ''highest_sack'' Ptr,
    Mem ''ecn_flags'' arm64_t_u8,
    Mem ''__cacheline_group_end__tcp_sock_write_tx'' (Arr arm64_t___u8 0),
    Mem ''__cacheline_group_begin__tcp_sock_write_txrx'' (Arr arm64_t___u8 0),
    Mem ''pred_flags'' arm64_t___be32,
    Mem ''tcp_clock_cache'' arm64_t_u64,
    Mem ''tcp_mstamp'' arm64_t_u64,
    Mem ''rcv_nxt'' arm64_t_u32,
    Mem ''snd_nxt'' arm64_t_u32,
    Mem ''snd_una'' arm64_t_u32,
    Mem ''window_clamp'' arm64_t_u32,
    Mem ''srtt_us'' arm64_t_u32,
    Mem ''packets_out'' arm64_t_u32,
    Mem ''snd_up'' arm64_t_u32,
    Mem ''delivered'' arm64_t_u32,
    Mem ''delivered_ce'' arm64_t_u32,
    Mem ''app_limited'' arm64_t_u32,
    Mem ''rcv_wnd'' arm64_t_u32,
    Mem ''rx_opt'' arm64_tcp_options_received,
    Bits ''nonagle'' arm64_t_u8 4,
    Bits ''rate_app_limited'' arm64_t_u8 1,
    Mem ''__cacheline_group_end__tcp_sock_write_txrx'' (Arr arm64_t___u8 0)]"

definition arm64_tcp_sock_members2 :: "cmember list" where
  "arm64_tcp_sock_members2 = [
    Bits '''' (Prim CLong) 0,
    Mem ''__cacheline_group_begin__tcp_sock_write_rx'' (Arr arm64_t___u8 0),
    Mem ''bytes_received'' arm64_t_u64,
    Mem ''segs_in'' arm64_t_u32,
    Mem ''data_segs_in'' arm64_t_u32,
    Mem ''rcv_wup'' arm64_t_u32,
    Mem ''max_packets_out'' arm64_t_u32,
    Mem ''cwnd_usage_seq'' arm64_t_u32,
    Mem ''rate_delivered'' arm64_t_u32,
    Mem ''rate_interval_us'' arm64_t_u32,
    Mem ''rcv_rtt_last_tsecr'' arm64_t_u32,
    Mem ''first_tx_mstamp'' arm64_t_u64,
    Mem ''delivered_mstamp'' arm64_t_u64,
    Mem ''bytes_acked'' arm64_t_u64,
    Mem ''rcv_rtt_est'' (Struct [
      Mem ''rtt_us'' arm64_t_u32,
      Mem ''seq'' arm64_t_u32,
      Mem ''time'' arm64_t_u64]),
    Mem ''rcvq_space'' (Struct [
      Mem ''space'' arm64_t_u32,
      Mem ''seq'' arm64_t_u32,
      Mem ''time'' arm64_t_u64]),
    Mem ''__cacheline_group_end__tcp_sock_write_rx'' (Arr arm64_t___u8 0),
    Mem ''dsack_dups'' arm64_t_u32,
    Mem ''compressed_ack_rcv_nxt'' arm64_t_u32,
    Mem ''tsq_node'' arm64_list_head,
    Mem ''rack'' arm64_tcp_rack,
    Mem ''compressed_ack'' arm64_t_u8,
    Bits ''dup_ack_counter'' arm64_t_u8 2,
    Bits ''tlp_retrans'' arm64_t_u8 1,
    Bits ''unused'' arm64_t_u8 5,
    Bits ''thin_lto'' arm64_t_u8 1,
    Bits ''fastopen_connect'' arm64_t_u8 1,
    Bits ''fastopen_no_cookie'' arm64_t_u8 1,
    Bits ''fastopen_client_fail'' arm64_t_u8 2,
    Bits ''frto'' arm64_t_u8 1,
    Mem ''repair_queue'' arm64_t_u8,
    Bits ''save_syn'' arm64_t_u8 2,
    Bits ''syn_data'' arm64_t_u8 1,
    Bits ''syn_fastopen'' arm64_t_u8 1,
    Bits ''syn_fastopen_exp'' arm64_t_u8 1,
    Bits ''syn_fastopen_ch'' arm64_t_u8 1,
    Bits ''syn_data_acked'' arm64_t_u8 1,
    Mem ''keepalive_probes'' arm64_t_u8,
    Mem ''tcp_tx_delay'' arm64_t_u32,
    Mem ''mdev_max_us'' arm64_t_u32,
    Mem ''reord_seen'' arm64_t_u32,
    Mem ''snd_cwnd_cnt'' arm64_t_u32,
    Mem ''snd_cwnd_clamp'' arm64_t_u32,
    Mem ''snd_cwnd_used'' arm64_t_u32,
    Mem ''snd_cwnd_stamp'' arm64_t_u32,
    Mem ''prior_cwnd'' arm64_t_u32,
    Mem ''prr_delivered'' arm64_t_u32,
    Mem ''last_oow_ack_time'' arm64_t_u32,
    Mem ''pacing_timer'' arm64_hrtimer,
    Mem ''compressed_ack_timer'' arm64_hrtimer,
    Mem ''ooo_last_skb'' Ptr,
    Mem ''duplicate_sack'' (Arr arm64_tcp_sack_block 1),
    Mem ''selective_acks'' (Arr arm64_tcp_sack_block 4),
    Mem ''recv_sack_cache'' (Arr arm64_tcp_sack_block 4),
    Mem ''lost_cnt_hint'' (Prim CInt),
    Mem ''prior_ssthresh'' arm64_t_u32,
    Mem ''high_seq'' arm64_t_u32,
    Mem ''retrans_stamp'' arm64_t_u32,
    Mem ''undo_marker'' arm64_t_u32,
    Mem ''undo_retrans'' (Prim CInt),
    Mem ''bytes_retrans'' arm64_t_u64,
    Mem ''total_retrans'' arm64_t_u32,
    Mem ''rto_stamp'' arm64_t_u32,
    Mem ''total_rto'' arm64_t_u16,
    Mem ''total_rto_recoveries'' arm64_t_u16,
    Mem ''total_rto_time'' arm64_t_u32,
    Mem ''urg_seq'' arm64_t_u32,
    Mem ''keepalive_time'' (Prim CInt),
    Mem ''keepalive_intvl'' (Prim CInt),
    Mem ''linger2'' (Prim CInt),
    Mem ''bpf_sock_ops_cb_flags'' arm64_t_u8,
    Bits ''bpf_chg_cc_inprogress'' arm64_t_u8 1,
    Mem ''timeout_rehash'' arm64_t_u16,
    Mem ''rcv_ooopack'' arm64_t_u32,
    Mem ''mtu_probe'' (Struct [
      Mem ''probe_seq_start'' arm64_t_u32,
      Mem ''probe_seq_end'' arm64_t_u32]),
    Mem ''plb_rehash'' arm64_t_u32,
    Mem ''mtu_info'' arm64_t_u32,
    Mem ''fastopen_req'' Ptr,
    Mem ''fastopen_rsk'' Ptr,
    Mem ''saved_syn'' Ptr,
    Bits '''' (Prim CLong) 64]"

definition arm64_tcp_sock :: ctype where
  "arm64_tcp_sock = Struct (arm64_tcp_sock_members1 @ arm64_tcp_sock_members2)"

lemma arm64_tcp_sock_lay [c_layout]: "lay LP64 arm64_tcp_sock = (2240, 8)"
  by (simp add: arm64_tcp_sock_def arm64_tcp_sock_members1_def arm64_tcp_sock_members2_def c_layout layout_eval)

definition arm64_in6_pktinfo :: ctype where
  "arm64_in6_pktinfo = Struct [
      Mem ''ipi6_addr'' arm64_in6_addr,
      Mem ''ipi6_ifindex'' (Prim CInt)]"

lemma arm64_in6_pktinfo_lay [c_layout]: "lay LP64 arm64_in6_pktinfo = (20, 4)"
  by (simp add: arm64_in6_pktinfo_def c_layout layout_eval)

definition arm64_t_s16 :: ctype where
  "arm64_t_s16 = arm64_t___s16"

declare arm64_t_s16_def [c_layout]

definition arm64_inet6_cork :: ctype where
  "arm64_inet6_cork = Struct [
      Mem ''opt'' Ptr,
      Mem ''hop_limit'' arm64_t_u8,
      Mem ''tclass'' arm64_t_u8]"

lemma arm64_inet6_cork_lay [c_layout]: "lay LP64 arm64_inet6_cork = (16, 8)"
  by (simp add: arm64_inet6_cork_def c_layout layout_eval)

definition arm64_ipv6_pinfo :: ctype where
  "arm64_ipv6_pinfo = Struct [
      Mem ''saddr'' arm64_in6_addr,
      Mem ''sticky_pktinfo'' arm64_in6_pktinfo,
      Mem ''daddr_cache'' Ptr,
      Mem ''flow_label'' arm64_t___be32,
      Mem ''frag_size'' arm64_t___u32,
      Mem ''hop_limit'' arm64_t_s16,
      Mem ''mcast_hops'' arm64_t_u8,
      Mem ''ucast_oif'' (Prim CInt),
      Mem ''mcast_oif'' (Prim CInt),
      Mem ''rxopt'' (Union [
        Mem ''bits'' (Struct [
          Bits ''srcrt'' arm64_t___u16 1,
          Bits ''osrcrt'' arm64_t___u16 1,
          Bits ''rxinfo'' arm64_t___u16 1,
          Bits ''rxoinfo'' arm64_t___u16 1,
          Bits ''rxhlim'' arm64_t___u16 1,
          Bits ''rxohlim'' arm64_t___u16 1,
          Bits ''hopopts'' arm64_t___u16 1,
          Bits ''ohopopts'' arm64_t___u16 1,
          Bits ''dstopts'' arm64_t___u16 1,
          Bits ''odstopts'' arm64_t___u16 1,
          Bits ''rxflow'' arm64_t___u16 1,
          Bits ''rxtclass'' arm64_t___u16 1,
          Bits ''rxpmtu'' arm64_t___u16 1,
          Bits ''rxorigdstaddr'' arm64_t___u16 1,
          Bits ''recvfragsize'' arm64_t___u16 1]),
        Mem ''all'' arm64_t___u16]),
      Mem ''srcprefs'' arm64_t___u8,
      Mem ''pmtudisc'' arm64_t___u8,
      Mem ''min_hopcount'' arm64_t___u8,
      Mem ''tclass'' arm64_t___u8,
      Mem ''rcv_flowinfo'' arm64_t___be32,
      Mem ''dst_cookie'' arm64_t___u32,
      Mem ''ipv6_mc_list'' Ptr,
      Mem ''ipv6_ac_list'' Ptr,
      Mem ''ipv6_fl_list'' Ptr,
      Mem ''opt'' Ptr,
      Mem ''pktoptions'' Ptr,
      Mem ''rxpmtu'' Ptr,
      Mem ''cork'' arm64_inet6_cork]"

lemma arm64_ipv6_pinfo_lay [c_layout]: "lay LP64 arm64_ipv6_pinfo = (152, 8)"
  by (simp add: arm64_ipv6_pinfo_def c_layout layout_eval)

definition arm64_tcp6_sock :: ctype where
  "arm64_tcp6_sock = Struct [
      Mem ''tcp'' arm64_tcp_sock,
      Mem ''inet6'' arm64_ipv6_pinfo,
      Bits '''' (Prim CLong) 64,
      Bits '''' (Prim CLong) 64,
      Bits '''' (Prim CLong) 64,
      Bits '''' (Prim CLong) 64,
      Bits '''' (Prim CLong) 64]"

lemma arm64_tcp6_sock_lay [c_layout]: "lay LP64 arm64_tcp6_sock = (2432, 8)"
  by (simp add: arm64_tcp6_sock_def c_layout layout_eval)

definition arm64_udp_sock :: ctype where
  "arm64_udp_sock = Struct [
      Mem ''inet'' arm64_inet_sock,
      Mem ''udp_flags'' (Prim CLong),
      Mem ''pending'' (Prim CInt),
      Mem ''encap_type'' arm64_t___u8,
      Mem ''udp_lrpa_hash'' arm64_t___u16,
      Mem ''udp_lrpa_node'' arm64_hlist_nulls_node,
      Mem ''len'' arm64_t___u16,
      Mem ''gso_size'' arm64_t___u16,
      Mem ''pcslen'' arm64_t___u16,
      Mem ''pcrlen'' arm64_t___u16,
      Mem ''encap_rcv'' Ptr,
      Mem ''encap_err_rcv'' Ptr,
      Mem ''encap_err_lookup'' Ptr,
      Mem ''encap_destroy'' Ptr,
      Mem ''gro_receive'' Ptr,
      Mem ''gro_complete'' Ptr,
      Bits '''' (Prim CLong) 64,
      Bits '''' (Prim CLong) 64,
      Bits '''' (Prim CLong) 64,
      Bits '''' (Prim CLong) 64,
      Bits '''' (Prim CLong) 64,
      Bits '''' (Prim CLong) 64,
      Bits '''' (Prim CLong) 64,
      Mem ''reader_queue'' arm64_sk_buff_head,
      Mem ''forward_deficit'' (Prim CInt),
      Mem ''forward_threshold'' (Prim CInt),
      Mem ''peeking_with_offset'' arm64_t_bool,
      Bits '''' (Prim CLong) 64,
      Bits '''' (Prim CLong) 64,
      Bits '''' (Prim CLong) 64]"

lemma arm64_udp_sock_lay [c_layout]: "lay LP64 arm64_udp_sock = (1152, 8)"
  by (simp add: arm64_udp_sock_def c_layout layout_eval)

definition arm64_udp6_sock :: ctype where
  "arm64_udp6_sock = Struct [
      Mem ''udp'' arm64_udp_sock,
      Mem ''inet6'' arm64_ipv6_pinfo,
      Bits '''' (Prim CLong) 64,
      Bits '''' (Prim CLong) 64,
      Bits '''' (Prim CLong) 64,
      Bits '''' (Prim CLong) 64,
      Bits '''' (Prim CLong) 64]"

lemma arm64_udp6_sock_lay [c_layout]: "lay LP64 arm64_udp6_sock = (1344, 8)"
  by (simp add: arm64_udp6_sock_def c_layout layout_eval)

end
