(* ===== verification/Vmlinux_Arm.thy ===== *)
theory Vmlinux_Arm
  imports CLayout
begin

text \<open>
  The kernel types the socket tracker reads, as the bundled header
  \<^verbatim>\<open>resources/ebpf/vmlinux/arm/vmlinux.h\<close> declares them for arm (data model
  \<open>ILP32\<close>): every struct, union, enumeration and type synonym that \<open>struct sock\<close>,
  \<open>struct msghdr\<close>, the socket addresses, \<open>struct task_struct\<close> and the TCP and UDP
  sockets are built from, one definition per declaration, members in declaration order.
  The collection \<open>c_layout\<close> gets the size and alignment of every aggregate, and the
  definitions of the scalar synonyms.
\<close>

definition arm_t___u64 :: ctype where
  "arm_t___u64 = Prim CLongLong"

declare arm_t___u64_def [c_layout]

definition arm_t___addrpair :: ctype where
  "arm_t___addrpair = arm_t___u64"

declare arm_t___addrpair_def [c_layout]

definition arm_t___u32 :: ctype where
  "arm_t___u32 = Prim CInt"

declare arm_t___u32_def [c_layout]

definition arm_t___be32 :: ctype where
  "arm_t___be32 = arm_t___u32"

declare arm_t___be32_def [c_layout]

definition arm_t___u16 :: ctype where
  "arm_t___u16 = Prim CShort"

declare arm_t___u16_def [c_layout]

definition arm_t___portpair :: ctype where
  "arm_t___portpair = arm_t___u32"

declare arm_t___portpair_def [c_layout]

definition arm_t___be16 :: ctype where
  "arm_t___be16 = arm_t___u16"

declare arm_t___be16_def [c_layout]

definition arm_hlist_node :: ctype where
  "arm_hlist_node = Struct [
      Mem ''next'' Ptr,
      Mem ''pprev'' Ptr]"

lemma arm_hlist_node_lay [c_layout]: "lay ILP32 arm_hlist_node = (8, 4)"
  by (simp add: arm_hlist_node_def c_layout layout_eval)

definition arm_t_possible_net_t :: ctype where
  "arm_t_possible_net_t = Struct []"

lemma arm_t_possible_net_t_lay [c_layout]: "lay ILP32 arm_t_possible_net_t = (0, 1)"
  by (simp add: arm_t_possible_net_t_def c_layout layout_eval)

definition arm_t___u8 :: ctype where
  "arm_t___u8 = Prim CChar"

declare arm_t___u8_def [c_layout]

definition arm_in6_addr :: ctype where
  "arm_in6_addr = Struct [
      Mem ''in6_u'' (Union [
        Mem ''u6_addr8'' (Arr arm_t___u8 16),
        Mem ''u6_addr16'' (Arr arm_t___be16 8),
        Mem ''u6_addr32'' (Arr arm_t___be32 4)])]"

lemma arm_in6_addr_lay [c_layout]: "lay ILP32 arm_in6_addr = (16, 4)"
  by (simp add: arm_in6_addr_def c_layout layout_eval)

definition arm_t___s64 :: ctype where
  "arm_t___s64 = Prim CLongLong"

declare arm_t___s64_def [c_layout]

definition arm_t_s64 :: ctype where
  "arm_t_s64 = arm_t___s64"

declare arm_t_s64_def [c_layout]

definition arm_t_atomic64_t :: ctype where
  "arm_t_atomic64_t = Struct [
      Mem ''counter'' arm_t_s64]"

lemma arm_t_atomic64_t_lay [c_layout]: "lay ILP32 arm_t_atomic64_t = (8, 8)"
  by (simp add: arm_t_atomic64_t_def c_layout layout_eval)

definition arm_hlist_nulls_node :: ctype where
  "arm_hlist_nulls_node = Struct [
      Mem ''next'' Ptr,
      Mem ''pprev'' Ptr]"

lemma arm_hlist_nulls_node_lay [c_layout]: "lay ILP32 arm_hlist_nulls_node = (8, 4)"
  by (simp add: arm_hlist_nulls_node_def c_layout layout_eval)

definition arm_t_u32 :: ctype where
  "arm_t_u32 = arm_t___u32"

declare arm_t_u32_def [c_layout]

definition arm_t_atomic_t :: ctype where
  "arm_t_atomic_t = Struct [
      Mem ''counter'' (Prim CInt)]"

lemma arm_t_atomic_t_lay [c_layout]: "lay ILP32 arm_t_atomic_t = (4, 4)"
  by (simp add: arm_t_atomic_t_def c_layout layout_eval)

definition arm_refcount_struct :: ctype where
  "arm_refcount_struct = Struct [
      Mem ''refs'' arm_t_atomic_t]"

lemma arm_refcount_struct_lay [c_layout]: "lay ILP32 arm_refcount_struct = (4, 4)"
  by (simp add: arm_refcount_struct_def c_layout layout_eval)

definition arm_t_refcount_t :: ctype where
  "arm_t_refcount_t = arm_refcount_struct"

declare arm_t_refcount_t_def [c_layout]

definition arm_sock_common :: ctype where
  "arm_sock_common = Struct [
      Anon (Union [
        Mem ''skc_addrpair'' arm_t___addrpair,
        Anon (Struct [
          Mem ''skc_daddr'' arm_t___be32,
          Mem ''skc_rcv_saddr'' arm_t___be32])]),
      Anon (Union [
        Mem ''skc_hash'' (Prim CInt),
        Mem ''skc_u16hashes'' (Arr arm_t___u16 2)]),
      Anon (Union [
        Mem ''skc_portpair'' arm_t___portpair,
        Anon (Struct [
          Mem ''skc_dport'' arm_t___be16,
          Mem ''skc_num'' arm_t___u16])]),
      Mem ''skc_family'' (Prim CShort),
      Mem ''skc_state'' (Prim CChar),
      Bits ''skc_reuse'' (Prim CChar) 4,
      Bits ''skc_reuseport'' (Prim CChar) 1,
      Bits ''skc_ipv6only'' (Prim CChar) 1,
      Bits ''skc_net_refcnt'' (Prim CChar) 1,
      Mem ''skc_bound_dev_if'' (Prim CInt),
      Anon (Union [
        Mem ''skc_bind_node'' arm_hlist_node,
        Mem ''skc_portaddr_node'' arm_hlist_node]),
      Mem ''skc_prot'' Ptr,
      Mem ''skc_net'' arm_t_possible_net_t,
      Mem ''skc_v6_daddr'' arm_in6_addr,
      Mem ''skc_v6_rcv_saddr'' arm_in6_addr,
      Bits '''' (Prim CLong) 32,
      Mem ''skc_cookie'' arm_t_atomic64_t,
      Anon (Union [
        Mem ''skc_flags'' (Prim CLong),
        Mem ''skc_listener'' Ptr,
        Mem ''skc_tw_dr'' Ptr]),
      Mem ''skc_dontcopy_begin'' (Arr (Prim CInt) 0),
      Anon (Union [
        Mem ''skc_node'' arm_hlist_node,
        Mem ''skc_nulls_node'' arm_hlist_nulls_node]),
      Mem ''skc_tx_queue_mapping'' (Prim CShort),
      Anon (Union [
        Mem ''skc_incoming_cpu'' (Prim CInt),
        Mem ''skc_rcv_wnd'' arm_t_u32,
        Mem ''skc_tw_rcv_nxt'' arm_t_u32]),
      Mem ''skc_refcnt'' arm_t_refcount_t,
      Mem ''skc_dontcopy_end'' (Arr (Prim CInt) 0),
      Anon (Union [
        Mem ''skc_rxhash'' arm_t_u32,
        Mem ''skc_window_clamp'' arm_t_u32,
        Mem ''skc_tw_snd_nxt'' arm_t_u32]),
      Bits '''' (Prim CLong) 32]"

lemma arm_sock_common_lay [c_layout]: "lay ILP32 arm_sock_common = (112, 8)"
  by (simp add: arm_sock_common_def c_layout layout_eval)

definition arm_t___s32 :: ctype where
  "arm_t___s32 = Prim CInt"

declare arm_t___s32_def [c_layout]

definition arm_sk_buff_list :: ctype where
  "arm_sk_buff_list = Struct [
      Mem ''next'' Ptr,
      Mem ''prev'' Ptr]"

lemma arm_sk_buff_list_lay [c_layout]: "lay ILP32 arm_sk_buff_list = (8, 4)"
  by (simp add: arm_sk_buff_list_def c_layout layout_eval)

definition arm_t_arch_spinlock_t :: ctype where
  "arm_t_arch_spinlock_t = Struct []"

lemma arm_t_arch_spinlock_t_lay [c_layout]: "lay ILP32 arm_t_arch_spinlock_t = (0, 1)"
  by (simp add: arm_t_arch_spinlock_t_def c_layout layout_eval)

definition arm_raw_spinlock :: ctype where
  "arm_raw_spinlock = Struct [
      Mem ''raw_lock'' arm_t_arch_spinlock_t]"

lemma arm_raw_spinlock_lay [c_layout]: "lay ILP32 arm_raw_spinlock = (0, 1)"
  by (simp add: arm_raw_spinlock_def c_layout layout_eval)

definition arm_spinlock :: ctype where
  "arm_spinlock = Struct [
      Anon (Union [
        Mem ''rlock'' arm_raw_spinlock])]"

lemma arm_spinlock_lay [c_layout]: "lay ILP32 arm_spinlock = (0, 1)"
  by (simp add: arm_spinlock_def c_layout layout_eval)

definition arm_t_spinlock_t :: ctype where
  "arm_t_spinlock_t = arm_spinlock"

declare arm_t_spinlock_t_def [c_layout]

definition arm_sk_buff_head :: ctype where
  "arm_sk_buff_head = Struct [
      Anon (Union [
        Anon (Struct [
          Mem ''next'' Ptr,
          Mem ''prev'' Ptr]),
        Mem ''list'' arm_sk_buff_list]),
      Mem ''qlen'' arm_t___u32,
      Mem ''lock'' arm_t_spinlock_t]"

lemma arm_sk_buff_head_lay [c_layout]: "lay ILP32 arm_sk_buff_head = (12, 4)"
  by (simp add: arm_sk_buff_head_def c_layout layout_eval)

definition arm_t_u16 :: ctype where
  "arm_t_u16 = arm_t___u16"

declare arm_t_u16_def [c_layout]

definition arm_t_u8 :: ctype where
  "arm_t_u8 = arm_t___u8"

declare arm_t_u8_def [c_layout]

definition arm_list_head :: ctype where
  "arm_list_head = Struct [
      Mem ''next'' Ptr,
      Mem ''prev'' Ptr]"

lemma arm_list_head_lay [c_layout]: "lay ILP32 arm_list_head = (8, 4)"
  by (simp add: arm_list_head_def c_layout layout_eval)

definition arm_wait_queue_head :: ctype where
  "arm_wait_queue_head = Struct [
      Mem ''lock'' arm_t_spinlock_t,
      Mem ''head'' arm_list_head]"

lemma arm_wait_queue_head_lay [c_layout]: "lay ILP32 arm_wait_queue_head = (8, 4)"
  by (simp add: arm_wait_queue_head_def c_layout layout_eval)

definition arm_t_wait_queue_head_t :: ctype where
  "arm_t_wait_queue_head_t = arm_wait_queue_head"

declare arm_t_wait_queue_head_t_def [c_layout]

definition arm_t_socket_lock_t :: ctype where
  "arm_t_socket_lock_t = Struct [
      Mem ''slock'' arm_t_spinlock_t,
      Mem ''owned'' (Prim CInt),
      Mem ''wq'' arm_t_wait_queue_head_t]"

lemma arm_t_socket_lock_t_lay [c_layout]: "lay ILP32 arm_t_socket_lock_t = (12, 4)"
  by (simp add: arm_t_socket_lock_t_def c_layout layout_eval)

definition arm_rb_root :: ctype where
  "arm_rb_root = Struct [
      Mem ''rb_node'' Ptr]"

lemma arm_rb_root_lay [c_layout]: "lay ILP32 arm_rb_root = (4, 4)"
  by (simp add: arm_rb_root_def c_layout layout_eval)

definition arm_page_frag :: ctype where
  "arm_page_frag = Struct [
      Mem ''page'' Ptr,
      Mem ''offset'' arm_t___u16,
      Mem ''size'' arm_t___u16]"

lemma arm_page_frag_lay [c_layout]: "lay ILP32 arm_page_frag = (8, 4)"
  by (simp add: arm_page_frag_def c_layout layout_eval)

definition arm_timer_list :: ctype where
  "arm_timer_list = Struct [
      Mem ''entry'' arm_hlist_node,
      Mem ''expires'' (Prim CLong),
      Mem ''function'' Ptr,
      Mem ''flags'' arm_t_u32]"

lemma arm_timer_list_lay [c_layout]: "lay ILP32 arm_timer_list = (20, 4)"
  by (simp add: arm_timer_list_def c_layout layout_eval)

definition arm_t_u64 :: ctype where
  "arm_t_u64 = arm_t___u64"

declare arm_t_u64_def [c_layout]

definition arm_t_netdev_features_t :: ctype where
  "arm_t_netdev_features_t = arm_t_u64"

declare arm_t_netdev_features_t_def [c_layout]

definition arm_t_gfp_t :: ctype where
  "arm_t_gfp_t = Prim CInt"

declare arm_t_gfp_t_def [c_layout]

definition arm_t_bool :: ctype where
  "arm_t_bool = Prim CBool"

declare arm_t_bool_def [c_layout]

definition arm_t_arch_rwlock_t :: ctype where
  "arm_t_arch_rwlock_t = Struct []"

lemma arm_t_arch_rwlock_t_lay [c_layout]: "lay ILP32 arm_t_arch_rwlock_t = (0, 1)"
  by (simp add: arm_t_arch_rwlock_t_def c_layout layout_eval)

definition arm_t_rwlock_t :: ctype where
  "arm_t_rwlock_t = Struct [
      Mem ''raw_lock'' arm_t_arch_rwlock_t]"

lemma arm_t_rwlock_t_lay [c_layout]: "lay ILP32 arm_t_rwlock_t = (0, 1)"
  by (simp add: arm_t_rwlock_t_def c_layout layout_eval)

definition arm_t___kernel_uid32_t :: ctype where
  "arm_t___kernel_uid32_t = Prim CInt"

declare arm_t___kernel_uid32_t_def [c_layout]

definition arm_t_uid_t :: ctype where
  "arm_t_uid_t = arm_t___kernel_uid32_t"

declare arm_t_uid_t_def [c_layout]

definition arm_t_kuid_t :: ctype where
  "arm_t_kuid_t = Struct [
      Mem ''val'' arm_t_uid_t]"

lemma arm_t_kuid_t_lay [c_layout]: "lay ILP32 arm_t_kuid_t = (4, 4)"
  by (simp add: arm_t_kuid_t_def c_layout layout_eval)

definition arm_t_ktime_t :: ctype where
  "arm_t_ktime_t = arm_t_s64"

declare arm_t_ktime_t_def [c_layout]

definition arm_seqcount :: ctype where
  "arm_seqcount = Struct [
      Mem ''sequence'' (Prim CInt)]"

lemma arm_seqcount_lay [c_layout]: "lay ILP32 arm_seqcount = (4, 4)"
  by (simp add: arm_seqcount_def c_layout layout_eval)

definition arm_t_seqcount_t :: ctype where
  "arm_t_seqcount_t = arm_seqcount"

declare arm_t_seqcount_t_def [c_layout]

definition arm_seqcount_spinlock :: ctype where
  "arm_seqcount_spinlock = Struct [
      Mem ''seqcount'' arm_t_seqcount_t]"

lemma arm_seqcount_spinlock_lay [c_layout]: "lay ILP32 arm_seqcount_spinlock = (4, 4)"
  by (simp add: arm_seqcount_spinlock_def c_layout layout_eval)

definition arm_t_seqcount_spinlock_t :: ctype where
  "arm_t_seqcount_spinlock_t = arm_seqcount_spinlock"

declare arm_t_seqcount_spinlock_t_def [c_layout]

definition arm_t_seqlock_t :: ctype where
  "arm_t_seqlock_t = Struct [
      Mem ''seqcount'' arm_t_seqcount_spinlock_t,
      Mem ''lock'' arm_t_spinlock_t]"

lemma arm_t_seqlock_t_lay [c_layout]: "lay ILP32 arm_t_seqlock_t = (4, 4)"
  by (simp add: arm_t_seqlock_t_def c_layout layout_eval)

definition arm_sock_cgroup_data :: ctype where
  "arm_sock_cgroup_data = Struct []"

lemma arm_sock_cgroup_data_lay [c_layout]: "lay ILP32 arm_sock_cgroup_data = (0, 1)"
  by (simp add: arm_sock_cgroup_data_def c_layout layout_eval)

definition arm_callback_head :: ctype where
  "arm_callback_head = Struct [
      Mem ''next'' Ptr,
      Mem ''func'' Ptr]"

lemma arm_callback_head_lay [c_layout]: "lay ILP32 arm_callback_head = (8, 4)"
  by (simp add: arm_callback_head_def c_layout layout_eval)

definition arm_t_netns_tracker :: ctype where
  "arm_t_netns_tracker = Struct []"

lemma arm_t_netns_tracker_lay [c_layout]: "lay ILP32 arm_t_netns_tracker = (0, 1)"
  by (simp add: arm_t_netns_tracker_def c_layout layout_eval)

definition arm_xarray :: ctype where
  "arm_xarray = Struct [
      Mem ''xa_lock'' arm_t_spinlock_t,
      Mem ''xa_flags'' arm_t_gfp_t,
      Mem ''xa_head'' Ptr]"

lemma arm_xarray_lay [c_layout]: "lay ILP32 arm_xarray = (8, 4)"
  by (simp add: arm_xarray_def c_layout layout_eval)

definition arm_sock :: ctype where
  "arm_sock = Struct [
      Mem ''__sk_common'' arm_sock_common,
      Mem ''__cacheline_group_begin__sock_write_rx'' (Arr arm_t___u8 0),
      Mem ''sk_drops'' arm_t_atomic_t,
      Mem ''sk_peek_off'' arm_t___s32,
      Mem ''sk_error_queue'' arm_sk_buff_head,
      Mem ''sk_receive_queue'' arm_sk_buff_head,
      Mem ''sk_backlog'' (Struct [
        Mem ''rmem_alloc'' arm_t_atomic_t,
        Mem ''len'' (Prim CInt),
        Mem ''head'' Ptr,
        Mem ''tail'' Ptr]),
      Mem ''__cacheline_group_end__sock_write_rx'' (Arr arm_t___u8 0),
      Mem ''__cacheline_group_begin__sock_read_rx'' (Arr arm_t___u8 0),
      Mem ''sk_rx_dst'' Ptr,
      Mem ''sk_rx_dst_ifindex'' (Prim CInt),
      Mem ''sk_rx_dst_cookie'' arm_t_u32,
      Mem ''sk_ll_usec'' (Prim CInt),
      Mem ''sk_napi_id'' (Prim CInt),
      Mem ''sk_busy_poll_budget'' arm_t_u16,
      Mem ''sk_prefer_busy_poll'' arm_t_u8,
      Mem ''sk_userlocks'' arm_t_u8,
      Mem ''sk_rcvbuf'' (Prim CInt),
      Mem ''sk_filter'' Ptr,
      Anon (Union [
        Mem ''sk_wq'' Ptr,
        Mem ''sk_wq_raw'' Ptr]),
      Mem ''sk_data_ready'' Ptr,
      Mem ''sk_rcvtimeo'' (Prim CLong),
      Mem ''sk_rcvlowat'' (Prim CInt),
      Mem ''__cacheline_group_end__sock_read_rx'' (Arr arm_t___u8 0),
      Mem ''__cacheline_group_begin__sock_read_rxtx'' (Arr arm_t___u8 0),
      Mem ''sk_err'' (Prim CInt),
      Mem ''sk_socket'' Ptr,
      Mem ''sk_memcg'' Ptr,
      Mem ''__cacheline_group_end__sock_read_rxtx'' (Arr arm_t___u8 0),
      Mem ''__cacheline_group_begin__sock_write_rxtx'' (Arr arm_t___u8 0),
      Mem ''sk_lock'' arm_t_socket_lock_t,
      Mem ''sk_reserved_mem'' arm_t_u32,
      Mem ''sk_forward_alloc'' (Prim CInt),
      Mem ''sk_tsflags'' arm_t_u32,
      Mem ''__cacheline_group_end__sock_write_rxtx'' (Arr arm_t___u8 0),
      Mem ''__cacheline_group_begin__sock_write_tx'' (Arr arm_t___u8 0),
      Mem ''sk_write_pending'' (Prim CInt),
      Mem ''sk_omem_alloc'' arm_t_atomic_t,
      Mem ''sk_sndbuf'' (Prim CInt),
      Mem ''sk_wmem_queued'' (Prim CInt),
      Mem ''sk_wmem_alloc'' arm_t_refcount_t,
      Mem ''sk_tsq_flags'' (Prim CLong),
      Anon (Union [
        Mem ''sk_send_head'' Ptr,
        Mem ''tcp_rtx_queue'' arm_rb_root]),
      Mem ''sk_write_queue'' arm_sk_buff_head,
      Mem ''sk_dst_pending_confirm'' arm_t_u32,
      Mem ''sk_pacing_status'' arm_t_u32,
      Mem ''sk_frag'' arm_page_frag,
      Mem ''sk_timer'' arm_timer_list,
      Mem ''sk_pacing_rate'' (Prim CLong),
      Mem ''sk_zckey'' arm_t_atomic_t,
      Mem ''sk_tskey'' arm_t_atomic_t,
      Mem ''__cacheline_group_end__sock_write_tx'' (Arr arm_t___u8 0),
      Mem ''__cacheline_group_begin__sock_read_tx'' (Arr arm_t___u8 0),
      Mem ''sk_max_pacing_rate'' (Prim CLong),
      Mem ''sk_sndtimeo'' (Prim CLong),
      Mem ''sk_priority'' arm_t_u32,
      Mem ''sk_mark'' arm_t_u32,
      Mem ''sk_dst_cache'' Ptr,
      Mem ''sk_route_caps'' arm_t_netdev_features_t,
      Mem ''sk_gso_type'' arm_t_u16,
      Mem ''sk_gso_max_segs'' arm_t_u16,
      Mem ''sk_gso_max_size'' (Prim CInt),
      Mem ''sk_allocation'' arm_t_gfp_t,
      Mem ''sk_txhash'' arm_t_u32,
      Mem ''sk_pacing_shift'' arm_t_u8,
      Mem ''sk_use_task_frag'' arm_t_bool,
      Mem ''__cacheline_group_end__sock_read_tx'' (Arr arm_t___u8 0),
      Bits ''sk_gso_disabled'' arm_t_u8 1,
      Bits ''sk_kern_sock'' arm_t_u8 1,
      Bits ''sk_no_check_tx'' arm_t_u8 1,
      Bits ''sk_no_check_rx'' arm_t_u8 1,
      Mem ''sk_shutdown'' arm_t_u8,
      Mem ''sk_type'' arm_t_u16,
      Mem ''sk_protocol'' arm_t_u16,
      Mem ''sk_lingertime'' (Prim CLong),
      Mem ''sk_prot_creator'' Ptr,
      Mem ''sk_callback_lock'' arm_t_rwlock_t,
      Mem ''sk_err_soft'' (Prim CInt),
      Mem ''sk_ack_backlog'' arm_t_u32,
      Mem ''sk_max_ack_backlog'' arm_t_u32,
      Mem ''sk_uid'' arm_t_kuid_t,
      Mem ''sk_peer_lock'' arm_t_spinlock_t,
      Mem ''sk_bind_phc'' (Prim CInt),
      Mem ''sk_peer_pid'' Ptr,
      Mem ''sk_peer_cred'' Ptr,
      Bits '''' (Prim CLong) 32,
      Mem ''sk_stamp'' arm_t_ktime_t,
      Mem ''sk_stamp_seq'' arm_t_seqlock_t,
      Mem ''sk_disconnects'' (Prim CInt),
      Mem ''sk_txrehash'' arm_t_u8,
      Mem ''sk_clockid'' arm_t_u8,
      Bits ''sk_txtime_deadline_mode'' arm_t_u8 1,
      Bits ''sk_txtime_report_errors'' arm_t_u8 1,
      Bits ''sk_txtime_unused'' arm_t_u8 6,
      Mem ''sk_user_data'' Ptr,
      Mem ''sk_cgrp_data'' arm_sock_cgroup_data,
      Mem ''sk_state_change'' Ptr,
      Mem ''sk_write_space'' Ptr,
      Mem ''sk_error_report'' Ptr,
      Mem ''sk_backlog_rcv'' Ptr,
      Mem ''sk_destruct'' Ptr,
      Mem ''sk_reuseport_cb'' Ptr,
      Mem ''sk_bpf_storage'' Ptr,
      Mem ''sk_rcu'' arm_callback_head,
      Mem ''ns_tracker'' arm_t_netns_tracker,
      Mem ''sk_user_frags'' arm_xarray,
      Bits '''' (Prim CLong) 32]"

lemma arm_sock_lay [c_layout]: "lay ILP32 arm_sock = (496, 8)"
  by (simp add: arm_sock_def c_layout layout_eval)

definition arm_t___kernel_size_t :: ctype where
  "arm_t___kernel_size_t = Prim CInt"

declare arm_t___kernel_size_t_def [c_layout]

definition arm_t_size_t :: ctype where
  "arm_t_size_t = arm_t___kernel_size_t"

declare arm_t_size_t_def [c_layout]

definition arm_iovec :: ctype where
  "arm_iovec = Struct [
      Mem ''iov_base'' Ptr,
      Mem ''iov_len'' arm_t___kernel_size_t]"

lemma arm_iovec_lay [c_layout]: "lay ILP32 arm_iovec = (8, 4)"
  by (simp add: arm_iovec_def c_layout layout_eval)

definition arm_t___kernel_loff_t :: ctype where
  "arm_t___kernel_loff_t = Prim CLongLong"

declare arm_t___kernel_loff_t_def [c_layout]

definition arm_t_loff_t :: ctype where
  "arm_t_loff_t = arm_t___kernel_loff_t"

declare arm_t_loff_t_def [c_layout]

definition arm_iov_iter :: ctype where
  "arm_iov_iter = Struct [
      Mem ''iter_type'' arm_t_u8,
      Mem ''nofault'' arm_t_bool,
      Mem ''data_source'' arm_t_bool,
      Mem ''iov_offset'' arm_t_size_t,
      Anon (Union [
        Mem ''__ubuf_iovec'' arm_iovec,
        Anon (Struct [
          Anon (Union [
            Mem ''__iov'' Ptr,
            Mem ''kvec'' Ptr,
            Mem ''bvec'' Ptr,
            Mem ''folioq'' Ptr,
            Mem ''xarray'' Ptr,
            Mem ''ubuf'' Ptr]),
          Mem ''count'' arm_t_size_t])]),
      Anon (Union [
        Mem ''nr_segs'' (Prim CLong),
        Mem ''folioq_slot'' arm_t_u8,
        Mem ''xarray_start'' arm_t_loff_t])]"

lemma arm_iov_iter_lay [c_layout]: "lay ILP32 arm_iov_iter = (24, 8)"
  by (simp add: arm_iov_iter_def c_layout layout_eval)

definition arm_msghdr :: ctype where
  "arm_msghdr = Struct [
      Mem ''msg_name'' Ptr,
      Mem ''msg_namelen'' (Prim CInt),
      Mem ''msg_inq'' (Prim CInt),
      Bits '''' (Prim CLong) 32,
      Mem ''msg_iter'' arm_iov_iter,
      Anon (Union [
        Mem ''msg_control'' Ptr,
        Mem ''msg_control_user'' Ptr]),
      Bits ''msg_control_is_user'' arm_t_bool 1,
      Bits ''msg_get_inq'' arm_t_bool 1,
      Mem ''msg_flags'' (Prim CInt),
      Mem ''msg_controllen'' arm_t___kernel_size_t,
      Mem ''msg_iocb'' Ptr,
      Mem ''msg_ubuf'' Ptr,
      Mem ''sg_from_iter'' Ptr,
      Bits '''' (Prim CLong) 32]"

lemma arm_msghdr_lay [c_layout]: "lay ILP32 arm_msghdr = (72, 8)"
  by (simp add: arm_msghdr_def c_layout layout_eval)

definition arm_t___kernel_sa_family_t :: ctype where
  "arm_t___kernel_sa_family_t = Prim CShort"

declare arm_t___kernel_sa_family_t_def [c_layout]

definition arm_in_addr :: ctype where
  "arm_in_addr = Struct [
      Mem ''s_addr'' arm_t___be32]"

lemma arm_in_addr_lay [c_layout]: "lay ILP32 arm_in_addr = (4, 4)"
  by (simp add: arm_in_addr_def c_layout layout_eval)

definition arm_sockaddr_in :: ctype where
  "arm_sockaddr_in = Struct [
      Mem ''sin_family'' arm_t___kernel_sa_family_t,
      Mem ''sin_port'' arm_t___be16,
      Mem ''sin_addr'' arm_in_addr,
      Mem ''__pad'' (Arr (Prim CChar) 8)]"

lemma arm_sockaddr_in_lay [c_layout]: "lay ILP32 arm_sockaddr_in = (16, 4)"
  by (simp add: arm_sockaddr_in_def c_layout layout_eval)

definition arm_sockaddr_in6 :: ctype where
  "arm_sockaddr_in6 = Struct [
      Mem ''sin6_family'' (Prim CShort),
      Mem ''sin6_port'' arm_t___be16,
      Mem ''sin6_flowinfo'' arm_t___be32,
      Mem ''sin6_addr'' arm_in6_addr,
      Mem ''sin6_scope_id'' arm_t___u32]"

lemma arm_sockaddr_in6_lay [c_layout]: "lay ILP32 arm_sockaddr_in6 = (28, 4)"
  by (simp add: arm_sockaddr_in6_def c_layout layout_eval)

definition arm_cpu_context_save :: ctype where
  "arm_cpu_context_save = Struct [
      Mem ''r4'' arm_t___u32,
      Mem ''r5'' arm_t___u32,
      Mem ''r6'' arm_t___u32,
      Mem ''r7'' arm_t___u32,
      Mem ''r8'' arm_t___u32,
      Mem ''r9'' arm_t___u32,
      Mem ''sl'' arm_t___u32,
      Mem ''fp'' arm_t___u32,
      Mem ''sp'' arm_t___u32,
      Mem ''pc'' arm_t___u32,
      Mem ''extra'' (Arr arm_t___u32 2)]"

lemma arm_cpu_context_save_lay [c_layout]: "lay ILP32 arm_cpu_context_save = (48, 4)"
  by (simp add: arm_cpu_context_save_def c_layout layout_eval)

definition arm_fp_hard_struct :: ctype where
  "arm_fp_hard_struct = Struct [
      Mem ''save'' (Arr (Prim CInt) 35)]"

lemma arm_fp_hard_struct_lay [c_layout]: "lay ILP32 arm_fp_hard_struct = (140, 4)"
  by (simp add: arm_fp_hard_struct_def c_layout layout_eval)

definition arm_fp_soft_struct :: ctype where
  "arm_fp_soft_struct = Struct [
      Mem ''save'' (Arr (Prim CInt) 35)]"

lemma arm_fp_soft_struct_lay [c_layout]: "lay ILP32 arm_fp_soft_struct = (140, 4)"
  by (simp add: arm_fp_soft_struct_def c_layout layout_eval)

definition arm_fp_state :: ctype where
  "arm_fp_state = Union [
      Mem ''hard'' arm_fp_hard_struct,
      Mem ''soft'' arm_fp_soft_struct]"

lemma arm_fp_state_lay [c_layout]: "lay ILP32 arm_fp_state = (140, 4)"
  by (simp add: arm_fp_state_def c_layout layout_eval)

definition arm_vfp_hard_struct :: ctype where
  "arm_vfp_hard_struct = Struct [
      Mem ''fpregs'' (Arr arm_t___u64 16),
      Mem ''fpexc'' arm_t___u32,
      Mem ''fpscr'' arm_t___u32,
      Mem ''fpinst'' arm_t___u32,
      Mem ''fpinst2'' arm_t___u32]"

lemma arm_vfp_hard_struct_lay [c_layout]: "lay ILP32 arm_vfp_hard_struct = (144, 8)"
  by (simp add: arm_vfp_hard_struct_def c_layout layout_eval)

definition arm_vfp_state :: ctype where
  "arm_vfp_state = Union [
      Mem ''hard'' arm_vfp_hard_struct]"

lemma arm_vfp_state_lay [c_layout]: "lay ILP32 arm_vfp_state = (144, 8)"
  by (simp add: arm_vfp_state_def c_layout layout_eval)

definition arm_thread_info :: ctype where
  "arm_thread_info = Struct [
      Mem ''flags'' (Prim CLong),
      Mem ''preempt_count'' (Prim CInt),
      Mem ''cpu'' arm_t___u32,
      Mem ''cpu_domain'' arm_t___u32,
      Mem ''cpu_context'' arm_cpu_context_save,
      Mem ''abi_syscall'' arm_t___u32,
      Mem ''tp_value'' (Arr (Prim CLong) 2),
      Bits '''' (Prim CLong) 32,
      Mem ''fpstate'' arm_fp_state,
      Bits '''' (Prim CLong) 32,
      Mem ''vfpstate'' arm_vfp_state]"

lemma arm_thread_info_lay [c_layout]: "lay ILP32 arm_thread_info = (368, 8)"
  by (simp add: arm_thread_info_def c_layout layout_eval)

definition arm_load_weight :: ctype where
  "arm_load_weight = Struct [
      Mem ''weight'' (Prim CLong),
      Mem ''inv_weight'' arm_t_u32]"

lemma arm_load_weight_lay [c_layout]: "lay ILP32 arm_load_weight = (8, 4)"
  by (simp add: arm_load_weight_def c_layout layout_eval)

definition arm_rb_node :: ctype where
  "arm_rb_node = Struct [
      Mem ''__rb_parent_color'' (Prim CLong),
      Mem ''rb_right'' Ptr,
      Mem ''rb_left'' Ptr]"

lemma arm_rb_node_lay [c_layout]: "lay ILP32 arm_rb_node = (12, 4)"
  by (simp add: arm_rb_node_def c_layout layout_eval)

definition arm_sched_entity :: ctype where
  "arm_sched_entity = Struct [
      Mem ''load'' arm_load_weight,
      Mem ''run_node'' arm_rb_node,
      Bits '''' (Prim CLong) 32,
      Mem ''deadline'' arm_t_u64,
      Mem ''min_vruntime'' arm_t_u64,
      Mem ''min_slice'' arm_t_u64,
      Mem ''group_node'' arm_list_head,
      Mem ''on_rq'' (Prim CChar),
      Mem ''sched_delayed'' (Prim CChar),
      Mem ''rel_deadline'' (Prim CChar),
      Mem ''custom_slice'' (Prim CChar),
      Bits '''' (Prim CLong) 32,
      Mem ''exec_start'' arm_t_u64,
      Mem ''sum_exec_runtime'' arm_t_u64,
      Mem ''prev_sum_exec_runtime'' arm_t_u64,
      Mem ''vruntime'' arm_t_u64,
      Mem ''vlag'' arm_t_s64,
      Mem ''slice'' arm_t_u64,
      Mem ''nr_migrations'' arm_t_u64]"

lemma arm_sched_entity_lay [c_layout]: "lay ILP32 arm_sched_entity = (120, 8)"
  by (simp add: arm_sched_entity_def c_layout layout_eval)

definition arm_sched_rt_entity :: ctype where
  "arm_sched_rt_entity = Struct [
      Mem ''run_list'' arm_list_head,
      Mem ''timeout'' (Prim CLong),
      Mem ''watchdog_stamp'' (Prim CLong),
      Mem ''time_slice'' (Prim CInt),
      Mem ''on_rq'' (Prim CShort),
      Mem ''on_list'' (Prim CShort),
      Mem ''back'' Ptr]"

lemma arm_sched_rt_entity_lay [c_layout]: "lay ILP32 arm_sched_rt_entity = (28, 4)"
  by (simp add: arm_sched_rt_entity_def c_layout layout_eval)

definition arm_timerqueue_node :: ctype where
  "arm_timerqueue_node = Struct [
      Mem ''node'' arm_rb_node,
      Bits '''' (Prim CLong) 32,
      Mem ''expires'' arm_t_ktime_t]"

lemma arm_timerqueue_node_lay [c_layout]: "lay ILP32 arm_timerqueue_node = (24, 8)"
  by (simp add: arm_timerqueue_node_def c_layout layout_eval)

definition arm_hrtimer :: ctype where
  "arm_hrtimer = Struct [
      Mem ''node'' arm_timerqueue_node,
      Mem ''_softexpires'' arm_t_ktime_t,
      Mem ''function'' Ptr,
      Mem ''base'' Ptr,
      Mem ''state'' arm_t_u8,
      Mem ''is_rel'' arm_t_u8,
      Mem ''is_soft'' arm_t_u8,
      Mem ''is_hard'' arm_t_u8,
      Bits '''' (Prim CLong) 32]"

lemma arm_hrtimer_lay [c_layout]: "lay ILP32 arm_hrtimer = (48, 8)"
  by (simp add: arm_hrtimer_def c_layout layout_eval)

definition arm_t_dl_server_has_tasks_f :: ctype where
  "arm_t_dl_server_has_tasks_f = Ptr"

declare arm_t_dl_server_has_tasks_f_def [c_layout]

definition arm_t_dl_server_pick_f :: ctype where
  "arm_t_dl_server_pick_f = Ptr"

declare arm_t_dl_server_pick_f_def [c_layout]

definition arm_sched_dl_entity :: ctype where
  "arm_sched_dl_entity = Struct [
      Mem ''rb_node'' arm_rb_node,
      Bits '''' (Prim CLong) 32,
      Mem ''dl_runtime'' arm_t_u64,
      Mem ''dl_deadline'' arm_t_u64,
      Mem ''dl_period'' arm_t_u64,
      Mem ''dl_bw'' arm_t_u64,
      Mem ''dl_density'' arm_t_u64,
      Mem ''runtime'' arm_t_s64,
      Mem ''deadline'' arm_t_u64,
      Mem ''flags'' (Prim CInt),
      Bits ''dl_throttled'' (Prim CInt) 1,
      Bits ''dl_yielded'' (Prim CInt) 1,
      Bits ''dl_non_contending'' (Prim CInt) 1,
      Bits ''dl_overrun'' (Prim CInt) 1,
      Bits ''dl_server'' (Prim CInt) 1,
      Bits ''dl_server_active'' (Prim CInt) 1,
      Bits ''dl_defer'' (Prim CInt) 1,
      Bits ''dl_defer_armed'' (Prim CInt) 1,
      Bits ''dl_defer_running'' (Prim CInt) 1,
      Mem ''dl_timer'' arm_hrtimer,
      Mem ''inactive_timer'' arm_hrtimer,
      Mem ''rq'' Ptr,
      Mem ''server_has_tasks'' arm_t_dl_server_has_tasks_f,
      Mem ''server_pick_task'' arm_t_dl_server_pick_f,
      Bits '''' (Prim CLong) 32]"

lemma arm_sched_dl_entity_lay [c_layout]: "lay ILP32 arm_sched_dl_entity = (192, 8)"
  by (simp add: arm_sched_dl_entity_def c_layout layout_eval)

definition arm_sched_statistics :: ctype where
  "arm_sched_statistics = Struct []"

lemma arm_sched_statistics_lay [c_layout]: "lay ILP32 arm_sched_statistics = (0, 1)"
  by (simp add: arm_sched_statistics_def c_layout layout_eval)

definition arm_cpumask :: ctype where
  "arm_cpumask = Struct [
      Mem ''bits'' (Arr (Prim CLong) 1)]"

lemma arm_cpumask_lay [c_layout]: "lay ILP32 arm_cpumask = (4, 4)"
  by (simp add: arm_cpumask_def c_layout layout_eval)

definition arm_t_cpumask_t :: ctype where
  "arm_t_cpumask_t = arm_cpumask"

declare arm_t_cpumask_t_def [c_layout]

definition arm_rcu_special :: ctype where
  "arm_rcu_special = Union [
      Mem ''b'' (Struct [
        Mem ''blocked'' arm_t_u8,
        Mem ''need_qs'' arm_t_u8,
        Mem ''exp_hint'' arm_t_u8,
        Mem ''need_mb'' arm_t_u8]),
      Mem ''s'' arm_t_u32]"

lemma arm_rcu_special_lay [c_layout]: "lay ILP32 arm_rcu_special = (4, 4)"
  by (simp add: arm_rcu_special_def c_layout layout_eval)

definition arm_sched_info :: ctype where
  "arm_sched_info = Struct []"

lemma arm_sched_info_lay [c_layout]: "lay ILP32 arm_sched_info = (0, 1)"
  by (simp add: arm_sched_info_def c_layout layout_eval)

definition arm_t___kernel_clockid_t :: ctype where
  "arm_t___kernel_clockid_t = Prim CInt"

declare arm_t___kernel_clockid_t_def [c_layout]

definition arm_t_clockid_t :: ctype where
  "arm_t_clockid_t = arm_t___kernel_clockid_t"

declare arm_t_clockid_t_def [c_layout]

definition arm_timespec_type :: ctype where
  "arm_timespec_type = Enum [(''TT_NONE'', 0), (''TT_NATIVE'', 1), (''TT_COMPAT'', 2)]"

lemma arm_timespec_type_lay [c_layout]: "lay ILP32 arm_timespec_type = (4, 4)"
  by (simp add: arm_timespec_type_def c_layout layout_eval)

definition arm_restart_block :: ctype where
  "arm_restart_block = Struct [
      Mem ''arch_data'' (Prim CLong),
      Mem ''fn'' Ptr,
      Anon (Union [
        Mem ''futex'' (Struct [
          Mem ''uaddr'' Ptr,
          Mem ''val'' arm_t_u32,
          Mem ''flags'' arm_t_u32,
          Mem ''bitset'' arm_t_u32,
          Mem ''time'' arm_t_u64,
          Mem ''uaddr2'' Ptr,
          Bits '''' (Prim CLong) 32]),
        Mem ''nanosleep'' (Struct [
          Mem ''clockid'' arm_t_clockid_t,
          Mem ''type'' arm_timespec_type,
          Anon (Union [
            Mem ''rmtp'' Ptr,
            Mem ''compat_rmtp'' Ptr]),
          Bits '''' (Prim CLong) 32,
          Mem ''expires'' arm_t_u64]),
        Mem ''poll'' (Struct [
          Mem ''ufds'' Ptr,
          Mem ''nfds'' (Prim CInt),
          Mem ''has_timeout'' (Prim CInt),
          Mem ''tv_sec'' (Prim CLong),
          Mem ''tv_nsec'' (Prim CLong)])])]"

lemma arm_restart_block_lay [c_layout]: "lay ILP32 arm_restart_block = (40, 8)"
  by (simp add: arm_restart_block_def c_layout layout_eval)

definition arm_t___kernel_pid_t :: ctype where
  "arm_t___kernel_pid_t = Prim CInt"

declare arm_t___kernel_pid_t_def [c_layout]

definition arm_t_pid_t :: ctype where
  "arm_t_pid_t = arm_t___kernel_pid_t"

declare arm_t_pid_t_def [c_layout]

definition arm_t_raw_spinlock_t :: ctype where
  "arm_t_raw_spinlock_t = arm_raw_spinlock"

declare arm_t_raw_spinlock_t_def [c_layout]

definition arm_prev_cputime :: ctype where
  "arm_prev_cputime = Struct [
      Mem ''utime'' arm_t_u64,
      Mem ''stime'' arm_t_u64,
      Mem ''lock'' arm_t_raw_spinlock_t]"

lemma arm_prev_cputime_lay [c_layout]: "lay ILP32 arm_prev_cputime = (16, 8)"
  by (simp add: arm_prev_cputime_def c_layout layout_eval)

definition arm_posix_cputimers :: ctype where
  "arm_posix_cputimers = Struct []"

lemma arm_posix_cputimers_lay [c_layout]: "lay ILP32 arm_posix_cputimers = (0, 1)"
  by (simp add: arm_posix_cputimers_def c_layout layout_eval)

definition arm_t_sigset_t :: ctype where
  "arm_t_sigset_t = Struct [
      Mem ''sig'' (Arr (Prim CLong) 2)]"

lemma arm_t_sigset_t_lay [c_layout]: "lay ILP32 arm_t_sigset_t = (8, 4)"
  by (simp add: arm_t_sigset_t_def c_layout layout_eval)

definition arm_sigpending :: ctype where
  "arm_sigpending = Struct [
      Mem ''list'' arm_list_head,
      Mem ''signal'' arm_t_sigset_t]"

lemma arm_sigpending_lay [c_layout]: "lay ILP32 arm_sigpending = (16, 4)"
  by (simp add: arm_sigpending_def c_layout layout_eval)

definition arm_seccomp :: ctype where
  "arm_seccomp = Struct []"

lemma arm_seccomp_lay [c_layout]: "lay ILP32 arm_seccomp = (0, 1)"
  by (simp add: arm_seccomp_def c_layout layout_eval)

definition arm_syscall_user_dispatch :: ctype where
  "arm_syscall_user_dispatch = Struct []"

lemma arm_syscall_user_dispatch_lay [c_layout]: "lay ILP32 arm_syscall_user_dispatch = (0, 1)"
  by (simp add: arm_syscall_user_dispatch_def c_layout layout_eval)

definition arm_wake_q_node :: ctype where
  "arm_wake_q_node = Struct [
      Mem ''next'' Ptr]"

lemma arm_wake_q_node_lay [c_layout]: "lay ILP32 arm_wake_q_node = (4, 4)"
  by (simp add: arm_wake_q_node_def c_layout layout_eval)

definition arm_task_io_accounting :: ctype where
  "arm_task_io_accounting = Struct []"

lemma arm_task_io_accounting_lay [c_layout]: "lay ILP32 arm_task_io_accounting = (0, 1)"
  by (simp add: arm_task_io_accounting_def c_layout layout_eval)

definition arm_t_atomic_long_t :: ctype where
  "arm_t_atomic_long_t = arm_t_atomic_t"

declare arm_t_atomic_long_t_def [c_layout]

definition arm_mutex :: ctype where
  "arm_mutex = Struct [
      Mem ''owner'' arm_t_atomic_long_t,
      Mem ''wait_lock'' arm_t_raw_spinlock_t,
      Mem ''wait_list'' arm_list_head]"

lemma arm_mutex_lay [c_layout]: "lay ILP32 arm_mutex = (12, 4)"
  by (simp add: arm_mutex_def c_layout layout_eval)

definition arm_tlbflush_unmap_batch :: ctype where
  "arm_tlbflush_unmap_batch = Struct []"

lemma arm_tlbflush_unmap_batch_lay [c_layout]: "lay ILP32 arm_tlbflush_unmap_batch = (0, 1)"
  by (simp add: arm_tlbflush_unmap_batch_def c_layout layout_eval)

definition arm_kmap_ctrl :: ctype where
  "arm_kmap_ctrl = Struct []"

lemma arm_kmap_ctrl_lay [c_layout]: "lay ILP32 arm_kmap_ctrl = (0, 1)"
  by (simp add: arm_kmap_ctrl_def c_layout layout_eval)

definition arm_llist_head :: ctype where
  "arm_llist_head = Struct [
      Mem ''first'' Ptr]"

lemma arm_llist_head_lay [c_layout]: "lay ILP32 arm_llist_head = (4, 4)"
  by (simp add: arm_llist_head_def c_layout layout_eval)

definition arm_debug_info :: ctype where
  "arm_debug_info = Struct [
      Mem ''hbp'' (Arr Ptr 32)]"

lemma arm_debug_info_lay [c_layout]: "lay ILP32 arm_debug_info = (128, 4)"
  by (simp add: arm_debug_info_def c_layout layout_eval)

definition arm_thread_struct :: ctype where
  "arm_thread_struct = Struct [
      Mem ''address'' (Prim CLong),
      Mem ''trap_no'' (Prim CLong),
      Mem ''error_code'' (Prim CLong),
      Mem ''debug'' arm_debug_info]"

lemma arm_thread_struct_lay [c_layout]: "lay ILP32 arm_thread_struct = (140, 4)"
  by (simp add: arm_thread_struct_def c_layout layout_eval)

definition arm_task_struct_members1 :: "cmember list" where
  "arm_task_struct_members1 = [
    Mem ''thread_info'' arm_thread_info,
    Mem ''__state'' (Prim CInt),
    Mem ''saved_state'' (Prim CInt),
    Mem ''stack'' Ptr,
    Mem ''usage'' arm_t_refcount_t,
    Mem ''flags'' (Prim CInt),
    Mem ''ptrace'' (Prim CInt),
    Mem ''on_rq'' (Prim CInt),
    Mem ''prio'' (Prim CInt),
    Mem ''static_prio'' (Prim CInt),
    Mem ''normal_prio'' (Prim CInt),
    Mem ''rt_priority'' (Prim CInt),
    Bits '''' (Prim CLong) 32,
    Mem ''se'' arm_sched_entity,
    Mem ''rt'' arm_sched_rt_entity,
    Bits '''' (Prim CLong) 32,
    Mem ''dl'' arm_sched_dl_entity,
    Mem ''dl_server'' Ptr,
    Mem ''sched_class'' Ptr,
    Mem ''stats'' arm_sched_statistics,
    Mem ''policy'' (Prim CInt),
    Mem ''max_allowed_capacity'' (Prim CLong),
    Mem ''nr_cpus_allowed'' (Prim CInt),
    Mem ''cpus_ptr'' Ptr,
    Mem ''user_cpus_ptr'' Ptr,
    Mem ''cpus_mask'' arm_t_cpumask_t,
    Mem ''migration_pending'' Ptr,
    Mem ''migration_flags'' (Prim CShort),
    Mem ''trc_reader_nesting'' (Prim CInt),
    Mem ''trc_ipi_to_cpu'' (Prim CInt),
    Mem ''trc_reader_special'' arm_rcu_special,
    Mem ''trc_holdout_list'' arm_list_head,
    Mem ''trc_blkd_node'' arm_list_head,
    Mem ''trc_blkd_cpu'' (Prim CInt),
    Mem ''sched_info'' arm_sched_info,
    Mem ''tasks'' arm_list_head,
    Mem ''mm'' Ptr,
    Mem ''active_mm'' Ptr,
    Mem ''faults_disabled_mapping'' Ptr,
    Mem ''exit_state'' (Prim CInt),
    Mem ''exit_code'' (Prim CInt),
    Mem ''exit_signal'' (Prim CInt),
    Mem ''pdeath_signal'' (Prim CInt),
    Mem ''jobctl'' (Prim CLong),
    Mem ''personality'' (Prim CInt),
    Bits ''sched_reset_on_fork'' (Prim CInt) 1,
    Bits ''sched_contributes_to_load'' (Prim CInt) 1,
    Bits ''sched_migrated'' (Prim CInt) 1,
    Bits ''sched_task_hot'' (Prim CInt) 1,
    Bits '''' (Prim CLong) 28,
    Bits ''sched_remote_wakeup'' (Prim CInt) 1,
    Bits ''in_execve'' (Prim CInt) 1,
    Bits ''in_iowait'' (Prim CInt) 1,
    Mem ''atomic_flags'' (Prim CLong),
    Mem ''restart_block'' arm_restart_block,
    Mem ''pid'' arm_t_pid_t,
    Mem ''tgid'' arm_t_pid_t,
    Mem ''real_parent'' Ptr,
    Mem ''parent'' Ptr,
    Mem ''children'' arm_list_head,
    Mem ''sibling'' arm_list_head,
    Mem ''group_leader'' Ptr,
    Mem ''ptraced'' arm_list_head,
    Mem ''ptrace_entry'' arm_list_head,
    Mem ''thread_pid'' Ptr,
    Mem ''pid_links'' (Arr arm_hlist_node 4),
    Mem ''thread_node'' arm_list_head,
    Mem ''vfork_done'' Ptr,
    Mem ''set_child_tid'' Ptr,
    Mem ''clear_child_tid'' Ptr,
    Mem ''worker_private'' Ptr,
    Mem ''utime'' arm_t_u64,
    Mem ''stime'' arm_t_u64,
    Mem ''gtime'' arm_t_u64,
    Mem ''prev_cputime'' arm_prev_cputime,
    Mem ''nvcsw'' (Prim CLong),
    Mem ''nivcsw'' (Prim CLong)]"

definition arm_task_struct_members2 :: "cmember list" where
  "arm_task_struct_members2 = [
    Mem ''start_time'' arm_t_u64,
    Mem ''start_boottime'' arm_t_u64,
    Mem ''min_flt'' (Prim CLong),
    Mem ''maj_flt'' (Prim CLong),
    Mem ''posix_cputimers'' arm_posix_cputimers,
    Mem ''ptracer_cred'' Ptr,
    Mem ''real_cred'' Ptr,
    Mem ''cred'' Ptr,
    Mem ''comm'' (Arr (Prim CChar) 16),
    Mem ''nameidata'' Ptr,
    Mem ''fs'' Ptr,
    Mem ''files'' Ptr,
    Mem ''nsproxy'' Ptr,
    Mem ''signal'' Ptr,
    Mem ''sighand'' Ptr,
    Mem ''blocked'' arm_t_sigset_t,
    Mem ''real_blocked'' arm_t_sigset_t,
    Mem ''saved_sigmask'' arm_t_sigset_t,
    Mem ''pending'' arm_sigpending,
    Mem ''sas_ss_sp'' (Prim CLong),
    Mem ''sas_ss_size'' arm_t_size_t,
    Mem ''sas_ss_flags'' (Prim CInt),
    Mem ''task_works'' Ptr,
    Mem ''seccomp'' arm_seccomp,
    Mem ''syscall_dispatch'' arm_syscall_user_dispatch,
    Bits '''' (Prim CLong) 32,
    Mem ''parent_exec_id'' arm_t_u64,
    Mem ''self_exec_id'' arm_t_u64,
    Mem ''alloc_lock'' arm_t_spinlock_t,
    Mem ''pi_lock'' arm_t_raw_spinlock_t,
    Mem ''wake_q'' arm_wake_q_node,
    Mem ''journal_info'' Ptr,
    Mem ''bio_list'' Ptr,
    Mem ''plug'' Ptr,
    Mem ''reclaim_state'' Ptr,
    Mem ''io_context'' Ptr,
    Mem ''capture_control'' Ptr,
    Mem ''ptrace_message'' (Prim CLong),
    Mem ''last_siginfo'' Ptr,
    Mem ''ioac'' arm_task_io_accounting,
    Mem ''perf_recursion'' (Arr arm_t_u8 4),
    Mem ''perf_event_ctxp'' Ptr,
    Mem ''perf_event_mutex'' arm_mutex,
    Mem ''perf_event_list'' arm_list_head,
    Mem ''tlb_ubc'' arm_tlbflush_unmap_batch,
    Mem ''splice_pipe'' Ptr,
    Mem ''task_frag'' arm_page_frag,
    Mem ''nr_dirtied'' (Prim CInt),
    Mem ''nr_dirtied_pause'' (Prim CInt),
    Mem ''dirty_paused_when'' (Prim CLong),
    Mem ''timer_slack_ns'' arm_t_u64,
    Mem ''default_timer_slack_ns'' arm_t_u64,
    Mem ''curr_ret_stack'' (Prim CInt),
    Mem ''curr_ret_depth'' (Prim CInt),
    Mem ''ret_stack'' Ptr,
    Bits '''' (Prim CLong) 32,
    Mem ''ftrace_timestamp'' (Prim CLongLong),
    Mem ''ftrace_sleeptime'' (Prim CLongLong),
    Mem ''trace_overrun'' arm_t_atomic_t,
    Mem ''tracing_graph_pause'' arm_t_atomic_t,
    Mem ''trace_recursion'' (Prim CLong),
    Mem ''utask'' Ptr,
    Mem ''kmap_ctrl'' arm_kmap_ctrl,
    Mem ''rcu'' arm_callback_head,
    Mem ''rcu_users'' arm_t_refcount_t,
    Mem ''pagefault_disabled'' (Prim CInt),
    Mem ''oom_reaper_list'' Ptr,
    Mem ''oom_reaper_timer'' arm_timer_list,
    Mem ''stack_vm_area'' Ptr,
    Mem ''stack_refcount'' arm_t_refcount_t,
    Mem ''bpf_storage'' Ptr,
    Mem ''bpf_ctx'' Ptr,
    Mem ''bpf_net_context'' Ptr,
    Mem ''kretprobe_instances'' arm_llist_head,
    Mem ''thread'' arm_thread_struct,
    Bits '''' (Prim CLong) 32]"

definition arm_task_struct :: ctype where
  "arm_task_struct = Struct (arm_task_struct_members1 @ arm_task_struct_members2)"

lemma arm_task_struct_lay [c_layout]: "lay ILP32 arm_task_struct = (1600, 8)"
  by (simp add: arm_task_struct_def arm_task_struct_members1_def arm_task_struct_members2_def c_layout layout_eval)

definition arm_t___s16 :: ctype where
  "arm_t___s16 = Prim CShort"

declare arm_t___s16_def [c_layout]

definition arm_inet_cork :: ctype where
  "arm_inet_cork = Struct [
      Mem ''flags'' (Prim CInt),
      Mem ''addr'' arm_t___be32,
      Mem ''opt'' Ptr,
      Mem ''fragsize'' (Prim CInt),
      Mem ''length'' (Prim CInt),
      Mem ''dst'' Ptr,
      Mem ''tx_flags'' arm_t_u8,
      Mem ''ttl'' arm_t___u8,
      Mem ''tos'' arm_t___s16,
      Mem ''priority'' arm_t_u32,
      Mem ''gso_size'' arm_t___u16,
      Mem ''ts_opt_id'' arm_t_u32,
      Mem ''transmit_time'' arm_t_u64,
      Mem ''mark'' arm_t_u32,
      Bits '''' (Prim CLong) 32]"

lemma arm_inet_cork_lay [c_layout]: "lay ILP32 arm_inet_cork = (56, 8)"
  by (simp add: arm_inet_cork_def c_layout layout_eval)

definition arm_t___be64 :: ctype where
  "arm_t___be64 = arm_t___u64"

declare arm_t___be64_def [c_layout]

definition arm_flowi_tunnel :: ctype where
  "arm_flowi_tunnel = Struct [
      Mem ''tun_id'' arm_t___be64]"

lemma arm_flowi_tunnel_lay [c_layout]: "lay ILP32 arm_flowi_tunnel = (8, 8)"
  by (simp add: arm_flowi_tunnel_def c_layout layout_eval)

definition arm_flowi_common :: ctype where
  "arm_flowi_common = Struct [
      Mem ''flowic_oif'' (Prim CInt),
      Mem ''flowic_iif'' (Prim CInt),
      Mem ''flowic_l3mdev'' (Prim CInt),
      Mem ''flowic_mark'' arm_t___u32,
      Mem ''flowic_tos'' arm_t___u8,
      Mem ''flowic_scope'' arm_t___u8,
      Mem ''flowic_proto'' arm_t___u8,
      Mem ''flowic_flags'' arm_t___u8,
      Mem ''flowic_secid'' arm_t___u32,
      Mem ''flowic_uid'' arm_t_kuid_t,
      Mem ''flowic_multipath_hash'' arm_t___u32,
      Mem ''flowic_tun_key'' arm_flowi_tunnel]"

lemma arm_flowi_common_lay [c_layout]: "lay ILP32 arm_flowi_common = (40, 8)"
  by (simp add: arm_flowi_common_def c_layout layout_eval)

definition arm_flowi_uli :: ctype where
  "arm_flowi_uli = Union [
      Mem ''ports'' (Struct [
        Mem ''dport'' arm_t___be16,
        Mem ''sport'' arm_t___be16]),
      Mem ''icmpt'' (Struct [
        Mem ''type'' arm_t___u8,
        Mem ''code'' arm_t___u8]),
      Mem ''gre_key'' arm_t___be32,
      Mem ''mht'' (Struct [
        Mem ''type'' arm_t___u8])]"

lemma arm_flowi_uli_lay [c_layout]: "lay ILP32 arm_flowi_uli = (4, 4)"
  by (simp add: arm_flowi_uli_def c_layout layout_eval)

definition arm_flowi4 :: ctype where
  "arm_flowi4 = Struct [
      Mem ''__fl_common'' arm_flowi_common,
      Mem ''saddr'' arm_t___be32,
      Mem ''daddr'' arm_t___be32,
      Mem ''uli'' arm_flowi_uli,
      Bits '''' (Prim CLong) 32]"

lemma arm_flowi4_lay [c_layout]: "lay ILP32 arm_flowi4 = (56, 8)"
  by (simp add: arm_flowi4_def c_layout layout_eval)

definition arm_flowi6 :: ctype where
  "arm_flowi6 = Struct [
      Mem ''__fl_common'' arm_flowi_common,
      Mem ''daddr'' arm_in6_addr,
      Mem ''saddr'' arm_in6_addr,
      Mem ''flowlabel'' arm_t___be32,
      Mem ''uli'' arm_flowi_uli,
      Mem ''mp_hash'' arm_t___u32,
      Bits '''' (Prim CLong) 32]"

lemma arm_flowi6_lay [c_layout]: "lay ILP32 arm_flowi6 = (88, 8)"
  by (simp add: arm_flowi6_def c_layout layout_eval)

definition arm_flowi :: ctype where
  "arm_flowi = Struct [
      Mem ''u'' (Union [
        Mem ''__fl_common'' arm_flowi_common,
        Mem ''ip4'' arm_flowi4,
        Mem ''ip6'' arm_flowi6])]"

lemma arm_flowi_lay [c_layout]: "lay ILP32 arm_flowi = (88, 8)"
  by (simp add: arm_flowi_def c_layout layout_eval)

definition arm_inet_cork_full :: ctype where
  "arm_inet_cork_full = Struct [
      Mem ''base'' arm_inet_cork,
      Mem ''fl'' arm_flowi]"

lemma arm_inet_cork_full_lay [c_layout]: "lay ILP32 arm_inet_cork_full = (144, 8)"
  by (simp add: arm_inet_cork_full_def c_layout layout_eval)

definition arm_inet_sock :: ctype where
  "arm_inet_sock = Struct [
      Mem ''sk'' arm_sock,
      Mem ''pinet6'' Ptr,
      Mem ''inet_flags'' (Prim CLong),
      Mem ''inet_saddr'' arm_t___be32,
      Mem ''uc_ttl'' arm_t___s16,
      Mem ''inet_sport'' arm_t___be16,
      Mem ''inet_opt'' Ptr,
      Mem ''inet_id'' arm_t_atomic_t,
      Mem ''tos'' arm_t___u8,
      Mem ''min_ttl'' arm_t___u8,
      Mem ''mc_ttl'' arm_t___u8,
      Mem ''pmtudisc'' arm_t___u8,
      Mem ''rcv_tos'' arm_t___u8,
      Mem ''convert_csum'' arm_t___u8,
      Mem ''uc_index'' (Prim CInt),
      Mem ''mc_index'' (Prim CInt),
      Mem ''mc_addr'' arm_t___be32,
      Mem ''local_port_range'' arm_t_u32,
      Mem ''mc_list'' Ptr,
      Bits '''' (Prim CLong) 32,
      Mem ''cork'' arm_inet_cork_full]"

lemma arm_inet_sock_lay [c_layout]: "lay ILP32 arm_inet_sock = (696, 8)"
  by (simp add: arm_inet_sock_def c_layout layout_eval)

definition arm_fastopen_queue :: ctype where
  "arm_fastopen_queue = Struct [
      Mem ''rskq_rst_head'' Ptr,
      Mem ''rskq_rst_tail'' Ptr,
      Mem ''lock'' arm_t_spinlock_t,
      Mem ''qlen'' (Prim CInt),
      Mem ''max_qlen'' (Prim CInt),
      Mem ''ctx'' Ptr]"

lemma arm_fastopen_queue_lay [c_layout]: "lay ILP32 arm_fastopen_queue = (20, 4)"
  by (simp add: arm_fastopen_queue_def c_layout layout_eval)

definition arm_request_sock_queue :: ctype where
  "arm_request_sock_queue = Struct [
      Mem ''rskq_lock'' arm_t_spinlock_t,
      Mem ''rskq_defer_accept'' arm_t_u8,
      Mem ''synflood_warned'' arm_t_u32,
      Mem ''qlen'' arm_t_atomic_t,
      Mem ''young'' arm_t_atomic_t,
      Mem ''rskq_accept_head'' Ptr,
      Mem ''rskq_accept_tail'' Ptr,
      Mem ''fastopenq'' arm_fastopen_queue]"

lemma arm_request_sock_queue_lay [c_layout]: "lay ILP32 arm_request_sock_queue = (44, 4)"
  by (simp add: arm_request_sock_queue_def c_layout layout_eval)

definition arm_inet_connection_sock :: ctype where
  "arm_inet_connection_sock = Struct [
      Mem ''icsk_inet'' arm_inet_sock,
      Mem ''icsk_accept_queue'' arm_request_sock_queue,
      Mem ''icsk_bind_hash'' Ptr,
      Mem ''icsk_bind2_hash'' Ptr,
      Mem ''icsk_timeout'' (Prim CLong),
      Mem ''icsk_retransmit_timer'' arm_timer_list,
      Mem ''icsk_delack_timer'' arm_timer_list,
      Mem ''icsk_rto'' arm_t___u32,
      Mem ''icsk_rto_min'' arm_t___u32,
      Mem ''icsk_delack_max'' arm_t___u32,
      Mem ''icsk_pmtu_cookie'' arm_t___u32,
      Mem ''icsk_ca_ops'' Ptr,
      Mem ''icsk_af_ops'' Ptr,
      Mem ''icsk_ulp_ops'' Ptr,
      Mem ''icsk_ulp_data'' Ptr,
      Mem ''icsk_clean_acked'' Ptr,
      Mem ''icsk_sync_mss'' Ptr,
      Bits ''icsk_ca_state'' arm_t___u8 5,
      Bits ''icsk_ca_initialized'' arm_t___u8 1,
      Bits ''icsk_ca_setsockopt'' arm_t___u8 1,
      Bits ''icsk_ca_dst_locked'' arm_t___u8 1,
      Mem ''icsk_retransmits'' arm_t___u8,
      Mem ''icsk_pending'' arm_t___u8,
      Mem ''icsk_backoff'' arm_t___u8,
      Mem ''icsk_syn_retries'' arm_t___u8,
      Mem ''icsk_probes_out'' arm_t___u8,
      Mem ''icsk_ext_hdr_len'' arm_t___u16,
      Mem ''icsk_ack'' (Struct [
        Mem ''pending'' arm_t___u8,
        Mem ''quick'' arm_t___u8,
        Mem ''pingpong'' arm_t___u8,
        Mem ''retry'' arm_t___u8,
        Bits ''ato'' arm_t___u32 8,
        Bits ''lrcv_flowlabel'' arm_t___u32 20,
        Bits ''unused'' arm_t___u32 4,
        Mem ''timeout'' (Prim CLong),
        Mem ''lrcvtime'' arm_t___u32,
        Mem ''last_seg_size'' arm_t___u16,
        Mem ''rcv_mss'' arm_t___u16]),
      Mem ''icsk_mtup'' (Struct [
        Mem ''search_high'' (Prim CInt),
        Mem ''search_low'' (Prim CInt),
        Bits ''probe_size'' arm_t_u32 31,
        Bits ''enabled'' arm_t_u32 1,
        Mem ''probe_timestamp'' arm_t_u32]),
      Mem ''icsk_probes_tstamp'' arm_t_u32,
      Mem ''icsk_user_timeout'' arm_t_u32,
      Bits '''' (Prim CLong) 32,
      Mem ''icsk_ca_priv'' (Arr arm_t_u64 13)]"

lemma arm_inet_connection_sock_lay [c_layout]: "lay ILP32 arm_inet_connection_sock = (992, 8)"
  by (simp add: arm_inet_connection_sock_def c_layout layout_eval)

definition arm_minmax_sample :: ctype where
  "arm_minmax_sample = Struct [
      Mem ''t'' arm_t_u32,
      Mem ''v'' arm_t_u32]"

lemma arm_minmax_sample_lay [c_layout]: "lay ILP32 arm_minmax_sample = (8, 4)"
  by (simp add: arm_minmax_sample_def c_layout layout_eval)

definition arm_minmax :: ctype where
  "arm_minmax = Struct [
      Mem ''s'' (Arr arm_minmax_sample 3)]"

lemma arm_minmax_lay [c_layout]: "lay ILP32 arm_minmax = (24, 4)"
  by (simp add: arm_minmax_def c_layout layout_eval)

definition arm_tcp_options_received :: ctype where
  "arm_tcp_options_received = Struct [
      Mem ''ts_recent_stamp'' (Prim CInt),
      Mem ''ts_recent'' arm_t_u32,
      Mem ''rcv_tsval'' arm_t_u32,
      Mem ''rcv_tsecr'' arm_t_u32,
      Bits ''saw_tstamp'' arm_t_u16 1,
      Bits ''tstamp_ok'' arm_t_u16 1,
      Bits ''dsack'' arm_t_u16 1,
      Bits ''wscale_ok'' arm_t_u16 1,
      Bits ''sack_ok'' arm_t_u16 3,
      Bits ''smc_ok'' arm_t_u16 1,
      Bits ''snd_wscale'' arm_t_u16 4,
      Bits ''rcv_wscale'' arm_t_u16 4,
      Bits ''saw_unknown'' arm_t_u8 1,
      Bits ''unused'' arm_t_u8 7,
      Mem ''num_sacks'' arm_t_u8,
      Mem ''user_mss'' arm_t_u16,
      Mem ''mss_clamp'' arm_t_u16]"

lemma arm_tcp_options_received_lay [c_layout]: "lay ILP32 arm_tcp_options_received = (24, 4)"
  by (simp add: arm_tcp_options_received_def c_layout layout_eval)

definition arm_tcp_rack :: ctype where
  "arm_tcp_rack = Struct [
      Mem ''mstamp'' arm_t_u64,
      Mem ''rtt_us'' arm_t_u32,
      Mem ''end_seq'' arm_t_u32,
      Mem ''last_delivered'' arm_t_u32,
      Mem ''reo_wnd_steps'' arm_t_u8,
      Bits ''reo_wnd_persist'' arm_t_u8 5,
      Bits ''dsack_seen'' arm_t_u8 1,
      Bits ''advanced'' arm_t_u8 1]"

lemma arm_tcp_rack_lay [c_layout]: "lay ILP32 arm_tcp_rack = (24, 8)"
  by (simp add: arm_tcp_rack_def c_layout layout_eval)

definition arm_tcp_sack_block :: ctype where
  "arm_tcp_sack_block = Struct [
      Mem ''start_seq'' arm_t_u32,
      Mem ''end_seq'' arm_t_u32]"

lemma arm_tcp_sack_block_lay [c_layout]: "lay ILP32 arm_tcp_sack_block = (8, 4)"
  by (simp add: arm_tcp_sack_block_def c_layout layout_eval)

definition arm_tcp_sock_members1 :: "cmember list" where
  "arm_tcp_sock_members1 = [
    Mem ''inet_conn'' arm_inet_connection_sock,
    Mem ''__cacheline_group_begin__tcp_sock_read_tx'' (Arr arm_t___u8 0),
    Mem ''max_window'' arm_t_u32,
    Mem ''rcv_ssthresh'' arm_t_u32,
    Mem ''reordering'' arm_t_u32,
    Mem ''notsent_lowat'' arm_t_u32,
    Mem ''gso_segs'' arm_t_u16,
    Mem ''lost_skb_hint'' Ptr,
    Mem ''retransmit_skb_hint'' Ptr,
    Mem ''__cacheline_group_end__tcp_sock_read_tx'' (Arr arm_t___u8 0),
    Mem ''__cacheline_group_begin__tcp_sock_read_txrx'' (Arr arm_t___u8 0),
    Mem ''tsoffset'' arm_t_u32,
    Mem ''snd_wnd'' arm_t_u32,
    Mem ''mss_cache'' arm_t_u32,
    Mem ''snd_cwnd'' arm_t_u32,
    Mem ''prr_out'' arm_t_u32,
    Mem ''lost_out'' arm_t_u32,
    Mem ''sacked_out'' arm_t_u32,
    Mem ''tcp_header_len'' arm_t_u16,
    Mem ''scaling_ratio'' arm_t_u8,
    Bits ''chrono_type'' arm_t_u8 2,
    Bits ''repair'' arm_t_u8 1,
    Bits ''tcp_usec_ts'' arm_t_u8 1,
    Bits ''is_sack_reneg'' arm_t_u8 1,
    Bits ''is_cwnd_limited'' arm_t_u8 1,
    Mem ''__cacheline_group_end__tcp_sock_read_txrx'' (Arr arm_t___u8 0),
    Mem ''__cacheline_group_begin__tcp_sock_read_rx'' (Arr arm_t___u8 0),
    Mem ''copied_seq'' arm_t_u32,
    Mem ''rcv_tstamp'' arm_t_u32,
    Mem ''snd_wl1'' arm_t_u32,
    Mem ''tlp_high_seq'' arm_t_u32,
    Mem ''rttvar_us'' arm_t_u32,
    Mem ''retrans_out'' arm_t_u32,
    Mem ''advmss'' arm_t_u16,
    Mem ''urg_data'' arm_t_u16,
    Mem ''lost'' arm_t_u32,
    Mem ''rtt_min'' arm_minmax,
    Mem ''out_of_order_queue'' arm_rb_root,
    Mem ''snd_ssthresh'' arm_t_u32,
    Bits ''recvmsg_inq'' arm_t_u8 1,
    Mem ''__cacheline_group_end__tcp_sock_read_rx'' (Arr arm_t___u8 0),
    Bits '''' (Prim CLong) 32,
    Bits '''' (Prim CLong) 32,
    Bits '''' (Prim CLong) 32,
    Bits '''' (Prim CLong) 32,
    Bits '''' (Prim CLong) 32,
    Bits '''' (Prim CLong) 32,
    Bits '''' (Prim CLong) 32,
    Bits '''' (Prim CLong) 32,
    Mem ''__cacheline_group_begin__tcp_sock_write_tx'' (Arr arm_t___u8 0),
    Mem ''segs_out'' arm_t_u32,
    Mem ''data_segs_out'' arm_t_u32,
    Mem ''bytes_sent'' arm_t_u64,
    Mem ''snd_sml'' arm_t_u32,
    Mem ''chrono_start'' arm_t_u32,
    Mem ''chrono_stat'' (Arr arm_t_u32 3),
    Mem ''write_seq'' arm_t_u32,
    Mem ''pushed_seq'' arm_t_u32,
    Mem ''lsndtime'' arm_t_u32,
    Mem ''mdev_us'' arm_t_u32,
    Mem ''rtt_seq'' arm_t_u32,
    Mem ''tcp_wstamp_ns'' arm_t_u64,
    Mem ''tsorted_sent_queue'' arm_list_head,
    Mem ''highest_sack'' Ptr,
    Mem ''ecn_flags'' arm_t_u8,
    Mem ''__cacheline_group_end__tcp_sock_write_tx'' (Arr arm_t___u8 0),
    Mem ''__cacheline_group_begin__tcp_sock_write_txrx'' (Arr arm_t___u8 0),
    Mem ''pred_flags'' arm_t___be32,
    Bits '''' (Prim CLong) 32,
    Mem ''tcp_clock_cache'' arm_t_u64,
    Mem ''tcp_mstamp'' arm_t_u64,
    Mem ''rcv_nxt'' arm_t_u32,
    Mem ''snd_nxt'' arm_t_u32,
    Mem ''snd_una'' arm_t_u32,
    Mem ''window_clamp'' arm_t_u32,
    Mem ''srtt_us'' arm_t_u32,
    Mem ''packets_out'' arm_t_u32,
    Mem ''snd_up'' arm_t_u32,
    Mem ''delivered'' arm_t_u32,
    Mem ''delivered_ce'' arm_t_u32,
    Mem ''app_limited'' arm_t_u32,
    Mem ''rcv_wnd'' arm_t_u32,
    Mem ''rx_opt'' arm_tcp_options_received,
    Bits ''nonagle'' arm_t_u8 4]"

definition arm_tcp_sock_members2 :: "cmember list" where
  "arm_tcp_sock_members2 = [
    Bits ''rate_app_limited'' arm_t_u8 1,
    Mem ''__cacheline_group_end__tcp_sock_write_txrx'' (Arr arm_t___u8 0),
    Bits '''' (Prim CLong) 0,
    Mem ''__cacheline_group_begin__tcp_sock_write_rx'' (Arr arm_t___u8 0),
    Mem ''bytes_received'' arm_t_u64,
    Mem ''segs_in'' arm_t_u32,
    Mem ''data_segs_in'' arm_t_u32,
    Mem ''rcv_wup'' arm_t_u32,
    Mem ''max_packets_out'' arm_t_u32,
    Mem ''cwnd_usage_seq'' arm_t_u32,
    Mem ''rate_delivered'' arm_t_u32,
    Mem ''rate_interval_us'' arm_t_u32,
    Mem ''rcv_rtt_last_tsecr'' arm_t_u32,
    Mem ''first_tx_mstamp'' arm_t_u64,
    Mem ''delivered_mstamp'' arm_t_u64,
    Mem ''bytes_acked'' arm_t_u64,
    Mem ''rcv_rtt_est'' (Struct [
      Mem ''rtt_us'' arm_t_u32,
      Mem ''seq'' arm_t_u32,
      Mem ''time'' arm_t_u64]),
    Mem ''rcvq_space'' (Struct [
      Mem ''space'' arm_t_u32,
      Mem ''seq'' arm_t_u32,
      Mem ''time'' arm_t_u64]),
    Mem ''__cacheline_group_end__tcp_sock_write_rx'' (Arr arm_t___u8 0),
    Mem ''dsack_dups'' arm_t_u32,
    Mem ''compressed_ack_rcv_nxt'' arm_t_u32,
    Mem ''tsq_node'' arm_list_head,
    Mem ''rack'' arm_tcp_rack,
    Mem ''compressed_ack'' arm_t_u8,
    Bits ''dup_ack_counter'' arm_t_u8 2,
    Bits ''tlp_retrans'' arm_t_u8 1,
    Bits ''unused'' arm_t_u8 5,
    Bits ''thin_lto'' arm_t_u8 1,
    Bits ''fastopen_connect'' arm_t_u8 1,
    Bits ''fastopen_no_cookie'' arm_t_u8 1,
    Bits ''fastopen_client_fail'' arm_t_u8 2,
    Bits ''frto'' arm_t_u8 1,
    Mem ''repair_queue'' arm_t_u8,
    Bits ''save_syn'' arm_t_u8 2,
    Bits ''syn_data'' arm_t_u8 1,
    Bits ''syn_fastopen'' arm_t_u8 1,
    Bits ''syn_fastopen_exp'' arm_t_u8 1,
    Bits ''syn_fastopen_ch'' arm_t_u8 1,
    Bits ''syn_data_acked'' arm_t_u8 1,
    Mem ''keepalive_probes'' arm_t_u8,
    Mem ''tcp_tx_delay'' arm_t_u32,
    Mem ''mdev_max_us'' arm_t_u32,
    Mem ''reord_seen'' arm_t_u32,
    Mem ''snd_cwnd_cnt'' arm_t_u32,
    Mem ''snd_cwnd_clamp'' arm_t_u32,
    Mem ''snd_cwnd_used'' arm_t_u32,
    Mem ''snd_cwnd_stamp'' arm_t_u32,
    Mem ''prior_cwnd'' arm_t_u32,
    Mem ''prr_delivered'' arm_t_u32,
    Mem ''last_oow_ack_time'' arm_t_u32,
    Mem ''pacing_timer'' arm_hrtimer,
    Mem ''compressed_ack_timer'' arm_hrtimer,
    Mem ''ooo_last_skb'' Ptr,
    Mem ''duplicate_sack'' (Arr arm_tcp_sack_block 1),
    Mem ''selective_acks'' (Arr arm_tcp_sack_block 4),
    Mem ''recv_sack_cache'' (Arr arm_tcp_sack_block 4),
    Mem ''lost_cnt_hint'' (Prim CInt),
    Mem ''prior_ssthresh'' arm_t_u32,
    Mem ''high_seq'' arm_t_u32,
    Mem ''retrans_stamp'' arm_t_u32,
    Mem ''undo_marker'' arm_t_u32,
    Mem ''undo_retrans'' (Prim CInt),
    Bits '''' (Prim CLong) 32,
    Mem ''bytes_retrans'' arm_t_u64,
    Mem ''total_retrans'' arm_t_u32,
    Mem ''rto_stamp'' arm_t_u32,
    Mem ''total_rto'' arm_t_u16,
    Mem ''total_rto_recoveries'' arm_t_u16,
    Mem ''total_rto_time'' arm_t_u32,
    Mem ''urg_seq'' arm_t_u32,
    Mem ''keepalive_time'' (Prim CInt),
    Mem ''keepalive_intvl'' (Prim CInt),
    Mem ''linger2'' (Prim CInt),
    Mem ''bpf_sock_ops_cb_flags'' arm_t_u8,
    Bits ''bpf_chg_cc_inprogress'' arm_t_u8 1,
    Mem ''timeout_rehash'' arm_t_u16,
    Mem ''rcv_ooopack'' arm_t_u32,
    Mem ''mtu_probe'' (Struct [
      Mem ''probe_seq_start'' arm_t_u32,
      Mem ''probe_seq_end'' arm_t_u32]),
    Mem ''plb_rehash'' arm_t_u32,
    Mem ''mtu_info'' arm_t_u32,
    Mem ''fastopen_req'' Ptr,
    Mem ''fastopen_rsk'' Ptr,
    Mem ''saved_syn'' Ptr,
    Bits '''' (Prim CLong) 32]"

definition arm_tcp_sock :: ctype where
  "arm_tcp_sock = Struct (arm_tcp_sock_members1 @ arm_tcp_sock_members2)"

lemma arm_tcp_sock_lay [c_layout]: "lay ILP32 arm_tcp_sock = (1792, 8)"
  by (simp add: arm_tcp_sock_def arm_tcp_sock_members1_def arm_tcp_sock_members2_def c_layout layout_eval)

definition arm_in6_pktinfo :: ctype where
  "arm_in6_pktinfo = Struct [
      Mem ''ipi6_addr'' arm_in6_addr,
      Mem ''ipi6_ifindex'' (Prim CInt)]"

lemma arm_in6_pktinfo_lay [c_layout]: "lay ILP32 arm_in6_pktinfo = (20, 4)"
  by (simp add: arm_in6_pktinfo_def c_layout layout_eval)

definition arm_t_s16 :: ctype where
  "arm_t_s16 = arm_t___s16"

declare arm_t_s16_def [c_layout]

definition arm_inet6_cork :: ctype where
  "arm_inet6_cork = Struct [
      Mem ''opt'' Ptr,
      Mem ''hop_limit'' arm_t_u8,
      Mem ''tclass'' arm_t_u8]"

lemma arm_inet6_cork_lay [c_layout]: "lay ILP32 arm_inet6_cork = (8, 4)"
  by (simp add: arm_inet6_cork_def c_layout layout_eval)

definition arm_ipv6_pinfo :: ctype where
  "arm_ipv6_pinfo = Struct [
      Mem ''saddr'' arm_in6_addr,
      Mem ''sticky_pktinfo'' arm_in6_pktinfo,
      Mem ''daddr_cache'' Ptr,
      Mem ''flow_label'' arm_t___be32,
      Mem ''frag_size'' arm_t___u32,
      Mem ''hop_limit'' arm_t_s16,
      Mem ''mcast_hops'' arm_t_u8,
      Mem ''ucast_oif'' (Prim CInt),
      Mem ''mcast_oif'' (Prim CInt),
      Mem ''rxopt'' (Union [
        Mem ''bits'' (Struct [
          Bits ''srcrt'' arm_t___u16 1,
          Bits ''osrcrt'' arm_t___u16 1,
          Bits ''rxinfo'' arm_t___u16 1,
          Bits ''rxoinfo'' arm_t___u16 1,
          Bits ''rxhlim'' arm_t___u16 1,
          Bits ''rxohlim'' arm_t___u16 1,
          Bits ''hopopts'' arm_t___u16 1,
          Bits ''ohopopts'' arm_t___u16 1,
          Bits ''dstopts'' arm_t___u16 1,
          Bits ''odstopts'' arm_t___u16 1,
          Bits ''rxflow'' arm_t___u16 1,
          Bits ''rxtclass'' arm_t___u16 1,
          Bits ''rxpmtu'' arm_t___u16 1,
          Bits ''rxorigdstaddr'' arm_t___u16 1,
          Bits ''recvfragsize'' arm_t___u16 1]),
        Mem ''all'' arm_t___u16]),
      Mem ''srcprefs'' arm_t___u8,
      Mem ''pmtudisc'' arm_t___u8,
      Mem ''min_hopcount'' arm_t___u8,
      Mem ''tclass'' arm_t___u8,
      Mem ''rcv_flowinfo'' arm_t___be32,
      Mem ''dst_cookie'' arm_t___u32,
      Mem ''ipv6_mc_list'' Ptr,
      Mem ''ipv6_ac_list'' Ptr,
      Mem ''ipv6_fl_list'' Ptr,
      Mem ''opt'' Ptr,
      Mem ''pktoptions'' Ptr,
      Mem ''rxpmtu'' Ptr,
      Mem ''cork'' arm_inet6_cork]"

lemma arm_ipv6_pinfo_lay [c_layout]: "lay ILP32 arm_ipv6_pinfo = (108, 4)"
  by (simp add: arm_ipv6_pinfo_def c_layout layout_eval)

definition arm_tcp6_sock :: ctype where
  "arm_tcp6_sock = Struct [
      Mem ''tcp'' arm_tcp_sock,
      Mem ''inet6'' arm_ipv6_pinfo,
      Bits '''' (Prim CLong) 32,
      Bits '''' (Prim CLong) 32,
      Bits '''' (Prim CLong) 32,
      Bits '''' (Prim CLong) 32,
      Bits '''' (Prim CLong) 32]"

lemma arm_tcp6_sock_lay [c_layout]: "lay ILP32 arm_tcp6_sock = (1920, 8)"
  by (simp add: arm_tcp6_sock_def c_layout layout_eval)

definition arm_udp_sock :: ctype where
  "arm_udp_sock = Struct [
      Mem ''inet'' arm_inet_sock,
      Mem ''udp_flags'' (Prim CLong),
      Mem ''pending'' (Prim CInt),
      Mem ''encap_type'' arm_t___u8,
      Mem ''udp_lrpa_hash'' arm_t___u16,
      Mem ''udp_lrpa_node'' arm_hlist_nulls_node,
      Mem ''len'' arm_t___u16,
      Mem ''gso_size'' arm_t___u16,
      Mem ''pcslen'' arm_t___u16,
      Mem ''pcrlen'' arm_t___u16,
      Mem ''encap_rcv'' Ptr,
      Mem ''encap_err_rcv'' Ptr,
      Mem ''encap_err_lookup'' Ptr,
      Mem ''encap_destroy'' Ptr,
      Mem ''gro_receive'' Ptr,
      Mem ''gro_complete'' Ptr,
      Mem ''reader_queue'' arm_sk_buff_head,
      Mem ''forward_deficit'' (Prim CInt),
      Mem ''forward_threshold'' (Prim CInt),
      Mem ''peeking_with_offset'' arm_t_bool,
      Bits '''' (Prim CLong) 32]"

lemma arm_udp_sock_lay [c_layout]: "lay ILP32 arm_udp_sock = (776, 8)"
  by (simp add: arm_udp_sock_def c_layout layout_eval)

definition arm_udp6_sock :: ctype where
  "arm_udp6_sock = Struct [
      Mem ''udp'' arm_udp_sock,
      Mem ''inet6'' arm_ipv6_pinfo,
      Bits '''' (Prim CLong) 32]"

lemma arm_udp6_sock_lay [c_layout]: "lay ILP32 arm_udp6_sock = (888, 8)"
  by (simp add: arm_udp6_sock_def c_layout layout_eval)

end
