(* ===== verification/SocketTracker.thy ===== *)
theory SocketTracker
  imports CLayout
begin

text \<open>
  The eBPF program \<^verbatim>\<open>crates/rustnet-host/src/linux/ebpf/programs/socket_tracker.bpf.c\<close>:
  its key and value structures with their in-memory images, \<open>get_process_info\<close>, and the
  seven kprobe handlers as functions on the socket map. What the kernel provides (the
  helpers' results, the contents of kernel memory) is the record \<open>bpf_env\<close>, an argument
  of every handler; the kernel's type layouts are the record \<open>karch\<close>, through which each
  CO-RE access is resolved.
\<close>

section \<open>Constants and structures\<close>

definition MAX_ENTRIES :: nat where "MAX_ENTRIES = 32768"
definition TASK_COMM_LEN :: nat where "TASK_COMM_LEN = 16"
definition AF_INET :: u8 where "AF_INET = 2"
definition AF_INET6 :: u8 where "AF_INET6 = 10"
definition IPPROTO_ICMP :: u8 where "IPPROTO_ICMP = 1"
definition IPPROTO_TCP :: u8 where "IPPROTO_TCP = 6"
definition IPPROTO_UDP :: u8 where "IPPROTO_UDP = 17"
definition IPPROTO_ICMPV6 :: u8 where "IPPROTO_ICMPV6 = 58"

lemmas tracker_consts = MAX_ENTRIES_def TASK_COMM_LEN_def AF_INET_def AF_INET6_def
  IPPROTO_ICMP_def IPPROTO_TCP_def IPPROTO_UDP_def IPPROTO_ICMPV6_def

record conn_key =
  saddr :: "u32 list"
  daddr :: "u32 list"
  sport :: u16
  dport :: u16
  proto :: u8
  family :: u8

record conn_info =
  pid :: u32
  uid :: u32
  comm :: bytes
  timestamp :: u64

text \<open>The declared C types of the two structures, both packed.\<close>

definition conn_key_type :: ctype where
  "conn_key_type = PackedStruct [
     Mem ''saddr'' (Arr (Prim CInt) 4), Mem ''daddr'' (Arr (Prim CInt) 4),
     Mem ''sport'' (Prim CShort), Mem ''dport'' (Prim CShort),
     Mem ''proto'' (Prim CChar), Mem ''family'' (Prim CChar)]"

definition conn_info_type :: ctype where
  "conn_info_type = PackedStruct [
     Mem ''pid'' (Prim CInt), Mem ''uid'' (Prim CInt),
     Mem ''comm'' (Arr (Prim CChar) TASK_COMM_LEN), Mem ''timestamp'' (Prim CLongLong)]"

text \<open>The images the program hands to the map helpers: the fields in declaration order, each
  in the byte order of the host, no padding.\<close>

definition u32s_image :: "endian \<Rightarrow> u32 list \<Rightarrow> bytes" where
  "u32s_image en ws = concat (map (\<lambda>w. ne_bytes en 4 (unat w)) ws)"

definition key_image :: "endian \<Rightarrow> conn_key \<Rightarrow> bytes" where
  "key_image en k = u32s_image en (saddr k) @ u32s_image en (daddr k)
     @ ne_bytes en 2 (unat (sport k)) @ ne_bytes en 2 (unat (dport k)) @ [proto k, family k]"

definition info_image :: "endian \<Rightarrow> conn_info \<Rightarrow> bytes" where
  "info_image en i = ne_bytes en 4 (unat (pid i)) @ ne_bytes en 4 (unat (uid i))
     @ comm i @ ne_bytes en 8 (unat (timestamp i))"

text \<open>\<open>struct conn_key key = {};\<close> and \<open>struct conn_info info = {};\<close>\<close>

definition zero_key :: conn_key where
  "zero_key = \<lparr>saddr = [0, 0, 0, 0], daddr = [0, 0, 0, 0], sport = 0, dport = 0,
     proto = 0, family = 0\<rparr>"

definition zero_info :: conn_info where
  "zero_info = \<lparr>pid = 0, uid = 0, comm = replicate TASK_COMM_LEN 0, timestamp = 0\<rparr>"

section \<open>The kernel side: types and helpers\<close>

record karch =
  k_abi :: abi
  k_sock :: ctype
  k_msghdr :: ctype
  k_sockaddr_in :: ctype
  k_sockaddr_in6 :: ctype
  k_task :: ctype

text \<open>The offset a CO-RE relocation puts into the program. A field the kernel's types do not
  have makes the object unloadable; \<open>KernelReads\<close> shows that the bundled kernels have them all.\<close>

definition core_off :: "karch \<Rightarrow> ctype \<Rightarrow> string list \<Rightarrow> nat" where
  "core_off K t fs = (case field_at (k_abi K) t fs of Some (o', z) \<Rightarrow> o' | None \<Rightarrow> 0)"

definition core_addr :: "karch \<Rightarrow> u64 \<Rightarrow> ctype \<Rightarrow> string list \<Rightarrow> u64" where
  "core_addr K base t fs = base + of_nat (core_off K t fs)"

text \<open>
  What the kernel gives one invocation: \<open>probe_read a n\<close> is the \<open>n\<close>-byte destination after
  \<open>bpf_probe_read_kernel\<close> (or \<open>bpf_core_read\<close>) from address \<open>a\<close>, \<open>probe_read_str a n\<close>
  the result and the destination of \<open>bpf_core_read_str\<close>, \<open>current_comm\<close> the destination of
  \<open>bpf_get_current_comm\<close>, and \<open>update_ok m k\<close> whether \<open>bpf_map_update_elem\<close> returns 0.
\<close>

record bpf_env =
  current_pid_tgid :: u64
  current_uid_gid :: u64
  ktime_get_ns :: u64
  current_task :: u64
  current_comm :: bytes
  probe_read :: "u64 \<Rightarrow> nat \<Rightarrow> bytes"
  probe_read_str :: "u64 \<Rightarrow> nat \<Rightarrow> int \<times> bytes"
  update_ok :: "(bytes \<rightharpoonup> bytes) \<Rightarrow> bytes \<Rightarrow> bool"

text \<open>The helpers fill exactly the destination they are given.\<close>

definition env_ok :: "bpf_env \<Rightarrow> bool" where
  "env_ok env \<longleftrightarrow> (\<forall>a n. length (probe_read env a n) = n) \<and>
     (\<forall>a n. length (snd (probe_read_str env a n)) = n) \<and>
     length (current_comm env) = TASK_COMM_LEN"

definition core_read_u32 :: "endian \<Rightarrow> bpf_env \<Rightarrow> u64 \<Rightarrow> u32" where
  "core_read_u32 en env a = word_of_nat (ne_nat en (probe_read env a 4))"

definition core_read_u16 :: "endian \<Rightarrow> bpf_env \<Rightarrow> u64 \<Rightarrow> u16" where
  "core_read_u16 en env a = word_of_nat (ne_nat en (probe_read env a 2))"

text \<open>Pointers of a BPF program are eight bytes on every kernel.\<close>

definition core_read_ptr :: "endian \<Rightarrow> bpf_env \<Rightarrow> u64 \<Rightarrow> u64" where
  "core_read_ptr en env a = word_of_nat (ne_nat en (probe_read env a 8))"

text \<open>\<open>__builtin_memcpy(key.saddr, &temp, 16)\<close>: the four words whose images are the bytes.\<close>

fun words_of :: "endian \<Rightarrow> nat \<Rightarrow> bytes \<Rightarrow> u32 list" where
  "words_of en 0 bs = []"
| "words_of en (Suc n) bs = word_of_nat (ne_nat en (take 4 bs)) # words_of en n (drop 4 bs)"

definition core_read_in6 :: "endian \<Rightarrow> bpf_env \<Rightarrow> u64 \<Rightarrow> u32 list" where
  "core_read_in6 en env a = words_of en 4 (probe_read env a 16)"

definition bpf_ntohs :: "endian \<Rightarrow> u16 \<Rightarrow> u16" where
  "bpf_ntohs en v = (case en of Big \<Rightarrow> v | Little \<Rightarrow> word_of_nat (be_nat (le_bytes 2 (unat v))))"

type_synonym socket_map = "bytes \<rightharpoonup> bytes"

definition map_update :: "endian \<Rightarrow> bpf_env \<Rightarrow> socket_map \<Rightarrow> conn_key \<Rightarrow> conn_info \<Rightarrow> socket_map" where
  "map_update en env m k i =
     (if update_ok env m (key_image en k) then m(key_image en k \<mapsto> info_image en i) else m)"

section \<open>Process information\<close>

definition get_process_info :: "endian \<Rightarrow> karch \<Rightarrow> bpf_env \<Rightarrow> conn_info \<Rightarrow> conn_info" where
  "get_process_info en K env info =
     (let i1 = info\<lparr>pid := ucast (drop_bit 32 (current_pid_tgid env)),
                    uid := ucast (drop_bit 32 (current_uid_gid env)),
                    timestamp := ktime_get_ns env\<rparr>;
          leader = core_read_ptr en env (core_addr K (current_task env) (k_task K) [''group_leader'']);
          (err, s) = probe_read_str env (core_addr K leader (k_task K) [''comm'']) TASK_COMM_LEN;
          i2 = i1\<lparr>comm := s\<rparr>
      in if err \<le> 0 \<or> comm i2 ! 0 = 0 then i2\<lparr>comm := current_comm env\<rparr> else i2)"

section \<open>The kprobe handlers\<close>

text \<open>The socket fields the handlers read, and the store that ends each of them.\<close>

definition sk_addr :: "karch \<Rightarrow> u64 \<Rightarrow> string \<Rightarrow> u64" where
  "sk_addr K sk f = core_addr K sk (k_sock K) [''__sk_common'', f]"

definition msg_name :: "endian \<Rightarrow> karch \<Rightarrow> bpf_env \<Rightarrow> u64 \<Rightarrow> u64" where
  "msg_name en K env msg = core_read_ptr en env (core_addr K msg (k_msghdr K) [''msg_name''])"

definition store_info :: "endian \<Rightarrow> karch \<Rightarrow> bpf_env \<Rightarrow> conn_key \<Rightarrow> socket_map \<Rightarrow> socket_map" where
  "store_info en K env k m = map_update en env m k (get_process_info en K env zero_info)"

definition trace_tcp_connect :: "endian \<Rightarrow> karch \<Rightarrow> bpf_env \<Rightarrow> u64 \<Rightarrow> socket_map \<Rightarrow> socket_map" where
  "trace_tcp_connect en K env sk m =
     (if sk = 0 then m else
      let k = zero_key\<lparr>
            saddr := (saddr zero_key)[0 := core_read_u32 en env (sk_addr K sk ''skc_rcv_saddr'')],
            daddr := (daddr zero_key)[0 := core_read_u32 en env (sk_addr K sk ''skc_daddr'')],
            sport := core_read_u16 en env (sk_addr K sk ''skc_num''),
            dport := core_read_u16 en env (sk_addr K sk ''skc_dport'')\<rparr>;
          k = k\<lparr>dport := bpf_ntohs en (dport k), proto := IPPROTO_TCP, family := AF_INET\<rparr>
      in store_info en K env k m)"

definition trace_tcp_accept :: "endian \<Rightarrow> karch \<Rightarrow> bpf_env \<Rightarrow> u64 \<Rightarrow> socket_map \<Rightarrow> socket_map" where
  "trace_tcp_accept en K env sk m =
     (if sk = 0 then m else
      let k = zero_key\<lparr>
            saddr := (saddr zero_key)[0 := core_read_u32 en env (sk_addr K sk ''skc_rcv_saddr'')],
            daddr := (daddr zero_key)[0 := core_read_u32 en env (sk_addr K sk ''skc_daddr'')],
            sport := core_read_u16 en env (sk_addr K sk ''skc_num''),
            dport := core_read_u16 en env (sk_addr K sk ''skc_dport'')\<rparr>;
          k = k\<lparr>dport := bpf_ntohs en (dport k), proto := IPPROTO_TCP, family := AF_INET\<rparr>
      in store_info en K env k m)"

definition trace_udp_sendmsg ::
    "endian \<Rightarrow> karch \<Rightarrow> bpf_env \<Rightarrow> u64 \<Rightarrow> u64 \<Rightarrow> socket_map \<Rightarrow> socket_map" where
  "trace_udp_sendmsg en K env sk msg m =
     (if sk = 0 \<or> msg = 0 then m else
      let k = zero_key\<lparr>
            saddr := (saddr zero_key)[0 := core_read_u32 en env (sk_addr K sk ''skc_rcv_saddr'')],
            sport := core_read_u16 en env (sk_addr K sk ''skc_num'')\<rparr>;
          dest_addr = msg_name en K env msg;
          k = (if dest_addr \<noteq> 0
               then k\<lparr>daddr := (daddr k)[0 := core_read_u32 en env
                          (core_addr K dest_addr (k_sockaddr_in K) [''sin_addr'', ''s_addr''])],
                      dport := core_read_u16 en env
                          (core_addr K dest_addr (k_sockaddr_in K) [''sin_port''])\<rparr>
               else k\<lparr>daddr := (daddr k)[0 := core_read_u32 en env (sk_addr K sk ''skc_daddr'')],
                      dport := core_read_u16 en env (sk_addr K sk ''skc_dport'')\<rparr>)
      in if daddr k ! 0 = 0 then m
         else store_info en K env
                (k\<lparr>dport := bpf_ntohs en (dport k), proto := IPPROTO_UDP, family := AF_INET\<rparr>) m)"

definition trace_tcp_v6_connect ::
    "endian \<Rightarrow> karch \<Rightarrow> bpf_env \<Rightarrow> u64 \<Rightarrow> socket_map \<Rightarrow> socket_map" where
  "trace_tcp_v6_connect en K env sk m =
     (if sk = 0 then m else
      let k = zero_key\<lparr>
            saddr := core_read_in6 en env (sk_addr K sk ''skc_v6_rcv_saddr''),
            daddr := core_read_in6 en env (sk_addr K sk ''skc_v6_daddr''),
            sport := core_read_u16 en env (sk_addr K sk ''skc_num''),
            dport := core_read_u16 en env (sk_addr K sk ''skc_dport'')\<rparr>;
          k = k\<lparr>dport := bpf_ntohs en (dport k), proto := IPPROTO_TCP, family := AF_INET6\<rparr>
      in store_info en K env k m)"

definition trace_udp_v6_sendmsg ::
    "endian \<Rightarrow> karch \<Rightarrow> bpf_env \<Rightarrow> u64 \<Rightarrow> socket_map \<Rightarrow> socket_map" where
  "trace_udp_v6_sendmsg en K env sk m =
     (if sk = 0 then m else
      let k = zero_key\<lparr>
            saddr := core_read_in6 en env (sk_addr K sk ''skc_v6_rcv_saddr''),
            daddr := core_read_in6 en env (sk_addr K sk ''skc_v6_daddr''),
            sport := core_read_u16 en env (sk_addr K sk ''skc_num''),
            dport := core_read_u16 en env (sk_addr K sk ''skc_dport'')\<rparr>;
          k = k\<lparr>dport := bpf_ntohs en (dport k), proto := IPPROTO_UDP, family := AF_INET6\<rparr>
      in store_info en K env k m)"

definition trace_ping_v4_sendmsg ::
    "endian \<Rightarrow> karch \<Rightarrow> bpf_env \<Rightarrow> u64 \<Rightarrow> u64 \<Rightarrow> socket_map \<Rightarrow> socket_map" where
  "trace_ping_v4_sendmsg en K env sk msg m =
     (if sk = 0 \<or> msg = 0 then m else
      let k = zero_key\<lparr>
            saddr := (saddr zero_key)[0 := core_read_u32 en env (sk_addr K sk ''skc_rcv_saddr'')],
            sport := core_read_u16 en env (sk_addr K sk ''skc_num'')\<rparr>;
          dest_addr = msg_name en K env msg;
          k = (if dest_addr \<noteq> 0
               then k\<lparr>daddr := (daddr k)[0 := core_read_u32 en env
                          (core_addr K dest_addr (k_sockaddr_in K) [''sin_addr'', ''s_addr''])]\<rparr>
               else k\<lparr>daddr := (daddr k)[0 := core_read_u32 en env (sk_addr K sk ''skc_daddr'')]\<rparr>)
      in if daddr k ! 0 = 0 then m
         else store_info en K env
                (k\<lparr>dport := 0, proto := IPPROTO_ICMP, family := AF_INET\<rparr>) m)"

definition trace_ping_v6_sendmsg ::
    "endian \<Rightarrow> karch \<Rightarrow> bpf_env \<Rightarrow> u64 \<Rightarrow> u64 \<Rightarrow> socket_map \<Rightarrow> socket_map" where
  "trace_ping_v6_sendmsg en K env sk msg m =
     (if sk = 0 \<or> msg = 0 then m else
      let k = zero_key\<lparr>
            saddr := core_read_in6 en env (sk_addr K sk ''skc_v6_rcv_saddr''),
            sport := core_read_u16 en env (sk_addr K sk ''skc_num'')\<rparr>;
          dest_addr = msg_name en K env msg;
          k = (if dest_addr \<noteq> 0
               then k\<lparr>daddr := core_read_in6 en env
                          (core_addr K dest_addr (k_sockaddr_in6 K) [''sin6_addr''])\<rparr>
               else k\<lparr>daddr := core_read_in6 en env (sk_addr K sk ''skc_v6_daddr'')\<rparr>)
      in store_info en K env (k\<lparr>dport := 0, proto := IPPROTO_ICMPV6, family := AF_INET6\<rparr>) m)"

section \<open>Events\<close>

text \<open>One invocation of an attached program: the probed function and its first arguments
  (\<open>PT_REGS_PARM1_CORE\<close> and \<open>PT_REGS_PARM2_CORE\<close> of the context).\<close>

datatype hook =
    TcpConnect u64
  | InetCskAccept u64
  | UdpSendmsg u64 u64
  | TcpV6Connect u64
  | UdpV6Sendmsg u64
  | PingV4Sendmsg u64 u64
  | PingV6Sendmsg u64 u64

fun run_hook :: "endian \<Rightarrow> karch \<Rightarrow> bpf_env \<Rightarrow> hook \<Rightarrow> socket_map \<Rightarrow> socket_map" where
  "run_hook en K env (TcpConnect sk) = trace_tcp_connect en K env sk"
| "run_hook en K env (InetCskAccept sk) = trace_tcp_accept en K env sk"
| "run_hook en K env (UdpSendmsg sk msg) = trace_udp_sendmsg en K env sk msg"
| "run_hook en K env (TcpV6Connect sk) = trace_tcp_v6_connect en K env sk"
| "run_hook en K env (UdpV6Sendmsg sk) = trace_udp_v6_sendmsg en K env sk"
| "run_hook en K env (PingV4Sendmsg sk msg) = trace_ping_v4_sendmsg en K env sk msg"
| "run_hook en K env (PingV6Sendmsg sk msg) = trace_ping_v6_sendmsg en K env sk msg"

lemmas handler_defs = trace_tcp_connect_def trace_tcp_accept_def trace_udp_sendmsg_def
  trace_tcp_v6_connect_def trace_udp_v6_sendmsg_def trace_ping_v4_sendmsg_def
  trace_ping_v6_sendmsg_def

section \<open>Images\<close>

text \<open>The packed structures have the sizes the user-space side expects.\<close>

lemma conn_key_size: "csize a conn_key_type = 38"
  by (simp add: csize_def conn_key_type_def align_up_def)

lemma conn_info_size: "csize a conn_info_type = 32"
  by (simp add: csize_def conn_info_type_def align_up_def tracker_consts)

definition key_ok :: "conn_key \<Rightarrow> bool" where
  "key_ok k \<longleftrightarrow> length (saddr k) = 4 \<and> length (daddr k) = 4"

lemma length_u32s_image [simp, byte_codec]: "length (u32s_image en ws) = 4 * length ws"
  by (induction ws) (auto simp: u32s_image_def)

lemma length_key_image [byte_codec]: "key_ok k \<Longrightarrow> length (key_image en k) = 38"
  by (simp add: key_image_def key_ok_def)

lemma length_info_image [byte_codec]:
  "length (comm i) = TASK_COMM_LEN \<Longrightarrow> length (info_image en i) = 32"
  by (simp add: info_image_def tracker_consts)

lemma u32s_image_inject:
  "length vs = length ws \<Longrightarrow> u32s_image en vs = u32s_image en ws \<longleftrightarrow> vs = ws"
proof (induction vs ws rule: list_induct2)
  case (Cons v vs w ws)
  have "unat v < 256 ^ 4" "unat w < 256 ^ 4" using unsigned_less [of v] unsigned_less [of w] by simp_all
  then have "ne_bytes en 4 (unat v) = ne_bytes en 4 (unat w) \<longleftrightarrow> v = w"
    by (simp add: ne_bytes_inject word_unat_eq_iff)
  with Cons show ?case by (simp add: u32s_image_def append_eq_append_conv)
qed (simp add: u32s_image_def)

lemma u16_image_inject: "ne_bytes en 2 (unat (v :: u16)) = ne_bytes en 2 (unat w) \<longleftrightarrow> v = w"
proof -
  have "unat v < 256 ^ 2" "unat w < 256 ^ 2" using unsigned_less [of v] unsigned_less [of w] by simp_all
  then show ?thesis by (simp add: ne_bytes_inject word_unat_eq_iff)
qed

lemma length_words_of [simp]: "length (words_of en n bs) = n"
  by (induction n arbitrary: bs) auto

lemma image_u32_read:
  "length bs = 4 \<Longrightarrow> ne_bytes en 4 (unat (word_of_nat (ne_nat en bs) :: u32)) = bs"
  by (simp add: unat_word_of_ne_nat ne_bytes_ne_nat)

lemma image_u16_read:
  "length bs = 2 \<Longrightarrow> ne_bytes en 2 (unat (word_of_nat (ne_nat en bs) :: u16)) = bs"
  by (simp add: unat_word_of_ne_nat ne_bytes_ne_nat)

text \<open>\<open>memcpy\<close> keeps the bytes: the image of the copied words is the copied memory.\<close>

lemma u32s_image_words_of: "length bs = 4 * n \<Longrightarrow> u32s_image en (words_of en n bs) = bs"
proof (induction n arbitrary: bs)
  case (Suc n)
  then have "u32s_image en (words_of en n (drop 4 bs)) = drop 4 bs" by simp
  moreover have "ne_bytes en 4 (unat (word_of_nat (ne_nat en (take 4 bs)) :: u32)) = take 4 bs"
    using Suc.prems by (intro image_u32_read) simp
  ultimately show ?case by (simp add: u32s_image_def)
qed (simp add: u32s_image_def)

text \<open>\<open>bpf_ntohs\<close> turns a port read from network-order memory into its value.\<close>

lemma bpf_ntohs_read:
  assumes "length bs = 2"
  shows "unat (bpf_ntohs en (word_of_nat (ne_nat en bs))) = be_nat bs"
proof -
  have b: "be_nat bs < 2 ^ 16" "le_nat bs < 2 ^ 16"
    using ne_nat_bound [of Big bs] le_nat_bound [of bs] assms by simp_all
  show ?thesis
    using assms b
    by (cases en) (auto simp: bpf_ntohs_def unat_of_nat ne_nat_def le_bytes_le_nat)
qed

section \<open>What an event records, as network data\<close>

text \<open>
  The contract of the handlers: an event records one flow, a pair of addresses as they stand
  in memory (network order), two ports as numbers, and the protocol and family tags; or it is
  ignored. \<open>wire_key\<close> is the key of a flow.
\<close>

record flow =
  fl_src :: bytes
  fl_dst :: bytes
  fl_sport :: nat
  fl_dport :: nat
  fl_proto :: u8
  fl_family :: u8

definition pad16 :: "bytes \<Rightarrow> bytes" where
  "pad16 bs = bs @ replicate (16 - length bs) 0"

definition wire_key :: "endian \<Rightarrow> flow \<Rightarrow> bytes" where
  "wire_key en f = pad16 (fl_src f) @ pad16 (fl_dst f) @ ne_bytes en 2 (fl_sport f)
     @ ne_bytes en 2 (fl_dport f) @ [fl_proto f, fl_family f]"

definition sk_bytes :: "karch \<Rightarrow> bpf_env \<Rightarrow> u64 \<Rightarrow> string \<Rightarrow> nat \<Rightarrow> bytes" where
  "sk_bytes K env sk f n = probe_read env (sk_addr K sk f) n"

definition v4_flow :: "endian \<Rightarrow> karch \<Rightarrow> bpf_env \<Rightarrow> u64 \<Rightarrow> bytes \<Rightarrow> nat \<Rightarrow> u8 \<Rightarrow> flow" where
  "v4_flow en K env sk dst dp pr =
     \<lparr>fl_src = sk_bytes K env sk ''skc_rcv_saddr'' 4, fl_dst = dst,
      fl_sport = ne_nat en (sk_bytes K env sk ''skc_num'' 2), fl_dport = dp,
      fl_proto = pr, fl_family = AF_INET\<rparr>"

definition v6_flow :: "endian \<Rightarrow> karch \<Rightarrow> bpf_env \<Rightarrow> u64 \<Rightarrow> bytes \<Rightarrow> nat \<Rightarrow> u8 \<Rightarrow> flow" where
  "v6_flow en K env sk dst dp pr =
     \<lparr>fl_src = sk_bytes K env sk ''skc_v6_rcv_saddr'' 16, fl_dst = dst,
      fl_sport = ne_nat en (sk_bytes K env sk ''skc_num'' 2), fl_dport = dp,
      fl_proto = pr, fl_family = AF_INET6\<rparr>"

text \<open>The destination a \<open>sendmsg\<close> names: the caller's address if it gave one, else the
  socket's.\<close>

definition msg_dst4 :: "endian \<Rightarrow> karch \<Rightarrow> bpf_env \<Rightarrow> u64 \<Rightarrow> u64 \<Rightarrow> bytes" where
  "msg_dst4 en K env sk msg =
     (let d = msg_name en K env msg in
      if d = 0 then sk_bytes K env sk ''skc_daddr'' 4
      else probe_read env (core_addr K d (k_sockaddr_in K) [''sin_addr'', ''s_addr'']) 4)"

definition msg_dport :: "endian \<Rightarrow> karch \<Rightarrow> bpf_env \<Rightarrow> u64 \<Rightarrow> u64 \<Rightarrow> bytes" where
  "msg_dport en K env sk msg =
     (let d = msg_name en K env msg in
      if d = 0 then sk_bytes K env sk ''skc_dport'' 2
      else probe_read env (core_addr K d (k_sockaddr_in K) [''sin_port'']) 2)"

definition msg_dst6 :: "endian \<Rightarrow> karch \<Rightarrow> bpf_env \<Rightarrow> u64 \<Rightarrow> u64 \<Rightarrow> bytes" where
  "msg_dst6 en K env sk msg =
     (let d = msg_name en K env msg in
      if d = 0 then sk_bytes K env sk ''skc_v6_daddr'' 16
      else probe_read env (core_addr K d (k_sockaddr_in6 K) [''sin6_addr'']) 16)"

fun hook_flow :: "endian \<Rightarrow> karch \<Rightarrow> bpf_env \<Rightarrow> hook \<Rightarrow> flow option" where
  "hook_flow en K env (TcpConnect sk) = (if sk = 0 then None else
     Some (v4_flow en K env sk (sk_bytes K env sk ''skc_daddr'' 4)
             (be_nat (sk_bytes K env sk ''skc_dport'' 2)) IPPROTO_TCP))"
| "hook_flow en K env (InetCskAccept sk) = (if sk = 0 then None else
     Some (v4_flow en K env sk (sk_bytes K env sk ''skc_daddr'' 4)
             (be_nat (sk_bytes K env sk ''skc_dport'' 2)) IPPROTO_TCP))"
| "hook_flow en K env (UdpSendmsg sk msg) =
     (if sk = 0 \<or> msg = 0 \<or> msg_dst4 en K env sk msg = [0, 0, 0, 0] then None else
     Some (v4_flow en K env sk (msg_dst4 en K env sk msg)
             (be_nat (msg_dport en K env sk msg)) IPPROTO_UDP))"
| "hook_flow en K env (TcpV6Connect sk) = (if sk = 0 then None else
     Some (v6_flow en K env sk (sk_bytes K env sk ''skc_v6_daddr'' 16)
             (be_nat (sk_bytes K env sk ''skc_dport'' 2)) IPPROTO_TCP))"
| "hook_flow en K env (UdpV6Sendmsg sk) = (if sk = 0 then None else
     Some (v6_flow en K env sk (sk_bytes K env sk ''skc_v6_daddr'' 16)
             (be_nat (sk_bytes K env sk ''skc_dport'' 2)) IPPROTO_UDP))"
| "hook_flow en K env (PingV4Sendmsg sk msg) =
     (if sk = 0 \<or> msg = 0 \<or> msg_dst4 en K env sk msg = [0, 0, 0, 0] then None else
     Some (v4_flow en K env sk (msg_dst4 en K env sk msg) 0 IPPROTO_ICMP))"
| "hook_flow en K env (PingV6Sendmsg sk msg) = (if sk = 0 \<or> msg = 0 then None else
     Some (v6_flow en K env sk (msg_dst6 en K env sk msg) 0 IPPROTO_ICMPV6))"

definition record_flow ::
    "endian \<Rightarrow> karch \<Rightarrow> bpf_env \<Rightarrow> flow option \<Rightarrow> socket_map \<Rightarrow> socket_map" where
  "record_flow en K env fo m =
     (case fo of None \<Rightarrow> m
      | Some f \<Rightarrow> if update_ok env m (wire_key en f)
                 then m(wire_key en f \<mapsto> info_image en (get_process_info en K env zero_info))
                 else m)"

section \<open>The handlers meet the contract\<close>

lemma length_probe [simp]: "env_ok env \<Longrightarrow> length (probe_read env a n) = n"
  by (simp add: env_ok_def)

lemma length_sk_bytes [simp]: "env_ok env \<Longrightarrow> length (sk_bytes K env sk f n) = n"
  by (simp add: sk_bytes_def)

lemma length_msg_dst [simp]:
  "env_ok env \<Longrightarrow> length (msg_dst4 en K env sk msg) = 4"
  "env_ok env \<Longrightarrow> length (msg_dport en K env sk msg) = 2"
  "env_ok env \<Longrightarrow> length (msg_dst6 en K env sk msg) = 16"
  by (simp_all add: msg_dst4_def msg_dport_def msg_dst6_def Let_def)

text \<open>The image of a key whose address is one word read from memory.\<close>

lemma u32s_image_v4:
  "length bs = 4 \<Longrightarrow> u32s_image en [word_of_nat (ne_nat en bs), 0, 0, 0] = pad16 bs"
proof -
  assume len: "length bs = 4"
  have le: "le_bytes 4 0 = [0, 0, 0, 0]" by (simp add: le_bytes_numeral)
  have z: "ne_bytes en 4 0 = [0, 0, 0, 0]" by (cases en) (simp_all add: ne_bytes_def le)
  have r: "replicate 12 (0 :: u8) = [0, 0, 0, 0] @ [0, 0, 0, 0] @ [0, 0, 0, 0]" by (simp add: eval_nat_numeral)
  show ?thesis using len by (simp add: u32s_image_def pad16_def image_u32_read z r)
qed

lemma u32s_image_v6: "length bs = 16 \<Longrightarrow> u32s_image en (words_of en 4 bs) = pad16 bs"
  using u32s_image_words_of [of bs 4 en] by (simp add: pad16_def)

lemma image_u16_of_nat: "v < 2 ^ 16 \<Longrightarrow> ne_bytes en 2 (unat (word_of_nat v :: u16)) = ne_bytes en 2 v"
  by (simp add: unat_of_nat)

lemma image_ntohs_read:
  "length bs = 2 \<Longrightarrow> ne_bytes en 2 (unat (bpf_ntohs en (word_of_nat (ne_nat en bs)))) = ne_bytes en 2 (be_nat bs)"
  by (simp add: bpf_ntohs_read)

lemma word_read_eq_0:
  assumes "length bs = 4"
  shows "(word_of_nat (ne_nat en bs) :: u32) = 0 \<longleftrightarrow> bs = [0, 0, 0, 0]"
proof -
  have z: "ne_nat en [0, 0, 0, 0] = 0" by (cases en) (simp_all add: ne_nat_def)
  have "unat (word_of_nat (ne_nat en bs) :: u32) = ne_nat en bs"
    using assms by (simp add: unat_word_of_ne_nat)
  then have "(word_of_nat (ne_nat en bs) :: u32) = 0 \<longleftrightarrow> ne_nat en bs = ne_nat en [0, 0, 0, 0]"
    unfolding z by (metis unat_0 word_unat_eq_iff)
  also have "\<dots> \<longleftrightarrow> bs = [0, 0, 0, 0]" using assms by (intro ne_nat_inject) simp
  finally show ?thesis .
qed

lemma image_port_read: "length bs = 2 \<Longrightarrow> ne_bytes en 2 (ne_nat en bs) = bs"
  by (rule ne_bytes_ne_nat)

lemmas image_reads = image_port_read u32s_image_v4 u32s_image_v6 image_u16_read image_ntohs_read word_read_eq_0
lemmas read_defs = core_read_u32_def core_read_u16_def core_read_in6_def

lemma run_hook_flow:
  assumes "env_ok env"
  shows "run_hook en K env h m = record_flow en K env (hook_flow en K env h) m"
proof -
  show ?thesis
    using assms
    by (cases h)
      (simp_all add: handler_defs record_flow_def store_info_def map_update_def key_image_def
        wire_key_def v4_flow_def v6_flow_def zero_key_def read_defs image_reads Let_def
        msg_dst4_def msg_dport_def msg_dst6_def sk_bytes_def)
qed

section \<open>The entries of the map\<close>

definition flow_ok :: "flow \<Rightarrow> bool" where
  "flow_ok f \<longleftrightarrow>
     (fl_family f = AF_INET \<and> length (fl_src f) = 4 \<and> length (fl_dst f) = 4
        \<and> fl_proto f \<in> {IPPROTO_TCP, IPPROTO_UDP, IPPROTO_ICMP} \<or>
      fl_family f = AF_INET6 \<and> length (fl_src f) = 16 \<and> length (fl_dst f) = 16
        \<and> fl_proto f \<in> {IPPROTO_TCP, IPPROTO_UDP, IPPROTO_ICMPV6})
     \<and> fl_sport f < 2 ^ 16 \<and> fl_dport f < 2 ^ 16
     \<and> (fl_proto f \<in> {IPPROTO_ICMP, IPPROTO_ICMPV6} \<longrightarrow> fl_dport f = 0)"

definition entry_ok :: "endian \<Rightarrow> bytes \<Rightarrow> bytes \<Rightarrow> bool" where
  "entry_ok en k v \<longleftrightarrow> (\<exists>f. flow_ok f \<and> k = wire_key en f) \<and> length v = 32"

definition map_ok :: "endian \<Rightarrow> socket_map \<Rightarrow> bool" where
  "map_ok en m \<longleftrightarrow> (\<forall>k v. m k = Some v \<longrightarrow> entry_ok en k v)"

lemma length_wire_key: "flow_ok f \<Longrightarrow> length (wire_key en f) = 38"
  by (auto simp: flow_ok_def wire_key_def pad16_def)

lemma ne_nat_bound_port: "length bs = 2 \<Longrightarrow> ne_nat en bs < 65536"
  using ne_nat_bound [of en bs] by simp

lemma hook_flow_ok:
  assumes "env_ok env" and "hook_flow en K env h = Some f"
  shows "flow_ok f"
  using assms
  by (cases h)
    (auto simp: flow_ok_def v4_flow_def v6_flow_def tracker_consts ne_nat_bound_port
      split: if_splits)

lemma length_process_info:
  assumes "env_ok env"
  shows "length (comm (get_process_info en K env zero_info)) = TASK_COMM_LEN"
proof -
  obtain err s where s: "probe_read_str env (core_addr K (core_read_ptr en env (core_addr K (current_task env)
      (k_task K) [''group_leader''])) (k_task K) [''comm'']) TASK_COMM_LEN = (err, s)"
    by force
  then have "length s = TASK_COMM_LEN" using assms unfolding env_ok_def by (metis snd_conv)
  then show ?thesis using assms s
    by (simp add: get_process_info_def env_ok_def Let_def)
qed

lemma run_hook_map_ok:
  assumes "env_ok env" and "map_ok en m"
  shows "map_ok en (run_hook en K env h m)"
proof (cases "hook_flow en K env h")
  case None
  then show ?thesis using assms by (simp add: run_hook_flow record_flow_def)
next
  case (Some f)
  then have "entry_ok en (wire_key en f) (info_image en (get_process_info en K env zero_info))"
    using hook_flow_ok [OF assms(1)] length_info_image [OF length_process_info [OF assms(1)]]
    unfolding entry_ok_def by blast
  then show ?thesis using assms Some
    by (auto simp: run_hook_flow record_flow_def map_ok_def)
qed

text \<open>The states of the map: hooks fire in any order, in any environment, and user space
  deletes entries.\<close>

inductive reachable_map :: "endian \<Rightarrow> socket_map \<Rightarrow> bool" for en where
  created: "reachable_map en Map.empty"
| fired: "reachable_map en m \<Longrightarrow> env_ok env \<Longrightarrow> reachable_map en (run_hook en K env h m)"
| deleted: "reachable_map en m \<Longrightarrow> reachable_map en (m(k := None))"

lemma reachable_map_ok: "reachable_map en m \<Longrightarrow> map_ok en m"
proof (induction rule: reachable_map.induct)
  case created
  then show ?case by (simp add: map_ok_def)
next
  case (fired m env K h)
  then show ?case by (blast intro: run_hook_map_ok)
next
  case (deleted m k)
  then show ?case by (simp add: map_ok_def)
qed

lemma reachable_map_bytes:
  "reachable_map en m \<Longrightarrow> m k = Some v \<Longrightarrow> length k = 38 \<and> length v = 32"
  using reachable_map_ok by (fastforce simp: map_ok_def entry_ok_def length_wire_key)

end
