(* ===== verification/KernelTypes.thy ===== *)
theory KernelTypes
  imports Vmlinux_X86 Vmlinux_Arm64 Vmlinux_Arm SocketTracker
begin

text \<open>
  The tracker program against the three bundled kernel headers: the types it reads as a
  \<open>karch\<close> each, and the offsets and widths to which the CO-RE access paths of the program
  resolve. Also the embedding of \<open>struct sock\<close> at the start
  of the sockets the probed functions are called with.
\<close>

definition x86_arch :: karch where
  "x86_arch = \<lparr>k_abi = LP64, k_sock = x86_sock, k_msghdr = x86_msghdr, k_sockaddr_in = x86_sockaddr_in,
     k_sockaddr_in6 = x86_sockaddr_in6, k_task = x86_task_struct\<rparr>"

definition arm64_arch :: karch where
  "arm64_arch = \<lparr>k_abi = LP64, k_sock = arm64_sock, k_msghdr = arm64_msghdr,
     k_sockaddr_in = arm64_sockaddr_in, k_sockaddr_in6 = arm64_sockaddr_in6,
     k_task = arm64_task_struct\<rparr>"

definition arm_arch :: karch where
  "arm_arch = \<lparr>k_abi = ILP32, k_sock = arm_sock, k_msghdr = arm_msghdr, k_sockaddr_in = arm_sockaddr_in,
     k_sockaddr_in6 = arm_sockaddr_in6, k_task = arm_task_struct\<rparr>"

lemmas karch_defs = x86_arch_def arm64_arch_def arm_arch_def

section \<open>Resolution on the bundled headers\<close>

named_theorems kernel_fields "resolved access paths of the bundled headers"

subsection \<open>x86\<close>

lemma x86_group_leader [kernel_fields]:
  "field_at LP64 x86_task_struct [''group_leader''] = Some (888, 8)"
  by (simp add: field_at_def csize_def x86_task_struct_def x86_task_struct_members1_def x86_task_struct_members2_def c_layout member_eval)

lemma x86_comm [kernel_fields]:
  "field_at LP64 x86_task_struct [''comm''] = Some (1160, 16)"
  by (simp add: field_at_def csize_def x86_task_struct_def x86_task_struct_members1_def x86_task_struct_members2_def c_layout member_eval)

lemma x86_skc_rcv_saddr [kernel_fields]:
  "field_at LP64 x86_sock [''__sk_common'', ''skc_rcv_saddr''] = Some (4, 4)"
  by (simp add: field_at_def csize_def x86_sock_def x86_sock_common_def c_layout member_eval)

lemma x86_skc_daddr [kernel_fields]:
  "field_at LP64 x86_sock [''__sk_common'', ''skc_daddr''] = Some (0, 4)"
  by (simp add: field_at_def csize_def x86_sock_def x86_sock_common_def c_layout member_eval)

lemma x86_skc_num [kernel_fields]:
  "field_at LP64 x86_sock [''__sk_common'', ''skc_num''] = Some (14, 2)"
  by (simp add: field_at_def csize_def x86_sock_def x86_sock_common_def c_layout member_eval)

lemma x86_skc_dport [kernel_fields]:
  "field_at LP64 x86_sock [''__sk_common'', ''skc_dport''] = Some (12, 2)"
  by (simp add: field_at_def csize_def x86_sock_def x86_sock_common_def c_layout member_eval)

lemma x86_msg_name [kernel_fields]:
  "field_at LP64 x86_msghdr [''msg_name''] = Some (0, 8)"
  by (simp add: field_at_def csize_def x86_msghdr_def c_layout member_eval)

lemma x86_s_addr [kernel_fields]:
  "field_at LP64 x86_sockaddr_in [''sin_addr'', ''s_addr''] = Some (4, 4)"
  by (simp add: field_at_def csize_def x86_sockaddr_in_def x86_in_addr_def c_layout member_eval)

lemma x86_sin_port [kernel_fields]:
  "field_at LP64 x86_sockaddr_in [''sin_port''] = Some (2, 2)"
  by (simp add: field_at_def csize_def x86_sockaddr_in_def x86_in_addr_def c_layout member_eval)

lemma x86_skc_v6_rcv_saddr [kernel_fields]:
  "field_at LP64 x86_sock [''__sk_common'', ''skc_v6_rcv_saddr''] = Some (64, 16)"
  by (simp add: field_at_def csize_def x86_sock_def x86_sock_common_def c_layout member_eval)

lemma x86_skc_v6_daddr [kernel_fields]:
  "field_at LP64 x86_sock [''__sk_common'', ''skc_v6_daddr''] = Some (48, 16)"
  by (simp add: field_at_def csize_def x86_sock_def x86_sock_common_def c_layout member_eval)

lemma x86_sin6_addr [kernel_fields]:
  "field_at LP64 x86_sockaddr_in6 [''sin6_addr''] = Some (8, 16)"
  by (simp add: field_at_def csize_def x86_sockaddr_in6_def c_layout member_eval)

lemma x86_tcp_embeds_sock [kernel_fields]:
  "field_at LP64 x86_tcp6_sock [''tcp'', ''inet_conn'', ''icsk_inet'', ''sk''] = Some (0, csize LP64 x86_sock)"
  by (simp add: field_at_def csize_def x86_tcp6_sock_def x86_tcp_sock_def x86_tcp_sock_members1_def x86_tcp_sock_members2_def x86_inet_connection_sock_def x86_inet_sock_def c_layout member_eval)

lemma x86_udp_embeds_sock [kernel_fields]:
  "field_at LP64 x86_udp6_sock [''udp'', ''inet'', ''sk''] = Some (0, csize LP64 x86_sock)"
  by (simp add: field_at_def csize_def x86_udp6_sock_def x86_udp_sock_def x86_inet_sock_def c_layout member_eval)

subsection \<open>aarch64\<close>

lemma arm64_group_leader [kernel_fields]:
  "field_at LP64 arm64_task_struct [''group_leader''] = Some (1136, 8)"
  by (simp add: field_at_def csize_def arm64_task_struct_def arm64_task_struct_members1_def arm64_task_struct_members2_def c_layout member_eval)

lemma arm64_comm [kernel_fields]:
  "field_at LP64 arm64_task_struct [''comm''] = Some (1416, 16)"
  by (simp add: field_at_def csize_def arm64_task_struct_def arm64_task_struct_members1_def arm64_task_struct_members2_def c_layout member_eval)

lemma arm64_skc_rcv_saddr [kernel_fields]:
  "field_at LP64 arm64_sock [''__sk_common'', ''skc_rcv_saddr''] = Some (4, 4)"
  by (simp add: field_at_def csize_def arm64_sock_def arm64_sock_common_def c_layout member_eval)

lemma arm64_skc_daddr [kernel_fields]:
  "field_at LP64 arm64_sock [''__sk_common'', ''skc_daddr''] = Some (0, 4)"
  by (simp add: field_at_def csize_def arm64_sock_def arm64_sock_common_def c_layout member_eval)

lemma arm64_skc_num [kernel_fields]:
  "field_at LP64 arm64_sock [''__sk_common'', ''skc_num''] = Some (14, 2)"
  by (simp add: field_at_def csize_def arm64_sock_def arm64_sock_common_def c_layout member_eval)

lemma arm64_skc_dport [kernel_fields]:
  "field_at LP64 arm64_sock [''__sk_common'', ''skc_dport''] = Some (12, 2)"
  by (simp add: field_at_def csize_def arm64_sock_def arm64_sock_common_def c_layout member_eval)

lemma arm64_msg_name [kernel_fields]:
  "field_at LP64 arm64_msghdr [''msg_name''] = Some (0, 8)"
  by (simp add: field_at_def csize_def arm64_msghdr_def c_layout member_eval)

lemma arm64_s_addr [kernel_fields]:
  "field_at LP64 arm64_sockaddr_in [''sin_addr'', ''s_addr''] = Some (4, 4)"
  by (simp add: field_at_def csize_def arm64_sockaddr_in_def arm64_in_addr_def c_layout member_eval)

lemma arm64_sin_port [kernel_fields]:
  "field_at LP64 arm64_sockaddr_in [''sin_port''] = Some (2, 2)"
  by (simp add: field_at_def csize_def arm64_sockaddr_in_def arm64_in_addr_def c_layout member_eval)

lemma arm64_skc_v6_rcv_saddr [kernel_fields]:
  "field_at LP64 arm64_sock [''__sk_common'', ''skc_v6_rcv_saddr''] = Some (64, 16)"
  by (simp add: field_at_def csize_def arm64_sock_def arm64_sock_common_def c_layout member_eval)

lemma arm64_skc_v6_daddr [kernel_fields]:
  "field_at LP64 arm64_sock [''__sk_common'', ''skc_v6_daddr''] = Some (48, 16)"
  by (simp add: field_at_def csize_def arm64_sock_def arm64_sock_common_def c_layout member_eval)

lemma arm64_sin6_addr [kernel_fields]:
  "field_at LP64 arm64_sockaddr_in6 [''sin6_addr''] = Some (8, 16)"
  by (simp add: field_at_def csize_def arm64_sockaddr_in6_def c_layout member_eval)

lemma arm64_tcp_embeds_sock [kernel_fields]:
  "field_at LP64 arm64_tcp6_sock [''tcp'', ''inet_conn'', ''icsk_inet'', ''sk''] = Some (0, csize LP64 arm64_sock)"
  by (simp add: field_at_def csize_def arm64_tcp6_sock_def arm64_tcp_sock_def arm64_tcp_sock_members1_def arm64_tcp_sock_members2_def arm64_inet_connection_sock_def arm64_inet_sock_def c_layout member_eval)

lemma arm64_udp_embeds_sock [kernel_fields]:
  "field_at LP64 arm64_udp6_sock [''udp'', ''inet'', ''sk''] = Some (0, csize LP64 arm64_sock)"
  by (simp add: field_at_def csize_def arm64_udp6_sock_def arm64_udp_sock_def arm64_inet_sock_def c_layout member_eval)

subsection \<open>arm\<close>

lemma arm_group_leader [kernel_fields]:
  "field_at ILP32 arm_task_struct [''group_leader''] = Some (960, 4)"
  by (simp add: field_at_def csize_def arm_task_struct_def arm_task_struct_members1_def arm_task_struct_members2_def c_layout member_eval)

lemma arm_comm [kernel_fields]:
  "field_at ILP32 arm_task_struct [''comm''] = Some (1124, 16)"
  by (simp add: field_at_def csize_def arm_task_struct_def arm_task_struct_members1_def arm_task_struct_members2_def c_layout member_eval)

lemma arm_skc_rcv_saddr [kernel_fields]:
  "field_at ILP32 arm_sock [''__sk_common'', ''skc_rcv_saddr''] = Some (4, 4)"
  by (simp add: field_at_def csize_def arm_sock_def arm_sock_common_def c_layout member_eval)

lemma arm_skc_daddr [kernel_fields]:
  "field_at ILP32 arm_sock [''__sk_common'', ''skc_daddr''] = Some (0, 4)"
  by (simp add: field_at_def csize_def arm_sock_def arm_sock_common_def c_layout member_eval)

lemma arm_skc_num [kernel_fields]:
  "field_at ILP32 arm_sock [''__sk_common'', ''skc_num''] = Some (14, 2)"
  by (simp add: field_at_def csize_def arm_sock_def arm_sock_common_def c_layout member_eval)

lemma arm_skc_dport [kernel_fields]:
  "field_at ILP32 arm_sock [''__sk_common'', ''skc_dport''] = Some (12, 2)"
  by (simp add: field_at_def csize_def arm_sock_def arm_sock_common_def c_layout member_eval)

lemma arm_msg_name [kernel_fields]:
  "field_at ILP32 arm_msghdr [''msg_name''] = Some (0, 4)"
  by (simp add: field_at_def csize_def arm_msghdr_def c_layout member_eval)

lemma arm_s_addr [kernel_fields]:
  "field_at ILP32 arm_sockaddr_in [''sin_addr'', ''s_addr''] = Some (4, 4)"
  by (simp add: field_at_def csize_def arm_sockaddr_in_def arm_in_addr_def c_layout member_eval)

lemma arm_sin_port [kernel_fields]:
  "field_at ILP32 arm_sockaddr_in [''sin_port''] = Some (2, 2)"
  by (simp add: field_at_def csize_def arm_sockaddr_in_def arm_in_addr_def c_layout member_eval)

lemma arm_skc_v6_rcv_saddr [kernel_fields]:
  "field_at ILP32 arm_sock [''__sk_common'', ''skc_v6_rcv_saddr''] = Some (52, 16)"
  by (simp add: field_at_def csize_def arm_sock_def arm_sock_common_def c_layout member_eval)

lemma arm_skc_v6_daddr [kernel_fields]:
  "field_at ILP32 arm_sock [''__sk_common'', ''skc_v6_daddr''] = Some (36, 16)"
  by (simp add: field_at_def csize_def arm_sock_def arm_sock_common_def c_layout member_eval)

lemma arm_sin6_addr [kernel_fields]:
  "field_at ILP32 arm_sockaddr_in6 [''sin6_addr''] = Some (8, 16)"
  by (simp add: field_at_def csize_def arm_sockaddr_in6_def c_layout member_eval)

lemma arm_tcp_embeds_sock [kernel_fields]:
  "field_at ILP32 arm_tcp6_sock [''tcp'', ''inet_conn'', ''icsk_inet'', ''sk''] = Some (0, csize ILP32 arm_sock)"
  by (simp add: field_at_def csize_def arm_tcp6_sock_def arm_tcp_sock_def arm_tcp_sock_members1_def arm_tcp_sock_members2_def arm_inet_connection_sock_def arm_inet_sock_def c_layout member_eval)

lemma arm_udp_embeds_sock [kernel_fields]:
  "field_at ILP32 arm_udp6_sock [''udp'', ''inet'', ''sk''] = Some (0, csize ILP32 arm_sock)"
  by (simp add: field_at_def csize_def arm_udp6_sock_def arm_udp_sock_def arm_inet_sock_def c_layout member_eval)

text \<open>The relocated socket offsets, as the handlers use them.\<close>

lemma core_off_sock:
  "core_off x86_arch (k_sock x86_arch) [''__sk_common'', ''skc_daddr''] = 0"
  "core_off x86_arch (k_sock x86_arch) [''__sk_common'', ''skc_rcv_saddr''] = 4"
  "core_off x86_arch (k_sock x86_arch) [''__sk_common'', ''skc_dport''] = 12"
  "core_off x86_arch (k_sock x86_arch) [''__sk_common'', ''skc_num''] = 14"
  "core_off x86_arch (k_sock x86_arch) [''__sk_common'', ''skc_v6_daddr''] = 48"
  "core_off x86_arch (k_sock x86_arch) [''__sk_common'', ''skc_v6_rcv_saddr''] = 64"
  "core_off x86_arch (k_task x86_arch) [''group_leader''] = 888"
  "core_off x86_arch (k_task x86_arch) [''comm''] = 1160"
  "core_off x86_arch (k_msghdr x86_arch) [''msg_name''] = 0"
  "core_off x86_arch (k_sockaddr_in x86_arch) [''sin_addr'', ''s_addr''] = 4"
  "core_off x86_arch (k_sockaddr_in x86_arch) [''sin_port''] = 2"
  "core_off x86_arch (k_sockaddr_in6 x86_arch) [''sin6_addr''] = 8"
  by (simp_all add: core_off_def karch_defs kernel_fields)

end
