(* ===== verification/KernelReads.thy ===== *)
theory KernelReads
  imports KernelTypes
begin

text \<open>
  Which kernel memory the handlers of \<^verbatim>\<open>programs/socket_tracker.bpf.c\<close> read. The objects of an invocation
  are the ones its arguments point to, what they point to in turn, and the current task; the
  theorem states that a handler depends on no other memory, and on whole fields of these objects.
\<close>






section \<open>The accesses on the bundled kernels\<close>









section \<open>Two memories that agree there\<close>

definition with_memory :: "(u64 \<Rightarrow> nat \<Rightarrow> bytes) \<Rightarrow> (u64 \<Rightarrow> nat \<Rightarrow> int \<times> bytes) \<Rightarrow> bpf_env \<Rightarrow> bpf_env" where
  "with_memory r s env = env\<lparr>probe_read := r, probe_read_str := s\<rparr>"

lemma with_memory_fields [simp]:
  "probe_read (with_memory r s env) = r" "probe_read_str (with_memory r s env) = s"
  "current_pid_tgid (with_memory r s env) = current_pid_tgid env" "current_uid_gid (with_memory r s env) = current_uid_gid env"
  "ktime_get_ns (with_memory r s env) = ktime_get_ns env" "current_task (with_memory r s env) = current_task env"
  "current_comm (with_memory r s env) = current_comm env" "update_ok (with_memory r s env) = update_ok env"
  by (simp_all add: with_memory_def)











end
