(* ===== verification/RustStd.thy ===== *)
theory RustStd
  imports Prelude
begin

text \<open>
  What the Rust side uses of its standard library: \<open>std::net\<close> addresses and their octets,
  and \<open>String\<close> as a valid UTF-8 byte sequence with \<open>str::from_utf8\<close> (fails on the first
  invalid sequence) and \<open>String::from_utf8_lossy\<close> (replaces every maximal invalid prefix by
  U+FFFD). \<open>ascii\<close> turns a literal into bytes.
\<close>

section \<open>Addresses\<close>

datatype ipv4 = Ipv4Addr u8 u8 u8 u8
datatype ipv6 = Ipv6Addr u16 u16 u16 u16 u16 u16 u16 u16
datatype ip_addr = V4 ipv4 | V6 ipv6

fun octets4 :: "ipv4 \<Rightarrow> bytes" where
  "octets4 (Ipv4Addr a b c d) = [a, b, c, d]"

definition be16 :: "u16 \<Rightarrow> bytes" where
  "be16 w = ne_bytes Big 2 (unat w)"

fun octets6 :: "ipv6 \<Rightarrow> bytes" where
  "octets6 (Ipv6Addr a b c d e f g h) =
     be16 a @ be16 b @ be16 c @ be16 d @ be16 e @ be16 f @ be16 g @ be16 h"

definition from_be16 :: "u8 \<Rightarrow> u8 \<Rightarrow> u16" where
  "from_be16 a b = word_of_nat (be_nat [a, b])"

text \<open>\<open>Ipv6Addr::from([u8; 16])\<close>\<close>

fun ipv6_of :: "bytes \<Rightarrow> ipv6 option" where
  "ipv6_of [a0, a1, b0, b1, c0, c1, d0, d1, e0, e1, f0, f1, g0, g1, h0, h1] =
     Some (Ipv6Addr (from_be16 a0 a1) (from_be16 b0 b1) (from_be16 c0 c1) (from_be16 d0 d1)
       (from_be16 e0 e1) (from_be16 f0 f1) (from_be16 g0 g1) (from_be16 h0 h1))"
| "ipv6_of _ = None"

definition UNSPECIFIED4 :: ipv4 where "UNSPECIFIED4 = Ipv4Addr 0 0 0 0"
definition UNSPECIFIED6 :: ipv6 where "UNSPECIFIED6 = Ipv6Addr 0 0 0 0 0 0 0 0"

record socket_addr =
  ip :: ip_addr
  port :: u16

lemma unat_u16_bound: "unat (w :: u16) < 65536"
  using unsigned_less [of w] by simp

lemma length_octets4 [simp]: "length (octets4 x) = 4"
  by (cases x) simp

lemma length_be16 [simp]: "length (be16 w) = 2"
  by (simp add: be16_def)

lemma length_octets6 [simp]: "length (octets6 x) = 16"
  by (cases x) simp

lemma from_be16_be16: "be16 w = [a, b] \<Longrightarrow> from_be16 a b = w"
proof -
  assume "be16 w = [a, b]"
  moreover have "be_nat (be16 w) = unat w"
    using unat_u16_bound [of w] by (simp add: be16_def ne_nat_ne_bytes)
  ultimately show ?thesis by (simp add: from_be16_def)
qed

lemma be16_inject: "be16 v = be16 w \<longleftrightarrow> v = w"
proof -
  have "unat v < 256 ^ 2" "unat w < 256 ^ 2" using unsigned_less [of v] unsigned_less [of w] by simp_all
  then show ?thesis by (simp add: be16_def ne_bytes_inject word_unat_eq_iff)
qed

lemma octets4_inject: "octets4 x = octets4 y \<longleftrightarrow> x = y"
  by (cases x; cases y) simp

lemma octets6_inject: "octets6 x = octets6 y \<longleftrightarrow> x = y"
  by (cases x; cases y) (simp add: be16_inject)

lemma octets4_UNSPECIFIED: "octets4 UNSPECIFIED4 = replicate 4 0"
  by (simp add: UNSPECIFIED4_def eval_nat_numeral)

section \<open>Strings\<close>

definition ascii :: "string \<Rightarrow> bytes" where
  "ascii s = map of_char s"

text \<open>A continuation byte, and the range of the second byte that a first byte allows.\<close>

definition is_cont :: "u8 \<Rightarrow> bool" where
  "is_cont b \<longleftrightarrow> 128 \<le> b \<and> b \<le> 191"

definition second3_ok :: "u8 \<Rightarrow> u8 \<Rightarrow> bool" where
  "second3_ok a b \<longleftrightarrow>
     (if a = 224 then 160 \<le> b \<and> b \<le> 191 else if a = 237 then 128 \<le> b \<and> b \<le> 159 else is_cont b)"

definition second4_ok :: "u8 \<Rightarrow> u8 \<Rightarrow> bool" where
  "second4_ok a b \<longleftrightarrow>
     (if a = 240 then 144 \<le> b \<and> b \<le> 191 else if a = 244 then 128 \<le> b \<and> b \<le> 143 else is_cont b)"

text \<open>The first sequence of a string: whether it is valid and how many bytes it takes; past
  the end a byte reads as 0, which continues nothing.\<close>

definition byte_or_0 :: "bytes \<Rightarrow> nat \<Rightarrow> u8" where
  "byte_or_0 bs i = (if i < length bs then bs ! i else 0)"

definition utf8_head :: "bytes \<Rightarrow> bool \<times> nat" where
  "utf8_head bs =
     (let a = byte_or_0 bs 0; b = byte_or_0 bs 1; c = byte_or_0 bs 2; d = byte_or_0 bs 3 in
      if a < 128 then (True, 1)
      else if 194 \<le> a \<and> a \<le> 223 then (if is_cont b then (True, 2) else (False, 1))
      else if 224 \<le> a \<and> a \<le> 239 then
        (if \<not> second3_ok a b then (False, 1) else if is_cont c then (True, 3) else (False, 2))
      else if 240 \<le> a \<and> a \<le> 244 then
        (if \<not> second4_ok a b then (False, 1) else if \<not> is_cont c then (False, 2)
         else if is_cont d then (True, 4) else (False, 3))
      else (False, 1))"

lemma utf8_head_pos: "0 < snd (utf8_head bs)"
  by (simp add: utf8_head_def Let_def)

function utf8_valid :: "bytes \<Rightarrow> bool" where
  "utf8_valid bs =
     (if bs = [] then True
      else if fst (utf8_head bs) then utf8_valid (drop (snd (utf8_head bs)) bs)
      else False)"
  by pat_completeness auto
termination
  by (relation "measure length") (auto simp: utf8_head_pos intro!: diff_less)

definition replacement :: bytes where "replacement = [239, 191, 189]"

function from_utf8_lossy :: "bytes \<Rightarrow> bytes" where
  "from_utf8_lossy bs =
     (if bs = [] then []
      else (if fst (utf8_head bs) then take (snd (utf8_head bs)) bs else replacement)
             @ from_utf8_lossy (drop (snd (utf8_head bs)) bs))"
  by pat_completeness auto
termination
  by (relation "measure length") (auto simp: utf8_head_pos intro!: diff_less)

declare utf8_valid.simps [simp del] from_utf8_lossy.simps [simp del]

definition from_utf8 :: "bytes \<Rightarrow> bytes option" where
  "from_utf8 bs = (if utf8_valid bs then Some bs else None)"

lemma utf8_Nil [simp]: "utf8_valid []" "from_utf8_lossy [] = []"
  by (subst utf8_valid.simps from_utf8_lossy.simps, simp)+

text \<open>An ASCII byte is a sequence of its own.\<close>

lemma utf8_head_ascii: "b < 128 \<Longrightarrow> utf8_head (b # bs) = (True, 1)"
  by (simp add: utf8_head_def byte_or_0_def Let_def)

lemma utf8_valid_ascii [simp]: "b < 128 \<Longrightarrow> utf8_valid (b # bs) = utf8_valid bs"
  by (subst utf8_valid.simps) (simp add: utf8_head_ascii)

lemma from_utf8_lossy_ascii [simp]:
  "b < 128 \<Longrightarrow> from_utf8_lossy (b # bs) = b # from_utf8_lossy bs"
  by (subst from_utf8_lossy.simps) (simp add: utf8_head_ascii)

text \<open>On a valid string the lossy conversion is the identity.\<close>

lemma from_utf8_lossy_valid: "utf8_valid bs \<Longrightarrow> from_utf8_lossy bs = bs"
proof (induction bs rule: utf8_valid.induct)
  case (1 bs)
  show ?case
  proof (cases "bs = []")
    case False
    with 1 have "fst (utf8_head bs)" "from_utf8_lossy (drop (snd (utf8_head bs)) bs) = drop (snd (utf8_head bs)) bs"
      by (auto simp: utf8_valid.simps [of bs] split: if_splits)
    with False show ?thesis by (simp add: from_utf8_lossy.simps [of bs])
  qed simp
qed

text \<open>\<open>take_until_nul\<close>: the C string in a fixed buffer, \<open>position(|&x| x == 0)\<close>.\<close>

fun position :: "('a \<Rightarrow> bool) \<Rightarrow> 'a list \<Rightarrow> nat option" where
  "position P [] = None"
| "position P (x # xs) = (if P x then Some 0 else map_option Suc (position P xs))"

lemma position_less: "position P xs = Some i \<Longrightarrow> i < length xs \<and> P (xs ! i)"
  by (induction xs arbitrary: i) (auto split: if_splits)

lemma position_None: "position P xs = None \<longleftrightarrow> (\<forall>x \<in> set xs. \<not> P x)"
  by (induction xs) auto

lemma position_first: "position P xs = Some i \<Longrightarrow> j < i \<Longrightarrow> \<not> P (xs ! j)"
proof (induction xs arbitrary: i j)
  case (Cons x xs)
  then show ?case by (cases j) (auto split: if_splits)
qed simp

end
