(* ===== verification/EbpfMaps.thy ===== *)
theory EbpfMaps
  imports SocketTracker RustStd
begin

text \<open>
  The user-space side of the socket map, \<^verbatim>\<open>crates/rustnet-host/src/linux/ebpf/maps_libbpf.rs\<close>
  (keys, values, lookup, stale-entry cleanup) and \<^verbatim>\<open>tracker_libbpf.rs\<close> (the lookups of a
  connection). The map is the socket map of the tracker program; \<open>map_view\<close> gives what the
  libbpf calls return: \<open>mv_lookup_ok\<close> and \<open>mv_delete_ok\<close> say whether a syscall succeeds.
\<close>

section \<open>Keys\<close>

record ConnKey =
  ck_saddr :: "u32 list"
  ck_daddr :: "u32 list"
  ck_sport :: u16
  ck_dport :: u16
  ck_proto :: u8
  ck_family :: u8

record ConnInfo =
  ci_pid :: u32
  ci_uid :: u32
  ci_comm :: bytes
  ci_timestamp :: u64

definition RS_AF_INET :: u8 where "RS_AF_INET = 2"
definition RS_AF_INET6 :: u8 where "RS_AF_INET6 = 10"
definition RS_IPPROTO_ICMP :: u8 where "RS_IPPROTO_ICMP = 1"
definition RS_IPPROTO_TCP :: u8 where "RS_IPPROTO_TCP = 6"
definition RS_IPPROTO_UDP :: u8 where "RS_IPPROTO_UDP = 17"
definition RS_IPPROTO_ICMPV6 :: u8 where "RS_IPPROTO_ICMPV6 = 58"

lemmas rs_consts = RS_AF_INET_def RS_AF_INET6_def RS_IPPROTO_ICMP_def RS_IPPROTO_TCP_def
  RS_IPPROTO_UDP_def RS_IPPROTO_ICMPV6_def

definition empty_v4 :: "u16 \<Rightarrow> u16 \<Rightarrow> u8 \<Rightarrow> ConnKey" where
  "empty_v4 sp dp pr = \<lparr>ck_saddr = [0, 0, 0, 0], ck_daddr = [0, 0, 0, 0], ck_sport = sp,
     ck_dport = dp, ck_proto = pr, ck_family = RS_AF_INET\<rparr>"

definition empty_v6 :: "u16 \<Rightarrow> u16 \<Rightarrow> u8 \<Rightarrow> ConnKey" where
  "empty_v6 sp dp pr = \<lparr>ck_saddr = [0, 0, 0, 0], ck_daddr = [0, 0, 0, 0], ck_sport = sp,
     ck_dport = dp, ck_proto = pr, ck_family = RS_AF_INET6\<rparr>"

definition fill_v4 :: "ConnKey \<Rightarrow> ipv4 \<Rightarrow> ipv4 \<Rightarrow> ConnKey" where
  "fill_v4 k src dst =
     k\<lparr>ck_saddr := (ck_saddr k)[0 := word_of_nat (le_nat (octets4 src))],
       ck_daddr := (ck_daddr k)[0 := word_of_nat (le_nat (octets4 dst))]\<rparr>"

text \<open>The loop over \<open>i in 0..4\<close> of \<open>fill_v6\<close>, from index \<open>i\<close>.\<close>

definition be_group :: "bytes \<Rightarrow> nat \<Rightarrow> u32" where
  "be_group bs start = word_of_nat (be_nat
     [bs ! start, bs ! (start + 1), bs ! (start + 2), bs ! (start + 3)])"

fun fill_v6_from :: "nat list \<Rightarrow> ConnKey \<Rightarrow> bytes \<Rightarrow> bytes \<Rightarrow> ConnKey" where
  "fill_v6_from [] k src dst = k"
| "fill_v6_from (i # is) k src dst =
     fill_v6_from is
       (k\<lparr>ck_saddr := (ck_saddr k)[i := be_group src (i * 4)],
          ck_daddr := (ck_daddr k)[i := be_group dst (i * 4)]\<rparr>) src dst"

definition fill_v6 :: "ConnKey \<Rightarrow> ipv6 \<Rightarrow> ipv6 \<Rightarrow> ConnKey" where
  "fill_v6 k src dst = fill_v6_from [0, 1, 2, 3] k (octets6 src) (octets6 dst)"

definition new_v4 :: "ipv4 \<Rightarrow> ipv4 \<Rightarrow> u16 \<Rightarrow> u16 \<Rightarrow> bool \<Rightarrow> ConnKey" where
  "new_v4 src dst sp dp is_tcp =
     fill_v4 (empty_v4 sp dp (if is_tcp then RS_IPPROTO_TCP else RS_IPPROTO_UDP)) src dst"

definition new_v6 :: "ipv6 \<Rightarrow> ipv6 \<Rightarrow> u16 \<Rightarrow> u16 \<Rightarrow> bool \<Rightarrow> ConnKey" where
  "new_v6 src dst sp dp is_tcp =
     fill_v6 (empty_v6 sp dp (if is_tcp then RS_IPPROTO_TCP else RS_IPPROTO_UDP)) src dst"

definition new_icmp_v4 :: "ipv4 \<Rightarrow> ipv4 \<Rightarrow> u16 \<Rightarrow> ConnKey" where
  "new_icmp_v4 src dst icmp_id = fill_v4 (empty_v4 icmp_id 0 RS_IPPROTO_ICMP) src dst"

definition new_icmp_v6 :: "ipv6 \<Rightarrow> ipv6 \<Rightarrow> u16 \<Rightarrow> ConnKey" where
  "new_icmp_v6 src dst icmp_id = fill_v6 (empty_v6 icmp_id 0 RS_IPPROTO_ICMPV6) src dst"

text \<open>\<open>transmute\<close> of the packed structure: its fields in the host's byte order.\<close>

definition as_bytes :: "endian \<Rightarrow> ConnKey \<Rightarrow> bytes" where
  "as_bytes en k = u32s_image en (ck_saddr k) @ u32s_image en (ck_daddr k)
     @ ne_bytes en 2 (unat (ck_sport k)) @ ne_bytes en 2 (unat (ck_dport k))
     @ [ck_proto k, ck_family k]"

section \<open>Values\<close>

record ProcessInfo =
  pi_pid :: u32
  pi_uid :: u32
  pi_comm :: bytes
  pi_timestamp :: u64

definition info_of_bytes :: "endian \<Rightarrow> bytes \<Rightarrow> ConnInfo" where
  "info_of_bytes en v = \<lparr>ci_pid = word_of_nat (ne_nat en (take 4 v)),
     ci_uid = word_of_nat (ne_nat en (take 4 (drop 4 v))),
     ci_comm = take 16 (drop 8 v),
     ci_timestamp = word_of_nat (ne_nat en (take 8 (drop 24 v)))\<rparr>"

definition process_info_from :: "ConnInfo \<Rightarrow> ProcessInfo" where
  "process_info_from info =
     (let comm_len = (case position (\<lambda>x. x = 0) (ci_comm info) of Some i \<Rightarrow> i | None \<Rightarrow> 16)
      in \<lparr>pi_pid = ci_pid info, pi_uid = ci_uid info,
          pi_comm = from_utf8_lossy (take comm_len (ci_comm info)),
          pi_timestamp = ci_timestamp info\<rparr>)"

section \<open>Lookup and cleanup\<close>

record map_view =
  mv_lookup_ok :: "bytes \<Rightarrow> bool"
  mv_delete_ok :: "bytes \<Rightarrow> bool"

datatype map_error = InvalidValueSize nat

definition lookup_connection ::
    "endian \<Rightarrow> map_view \<Rightarrow> socket_map \<Rightarrow> ConnKey \<Rightarrow> map_error + ProcessInfo option" where
  "lookup_connection en mv m k =
     (if mv_lookup_ok mv (as_bytes en k) then
        (case m (as_bytes en k) of
           Some v \<Rightarrow> if length v \<noteq> 32 then Inl (InvalidValueSize (length v))
                     else Inr (Some (process_info_from (info_of_bytes en v)))
         | None \<Rightarrow> Inr None)
      else Inr None)"

text \<open>\<open>cleanup_stale_entries\<close>: the keys in the order of \<open>map.keys()\<close> whose value is readable
  and stale, then a delete for each. \<open>now_ns\<close> is the wall clock in nanoseconds since the
  Unix epoch, truncated to 64 bits.\<close>

definition is_stale :: "endian \<Rightarrow> map_view \<Rightarrow> socket_map \<Rightarrow> u64 \<Rightarrow> u64 \<Rightarrow> bytes \<Rightarrow> bool" where
  "is_stale en mv m now_ns threshold key =
     (mv_lookup_ok mv key \<and>
      (case m key of None \<Rightarrow> False
       | Some v \<Rightarrow> 32 \<le> length v \<and>
           threshold < sat_sub now_ns (word_of_nat (ne_nat en (take 8 (drop 24 v))))))"

fun delete_keys :: "map_view \<Rightarrow> bytes list \<Rightarrow> socket_map \<Rightarrow> nat \<Rightarrow> socket_map \<times> nat" where
  "delete_keys mv [] m n = (m, n)"
| "delete_keys mv (k # ks) m n =
     (if mv_delete_ok mv k then delete_keys mv ks (m(k := None)) (n + 1)
      else delete_keys mv ks m n)"

definition cleanup_stale_entries ::
    "endian \<Rightarrow> map_view \<Rightarrow> bytes list \<Rightarrow> u64 \<Rightarrow> u64 \<Rightarrow> socket_map \<Rightarrow> socket_map \<times> nat" where
  "cleanup_stale_entries en mv keys now_ns threshold m =
     delete_keys mv (filter (is_stale en mv m now_ns threshold) keys) m 0"

section \<open>The tracker's lookups\<close>

text \<open>\<open>lookup_v4\<close>: the exact key, then the key with a zero source address; an error of a
  lookup counts as a miss.\<close>

definition lookup_v4 ::
    "endian \<Rightarrow> map_view \<Rightarrow> socket_map \<Rightarrow> ipv4 \<Rightarrow> ipv4 \<Rightarrow> u16 \<Rightarrow> u16 \<Rightarrow> bool \<Rightarrow> ProcessInfo option" where
  "lookup_v4 en mv m src dst sp dp is_tcp =
     (case lookup_connection en mv m (new_v4 src dst sp dp is_tcp) of
        Inr (Some r) \<Rightarrow> Some r
      | _ \<Rightarrow> (case lookup_connection en mv m (new_v4 (Ipv4Addr 0 0 0 0) dst sp dp is_tcp) of
                Inr (Some r) \<Rightarrow> Some r
              | Inr None \<Rightarrow> None
              | Inl e \<Rightarrow> None))"

definition lookup_v6 ::
    "endian \<Rightarrow> map_view \<Rightarrow> socket_map \<Rightarrow> ipv6 \<Rightarrow> ipv6 \<Rightarrow> u16 \<Rightarrow> u16 \<Rightarrow> bool \<Rightarrow> ProcessInfo option" where
  "lookup_v6 en mv m src dst sp dp is_tcp =
     (case lookup_connection en mv m (new_v6 src dst sp dp is_tcp) of
        Inr (Some r) \<Rightarrow> Some r | Inr None \<Rightarrow> None | Inl e \<Rightarrow> None)"

fun lookup ::
    "endian \<Rightarrow> map_view \<Rightarrow> socket_map \<Rightarrow> ip_addr \<Rightarrow> ip_addr \<Rightarrow> u16 \<Rightarrow> u16 \<Rightarrow> bool \<Rightarrow> ProcessInfo option" where
  "lookup en mv m (V4 src) (V4 dst) sp dp is_tcp = lookup_v4 en mv m src dst sp dp is_tcp"
| "lookup en mv m (V6 src) (V6 dst) sp dp is_tcp = lookup_v6 en mv m src dst sp dp is_tcp"
| "lookup en mv m _ _ sp dp is_tcp = None"

definition lookup_icmp_v4 ::
    "endian \<Rightarrow> map_view \<Rightarrow> socket_map \<Rightarrow> ipv4 \<Rightarrow> ipv4 \<Rightarrow> u16 \<Rightarrow> ProcessInfo option" where
  "lookup_icmp_v4 en mv m src dst icmp_id =
     (case lookup_connection en mv m (new_icmp_v4 src dst icmp_id) of
        Inr (Some r) \<Rightarrow> Some r
      | _ \<Rightarrow> (case lookup_connection en mv m (new_icmp_v4 (Ipv4Addr 0 0 0 0) dst icmp_id) of
                Inr (Some r) \<Rightarrow> Some r
              | Inr None \<Rightarrow> None
              | Inl e \<Rightarrow> None))"

definition lookup_icmp_v6 ::
    "endian \<Rightarrow> map_view \<Rightarrow> socket_map \<Rightarrow> ipv6 \<Rightarrow> ipv6 \<Rightarrow> u16 \<Rightarrow> ProcessInfo option" where
  "lookup_icmp_v6 en mv m src dst icmp_id =
     (case lookup_connection en mv m (new_icmp_v6 src dst icmp_id) of
        Inr (Some r) \<Rightarrow> Some r
      | _ \<Rightarrow> (case lookup_connection en mv m (new_icmp_v6 UNSPECIFIED6 dst icmp_id) of
                Inr (Some r) \<Rightarrow> Some r
              | Inr None \<Rightarrow> None
              | Inl e \<Rightarrow> None))"

fun lookup_icmp ::
    "endian \<Rightarrow> map_view \<Rightarrow> socket_map \<Rightarrow> ip_addr \<Rightarrow> ip_addr \<Rightarrow> u16 \<Rightarrow> ProcessInfo option" where
  "lookup_icmp en mv m (V4 src) (V4 dst) icmp_id = lookup_icmp_v4 en mv m src dst icmp_id"
| "lookup_icmp en mv m (V6 src) (V6 dst) icmp_id = lookup_icmp_v6 en mv m src dst icmp_id"
| "lookup_icmp en mv m _ _ icmp_id = None"

text \<open>\<open>LibbpfSocketTracker::cleanup_stale_entries\<close>: the threshold in seconds; the multiplication
  wraps in a release build.\<close>

definition tracker_cleanup ::
    "endian \<Rightarrow> map_view \<Rightarrow> bytes list \<Rightarrow> u64 \<Rightarrow> u64 \<Rightarrow> socket_map \<Rightarrow> socket_map \<times> nat" where
  "tracker_cleanup en mv keys now_ns secs m =
     cleanup_stale_entries en mv keys now_ns (secs * 1000000000) m"

section \<open>Key images\<close>

definition host4 :: "endian \<Rightarrow> bytes \<Rightarrow> bytes" where
  "host4 en bs = (case en of Little \<Rightarrow> bs | Big \<Rightarrow> rev bs)"

definition be_groups :: "endian \<Rightarrow> bytes \<Rightarrow> bytes" where
  "be_groups en bs = (case en of Big \<Rightarrow> bs
     | Little \<Rightarrow> rev (take 4 bs) @ rev (take 4 (drop 4 bs)) @ rev (take 4 (drop 8 bs))
                  @ rev (take 4 (drop 12 bs)))"

lemma length_host4 [simp]: "length (host4 en bs) = length bs"
  by (cases en) (simp_all add: host4_def)

lemma length_be_groups: "length bs = 16 \<Longrightarrow> length (be_groups en bs) = 16"
  by (cases en) (simp_all add: be_groups_def)

lemma image_le_word:
  "length bs = 4 \<Longrightarrow> ne_bytes en 4 (unat (word_of_nat (le_nat bs) :: u32)) = host4 en bs"
  using unat_word_of_ne_nat [of bs Little, where ?'a = 32]
  by (simp add: ne_nat_def ne_bytes_le_nat host4_def)

lemma u32s_image_le_word:
  assumes "length bs = 4"
  shows "u32s_image en [word_of_nat (le_nat bs), 0, 0, 0] = pad16 (host4 en bs)"
proof -
  have "u32s_image en [word_of_nat (ne_nat en (host4 en bs)), 0, 0, 0] = pad16 (host4 en bs)"
    using assms by (intro u32s_image_v4) simp
  moreover have "ne_nat en (host4 en bs) = le_nat bs"
    by (cases en) (simp_all add: ne_nat_def host4_def)
  ultimately show ?thesis by simp
qed

lemma as_bytes_fill_v4:
  "as_bytes en (fill_v4 (empty_v4 sp dp pr) src dst) =
     wire_key en \<lparr>fl_src = host4 en (octets4 src), fl_dst = host4 en (octets4 dst),
       fl_sport = unat sp, fl_dport = unat dp, fl_proto = pr, fl_family = AF_INET\<rparr>"
  by (simp add: as_bytes_def fill_v4_def empty_v4_def wire_key_def u32s_image_le_word
      RS_AF_INET_def AF_INET_def)

lemma list16_cases:
  assumes "length (bs :: bytes) = 16"
  obtains a b c d e f g h i j k l m n p q where
    "bs = [a, b, c, d, e, f, g, h, i, j, k, l, m, n, p, q]"
  using assms by (auto simp: length_Suc_conv eval_nat_numeral)

lemma u32s_image_be_groups:
  assumes "length bs = 16"
  shows "u32s_image en [be_group bs 0, be_group bs 4, be_group bs 8, be_group bs 12]
    = pad16 (be_groups en bs)"
proof -
  have w: "ne_bytes e 4 (unat (word_of_nat (be_nat xs) :: u32)) =
      (case e of Little \<Rightarrow> rev xs | Big \<Rightarrow> xs)" if "length xs = 4" for e xs
    using unat_word_of_ne_nat [of xs Big, where ?'a = 32] that by (simp add: ne_bytes_be_nat)
  show ?thesis using assms
    by (elim list16_cases)
      (cases en, simp_all add: u32s_image_def be_group_def pad16_def be_groups_def w)
qed

lemma as_bytes_fill_v6:
  "as_bytes en (fill_v6 (empty_v6 sp dp pr) src dst) =
     wire_key en \<lparr>fl_src = be_groups en (octets6 src), fl_dst = be_groups en (octets6 dst),
       fl_sport = unat sp, fl_dport = unat dp, fl_proto = pr, fl_family = AF_INET6\<rparr>"
  using u32s_image_be_groups [of "octets6 src" en] u32s_image_be_groups [of "octets6 dst" en]
  by (simp add: as_bytes_def fill_v6_def empty_v6_def wire_key_def RS_AF_INET6_def AF_INET6_def)

lemma pad16_inject: "length xs = length ys \<Longrightarrow> pad16 xs = pad16 ys \<longleftrightarrow> xs = ys"
  by (simp add: pad16_def)

text \<open>Keys of flows of one shape agree exactly when the flows do.\<close>

definition same_shape :: "flow \<Rightarrow> flow \<Rightarrow> bool" where
  "same_shape f g \<longleftrightarrow> length (fl_src f) = length (fl_src g) \<and> length (fl_dst f) = length (fl_dst g)
     \<and> length (fl_src f) \<le> 16 \<and> length (fl_dst f) \<le> 16
     \<and> fl_sport f < 65536 \<and> fl_sport g < 65536 \<and> fl_dport f < 65536 \<and> fl_dport g < 65536"

lemma wire_key_inject:
  assumes "same_shape f g"
  shows "wire_key en f = wire_key en g \<longleftrightarrow> f = g"
proof -
  have p: "length (pad16 xs) = 16" if "length xs \<le> 16" for xs using that by (simp add: pad16_def)
  have "ne_bytes en 2 v = ne_bytes en 2 w \<longleftrightarrow> v = w" if "v < 65536" "w < 65536" for v w
    using that by (simp add: ne_bytes_inject)
  then show ?thesis using assms
    by (cases f; cases g) (auto simp: wire_key_def same_shape_def p pad16_inject)
qed

section \<open>Values\<close>

lemma info_of_bytes_image:
  assumes "length (comm i) = 16"
  shows "info_of_bytes en (info_image en i) =
    \<lparr>ci_pid = pid i, ci_uid = uid i, ci_comm = comm i, ci_timestamp = timestamp i\<rparr>"
proof -
  have r4: "ne_nat en (ne_bytes en 4 (unat (w :: u32))) = unat w" for w
    using unsigned_less [of w, where 'a = nat] by (simp add: ne_nat_ne_bytes)
  have r8: "ne_nat en (ne_bytes en 8 (unat (w :: u64))) = unat w" for w
    using unsigned_less [of w, where 'a = nat] by (simp add: ne_nat_ne_bytes)
  show ?thesis using assms by (simp add: info_of_bytes_def info_image_def r4 r8)
qed

lemma lookup_stored:
  assumes "mv_lookup_ok mv (as_bytes en k)" and "m (as_bytes en k) = Some (info_image en i)"
    and "length (comm i) = 16"
  shows "lookup_connection en mv m k = Inr (Some (process_info_from
    \<lparr>ci_pid = pid i, ci_uid = uid i, ci_comm = comm i, ci_timestamp = timestamp i\<rparr>))"
  using assms length_info_image [of i en]
  by (simp add: lookup_connection_def info_of_bytes_image TASK_COMM_LEN_def)

text \<open>On a reachable map no lookup meets a value of the wrong size.\<close>

lemma lookup_connection_no_error:
  "reachable_map en m \<Longrightarrow> \<exists>r. lookup_connection en mv m k = Inr r"
  using reachable_map_bytes [of en m "as_bytes en k"]
  by (auto simp: lookup_connection_def split: option.splits)

section \<open>Cleanup\<close>

lemma delete_keys_map:
  "fst (delete_keys mv ks m n) k = (if k \<in> set ks \<and> mv_delete_ok mv k then None else m k)"
  by (induction ks arbitrary: m n) auto

lemma delete_keys_count:
  "snd (delete_keys mv ks m n) = n + length (filter (mv_delete_ok mv) ks)"
  by (induction ks arbitrary: m n) auto

lemma cleanup_entry:
  "fst (cleanup_stale_entries en mv keys now_ns threshold m) k =
     (if k \<in> set keys \<and> is_stale en mv m now_ns threshold k \<and> mv_delete_ok mv k then None else m k)"
  by (auto simp: cleanup_stale_entries_def delete_keys_map)

lemma delete_keys_reachable:
  "reachable_map en m \<Longrightarrow> reachable_map en (fst (delete_keys mv ks m n))"
  by (induction ks arbitrary: m n) (auto intro: reachable_map.deleted)

lemma is_stale_stored:
  assumes "m k = Some (info_image en i)" and "length (comm i) = 16" and "mv_lookup_ok mv k"
  shows "is_stale en mv m now_ns threshold k \<longleftrightarrow>
    unat threshold < unat now_ns - unat (timestamp i)"
  using assms info_of_bytes_image [of i en] length_info_image [of i en]
  by (simp add: is_stale_def info_of_bytes_def word_less_nat_alt unat_sat_sub TASK_COMM_LEN_def)
section \<open>Key encodings as an interface\<close>

text \<open>Both sides file entries under fixed-width byte images of their keys. What a client of
  the map relies on is that the image determines the key; then one entry never shadows
  another.\<close>

locale key_codec =
  fixes enc :: "'k \<Rightarrow> bytes" and ok :: "'k \<Rightarrow> bool"
  assumes enc_width: "ok x \<Longrightarrow> length (enc x) = 38"
    and enc_inject: "ok x \<Longrightarrow> ok y \<Longrightarrow> enc x = enc y \<Longrightarrow> x = y"
begin

lemma update_same: "(m(enc x \<mapsto> v)) (enc x) = Some v"
  by simp

lemma update_other: "ok x \<Longrightarrow> ok y \<Longrightarrow> x \<noteq> y \<Longrightarrow> (m(enc x \<mapsto> v)) (enc y) = m (enc y)"
  using enc_inject by auto

lemma entry_unique: "ok x \<Longrightarrow> ok y \<Longrightarrow> enc x = enc y \<longleftrightarrow> x = y"
  using enc_inject by blast

end

definition ck_ok :: "ConnKey \<Rightarrow> bool" where
  "ck_ok k \<longleftrightarrow> length (ck_saddr k) = 4 \<and> length (ck_daddr k) = 4"

interpretation kernel_keys: key_codec "key_image en" key_ok
proof
  show "length (key_image en x) = 38" if "key_ok x" for x
    using that by (rule length_key_image)
  show "x = y" if "key_ok x" "key_ok y" "key_image en x = key_image en y" for x y
    using that by (cases x; cases y) (simp add: key_image_def key_ok_def u32s_image_inject u16_image_inject)
qed

interpretation user_keys: key_codec "as_bytes en" ck_ok
proof
  show "length (as_bytes en x) = 38" if "ck_ok x" for x
    using that by (simp add: as_bytes_def ck_ok_def)
  show "x = y" if "ck_ok x" "ck_ok y" "as_bytes en x = as_bytes en y" for x y
    using that by (cases x; cases y) (simp add: as_bytes_def ck_ok_def u32s_image_inject u16_image_inject)
qed

lemma wire_key_family: "last (wire_key en f) = fl_family f"
  by (simp add: wire_key_def)

text \<open>The family of a well-formed flow fixes the lengths of its addresses.\<close>

definition addr_len :: "u8 \<Rightarrow> nat" where
  "addr_len fam = (if fam = AF_INET then 4 else 16)"

lemma flow_ok_lengths:
  "flow_ok f \<Longrightarrow> length (fl_src f) = addr_len (fl_family f)"
  "flow_ok f \<Longrightarrow> length (fl_dst f) = addr_len (fl_family f)"
  "flow_ok f \<Longrightarrow> fl_sport f < 65536" "flow_ok f \<Longrightarrow> fl_dport f < 65536"
  unfolding flow_ok_def addr_len_def by (auto simp: AF_INET_def AF_INET6_def)

interpretation flow_keys: key_codec "wire_key en" flow_ok
proof
  show "length (wire_key en f) = 38" if "flow_ok f" for f
    using that by (rule length_wire_key)
  show "f = g" if f: "flow_ok f" and g: "flow_ok g" and eq: "wire_key en f = wire_key en g" for f g
  proof -
    have "fl_family f = fl_family g" using arg_cong [OF eq, of last] by (simp add: wire_key_family)
    then have "same_shape f g" using f g by (simp add: flow_ok_lengths same_shape_def addr_len_def)
    then show ?thesis using eq by (simp add: wire_key_inject)
  qed
qed

section \<open>From an event to a lookup\<close>

lemma process_info_fields [simp]:
  "pid (get_process_info en K env i) = ucast (drop_bit 32 (current_pid_tgid env))"
  "uid (get_process_info en K env i) = ucast (drop_bit 32 (current_uid_gid env))"
  "timestamp (get_process_info en K env i) = ktime_get_ns env"
  by (simp_all add: get_process_info_def Let_def split: prod.split)

text \<open>What user space reads back of the process an event recorded.\<close>

definition recorded_process :: "endian \<Rightarrow> karch \<Rightarrow> bpf_env \<Rightarrow> ProcessInfo" where
  "recorded_process en K env =
     (let i = get_process_info en K env zero_info in process_info_from
        \<lparr>ci_pid = pid i, ci_uid = uid i, ci_comm = comm i, ci_timestamp = timestamp i\<rparr>)"

lemma recorded_process_fields [simp]:
  "pi_pid (recorded_process en K env) = ucast (drop_bit 32 (current_pid_tgid env))"
  "pi_uid (recorded_process en K env) = ucast (drop_bit 32 (current_uid_gid env))"
  "pi_timestamp (recorded_process en K env) = ktime_get_ns env"
  by (simp_all add: recorded_process_def process_info_from_def Let_def)

lemma lookup_recorded:
  assumes "env_ok env" and "m (as_bytes en k) = Some (info_image en (get_process_info en K env zero_info))"
    and "mv_lookup_ok mv (as_bytes en k)"
  shows "lookup_connection en mv m k = Inr (Some (recorded_process en K env))"
  using assms length_process_info [OF assms(1), of en K]
  by (simp add: recorded_process_def lookup_stored TASK_COMM_LEN_def Let_def)

lemma lookup_after_hook:
  assumes "env_ok env" and "hook_flow en K env h = Some f" and "as_bytes en k = wire_key en f"
    and "update_ok env m (wire_key en f)" and "mv_lookup_ok mv (wire_key en f)"
  shows "lookup_connection en mv (run_hook en K env h m) k = Inr (Some (recorded_process en K env))"
  using assms by (intro lookup_recorded) (simp_all add: run_hook_flow record_flow_def)

text \<open>An event changes no lookup but those of its own flow's key.\<close>

lemma lookup_other_flow:
  assumes "env_ok env"
    and "\<And>f. hook_flow en K env h = Some f \<Longrightarrow> as_bytes en k \<noteq> wire_key en f"
  shows "lookup_connection en mv (run_hook en K env h m) k = lookup_connection en mv m k"
  using assms
  by (cases "hook_flow en K env h") (simp_all add: run_hook_flow record_flow_def lookup_connection_def)

lemma as_bytes_new_v4_Little:
  "as_bytes Little (new_v4 src dst sp dp t) =
     wire_key Little \<lparr>fl_src = octets4 src, fl_dst = octets4 dst, fl_sport = unat sp,
       fl_dport = unat dp, fl_proto = (if t then IPPROTO_TCP else IPPROTO_UDP), fl_family = AF_INET\<rparr>"
  by (simp add: new_v4_def as_bytes_fill_v4 host4_def rs_consts tracker_consts)

lemma ne_nat_port: "ne_nat en (ne_bytes en 2 (unat (w :: u16))) = unat w"
  using unat_u16_bound [of w] by (simp add: ne_nat_ne_bytes)

lemma be_nat_be16 [simp]: "be_nat (be16 w) = unat w"
  by (simp add: be16_def ne_nat_port)

text \<open>A byte string whose four-byte groups each read the same in both directions.\<close>

definition groups_palindromic :: "bytes \<Rightarrow> bool" where
  "groups_palindromic bs \<longleftrightarrow>
     take 4 bs = rev (take 4 bs) \<and> take 4 (drop 4 bs) = rev (take 4 (drop 4 bs)) \<and>
     take 4 (drop 8 bs) = rev (take 4 (drop 8 bs)) \<and> take 4 (drop 12 bs) = rev (take 4 (drop 12 bs))"

lemma be_groups_eq: "length bs = 16 \<Longrightarrow> be_groups Little bs = bs \<longleftrightarrow> groups_palindromic bs"
  by (elim list16_cases) (auto simp: be_groups_def groups_palindromic_def)

lemma same_shape_ip6:
  assumes "length (fl_src f) = 16" "length (fl_dst f) = 16" "length (fl_src g) = 16"
    "length (fl_dst g) = 16" "fl_sport f < 65536" "fl_dport f < 65536" "fl_sport g < 65536"
    "fl_dport g < 65536"
  shows "same_shape f g"
  using assms by (simp add: same_shape_def)

lemma as_bytes_v6_agree:
  "as_bytes en (fill_v6 (empty_v6 sp dp pr) src dst) =
     wire_key en \<lparr>fl_src = octets6 src, fl_dst = octets6 dst, fl_sport = unat sp,
       fl_dport = unat dp, fl_proto = pr, fl_family = AF_INET6\<rparr>
   \<longleftrightarrow> en = Big \<or> groups_palindromic (octets6 src) \<and> groups_palindromic (octets6 dst)"
proof -
  have "be_groups en bs = bs \<longleftrightarrow> en = Big \<or> groups_palindromic bs" if "length bs = 16" for bs
    using be_groups_eq [OF that] by (cases en) (simp_all add: be_groups_def)
  then show ?thesis
    by (auto simp: as_bytes_fill_v6 wire_key_inject same_shape_def length_be_groups unat_u16_bound)
qed

lemma as_bytes_v4_agree:
  "as_bytes en (fill_v4 (empty_v4 sp dp pr) src dst) =
     wire_key en \<lparr>fl_src = octets4 src, fl_dst = octets4 dst, fl_sport = unat sp,
       fl_dport = unat dp, fl_proto = pr, fl_family = AF_INET\<rparr>
   \<longleftrightarrow> en = Little \<or> octets4 src = rev (octets4 src) \<and> octets4 dst = rev (octets4 dst)"
  by (cases en) (auto simp: as_bytes_fill_v4 wire_key_inject same_shape_def host4_def unat_u16_bound)

end
