(* ===== verification/NetTypes.thy ===== *)
theory NetTypes
  imports RustStd
begin

text \<open>
  The data model of \<^verbatim>\<open>crates/rustnet-core/src/network/types.rs\<close>, with the parsed packet of
  \<^verbatim>\<open>parser.rs\<close> and \<^verbatim>\<open>protocol/tcp.rs\<close>: protocol and connection states, the information the
  packet inspection attaches to a connection, TCP analytics, the rate and RTT trackers, the
  connection record. Constructors keep the source's names, qualified by their type where
  two types share one (\<open>TcpState.Closed\<close>, \<open>QuicConnectionState.Closed\<close>); record fields carry a
  prefix per record. A Rust \<open>String\<close> is its UTF-8 bytes; a \<open>SystemTime\<close> is nanoseconds since
  the Unix epoch and an \<open>Instant\<close> nanoseconds of the monotonic clock, both integers; a
  \<open>Duration\<close> is a natural number of nanoseconds. Fields of type \<open>f64\<close> (the two displayed
  rates) are left out.
\<close>

section \<open>Time\<close>

type_synonym system_time = int
type_synonym instant = int
type_synonym duration = nat

definition secs :: "nat \<Rightarrow> duration" where
  "secs n = n * 1000000000"

text \<open>\<open>later.duration_since(earlier).unwrap_or_default()\<close> of \<open>SystemTime\<close>, \<open>elapsed()\<close> of
  \<open>Instant\<close>: never negative.\<close>

definition since :: "int \<Rightarrow> int \<Rightarrow> duration" where
  "since later earlier = nat (later - earlier)"

text \<open>What one operation reads of the two clocks.\<close>

record clock =
  wall :: system_time
  mono :: instant

lemma secs_less_iff [simp]: "secs m < secs n \<longleftrightarrow> m < n"
  by (simp add: secs_def)

lemma secs_le_iff [simp]: "secs m \<le> secs n \<longleftrightarrow> m \<le> n"
  by (simp add: secs_def)

lemma secs_pos_iff [simp]: "0 < secs n \<longleftrightarrow> 0 < n"
  by (simp add: secs_def)

lemma since_less_iff: "since t s < d \<longleftrightarrow> (if s \<le> t then t - s < int d else 0 < d)"
  by (auto simp: since_def)

lemma less_since_iff: "d < since t s \<longleftrightarrow> int d < t - s"
  by (auto simp: since_def)

section \<open>Protocols and their states\<close>

datatype Protocol =
  Tcp | Udp | Icmp | Igmp | Arp

datatype TcpState =
  SynSent | SynReceived | Established | FinWait1 | FinWait2 | CloseWait | LastAck
  | TimeWait | Closing | Closed | Unknown

datatype ArpOperation =
  Request | Reply

record ArpInfo =
  arp_operation :: ArpOperation
  arp_sender_mac :: bytes
  arp_sender_ip :: ip_addr
  arp_target_mac :: bytes
  arp_target_ip :: ip_addr
  arp_sender_vendor :: "bytes option"
  arp_target_vendor :: "bytes option"

datatype ProtocolState =
  PS_Tcp TcpState
  | PS_Udp
  | PS_Icmp (icmp_type: u8) (icmp_id: "u16 option")
  | PS_Igmp (igmp_type: u8) (group_addr: "ipv4 option")
  | PS_Arp ArpInfo

section \<open>Application protocols\<close>

datatype SshConnectionState =
  Banner | KeyExchange | Authentication | Established

datatype SshVersion =
  Ssh_V1 | Ssh_V2

record SshInfo =
  ssh_version :: "SshVersion option"
  client_software :: "bytes option"
  server_software :: "bytes option"
  ssh_state :: SshConnectionState
  algorithms :: "bytes list"
  auth_method :: "bytes option"

datatype BitTorrentType =
  Peer | Dht | Utp

record BitTorrentInfo =
  bt_type :: BitTorrentType
  info_hash :: "bytes option"
  bt_client :: "bytes option"
  dht_method :: "bytes option"
  supports_dht :: bool
  supports_extension :: bool
  supports_fast :: bool

datatype MqttPacketType =
  Connect | Connack | Publish | Puback | Subscribe | Suback | Unsubscribe | Unsuback
  | Pingreq | Pingresp | Disconnect

datatype MqttVersion =
  V31 | V311 | V50

record MqttInfo =
  mqtt_version :: "MqttVersion option"
  mqtt_packet_type :: MqttPacketType
  mqtt_client_id :: "bytes option"
  mqtt_topic :: "bytes option"
  mqtt_qos :: "u8 option"

datatype FtpMessageType =
  Request | Response

record FtpInfo =
  ftp_message_type :: FtpMessageType
  ftp_command :: "bytes option"
  ftp_args :: "bytes option"
  ftp_response_code :: "u16 option"
  ftp_response_message :: "bytes option"
  ftp_username :: "bytes option"
  ftp_server_software :: "bytes option"
  ftp_system_type :: "bytes option"

datatype HttpVersion =
  Http10 | Http11 | Http2

record HttpInfo =
  http_version :: HttpVersion
  http_method :: "bytes option"
  http_host :: "bytes option"
  http_path :: "bytes option"
  http_status_code :: "u16 option"
  http_user_agent :: "bytes option"

datatype TlsVersion =
  Tls10 | Tls11 | Tls12 | Tls13

record TlsInfo =
  tls_version :: "TlsVersion option"
  tls_sni :: "bytes option"
  tls_alpn :: "bytes list"
  tls_cipher_suite :: "u16 option"

definition TlsInfo_new :: TlsInfo where
  "TlsInfo_new = \<lparr>tls_version = None, tls_sni = None, tls_alpn = [], tls_cipher_suite = None\<rparr>"

record HttpsInfo =
  https_tls_info :: "TlsInfo option"

datatype DnsQueryType =
  QT_A | QT_NS | QT_CNAME | QT_SOA | QT_PTR | QT_HINFO | QT_MX | QT_TXT | QT_RP | QT_AFSDB
  | QT_SIG | QT_KEY | QT_AAAA | QT_LOC | QT_SRV | QT_NAPTR | QT_KX | QT_CERT | QT_DNAME
  | QT_APL | QT_DS | QT_SSHFP | QT_IPSECKEY | QT_RRSIG | QT_NSEC | QT_DNSKEY | QT_DHCID
  | QT_NSEC3 | QT_NSEC3PARAM | QT_TLSA | QT_SMIMEA | QT_HIP | QT_CDS | QT_CDNSKEY
  | QT_OPENPGPKEY | QT_CSYNC | QT_ZONEMD | QT_SVCB | QT_HTTPS | QT_EUI48 | QT_EUI64
  | QT_TKEY | QT_TSIG | QT_URI | QT_CAA | QT_TA | QT_DLV | QT_Other u16

record DnsInfo =
  dns_query_name :: "bytes option"
  dns_query_type :: "DnsQueryType option"
  dns_response_ips :: "ip_addr list"
  dns_is_response :: bool

datatype NtpMode =
  Reserved | SymmetricActive | SymmetricPassive | Client | Server | Broadcast | Control
  | Private

record NtpInfo =
  ntp_version :: u8
  ntp_mode :: NtpMode
  ntp_stratum :: u8

record MdnsInfo =
  mdns_query_name :: "bytes option"
  mdns_query_type :: "DnsQueryType option"
  mdns_is_response :: bool
  mdns_response_ips :: "ip_addr list"

record LlmnrInfo =
  llmnr_query_name :: "bytes option"
  llmnr_query_type :: "DnsQueryType option"
  llmnr_is_response :: bool
  llmnr_response_ips :: "ip_addr list"

datatype DhcpMessageType =
  Discover | Offer | Request | Decline | Ack | Nak | Release | Inform | Unknown u8

record DhcpInfo =
  dhcp_message_type :: DhcpMessageType
  dhcp_hostname :: "bytes option"
  dhcp_client_mac :: "bytes option"

datatype SnmpVersion =
  Snmp_V1 | Snmp_V2c | Snmp_V3

datatype SnmpPduType =
  GetRequest | GetNextRequest | GetResponse | SetRequest | Trap | GetBulkRequest
  | InformRequest | TrapV2 | Report

record SnmpInfo =
  snmp_version :: SnmpVersion
  snmp_community :: "bytes option"
  snmp_pdu_type :: SnmpPduType

datatype SsdpMethod =
  MSearch | Notify | Response

record SsdpInfo =
  ssdp_method :: SsdpMethod
  ssdp_service_type :: "bytes option"

datatype NetBiosService =
  NameService | DatagramService

datatype NetBiosOpcode =
  Query | Registration | Release | Wack | Refresh | Response | Unknown u8

record NetBiosInfo =
  netbios_service :: NetBiosService
  netbios_opcode :: NetBiosOpcode
  netbios_name :: "bytes option"

datatype StunMessageClass =
  Request | Indication | SuccessResponse | ErrorResponse

datatype StunMethod =
  Binding | Unknown u16

record StunInfo =
  stun_message_class :: StunMessageClass
  stun_method :: StunMethod
  stun_transaction_id :: bytes
  stun_software :: "bytes option"

section \<open>QUIC\<close>

record QuicCloseInfo =
  frame_type :: u8
  error_code :: u64

datatype QuicPacketType =
  Initial | ZeroRtt | Handshake | Retry | VersionNegotiation | OneRtt | Unknown

datatype QuicConnectionState =
  Initial | Handshaking | Connected | Draining | Closed | Unknown

text \<open>The buffer of CRYPTO frames; the \<open>BTreeMap\<close> of fragments is the list of its entries in
  ascending order of the offset.\<close>

record CryptoFrameReassembler =
  fragments :: "(nat \<times> bytes) list"
  contiguous_offset :: nat
  has_complete_tls_info :: bool
  cached_tls_info :: "TlsInfo option"
  max_buffer_size :: nat
  current_buffer_size :: nat
  last_update :: instant

record QuicInfo =
  version_string :: "bytes option"
  packet_type :: QuicPacketType
  connection_id :: bytes
  connection_id_hex :: "bytes option"
  connection_state :: QuicConnectionState
  quic_tls_info :: "TlsInfo option"
  has_crypto_frame :: bool
  crypto_reassembler :: "CryptoFrameReassembler option"
  connection_close :: "QuicCloseInfo option"
  idle_timeout :: "duration option"

datatype ApplicationProtocol =
  Http HttpInfo | Https HttpsInfo | Dns DnsInfo | Ssh SshInfo | Quic QuicInfo | Ntp NtpInfo
  | Mdns MdnsInfo | Llmnr LlmnrInfo | Dhcp DhcpInfo | Snmp SnmpInfo | Ssdp SsdpInfo
  | NetBios NetBiosInfo | BitTorrent BitTorrentInfo | Stun StunInfo | Mqtt MqttInfo | Ftp FtpInfo

record DpiInfo =
  application :: ApplicationProtocol
  last_update_time :: instant

section \<open>Trackers of one connection\<close>

record RateSample =
  rs_timestamp :: instant
  delta_sent :: u64
  delta_received :: u64

record RateTracker =
  samples :: "RateSample list"
  window_duration :: duration
  rt_last_update :: instant
  max_samples :: nat
  last_bytes_sent :: u64
  last_bytes_received :: u64

record TcpAnalytics =
  last_seq_outbound :: u32
  last_seq_inbound :: u32
  last_ack_received :: u32
  duplicate_ack_count :: u32
  retransmit_count :: u64
  out_of_order_count :: u64
  fast_retransmit_count :: u64
  last_window_size :: u16

definition TcpAnalytics_new :: TcpAnalytics where
  "TcpAnalytics_new = \<lparr>last_seq_outbound = 0, last_seq_inbound = 0, last_ack_received = 0,
     duplicate_ack_count = 0, retransmit_count = 0, out_of_order_count = 0,
     fast_retransmit_count = 0, last_window_size = 0\<rparr>"

record GeoIpInfo =
  country_code :: "bytes option"
  country_name :: "bytes option"
  asn :: "u32 option"
  as_org :: "bytes option"
  postal_code :: "bytes option"
  city :: "bytes option"

section \<open>Connections and packets\<close>

record Connection =
  protocol :: Protocol
  local_addr :: socket_addr
  remote_addr :: socket_addr
  protocol_state :: ProtocolState
  pid :: "u32 option"
  process_name :: "bytes option"
  connection_direction :: "bool option"
  bytes_sent :: u64
  bytes_received :: u64
  packets_sent :: u64
  packets_received :: u64
  created_at :: system_time
  last_activity :: system_time
  service_name :: "bytes option"
  dpi_info :: "DpiInfo option"
  rate_tracker :: RateTracker
  tcp_analytics :: "TcpAnalytics option"
  initial_rtt :: "duration option"
  geoip_info :: "GeoIpInfo option"
  is_historic :: bool
  closed_at :: "system_time option"

record TcpFlags =
  fin :: bool
  syn :: bool
  rst :: bool
  psh :: bool
  ack :: bool
  urg :: bool

record TcpHeaderInfo =
  hdr_seq :: u32
  hdr_ack :: u32
  window :: u16
  flags :: TcpFlags
  payload_len :: u32

record ParsedPacket =
  connection_key :: bytes
  pkt_protocol :: Protocol
  pkt_local_addr :: socket_addr
  pkt_remote_addr :: socket_addr
  tcp_header :: "TcpHeaderInfo option"
  pkt_protocol_state :: ProtocolState
  is_outgoing :: bool
  packet_len :: nat
  dpi_result :: "ApplicationProtocol option"
  pkt_process_name :: "bytes option"
  pkt_process_id :: "u32 option"

end
