(* ===== verification/RustStr.thy ===== *)
theory RustStr
  imports NetTypes "HOL-Library.Monad_Syntax"
begin

text \<open>
  What the packet inspection uses of Rust's slices and strings, beyond \<^verbatim>\<open>RustStd\<close>. Code that
  indexes or slices may panic: such a function returns an option, in the option monad, where
  \<open>None\<close> stands for the panic; a Rust \<open>Option\<close> is an option inside of it. The collection
  \<open>no_panic\<close> holds the rules by which a function is shown to return, \<open>returns (f x)\<close>:
  \<open>intro no_panic\<close> leaves the side conditions of the slice accesses.
  Strings are UTF-8 bytes; the predicates below look at ASCII characters only, for which
  bytes and characters agree.
\<close>

named_theorems no_panic "rules for code that returns"

definition returns :: "'a option \<Rightarrow> bool" where
  "returns m \<longleftrightarrow> m \<noteq> None"

lemma byte_at_ok [simp]: "i < length bs \<Longrightarrow> byte_at bs i = Some (bs ! i)"
  by (simp add: byte_at_def)

lemma sub_slice_ok [simp]:
  "a \<le> b \<Longrightarrow> b \<le> length bs \<Longrightarrow> sub_slice a b bs = Some (take (b - a) (drop a bs))"
  by (simp add: sub_slice_def)

lemma sub_slice_append:
  "length pre = a \<Longrightarrow> length mid = n \<Longrightarrow> sub_slice a (a + n) (pre @ mid @ rest) = Some mid"
  by (simp add: sub_slice_def)

text \<open>\<open>u16::from_be_bytes([data[i], data[i + 1]]) as usize\<close>\<close>

definition be16_at :: "bytes \<Rightarrow> nat \<Rightarrow> nat option" where
  "be16_at data i = do { a \<leftarrow> byte_at data i; b \<leftarrow> byte_at data (i + 1); Some (be_nat [a, b]) }"

lemma be16_at_ok [simp]: "i + 1 < length data \<Longrightarrow> be16_at data i = Some (be_nat [data ! i, data ! (i + 1)])"
  by (simp add: be16_at_def)

lemma be16_at_append: "length pre = i \<Longrightarrow> be16_at (pre @ a # b # rest) i = Some (be_nat [a, b])"
  by (auto simp: be16_at_def nth_append)

text \<open>Reading back what \<open>to_be_bytes\<close> wrote.\<close>

lemma be_nat_be16_bytes: "be_nat (be16 w) = unat w"
  using unat_u16_bound [of w] by (simp add: be16_def ne_nat_ne_bytes)

lemma be16_pair:
  obtains a b where "be16 w = [a, b]"
  using length_be16 [of w] by (cases "be16 w"; cases "tl (be16 w)") auto

lemma be16_at_be16:
  assumes "length pre = i"
  shows "be16_at (pre @ be16 w @ rest) i = Some (unat w)"
proof -
  obtain a b where ab: "be16 w = [a, b]"
    by (rule be16_pair)
  then show ?thesis using assms be16_at_append [of pre i a b rest] be_nat_be16_bytes [of w] by simp
qed

lemma returns_Some [no_panic]: "returns (Some x)"
  by (simp add: returns_def)

lemma returns_bind [no_panic]:
  "returns m \<Longrightarrow> (\<And>x. m = Some x \<Longrightarrow> returns (f x)) \<Longrightarrow> returns (Option.bind m f)"
  by (cases m) (simp_all add: returns_def)

lemma returns_if [no_panic]:
  "(c \<Longrightarrow> returns a) \<Longrightarrow> (\<not> c \<Longrightarrow> returns b) \<Longrightarrow> returns (if c then a else b)"
  by simp

lemma returns_Let [no_panic]: "(\<And>x. x = e \<Longrightarrow> returns (f x)) \<Longrightarrow> returns (Let e f)"
  by (simp add: Let_def)

lemma returns_case [no_panic]:
  "(m = None \<Longrightarrow> returns a) \<Longrightarrow> (\<And>x. m = Some x \<Longrightarrow> returns (f x)) \<Longrightarrow>
   returns (case m of None \<Rightarrow> a | Some x \<Rightarrow> f x)"
  by (cases m) simp_all

lemma returns_byte_at [no_panic]: "i < length bs \<Longrightarrow> returns (byte_at bs i)"
  by (simp add: returns_def)

lemma returns_sub_slice [no_panic]: "a \<le> b \<Longrightarrow> b \<le> length bs \<Longrightarrow> returns (sub_slice a b bs)"
  by (simp add: returns_def)

lemma returns_be16_at [no_panic]: "i + 1 < length bs \<Longrightarrow> returns (be16_at bs i)"
  by (simp add: returns_def)

text \<open>\<open>u32::from_be_bytes\<close> of four bytes of the slice.\<close>

definition be32_at :: "bytes \<Rightarrow> nat \<Rightarrow> u32 option" where
  "be32_at data i = do {
     a \<leftarrow> byte_at data i; b \<leftarrow> byte_at data (i + 1); c \<leftarrow> byte_at data (i + 2); d \<leftarrow> byte_at data (i + 3);
     Some (word_of_nat (be_nat [a, b, c, d]))
   }"

text \<open>Addresses of the slice.\<close>

definition ipv4_at :: "bytes \<Rightarrow> nat \<Rightarrow> ipv4 option" where
  "ipv4_at data i = do {
     a \<leftarrow> byte_at data i; b \<leftarrow> byte_at data (i + 1); c \<leftarrow> byte_at data (i + 2); d \<leftarrow> byte_at data (i + 3);
     Some (Ipv4Addr a b c d)
   }"

definition ipv6_at :: "bytes \<Rightarrow> nat \<Rightarrow> ipv6 option" where
  "ipv6_at data i = do { octets \<leftarrow> sub_slice i (i + 16) data; ipv6_of octets }"

lemma be32_at_np [no_panic]: "i + 3 < length data \<Longrightarrow> returns (be32_at data i)"
  unfolding be32_at_def by (intro no_panic) auto

lemma returns_map [no_panic]: "returns m \<Longrightarrow> returns (map_option f m)"
  by (simp add: returns_def)

lemma returns_prod [no_panic]: "(\<And>a b. p = (a, b) \<Longrightarrow> returns (f a b)) \<Longrightarrow> returns (case p of (a, b) \<Rightarrow> f a b)"
  by (cases p) simp

lemma ipv4_at_np [no_panic]: "i + 3 < length data \<Longrightarrow> returns (ipv4_at data i)"
  unfolding ipv4_at_def by (intro no_panic) auto

lemma ipv6_of_16: "length bs = 16 \<Longrightarrow> ipv6_of bs \<noteq> None"
  by (auto simp: length_Suc_conv eval_nat_numeral)

lemma ipv6_at_np [no_panic]: "i + 16 \<le> length data \<Longrightarrow> returns (ipv6_at data i)"
  using ipv6_of_16 [of "take 16 (drop i data)"] by (simp add: ipv6_at_def returns_def)

lemma returns_obtain: "returns m \<Longrightarrow> (\<And>x. m = Some x \<Longrightarrow> P) \<Longrightarrow> P"
  by (cases m) (auto simp: returns_def)

text \<open>A loop that tries one candidate after the other and returns the first hit.\<close>

fun first_hit :: "('i \<Rightarrow> 'a option option) \<Rightarrow> 'i list \<Rightarrow> 'a option option" where
  "first_hit f [] = Some None"
| "first_hit f (i # is) = do { r \<leftarrow> f i; case r of Some x \<Rightarrow> Some (Some x) | None \<Rightarrow> first_hit f is }"

lemma returns_first_hit [no_panic]:
  "(\<And>i. i \<in> set is \<Longrightarrow> returns (f i)) \<Longrightarrow> returns (first_hit f is)"
  by (induction "is") (auto intro!: no_panic split: option.split)

lemma first_hit_Some: "first_hit f is = Some (Some x) \<Longrightarrow> \<exists>i \<in> set is. f i = Some (Some x)"
  by (induction "is") (auto split: bind_splits option.splits)

section \<open>Characters\<close>

definition is_ascii_alphabetic :: "u8 \<Rightarrow> bool" where
  "is_ascii_alphabetic c \<longleftrightarrow> 65 \<le> c \<and> c \<le> 90 \<or> 97 \<le> c \<and> c \<le> 122"

definition is_ascii_alphanumeric :: "u8 \<Rightarrow> bool" where
  "is_ascii_alphanumeric c \<longleftrightarrow> is_ascii_alphabetic c \<or> 48 \<le> c \<and> c \<le> 57"

definition dot :: u8 where "dot = 46"
definition hyphen :: u8 where "hyphen = 45"

lemma alnum_ascii: "is_ascii_alphanumeric c \<Longrightarrow> c < 128"
  by (auto simp: is_ascii_alphanumeric_def is_ascii_alphabetic_def elim: order_le_less_trans)

section \<open>Strings\<close>

definition starts_with :: "bytes \<Rightarrow> bytes \<Rightarrow> bool" where
  "starts_with s p \<longleftrightarrow> take (length p) s = p"

definition ends_with :: "bytes \<Rightarrow> bytes \<Rightarrow> bool" where
  "ends_with s p \<longleftrightarrow> length p \<le> length s \<and> drop (length s - length p) s = p"

fun contains_str :: "bytes \<Rightarrow> bytes \<Rightarrow> bool" where
  "contains_str [] p = (p = [])"
| "contains_str (c # s) p = (starts_with (c # s) p \<or> contains_str s p)"

fun split_on :: "u8 \<Rightarrow> bytes \<Rightarrow> bytes list" where
  "split_on c [] = [[]]"
| "split_on c (x # xs) =
     (if x = c then [] # split_on c xs
      else case split_on c xs of [] \<Rightarrow> [[x]] | p # ps \<Rightarrow> (x # p) # ps)"

fun join :: "bytes \<Rightarrow> bytes list \<Rightarrow> bytes" where
  "join sep [] = []"
| "join sep [p] = p"
| "join sep (p # q # ps) = p @ sep @ join sep (q # ps)"

definition trim_matches :: "(u8 \<Rightarrow> bool) \<Rightarrow> bytes \<Rightarrow> bytes" where
  "trim_matches P s = rev (dropWhile P (rev (dropWhile P s)))"

lemma starts_with_append [simp]: "starts_with (p @ s) p"
  by (simp add: starts_with_def)

lemma ends_with_append [simp]: "ends_with (s @ p) p"
  by (simp add: ends_with_def)

lemma ends_with_last: "ends_with s p \<Longrightarrow> p \<noteq> [] \<Longrightarrow> s \<noteq> [] \<and> last s = last p"
  unfolding ends_with_def by (metis drop_eq_Nil last_drop not_le_imp_less le_zero_eq length_0_conv)

lemma split_on_nonempty: "split_on c xs \<noteq> []"
  by (induction xs) (auto split: list.splits)

lemma join_split: "join [c] (split_on c xs) = xs"
proof (induction xs)
  case (Cons x xs)
  then show ?case using split_on_nonempty [of c xs]
    by (cases "split_on c xs"; cases "tl (split_on c xs)") (auto split: list.splits)
qed simp

lemma utf8_valid_all_ascii: "(\<forall>c \<in> set s. c < 128) \<Longrightarrow> utf8_valid s"
  by (induction s) auto

end
