(* ===== verification/RustFmt.thy ===== *)
theory RustFmt
  imports RustStr
begin

text \<open>
  The \<open>Display\<close> texts of numbers and addresses that the connection keys are made of:
  \<open>{}\<close> and \<open>{:x}\<close> of an unsigned integer, \<open>Ipv4Addr\<close>, \<open>Ipv6Addr\<close> (the longest run of at least
  two zero groups is compressed, an IPv4-mapped address ends in dotted decimals) and
  \<open>SocketAddr\<close> with no scope. Each text determines its value; \<open>show_ipv6\<close> has a reader to prove it.
\<close>

section \<open>Numbers\<close>

definition digit :: "nat \<Rightarrow> u8" where
  "digit d = (if d < 10 then of_nat (48 + d) else of_nat (87 + d))"

function radix :: "nat \<Rightarrow> nat \<Rightarrow> bytes" where
  "radix base n = (if n < base \<or> base < 2 then [digit n] else radix base (n div base) @ [digit (n mod base)])"
  by pat_completeness auto
termination
  by (relation "measure snd") auto

declare radix.simps [simp del]

abbreviation decimal :: "nat \<Rightarrow> bytes" where "decimal \<equiv> radix 10"

abbreviation hex :: "nat \<Rightarrow> bytes" where "hex \<equiv> radix 16"

definition digit_value :: "u8 \<Rightarrow> nat" where
  "digit_value b = (if b < 58 then unat b - 48 else unat b - 87)"

definition radix_value :: "nat \<Rightarrow> bytes \<Rightarrow> nat" where
  "radix_value base = foldl (\<lambda>n b. base * n + digit_value b) 0"

definition is_digit :: "u8 \<Rightarrow> bool" where
  "is_digit b \<longleftrightarrow> 48 \<le> b \<and> b \<le> 57 \<or> 97 \<le> b \<and> b \<le> 102"

lemma digit_all: "(\<forall>d < 16. P d) \<longleftrightarrow> P 0 \<and> P 1 \<and> P 2 \<and> P 3 \<and> P 4 \<and> P 5 \<and> P 6 \<and> P 7
    \<and> P 8 \<and> P 9 \<and> P 10 \<and> P 11 \<and> P 12 \<and> P 13 \<and> P 14 \<and> P (15 :: nat)"
  by (simp add: eval_nat_numeral All_less_Suc conj_ac)

lemma digit_facts: "\<forall>d < 16. digit_value (digit d) = d \<and> is_digit (digit d)"
  unfolding digit_all by (simp add: digit_def digit_value_def is_digit_def)

lemma radix_value_radix:
  assumes "2 \<le> base" and "base \<le> 16"
  shows "radix_value base (radix base n) = n"
proof (induction n rule: less_induct)
  case (less n)
  show ?case
  proof (cases "n < base")
    case True
    then have "n < 16" using assms(2) by simp
    then show ?thesis using True digit_facts by (simp add: radix.simps [of base n] radix_value_def)
  next
    case False
    then have "n div base < n" using assms(1) by simp
    from less [OF this] have "radix_value base (radix base (n div base)) = n div base" .
    moreover have "n mod base < 16" using assms by (intro less_le_trans [OF mod_less_divisor]) auto
    ultimately show ?thesis using False assms(1) digit_facts
      by (simp add: radix.simps [of base n] radix_value_def)
  qed
qed

lemma radix_inject: "2 \<le> base \<Longrightarrow> base \<le> 16 \<Longrightarrow> radix base m = radix base n \<longleftrightarrow> m = n"
  by (metis radix_value_radix)

lemma radix_digits:
  assumes "2 \<le> base" and "base \<le> 16"
  shows "\<forall>b \<in> set (radix base n). is_digit b"
proof (induction n rule: less_induct)
  case (less n)
  have m: "n mod base < 16" using assms by (intro less_le_trans [OF mod_less_divisor]) auto
  show ?case
  proof (cases "n < base")
    case True
    then show ?thesis using assms(2) digit_facts by (simp add: radix.simps [of base n])
  next
    case False
    then have "n div base < n" using assms(1) by simp
    from less [OF this] show ?thesis using False assms(1) m digit_facts by (simp add: radix.simps [of base n])
  qed
qed

lemma radix_nonempty: "radix base n \<noteq> []" "[] \<noteq> radix base n"
  by (simp_all add: radix.simps [of base n])

section \<open>Splitting and joining\<close>

lemma split_on_no_sep: "c \<notin> set xs \<Longrightarrow> split_on c xs = [xs]"
  by (induction xs) auto

lemma split_on_append: "split_on c (xs @ c # ys) = split_on c xs @ split_on c ys"
proof (induction xs)
  case (Cons x xs)
  then show ?case using split_on_nonempty [of c xs] by (cases "split_on c xs") auto
qed simp

lemma split_join:
  "ps \<noteq> [] \<Longrightarrow> \<forall>p \<in> set ps. c \<notin> set p \<Longrightarrow> split_on c (join [c] ps) = ps"
proof (induction "[c]" ps rule: join.induct)
  case (3 p q ps)
  then show ?case by (simp add: split_on_append split_on_no_sep)
qed (simp_all add: split_on_no_sep)

lemma set_join: "set (join sep ps) \<subseteq> set sep \<union> (\<Union>p \<in> set ps. set p)"
  by (induction sep ps rule: join.induct) auto

text \<open>A text is cut at the first or the last separator.\<close>

lemma cut_first:
  assumes "xs @ c # us = ys @ c # vs" and "c \<notin> set xs" and "c \<notin> set ys"
  shows "xs = ys \<and> us = vs"
  using assms
proof (induction xs arbitrary: ys)
  case Nil
  then show ?case by (cases ys) auto
next
  case (Cons x xs)
  then show ?case by (cases ys) auto
qed

lemma cut_last:
  assumes "xs @ c # us = ys @ c # vs" and "c \<notin> set us" and "c \<notin> set vs"
  shows "xs = ys \<and> us = vs"
proof -
  have "rev us @ c # rev xs = rev vs @ c # rev ys" using assms(1) by (metis rev.simps(2) rev_append append_assoc append_Cons append_Nil)
  then show ?thesis using cut_first [of "rev us" c "rev xs" "rev vs" "rev ys"] assms(2,3) by simp
qed

section \<open>Addresses\<close>

definition colon :: u8 where "colon = 58"

fun show_ipv4 :: "ipv4 \<Rightarrow> bytes" where
  "show_ipv4 (Ipv4Addr a b c d) = join [dot] (map (decimal \<circ> unat) [a, b, c, d])"

fun segments :: "ipv6 \<Rightarrow> u16 list" where
  "segments (Ipv6Addr a b c d e f g h) = [a, b, c, d, e, f, g, h]"

definition to_ipv4_mapped :: "ipv6 \<Rightarrow> ipv4 option" where
  "to_ipv4_mapped addr =
     (if take 12 (octets6 addr) = replicate 10 0 @ [255, 255]
      then case drop 12 (octets6 addr) of [a, b, c, d] \<Rightarrow> Some (Ipv4Addr a b c d) | _ \<Rightarrow> None
      else None)"

text \<open>The scan for the longest run of zero groups: index, current run, longest run; a run is its
  start and length.\<close>

fun zero_run :: "u16 list \<Rightarrow> nat \<Rightarrow> nat \<times> nat \<Rightarrow> nat \<times> nat \<Rightarrow> nat \<times> nat" where
  "zero_run [] i current longest = longest"
| "zero_run (s # ss) i current longest =
     (if s = 0 then
        let current = ((if snd current = 0 then i else fst current), snd current + 1) in
        zero_run ss (i + 1) current (if snd current > snd longest then current else longest)
      else zero_run ss (i + 1) (0, 0) longest)"

definition show_groups :: "u16 list \<Rightarrow> bytes" where
  "show_groups gs = join [colon] (map (hex \<circ> unat) gs)"

definition show_ipv6 :: "ipv6 \<Rightarrow> bytes" where
  "show_ipv6 addr =
     (case to_ipv4_mapped addr of
        Some v4 \<Rightarrow> ascii ''::ffff:'' @ show_ipv4 v4
      | None \<Rightarrow>
          let gs = segments addr; (start, len) = zero_run gs 0 (0, 0) (0, 0) in
          if len > 1
          then show_groups (take start gs) @ colon # colon # show_groups (drop (start + len) gs)
          else show_groups gs)"

fun show_ip :: "ip_addr \<Rightarrow> bytes" where
  "show_ip (V4 a) = show_ipv4 a"
| "show_ip (V6 a) = show_ipv6 a"

definition show_socket :: "socket_addr \<Rightarrow> bytes" where
  "show_socket s =
     (case ip s of
        V4 a \<Rightarrow> show_ipv4 a @ colon # decimal (unat (port s))
      | V6 a \<Rightarrow> 91 # show_ipv6 a @ 93 # colon # decimal (unat (port s)))"

section \<open>The texts determine the addresses\<close>

lemma not_digit [simp]: "\<not> is_digit 46" "\<not> is_digit 58" "\<not> is_digit 91" "\<not> is_digit 93" "\<not> is_digit 45"
  by (simp_all add: is_digit_def)

lemma decimal_digits: "b \<in> set (decimal n) \<Longrightarrow> is_digit b"
  using radix_digits [of 10 n] by simp

lemma hex_digits: "b \<in> set (hex n) \<Longrightarrow> is_digit b"
  using radix_digits [of 16 n] by simp

lemma show_ipv4_chars: "b \<in> set (show_ipv4 a) \<Longrightarrow> is_digit b \<or> b = dot"
  using set_join [of "[dot]"] by (cases a) (fastforce dest: decimal_digits simp del: join.simps)

lemma show_ipv4_dot: "dot \<in> set (show_ipv4 a)"
  by (cases a) simp

lemma show_ipv4_inject: "show_ipv4 a = show_ipv4 b \<longleftrightarrow> a = b"
proof
  assume eq: "show_ipv4 a = show_ipv4 b"
  obtain a1 a2 a3 a4 where a: "a = Ipv4Addr a1 a2 a3 a4" by (cases a)
  obtain b1 b2 b3 b4 where b: "b = Ipv4Addr b1 b2 b3 b4" by (cases b)
  have no: "dot \<notin> set (decimal n)" for n
    using decimal_digits [of dot n] by (auto simp: dot_def)
  have "split_on dot (show_ipv4 (Ipv4Addr w x y z)) = map (decimal \<circ> unat) [w, x, y, z]" for w x y z
    using no by (simp only: show_ipv4.simps) (intro split_join, auto)
  then have "map (decimal \<circ> unat) [a1, a2, a3, a4] = map (decimal \<circ> unat) [b1, b2, b3, b4]"
    using eq a b by metis
  then show "a = b" by (simp add: a b radix_inject word_unat_eq_iff)
qed simp

definition zeros_at :: "u16 list \<Rightarrow> nat \<times> nat \<Rightarrow> bool" where
  "zeros_at gs r \<longleftrightarrow> fst r + snd r \<le> length gs \<and> (\<forall>j < snd r. gs ! (fst r + j) = 0)"

lemma zero_run_zeros:
  assumes "zeros_at pre longest" and "zeros_at pre current" and "snd current > 0 \<Longrightarrow> fst current + snd current = length pre"
  shows "zeros_at (pre @ ss) (zero_run ss (length pre) current longest)"
  using assms
proof (induction ss arbitrary: pre current longest)
  case (Cons s ss)
  have more: "zeros_at (pre @ [s]) r" if "zeros_at pre r" for r
    using that by (auto simp: zeros_at_def nth_append)
  show ?case
  proof (cases "s = 0")
    case True
    let ?c = "((if snd current = 0 then length pre else fst current), snd current + 1)"
    have "zeros_at (pre @ [s]) ?c"
      using Cons.prems(2,3) True by (auto simp: zeros_at_def nth_append less_Suc_eq)
    then have "zeros_at ((pre @ [s]) @ ss)
        (zero_run ss (length (pre @ [s])) ?c (if snd ?c > snd longest then ?c else longest))"
      using Cons.prems more by (intro Cons.IH) auto
    then show ?thesis using True by (auto simp: Let_def split: if_splits)
  next
    case False
    have "zeros_at ((pre @ [s]) @ ss) (zero_run ss (length (pre @ [s])) (0, 0) longest)"
      using Cons.prems(1) more by (intro Cons.IH) (auto simp: zeros_at_def)
    then show ?thesis using False by simp
  qed
qed simp

text \<open>A reader of the address groups: parts without text stand for the compressed zeros.\<close>

definition read_groups :: "bytes list \<Rightarrow> u16 list" where
  "read_groups = map (word_of_nat \<circ> radix_value 16)"

definition read_ipv6 :: "bytes \<Rightarrow> u16 list" where
  "read_ipv6 text =
     (let ps = split_on colon text; l = takeWhile (\<lambda>p. p \<noteq> []) ps; r = takeWhile (\<lambda>p. p \<noteq> []) (rev ps)
      in if l = ps then read_groups ps
         else read_groups l @ replicate (8 - length l - length r) 0 @ read_groups (rev r))"

lemma read_groups_hex: "read_groups (map (hex \<circ> unat) gs) = gs"
  by (simp add: read_groups_def radix_value_radix comp_def)

lemma split_groups: "split_on colon (show_groups gs) = (if gs = [] then [[]] else map (hex \<circ> unat) gs)"
proof (cases "gs = []")
  case False
  have "colon \<notin> set (hex n)" for n using hex_digits [of colon n] by (auto simp: colon_def)
  then show ?thesis using False unfolding show_groups_def by (subst split_join) auto
qed (simp add: show_groups_def)

lemma takeWhile_parts: "takeWhile (\<lambda>p. p \<noteq> []) (map (hex \<circ> unat) gs @ [] # ps) = map (hex \<circ> unat) gs"
  by (induction gs) (simp_all add: radix_nonempty)

lemma read_groups_plain: "gs \<noteq> [] \<Longrightarrow> read_ipv6 (show_groups gs) = gs"
proof -
  have "takeWhile (\<lambda>p. p \<noteq> []) (map (hex \<circ> unat) gs) = map (hex \<circ> unat) gs"
    by (induction gs) (simp_all add: radix_nonempty)
  moreover assume "gs \<noteq> []"
  ultimately show ?thesis by (simp add: read_ipv6_def Let_def split_groups read_groups_hex)
qed

lemma read_groups_compressed:
  "read_ipv6 (show_groups xs @ colon # colon # show_groups ys) = xs @ replicate (8 - length xs - length ys) 0 @ ys"
proof -
  let ?H = "map (hex \<circ> unat)"
  let ?ps = "split_on colon (show_groups xs) @ [] # split_on colon (show_groups ys)"
  have ps: "split_on colon (show_groups xs @ colon # colon # show_groups ys) = ?ps"
    using split_on_append [of colon "show_groups xs" "colon # show_groups ys"] split_on_append [of colon "[]" "show_groups ys"]
    by simp
  have l: "takeWhile (\<lambda>p. p \<noteq> []) ?ps = ?H xs"
    using takeWhile_parts [of xs] by (simp add: split_groups)
  have "rev ?ps = ?H (rev ys) @ [] # (if ys = [] then [] # rev (split_on colon (show_groups xs)) else rev (split_on colon (show_groups xs)))"
    by (simp add: split_groups rev_map)
  then have r: "takeWhile (\<lambda>p. p \<noteq> []) (rev ?ps) = ?H (rev ys)"
    using takeWhile_parts [of "rev ys"] by metis
  have "[] \<in> set ?ps" "[] \<notin> set (?H xs)" by (auto simp: radix_nonempty)
  then have "?H xs \<noteq> ?ps" by metis
  then show ?thesis unfolding read_ipv6_def ps l r Let_def by (simp add: read_groups_hex rev_map)
qed

lemma length_segments [simp]: "length (segments a) = 8"
  by (cases a) simp

lemma segments_inject: "segments a = segments b \<longleftrightarrow> a = b"
  by (cases a; cases b) simp

lemma read_show_ipv6:
  assumes "to_ipv4_mapped a = None"
  shows "read_ipv6 (show_ipv6 a) = segments a"
proof -
  let ?gs = "segments a"
  obtain st n where r: "zero_run ?gs 0 (0, 0) (0, 0) = (st, n)" by (cases "zero_run ?gs 0 (0, 0) (0, 0)")
  have z: "st + n \<le> 8" "\<forall>j < n. ?gs ! (st + j) = 0"
    using zero_run_zeros [of "[]" "(0, 0)" "(0, 0)" ?gs] r by (simp_all add: zeros_at_def)
  show ?thesis
  proof (cases "n > 1")
    case True
    have "take n (drop st ?gs) = replicate n 0"
      using z by (intro nth_equalityI) simp_all
    then have "take st ?gs @ replicate n 0 @ drop (st + n) ?gs = ?gs"
      by (metis append_take_drop_id drop_drop add.commute)
    moreover have "8 - length (take st ?gs) - length (drop (st + n) ?gs) = n" using z(1) by simp
    ultimately show ?thesis
      using read_groups_compressed [of "take st ?gs" "drop (st + n) ?gs"] assms True r
      by (simp add: show_ipv6_def Let_def)
  next
    case False
    have "?gs \<noteq> []" by (metis length_segments list.size(3) zero_neq_numeral)
    then show ?thesis using read_groups_plain assms False r by (simp add: show_ipv6_def Let_def)
  qed
qed

lemma show_groups_chars: "b \<in> set (show_groups gs) \<Longrightarrow> is_digit b \<or> b = colon"
  using set_join [of "[colon]" "map (hex \<circ> unat) gs"] by (auto simp: show_groups_def dest: hex_digits)

lemma show_ipv6_chars: "b \<in> set (show_ipv6 a) \<Longrightarrow> is_digit b \<or> b = dot \<or> b = colon"
proof -
  have "b \<in> set (ascii ''::ffff:'') \<Longrightarrow> is_digit b \<or> b = colon"
    by (auto simp: ascii_def is_digit_def colon_def)
  then show "b \<in> set (show_ipv6 a) \<Longrightarrow> is_digit b \<or> b = dot \<or> b = colon"
    by (auto simp: show_ipv6_def Let_def split: option.splits prod.splits if_splits
        dest: show_ipv4_chars show_groups_chars)
qed

lemma show_ipv6_mapped_dot: "dot \<in> set (show_ipv6 a) \<longleftrightarrow> to_ipv4_mapped a \<noteq> None"
proof (cases "to_ipv4_mapped a")
  case None
  have "dot \<notin> set (show_groups gs)" for gs
    using show_groups_chars [of dot gs] by (auto simp: dot_def colon_def)
  then show ?thesis using None by (auto simp: show_ipv6_def Let_def dot_def colon_def split: prod.split)
next
  case (Some v)
  then show ?thesis by (simp add: show_ipv6_def show_ipv4_dot)
qed

lemma to_ipv4_mapped_Some:
  "to_ipv4_mapped a = Some v \<Longrightarrow> octets6 a = replicate 10 0 @ [255, 255] @ octets4 v"
proof -
  assume m: "to_ipv4_mapped a = Some v"
  then have "take 12 (octets6 a) = replicate 10 0 @ [255, 255]" "drop 12 (octets6 a) = octets4 v"
    by (auto simp: to_ipv4_mapped_def split: if_splits list.splits)
  then show ?thesis using append_take_drop_id [of 12 "octets6 a"] by simp
qed

lemma show_ipv6_inject: "show_ipv6 a = show_ipv6 b \<longleftrightarrow> a = b"
proof
  assume eq: "show_ipv6 a = show_ipv6 b"
  show "a = b"
  proof (cases "to_ipv4_mapped a")
    case None
    then have "to_ipv4_mapped b = None" using eq show_ipv6_mapped_dot by metis
    then show ?thesis using eq None read_show_ipv6 segments_inject by metis
  next
    case (Some v)
    then obtain w where w: "to_ipv4_mapped b = Some w" using eq show_ipv6_mapped_dot [of a] show_ipv6_mapped_dot [of b] by auto
    then have "v = w" using eq Some by (simp add: show_ipv6_def show_ipv4_inject)
    then show ?thesis using Some w to_ipv4_mapped_Some octets6_inject by metis
  qed
qed simp

text \<open>The text of a socket address holds no hyphen, which will separate the two ends of a key.\<close>

lemma show_socket_no_hyphen: "hyphen \<notin> set (show_socket s)"
proof -
  have "\<not> is_digit hyphen" "hyphen \<noteq> dot" "hyphen \<noteq> colon" by (simp_all add: hyphen_def dot_def colon_def)
  moreover have "hyphen \<noteq> 91" "hyphen \<noteq> 93" by (simp_all add: hyphen_def)
  ultimately show ?thesis
    by (auto simp: show_socket_def split: ip_addr.splits
        dest: show_ipv4_chars show_ipv6_chars decimal_digits)
qed

lemma show_socket_inject: "show_socket s = show_socket t \<longleftrightarrow> s = t"
proof
  assume eq: "show_socket s = show_socket t"
  have first: "show_ipv4 a \<noteq> 91 # xs" for a xs
    using show_ipv4_chars [of 91 a] by (auto simp: dot_def)
  have cut: "show_ipv4 a @ colon # decimal m = show_ipv4 b @ colon # decimal n \<Longrightarrow> a = b \<and> m = n" for a b m n
    using cut_first [of "show_ipv4 a" colon "decimal m" "show_ipv4 b" "decimal n"]
      show_ipv4_chars [of colon] by (auto simp: show_ipv4_inject radix_inject colon_def dot_def)
  have cut6: "show_ipv6 a @ 93 # colon # decimal m = show_ipv6 b @ 93 # colon # decimal n \<Longrightarrow> a = b \<and> m = n" for a b m n
    using cut_first [of "show_ipv6 a" 93 "colon # decimal m" "show_ipv6 b" "colon # decimal n"]
      show_ipv6_chars [of 93] by (auto simp: show_ipv6_inject radix_inject colon_def dot_def)
  have mixed: "show_ipv4 a @ xs \<noteq> 91 # ys" for a xs ys
    using show_ipv4_dot [of a] show_ipv4_chars [of 91 a] by (cases "show_ipv4 a") (auto simp: dot_def)
  show "s = t"
  proof (cases "ip s"; cases "ip t")
    fix a b assume "ip s = V4 a" "ip t = V4 b"
    then show "s = t" using eq cut [of a "unat (port s)" b "unat (port t)"]
      by (cases s; cases t) (simp add: show_socket_def word_unat_eq_iff)
  next
    fix a b assume "ip s = V6 a" "ip t = V6 b"
    then show "s = t" using eq cut6 [of a "unat (port s)" b "unat (port t)"]
      by (cases s; cases t) (simp add: show_socket_def word_unat_eq_iff)
  next
    fix a b assume "ip s = V4 a" "ip t = V6 b"
    then show "s = t" using eq mixed by (simp add: show_socket_def)
  next
    fix a b assume "ip s = V6 a" "ip t = V4 b"
    then show "s = t" using eq mixed by (metis ip_addr.simps(5,6) show_socket_def)
  qed
qed simp

section \<open>Bytes in hexadecimal\<close>

text \<open>\<open>format!("{:02x}", b)\<close>\<close>

definition hex2 :: "u8 \<Rightarrow> bytes" where
  "hex2 b = [digit (unat b div 16), digit (unat b mod 16)]"

text \<open>\<open>format!("{:02x}:...")\<close> of six bytes.\<close>

definition show_mac :: "bytes \<Rightarrow> bytes" where
  "show_mac bs = join [colon] (map hex2 bs)"

end
