(* ===== verification/DnsParse.thy ===== *)
theory DnsParse
  imports RustFmt
begin

text \<open>
  DNS, mDNS and LLMNR inspection: \<^verbatim>\<open>dpi/dns.rs\<close>, \<^verbatim>\<open>mdns.rs\<close> and \<^verbatim>\<open>llmnr.rs\<close>. A message is
  twelve bytes of header, questions, then resource records; the parser keeps the first question
  and the A and AAAA addresses of the answers. The outer \<open>None\<close> is a panic.
\<close>

unbundle bit_operations_syntax

definition MAX_DNS_NAME_LEN :: nat where "MAX_DNS_NAME_LEN = 253"
definition MAX_ANSWERS_TO_PARSE :: nat where "MAX_ANSWERS_TO_PARSE = 64"
definition MAX_RESPONSE_IPS_PER_PACKET :: nat where "MAX_RESPONSE_IPS_PER_PACKET = 16"
definition MAX_NAME_POINTER_HOPS :: nat where "MAX_NAME_POINTER_HOPS = 16"

section \<open>Names\<close>

text \<open>The loop of \<open>skip_dns_name\<close>. A pointer ends the name, so the hop count never gets past 1.\<close>

function skip_name_from :: "bytes \<Rightarrow> nat \<Rightarrow> nat \<Rightarrow> nat option option" where
  "skip_name_from payload hops offset =
     (if length payload \<le> offset then Some None
      else do {
        label_len \<leftarrow> byte_at payload offset;
        if label_len = 0 then Some (Some (offset + 1))
        else if label_len AND 0xC0 = 0xC0 then
          if length payload \<le> offset + 1 then Some None
          else if hops + 1 > MAX_NAME_POINTER_HOPS then Some None
          else Some (Some (offset + 2))
        else if label_len AND 0xC0 \<noteq> 0 then Some None
        else if offset + 1 + unat label_len > length payload then Some None
        else skip_name_from payload hops (offset + 1 + unat label_len)
      })"
  by pat_completeness auto
termination
  by (relation "measure (\<lambda>(payload, hops, offset). length payload - offset)") auto

declare skip_name_from.simps [simp del]

definition skip_dns_name :: "bytes \<Rightarrow> nat \<Rightarrow> nat option option" where
  "skip_dns_name payload start = skip_name_from payload 0 start"

text \<open>The name loop of \<open>parse_question\<close>: the name read so far and the offset.\<close>

function question_name :: "bytes \<Rightarrow> nat \<Rightarrow> bytes \<Rightarrow> (bytes \<times> nat) option" where
  "question_name payload offset name =
     (if length payload \<le> offset then Some (name, offset)
      else do {
        b \<leftarrow> byte_at payload offset;
        let label_len = unat b;
        if label_len = 0 then Some (name, offset + 1)
        else if label_len \<ge> 0xC0 then Some (name, offset + 2)
        else if offset + 1 + label_len > length payload then Some (name, offset)
        else do {
          raw \<leftarrow> sub_slice (offset + 1) (offset + 1 + label_len) payload;
          let name = (if name \<noteq> [] then name @ [dot] else name);
          let name = (case from_utf8 raw of Some label \<Rightarrow> name @ label | None \<Rightarrow> name);
          if length name > MAX_DNS_NAME_LEN then Some (name, offset)
          else question_name payload (offset + 1 + label_len) name
        }
      })"
  by pat_completeness auto
termination
  by (relation "measure (\<lambda>(payload, offset, name). length payload - offset)") auto

declare question_name.simps [simp del]

definition query_types :: "(nat \<times> DnsQueryType) list" where
  "query_types =
     [(1, QT_A), (2, QT_NS), (5, QT_CNAME), (6, QT_SOA), (12, QT_PTR), (13, QT_HINFO), (15, QT_MX),
      (16, QT_TXT), (17, QT_RP), (18, QT_AFSDB), (24, QT_SIG), (25, QT_KEY), (28, QT_AAAA),
      (29, QT_LOC), (33, QT_SRV), (35, QT_NAPTR), (36, QT_KX), (37, QT_CERT), (39, QT_DNAME),
      (42, QT_APL), (43, QT_DS), (44, QT_SSHFP), (45, QT_IPSECKEY), (46, QT_RRSIG), (47, QT_NSEC),
      (48, QT_DNSKEY), (49, QT_DHCID), (50, QT_NSEC3), (51, QT_NSEC3PARAM), (52, QT_TLSA),
      (53, QT_SMIMEA), (55, QT_HIP), (59, QT_CDS), (60, QT_CDNSKEY), (61, QT_OPENPGPKEY),
      (62, QT_CSYNC), (63, QT_ZONEMD), (64, QT_SVCB), (65, QT_HTTPS), (108, QT_EUI48),
      (109, QT_EUI64), (249, QT_TKEY), (250, QT_TSIG), (256, QT_URI), (257, QT_CAA),
      (32768, QT_TA), (32769, QT_DLV)]"

definition query_type_of :: "nat \<Rightarrow> DnsQueryType" where
  "query_type_of qtype =
     (case map_of query_types qtype of Some t \<Rightarrow> t | None \<Rightarrow> QT_Other (word_of_nat qtype))"

definition parse_question :: "bytes \<Rightarrow> nat \<Rightarrow> (bytes option \<times> DnsQueryType option \<times> nat) option" where
  "parse_question payload start = do {
     (name, offset) \<leftarrow> question_name payload start [];
     let query_name = (if name = [] then None else Some name);
     query_type \<leftarrow> (if offset + 2 \<le> length payload
                     then map_option (Some \<circ> query_type_of) (be16_at payload offset) else Some None);
     Some (query_name, query_type, offset + 4)
   }"

section \<open>Records\<close>

text \<open>The loop of \<open>walk_a_aaaa_records\<close>; the slices that become addresses have the length checked.\<close>

fun walk_records :: "bytes \<Rightarrow> nat \<Rightarrow> nat \<Rightarrow> ip_addr list \<Rightarrow> (nat \<times> ip_addr list) option" where
  "walk_records payload 0 offset ips = Some (offset, ips)"
| "walk_records payload (Suc n) offset ips = do {
     skipped \<leftarrow> skip_dns_name payload offset;
     case skipped of
       None \<Rightarrow> Some (offset, ips)
     | Some after_name \<Rightarrow>
         if after_name + 10 > length payload then Some (offset, ips)
         else do {
           atype \<leftarrow> be16_at payload after_name;
           rdlength \<leftarrow> be16_at payload (after_name + 8);
           let rdata_start = after_name + 10;
           let rdata_end = rdata_start + rdlength;
           if rdata_end > length payload then Some (offset, ips)
           else do {
             ips \<leftarrow> (if length ips < MAX_RESPONSE_IPS_PER_PACKET then
                       if atype = 1 \<and> rdlength = 4 then map_option (\<lambda>a. ips @ [V4 a]) (ipv4_at payload rdata_start)
                       else if atype = 28 \<and> rdlength = 16 then map_option (\<lambda>a. ips @ [V6 a]) (ipv6_at payload rdata_start)
                       else Some ips
                     else Some ips);
             walk_records payload n rdata_end ips
           }
         }
   }"

definition walk_a_aaaa_records :: "bytes \<Rightarrow> nat \<Rightarrow> nat \<Rightarrow> ip_addr list \<Rightarrow> (nat \<times> ip_addr list) option" where
  "walk_a_aaaa_records payload start count ips = walk_records payload (min count MAX_ANSWERS_TO_PARSE) start ips"

fun skip_records_from :: "bytes \<Rightarrow> nat \<Rightarrow> nat \<Rightarrow> nat option option" where
  "skip_records_from payload 0 offset = Some (Some offset)"
| "skip_records_from payload (Suc n) offset = do {
     skipped \<leftarrow> skip_dns_name payload offset;
     case skipped of
       None \<Rightarrow> Some None
     | Some after_name \<Rightarrow>
         if after_name + 10 > length payload then Some None
         else do {
           rdlength \<leftarrow> be16_at payload (after_name + 8);
           let rdata_end = after_name + 10 + rdlength;
           if rdata_end > length payload then Some None else skip_records_from payload n rdata_end
         }
   }"

definition skip_records :: "bytes \<Rightarrow> nat \<Rightarrow> nat \<Rightarrow> nat option option" where
  "skip_records payload start count = skip_records_from payload (min count MAX_ANSWERS_TO_PARSE) start"

section \<open>Messages\<close>

record DnsHeaderCounts =
  hc_is_response :: bool
  hc_qdcount :: nat
  hc_ancount :: nat
  hc_arcount :: nat

definition dns_header_counts :: "bytes \<Rightarrow> DnsHeaderCounts option option" where
  "dns_header_counts payload =
     (if length payload < 12 then Some None
      else do {
        flags \<leftarrow> be16_at payload 2;
        qd \<leftarrow> be16_at payload 4;
        an \<leftarrow> be16_at payload 6;
        ar \<leftarrow> be16_at payload 10;
        Some (Some \<lparr>hc_is_response = (word_of_nat flags :: u16) AND 0x8000 \<noteq> 0, hc_qdcount = qd, hc_ancount = an,
                    hc_arcount = ar\<rparr>)
      })"

definition header_nscount :: "bytes \<Rightarrow> nat option" where
  "header_nscount payload = (if length payload < 12 then Some 0 else be16_at payload 8)"

text \<open>The questions that are left, whether the first is among them, and the result so far.\<close>

fun questions_from :: "bytes \<Rightarrow> nat \<Rightarrow> bool \<Rightarrow> bytes option \<times> DnsQueryType option \<times> nat \<Rightarrow>
    (bytes option \<times> DnsQueryType option \<times> nat) option" where
  "questions_from payload 0 first r = Some r"
| "questions_from payload (Suc n) first (query_name, query_type, offset) = do {
     (name, qtype, next) \<leftarrow> parse_question payload offset;
     let (query_name, query_type) = (if first then (name, qtype) else (query_name, query_type));
     if next > length payload then Some (query_name, query_type, next)
     else questions_from payload n False (query_name, query_type, next)
   }"

definition parse_questions_starting_at_header ::
  "bytes \<Rightarrow> nat \<Rightarrow> (bytes option \<times> DnsQueryType option \<times> nat) option" where
  "parse_questions_starting_at_header payload qdcount = questions_from payload qdcount True (None, None, 12)"

definition analyze_dns :: "bytes \<Rightarrow> DnsInfo option option" where
  "analyze_dns payload = do {
     counts \<leftarrow> dns_header_counts payload;
     case counts of
       None \<Rightarrow> Some None
     | Some header \<Rightarrow> do {
         (query_name, query_type, offset) \<leftarrow> parse_questions_starting_at_header payload (hc_qdcount header);
         (_, ips) \<leftarrow> (if hc_is_response header
                       then walk_a_aaaa_records payload offset (hc_ancount header) [] else Some (offset, []));
         Some (Some \<lparr>dns_query_name = query_name, dns_query_type = query_type, dns_response_ips = ips,
                     dns_is_response = hc_is_response header\<rparr>)
       }
   }"

definition analyze_dns_for_mdns :: "bytes \<Rightarrow> DnsInfo option option" where
  "analyze_dns_for_mdns payload = do {
     counts \<leftarrow> dns_header_counts payload;
     case counts of
       None \<Rightarrow> Some None
     | Some header \<Rightarrow> do {
         (query_name, query_type, offset) \<leftarrow> parse_questions_starting_at_header payload (hc_qdcount header);
         ips \<leftarrow> (if hc_is_response header then do {
                    (offset, ips) \<leftarrow> walk_a_aaaa_records payload offset (hc_ancount header) [];
                    nscount \<leftarrow> header_nscount payload;
                    skipped \<leftarrow> skip_records payload offset nscount;
                    case skipped of
                      Some after_authority \<Rightarrow>
                        map_option snd (walk_a_aaaa_records payload after_authority (hc_arcount header) ips)
                    | None \<Rightarrow> Some ips
                  }
                  else Some []);
         Some (Some \<lparr>dns_query_name = query_name, dns_query_type = query_type, dns_response_ips = ips,
                     dns_is_response = hc_is_response header\<rparr>)
       }
   }"

definition analyze_mdns :: "bytes \<Rightarrow> MdnsInfo option option" where
  "analyze_mdns payload = map_option (map_option (\<lambda>d.
     \<lparr>mdns_query_name = dns_query_name d, mdns_query_type = dns_query_type d,
      mdns_is_response = dns_is_response d, mdns_response_ips = dns_response_ips d\<rparr>)) (analyze_dns_for_mdns payload)"

definition analyze_llmnr :: "bytes \<Rightarrow> LlmnrInfo option option" where
  "analyze_llmnr payload = map_option (map_option (\<lambda>d.
     \<lparr>llmnr_query_name = dns_query_name d, llmnr_query_type = dns_query_type d,
      llmnr_is_response = dns_is_response d, llmnr_response_ips = dns_response_ips d\<rparr>)) (analyze_dns payload)"

section \<open>No panic\<close>

lemma skip_name_from_np [no_panic]: "returns (skip_name_from payload hops offset)"
proof (induction payload hops offset rule: skip_name_from.induct)
  case (1 payload hops offset)
  show ?case by (subst skip_name_from.simps) (intro no_panic 1; simp)
qed

lemma skip_dns_name_np [no_panic]: "returns (skip_dns_name payload start)"
  unfolding skip_dns_name_def by (intro no_panic)

lemma question_name_np [no_panic]: "returns (question_name payload offset name)"
proof (induction payload offset name rule: question_name.induct)
  case (1 payload offset name)
  show ?case by (subst question_name.simps) (intro no_panic 1; simp)
qed

lemma parse_question_np [no_panic]: "returns (parse_question payload start)"
  unfolding parse_question_def by (intro no_panic) auto

lemma walk_records_np [no_panic]: "returns (walk_records payload n offset ips)"
  by (induction payload n offset ips rule: walk_records.induct) (auto intro!: no_panic)

lemma skip_records_np [no_panic]: "returns (skip_records_from payload n offset)"
  by (induction payload n offset rule: skip_records_from.induct) (auto intro!: no_panic)

lemma questions_np [no_panic]: "returns (questions_from payload n first r)"
  by (induction payload n first r rule: questions_from.induct) (auto intro!: no_panic split: prod.split)

lemma analyze_dns_np [no_panic]: "returns (analyze_dns payload)"
  unfolding analyze_dns_def dns_header_counts_def parse_questions_starting_at_header_def walk_a_aaaa_records_def
  by (auto intro!: no_panic split: prod.split)

lemma analyze_dns_for_mdns_np [no_panic]: "returns (analyze_dns_for_mdns payload)"
  unfolding analyze_dns_for_mdns_def dns_header_counts_def parse_questions_starting_at_header_def
    walk_a_aaaa_records_def header_nscount_def skip_records_def
  by (auto intro!: no_panic split: prod.split)

lemma analyze_mdns_np [no_panic]: "returns (analyze_mdns payload)" "returns (analyze_llmnr payload)"
  unfolding analyze_mdns_def analyze_llmnr_def by (intro no_panic)+

end
