(* ===== verification/RustText.thy ===== *)
theory RustText
  imports RustFmt
begin

text \<open>
  Rust's text functions that the inspection of line-based protocols uses, on UTF-8 strings: the
  characters of a string as the list of their byte sequences, Unicode white space, trimming,
  splitting into lines and words, ASCII case, and parsing of unsigned integers.
\<close>

section \<open>Characters\<close>

function chars :: "bytes \<Rightarrow> bytes list" where
  "chars bs =
     (if bs = [] then [] else take (snd (utf8_head bs)) bs # chars (drop (snd (utf8_head bs)) bs))"
  by pat_completeness auto
termination
  by (relation "measure length") (auto simp: utf8_head_pos intro!: diff_less)

declare chars.simps [simp del]

text \<open>The characters with the property \<open>White_Space\<close>, encoded.\<close>

definition whitespace_chars :: "bytes list" where
  "whitespace_chars =
     [[9], [10], [11], [12], [13], [32], [0xC2, 0x85], [0xC2, 0xA0], [0xE1, 0x9A, 0x80]]
     @ map (\<lambda>b. [0xE2, 0x80, b]) [0x80, 0x81, 0x82, 0x83, 0x84, 0x85, 0x86, 0x87, 0x88, 0x89, 0x8A, 0xA8, 0xA9, 0xAF]
     @ [[0xE2, 0x81, 0x9F], [0xE3, 0x80, 0x80]]"

definition is_whitespace :: "bytes \<Rightarrow> bool" where
  "is_whitespace c \<longleftrightarrow> c \<in> set whitespace_chars"

definition trim :: "bytes \<Rightarrow> bytes" where
  "trim s = concat (rev (dropWhile is_whitespace (rev (dropWhile is_whitespace (chars s)))))"

fun split_chars :: "(bytes \<Rightarrow> bool) \<Rightarrow> bytes list \<Rightarrow> bytes list list" where
  "split_chars P [] = [[]]"
| "split_chars P (c # cs) =
     (if P c then [] # split_chars P cs
      else case split_chars P cs of [] \<Rightarrow> [[c]] | w # ws \<Rightarrow> (c # w) # ws)"

definition split_whitespace :: "bytes \<Rightarrow> bytes list" where
  "split_whitespace s = filter (\<lambda>w. w \<noteq> []) (map concat (split_chars is_whitespace (chars s)))"

text \<open>\<open>split_once(char::is_whitespace)\<close> and \<open>split_once\<close> at an ASCII character.\<close>

definition split_once_whitespace :: "bytes \<Rightarrow> (bytes \<times> bytes) option" where
  "split_once_whitespace s =
     (case dropWhile (Not \<circ> is_whitespace) (chars s) of
        [] \<Rightarrow> None
      | c # rest \<Rightarrow> Some (concat (takeWhile (Not \<circ> is_whitespace) (chars s)), concat rest))"

definition split_once :: "u8 \<Rightarrow> bytes \<Rightarrow> (bytes \<times> bytes) option" where
  "split_once c s = (case position ((=) c) s of None \<Rightarrow> None | Some i \<Rightarrow> Some (take i s, drop (i + 1) s))"

section \<open>Lines\<close>

definition newline :: u8 where "newline = 10"
definition carriage_return :: u8 where "carriage_return = 13"

definition strip_cr :: "bytes \<Rightarrow> bytes" where
  "strip_cr l = (if l \<noteq> [] \<and> last l = carriage_return then butlast l else l)"

text \<open>A line ends with \<open>\n\<close> or \<open>\r\n\<close>; what follows the last line end is a line unless it is empty.\<close>

definition lines :: "bytes \<Rightarrow> bytes list" where
  "lines s =
     (let ps = split_on newline s
      in map strip_cr (butlast ps) @ (if last ps = [] then [] else [last ps]))"

section \<open>ASCII\<close>

definition is_ascii_digit :: "u8 \<Rightarrow> bool" where
  "is_ascii_digit c \<longleftrightarrow> 48 \<le> c \<and> c \<le> 57"

definition is_ascii_graphic :: "u8 \<Rightarrow> bool" where
  "is_ascii_graphic c \<longleftrightarrow> 33 \<le> c \<and> c \<le> 126"

definition to_ascii_uppercase :: "u8 \<Rightarrow> u8" where
  "to_ascii_uppercase c = (if 97 \<le> c \<and> c \<le> 122 then c - 32 else c)"

definition to_ascii_lowercase :: "u8 \<Rightarrow> u8" where
  "to_ascii_lowercase c = (if 65 \<le> c \<and> c \<le> 90 then c + 32 else c)"

definition eq_ignore_ascii_case :: "bytes \<Rightarrow> bytes \<Rightarrow> bool" where
  "eq_ignore_ascii_case a b \<longleftrightarrow> map to_ascii_lowercase a = map to_ascii_lowercase b"

text \<open>\<open>parse\<close> for an unsigned type with values below \<open>limit\<close>: a sign \<open>+\<close> is allowed, overflow is an
  error.\<close>

definition parse_uint :: "nat \<Rightarrow> bytes \<Rightarrow> nat option" where
  "parse_uint limit s =
     (let ds = (if s \<noteq> [] \<and> hd s = 43 then tl s else s);
          n = foldl (\<lambda>n d. 10 * n + unat (d - 48)) 0 ds
      in if ds = [] \<or> \<not> list_all is_ascii_digit ds then None else if n < limit then Some n else None)"

section \<open>Control flow\<close>

text \<open>The operator \<open>?\<close> on a Rust option, in code that may panic.\<close>

definition try_opt :: "'a option option \<Rightarrow> ('a \<Rightarrow> 'b option option) \<Rightarrow> 'b option option" where
  "try_opt m f = do { r \<leftarrow> m; case r of None \<Rightarrow> Some None | Some x \<Rightarrow> f x }"

lemma returns_try_opt [no_panic]:
  "returns m \<Longrightarrow> (\<And>x. m = Some (Some x) \<Longrightarrow> returns (f x)) \<Longrightarrow> returns (try_opt m f)"
  unfolding try_opt_def by (intro no_panic) auto

lemma try_opt_simps [simp]: "try_opt (Some None) f = Some None" "try_opt (Some (Some x)) f = f x"
  by (simp_all add: try_opt_def)

section \<open>Lemmas\<close>

lemma chars_Nil [simp]: "chars [] = []"
  by (subst chars.simps) simp

lemma chars_ascii [simp]: "b < 128 \<Longrightarrow> chars (b # bs) = [b] # chars bs"
  by (subst chars.simps) (simp add: utf8_head_ascii)

lemma concat_chars [simp]: "concat (chars bs) = bs"
proof (induction bs rule: chars.induct)
  case (1 bs)
  then show ?case by (cases "bs = []") (simp_all add: chars.simps [of bs])
qed

lemma chars_all_ascii: "\<forall>c \<in> set s. c < 128 \<Longrightarrow> chars s = map (\<lambda>c. [c]) s"
  by (induction s) simp_all

definition is_space :: "u8 \<Rightarrow> bool" where
  "is_space c \<longleftrightarrow> c \<in> {9, 10, 11, 12, 13, 32}"

lemma whitespace_ascii [simp]: "is_whitespace [c] \<longleftrightarrow> is_space c"
  by (auto simp: is_whitespace_def whitespace_chars_def is_space_def)

lemma graphic_ascii: "is_ascii_graphic c \<Longrightarrow> c < 128 \<and> \<not> is_space c"
  by (auto simp: is_ascii_graphic_def is_space_def elim: order_le_less_trans)

lemma dropWhile_whitespace_ascii [simp]:
  "dropWhile is_whitespace (map (\<lambda>c. [c]) xs) = map (\<lambda>c. [c]) (dropWhile is_space xs)"
  by (induction xs) simp_all

lemma trim_ascii:
  assumes "\<forall>c \<in> set s. c < 128"
  shows "trim s = rev (dropWhile is_space (rev (dropWhile is_space s)))"
proof -
  let ?m = "map (\<lambda>c. [c])"
  have "rev (?m xs) = ?m (rev xs)" "concat (?m xs) = xs" for xs :: bytes by (induction xs) simp_all
  then show ?thesis using assms by (simp only: trim_def chars_all_ascii dropWhile_whitespace_ascii)
qed

lemma trim_graphic:
  assumes "\<forall>c \<in> set s. is_ascii_graphic c"
  shows "trim s = s"
proof -
  have w: "dropWhile is_space xs = xs" if "set xs \<subseteq> Collect is_ascii_graphic" for xs
    using that by (cases xs) (auto simp: graphic_ascii)
  have "dropWhile is_space s = s" "dropWhile is_space (rev s) = rev s" by (rule w; use assms in auto)+
  then show ?thesis using assms by (simp add: trim_ascii graphic_ascii)
qed

lemma split_chars_word: "\<forall>c \<in> set w. \<not> P c \<Longrightarrow> split_chars P w = [w]"
  by (induction w) auto

lemma split_chars_append:
  "\<forall>c \<in> set w. \<not> P c \<Longrightarrow> P c \<Longrightarrow> split_chars P (w @ c # rest) = w # split_chars P rest"
  by (induction w) auto

lemma lines_crlf:
  assumes "newline \<notin> set l"
  shows "lines (l @ [carriage_return, newline] @ rest) = l # lines rest"
proof -
  have n: "newline \<notin> set (l @ [carriage_return])" using assms by (simp add: newline_def carriage_return_def)
  have "split_on newline (l @ [carriage_return, newline] @ rest) = (l @ [carriage_return]) # split_on newline rest"
    using split_on_append [of newline "l @ [carriage_return]" rest] split_on_no_sep [OF n] by simp
  then show ?thesis using split_on_nonempty [of newline rest] by (simp add: lines_def strip_cr_def Let_def)
qed

lemma lines_Nil [simp]: "lines [] = []"
  by (simp add: lines_def)

section \<open>Big-endian words\<close>

definition be32 :: "u32 \<Rightarrow> bytes" where
  "be32 w = ne_bytes Big 4 (unat w)"

lemma be32_bytes:
  obtains a b c d where "be32 w = [a, b, c, d]" and "word_of_nat (be_nat [a, b, c, d]) = w"
proof -
  have l: "length (be32 w) = 4" by (simp add: be32_def)
  then obtain a b c d where abcd: "be32 w = [a, b, c, d]"
    by (auto simp: length_Suc_conv eval_nat_numeral)
  have "be_nat (be32 w) = unat w"
  proof -
    have "unat w < 2 ^ LENGTH(32)" by (rule unsigned_less)
    then show ?thesis by (simp add: be32_def ne_nat_ne_bytes)
  qed
  then show thesis using that abcd by simp
qed

end
