(* ===== verification/DpiUdp.thy ===== *)
theory DpiUdp
  imports RustText
begin

text \<open>
  Inspection of the binary protocols over UDP: \<^verbatim>\<open>dpi/ntp.rs\<close>, \<^verbatim>\<open>dhcp.rs\<close>, \<^verbatim>\<open>netbios.rs\<close>,
  \<^verbatim>\<open>snmp.rs\<close> and \<^verbatim>\<open>stun.rs\<close>. The outer \<open>None\<close> is a panic.
\<close>

unbundle bit_operations_syntax

section \<open>NTP\<close>

definition MIN_NTP_PACKET_SIZE :: nat where "MIN_NTP_PACKET_SIZE = 48"

definition ntp_mode_of :: "u8 \<Rightarrow> NtpMode" where
  "ntp_mode_of v =
     (if v = 0 then Reserved else if v = 1 then SymmetricActive else if v = 2 then SymmetricPassive
      else if v = 3 then Client else if v = 4 then Server else if v = 5 then Broadcast
      else if v = 6 then Control else if v = 7 then Private else Reserved)"

definition analyze_ntp :: "bytes \<Rightarrow> NtpInfo option option" where
  "analyze_ntp payload =
     (if length payload < MIN_NTP_PACKET_SIZE then Some None
      else do {
        first_byte \<leftarrow> byte_at payload 0;
        let version = drop_bit 3 first_byte AND 0x07;
        let mode = first_byte AND 0x07;
        stratum \<leftarrow> byte_at payload 1;
        if \<not> (1 \<le> version \<and> version \<le> 4) then Some None
        else Some (Some \<lparr>ntp_version = version, ntp_mode = ntp_mode_of mode, ntp_stratum = stratum\<rparr>)
      })"

section \<open>DHCP\<close>

definition MIN_DHCP_SIZE :: nat where "MIN_DHCP_SIZE = 240"
definition DHCP_MAGIC_COOKIE :: bytes where "DHCP_MAGIC_COOKIE = [0x63, 0x82, 0x53, 0x63]"
definition DHCP_OPT_HOSTNAME :: u8 where "DHCP_OPT_HOSTNAME = 12"
definition DHCP_OPT_MESSAGE_TYPE :: u8 where "DHCP_OPT_MESSAGE_TYPE = 53"
definition DHCP_OPT_END :: u8 where "DHCP_OPT_END = 255"

definition parse_message_type :: "u8 \<Rightarrow> DhcpMessageType" where
  "parse_message_type v =
     (if v = 1 then Discover else if v = 2 then Offer else if v = 3 then DhcpMessageType.Request
      else if v = 4 then Decline else if v = 5 then Ack else if v = 6 then Nak
      else if v = 7 then DhcpMessageType.Release else if v = 8 then Inform else DhcpMessageType.Unknown v)"

text \<open>The option loop: offset, message type and host name found so far; the last ones win.\<close>

function dhcp_options_from ::
  "bytes \<Rightarrow> nat \<Rightarrow> DhcpMessageType option \<Rightarrow> bytes option \<Rightarrow> (DhcpMessageType option \<times> bytes option) option" where
  "dhcp_options_from options offset message_type hostname =
     (if length options \<le> offset then Some (message_type, hostname)
      else do {
        opt_code \<leftarrow> byte_at options offset;
        if opt_code = DHCP_OPT_END then Some (message_type, hostname)
        else if opt_code = 0 then dhcp_options_from options (offset + 1) message_type hostname
        else if length options \<le> offset + 1 then Some (message_type, hostname)
        else do {
          len \<leftarrow> byte_at options (offset + 1);
          let opt_len = unat len;
          if offset + 2 + opt_len > length options then Some (message_type, hostname)
          else do {
            opt_data \<leftarrow> sub_slice (offset + 2) (offset + 2 + opt_len) options;
            message_type \<leftarrow> (if opt_code = DHCP_OPT_MESSAGE_TYPE \<and> opt_len \<ge> 1
                             then map_option (Some \<circ> parse_message_type) (byte_at opt_data 0) else Some message_type);
            let hostname = (if opt_code = DHCP_OPT_HOSTNAME
                            then (case from_utf8 opt_data of Some name \<Rightarrow> Some name | None \<Rightarrow> hostname) else hostname);
            dhcp_options_from options (offset + 2 + opt_len) message_type hostname
          }
        }
      })"
  by pat_completeness auto
termination
  by (relation "measure (\<lambda>(options, offset, _). length options - offset)") auto

declare dhcp_options_from.simps [simp del]

definition parse_dhcp_options :: "bytes \<Rightarrow> (DhcpMessageType \<times> bytes option) option option" where
  "parse_dhcp_options options = do {
     (message_type, hostname) \<leftarrow> dhcp_options_from options 0 None None;
     Some (map_option (\<lambda>t. (t, hostname)) message_type)
   }"

definition analyze_dhcp :: "bytes \<Rightarrow> DhcpInfo option option" where
  "analyze_dhcp payload =
     (if length payload < MIN_DHCP_SIZE then Some None
      else do {
        cookie \<leftarrow> sub_slice 236 240 payload;
        if cookie \<noteq> DHCP_MAGIC_COOKIE then Some None
        else do {
          mac \<leftarrow> sub_slice 28 34 payload;
          options \<leftarrow> sub_slice 240 (length payload) payload;
          try_opt (parse_dhcp_options options) (\<lambda>(message_type, hostname).
            Some (Some \<lparr>dhcp_message_type = message_type, dhcp_hostname = hostname,
                        dhcp_client_mac = Some (show_mac mac)\<rparr>))
        }
      })"

section \<open>NetBIOS\<close>

definition MIN_NBNS_SIZE :: nat where "MIN_NBNS_SIZE = 12"
definition MIN_NBDGM_SIZE :: nat where "MIN_NBDGM_SIZE = 14"

definition parse_opcode :: "u8 \<Rightarrow> NetBiosOpcode" where
  "parse_opcode v =
     (if v = 0 then Query else if v = 5 then Registration else if v = 6 then NetBiosOpcode.Release
      else if v = 7 then Wack else if v = 8 then Refresh else NetBiosOpcode.Unknown v)"

text \<open>The loop of \<open>decode_netbios_name\<close> over the indices that are left.\<close>

fun netbios_name_from :: "bytes \<Rightarrow> nat list \<Rightarrow> bytes \<Rightarrow> bytes option option" where
  "netbios_name_from data [] name = Some (if name = [] then None else Some name)"
| "netbios_name_from data (i # is) name =
     (let idx = 1 + i * 2 in
      if length data \<le> idx + 1 then Some (if name = [] then None else Some name)
      else do {
        hi \<leftarrow> byte_at data idx;
        lo \<leftarrow> byte_at data (idx + 1);
        if \<not> (65 \<le> hi \<and> hi \<le> 80) \<or> \<not> (65 \<le> lo \<and> lo \<le> 80) then Some None
        else
          let c = push_bit 4 (hi - 65) OR (lo - 65)
          in netbios_name_from data is (if is_ascii_graphic c then name @ [c] else name)
      })"

definition decode_netbios_name :: "bytes \<Rightarrow> bytes option option" where
  "decode_netbios_name data =
     (if data = [] then Some None
      else do {
        name_len \<leftarrow> byte_at data 0;
        if unat name_len \<noteq> 32 \<or> length data < 33 then Some None
        else netbios_name_from data [0..<16] []
      })"

definition analyze_netbios_ns :: "bytes \<Rightarrow> NetBiosInfo option option" where
  "analyze_netbios_ns payload =
     (if length payload < MIN_NBNS_SIZE then Some None
      else do {
        flag_bits \<leftarrow> be16_at payload 2;
        let opcode_value = (ucast (drop_bit 11 (word_of_nat flag_bits :: u16) AND 0x0F) :: u8);
        let is_response = (word_of_nat flag_bits :: u16) AND 0x8000 \<noteq> 0;
        let opcode = (if is_response then NetBiosOpcode.Response else parse_opcode opcode_value);
        name \<leftarrow> (if length payload > 12
                 then do { rest \<leftarrow> sub_slice 12 (length payload) payload; decode_netbios_name rest } else Some None);
        Some (Some \<lparr>netbios_service = NameService, netbios_opcode = opcode, netbios_name = name\<rparr>)
      })"

definition dgm_opcode :: "u8 \<Rightarrow> NetBiosOpcode" where
  "dgm_opcode msg_type =
     (if msg_type \<in> {0x10, 0x11, 0x13, 0x14} then Query
      else if msg_type = 0x12 then Registration
      else if msg_type \<in> {0x15, 0x16} then NetBiosOpcode.Response
      else NetBiosOpcode.Unknown msg_type)"

definition analyze_netbios_dgm :: "bytes \<Rightarrow> NetBiosInfo option option" where
  "analyze_netbios_dgm payload =
     (if length payload < MIN_NBDGM_SIZE then Some None
      else do {
        msg_type \<leftarrow> byte_at payload 0;
        name \<leftarrow> (if length payload > 14
                 then do { rest \<leftarrow> sub_slice 14 (length payload) payload; decode_netbios_name rest } else Some None);
        Some (Some \<lparr>netbios_service = DatagramService, netbios_opcode = dgm_opcode msg_type, netbios_name = name\<rparr>)
      })"

section \<open>SNMP\<close>

definition MIN_SNMP_SIZE :: nat where "MIN_SNMP_SIZE = 10"
definition BER_SEQUENCE :: u8 where "BER_SEQUENCE = 0x30"
definition BER_INTEGER :: u8 where "BER_INTEGER = 0x02"
definition BER_OCTET_STRING :: u8 where "BER_OCTET_STRING = 0x04"

text \<open>The length and the bytes it takes; up to four bytes fit a \<open>usize\<close>.\<close>

definition parse_ber_length :: "bytes \<Rightarrow> (nat \<times> nat) option option" where
  "parse_ber_length data =
     (if data = [] then Some None
      else do {
        first \<leftarrow> byte_at data 0;
        if first < 0x80 then Some (Some (unat first, 1))
        else if first = 0x80 then Some None
        else
          let num_bytes = unat (first AND 0x7F) in
          if num_bytes > 4 \<or> length data < 1 + num_bytes then Some None
          else do { bs \<leftarrow> sub_slice 1 (1 + num_bytes) data; Some (Some (be_nat bs, 1 + num_bytes)) }
      })"

definition parse_version :: "bytes \<Rightarrow> SnmpVersion option option" where
  "parse_version data =
     (if data = [] then Some None
      else do {
        v \<leftarrow> byte_at data (length data - 1);
        Some (if v = 0 then Some Snmp_V1 else if v = 1 then Some Snmp_V2c else if v = 3 then Some Snmp_V3 else None)
      })"

definition pdu_type_of :: "u8 \<Rightarrow> SnmpPduType option" where
  "pdu_type_of b =
     (if b = 0xA0 then Some GetRequest else if b = 0xA1 then Some GetNextRequest
      else if b = 0xA2 then Some GetResponse else if b = 0xA3 then Some SetRequest
      else if b = 0xA4 then Some Trap else if b = 0xA5 then Some GetBulkRequest
      else if b = 0xA6 then Some InformRequest else if b = 0xA7 then Some TrapV2
      else if b = 0xA8 then Some Report else None)"

fun find_pdu_in :: "bytes \<Rightarrow> SnmpPduType option" where
  "find_pdu_in [] = None"
| "find_pdu_in (b # bs) = (case pdu_type_of b of Some t \<Rightarrow> Some t | None \<Rightarrow> find_pdu_in bs)"

definition find_pdu_type :: "bytes \<Rightarrow> SnmpPduType option" where
  "find_pdu_type data = find_pdu_in (take 50 data)"

text \<open>The community string of v1 and v2c: the string and the offset after it.\<close>

definition parse_community :: "bytes \<Rightarrow> nat \<Rightarrow> (bytes option \<times> nat) option option" where
  "parse_community payload offset =
     (if length payload \<le> offset then Some (Some (None, offset))
      else do {
        tag \<leftarrow> byte_at payload offset;
        if tag \<noteq> BER_OCTET_STRING then Some (Some (None, offset))
        else do {
          let offset = offset + 1;
          rest \<leftarrow> sub_slice offset (length payload) payload;
          try_opt (parse_ber_length rest) (\<lambda>(comm_len, len_bytes).
            let offset = offset + len_bytes in
            if offset + comm_len > length payload then Some (Some (None, offset))
            else do {
              community_bytes \<leftarrow> sub_slice offset (offset + comm_len) payload;
              Some (Some (from_utf8 community_bytes, offset + comm_len))
            })
        }
      })"

definition analyze_snmp :: "bytes \<Rightarrow> SnmpInfo option option" where
  "analyze_snmp payload =
     (if length payload < MIN_SNMP_SIZE then Some None
      else do {
        tag \<leftarrow> byte_at payload 0;
        if tag \<noteq> BER_SEQUENCE then Some None
        else do {
          rest \<leftarrow> sub_slice 1 (length payload) payload;
          try_opt (parse_ber_length rest) (\<lambda>(seq_len, consumed).
            let offset = consumed + 1 in
            if offset + seq_len > length payload then Some None
            else if length payload \<le> offset then Some None
            else do {
              int_tag \<leftarrow> byte_at payload offset;
              if int_tag \<noteq> BER_INTEGER then Some None
              else do {
                let offset = offset + 1;
                rest \<leftarrow> sub_slice offset (length payload) payload;
                try_opt (parse_ber_length rest) (\<lambda>(version_len, len_bytes).
                  let offset = offset + len_bytes in
                  if offset + version_len > length payload then Some None
                  else do {
                    version_bytes \<leftarrow> sub_slice offset (offset + version_len) payload;
                    try_opt (parse_version version_bytes) (\<lambda>version.
                      let offset = offset + version_len in
                      try_opt (if version = Snmp_V1 \<or> version = Snmp_V2c then parse_community payload offset
                               else Some (Some (None, offset)))
                        (\<lambda>(community, offset). do {
                          rest \<leftarrow> sub_slice offset (length payload) payload;
                          Some (map_option (\<lambda>t. \<lparr>snmp_version = version, snmp_community = community, snmp_pdu_type = t\<rparr>)
                                  (find_pdu_type rest))
                        }))
                  })
              }
            })
        }
      })"

section \<open>STUN\<close>

definition STUN_HEADER_SIZE :: nat where "STUN_HEADER_SIZE = 20"
definition STUN_MAGIC_COOKIE :: u32 where "STUN_MAGIC_COOKIE = 0x2112A442"
definition ATTR_SOFTWARE :: nat where "ATTR_SOFTWARE = 0x8022"
definition MAX_SOFTWARE_LEN :: nat where "MAX_SOFTWARE_LEN = 128"

function software_from :: "bytes \<Rightarrow> nat \<Rightarrow> nat \<Rightarrow> bytes option option" where
  "software_from payload attrs_end offset =
     (if offset + 4 \<le> attrs_end then do {
        attr_type \<leftarrow> be16_at payload offset;
        attr_length \<leftarrow> be16_at payload (offset + 2);
        let offset' = offset + 4;
        if offset' + attr_length > attrs_end then Some None
        else if attr_type = ATTR_SOFTWARE then do {
          raw \<leftarrow> sub_slice offset' (offset' + min attr_length MAX_SOFTWARE_LEN) payload;
          Some (map_option (\<lambda>s. rev (dropWhile ((=) 0) (rev s))) (from_utf8 raw))
        }
        else software_from payload attrs_end (offset' + (attr_length + 3) div 4 * 4)
      }
      else Some None)"
  by pat_completeness auto
termination
  by (relation "measure (\<lambda>(payload, attrs_end, offset). attrs_end - offset)") auto

declare software_from.simps [simp del]

definition parse_software_attribute :: "bytes \<Rightarrow> nat \<Rightarrow> bytes option option" where
  "parse_software_attribute payload message_length =
     software_from payload (STUN_HEADER_SIZE + message_length) STUN_HEADER_SIZE"

definition stun_class_of :: "u16 \<Rightarrow> StunMessageClass" where
  "stun_class_of msg_type =
     (let c0 = (ucast (drop_bit 4 msg_type AND 1) :: u8);
          c1 = (ucast (drop_bit 8 msg_type AND 1) :: u8);
          class_bits = push_bit 1 c1 OR c0
      in if class_bits = 0 then StunMessageClass.Request else if class_bits = 1 then Indication
         else if class_bits = 2 then SuccessResponse else ErrorResponse)"

definition stun_method_value :: "u16 \<Rightarrow> u16" where
  "stun_method_value msg_type =
     drop_bit 2 msg_type AND 0x0F80 OR drop_bit 1 msg_type AND 0x0070 OR msg_type AND 0x000F"

definition stun_method_of :: "u16 \<Rightarrow> StunMethod" where
  "stun_method_of msg_type =
     (if stun_method_value msg_type = 1 then Binding else StunMethod.Unknown (stun_method_value msg_type))"

definition analyze_stun :: "bytes \<Rightarrow> StunInfo option option" where
  "analyze_stun payload =
     (if length payload < STUN_HEADER_SIZE then Some None
      else do {
        first \<leftarrow> byte_at payload 0;
        if first AND 0xC0 \<noteq> 0 then Some None
        else do {
          cookie \<leftarrow> be32_at payload 4;
          if cookie \<noteq> STUN_MAGIC_COOKIE then Some None
          else do {
            message_length \<leftarrow> be16_at payload 2;
            if message_length mod 4 \<noteq> 0 then Some None
            else if length payload < STUN_HEADER_SIZE + message_length then Some None
            else do {
              second \<leftarrow> byte_at payload 1;
              let msg_type = from_be16 (first AND 0x3F) second;
              transaction_id \<leftarrow> sub_slice 8 20 payload;
              software \<leftarrow> parse_software_attribute payload message_length;
              Some (Some \<lparr>stun_message_class = stun_class_of msg_type, stun_method = stun_method_of msg_type,
                          stun_transaction_id = transaction_id, stun_software = software\<rparr>)
            }
          }
        }
      })"

definition is_likely_stun :: "bytes \<Rightarrow> bool option" where
  "is_likely_stun payload =
     (if length payload < STUN_HEADER_SIZE then Some False
      else do {
        first \<leftarrow> byte_at payload 0;
        if first AND 0xC0 \<noteq> 0 then Some False
        else do { cookie \<leftarrow> be32_at payload 4; Some (cookie = STUN_MAGIC_COOKIE) }
      })"

section \<open>No panic\<close>

lemmas size_defs = MIN_NTP_PACKET_SIZE_def MIN_DHCP_SIZE_def MIN_NBNS_SIZE_def MIN_NBDGM_SIZE_def
  MIN_SNMP_SIZE_def STUN_HEADER_SIZE_def MAX_SOFTWARE_LEN_def

lemma analyze_ntp_np [no_panic]: "returns (analyze_ntp payload)"
  unfolding analyze_ntp_def size_defs by (intro no_panic) auto

lemma dhcp_options_np [no_panic]: "returns (dhcp_options_from options offset message_type hostname)"
proof (induction options offset message_type hostname rule: dhcp_options_from.induct)
  case (1 options offset message_type hostname)
  show ?case by (subst dhcp_options_from.simps) (intro no_panic 1; simp; fastforce)
qed

lemma analyze_dhcp_np [no_panic]: "returns (analyze_dhcp payload)"
  unfolding analyze_dhcp_def parse_dhcp_options_def size_defs by (intro no_panic) auto

lemma netbios_name_np [no_panic]: "returns (netbios_name_from data is name)"
  by (induction data "is" name rule: netbios_name_from.induct) (auto simp: Let_def intro!: no_panic)

lemma decode_netbios_np [no_panic]: "returns (decode_netbios_name data)"
  unfolding decode_netbios_name_def by (intro no_panic) auto

lemma analyze_netbios_np [no_panic]: "returns (analyze_netbios_ns payload)" "returns (analyze_netbios_dgm payload)"
  unfolding analyze_netbios_ns_def analyze_netbios_dgm_def size_defs by (intro no_panic; auto)+

lemma parse_ber_length_np [no_panic]: "returns (parse_ber_length data)"
  unfolding parse_ber_length_def by (intro no_panic) auto

lemma parse_ber_length_bounds: "parse_ber_length data = Some (Some (n, k)) \<Longrightarrow> 1 \<le> k \<and> k \<le> length data"
  by (auto simp: parse_ber_length_def Let_def Suc_le_eq split: if_splits bind_splits)

lemma parse_community_np [no_panic]: "returns (parse_community payload offset)"
  unfolding parse_community_def by (auto intro!: no_panic dest!: parse_ber_length_bounds)

lemma parse_community_bounds:
  "offset \<le> length payload \<Longrightarrow> parse_community payload offset = Some (Some (c, o')) \<Longrightarrow> o' \<le> length payload"
  by (auto simp: parse_community_def Let_def try_opt_def dest!: parse_ber_length_bounds
      split: if_splits bind_splits option.splits)

lemma parse_version_np [no_panic]: "returns (parse_version data)"
  unfolding parse_version_def by (intro no_panic) auto

lemma analyze_snmp_np [no_panic]: "returns (analyze_snmp payload)"
  unfolding analyze_snmp_def size_defs
  by (auto intro!: no_panic dest!: parse_ber_length_bounds parse_community_bounds [rotated] split: if_splits)

lemma software_np:
  "attrs_end \<le> length payload \<Longrightarrow> returns (software_from payload attrs_end offset)"
proof (induction payload attrs_end offset rule: software_from.induct)
  case (1 payload attrs_end offset)
  show ?case by (subst software_from.simps) (intro no_panic 1; use "1.prems" in simp)
qed

lemma analyze_stun_np [no_panic]: "returns (analyze_stun payload)" "returns (is_likely_stun payload)"
  unfolding analyze_stun_def is_likely_stun_def parse_software_attribute_def size_defs
  by (intro no_panic software_np; auto)+

end
