(* ===== verification/DpiText.thy ===== *)
theory DpiText
  imports RustText
begin

text \<open>
  Inspection of the line-based protocols: \<^verbatim>\<open>dpi/http.rs\<close>, \<^verbatim>\<open>ssdp.rs\<close>, \<^verbatim>\<open>ftp.rs\<close> and
  \<^verbatim>\<open>ssh.rs\<close>. HTTP, SSDP and FTP index nothing but what a pattern has shown to be there, so they
  are total; the search of SSH for binary packets indexes the payload, and its outer \<open>None\<close> is a
  panic.
\<close>

section \<open>HTTP\<close>

definition is_likely_http :: "bytes \<Rightarrow> bool" where
  "is_likely_http payload \<longleftrightarrow> 4 \<le> length payload \<and> list_ex (starts_with payload)
     [ascii ''GET '', ascii ''POST '', ascii ''PUT '', ascii ''DELETE '', ascii ''HEAD '', ascii ''OPTIONS '',
      ascii ''CONNECT '', ascii ''TRACE '', ascii ''PATCH '', ascii ''HTTP/1.0 '', ascii ''HTTP/1.1 '',
      ascii ''HTTP/2 '']"

definition http_methods :: "bytes list" where
  "http_methods = [ascii ''GET'', ascii ''POST'', ascii ''PUT'', ascii ''DELETE'', ascii ''HEAD'',
     ascii ''OPTIONS'', ascii ''CONNECT'', ascii ''TRACE'', ascii ''PATCH'']"

definition is_http_method :: "bytes \<Rightarrow> bool" where
  "is_http_method s \<longleftrightarrow> s \<in> set http_methods"

definition parse_http_version :: "bytes \<Rightarrow> HttpVersion" where
  "parse_http_version s =
     (if s = ascii ''HTTP/1.0'' then Http10 else if s = ascii ''HTTP/1.1'' then Http11
      else if s = ascii ''HTTP/2'' then Http2 else Http11)"

text \<open>The header loop ends at an empty line; of two headers with one name the last one counts.\<close>

fun http_headers :: "bytes list \<Rightarrow> HttpInfo \<Rightarrow> HttpInfo" where
  "http_headers [] info = info"
| "http_headers (line # ls) info =
     (if line = [] then info
      else http_headers ls
        (case split_once colon line of
           None \<Rightarrow> info
         | Some (key, value) \<Rightarrow>
             if eq_ignore_ascii_case (trim key) (ascii ''host'') then info\<lparr>http_host := Some (trim value)\<rparr>
             else if eq_ignore_ascii_case (trim key) (ascii ''user-agent'')
             then info\<lparr>http_user_agent := Some (trim value)\<rparr> else info))"

definition http_first_line :: "bytes \<Rightarrow> HttpInfo \<Rightarrow> HttpInfo option" where
  "http_first_line first_line info =
     (case split_whitespace first_line of
        a # b # c # _ \<Rightarrow>
          if starts_with first_line (ascii ''HTTP/'')
          then Some (info\<lparr>http_version := parse_http_version a,
                          http_status_code := map_option word_of_nat (parse_uint 65536 b)\<rparr>)
          else if is_http_method a
          then Some (info\<lparr>http_method := Some a, http_path := Some b, http_version := parse_http_version c\<rparr>)
          else None
      | _ \<Rightarrow> None)"

definition analyze_http :: "bytes \<Rightarrow> HttpInfo option" where
  "analyze_http payload =
     (if \<not> is_likely_http payload then None
      else case lines (from_utf8_lossy payload) of
        [] \<Rightarrow> None
      | first_line # ls \<Rightarrow>
          map_option (http_headers ls)
            (http_first_line first_line \<lparr>http_version = Http11, http_method = None, http_host = None,
               http_path = None, http_status_code = None, http_user_agent = None\<rparr>))"

section \<open>SSDP\<close>

definition MIN_SSDP_SIZE :: nat where "MIN_SSDP_SIZE = 10"

text \<open>\<open>line.get(..3)\<close> is there when the third byte ends a character, which it does when the first
  three are ASCII.\<close>

definition service_of_line :: "bytes \<Rightarrow> bytes option" where
  "service_of_line line =
     (if 3 \<le> length line \<and> (eq_ignore_ascii_case (take 3 line) (ascii ''st:'')
           \<or> eq_ignore_ascii_case (take 3 line) (ascii ''nt:''))
      then (let trimmed = trim (drop 3 line) in if trimmed \<noteq> [] then Some trimmed else None)
      else None)"

fun service_type_of :: "bytes list \<Rightarrow> bytes option" where
  "service_type_of [] = None"
| "service_type_of (line # ls) = (case service_of_line line of Some s \<Rightarrow> Some s | None \<Rightarrow> service_type_of ls)"

definition ssdp_method_of :: "bytes \<Rightarrow> SsdpMethod option" where
  "ssdp_method_of first_line =
     (if starts_with first_line (ascii ''M-SEARCH'') then Some MSearch
      else if starts_with first_line (ascii ''NOTIFY'') then Some Notify
      else if starts_with first_line (ascii ''HTTP/1.1 200'') \<or> starts_with first_line (ascii ''HTTP/1.0 200'')
      then Some SsdpMethod.Response
      else None)"

definition analyze_ssdp :: "bytes \<Rightarrow> SsdpInfo option" where
  "analyze_ssdp payload =
     (if length payload < MIN_SSDP_SIZE then None
      else if \<not> list_all (\<lambda>b. b < 128) (take 20 payload) then None
      else do {
        text \<leftarrow> from_utf8 payload;
        case lines text of
          [] \<Rightarrow> None
        | first_line # ls \<Rightarrow>
            map_option (\<lambda>m. \<lparr>ssdp_method = m, ssdp_service_type = service_type_of ls\<rparr>) (ssdp_method_of first_line)
      })"

section \<open>FTP\<close>

definition MAX_SNIFF_BYTES :: nat where "MAX_SNIFF_BYTES = 1024"

definition FTP_COMMANDS :: "bytes list" where
  "FTP_COMMANDS = map ascii
     [''USER'', ''PASS'', ''ACCT'', ''CWD'', ''CDUP'', ''SMNT'', ''QUIT'', ''REIN'',
      ''PORT'', ''PASV'', ''TYPE'', ''STRU'', ''MODE'',
      ''RETR'', ''STOR'', ''STOU'', ''APPE'', ''ALLO'', ''REST'', ''RNFR'', ''RNTO'', ''ABOR'', ''DELE'', ''RMD'', ''MKD'',
      ''PWD'', ''LIST'', ''NLST'', ''SITE'', ''SYST'', ''STAT'', ''HELP'', ''NOOP'',
      ''FEAT'', ''OPTS'', ''EPSV'', ''EPRT'', ''AUTH'', ''PBSZ'', ''PROT'', ''CCC'',
      ''SIZE'', ''MDTM'', ''MLSD'', ''MLST'']"

definition first_line :: "bytes \<Rightarrow> bytes" where
  "first_line payload =
     (let sniff = take MAX_SNIFF_BYTES payload in
      case position ((=) newline) sniff of
        Some e \<Rightarrow> if e > 0 \<and> sniff ! (e - 1) = carriage_return then take (e - 1) sniff else take e sniff
      | None \<Rightarrow> sniff)"

definition first_token_upper :: "bytes \<Rightarrow> bytes" where
  "first_token_upper line =
     (let token = (case position (\<lambda>b. b = 32 \<or> b = 9 \<or> b = carriage_return) line of
                     Some i \<Rightarrow> take i line | None \<Rightarrow> line) in
      if token = [] \<or> length token > 6 \<or> \<not> list_all is_ascii_alphabetic token then []
      else map to_ascii_uppercase token)"

text \<open>Three digits, then a space or the continuation mark.\<close>

fun is_reply :: "bytes \<Rightarrow> bool" where
  "is_reply (a # b # c # d # rest) \<longleftrightarrow> is_ascii_digit a \<and> is_ascii_digit b \<and> is_ascii_digit c \<and> (d = 32 \<or> d = hyphen)"
| "is_reply _ \<longleftrightarrow> False"

definition is_ftp :: "bytes \<Rightarrow> bool" where
  "is_ftp payload =
     (let line = first_line payload in
      if line = [] then False
      else if is_reply line then True
      else first_token_upper line \<noteq> [] \<and> first_token_upper line \<in> set FTP_COMMANDS)"

fun software_token :: "bytes list \<Rightarrow> bytes \<Rightarrow> bytes" where
  "software_token [] message = message"
| "software_token (token # tokens) message =
     (let trimmed = trim_matches (Not \<circ> is_ascii_alphanumeric) token in
      if list_ex is_ascii_alphabetic trimmed then trimmed else software_token tokens message)"

definition extract_software_token :: "bytes \<Rightarrow> bytes" where
  "extract_software_token message = software_token (split_whitespace message) message"

definition ftp_reply :: "bytes \<Rightarrow> FtpInfo option" where
  "ftp_reply line = do {
     digits \<leftarrow> from_utf8 (take 3 line);
     code \<leftarrow> parse_uint 65536 digits;
     let is_continuation = (line ! 3 = hyphen);
     let message = map_option trim (from_utf8 (drop 4 line));
     Some \<lparr>ftp_message_type = FtpMessageType.Response, ftp_command = None, ftp_args = None,
           ftp_response_code = Some (word_of_nat code), ftp_response_message = message, ftp_username = None,
           ftp_server_software = (if code = 220 \<and> \<not> is_continuation then map_option extract_software_token message else None),
           ftp_system_type = (if code = 215 \<and> \<not> is_continuation then map_option extract_software_token message else None)\<rparr>
   }"

definition ftp_request :: "bytes \<Rightarrow> FtpInfo option" where
  "ftp_request line =
     (let upper = first_token_upper line in
      if upper = [] then None
      else if upper \<notin> set FTP_COMMANDS then None
      else do {
        command \<leftarrow> from_utf8 upper;
        let args = Option.bind (map_option trim (from_utf8 line)) (\<lambda>s.
              Option.bind (split_once_whitespace s) (\<lambda>(_, rest). if trim rest \<noteq> [] then Some (trim rest) else None));
        Some \<lparr>ftp_message_type = FtpMessageType.Request, ftp_command = Some command, ftp_args = args,
              ftp_response_code = None, ftp_response_message = None,
              ftp_username = (if command = ascii ''USER'' then args else None),
              ftp_server_software = None, ftp_system_type = None\<rparr>
      })"

definition analyze_ftp :: "bytes \<Rightarrow> FtpInfo option" where
  "analyze_ftp payload =
     (let line = first_line payload in
      if line = [] then None else if is_reply line then ftp_reply line else ftp_request line)"

section \<open>SSH\<close>

definition is_valid_ssh_packet_at_offset :: "bytes \<Rightarrow> nat \<Rightarrow> bool option" where
  "is_valid_ssh_packet_at_offset payload offset =
     (if length payload < offset + 6 then Some False
      else do {
        packet_length \<leftarrow> be32_at payload offset;
        padding \<leftarrow> byte_at payload (offset + 4);
        msg_type \<leftarrow> byte_at payload (offset + 5);
        let padding_length = (ucast padding :: u32);
        if \<not> (8 \<le> packet_length \<and> packet_length \<le> 35000) then Some False
        else if padding_length < 4 then Some False
        else if packet_length \<le> padding_length + 1 then Some False
        else Some (1 \<le> msg_type \<and> msg_type \<le> 4 \<or> 20 \<le> msg_type \<and> msg_type \<le> 21
                   \<or> 50 \<le> msg_type \<and> msg_type \<le> 52 \<or> msg_type = 80 \<or> 90 \<le> msg_type \<and> msg_type \<le> 100)
      })"

definition is_ssh_packet_structure :: "bytes \<Rightarrow> bool option" where
  "is_ssh_packet_structure payload =
     (if length payload < 6 then Some False else is_valid_ssh_packet_at_offset payload 0)"

definition is_likely_ssh :: "bytes \<Rightarrow> bool option" where
  "is_likely_ssh payload =
     (if length payload < 4 then Some False
      else if starts_with payload (ascii ''SSH-1.'') \<or> starts_with payload (ascii ''SSH-2.'') then Some True
      else is_ssh_packet_structure payload)"

text \<open>\<open>splitn(3, '-')\<close> of a line that starts with \<open>SSH-\<close>.\<close>

definition parse_ssh_banner :: "bytes \<Rightarrow> (SshVersion \<times> bytes) option" where
  "parse_ssh_banner line =
     (if \<not> starts_with line (ascii ''SSH-'') then None
      else case split_once hyphen line of
        None \<Rightarrow> None
      | Some (_, rest) \<Rightarrow>
          let (v, software) = (case split_once hyphen rest of
                 Some (v, s) \<Rightarrow> (v, trim s) | None \<Rightarrow> (rest, ascii ''Unknown''))
          in Some (if v = ascii ''1.99'' \<or> v = ascii ''2.0'' then Ssh_V2
                   else if starts_with v (ascii ''1.'') then Ssh_V1 else Ssh_V2, software))"

fun ssh_banners :: "bool \<Rightarrow> bytes list \<Rightarrow> SshInfo \<Rightarrow> SshInfo" where
  "ssh_banners outgoing [] info = info"
| "ssh_banners outgoing (line # ls) info =
     ssh_banners outgoing ls
       (case parse_ssh_banner line of
          None \<Rightarrow> info
        | Some (version, software) \<Rightarrow>
            if outgoing then
              if client_software info = None
              then info\<lparr>client_software := Some software, ssh_version := Some version\<rparr> else info
            else
              if server_software info = None
              then info\<lparr>server_software := Some software, ssh_version := Some version\<rparr> else info)"

definition state_of_message :: "u8 \<Rightarrow> SshConnectionState option" where
  "state_of_message m =
     (if m = 20 \<or> m = 21 then Some KeyExchange
      else if m = 50 \<or> m = 51 then Some Authentication
      else if m = 52 \<or> 90 \<le> m \<and> m \<le> 127 then Some SshConnectionState.Established
      else None)"

definition packet_state_at :: "bytes \<Rightarrow> nat \<Rightarrow> SshConnectionState option option" where
  "packet_state_at payload i =
     (if i + 6 \<le> length payload then do {
        valid \<leftarrow> is_valid_ssh_packet_at_offset payload i;
        if valid then map_option state_of_message (byte_at payload (i + 5)) else Some None
      }
      else Some None)"

definition common_algos :: "bytes list" where
  "common_algos = map ascii
     [''diffie-hellman-group14-sha256'', ''ecdh-sha2-nistp256'', ''aes128-ctr'', ''aes256-ctr'', ''aes128-gcm'',
      ''aes256-gcm'', ''ssh-rsa'', ''ssh-ed25519'', ''ecdsa-sha2-nistp256'', ''hmac-sha2-256'', ''hmac-sha2-512'']"

definition parse_kexinit_algorithms :: "bytes \<Rightarrow> bytes list option" where
  "parse_kexinit_algorithms payload =
     (let found = filter (contains_str (from_utf8_lossy payload)) common_algos
      in if found = [] then None else Some found)"

definition analyze_ssh :: "bytes \<Rightarrow> bool \<Rightarrow> SshInfo option option" where
  "analyze_ssh payload outgoing = do {
     likely \<leftarrow> is_likely_ssh payload;
     if \<not> likely then Some None
     else do {
       let info = ssh_banners outgoing (lines (from_utf8_lossy payload))
             \<lparr>ssh_version = None, client_software = None, server_software = None, ssh_state = Banner,
              algorithms = [], auth_method = None\<rparr>;
       found \<leftarrow> first_hit (packet_state_at payload) [0..<length payload - 6];
       let info = (case found of Some st \<Rightarrow> info\<lparr>ssh_state := st\<rparr>
                   | None \<Rightarrow> if server_software info \<noteq> None \<or> client_software info \<noteq> None
                            then info\<lparr>ssh_state := Banner\<rparr> else info);
       Some (Some (case parse_kexinit_algorithms payload of
                     Some found \<Rightarrow> info\<lparr>algorithms := found\<rparr> | None \<Rightarrow> info))
     }
   }"

section \<open>No panic\<close>

lemma is_valid_ssh_np [no_panic]: "returns (is_valid_ssh_packet_at_offset payload offset)"
  unfolding is_valid_ssh_packet_at_offset_def by (intro no_panic) auto

lemma is_likely_ssh_np [no_panic]: "returns (is_likely_ssh payload)"
  unfolding is_likely_ssh_def is_ssh_packet_structure_def by (intro no_panic)

lemma packet_state_np [no_panic]: "returns (packet_state_at payload i)"
  unfolding packet_state_at_def by (intro no_panic) auto

lemma analyze_ssh_np [no_panic]: "returns (analyze_ssh payload outgoing)"
  unfolding analyze_ssh_def by (intro no_panic)

text \<open>A reply line has its first four bytes.\<close>

lemma is_reply_length: "is_reply line \<Longrightarrow> 4 \<le> length line"
  by (induction line rule: is_reply.induct) simp_all

end
