(* ===== verification/DpiTcp.thy ===== *)
theory DpiTcp
  imports RustText
begin

text \<open>
  Inspection of MQTT (\<^verbatim>\<open>dpi/mqtt.rs\<close>) and BitTorrent (\<^verbatim>\<open>bittorrent.rs\<close>, over TCP
  and UDP). The outer \<open>None\<close> is a panic.
\<close>

unbundle bit_operations_syntax

section \<open>MQTT\<close>

text \<open>The loop over at most four bytes: value and multiplier so far.\<close>

fun remaining_length_from :: "bytes \<Rightarrow> nat \<Rightarrow> nat list \<Rightarrow> nat \<Rightarrow> nat \<Rightarrow> (nat \<times> nat) option option" where
  "remaining_length_from payload offset [] value multiplier = Some None"
| "remaining_length_from payload offset (i # is) value multiplier =
     (if length payload \<le> offset + i then Some None
      else do {
        byte \<leftarrow> byte_at payload (offset + i);
        let value = value + unat (byte AND 0x7F) * multiplier;
        if byte AND 0x80 = 0 then Some (Some (value, i + 1))
        else remaining_length_from payload offset is value (multiplier * 128)
      })"

definition decode_remaining_length :: "bytes \<Rightarrow> nat \<Rightarrow> (nat \<times> nat) option option" where
  "decode_remaining_length payload offset = remaining_length_from payload offset [0..<4] 0 1"

definition has_mqtt_protocol_name :: "bytes \<Rightarrow> bool option" where
  "has_mqtt_protocol_name payload =
     (if length payload < 8 then Some False
      else do {
        decoded \<leftarrow> decode_remaining_length payload 1;
        let header_len = (case decoded of Some (_, n) \<Rightarrow> n | None \<Rightarrow> 1);
        let var_start = 1 + header_len;
        if var_start + 2 > length payload then Some False
        else do {
          name_len \<leftarrow> be16_at payload var_start;
          let name_start = var_start + 2;
          let name_end = name_start + name_len;
          if name_end > length payload then Some False
          else do {
            name \<leftarrow> sub_slice name_start name_end payload;
            Some (name = ascii ''MQTT'' \<or> name = ascii ''MQIsdp'')
          }
        }
      })"

definition is_mqtt_packet :: "bytes \<Rightarrow> bool option" where
  "is_mqtt_packet payload =
     (if length payload < 2 then Some False
      else do {
        first \<leftarrow> byte_at payload 0;
        let ptype = drop_bit 4 first;
        let flag_bits = first AND 0x0F;
        if \<not> (1 \<le> ptype \<and> ptype \<le> 14) then Some False
        else if ptype \<noteq> 3 \<and> ptype \<noteq> 5
              \<and> flag_bits \<noteq> (if ptype = 8 \<or> ptype = 10 then 0x02 else 0x00) then Some False
        else do {
          decoded \<leftarrow> decode_remaining_length payload 1;
          case decoded of
            None \<Rightarrow> Some False
          | Some (remaining_len, header_bytes) \<Rightarrow>
              if 1 + header_bytes + remaining_len > length payload + 4 then Some False
              else if ptype = 1 then has_mqtt_protocol_name payload else Some False
        }
      })"

definition skip_mqtt5_properties :: "bytes \<Rightarrow> nat \<Rightarrow> nat option" where
  "skip_mqtt5_properties payload offset =
     map_option (\<lambda>r. case r of Some (prop_len, consumed) \<Rightarrow> offset + consumed + prop_len | None \<Rightarrow> offset)
       (decode_remaining_length payload offset)"

text \<open>A length-prefixed string that is there and is valid UTF-8 and not empty.\<close>

definition mqtt_string :: "bytes \<Rightarrow> nat \<Rightarrow> bytes option option" where
  "mqtt_string payload start =
     (if start + 2 > length payload then Some None
      else do {
        len \<leftarrow> be16_at payload start;
        if start + 2 + len > length payload then Some None
        else do {
          raw \<leftarrow> sub_slice (start + 2) (start + 2 + len) payload;
          Some (case from_utf8 raw of Some s \<Rightarrow> if s \<noteq> [] then Some s else None | None \<Rightarrow> None)
        }
      })"

definition parse_connect :: "bytes \<Rightarrow> nat \<Rightarrow> MqttInfo \<Rightarrow> MqttInfo option" where
  "parse_connect payload var_start info =
     (if var_start + 2 > length payload then Some info
      else do {
        name_len \<leftarrow> be16_at payload var_start;
        let after_name = var_start + 2 + name_len;
        if length payload \<le> after_name then Some info
        else do {
          level \<leftarrow> byte_at payload after_name;
          let info = info\<lparr>mqtt_version :=
                (if level = 3 then Some V31 else if level = 4 then Some V311 else if level = 5 then Some V50 else None)\<rparr>;
          payload_start \<leftarrow> (if level = 5 then skip_mqtt5_properties payload (after_name + 4) else Some (after_name + 4));
          client_id \<leftarrow> mqtt_string payload payload_start;
          Some (case client_id of Some s \<Rightarrow> info\<lparr>mqtt_client_id := Some s\<rparr> | None \<Rightarrow> info)
        }
      })"

definition parse_publish_topic :: "bytes \<Rightarrow> nat \<Rightarrow> MqttInfo \<Rightarrow> MqttInfo option" where
  "parse_publish_topic payload var_start info = do {
     topic \<leftarrow> mqtt_string payload var_start;
     Some (case topic of Some s \<Rightarrow> info\<lparr>mqtt_topic := Some s\<rparr> | None \<Rightarrow> info)
   }"

definition mqtt_type_of :: "u8 \<Rightarrow> MqttPacketType option" where
  "mqtt_type_of t =
     (if t = 1 then Some Connect else if t = 2 then Some Connack else if t = 3 then Some Publish
      else if t = 4 then Some Puback else if t = 8 then Some Subscribe else if t = 9 then Some Suback
      else if t = 10 then Some Unsubscribe else if t = 11 then Some Unsuback else if t = 12 then Some Pingreq
      else if t = 13 then Some Pingresp else if t = 14 then Some Disconnect else None)"

definition analyze_mqtt :: "bytes \<Rightarrow> MqttInfo option option" where
  "analyze_mqtt payload =
     (if length payload < 2 then Some None
      else do {
        first \<leftarrow> byte_at payload 0;
        let type_byte = drop_bit 4 first;
        let flag_bits = first AND 0x0F;
        try_opt (decode_remaining_length payload 1) (\<lambda>(remaining_len, header_len).
          case mqtt_type_of type_byte of
            None \<Rightarrow> Some None
          | Some ptype \<Rightarrow> do {
              let var_start = 1 + header_len;
              available \<leftarrow> sub_slice 0 (min (length payload) (var_start + remaining_len)) payload;
              let info = \<lparr>mqtt_version = None, mqtt_packet_type = ptype, mqtt_client_id = None,
                          mqtt_topic = None, mqtt_qos = None\<rparr>;
              map_option Some
                (if ptype = Connect then parse_connect available var_start info
                 else if ptype = Publish
                 then parse_publish_topic available var_start (info\<lparr>mqtt_qos := Some (drop_bit 1 flag_bits AND 0x03)\<rparr>)
                 else if ptype = Subscribe then Some (info\<lparr>mqtt_qos := Some 1\<rparr>)
                 else Some info)
            })
      })"

section \<open>BitTorrent\<close>

definition BT_HANDSHAKE_PREFIX :: bytes where "BT_HANDSHAKE_PREFIX = 19 # ascii ''BitTorrent protocol''"
definition BT_HANDSHAKE_LEN :: nat where "BT_HANDSHAKE_LEN = 68"
definition UTP_HEADER_LEN :: nat where "UTP_HEADER_LEN = 20"
definition MAX_DHT_METHOD_LEN :: nat where "MAX_DHT_METHOD_LEN = 64"

definition is_bittorrent_handshake :: "bytes \<Rightarrow> bool" where
  "is_bittorrent_handshake payload = starts_with payload BT_HANDSHAKE_PREFIX"

definition hex_encode :: "bytes \<Rightarrow> bytes" where
  "hex_encode bs = concat (map hex2 bs)"

definition format_version :: "bytes \<Rightarrow> bytes" where
  "format_version bs = join [dot] (map (\<lambda>b. [b]) (filter is_ascii_alphanumeric bs))"

definition client_names :: "(bytes \<times> bytes) list" where
  "client_names = map (\<lambda>(a, b). (ascii a, ascii b))
     [(''qB'', ''qBittorrent''), (''TR'', ''Transmission''), (''DE'', ''Deluge''), (''UT'', ''uTorrent''),
      (''lt'', ''libtorrent''), (''LT'', ''libtorrent''), (''AZ'', ''Azureus''), (''BT'', ''BitTorrent''),
      (''BI'', ''BiglyBT''), (''FD'', ''Free Download Manager''), (''KT'', ''KTorrent''), (''RB'', ''rtorrent''),
      (''WW'', ''WebTorrent''), (''FL'', ''Flud''), (''SD'', ''Xunlei''), (''TL'', ''Tribler'')]"

definition shadow_name :: "u8 \<Rightarrow> bytes option" where
  "shadow_name c =
     (if c = 77 then Some (ascii ''Mainline'') else if c = 83 then Some (ascii ''Shadow'')
      else if c = 84 then Some (ascii ''BitTornado'') else if c = 65 then Some (ascii ''ABC'') else None)"

definition decode_client_name :: "bytes \<Rightarrow> bytes option option" where
  "decode_client_name peer_id = do {
     azureus \<leftarrow> (if length peer_id \<ge> 8 then do {
                   a \<leftarrow> byte_at peer_id 0; b \<leftarrow> byte_at peer_id 7; Some (a = hyphen \<and> b = hyphen)
                 }
                 else Some False);
     if azureus then do {
       id_bytes \<leftarrow> sub_slice 1 3 peer_id;
       version_bytes \<leftarrow> sub_slice 3 7 peer_id;
       Some (map_option (\<lambda>client_id.
               (case map_of client_names client_id of Some n \<Rightarrow> n | None \<Rightarrow> client_id) @ 32 # format_version version_bytes)
             (from_utf8 id_bytes))
     }
     else do {
       c \<leftarrow> byte_at peer_id 0;
       Some (if is_ascii_alphanumeric c then shadow_name c else None)
     }
   }"

definition analyze_bittorrent :: "bytes \<Rightarrow> BitTorrentInfo option option" where
  "analyze_bittorrent payload =
     (if \<not> is_bittorrent_handshake payload then Some None
      else do {
        reserved \<leftarrow> (if length payload \<ge> 28 then map_option Some (sub_slice 20 28 payload) else Some None);
        let bit = (\<lambda>i mask. case reserved of
                     Some r \<Rightarrow> map_option (\<lambda>b. b AND mask \<noteq> 0) (byte_at r i) | None \<Rightarrow> Some False);
        dht \<leftarrow> bit 7 0x01;
        fast \<leftarrow> bit 7 0x04;
        extension \<leftarrow> bit 5 0x10;
        hash \<leftarrow> (if length payload \<ge> 48 then map_option (Some \<circ> hex_encode) (sub_slice 28 48 payload) else Some None);
        client \<leftarrow> (if length payload \<ge> BT_HANDSHAKE_LEN
                   then do { peer_id \<leftarrow> sub_slice 48 68 payload; decode_client_name peer_id } else Some None);
        Some (Some \<lparr>bt_type = Peer, info_hash = hash, bt_client = client, dht_method = None,
                    supports_dht = dht, supports_extension = extension, supports_fast = fast\<rparr>)
      })"

text \<open>\<open>windows(needle.len()).position(...)\<close> for a needle that is not empty.\<close>

fun find_subsequence :: "bytes \<Rightarrow> bytes \<Rightarrow> nat option" where
  "find_subsequence [] needle = None"
| "find_subsequence (x # xs) needle =
     (if length (x # xs) < length needle then None
      else if starts_with (x # xs) needle then Some 0 else map_option Suc (find_subsequence xs needle))"

definition extract_dht_method :: "bytes \<Rightarrow> bytes option option" where
  "extract_dht_method payload =
     (case find_subsequence payload (ascii ''1:q'') of
        None \<Rightarrow> Some None
      | Some pos \<Rightarrow>
          let after = pos + 3 in
          if length payload \<le> after then Some None
          else do {
            let len_end = after + length (takeWhile is_ascii_digit (drop after payload));
            if len_end = after \<or> length payload \<le> len_end then Some None
            else do {
              c \<leftarrow> byte_at payload len_end;
              if c \<noteq> colon then Some None
              else do {
                len_bytes \<leftarrow> sub_slice after len_end payload;
                case Option.bind (from_utf8 len_bytes) (parse_uint (2 ^ 64)) of
                  None \<Rightarrow> Some None
                | Some str_len \<Rightarrow>
                    if str_len > MAX_DHT_METHOD_LEN then Some None
                    else if len_end + 1 + str_len > length payload then Some None
                    else map_option from_utf8 (sub_slice (len_end + 1) (len_end + 1 + str_len) payload)
              }
            }
          })"

definition udp_torrent :: "BitTorrentType \<Rightarrow> bytes option \<Rightarrow> BitTorrentInfo" where
  "udp_torrent ty meth = \<lparr>bt_type = ty, info_hash = None, bt_client = None, dht_method = meth,
     supports_dht = False, supports_extension = False, supports_fast = False\<rparr>"

definition analyze_dht :: "bytes \<Rightarrow> BitTorrentInfo option option" where
  "analyze_dht payload =
     (if length payload < 10 then Some None
      else do {
        first \<leftarrow> byte_at payload 0;
        final \<leftarrow> byte_at payload (length payload - 1);
        if first \<noteq> 100 \<or> final \<noteq> 101 then Some None
        else case find_subsequence payload (ascii ''1:y1:'') of
          None \<Rightarrow> Some None
        | Some pos \<Rightarrow>
            if pos + 6 > length payload then Some None
            else do {
              c \<leftarrow> byte_at payload (pos + 5);
              if c = 113 then map_option (Some \<circ> udp_torrent Dht) (extract_dht_method payload)
              else if c = 114 then Some (Some (udp_torrent Dht (Some (ascii ''response''))))
              else if c = 101 then Some (Some (udp_torrent Dht (Some (ascii ''error''))))
              else Some None
            }
      })"

definition analyze_utp :: "bytes \<Rightarrow> BitTorrentInfo option option" where
  "analyze_utp payload =
     (if length payload < UTP_HEADER_LEN then Some None
      else do {
        first_byte \<leftarrow> byte_at payload 0;
        extension \<leftarrow> byte_at payload 1;
        let version = first_byte AND 0x0F;
        let pkt_type = drop_bit 4 first_byte AND 0x0F;
        if version \<noteq> 1 then Some None
        else if pkt_type > 4 then Some None
        else if extension > 2 then Some None
        else do {
          wnd_size \<leftarrow> be32_at payload 12;
          if pkt_type \<noteq> 3 \<and> wnd_size = 0 then Some None else Some (Some (udp_torrent Utp None))
        }
      })"

definition analyze_udp_bittorrent :: "bytes \<Rightarrow> BitTorrentInfo option option" where
  "analyze_udp_bittorrent payload = do {
     r \<leftarrow> analyze_dht payload;
     case r of Some info \<Rightarrow> Some (Some info) | None \<Rightarrow> analyze_utp payload
   }"

section \<open>No panic\<close>

lemma remaining_length_np [no_panic]: "returns (remaining_length_from payload offset is v multiplier)"
  by (induction payload offset "is" v multiplier rule: remaining_length_from.induct) (auto simp: Let_def intro!: no_panic)

lemma decode_remaining_np [no_panic]: "returns (decode_remaining_length payload offset)"
  unfolding decode_remaining_length_def by (intro no_panic)

lemma mqtt_string_np [no_panic]: "returns (mqtt_string payload start)"
  unfolding mqtt_string_def by (intro no_panic) auto

lemma is_mqtt_np [no_panic]: "returns (has_mqtt_protocol_name payload)" "returns (is_mqtt_packet payload)"
proof -
  show h: "returns (has_mqtt_protocol_name payload)"
    unfolding has_mqtt_protocol_name_def by (intro no_panic) auto
  show "returns (is_mqtt_packet payload)"
    unfolding is_mqtt_packet_def by (auto intro!: no_panic h split: prod.split)
qed

lemma parse_connect_np [no_panic]: "returns (parse_connect payload var_start info)"
  "returns (parse_publish_topic payload var_start info)"
  unfolding parse_connect_def parse_publish_topic_def skip_mqtt5_properties_def by (intro no_panic; simp)+

lemma analyze_mqtt_np [no_panic]: "returns (analyze_mqtt payload)"
  unfolding analyze_mqtt_def by (auto intro!: no_panic split: option.split)

lemma decode_client_np [no_panic]: "peer_id \<noteq> [] \<Longrightarrow> returns (decode_client_name peer_id)"
  unfolding decode_client_name_def by (intro no_panic) (auto split: if_splits)

lemma analyze_bittorrent_np [no_panic]: "returns (analyze_bittorrent payload)"
  unfolding analyze_bittorrent_def BT_HANDSHAKE_LEN_def by (intro no_panic) (auto intro!: no_panic split: if_splits)

lemma find_subsequence_bound: "find_subsequence xs needle = Some i \<Longrightarrow> i + length needle \<le> length xs"
proof (induction xs needle arbitrary: i rule: find_subsequence.induct)
  case (2 x xs needle)
  then show ?case by (auto split: if_splits)
qed simp

lemma extract_dht_method_np [no_panic]: "returns (extract_dht_method payload)"
  unfolding extract_dht_method_def by (intro no_panic) auto

lemma analyze_udp_bittorrent_np [no_panic]: "returns (analyze_udp_bittorrent payload)"
  unfolding analyze_udp_bittorrent_def analyze_dht_def analyze_utp_def UTP_HEADER_LEN_def
  by (intro no_panic) auto

end
