(* ===== verification/CryptoReassembly.thy ===== *)
theory CryptoReassembly
  imports NetTypes
begin

text \<open>
  \<^verbatim>\<open>CryptoFrameReassembler\<close> of \<^verbatim>\<open>types.rs\<close>: the per-connection buffer in which the fragments of
  a QUIC handshake stream are collected. \<open>content\<close> is its specification: the bytes of the
  stream received so far, by stream offset. Offsets are \<open>u64\<close> in the source and natural numbers
  here; QUIC's variable-length integers are below $2^{62}$ and the buffer holds 64 KiB, so no
  sum of an offset and a length reaches $2^{64}$.
\<close>

section \<open>Operations\<close>

definition reassembler_new :: "instant \<Rightarrow> CryptoFrameReassembler" where
  "reassembler_new now = \<lparr>fragments = [], contiguous_offset = 0, has_complete_tls_info = False,
     cached_tls_info = None, max_buffer_size = 64 * 1024, current_buffer_size = 0,
     last_update = now\<rparr>"

text \<open>\<open>BTreeMap::insert\<close> on the ordered entries; an equal key has its value replaced.\<close>

fun btree_insert :: "nat \<Rightarrow> 'v \<Rightarrow> (nat \<times> 'v) list \<Rightarrow> (nat \<times> 'v) list" where
  "btree_insert k v [] = [(k, v)]"
| "btree_insert k v ((k', v') # es) =
     (if k < k' then (k, v) # (k', v') # es
      else if k = k' then (k, v) # es
      else (k', v') # btree_insert k v es)"

text \<open>The loop of \<open>add_fragment\<close> that returns early on a duplicate or an overlap.\<close>

fun already_buffered :: "nat \<Rightarrow> nat \<Rightarrow> (nat \<times> bytes) list \<Rightarrow> bool" where
  "already_buffered offset data_end [] = False"
| "already_buffered offset data_end ((frag_offset, frag_data) # es) =
     (let frag_end = frag_offset + length frag_data in
      if offset = frag_offset \<and> data_end = frag_end then True
      else if offset < frag_end \<and> data_end > frag_offset then True
      else already_buffered offset data_end es)"

fun advance :: "nat \<Rightarrow> (nat \<times> bytes) list \<Rightarrow> nat" where
  "advance current [] = current"
| "advance current ((offset, data) # es) =
     (if offset \<le> current then
        advance (if offset + length data > current then offset + length data else current) es
      else current)"

definition update_contiguous_offset :: "CryptoFrameReassembler \<Rightarrow> CryptoFrameReassembler" where
  "update_contiguous_offset r =
     r\<lparr>contiguous_offset := advance (contiguous_offset r) (fragments r)\<rparr>"

definition add_fragment ::
  "instant \<Rightarrow> nat \<Rightarrow> bytes \<Rightarrow> CryptoFrameReassembler \<Rightarrow> (string + unit) \<times> CryptoFrameReassembler" where
  "add_fragment now offset data r =
     (if current_buffer_size r + length data > max_buffer_size r
      then (Inl ''Fragment would exceed maximum buffer size'', r)
      else
        let r = r\<lparr>last_update := now\<rparr> in
        if already_buffered offset (offset + length data) (fragments r) then (Inr (), r)
        else (Inr (), update_contiguous_offset
               (r\<lparr>current_buffer_size := current_buffer_size r + length data,
                  fragments := btree_insert offset data (fragments r)\<rparr>)))"

fun collect :: "nat \<Rightarrow> nat \<Rightarrow> bytes \<Rightarrow> (nat \<times> bytes) list \<Rightarrow> bytes" where
  "collect contiguous current result [] = result"
| "collect contiguous current result ((offset, data) # es) =
     (let (current', result') =
        (if offset \<le> current \<and> current - offset < length data
         then (offset + length data, result @ drop (current - offset) data)
         else (current, result)) in
      if current' \<ge> contiguous then result' else collect contiguous current' result' es)"

definition get_contiguous_data :: "CryptoFrameReassembler \<Rightarrow> bytes option" where
  "get_contiguous_data r =
     (if contiguous_offset r = 0 then None
      else let result = collect (contiguous_offset r) 0 [] (fragments r) in
           if result = [] then None else Some result)"

definition set_complete_tls_info :: "TlsInfo \<Rightarrow> CryptoFrameReassembler \<Rightarrow> CryptoFrameReassembler" where
  "set_complete_tls_info tls r = r\<lparr>has_complete_tls_info := True, cached_tls_info := Some tls\<rparr>"

definition get_cached_tls_info :: "CryptoFrameReassembler \<Rightarrow> TlsInfo option" where
  "get_cached_tls_info r = (if has_complete_tls_info r then cached_tls_info r else None)"

text \<open>A sequence of fragments handed to one buffer, as they arrive.\<close>

fun add_fragments ::
  "(instant \<times> nat \<times> bytes) list \<Rightarrow> CryptoFrameReassembler \<Rightarrow> CryptoFrameReassembler" where
  "add_fragments [] r = r"
| "add_fragments ((now, offset, data) # fs) r = add_fragments fs (snd (add_fragment now offset data r))"

section \<open>The received part of the stream\<close>

definition piece :: "nat \<Rightarrow> bytes \<Rightarrow> nat \<Rightarrow> u8 option" where
  "piece offset data i =
     (if offset \<le> i \<and> i < offset + length data then Some (data ! (i - offset)) else None)"

fun content :: "(nat \<times> bytes) list \<Rightarrow> nat \<Rightarrow> u8 option" where
  "content [] i = None"
| "content ((offset, data) # es) i =
     (case piece offset data i of None \<Rightarrow> content es i | Some b \<Rightarrow> Some b)"

definition received :: "CryptoFrameReassembler \<Rightarrow> nat \<Rightarrow> u8 option" where
  "received r = content (fragments r)"

text \<open>Entries in order, non-empty and disjoint.\<close>

fun frags_ok :: "(nat \<times> bytes) list \<Rightarrow> bool" where
  "frags_ok [] = True"
| "frags_ok ((offset, data) # es) =
     (data \<noteq> [] \<and> (\<forall>e \<in> set es. offset + length data \<le> fst e) \<and> frags_ok es)"

definition first_gap :: "(nat \<Rightarrow> u8 option) \<Rightarrow> nat \<Rightarrow> bool" where
  "first_gap m n \<longleftrightarrow> (\<forall>i < n. m i \<noteq> None) \<and> m n = None"

definition reassembler_ok :: "CryptoFrameReassembler \<Rightarrow> bool" where
  "reassembler_ok r \<longleftrightarrow> frags_ok (fragments r)
     \<and> current_buffer_size r = sum_list (map (length \<circ> snd) (fragments r))
     \<and> current_buffer_size r \<le> max_buffer_size r
     \<and> first_gap (received r) (contiguous_offset r)"

named_theorems reassembly "the received part of the stream under insertion"

lemma piece_None [reassembly]: "piece off d i = None \<longleftrightarrow> i < off \<or> off + length d \<le> i"
  by (auto simp: piece_def)

lemma piece_Some [reassembly]:
  "piece off d i = Some b \<longleftrightarrow> off \<le> i \<and> i < off + length d \<and> d ! (i - off) = b"
  by (auto simp: piece_def)

lemma content_None: "content es i = None \<longleftrightarrow> (\<forall>(off, d) \<in> set es. piece off d i = None)"
  by (induction es) (auto split: option.splits)

lemma already_buffered_iff:
  "already_buffered off de es \<longleftrightarrow>
     (\<exists>(fo, fd) \<in> set es. off = fo \<and> de = fo + length fd \<or> off < fo + length fd \<and> fo < de)"
  by (induction es) (auto simp: Let_def)

lemma set_btree_insert:
  "set (btree_insert k v es) \<subseteq> insert (k, v) (set es)"
  "(\<forall>e \<in> set es. fst e \<noteq> k) \<Longrightarrow> set (btree_insert k v es) = insert (k, v) (set es)"
  by (induction es) (auto split: if_splits)

text \<open>A fragment that hits none of the buffered ones is disjoint from each of them.\<close>

lemma disjoint_fragment:
  assumes "\<not> already_buffered off (off + length d) es" and "d \<noteq> []" and "(fo, fd) \<in> set es"
    and "fd \<noteq> []"
  shows "off + length d \<le> fo \<or> fo + length fd \<le> off"
  using assms by (force simp: already_buffered_iff)

lemma frags_ok_nonempty: "frags_ok es \<Longrightarrow> (fo, fd) \<in> set es \<Longrightarrow> fd \<noteq> []"
  by (induction es) auto

lemma frags_ok_insert:
  assumes "frags_ok es" and "d \<noteq> []" and "\<not> already_buffered off (off + length d) es"
  shows "frags_ok (btree_insert off d es)"
  using assms
proof (induction es)
  case (Cons e es)
  obtain fo fd where e: "e = (fo, fd)" by (cases e)
  have disj: "off + length d \<le> fo \<or> fo + length fd \<le> off"
    using disjoint_fragment [OF Cons.prems(3,2)] Cons.prems(1) e by auto
  have rest: "\<not> already_buffered off (off + length d) es"
    using Cons.prems(3) e by (auto simp: Let_def split: if_splits)
  show ?case
  proof (cases "off < fo")
    case True
    then have "off + length d \<le> fo" using disj by linarith
    then show ?thesis using Cons.prems e True by (auto intro: le_trans)
  next
    case False
    then have le: "fo + length fd \<le> off"
      using disj Cons.prems(1,2) e by (cases d) auto
    then have "fo < off" using Cons.prems(1) e by (cases fd) auto
    then show ?thesis
      using Cons.IH Cons.prems e le rest set_btree_insert(1) [of off d es] by auto
  qed
qed simp

lemma content_insert [reassembly]:
  assumes "frags_ok es" and "d \<noteq> []" and "\<not> already_buffered off (off + length d) es"
  shows "content (btree_insert off d es) i =
           (case piece off d i of None \<Rightarrow> content es i | Some b \<Rightarrow> Some b)"
  using assms
proof (induction es)
  case (Cons e es)
  obtain fo fd where e: "e = (fo, fd)" by (cases e)
  have disj: "off + length d \<le> fo \<or> fo + length fd \<le> off"
    using disjoint_fragment [OF Cons.prems(3,2)] Cons.prems(1) e by auto
  have rest: "\<not> already_buffered off (off + length d) es"
    using Cons.prems(3) e by (auto simp: Let_def split: if_splits)
  have "off \<noteq> fo" using disj Cons.prems(1,2) e by (cases d; cases fd) auto
  then show ?case
    using Cons.IH [OF _ Cons.prems(2) rest] Cons.prems(1) e disj
    by (auto simp: piece_def split: option.splits)
qed simp

lemma advance_ge: "c \<le> advance c es"
  by (induction c es rule: advance.induct) auto

lemma advance_covers:
  "frags_ok es \<Longrightarrow> c \<le> i \<Longrightarrow> i < advance c es \<Longrightarrow> content es i \<noteq> None"
proof (induction c es rule: advance.induct)
  case (2 c off d es)
  let ?c = "if off + length d > c then off + length d else c"
  show ?case
  proof (cases "i < ?c")
    case True
    then show ?thesis using 2 by (auto simp: piece_def split: if_splits)
  next
    case False
    then have "content es i \<noteq> None" using 2 by (auto split: if_splits)
    then show ?thesis by (auto split: option.splits)
  qed
qed simp

lemma advance_gap: "frags_ok es \<Longrightarrow> content es (advance c es) = None"
proof (induction c es rule: advance.induct)
  case (2 c off d es)
  let ?c = "if off + length d > c then off + length d else c"
  show ?case
  proof (cases "off \<le> c")
    case True
    then have "content es (advance ?c es) = None" using 2 by simp
    moreover have "off + length d \<le> advance ?c es" using advance_ge [of ?c es] by (auto split: if_splits)
    ultimately show ?thesis using True by (simp add: piece_def)
  next
    case False
    then have "content es c = None"
      using 2(2) by (fastforce simp: content_None piece_None)
    then show ?thesis using False by (simp add: piece_def)
  qed
qed simp

lemma first_gap_unique: "first_gap m n \<Longrightarrow> first_gap m n' \<Longrightarrow> n = n'"
  by (cases n n' rule: linorder_cases) (force simp: first_gap_def)+

text \<open>Reading the contiguous prefix.\<close>

lemma collect_spec:
  assumes "frags_ok es" and "\<forall>e \<in> set es. c \<le> fst e" and "c < n"
    and "\<And>i. c \<le> i \<Longrightarrow> i < n \<Longrightarrow> content es i \<noteq> None" and "content es n = None"
  shows "collect n c acc es = acc @ map (\<lambda>i. the (content es i)) [c..<n]"
  using assms
proof (induction es arbitrary: c acc)
  case Nil
  then show ?case by auto
next
  case (Cons e es)
  obtain off d where e: "e = (off, d)" by (cases e)
  have d: "d \<noteq> []" and ok: "frags_ok es" and later: "\<forall>e \<in> set es. off + length d \<le> fst e"
    using Cons.prems(1) e by auto
  have "content (e # es) c \<noteq> None" using Cons.prems(3,4) by blast
  moreover have "c \<le> off" using Cons.prems(2) e by simp
  moreover have "content es c = None" if "c < off + length d"
    using later that by (fastforce simp: content_None piece_None)
  ultimately have off: "off = c"
    using d e by (cases d) (auto simp: piece_def split: if_splits)
  have len: "c + length d \<le> n"
    using Cons.prems(3,5) e off by (auto simp: piece_def split: if_splits)
  have head: "content (e # es) i = Some (d ! (i - c))" if "c \<le> i" "i < c + length d" for i
    using e off that by (simp add: piece_def)
  have tail: "content (e # es) i = content es i" if "c + length d \<le> i" for i
    using e off that by (simp add: piece_def)
  have "map (\<lambda>i. the (content (e # es) i)) [c..<c + length d] = d"
    by (rule nth_equalityI) (simp_all add: head)
  moreover have "map (\<lambda>i. the (content (e # es) i)) [c + length d..<n]
      = map (\<lambda>i. the (content es i)) [c + length d..<n]"
    by (simp add: tail)
  moreover have "[c..<n] = [c..<c + length d] @ [c + length d..<n]"
    using len by (metis le_add1 upt_add_eq_append le_add_diff_inverse)
  ultimately have split: "map (\<lambda>i. the (content (e # es) i)) [c..<n]
      = d @ map (\<lambda>i. the (content es i)) [c + length d..<n]"
    by (metis map_append)
  show ?case
  proof (cases "c + length d = n")
    case True
    then have "map (\<lambda>i. the (content (e # es) i)) [c..<n] = d" using split by simp
    moreover have "collect n c acc (e # es) = acc @ d" using e off d True by simp
    ultimately show ?thesis by simp
  next
    case False
    then have lt: "c + length d < n" using len by simp
    have "content es i \<noteq> None" if "c + length d \<le> i" "i < n" for i
      using Cons.prems(4) [of i] tail [of i] that by simp
    moreover have "content es n = None" using Cons.prems(5) tail [of n] len by simp
    ultimately have "collect n (c + length d) (acc @ d) es
        = (acc @ d) @ map (\<lambda>i. the (content es i)) [c + length d..<n]"
      using Cons.IH [of "c + length d" "acc @ d"] ok later lt off by blast
    then show ?thesis using e off d lt split by simp
  qed
qed

section \<open>The invariant\<close>

lemma reassembler_ok_new: "reassembler_ok (reassembler_new now)"
  by (simp add: reassembler_ok_def reassembler_new_def first_gap_def received_def)

lemma sum_list_btree_insert:
  "\<forall>e \<in> set es. fst e \<noteq> k \<Longrightarrow>
   sum_list (map (length \<circ> snd) (btree_insert k v es)) = length v + sum_list (map (length \<circ> snd) es)"
  by (induction es) auto

lemma not_buffered_key:
  assumes "frags_ok es" and "d \<noteq> []" and "\<not> already_buffered off (off + length d) es"
  shows "\<forall>e \<in> set es. fst e \<noteq> off"
proof
  fix e assume "e \<in> set es"
  then have e: "(fst e, snd e) \<in> set es" by simp
  then have "off + length d \<le> fst e \<or> fst e + length (snd e) \<le> off" "snd e \<noteq> []"
    using disjoint_fragment [OF assms(3,2) e] frags_ok_nonempty [OF assms(1) e] by auto
  then show "fst e \<noteq> off" using assms(2) by (cases d; cases "snd e") auto
qed

text \<open>The three outcomes of \<open>add_fragment\<close>: rejected, ignored, stored.\<close>

lemma add_fragment_cases:
  obtains (full) "max_buffer_size r < current_buffer_size r + length d"
      "add_fragment now off d r = (Inl ''Fragment would exceed maximum buffer size'', r)"
  | (known) "current_buffer_size r + length d \<le> max_buffer_size r"
      "already_buffered off (off + length d) (fragments r)"
      "add_fragment now off d r = (Inr (), r\<lparr>last_update := now\<rparr>)"
  | (stored) "current_buffer_size r + length d \<le> max_buffer_size r"
      "\<not> already_buffered off (off + length d) (fragments r)"
      "add_fragment now off d r = (Inr (), r\<lparr>last_update := now,
         current_buffer_size := current_buffer_size r + length d,
         fragments := btree_insert off d (fragments r),
         contiguous_offset := advance (contiguous_offset r) (btree_insert off d (fragments r))\<rparr>)"
proof -
  consider "max_buffer_size r < current_buffer_size r + length d"
    | "current_buffer_size r + length d \<le> max_buffer_size r"
      "already_buffered off (off + length d) (fragments r)"
    | "current_buffer_size r + length d \<le> max_buffer_size r"
      "\<not> already_buffered off (off + length d) (fragments r)"
    by linarith
  then show thesis
    by cases (use full known stored in \<open>simp_all add: add_fragment_def Let_def update_contiguous_offset_def\<close>)
qed

lemma content_disjoint:
  assumes "frags_ok es" and "d \<noteq> []" and "\<not> already_buffered off (off + length d) es"
    and "piece off d i = Some b"
  shows "content es i = None"
proof -
  have "piece fo fd i = None" if "(fo, fd) \<in> set es" for fo fd
    using disjoint_fragment [OF assms(3,2) that] frags_ok_nonempty [OF assms(1) that] assms(4)
    by (auto simp: piece_None piece_Some)
  then show ?thesis by (auto simp: content_None)
qed

lemma received_mono:
  assumes "reassembler_ok r" and "d \<noteq> []"
  shows "received r \<subseteq>\<^sub>m received (snd (add_fragment now off d r))"
proof (cases rule: add_fragment_cases [of r d now off])
  case stored
  have ok: "frags_ok (fragments r)" using assms(1) by (simp add: reassembler_ok_def)
  have "content (btree_insert off d (fragments r)) i = content (fragments r) i"
    if "content (fragments r) i \<noteq> None" for i
    using that content_disjoint [OF ok assms(2) stored(2), of i]
    by (cases "piece off d i") (auto simp: content_insert [OF ok assms(2) stored(2)])
  then show ?thesis using stored(3) by (auto simp: map_le_def received_def)
qed (simp_all add: received_def)

lemma add_fragment_ok:
  assumes ok: "reassembler_ok r" and d: "d \<noteq> []"
  shows "reassembler_ok (snd (add_fragment now off d r))"
proof (cases rule: add_fragment_cases [of r d now off])
  case stored
  let ?es = "btree_insert off d (fragments r)"
  have f: "frags_ok (fragments r)" using ok by (simp add: reassembler_ok_def)
  have es: "frags_ok ?es" using frags_ok_insert [OF f d stored(2)] .
  have "received r \<subseteq>\<^sub>m content ?es"
    using received_mono [OF ok d, of now off] stored(3) by (simp add: received_def)
  then have "\<forall>i < contiguous_offset r. content ?es i \<noteq> None"
    using ok by (fastforce simp: reassembler_ok_def first_gap_def map_le_def dom_def)
  then have "first_gap (content ?es) (advance (contiguous_offset r) ?es)"
    using advance_covers [OF es] advance_gap [OF es] by (simp add: first_gap_def) (meson not_le_imp_less)
  then show ?thesis
    using stored ok es sum_list_btree_insert [OF not_buffered_key [OF f d stored(2)], of d]
    by (simp add: reassembler_ok_def received_def)
qed (use ok in \<open>simp_all add: reassembler_ok_def received_def\<close>)

text \<open>What \<open>get_contiguous_data\<close> returns: the stream up to the first byte not received.\<close>

definition received_prefix :: "CryptoFrameReassembler \<Rightarrow> bytes" where
  "received_prefix r = map (\<lambda>i. the (received r i)) [0..<contiguous_offset r]"

lemma get_contiguous_data_eq:
  assumes "reassembler_ok r"
  shows "get_contiguous_data r =
           (if contiguous_offset r = 0 then None else Some (received_prefix r))"
proof (cases "contiguous_offset r = 0")
  case False
  have "collect (contiguous_offset r) 0 [] (fragments r) = received_prefix r"
    using assms False collect_spec [of "fragments r" 0 "contiguous_offset r" "[]"]
    by (simp add: reassembler_ok_def received_prefix_def received_def first_gap_def)
  then show ?thesis using False by (simp add: get_contiguous_data_def received_prefix_def)
qed (simp add: get_contiguous_data_def)

section \<open>Reachable buffers\<close>

inductive reachable_buffer :: "CryptoFrameReassembler \<Rightarrow> bool" where
  rb_new: "reachable_buffer (reassembler_new now)"
| rb_add: "reachable_buffer r \<Longrightarrow> data \<noteq> [] \<Longrightarrow> reachable_buffer (snd (add_fragment now offset data r))"
| rb_tls: "reachable_buffer r \<Longrightarrow> reachable_buffer (set_complete_tls_info tls r)"

lemma reassembler_ok_tls: "reassembler_ok (set_complete_tls_info tls r) = reassembler_ok r"
  by (simp add: reassembler_ok_def set_complete_tls_info_def received_def)

lemma max_buffer_size_add: "max_buffer_size (snd (add_fragment now off d r)) = max_buffer_size r"
  by (cases rule: add_fragment_cases [of r d now off]) simp_all

lemma reachable_buffer_ok: "reachable_buffer r \<Longrightarrow> reassembler_ok r \<and> max_buffer_size r = 65536"
  by (induction rule: reachable_buffer.induct)
     (simp_all add: reassembler_ok_new add_fragment_ok reassembler_ok_tls max_buffer_size_add,
      simp_all add: reassembler_new_def set_complete_tls_info_def)

section \<open>Reassembly of a stream\<close>

text \<open>Fragments of a stream \<open>s\<close>: non-empty slices of it, any two of them equal or disjoint (a
  sender that retransmits a frame as it was).\<close>

definition slice_of :: "bytes \<Rightarrow> nat \<Rightarrow> bytes \<Rightarrow> bool" where
  "slice_of s off d \<longleftrightarrow> d \<noteq> [] \<and> off + length d \<le> length s \<and> d = take (length d) (drop off s)"

definition same_or_apart :: "nat \<times> bytes \<Rightarrow> nat \<times> bytes \<Rightarrow> bool" where
  "same_or_apart f g \<longleftrightarrow>
     f = g \<or> fst f + length (snd f) \<le> fst g \<or> fst g + length (snd g) \<le> fst f"

definition fragments_of :: "bytes \<Rightarrow> (nat \<times> bytes) set \<Rightarrow> bool" where
  "fragments_of s fs \<longleftrightarrow>
     (\<forall>f \<in> fs. slice_of s (fst f) (snd f)) \<and> (\<forall>f \<in> fs. \<forall>g \<in> fs. same_or_apart f g)"

lemma fragments_of_mono: "fragments_of s fs \<Longrightarrow> gs \<subseteq> fs \<Longrightarrow> fragments_of s gs"
  unfolding fragments_of_def by blast

lemma slice_nth: "slice_of s off d \<Longrightarrow> i < length d \<Longrightarrow> d ! i = s ! (off + i)"
  unfolding slice_of_def by (metis add.commute add_leD1 nth_drop nth_take)

lemma sum_lengths_le:
  "frags_ok es \<Longrightarrow> \<forall>(off, d) \<in> set es. c \<le> off \<and> off + length d \<le> n \<Longrightarrow> c \<le> n \<Longrightarrow>
   c + sum_list (map (length \<circ> snd) es) \<le> n"
proof (induction es arbitrary: c)
  case (Cons e es)
  obtain off d where e: "e = (off, d)" by (cases e)
  have "off + length d + sum_list (map (length \<circ> snd) es) \<le> n"
    using Cons.prems e by (intro Cons.IH) auto
  then show ?case using Cons.prems e by (auto simp: comp_def)
qed simp

lemma fits:
  assumes ok: "frags_ok es" and fr: "fragments_of s (insert (off, d) (set es))"
    and new: "(off, d) \<notin> set es"
  shows "\<not> already_buffered off (off + length d) es"
    and "sum_list (map (length \<circ> snd) es) + length d \<le> length s"
proof -
  have d: "d \<noteq> []" using fr by (simp add: fragments_of_def slice_of_def)
  show not: "\<not> already_buffered off (off + length d) es"
  proof
    assume "already_buffered off (off + length d) es"
    then obtain fo fd where f: "(fo, fd) \<in> set es"
      and hit: "off = fo \<and> length d = length fd \<or> off < fo + length fd \<and> fo < off + length d"
      by (auto simp: already_buffered_iff)
    have "(off, d) \<noteq> (fo, fd)" using f new by auto
    then have "off + length d \<le> fo \<or> fo + length fd \<le> off"
      using fr f unfolding fragments_of_def same_or_apart_def by fastforce
    then show False using hit d by auto
  qed
  have keys: "\<forall>e \<in> set es. fst e \<noteq> off" using not_buffered_key [OF ok d not] .
  have "0 + sum_list (map (length \<circ> snd) (btree_insert off d es)) \<le> length s"
  proof (rule sum_lengths_le)
    show "frags_ok (btree_insert off d es)" using frags_ok_insert [OF ok d not] .
    show "\<forall>(off, d) \<in> set (btree_insert off d es). 0 \<le> off \<and> off + length d \<le> length s"
    proof clarify
      fix a b assume "(a, b) \<in> set (btree_insert off d es)"
      then have "(a, b) \<in> insert (off, d) (set es)" by (rule subsetD [OF set_btree_insert(1)])
      then have "slice_of s (fst (a, b)) (snd (a, b))" using fr unfolding fragments_of_def by blast
      then show "0 \<le> a \<and> a + length b \<le> length s" by (simp add: slice_of_def)
    qed
  qed simp
  then show "sum_list (map (length \<circ> snd) es) + length d \<le> length s"
    using sum_list_btree_insert [OF keys, of d] by simp
qed

lemma add_fragment_set:
  assumes ok: "reassembler_ok r" and room: "length s \<le> max_buffer_size r"
    and fr: "fragments_of s (insert (off, d) (set (fragments r)))"
  shows "set (fragments (snd (add_fragment now off d r))) = insert (off, d) (set (fragments r))"
proof (cases "(off, d) \<in> set (fragments r)")
  case True
  then have "already_buffered off (off + length d) (fragments r)"
    using fr by (force simp: already_buffered_iff)
  then show ?thesis using True
    by (cases rule: add_fragment_cases [of r d now off]) auto
next
  case False
  have f: "frags_ok (fragments r)" and size: "current_buffer_size r = sum_list (map (length \<circ> snd) (fragments r))"
    using ok by (simp_all add: reassembler_ok_def)
  have d: "d \<noteq> []" using fr by (simp add: fragments_of_def slice_of_def)
  note fit = fits [OF f fr False]
  show ?thesis
    using fit room size set_btree_insert(2) [OF not_buffered_key [OF f d fit(1)], of d]
    by (cases rule: add_fragment_cases [of r d now off]) simp_all
qed

lemma add_fragments_set:
  assumes "reassembler_ok r" and "length s \<le> max_buffer_size r"
    and "fragments_of s (set (fragments r) \<union> snd ` set fs)"
  shows "reassembler_ok (add_fragments fs r)
    \<and> set (fragments (add_fragments fs r)) = set (fragments r) \<union> snd ` set fs"
  using assms
proof (induction fs arbitrary: r)
  case (Cons f fs)
  obtain now off d where f: "f = (now, off, d)" by (cases f) auto
  let ?r = "snd (add_fragment now off d r)"
  have all: "fragments_of s (insert (off, d) (set (fragments r) \<union> snd ` set fs))"
    using Cons.prems(3) f by simp
  have head: "fragments_of s (insert (off, d) (set (fragments r)))"
    using fragments_of_mono [OF all] by blast
  then have d: "d \<noteq> []" by (simp add: fragments_of_def slice_of_def)
  have set: "set (fragments ?r) = insert (off, d) (set (fragments r))"
    by (rule add_fragment_set [OF Cons.prems(1,2) head])
  have "reassembler_ok (add_fragments fs ?r)
    \<and> set (fragments (add_fragments fs ?r)) = set (fragments ?r) \<union> snd ` set fs"
    using add_fragment_ok [OF Cons.prems(1) d] Cons.prems(2) all
    by (intro Cons.IH) (simp_all add: max_buffer_size_add set)
  then show ?case using f set by simp
qed simp

text \<open>Once the fragments cover the stream, the buffer gives the stream back, whatever the order
  and however often each of them arrived.\<close>

lemma covered_content:
  assumes "frags_ok es" and "fragments_of s (set es)"
  shows "content es i = Some b \<Longrightarrow> i < length s \<and> b = s ! i"
  using assms
proof (induction es)
  case (Cons e es)
  obtain off d where e: "e = (off, d)" by (cases e)
  have "slice_of s off d" using Cons.prems(3) e by (simp add: fragments_of_def)
  then have "piece off d i = Some b \<Longrightarrow> i < length s \<and> b = s ! i"
    using slice_nth [of s off d "i - off"] by (auto simp: piece_Some slice_of_def)
  moreover have "fragments_of s (set es)" using fragments_of_mono [OF Cons.prems(3)] by auto
  ultimately show ?case using Cons e by (auto split: option.splits)
qed simp

lemma reassembled:
  assumes ok: "reassembler_ok r" and fr: "fragments_of s (set (fragments r))"
    and cover: "\<And>i. i < length s \<Longrightarrow> \<exists>(off, d) \<in> set (fragments r). off \<le> i \<and> i < off + length d"
    and "s \<noteq> []"
  shows "get_contiguous_data r = Some s"
proof -
  have f: "frags_ok (fragments r)" and gap: "first_gap (received r) (contiguous_offset r)"
    using ok by (simp_all add: reassembler_ok_def)
  have "received r i \<noteq> None" if "i < length s" for i
  proof
    assume none: "received r i = None"
    from cover [OF that] obtain off d where "(off, d) \<in> set (fragments r)" "off \<le> i" "i < off + length d"
      by blast
    then show False using none by (auto simp: received_def content_None piece_None)
  qed
  moreover have "received r i = None" if "\<not> i < length s" for i
    using covered_content [OF f fr, of i] that by (cases "received r i") (auto simp: received_def)
  ultimately have "first_gap (received r) (length s)" by (simp add: first_gap_def)
  then have n: "contiguous_offset r = length s" using gap first_gap_unique by blast
  have "received r i = Some (s ! i)" if "i < length s" for i
    using gap n that covered_content [OF f fr, of i] by (force simp: first_gap_def received_def)
  then have "received_prefix r = s"
    unfolding received_prefix_def n by (intro nth_equalityI) simp_all
  then show ?thesis using get_contiguous_data_eq [OF ok] n \<open>s \<noteq> []\<close> by simp
qed

lemma stream_reassembled:
  assumes "s \<noteq> []" and "length s \<le> 65536" and "fragments_of s (snd ` set fs)"
    and "\<forall>i < length s. \<exists>f \<in> snd ` set fs. fst f \<le> i \<and> i < fst f + length (snd f)"
  shows "get_contiguous_data (add_fragments fs (reassembler_new now)) = Some s"
proof -
  let ?r = "add_fragments fs (reassembler_new now)"
  have new: "reassembler_ok (reassembler_new now)" "fragments (reassembler_new now) = []"
      "max_buffer_size (reassembler_new now) = 65536"
    by (rule reassembler_ok_new) (simp_all add: reassembler_new_def)
  have r: "reassembler_ok ?r" "set (fragments ?r) = snd ` set fs"
    using add_fragments_set [OF new(1), of s fs] assms(2,3) new(2,3) by simp_all
  show ?thesis
  proof (rule reassembled [OF r(1)])
    show "fragments_of s (set (fragments ?r))" using assms(3) r(2) by simp
    show "s \<noteq> []" by (rule assms(1))
    fix i assume "i < length s"
    then obtain f where "f \<in> set (fragments ?r)" "fst f \<le> i \<and> i < fst f + length (snd f)"
      using assms(4) r(2) by blast
    then show "\<exists>(off, d) \<in> set (fragments ?r). off \<le> i \<and> i < off + length d"
      by (intro bexI [of _ f]) (auto split: prod.split)
  qed
qed

section \<open>Properties\<close>

text \<open>C16. A stream of at most 64 KiB whose fragments cover it is returned by the buffer as it was
  sent, in whatever order the fragments arrive and however often each is repeated.\<close>

theorem crypto_stream_reassembled:
  assumes "s \<noteq> []" and "length s \<le> 65536" and "fragments_of s (snd ` set fs)"
    and "\<forall>i < length s. \<exists>f \<in> snd ` set fs. fst f \<le> i \<and> i < fst f + length (snd f)"
  shows "get_contiguous_data (add_fragments fs (reassembler_new now)) = Some s"
  using assms by (rule stream_reassembled)

theorem crypto_stream_reassembled_witness:
  "get_contiguous_data (add_fragments [(7, 3, [4, 5]), (8, 0, [1, 2, 3]), (9, 3, [4, 5])] (reassembler_new 6))
     = Some [1, 2, 3, 4, 5]"
proof (rule crypto_stream_reassembled)
  show "fragments_of [1, 2, 3, 4, 5] (snd ` set [(7, 3, [4, 5]), (8, 0, [1, 2, 3]), (9, 3, [4, 5])])"
    by (simp add: fragments_of_def slice_of_def same_or_apart_def)
  show "\<forall>i < length [1, 2, 3, 4, 5 :: u8]. \<exists>f \<in> snd ` set [(7 :: int, 3, [4, 5]), (8, 0, [1, 2, 3]), (9, 3, [4, 5])].
      fst f \<le> i \<and> i < fst f + length (snd f)"
  proof (intro allI impI)
    fix i assume "i < length [1, 2, 3, 4, 5 :: u8]"
    then show "\<exists>f \<in> snd ` set [(7 :: int, 3, [4, 5]), (8, 0, [1, 2, 3]), (9, 3, [4, 5])].
        fst f \<le> i \<and> i < fst f + length (snd f)"
      by simp linarith
  qed
qed simp_all

text \<open>In every reachable buffer the contiguous offset is the first byte not received,
  \<open>get_contiguous_data\<close> returns the received bytes up to there, and the buffered bytes are
  counted exactly and stay within 64 KiB.\<close>

theorem contiguous_data_exact:
  assumes "reachable_buffer r"
  shows "first_gap (received r) (contiguous_offset r)
    \<and> get_contiguous_data r = (if contiguous_offset r = 0 then None else Some (received_prefix r))
    \<and> current_buffer_size r = sum_list (map (length \<circ> snd) (fragments r))
    \<and> current_buffer_size r \<le> 65536"
  using reachable_buffer_ok [OF assms] get_contiguous_data_eq [of r] by (auto simp: reassembler_ok_def)

theorem contiguous_data_exact_witness:
  "get_contiguous_data (snd (add_fragment 2 9 [8] (snd (add_fragment 1 0 [1, 2] (reassembler_new 0))))) = Some [1, 2]"
proof -
  let ?r = "snd (add_fragment 2 9 [8] (snd (add_fragment 1 0 [1, 2] (reassembler_new 0))))"
  have "reachable_buffer ?r" by (intro reachable_buffer.intros) simp_all
  note contiguous_data_exact [OF this]
  moreover have "contiguous_offset ?r = 2" and "received_prefix ?r = [1, 2]"
    by (simp_all add: add_fragment_def reassembler_new_def update_contiguous_offset_def received_prefix_def
        received_def piece_def numeral_2_eq_2 Let_def)
  ultimately show ?thesis by simp
qed

text \<open>The first copy of a byte wins: a later non-empty fragment never changes or drops a byte
  of the stream that was received before.\<close>

theorem first_write_wins:
  "reachable_buffer r \<Longrightarrow> data \<noteq> [] \<Longrightarrow> received r \<subseteq>\<^sub>m received (snd (add_fragment now offset data r))"
  using reachable_buffer_ok received_mono by blast

theorem first_write_wins_witness:
  "received (snd (add_fragment 1 0 [1, 2] (reassembler_new 0)))
     \<subseteq>\<^sub>m received (snd (add_fragment 2 1 [7, 7] (snd (add_fragment 1 0 [1, 2] (reassembler_new 0)))))"
  by (rule first_write_wins) (auto intro: reachable_buffer.intros)

text \<open>The hypothesis is needed: an empty fragment at a buffered offset replaces its data. The
  callers hand over non-empty data only.\<close>

theorem empty_fragment_erases:
  "received (snd (add_fragment 1 0 [1, 2] (reassembler_new 0))) 0 = Some 1 \<and>
   received (snd (add_fragment 2 0 [] (snd (add_fragment 1 0 [1, 2] (reassembler_new 0))))) 0 = None"
  by (simp add: add_fragment_def reassembler_new_def update_contiguous_offset_def received_def piece_def)

end
