(* ===== verification/QuicTls.thy ===== *)
theory QuicTls
  imports CryptoReassembly RustStr "HOL-Library.Product_Lexorder"
begin

text \<open>
  The TLS side of \<^verbatim>\<open>dpi/quic.rs\<close>: host name validation, the ClientHello and ServerHello
  parsers, and the strategies by which \<^verbatim>\<open>try_extract_tls_from_reassembler\<close> finds a server
  name in a partly filled reassembly buffer. Every slice access is checked: a function that
  indexes a slice lives in the option monad and is \<open>None\<close> exactly where the code would panic;
  the collection \<open>no_panic\<close> shows that none does, whatever the bytes.
\<close>

section \<open>Host names\<close>

definition PARTIAL_SNI_MIN_LENGTH :: nat where "PARTIAL_SNI_MIN_LENGTH = 3"

definition PARTIAL_SNI_MARKER :: bytes where "PARTIAL_SNI_MARKER = ascii ''[PARTIAL]''"

definition hostname_char :: "u8 \<Rightarrow> bool" where
  "hostname_char c \<longleftrightarrow> is_ascii_alphanumeric c \<or> c = dot \<or> c = hyphen"

definition is_valid_hostname :: "bytes \<Rightarrow> bool" where
  "is_valid_hostname h =
     (if length h < 4 \<or> length h > 253 then False
      else if dot \<notin> set h then False
      else if \<not> list_all hostname_char h then False
      else if starts_with h [dot] \<or> ends_with h [dot] \<or> starts_with h [hyphen] \<or> ends_with h [hyphen]
        then False
      else if contains_str h [dot, dot] then False
      else if \<not> list_ex is_ascii_alphabetic h then False
      else let parts = split_on dot h in
        if length parts < 2 then False
        else if \<not> list_all (\<lambda>part. part \<noteq> [] \<and> length part \<le> 63) parts then False
        else True)"

definition is_valid_partial_hostname :: "bytes \<Rightarrow> bool" where
  "is_valid_partial_hostname h =
     (if length h < PARTIAL_SNI_MIN_LENGTH then False
      else if \<not> list_all hostname_char h then False
      else if \<not> list_ex is_ascii_alphabetic h then False
      else if starts_with h [dot] \<or> starts_with h [hyphen] then False
      else True)"

definition mark_partial_sni :: "bytes \<Rightarrow> bytes" where
  "mark_partial_sni h = h @ PARTIAL_SNI_MARKER"

definition is_partial_sni :: "bytes \<Rightarrow> bool" where
  "is_partial_sni s = ends_with s PARTIAL_SNI_MARKER"

definition is_complete_sni :: "bytes option \<Rightarrow> bool" where
  "is_complete_sni sni = (case sni of Some s \<Rightarrow> \<not> is_partial_sni s | None \<Rightarrow> False)"

section \<open>Extensions\<close>

record SniHeader =
  list_len :: nat
  name_len :: nat

definition parse_sni_header :: "bytes \<Rightarrow> SniHeader option option" where
  "parse_sni_header data =
     (if length data < 5 then Some None
      else do {
        ll \<leftarrow> be16_at data 0;
        name_type \<leftarrow> byte_at data 2;
        nl \<leftarrow> be16_at data 3;
        if name_type \<noteq> 0 then Some None
        else if nl = 0 \<or> nl > 253 then Some None
        else Some (Some \<lparr>list_len = ll, name_len = nl\<rparr>)
      })"

definition parse_sni_extension :: "bytes \<Rightarrow> bool \<Rightarrow> bytes option option" where
  "parse_sni_extension data allow_partial = do {
     h \<leftarrow> parse_sni_header data;
     case h of
       None \<Rightarrow> Some None
     | Some header \<Rightarrow>
         let hostname_start = 5 in
         if hostname_start + name_len header \<le> length data then do {
           sni_data \<leftarrow> sub_slice hostname_start (hostname_start + name_len header) data;
           (case from_utf8 sni_data of
              Some sni \<Rightarrow> Some (if is_valid_hostname sni then Some sni else None)
            | None \<Rightarrow> Some None)
         }
         else if allow_partial \<and> length data > hostname_start then do {
           available \<leftarrow> sub_slice hostname_start (length data) data;
           (case from_utf8 available of
              Some partial \<Rightarrow>
                Some (if is_valid_partial_hostname partial then Some (mark_partial_sni partial) else None)
            | None \<Rightarrow> Some None)
         }
         else Some None
   }"

function parse_alpn_from :: "bytes \<Rightarrow> nat \<Rightarrow> nat \<Rightarrow> bytes list \<Rightarrow> bytes list option" where
  "parse_alpn_from data list_end offset protocols =
     (if offset < list_end \<and> offset < length data then do {
        b \<leftarrow> byte_at data offset;
        let proto_len = unat b;
        protocols \<leftarrow> (if offset + 1 + proto_len \<le> length data then do {
            s \<leftarrow> sub_slice (offset + 1) (offset + 1 + proto_len) data;
            Some (case from_utf8 s of Some proto \<Rightarrow> protocols @ [proto] | None \<Rightarrow> protocols)
          } else Some protocols);
        parse_alpn_from data list_end (offset + 1 + proto_len) protocols
      }
      else Some protocols)"
  by pat_completeness auto
termination
  by (relation "measure (\<lambda>(data, _, offset, _). length data - offset)") auto

definition parse_alpn_extension :: "bytes \<Rightarrow> bytes list option option" where
  "parse_alpn_extension data =
     (if length data < 2 then Some None
      else do {
        alpn_len \<leftarrow> be16_at data 0;
        let list_end = 2 + min alpn_len (length data - 2);
        protocols \<leftarrow> parse_alpn_from data list_end 2 [];
        Some (if protocols = [] then None else Some protocols)
      })"

function supported_versions_from :: "bytes \<Rightarrow> nat \<Rightarrow> nat \<Rightarrow> TlsVersion option" where
  "supported_versions_from data listlen offset =
     (if offset + 1 < length data \<and> offset < 1 + listlen then do {
        a \<leftarrow> byte_at data offset;
        b \<leftarrow> byte_at data (offset + 1);
        if a = 3 \<and> b = 4 then Some Tls13 else supported_versions_from data listlen (offset + 2)
      }
      else Some Tls13)"
  by pat_completeness auto
termination
  by (relation "measure (\<lambda>(data, _, offset). length data - offset)") auto

definition parse_supported_versions :: "bytes \<Rightarrow> bool \<Rightarrow> TlsVersion option option" where
  "parse_supported_versions data is_client =
     (if is_client then
        if data = [] then Some None
        else do {
          listlen \<leftarrow> byte_at data 0;
          v \<leftarrow> supported_versions_from data (unat listlen) 1;
          Some (Some v)
        }
      else if length data \<ge> 2 then do {
        a \<leftarrow> byte_at data 0;
        b \<leftarrow> byte_at data 1;
        if a = 3 \<and> b = 4 then Some (Some Tls13) else Some (Some Tls13)
      }
      else Some (Some Tls13))"

text \<open>The body of the loop of \<open>parse_tls_extensions\<close> for a complete extension.\<close>

definition apply_extension :: "bool \<Rightarrow> bool \<Rightarrow> nat \<Rightarrow> bytes \<Rightarrow> TlsInfo \<Rightarrow> TlsInfo option" where
  "apply_extension is_client allow_partial ext_type ext_data info =
     (if ext_type = 0 \<and> is_client then do {
        r \<leftarrow> parse_sni_extension ext_data allow_partial;
        Some (case r of Some sni \<Rightarrow> info\<lparr>tls_sni := Some sni\<rparr> | None \<Rightarrow> info)
      }
      else if ext_type = 16 then do {
        r \<leftarrow> parse_alpn_extension ext_data;
        Some (case r of Some alpn \<Rightarrow> info\<lparr>tls_alpn := alpn\<rparr> | None \<Rightarrow> info)
      }
      else if ext_type = 43 then do {
        r \<leftarrow> parse_supported_versions ext_data is_client;
        Some (case r of Some version \<Rightarrow> info\<lparr>tls_version := Some version\<rparr> | None \<Rightarrow> info)
      }
      else Some info)"

text \<open>The branch for an extension that is cut off by the end of the data.\<close>

definition truncated_extension :: "bytes \<Rightarrow> bool \<Rightarrow> bool \<Rightarrow> nat \<Rightarrow> nat \<Rightarrow> TlsInfo \<Rightarrow> TlsInfo option" where
  "truncated_extension data is_client allow_partial ext_type offset info =
     (if allow_partial \<and> ext_type = 0 \<and> is_client then
        let available_ext_len = length data - offset - 4 in
        if available_ext_len > 5 then do {
          ext_data \<leftarrow> sub_slice (offset + 4) (length data) data;
          r \<leftarrow> parse_sni_extension ext_data True;
          Some (case r of Some sni \<Rightarrow> info\<lparr>tls_sni := Some sni\<rparr> | None \<Rightarrow> info)
        }
        else Some info
      else Some info)"

function parse_tls_extensions_from ::
  "bytes \<Rightarrow> bool \<Rightarrow> bool \<Rightarrow> nat \<Rightarrow> TlsInfo \<Rightarrow> TlsInfo option" where
  "parse_tls_extensions_from data is_client allow_partial offset info =
     (if offset + 4 \<le> length data then do {
        ext_type \<leftarrow> be16_at data offset;
        ext_len \<leftarrow> be16_at data (offset + 2);
        if offset + 4 + ext_len > length data
        then truncated_extension data is_client allow_partial ext_type offset info
        else do {
          ext_data \<leftarrow> sub_slice (offset + 4) (offset + 4 + ext_len) data;
          info \<leftarrow> apply_extension is_client allow_partial ext_type ext_data info;
          parse_tls_extensions_from data is_client allow_partial (offset + 4 + ext_len) info
        }
      }
      else Some info)"
  by pat_completeness auto
termination
  by (relation "measure (\<lambda>(data, _, _, offset, _). length data - offset)") auto

definition parse_tls_extensions :: "bytes \<Rightarrow> TlsInfo \<Rightarrow> bool \<Rightarrow> bool \<Rightarrow> TlsInfo option" where
  "parse_tls_extensions data info is_client allow_partial =
     parse_tls_extensions_from data is_client allow_partial 0 info"

declare parse_alpn_from.simps [simp del] supported_versions_from.simps [simp del]
  parse_tls_extensions_from.simps [simp del]

section \<open>Handshake messages\<close>

definition parse_partial_client_hello :: "bytes \<Rightarrow> TlsInfo \<Rightarrow> bool \<Rightarrow> TlsInfo option" where
  "parse_partial_client_hello data info allow_partial =
     (if length data < 34 then Some info
      else let offset = 34 in
      if offset \<ge> length data then Some info
      else do {
        session_id_len \<leftarrow> byte_at data offset;
        let offset = offset + (1 + unat session_id_len);
        if offset + 2 > length data then Some info
        else do {
          cipher_suites_len \<leftarrow> be16_at data offset;
          let offset = offset + (2 + cipher_suites_len);
          if offset \<ge> length data then Some info
          else do {
            compression_len \<leftarrow> byte_at data offset;
            let offset = offset + (1 + unat compression_len);
            if offset + 2 > length data then Some info
            else do {
              extensions_len \<leftarrow> be16_at data offset;
              let offset = offset + 2;
              let available_ext_len = min (length data - offset) extensions_len;
              if available_ext_len > 0 then do {
                exts \<leftarrow> sub_slice offset (offset + available_ext_len) data;
                parse_tls_extensions exts info True allow_partial
              }
              else Some info
            }
          }
        }
      })"

definition parse_partial_server_hello :: "bytes \<Rightarrow> TlsInfo \<Rightarrow> TlsInfo option" where
  "parse_partial_server_hello data info =
     (if length data < 34 then Some info
      else let offset = 34 in
      if offset \<ge> length data then Some info
      else do {
        session_id_len \<leftarrow> byte_at data offset;
        let offset = offset + (1 + unat session_id_len);
        if offset + 2 > length data then Some info
        else do {
          cipher \<leftarrow> be16_at data offset;
          let info = info\<lparr>tls_cipher_suite := Some (word_of_nat cipher)\<rparr>;
          let offset = offset + 2;
          if offset \<ge> length data then Some info
          else do {
            let offset = offset + 1;
            if offset + 2 > length data then Some info
            else do {
              extensions_len \<leftarrow> be16_at data offset;
              let offset = offset + 2;
              let available_ext_len = min (length data - offset) extensions_len;
              if available_ext_len > 0 then do {
                exts \<leftarrow> sub_slice offset (offset + available_ext_len) data;
                parse_tls_extensions exts info False False
              }
              else Some info
            }
          }
        }
      })"

definition useful :: "TlsInfo \<Rightarrow> TlsInfo option" where
  "useful info =
     (if tls_sni info \<noteq> None \<or> tls_alpn info \<noteq> [] \<or> tls_version info \<noteq> None then Some info else None)"

definition parse_partial_tls_handshake :: "bytes \<Rightarrow> bool \<Rightarrow> TlsInfo option option" where
  "parse_partial_tls_handshake data allow_partial =
     (if length data < 4 then Some None
      else do {
        handshake_type \<leftarrow> byte_at data 0;
        l1 \<leftarrow> byte_at data 1;
        l2 \<leftarrow> byte_at data 2;
        l3 \<leftarrow> byte_at data 3;
        let handshake_length = be_nat [0, l1, l2, l3];
        available_data \<leftarrow> sub_slice 4 (length data) data;
        let parse_length = min handshake_length (length available_data);
        if handshake_length > 65536 then Some None
        else if handshake_type = 1 then do {
          body \<leftarrow> sub_slice 0 parse_length available_data;
          info \<leftarrow> parse_partial_client_hello body TlsInfo_new allow_partial;
          Some (useful info)
        }
        else if handshake_type = 2 then do {
          body \<leftarrow> sub_slice 0 parse_length available_data;
          info \<leftarrow> parse_partial_server_hello body TlsInfo_new;
          Some (useful info)
        }
        else Some None
      })"

section \<open>Pattern search\<close>

definition greedy_at :: "bytes \<Rightarrow> bool \<Rightarrow> nat \<Rightarrow> bytes option option" where
  "greedy_at data allow_partial i = do {
     a \<leftarrow> byte_at data i;
     b \<leftarrow> byte_at data (i + 1);
     if a = 0 \<and> b = 0 then
       if i + 4 > length data then Some None
       else do {
         ext_len \<leftarrow> be16_at data (i + 2);
         if \<not> (5 \<le> ext_len \<and> ext_len \<le> 300) then Some None
         else do {
           sni_data \<leftarrow> sub_slice (i + 4) (length data) data;
           h \<leftarrow> parse_sni_header sni_data;
           case h of None \<Rightarrow> Some None
           | Some header \<Rightarrow>
               if list_len header > ext_len then Some None
               else
                 let hostname_start = i + 9; hostname_end = hostname_start + name_len header in
                 if hostname_end \<le> length data then do {
                   name \<leftarrow> sub_slice hostname_start hostname_end data;
                   (case from_utf8 name of
                      Some hostname \<Rightarrow> Some (if is_valid_hostname hostname then Some hostname else None)
                    | None \<Rightarrow> Some None)
                 }
                 else if allow_partial \<and> hostname_start < length data then do {
                   name \<leftarrow> sub_slice hostname_start (length data) data;
                   (case from_utf8 name of
                      Some partial \<Rightarrow>
                        Some (if is_valid_partial_hostname partial then Some (mark_partial_sni partial) else None)
                    | None \<Rightarrow> Some None)
                 }
                 else Some None
         }
       }
     else Some None
   }"

definition try_extract_sni_greedy :: "bytes \<Rightarrow> bool \<Rightarrow> bytes option option" where
  "try_extract_sni_greedy data allow_partial =
     (if length data < 9 then Some None
      else first_hit (greedy_at data allow_partial) [0..<length data - 9])"

text \<open>The four patterns that \<open>try_parse_unencrypted_crypto_frames\<close> looks for at one offset.\<close>

definition tls_record_at :: "bytes \<Rightarrow> nat \<Rightarrow> TlsInfo option option" where
  "tls_record_at payload offset = do {
     b \<leftarrow> byte_at payload offset;
     if b = 22 \<and> offset + 5 < length payload then do {
       major \<leftarrow> byte_at payload (offset + 1);
       minor \<leftarrow> byte_at payload (offset + 2);
       if major = 3 \<and> 1 \<le> minor \<and> minor \<le> 4 then do {
         record_length \<leftarrow> be16_at payload (offset + 3);
         if offset + 5 + record_length \<le> length payload then do {
           handshake_data \<leftarrow> sub_slice (offset + 5) (offset + 5 + record_length) payload;
           if handshake_data = [] then Some None
           else do {
             t \<leftarrow> byte_at handshake_data 0;
             if t = 1 then parse_partial_tls_handshake handshake_data False else Some None
           }
         }
         else Some None
       }
       else Some None
     }
     else Some None
   }"

definition direct_handshake_at :: "bytes \<Rightarrow> nat \<Rightarrow> TlsInfo option option" where
  "direct_handshake_at payload offset = do {
     b \<leftarrow> byte_at payload offset;
     if b = 1 \<and> offset + 4 < length payload then do {
       l1 \<leftarrow> byte_at payload (offset + 1);
       l2 \<leftarrow> byte_at payload (offset + 2);
       l3 \<leftarrow> byte_at payload (offset + 3);
       let handshake_length = be_nat [0, l1, l2, l3];
       if handshake_length > 0 \<and> handshake_length < 65536
          \<and> offset + 4 + handshake_length \<le> length payload
       then do {
         s \<leftarrow> sub_slice offset (offset + 4 + handshake_length) payload;
         parse_partial_tls_handshake s False
       }
       else Some None
     }
     else Some None
   }"

definition sni_pattern_at :: "bytes \<Rightarrow> nat \<Rightarrow> TlsInfo option option" where
  "sni_pattern_at payload offset = do {
     a \<leftarrow> byte_at payload offset;
     b \<leftarrow> byte_at payload (offset + 1);
     if offset + 20 < length payload \<and> a = 0 \<and> b = 0 then do {
       ext_len \<leftarrow> be16_at payload (offset + 2);
       if 5 \<le> ext_len \<and> ext_len \<le> 300 \<and> offset + 4 + ext_len \<le> length payload then do {
         ext_data \<leftarrow> sub_slice (offset + 4) (offset + 4 + ext_len) payload;
         if length ext_data \<ge> 5 then do {
           ll \<leftarrow> be16_at ext_data 0;
           sni_type \<leftarrow> byte_at ext_data 2;
           nl \<leftarrow> be16_at ext_data 3;
           if sni_type = 0 \<and> nl > 0 \<and> nl \<le> 253 \<and> 3 \<le> ll \<and> ll \<le> 256 \<and> ll = nl + 3 then do {
             r \<leftarrow> parse_sni_extension ext_data False;
             Some (map_option (\<lambda>sni. TlsInfo_new\<lparr>tls_sni := Some sni\<rparr>) r)
           }
           else Some None
         }
         else Some None
       }
       else Some None
     }
     else Some None
   }"

definition alpn_pattern_at :: "bytes \<Rightarrow> nat \<Rightarrow> TlsInfo option option" where
  "alpn_pattern_at payload offset = do {
     a \<leftarrow> byte_at payload offset;
     b \<leftarrow> byte_at payload (offset + 1);
     if offset + 10 < length payload \<and> a = 0 \<and> b = 16 then do {
       ext_len \<leftarrow> be16_at payload (offset + 2);
       if ext_len > 2 \<and> offset + 4 + ext_len \<le> length payload then do {
         ext_data \<leftarrow> sub_slice (offset + 4) (offset + 4 + ext_len) payload;
         r \<leftarrow> parse_alpn_extension ext_data;
         Some (map_option (\<lambda>alpn. TlsInfo_new\<lparr>tls_alpn := alpn\<rparr>) r)
       }
       else Some None
     }
     else Some None
   }"

definition try_parse_unencrypted_crypto_frames :: "bytes \<Rightarrow> TlsInfo option option" where
  "try_parse_unencrypted_crypto_frames payload =
     first_hit (\<lambda>offset. first_hit (\<lambda>pattern_at. pattern_at payload offset)
         [tls_record_at, direct_handshake_at, sni_pattern_at, alpn_pattern_at])
       [0..<length payload - 10]"

section \<open>No panic\<close>

lemma parse_sni_header_np [no_panic]: "returns (parse_sni_header data)"
  unfolding parse_sni_header_def by (intro no_panic) simp_all

lemma parse_sni_extension_np [no_panic]: "returns (parse_sni_extension data ap)"
  unfolding parse_sni_extension_def by (intro no_panic) simp_all

lemma parse_alpn_from_np [no_panic]: "returns (parse_alpn_from data list_end offset ps)"
proof (induction "length data - offset" arbitrary: offset ps rule: less_induct)
  case less
  show ?case
    by (subst parse_alpn_from.simps, intro no_panic less) auto
qed

lemma parse_alpn_extension_np [no_panic]: "returns (parse_alpn_extension data)"
  unfolding parse_alpn_extension_def by (intro no_panic) simp_all

lemma supported_versions_from_eq:
  "supported_versions_from data listlen offset = Some Tls13"
proof (induction data listlen offset rule: supported_versions_from.induct)
  case (1 data listlen offset)
  then show ?case by (subst supported_versions_from.simps) simp
qed

lemma parse_supported_versions_eq:
  "parse_supported_versions data is_client = Some (if is_client \<and> data = [] then None else Some Tls13)"
  by (auto simp: parse_supported_versions_def supported_versions_from_eq numeral_2_eq_2
      Suc_le_eq byte_at_def)

lemma parse_supported_versions_np [no_panic]: "returns (parse_supported_versions data is_client)"
  by (simp add: parse_supported_versions_eq returns_def)

lemma apply_extension_np [no_panic]: "returns (apply_extension is_client ap ext_type ext_data info)"
  unfolding apply_extension_def by (intro no_panic)

lemma truncated_extension_np [no_panic]:
  "offset + 4 \<le> length data \<Longrightarrow> returns (truncated_extension data is_client ap ext_type offset info)"
  unfolding truncated_extension_def by (intro no_panic) simp_all

lemma parse_tls_extensions_from_np [no_panic]:
  "returns (parse_tls_extensions_from data is_client ap offset info)"
proof (induction "length data - offset" arbitrary: offset info rule: less_induct)
  case less
  show ?case
    by (subst parse_tls_extensions_from.simps, intro no_panic less) auto
qed

lemma parse_tls_extensions_np [no_panic]: "returns (parse_tls_extensions data info is_client ap)"
  unfolding parse_tls_extensions_def by (intro no_panic)

lemma parse_partial_client_hello_np [no_panic]: "returns (parse_partial_client_hello data info ap)"
  unfolding parse_partial_client_hello_def by (intro no_panic) auto

lemma parse_partial_server_hello_np [no_panic]: "returns (parse_partial_server_hello data info)"
  unfolding parse_partial_server_hello_def by (intro no_panic) auto

lemma parse_partial_tls_handshake_np [no_panic]: "returns (parse_partial_tls_handshake data ap)"
  unfolding parse_partial_tls_handshake_def by (intro no_panic) auto

lemma greedy_at_np [no_panic]: "i < length data - 9 \<Longrightarrow> returns (greedy_at data ap i)"
  unfolding greedy_at_def by (intro no_panic) simp_all

lemma try_extract_sni_greedy_np [no_panic]: "returns (try_extract_sni_greedy data ap)"
  unfolding try_extract_sni_greedy_def by (intro no_panic) simp_all

lemma patterns_np:
  assumes "offset < length payload - 10"
  shows "returns (tls_record_at payload offset)" and "returns (direct_handshake_at payload offset)"
    and "returns (sni_pattern_at payload offset)" and "returns (alpn_pattern_at payload offset)"
  unfolding tls_record_at_def direct_handshake_at_def sni_pattern_at_def alpn_pattern_at_def
  using assms by - (intro no_panic; simp)+

lemma try_parse_unencrypted_np [no_panic]: "returns (try_parse_unencrypted_crypto_frames payload)"
  unfolding try_parse_unencrypted_crypto_frames_def
  by (intro no_panic) (auto simp: patterns_np)

section \<open>Server names are host names\<close>

definition sni_ok :: "bytes \<Rightarrow> bool" where
  "sni_ok s \<longleftrightarrow> is_valid_hostname s
     \<or> (\<exists>h. is_valid_partial_hostname h \<and> s = mark_partial_sni h)"

definition tls_sni_ok :: "TlsInfo \<Rightarrow> bool" where
  "tls_sni_ok info \<longleftrightarrow> (\<forall>s. tls_sni info = Some s \<longrightarrow> sni_ok s)"

lemma not_partial_valid: "is_valid_hostname h \<Longrightarrow> \<not> is_partial_sni h"
proof
  assume v: "is_valid_hostname h" and "is_partial_sni h"
  then have "h \<noteq> [] \<and> last h = 93"
    using ends_with_last [of h PARTIAL_SNI_MARKER]
    by (simp add: is_partial_sni_def PARTIAL_SNI_MARKER_def ascii_def)
  moreover have "list_all hostname_char h"
    using v by (simp add: is_valid_hostname_def split: if_splits)
  ultimately have "hostname_char 93" by (metis last_in_set list_all_iff)
  then show False
    by (simp add: hostname_char_def is_ascii_alphanumeric_def is_ascii_alphabetic_def dot_def hyphen_def)
qed

lemma is_partial_mark [simp]: "is_partial_sni (mark_partial_sni h)"
  by (simp add: is_partial_sni_def mark_partial_sni_def)

text \<open>The marker tells the two kinds apart.\<close>

lemma sni_ok_complete: "sni_ok s \<Longrightarrow> \<not> is_partial_sni s \<longleftrightarrow> is_valid_hostname s"
  using not_partial_valid by (auto simp: sni_ok_def)

named_theorems sni_facts "where a server name comes from"

lemma from_utf8_Some [simp]: "from_utf8 bs = Some s \<longleftrightarrow> utf8_valid bs \<and> s = bs"
  by (auto simp: from_utf8_def)

lemma parse_sni_extension_ok [sni_facts]: "parse_sni_extension data ap = Some (Some s) \<Longrightarrow> sni_ok s"
  by (auto simp: parse_sni_extension_def sni_ok_def Let_def
      split: bind_splits option.splits if_splits)

lemma greedy_at_ok [sni_facts]: "greedy_at data ap i = Some (Some s) \<Longrightarrow> sni_ok s"
  by (auto simp: greedy_at_def sni_ok_def Let_def split: bind_splits option.splits if_splits)

lemma try_extract_sni_greedy_ok [sni_facts]:
  "try_extract_sni_greedy data ap = Some (Some s) \<Longrightarrow> sni_ok s"
  by (auto simp: try_extract_sni_greedy_def greedy_at_ok dest!: first_hit_Some split: if_splits)

lemma tls_sni_ok_new [simp]: "tls_sni_ok TlsInfo_new"
  by (simp add: tls_sni_ok_def TlsInfo_new_def)

lemma tls_sni_ok_update [simp]:
  "tls_sni_ok (info\<lparr>tls_sni := Some s\<rparr>) \<longleftrightarrow> sni_ok s"
  "tls_sni_ok (info\<lparr>tls_alpn := a\<rparr>) \<longleftrightarrow> tls_sni_ok info"
  "tls_sni_ok (info\<lparr>tls_version := v\<rparr>) \<longleftrightarrow> tls_sni_ok info"
  "tls_sni_ok (info\<lparr>tls_cipher_suite := c\<rparr>) \<longleftrightarrow> tls_sni_ok info"
  by (simp_all add: tls_sni_ok_def)

lemma apply_extension_ok [sni_facts]:
  "apply_extension is_client ap t d info = Some info' \<Longrightarrow> tls_sni_ok info \<Longrightarrow> tls_sni_ok info'"
  by (auto simp: apply_extension_def parse_sni_extension_ok split: bind_splits option.splits if_splits)

lemma truncated_extension_ok [sni_facts]:
  "truncated_extension data is_client ap t off info = Some info' \<Longrightarrow> tls_sni_ok info \<Longrightarrow> tls_sni_ok info'"
  by (auto simp: truncated_extension_def parse_sni_extension_ok Let_def
      split: bind_splits option.splits if_splits)

lemma parse_tls_extensions_from_ok [sni_facts]:
  "parse_tls_extensions_from data is_client ap off info = Some info' \<Longrightarrow> tls_sni_ok info \<Longrightarrow>
   tls_sni_ok info'"
proof (induction "length data - off" arbitrary: off info rule: less_induct)
  case less
  show ?case
  proof (cases "off + 4 \<le> length data")
    case False
    then show ?thesis using less.prems by (simp add: parse_tls_extensions_from.simps)
  next
    case True
    obtain t where t: "be16_at data off = Some t" using True by simp
    obtain l where l: "be16_at data (off + 2) = Some l" using True by simp
    show ?thesis
    proof (cases "off + 4 + l > length data")
      case cut: True
      then show ?thesis using less.prems True t l truncated_extension_ok
        by (simp add: parse_tls_extensions_from.simps [of data is_client ap off info])
    next
      case False
      then obtain mid where mid: "apply_extension is_client ap t (take l (drop (off + 4) data)) info = Some mid"
        and rest: "parse_tls_extensions_from data is_client ap (off + 4 + l) mid = Some info'"
        using less.prems(1) True t l
        by (auto simp: parse_tls_extensions_from.simps [of data is_client ap off info] split: bind_splits)
      have "tls_sni_ok mid" using apply_extension_ok [OF mid less.prems(2)] .
      then show ?thesis using less.hyps [OF _ rest] True by linarith
    qed
  qed
qed

lemma client_hello_ok [sni_facts]:
  "parse_partial_client_hello data info ap = Some info' \<Longrightarrow> tls_sni_ok info \<Longrightarrow> tls_sni_ok info'"
  by (auto simp: parse_partial_client_hello_def Let_def parse_tls_extensions_def
      parse_tls_extensions_from_ok split: bind_splits if_splits)

lemma server_hello_ok [sni_facts]:
  "parse_partial_server_hello data info = Some info' \<Longrightarrow> tls_sni_ok info \<Longrightarrow> tls_sni_ok info'"
  by (auto simp: parse_partial_server_hello_def Let_def parse_tls_extensions_def
      parse_tls_extensions_from_ok split: bind_splits if_splits)

lemma handshake_ok [sni_facts]:
  "parse_partial_tls_handshake data ap = Some (Some info) \<Longrightarrow> tls_sni_ok info"
  by (auto simp: parse_partial_tls_handshake_def Let_def useful_def
      dest: client_hello_ok server_hello_ok split: bind_splits if_splits)

lemma unencrypted_ok [sni_facts]:
  "try_parse_unencrypted_crypto_frames data = Some (Some info) \<Longrightarrow> tls_sni_ok info"
proof -
  assume "try_parse_unencrypted_crypto_frames data = Some (Some info)"
  then obtain off where "first_hit (\<lambda>pattern_at. pattern_at data off)
      [tls_record_at, direct_handshake_at, sni_pattern_at, alpn_pattern_at] = Some (Some info)"
    unfolding try_parse_unencrypted_crypto_frames_def by (blast dest: first_hit_Some)
  then obtain p where "p \<in> set [tls_record_at, direct_handshake_at, sni_pattern_at, alpn_pattern_at]"
    and "p data off = Some (Some info)"
    by (blast dest: first_hit_Some)
  then consider "tls_record_at data off = Some (Some info)"
    | "direct_handshake_at data off = Some (Some info)" | "sni_pattern_at data off = Some (Some info)"
    | "alpn_pattern_at data off = Some (Some info)" by auto
  then show ?thesis
  proof cases
    case 1
    then show ?thesis by (auto simp: tls_record_at_def handshake_ok split: bind_splits if_splits)
  next
    case 2
    then show ?thesis by (auto simp: direct_handshake_at_def Let_def handshake_ok split: bind_splits if_splits)
  next
    case 3
    then show ?thesis by (auto simp: sni_pattern_at_def parse_sni_extension_ok split: bind_splits if_splits)
  next
    case 4
    then show ?thesis by (auto simp: alpn_pattern_at_def split: bind_splits if_splits)
  qed
qed

section \<open>A ClientHello is read back\<close>

text \<open>The wire format (RFC 8446, 4.1.2): what a client sends.\<close>

definition encode_extension :: "nat \<times> bytes \<Rightarrow> bytes" where
  "encode_extension e = be16 (word_of_nat (fst e)) @ be16 (word_of_nat (length (snd e))) @ snd e"

definition encode_sni :: "bytes \<Rightarrow> bytes" where
  "encode_sni h = be16 (word_of_nat (length h + 3)) @ 0 # be16 (word_of_nat (length h)) @ h"

record client_hello =
  ch_version_random :: bytes
  ch_session_id :: bytes
  ch_cipher_suites :: bytes
  ch_compression :: bytes
  ch_extensions :: "(nat \<times> bytes) list"

definition ch_body :: "client_hello \<Rightarrow> bytes" where
  "ch_body ch = ch_version_random ch
     @ word_of_nat (length (ch_session_id ch)) # ch_session_id ch
     @ be16 (word_of_nat (length (ch_cipher_suites ch))) @ ch_cipher_suites ch
     @ word_of_nat (length (ch_compression ch)) # ch_compression ch
     @ be16 (word_of_nat (length (concat (map encode_extension (ch_extensions ch)))))
     @ concat (map encode_extension (ch_extensions ch))"

definition encode_client_hello :: "client_hello \<Rightarrow> bytes" where
  "encode_client_hello ch = 1 # drop 1 (ne_bytes Big 4 (length (ch_body ch))) @ ch_body ch"

definition ch_ok :: "client_hello \<Rightarrow> bool" where
  "ch_ok ch \<longleftrightarrow> length (ch_version_random ch) = 34 \<and> length (ch_session_id ch) < 256
     \<and> length (ch_cipher_suites ch) < 65536 \<and> length (ch_compression ch) < 256
     \<and> length (concat (map encode_extension (ch_extensions ch))) < 65536
     \<and> (\<forall>e \<in> set (ch_extensions ch). fst e < 65536) \<and> length (ch_body ch) \<le> 65536"

lemma length_encode_extension [simp]: "length (encode_extension e) = 4 + length (snd e)"
  by (simp add: encode_extension_def)

lemma length_concat_ge: "x \<in> set xs \<Longrightarrow> length x \<le> length (concat xs)"
  by (induction xs) auto

fun apply_extensions :: "bool \<Rightarrow> bool \<Rightarrow> (nat \<times> bytes) list \<Rightarrow> TlsInfo \<Rightarrow> TlsInfo option" where
  "apply_extensions is_client ap [] info = Some info"
| "apply_extensions is_client ap ((t, d) # es) info = do {
     info \<leftarrow> apply_extension is_client ap t d info;
     apply_extensions is_client ap es info
   }"

lemma parse_tls_extensions_encoded:
  assumes "\<forall>e \<in> set es. fst e < 65536 \<and> length (snd e) < 65536" and "length pre = off"
  shows "parse_tls_extensions_from (pre @ concat (map encode_extension es)) is_client ap off info =
           apply_extensions is_client ap es info"
  using assms
proof (induction es arbitrary: pre off info)
  case Nil
  then show ?case by (simp add: parse_tls_extensions_from.simps)
next
  case (Cons e es)
  obtain t d where e: "e = (t, d)" by (cases e)
  have small: "t < 65536" "length d < 65536" using Cons.prems(1) e by auto
  define D where "D = pre @ concat (map encode_extension (e # es))"
  let ?tb = "be16 (word_of_nat t)" and ?lb = "be16 (word_of_nat (length d))"
  let ?rest = "concat (map encode_extension es)"
  have data: "D = pre @ ?tb @ ?lb @ d @ ?rest" by (simp add: D_def encode_extension_def e)
  have t: "be16_at D off = Some t"
    using be16_at_be16 [of pre off "word_of_nat t"] Cons.prems(2) small
    unfolding data by (simp add: unat_of_nat)
  have l: "be16_at D (off + 2) = Some (length d)"
    using be16_at_be16 [of "pre @ ?tb" "off + 2" "word_of_nat (length d)" "d @ ?rest"] Cons.prems(2) small
    unfolding data by (simp add: unat_of_nat)
  have s: "sub_slice (off + 4) (off + 4 + length d) D = Some d"
    using sub_slice_append [of "pre @ ?tb @ ?lb" "off + 4" d "length d" ?rest] Cons.prems(2)
    unfolding data by simp
  have later: "parse_tls_extensions_from D is_client ap (off + 4 + length d) =
      apply_extensions is_client ap es"
    using Cons.IH [of "pre @ ?tb @ ?lb @ d" "off + 4 + length d"] Cons.prems
    unfolding data by (intro ext) simp
  have fits: "off + 4 + length d \<le> length D" using Cons.prems(2) unfolding data by simp
  then have "parse_tls_extensions_from D is_client ap off info = apply_extensions is_client ap (e # es) info"
    using t l s later e
    by (simp add: parse_tls_extensions_from.simps [of D is_client ap off info])
  then show ?case unfolding D_def .
qed

lemma parse_client_hello_fields:
  assumes "length data = 40 + s + c + m + e"
    and "byte_at data 34 = Some sb" "unat sb = s" and "be16_at data (35 + s) = Some c"
    and "byte_at data (37 + s + c) = Some mb" "unat mb = m" and "be16_at data (38 + s + c + m) = Some e"
    and "sub_slice (40 + s + c + m) (40 + s + c + m + e) data = Some exts"
  shows "parse_partial_client_hello data info ap =
           (if e > 0 then parse_tls_extensions exts info True ap else Some info)"
  using assms
  by (simp add: parse_partial_client_hello_def Let_def add.assoc
      del: byte_at_ok be16_at_ok sub_slice_ok)

lemma parse_client_hello_body:
  assumes "ch_ok ch"
  shows "parse_partial_client_hello (ch_body ch) info ap =
           apply_extensions True ap (ch_extensions ch) info"
proof -
  let ?sid = "ch_session_id ch" and ?cs = "ch_cipher_suites ch" and ?cm = "ch_compression ch"
  let ?E = "concat (map encode_extension (ch_extensions ch))"
  let ?p1 = "ch_version_random ch"
  let ?p2 = "?p1 @ word_of_nat (length ?sid) # ?sid"
  let ?p3 = "?p2 @ be16 (word_of_nat (length ?cs)) @ ?cs"
  let ?p4 = "?p3 @ word_of_nat (length ?cm) # ?cm"
  let ?b = "ch_body ch"
  have len: "length ?p1 = 34" "length ?sid < 256" "length ?cs < 65536" "length ?cm < 256"
      "length ?E < 65536"
    using assms by (simp_all add: ch_ok_def)
  have b: "?b = ?p4 @ be16 (word_of_nat (length ?E)) @ ?E" by (simp add: ch_body_def)
  have n: "length ?b = 40 + length ?sid + length ?cs + length ?cm + length ?E"
    using len(1) by (simp add: ch_body_def)
  have 1: "byte_at ?b 34 = Some (word_of_nat (length ?sid))"
    using len(1) by (simp add: ch_body_def byte_at_def nth_append)
  have 2: "be16_at ?b (35 + length ?sid) = Some (length ?cs)"
    using be16_at_be16 [of ?p2 "35 + length ?sid" "word_of_nat (length ?cs)"] len
    by (simp add: ch_body_def unat_of_nat)
  have 3: "byte_at ?b (37 + length ?sid + length ?cs) = Some (word_of_nat (length ?cm))"
    using len(1) by (simp add: ch_body_def byte_at_def nth_append)
  have 4: "be16_at ?b (38 + length ?sid + length ?cs + length ?cm) = Some (length ?E)"
    using be16_at_be16 [of ?p4 "38 + length ?sid + length ?cs + length ?cm" "word_of_nat (length ?E)"] len
    unfolding b by (simp add: unat_of_nat)
  have 5: "sub_slice (40 + length ?sid + length ?cs + length ?cm)
      (40 + length ?sid + length ?cs + length ?cm + length ?E) ?b = Some ?E"
    using sub_slice_append [of "?p4 @ be16 (word_of_nat (length ?E))"
        "40 + length ?sid + length ?cs + length ?cm" ?E "length ?E" "[]"] len(1)
    unfolding b by simp
  have small: "\<forall>e \<in> set (ch_extensions ch). fst e < 65536 \<and> length (snd e) < 65536"
  proof
    fix e assume e: "e \<in> set (ch_extensions ch)"
    then have "length (encode_extension e) \<le> length ?E"
      by (intro length_concat_ge) simp
    then show "fst e < 65536 \<and> length (snd e) < 65536"
      using e len(5) assms by (simp add: ch_ok_def)
  qed
  have exts: "parse_tls_extensions ?E info True ap = apply_extensions True ap (ch_extensions ch) info"
    using parse_tls_extensions_encoded [OF small, of "[]" 0] by (simp add: parse_tls_extensions_def)
  have u: "unat (word_of_nat (length ?sid) :: u8) = length ?sid"
      "unat (word_of_nat (length ?cm) :: u8) = length ?cm"
    using len by (simp_all add: unat_of_nat)
  have "length ?E = 0 \<Longrightarrow> ch_extensions ch = []" by (cases "ch_extensions ch") auto
  then show ?thesis
    using parse_client_hello_fields [OF n 1 u(1) 2 3 u(2) 4 5, of info ap] exts by auto
qed

lemma bytes3_of_length:
  assumes "n < 16777216"
  obtains l1 l2 l3 where "drop 1 (ne_bytes Big 4 n) = [l1, l2, l3]" and "be_nat [0, l1, l2, l3] = n"
proof -
  let ?l1 = "word_of_nat (n div 256 div 256 mod 256) :: u8" and ?l2 = "word_of_nat (n div 256 mod 256) :: u8"
    and ?l3 = "word_of_nat (n mod 256) :: u8"
  have four: "ne_bytes Big 4 n = [word_of_nat (n div 256 div 256 div 256 mod 256), ?l1, ?l2, ?l3]"
    by (simp add: ne_bytes_def le_bytes_numeral)
  have "n div 256 div 256 div 256 = 0" using assms by (simp add: div_mult2_eq [symmetric])
  then have zero: "ne_bytes Big 4 n = [0, ?l1, ?l2, ?l3]" using four by simp
  moreover have "be_nat (ne_bytes Big 4 n) = n" using assms by (simp add: ne_nat_ne_bytes)
  ultimately show thesis using that [of ?l1 ?l2 ?l3] by simp
qed

lemma parse_encoded_client_hello:
  assumes ok: "ch_ok ch"
  shows "parse_partial_tls_handshake (encode_client_hello ch) ap =
           map_option useful (apply_extensions True ap (ch_extensions ch) TlsInfo_new)"
proof -
  have n: "length (ch_body ch) \<le> 65536" using ok by (simp add: ch_ok_def)
  then have "length (ch_body ch) < 16777216" by simp
  then obtain l1 l2 l3 where l: "drop 1 (ne_bytes Big 4 (length (ch_body ch))) = [l1, l2, l3]"
    and v: "be_nat [0, l1, l2, l3] = length (ch_body ch)"
    by (rule bytes3_of_length)
  have e: "encode_client_hello ch = 1 # l1 # l2 # l3 # ch_body ch"
    using l by (simp add: encode_client_hello_def)
  show ?thesis
    using n v parse_client_hello_body [OF ok, of TlsInfo_new ap]
    by (cases "apply_extensions True ap (ch_extensions ch) TlsInfo_new")
       (simp_all add: parse_partial_tls_handshake_def e byte_at_def Let_def)
qed

lemma valid_hostname_utf8: "is_valid_hostname h \<Longrightarrow> utf8_valid h"
proof -
  assume "is_valid_hostname h"
  then have "list_all hostname_char h" by (simp add: is_valid_hostname_def split: if_splits)
  then have "\<forall>c \<in> set h. c < 128"
    by (auto simp: list_all_iff hostname_char_def dot_def hyphen_def dest!: bspec alnum_ascii)
  then show ?thesis by (rule utf8_valid_all_ascii)
qed

lemma parse_encoded_sni:
  assumes "is_valid_hostname h"
  shows "parse_sni_extension (encode_sni h) ap = Some (Some h)"
proof -
  have len: "4 \<le> length h" "length h \<le> 253"
    using assms by (simp_all add: is_valid_hostname_def split: if_splits)
  obtain a b where ab: "be16 (word_of_nat (length h + 3)) = [a, b]"
    by (rule be16_pair)
  obtain c d where cd: "be16 (word_of_nat (length h)) = [c, d]"
    by (rule be16_pair)
  have v: "be_nat [c, d] = length h"
    using be_nat_be16_bytes [of "word_of_nat (length h)"] cd len by (simp add: unat_of_nat)
  have e: "encode_sni h = a # b # 0 # c # d # h" unfolding encode_sni_def ab cd by simp
  have "parse_sni_header (encode_sni h) = Some (Some \<lparr>list_len = be_nat [a, b], name_len = length h\<rparr>)"
    using len v by (auto simp: parse_sni_header_def e be16_at_def byte_at_def)
  moreover have "sub_slice 5 (5 + length h) (encode_sni h) = Some h"
    using sub_slice_append [of "[a, b, 0, c, d]" 5 h "length h" "[]"] by (simp add: e)
  moreover have "5 + length h \<le> length (encode_sni h)" by (simp add: e)
  ultimately show ?thesis
    using assms valid_hostname_utf8 [OF assms]
    by (simp add: parse_sni_extension_def Let_def from_utf8_def del: sub_slice_ok from_utf8_Some)
qed

text \<open>Only an extension of type 0 touches the server name.\<close>

lemma apply_extension_sni:
  "apply_extension True ap t d info = Some info' \<Longrightarrow> t \<noteq> 0 \<Longrightarrow> tls_sni info' = tls_sni info"
  by (auto simp: apply_extension_def split: bind_splits option.splits if_splits)

lemma apply_extensions_sni:
  "apply_extensions True ap es info = Some info' \<Longrightarrow> \<forall>e \<in> set es. fst e \<noteq> 0 \<Longrightarrow>
   tls_sni info' = tls_sni info"
proof (induction es arbitrary: info)
  case (Cons e es)
  then show ?case
    by (cases e) (auto split: bind_splits dest!: apply_extension_sni)
qed simp

lemma apply_extensions_np [no_panic]: "returns (apply_extensions is_client ap es info)"
  by (induction is_client ap es info rule: apply_extensions.induct) (auto intro!: no_panic)

lemma apply_extensions_append:
  "apply_extensions c ap (es @ es') info = do {
     info \<leftarrow> apply_extensions c ap es info;
     apply_extensions c ap es' info
   }"
proof (induction es arbitrary: info)
  case (Cons e es)
  obtain t d where "e = (t, d)" by (cases e)
  then show ?case using Cons by (cases "apply_extension c ap t d info") simp_all
qed simp

lemma apply_encoded_sni:
  assumes "is_valid_hostname h" and "\<forall>e \<in> set post. fst e \<noteq> 0"
  obtains info where "apply_extensions True ap (pre @ (0, encode_sni h) # post) TlsInfo_new = Some info"
    and "tls_sni info = Some h"
proof -
  obtain i1 where 1: "apply_extensions True ap pre TlsInfo_new = Some i1"
    using apply_extensions_np by (rule returns_obtain)
  have 2: "apply_extension True ap 0 (encode_sni h) i1 = Some (i1\<lparr>tls_sni := Some h\<rparr>)"
    by (simp add: apply_extension_def parse_encoded_sni [OF assms(1)])
  obtain i3 where 3: "apply_extensions True ap post (i1\<lparr>tls_sni := Some h\<rparr>) = Some i3"
    using apply_extensions_np by (rule returns_obtain)
  then have "tls_sni i3 = Some h" using apply_extensions_sni [OF 3 assms(2)] by simp
  then show thesis using that [of i3] 1 2 3 by (simp add: apply_extensions_append)
qed

text \<open>A host name in a ClientHello is what the parser returns.\<close>

lemma parse_encoded_client_hello_sni:
  assumes "ch_ok ch" and "ch_extensions ch = pre @ (0, encode_sni h) # post"
    and "is_valid_hostname h" and "\<forall>e \<in> set post. fst e \<noteq> 0"
  obtains info where "parse_partial_tls_handshake (encode_client_hello ch) ap = Some (Some info)"
    and "tls_sni info = Some h"
proof -
  obtain info where "apply_extensions True ap (ch_extensions ch) TlsInfo_new = Some info"
    and "tls_sni info = Some h"
    using apply_encoded_sni [OF assms(3,4)] assms(2) by metis
  then show thesis using that [of info] parse_encoded_client_hello [OF assms(1), of ap]
    by (simp add: useful_def)
qed

section \<open>Properties\<close>

text \<open>A well-formed ClientHello whose last server name extension names \<open>h\<close>.\<close>

definition names_host :: "client_hello \<Rightarrow> bytes \<Rightarrow> bool" where
  "names_host ch h \<longleftrightarrow> ch_ok ch \<and> is_valid_hostname h
     \<and> (\<exists>pre post. ch_extensions ch = pre @ (0, encode_sni h) # post \<and> (\<forall>e \<in> set post. fst e \<noteq> 0))"

lemma parse_names_host:
  assumes "names_host ch h"
  obtains info where "parse_partial_tls_handshake (encode_client_hello ch) ap = Some (Some info)"
    and "tls_sni info = Some h"
  using assms parse_encoded_client_hello_sni [of ch _ h _ ap] unfolding names_host_def by metis

definition sample_host :: bytes where "sample_host = ascii ''example.com''"

definition sample_hello :: client_hello where
  "sample_hello = \<lparr>ch_version_random = [3, 3] @ replicate 32 7, ch_session_id = replicate 32 9,
     ch_cipher_suites = [0x13, 0x01, 0x13, 0x02], ch_compression = [0],
     ch_extensions = [(0, encode_sni sample_host), (43, [2, 3, 4])]\<rparr>"

lemma sample_names_host: "names_host sample_hello sample_host"
proof -
  have "is_valid_hostname sample_host" by code_simp
  moreover have "ch_ok sample_hello"
    by (simp add: ch_ok_def ch_body_def sample_hello_def encode_sni_def sample_host_def ascii_def)
  moreover have "ch_extensions sample_hello = [] @ (0, encode_sni sample_host) # [(43, [2, 3, 4])]"
    by (simp add: sample_hello_def)
  ultimately show ?thesis unfolding names_host_def by fastforce
qed

text \<open>The server name of every well-formed ClientHello (RFC 8446, 4.1.2, with any other
  extensions around the last server name extension) is read back by the handshake parser.\<close>

theorem client_hello_sni_roundtrip:
  assumes "names_host ch h"
  shows "map_option (map_option tls_sni) (parse_partial_tls_handshake (encode_client_hello ch) ap)
           = Some (Some (Some h))"
  using assms by (rule parse_names_host [where ap = ap]) simp

theorem client_hello_sni_roundtrip_witness:
  "map_option (map_option tls_sni) (parse_partial_tls_handshake (encode_client_hello sample_hello) False)
     = Some (Some (Some sample_host))"
  by (rule client_hello_sni_roundtrip [OF sample_names_host])

end
