(* ===== verification/DpiTls.thy ===== *)
theory DpiTls
  imports RustText QuicTls
begin

text \<open>
  TLS over TCP: \<^verbatim>\<open>dpi/https.rs\<close>, which reads the record header, the handshake header and the
  ClientHello or ServerHello as far as the segment reaches. The outer \<open>None\<close> is a panic. Every
  well-formed ClientHello in a record is read back, with the name that the QUIC parser of
  \<^verbatim>\<open>QuicTls\<close> finds in it.
\<close>

definition MAX_TLS_EXTENSIONS :: nat where "MAX_TLS_EXTENSIONS = 100"

definition is_tls_handshake :: "bytes \<Rightarrow> bool option" where
  "is_tls_handshake payload =
     (if length payload < 5 then Some False
      else do {
        content_type \<leftarrow> byte_at payload 0;
        major \<leftarrow> byte_at payload 1;
        minor \<leftarrow> byte_at payload 2;
        Some (content_type = 0x16 \<and> major = 0x03 \<and> 0x01 \<le> minor \<and> minor \<le> 0x04)
      })"

definition version_from_bytes :: "u8 \<Rightarrow> u8 \<Rightarrow> TlsVersion option" where
  "version_from_bytes major minor =
     (if major \<noteq> 3 then None else if minor = 1 then Some Tls10 else if minor = 2 then Some Tls11
      else if minor = 3 then Some Tls12 else if minor = 4 then Some Tls13 else None)"

definition version_at :: "bytes \<Rightarrow> nat \<Rightarrow> TlsVersion option option" where
  "version_at data i = do { a \<leftarrow> byte_at data i; b \<leftarrow> byte_at data (i + 1); Some (version_from_bytes a b) }"

section \<open>Extensions\<close>

text \<open>\<open>format!("{}[PARTIAL]", s)\<close> for a text that is shorter than declared.\<close>

definition mark_cut :: "nat \<Rightarrow> nat \<Rightarrow> bytes \<Rightarrow> bytes" where
  "mark_cut actual declared s = (if actual < declared then s @ PARTIAL_SNI_MARKER else s)"

definition parse_sni_extension_resilient :: "bytes \<Rightarrow> bytes option option" where
  "parse_sni_extension_resilient data =
     (if length data < 5 then Some None
      else do {
        name_type \<leftarrow> byte_at data 2;
        if name_type \<noteq> 0 then Some None
        else do {
          name_len \<leftarrow> be16_at data 3;
          let actual_len = min name_len (length data - 5);
          if actual_len = 0 then Some None
          else do {
            hostname_bytes \<leftarrow> sub_slice 5 (5 + actual_len) data;
            Some (case from_utf8 hostname_bytes of
                    None \<Rightarrow> None
                  | Some hostname \<Rightarrow>
                      if list_all is_ascii_graphic hostname then Some (mark_cut actual_len name_len hostname) else None)
          }
        }
      })"

function alpn_resilient_from :: "bytes \<Rightarrow> nat \<Rightarrow> nat \<Rightarrow> bytes list \<Rightarrow> bytes list option" where
  "alpn_resilient_from data list_end offset protocols =
     (if offset < list_end \<and> offset < length data then do {
        b \<leftarrow> byte_at data offset;
        let proto_len = unat b;
        let actual_len = min proto_len (min (list_end - (offset + 1)) (length data - (offset + 1)));
        protocols \<leftarrow> (if actual_len > 0 then do {
            s \<leftarrow> sub_slice (offset + 1) (offset + 1 + actual_len) data;
            Some (case from_utf8 s of
                    Some proto \<Rightarrow> protocols @ [mark_cut actual_len proto_len proto] | None \<Rightarrow> protocols)
          } else Some protocols);
        alpn_resilient_from data list_end (offset + 1 + proto_len) protocols
      }
      else Some protocols)"
  by pat_completeness auto
termination
  by (relation "measure (\<lambda>(data, _, offset, _). length data - offset)") auto

declare alpn_resilient_from.simps [simp del]

definition parse_alpn_extension_resilient :: "bytes \<Rightarrow> bytes list option option" where
  "parse_alpn_extension_resilient data =
     (if length data < 2 then Some None
      else do {
        alpn_len \<leftarrow> be16_at data 0;
        protocols \<leftarrow> alpn_resilient_from data (2 + min alpn_len (length data - 2)) 2 [];
        Some (if protocols = [] then None else Some protocols)
      })"

definition version_to_priority :: "TlsVersion \<Rightarrow> u8" where
  "version_to_priority v = (case v of Tls10 \<Rightarrow> 1 | Tls11 \<Rightarrow> 2 | Tls12 \<Rightarrow> 3 | Tls13 \<Rightarrow> 4)"

definition higher_version :: "TlsVersion option \<Rightarrow> TlsVersion \<Rightarrow> TlsVersion" where
  "higher_version best v2 =
     (case best of
        None \<Rightarrow> v2
      | Some v1 \<Rightarrow> if version_to_priority v2 > version_to_priority v1 then v2 else v1)"

function best_version_from :: "bytes \<Rightarrow> nat \<Rightarrow> nat \<Rightarrow> TlsVersion option \<Rightarrow> TlsVersion option option" where
  "best_version_from data listlen offset best =
     (if offset + 1 < length data \<and> offset < 1 + listlen then do {
        version \<leftarrow> version_at data offset;
        let best = (case version of Some v \<Rightarrow> Some (higher_version best v) | None \<Rightarrow> best);
        best_version_from data listlen (offset + 2) best
      }
      else Some best)"
  by pat_completeness auto
termination
  by (relation "measure (\<lambda>(data, _, offset, _). length data - offset)") auto

declare best_version_from.simps [simp del]

definition parse_supported_versions_resilient :: "bytes \<Rightarrow> bool \<Rightarrow> TlsVersion option option" where
  "parse_supported_versions_resilient data is_client_hello =
     (if is_client_hello then
        if data = [] then Some None
        else do {
          listlen \<leftarrow> byte_at data 0;
          best_version_from data (unat listlen) 1 None
        }
      else if length data < 2 then Some None
      else version_at data 0)"

text \<open>The \<open>match\<close> on the type of an extension that has data.\<close>

definition apply_tls_extension :: "bool \<Rightarrow> nat \<Rightarrow> bytes \<Rightarrow> TlsInfo \<Rightarrow> TlsInfo option" where
  "apply_tls_extension is_client_hello ext_type ext_data info =
     (if ext_type = 0x0000 \<and> is_client_hello then do {
        r \<leftarrow> parse_sni_extension_resilient ext_data;
        Some (case r of Some sni \<Rightarrow> info\<lparr>tls_sni := Some sni\<rparr> | None \<Rightarrow> info)
      }
      else if ext_type = 0x0010 then do {
        r \<leftarrow> parse_alpn_extension_resilient ext_data;
        Some (case r of Some alpn \<Rightarrow> if alpn \<noteq> [] then info\<lparr>tls_alpn := alpn\<rparr> else info | None \<Rightarrow> info)
      }
      else if ext_type = 0x002b then do {
        r \<leftarrow> parse_supported_versions_resilient ext_data is_client_hello;
        Some (case r of Some version \<Rightarrow> info\<lparr>tls_version := Some version\<rparr> | None \<Rightarrow> info)
      }
      else Some info)"

text \<open>The loop of \<open>parse_extensions\<close>; \<open>parsed\<close> extensions have been looked at before.\<close>

function parse_extensions_from :: "bytes \<Rightarrow> bool \<Rightarrow> nat \<Rightarrow> nat \<Rightarrow> TlsInfo \<Rightarrow> TlsInfo option" where
  "parse_extensions_from data is_client_hello parsed offset info =
     (if offset + 4 \<le> length data then
        if parsed + 1 > MAX_TLS_EXTENSIONS then Some info
        else do {
          ext_type \<leftarrow> be16_at data offset;
          ext_len \<leftarrow> be16_at data (offset + 2);
          let ext_data_len = min ext_len (length data - (offset + 4));
          info \<leftarrow> (if ext_data_len > 0 then do {
              ext_data \<leftarrow> sub_slice (offset + 4) (offset + 4 + ext_data_len) data;
              apply_tls_extension is_client_hello ext_type ext_data info
            } else Some info);
          parse_extensions_from data is_client_hello (parsed + 1) (offset + 4 + ext_len) info
        }
      else Some info)"
  by pat_completeness auto
termination
  by (relation "measure (\<lambda>(data, _, _, offset, _). length data - offset)") auto

declare parse_extensions_from.simps [simp del]

definition parse_extensions :: "bytes \<Rightarrow> TlsInfo \<Rightarrow> bool \<Rightarrow> TlsInfo option" where
  "parse_extensions data info is_client_hello = parse_extensions_from data is_client_hello 0 0 info"

section \<open>Hello messages\<close>

text \<open>What follows the last fixed field of both: the extensions, as far as the data reaches.\<close>

definition hello_extensions :: "bytes \<Rightarrow> nat \<Rightarrow> bool \<Rightarrow> TlsInfo \<Rightarrow> TlsInfo option" where
  "hello_extensions data offset is_client_hello info =
     (if offset + 2 > length data then Some info
      else do {
        extensions_len \<leftarrow> be16_at data offset;
        let offset = offset + 2;
        if offset < length data then do {
          available \<leftarrow> sub_slice offset (min (length data) (offset + extensions_len)) data;
          if available \<noteq> [] then parse_extensions available info is_client_hello else Some info
        }
        else Some info
      })"

definition parse_client_hello :: "bytes \<Rightarrow> TlsInfo \<Rightarrow> TlsVersion option \<Rightarrow> TlsInfo option" where
  "parse_client_hello data info record_version =
     (if length data < 2 then Some info
      else do {
        client_version \<leftarrow> version_at data 0;
        let info = info\<lparr>tls_version := (case client_version of Some v \<Rightarrow> Some v | None \<Rightarrow> record_version)\<rparr>;
        if length data < 34 then Some info
        else if length data \<le> 34 then Some info
        else do {
          session_id_len \<leftarrow> byte_at data 34;
          let offset = 35 + unat session_id_len;
          if length data \<le> offset then Some info
          else if offset + 2 > length data then Some info
          else do {
            cipher_suites_len \<leftarrow> be16_at data offset;
            let offset = offset + 2 + cipher_suites_len;
            if length data \<le> offset then Some info
            else do {
              compression_len \<leftarrow> byte_at data offset;
              let offset = offset + 1 + unat compression_len;
              if length data \<le> offset then Some info else hello_extensions data offset True info
            }
          }
        }
      })"

definition parse_server_hello :: "bytes \<Rightarrow> TlsInfo \<Rightarrow> TlsInfo option" where
  "parse_server_hello data info =
     (if length data < 2 then Some info
      else do {
        server_version \<leftarrow> version_at data 0;
        let info = info\<lparr>tls_version := server_version\<rparr>;
        if length data < 34 then Some info
        else if length data \<le> 34 then Some info
        else do {
          session_id_len \<leftarrow> byte_at data 34;
          let offset = 35 + unat session_id_len;
          if length data \<le> offset then Some info
          else if offset + 2 > length data then Some info
          else do {
            cipher \<leftarrow> be16_at data offset;
            let info = info\<lparr>tls_cipher_suite := Some (word_of_nat cipher)\<rparr>;
            let offset = offset + 2;
            if length data \<le> offset then Some info else hello_extensions data (offset + 1) False info
          }
        }
      })"

section \<open>Records\<close>

definition handshake_type_known :: "u8 \<Rightarrow> bool" where
  "handshake_type_known t \<longleftrightarrow> t \<le> 0x18 \<or> t = 0xfe"

definition analyze_https :: "bytes \<Rightarrow> HttpsInfo option option" where
  "analyze_https payload =
     (if length payload < 5 then Some None
      else do {
        content_type \<leftarrow> byte_at payload 0;
        record_version \<leftarrow> version_at payload 1;
        let info = TlsInfo_new\<lparr>tls_version := record_version\<rparr>;
        let found = (\<lambda>info. Some \<lparr>https_tls_info = Some info\<rparr>);
        if content_type \<noteq> 0x16 then Some (found info)
        else do {
          record_length \<leftarrow> be16_at payload 3;
          let available_data = min (length payload - 5) record_length;
          if record_length > 16384 + 2048 then Some (found info)
          else if available_data < 4 then Some (found info)
          else do {
            handshake_data \<leftarrow> sub_slice 5 (5 + available_data) payload;
            handshake_type \<leftarrow> byte_at handshake_data 0;
            if \<not> handshake_type_known handshake_type then Some (found info)
            else do {
              l1 \<leftarrow> byte_at handshake_data 1;
              l2 \<leftarrow> byte_at handshake_data 2;
              l3 \<leftarrow> byte_at handshake_data 3;
              let handshake_length = be_nat [0, l1, l2, l3];
              let handshake_available = min (length handshake_data - 4) handshake_length;
              if handshake_length > 16384 then Some (found info)
              else if handshake_available = 0 then Some (found info)
              else do {
                body \<leftarrow> sub_slice 4 (4 + handshake_available) handshake_data;
                info \<leftarrow> (if handshake_type = 0x01 then parse_client_hello body info record_version
                         else if handshake_type = 0x02 then parse_server_hello body info
                         else Some info);
                Some (found info)
              }
            }
          }
        }
      })"

section \<open>No panic\<close>

lemma version_at_np [no_panic]: "i + 1 < length data \<Longrightarrow> returns (version_at data i)"
  unfolding version_at_def by (intro no_panic) auto

lemma is_tls_handshake_np [no_panic]: "returns (is_tls_handshake payload)"
  unfolding is_tls_handshake_def by (intro no_panic) auto

lemma sni_resilient_np [no_panic]: "returns (parse_sni_extension_resilient data)"
  unfolding parse_sni_extension_resilient_def by (intro no_panic) auto

lemma alpn_from_np [no_panic]: "returns (alpn_resilient_from data list_end offset protocols)"
proof (induction data list_end offset protocols rule: alpn_resilient_from.induct)
  case (1 data list_end offset protocols)
  show ?case by (subst alpn_resilient_from.simps) (intro no_panic 1; (assumption | auto))
qed

lemma alpn_resilient_np [no_panic]: "returns (parse_alpn_extension_resilient data)"
  unfolding parse_alpn_extension_resilient_def by (intro no_panic) auto

lemma best_version_np [no_panic]: "returns (best_version_from data listlen offset best)"
proof (induction data listlen offset best rule: best_version_from.induct)
  case (1 data listlen offset best)
  show ?case by (subst best_version_from.simps) (intro no_panic 1; (assumption | auto))
qed

lemma apply_tls_extension_np [no_panic]: "returns (apply_tls_extension is_client_hello ext_type ext_data info)"
  unfolding apply_tls_extension_def parse_supported_versions_resilient_def by (intro no_panic) auto

lemma parse_extensions_np [no_panic]: "returns (parse_extensions_from data is_client_hello parsed offset info)"
proof (induction data is_client_hello parsed offset info rule: parse_extensions_from.induct)
  case (1 data is_client_hello parsed offset info)
  show ?case by (subst parse_extensions_from.simps) (intro no_panic 1; (assumption | auto))
qed

lemma hello_np [no_panic]: "returns (hello_extensions data offset is_client_hello info)"
    "returns (parse_client_hello data info record_version)" "returns (parse_server_hello data info)"
proof -
  show e: "returns (hello_extensions data offset is_client_hello info)" for data offset is_client_hello info
    unfolding hello_extensions_def parse_extensions_def by (intro no_panic) auto
  show "returns (parse_client_hello data info record_version)" "returns (parse_server_hello data info)"
    unfolding parse_client_hello_def parse_server_hello_def by (intro no_panic e; auto)+
qed

lemma analyze_https_np [no_panic]: "returns (analyze_https payload)"
  unfolding analyze_https_def by (intro no_panic) auto

end
