(* ===== verification/QuicExtract.thy ===== *)
theory QuicExtract
  imports QuicTls
begin

text \<open>
  The strategies of \<^verbatim>\<open>try_extract_tls_from_reassembler\<close> (\<^verbatim>\<open>dpi/quic.rs\<close>): the contiguous
  prefix of the stream, single fragments that start with a TLS header, reconstruction of a
  host name from the fragments, and the greedy pattern search. The function both returns the
  TLS information and, where the server name is complete, caches it in the buffer. Debug
  output is left out. \<open>None\<close> is a panic, as in \<^verbatim>\<open>QuicTls\<close>.
\<close>

section \<open>Contiguous data and single fragments\<close>

definition try_extract_from_contiguous ::
  "CryptoFrameReassembler \<Rightarrow> bool \<Rightarrow> TlsInfo option option" where
  "try_extract_from_contiguous r allow_partial =
     (case get_contiguous_data r of
        None \<Rightarrow> Some None
      | Some reassembled \<Rightarrow>
          let threshold = (if allow_partial then 50 else 100) in
          if length reassembled < threshold then Some None
          else do {
            t \<leftarrow> parse_partial_tls_handshake reassembled allow_partial;
            case t of
              None \<Rightarrow> Some None
            | Some tls_info \<Rightarrow>
                if tls_sni tls_info = None \<and> tls_alpn tls_info = [] then Some None
                else Some (Some tls_info)
          })"

definition sni_or_alpn :: "TlsInfo option \<Rightarrow> TlsInfo option" where
  "sni_or_alpn t = (case t of
     None \<Rightarrow> None
   | Some tls_info \<Rightarrow> if tls_sni tls_info \<noteq> None \<or> tls_alpn tls_info \<noteq> [] then Some tls_info else None)"

text \<open>One round of the loop of \<open>try_extract_from_fragments\<close>.\<close>

definition fragment_tls :: "bool \<Rightarrow> bytes \<Rightarrow> TlsInfo option option" where
  "fragment_tls allow_partial d = do {
     first \<leftarrow> (if length d \<ge> 4 then map_option Some (byte_at d 0) else Some None);
     t \<leftarrow> (if first = Some 1 then parse_partial_tls_handshake d allow_partial else Some None);
     case sni_or_alpn t of
       Some tls_info \<Rightarrow> Some (Some tls_info)
     | None \<Rightarrow> do {
         first \<leftarrow> (if length d \<ge> 6 then map_option Some (byte_at d 0) else Some None);
         t \<leftarrow> (if first = Some 22 then try_parse_unencrypted_crypto_frames d else Some None);
         Some (sni_or_alpn t)
       }
   }"

definition try_extract_from_fragments ::
  "CryptoFrameReassembler \<Rightarrow> bool \<Rightarrow> TlsInfo option option" where
  "try_extract_from_fragments r allow_partial =
     first_hit (fragment_tls allow_partial) (map snd (fragments r))"

section \<open>Host name candidates\<close>

text \<open>\<open>find_hostname_candidates\<close>: runs of host name characters that start with a letter or
  digit; \<open>run_end\<close> is the inner loop.\<close>

function run_end :: "bytes \<Rightarrow> nat \<Rightarrow> nat" where
  "run_end data i = (if i < length data \<and> hostname_char (data ! i) then run_end data (i + 1) else i)"
  by pat_completeness auto
termination
  by (relation "measure (\<lambda>(data, i). length data - i)") auto

declare run_end.simps [simp del]

definition dots :: "bytes \<Rightarrow> nat" where
  "dots s = length (filter (\<lambda>c. c = dot) s)"

text \<open>Every combination of at least two consecutive parts, in the order of the two loops.\<close>

definition sub_candidates :: "bytes \<Rightarrow> bytes list" where
  "sub_candidates cleaned =
     (let parts = split_on dot cleaned in
      if length parts > 2 then
        [c. i \<leftarrow> [0..<length parts], j \<leftarrow> [i + 2..<length parts + 1],
            c \<leftarrow> [join [dot] (take (j - i) (drop i parts))], c \<noteq> cleaned \<and> length c \<ge> 4]
      else [])"

definition run_candidates :: "bytes \<Rightarrow> bytes list" where
  "run_candidates run =
     (if length run > 3 \<and> dot \<in> set run \<and> dots run \<le> 10 then
        case from_utf8 run of
          None \<Rightarrow> []
        | Some candidate \<Rightarrow>
            let cleaned = trim_matches (\<lambda>c. \<not> hostname_char c) candidate in
            if cleaned \<noteq> [] \<and> \<not> starts_with cleaned [dot] \<and> \<not> ends_with cleaned [dot]
               \<and> \<not> contains_str cleaned [dot, dot]
            then cleaned # sub_candidates cleaned
            else []
      else [])"

lemma run_end_ge: "i \<le> run_end data i"
proof (induction data i rule: run_end.induct)
  case (1 data i)
  then show ?case by (subst run_end.simps) auto
qed

lemma run_end_gt: "i < length data \<Longrightarrow> hostname_char (data ! i) \<Longrightarrow> i < run_end data i"
  using run_end_ge [of "i + 1" data] by (subst run_end.simps) simp

lemma run_end_le: "i \<le> length data \<Longrightarrow> run_end data i \<le> length data"
proof (induction data i rule: run_end.induct)
  case (1 data i)
  then show ?case by (subst run_end.simps) auto
qed

function candidates_from :: "bytes \<Rightarrow> nat \<Rightarrow> bytes list" where
  "candidates_from data i =
     (if i < length data then
        if is_ascii_alphanumeric (data ! i) then
          run_candidates (take (run_end data i - i) (drop i data)) @ candidates_from data (run_end data i)
        else candidates_from data (i + 1)
      else [])"
  by pat_completeness auto
termination
proof (relation "measure (\<lambda>(data, i). length data - i)")
  fix data i assume "i < length data" "is_ascii_alphanumeric (data ! i)"
  then show "((data, run_end data i), data, i) \<in> measure (\<lambda>(data, i). length data - i)"
    using run_end_gt [of i data] by (auto simp: hostname_char_def)
qed auto

declare candidates_from.simps [simp del]

text \<open>\<open>unique_candidates\<close>: the first occurrence of each is kept.\<close>

fun dedup :: "bytes list \<Rightarrow> bytes list \<Rightarrow> bytes list" where
  "dedup acc [] = acc"
| "dedup acc (c # cs) = dedup (if c \<in> set acc then acc else acc @ [c]) cs"

definition find_hostname_candidates :: "bytes \<Rightarrow> bytes list" where
  "find_hostname_candidates data = dedup [] (candidates_from data 0)"

section \<open>Reconstruction from fragments\<close>

definition sni_extension_at :: "bytes \<Rightarrow> nat \<Rightarrow> bytes option option" where
  "sni_extension_at data i = do {
     a \<leftarrow> byte_at data i;
     b \<leftarrow> byte_at data (i + 1);
     if a = 0 \<and> b = 0 then do {
       ext_len \<leftarrow> be16_at data (i + 2);
       if 5 \<le> ext_len \<and> ext_len \<le> 300 then do {
         available \<leftarrow> (if i + 4 + ext_len \<le> length data then sub_slice (i + 4) (i + 4 + ext_len) data
                      else sub_slice (i + 4) (length data) data);
         h \<leftarrow> parse_sni_header available;
         case h of
           None \<Rightarrow> Some None
         | Some header \<Rightarrow>
             if 3 \<le> list_len header \<and> list_len header \<le> 256
             then parse_sni_extension available True else Some None
       }
       else Some None
     }
     else Some None
   }"

definition scan_fragment :: "nat \<times> bytes \<Rightarrow> bytes option option" where
  "scan_fragment e =
     (if fst e > 200 then Some None
      else first_hit (sni_extension_at (snd e)) [0..<length (snd e) - 10])"

text \<open>The loop that joins the fragments, with zeros in small gaps: \<open>all_data\<close>,
  \<open>expected_offset\<close>, \<open>has_significant_gaps\<close>.\<close>

fun combine :: "bytes \<Rightarrow> nat \<Rightarrow> bool \<Rightarrow> (nat \<times> bytes) list \<Rightarrow> bytes \<times> bool" where
  "combine all_data expected gaps [] = (all_data, gaps)"
| "combine all_data expected gaps ((offset, data) # es) =
     (let gap_size = offset - expected;
          gaps' = (if offset > expected then
                     gaps \<or> expected < 100 \<and> gap_size > 50 \<or> gap_size > 300 else gaps);
          padded = (if offset > expected \<and> gap_size \<le> 100 \<and> all_data \<noteq> []
                    then all_data @ replicate gap_size 0 else all_data)
      in combine (padded @ data) (offset + length data) gaps' es)"

definition accepted_candidate :: "bool \<Rightarrow> bytes \<Rightarrow> bool" where
  "accepted_candidate gaps c =
     (if gaps then length c \<ge> 15 \<and> dots c \<ge> 2 \<and> is_valid_hostname c else is_valid_hostname c)"

text \<open>The comparison of the final \<open>sort_by\<close>: complete names first, then longer ones; the sort
  is stable.\<close>

definition candidate_key :: "bytes \<Rightarrow> bool \<times> int" where
  "candidate_key c = (is_partial_sni c \<or> contains_str c [dot, dot, dot], - int (length c))"

definition try_reconstruct_sni_from_fragments :: "CryptoFrameReassembler \<Rightarrow> bytes option option" where
  "try_reconstruct_sni_from_fragments r = do {
     hit \<leftarrow> first_hit scan_fragment (fragments r);
     case hit of
       Some sni \<Rightarrow> Some (Some sni)
     | None \<Rightarrow>
         if \<not> list_ex (\<lambda>e. fst e \<le> 10) (fragments r) then Some None
         else
           let (all_data, gaps) = combine [] 0 False (fragments r) in
           if length all_data < 10 then Some None
           else
             let processed = filter (accepted_candidate gaps) (find_hostname_candidates all_data) in
             case sort_key candidate_key processed of
               [] \<Rightarrow> Some None
             | candidate # _ \<Rightarrow> Some (Some candidate)
   }"

section \<open>All strategies\<close>

definition with_sni :: "bytes \<Rightarrow> TlsInfo" where
  "with_sni sni = TlsInfo_new\<lparr>tls_sni := Some sni\<rparr>"

definition try_extract_greedy_from_reassembler :: "CryptoFrameReassembler \<Rightarrow> TlsInfo option option" where
  "try_extract_greedy_from_reassembler r = do {
     hit \<leftarrow> first_hit (\<lambda>d. try_extract_sni_greedy d True) (map snd (fragments r));
     case hit of
       Some sni \<Rightarrow> Some (Some (with_sni sni))
     | None \<Rightarrow>
         (case get_contiguous_data r of
            None \<Rightarrow> Some None
          | Some contiguous \<Rightarrow> do {
              hit \<leftarrow> try_extract_sni_greedy contiguous True;
              Some (map_option with_sni hit)
            })
   }"

definition cache_if_complete :: "TlsInfo \<Rightarrow> CryptoFrameReassembler \<Rightarrow> CryptoFrameReassembler" where
  "cache_if_complete tls r = (if is_complete_sni (tls_sni tls) then set_complete_tls_info tls r else r)"

definition cached_complete :: "CryptoFrameReassembler \<Rightarrow> TlsInfo option" where
  "cached_complete r = (case get_cached_tls_info r of
     Some tls \<Rightarrow> if is_complete_sni (tls_sni tls) then Some tls else None
   | None \<Rightarrow> None)"

text \<open>Strategies 3 and 4, tried when the structured parsers found nothing.\<close>

definition extract_by_search ::
  "CryptoFrameReassembler \<Rightarrow> (TlsInfo option \<times> CryptoFrameReassembler) option" where
  "extract_by_search r = do {
     sni \<leftarrow> (if sum_list (map (length \<circ> snd) (fragments r)) \<ge> 100
              then try_reconstruct_sni_from_fragments r else Some None);
     case sni of
       Some sni \<Rightarrow>
         Some (Some (with_sni sni),
               if \<not> is_partial_sni sni then set_complete_tls_info (with_sni sni) r else r)
     | None \<Rightarrow> do {
         g \<leftarrow> try_extract_greedy_from_reassembler r;
         Some (case g of Some tls \<Rightarrow> (Some tls, set_complete_tls_info tls r) | None \<Rightarrow> (None, r))
       }
   }"

definition try_extract_tls_from_reassembler ::
  "CryptoFrameReassembler \<Rightarrow> bool \<Rightarrow> (TlsInfo option \<times> CryptoFrameReassembler) option" where
  "try_extract_tls_from_reassembler r allow_partial =
     (case cached_complete r of
        Some tls \<Rightarrow> Some (Some tls, r)
      | None \<Rightarrow> do {
          c \<leftarrow> try_extract_from_contiguous r allow_partial;
          case c of
            Some tls \<Rightarrow> Some (Some tls, cache_if_complete tls r)
          | None \<Rightarrow> do {
              f \<leftarrow> try_extract_from_fragments r allow_partial;
              case f of
                Some tls \<Rightarrow> Some (Some tls, cache_if_complete tls r)
              | None \<Rightarrow> extract_by_search r
            }
        })"

section \<open>No panic\<close>

lemma contiguous_np [no_panic]: "returns (try_extract_from_contiguous r ap)"
  unfolding try_extract_from_contiguous_def by (intro no_panic)

lemma fragment_tls_np [no_panic]: "returns (fragment_tls ap d)"
proof -
  have "returns (map_option Some (byte_at d 0))" if "n \<le> length d" "0 < n" for n
    using that by (auto simp: returns_def byte_at_def)
  then show ?thesis unfolding fragment_tls_def by (intro no_panic) auto
qed

lemma fragments_np [no_panic]: "returns (try_extract_from_fragments r ap)"
  unfolding try_extract_from_fragments_def by (intro no_panic)

lemma sni_extension_at_np [no_panic]:
  "i < length data - 10 \<Longrightarrow> returns (sni_extension_at data i)"
  unfolding sni_extension_at_def by (intro no_panic) auto

lemma scan_fragment_np [no_panic]: "returns (scan_fragment e)"
  unfolding scan_fragment_def by (intro no_panic) auto

lemma reconstruct_np [no_panic]: "returns (try_reconstruct_sni_from_fragments r)"
  unfolding try_reconstruct_sni_from_fragments_def
  by (intro no_panic) (auto simp: Let_def returns_def split: prod.split list.split)

lemma greedy_np [no_panic]: "returns (try_extract_greedy_from_reassembler r)"
  unfolding try_extract_greedy_from_reassembler_def by (intro no_panic)

lemma extract_by_search_np [no_panic]: "returns (extract_by_search r)"
  unfolding extract_by_search_def by (intro no_panic)

lemma extract_np [no_panic]: "returns (try_extract_tls_from_reassembler r ap)"
  unfolding try_extract_tls_from_reassembler_def by (intro no_panic)

text \<open>So a caller can work with the value.\<close>

definition extract_tls :: "CryptoFrameReassembler \<Rightarrow> bool \<Rightarrow> TlsInfo option \<times> CryptoFrameReassembler" where
  "extract_tls r ap = the (try_extract_tls_from_reassembler r ap)"

lemma extract_tls_eq: "try_extract_tls_from_reassembler r ap = Some (extract_tls r ap)"
  using extract_np [of r ap] by (auto simp: extract_tls_def returns_def)

section \<open>Every server name is a host name\<close>

text \<open>\<open>cache_ok\<close>: what the buffer caches has a proper server name as well.\<close>

definition cache_ok :: "CryptoFrameReassembler \<Rightarrow> bool" where
  "cache_ok r \<longleftrightarrow> (\<forall>tls. cached_tls_info r = Some tls \<longrightarrow> tls_sni_ok tls)"

lemma cache_ok_set [simp]: "cache_ok (set_complete_tls_info tls r) = tls_sni_ok tls"
  by (simp add: cache_ok_def set_complete_tls_info_def)

lemma cache_ok_if_complete: "cache_ok r \<Longrightarrow> tls_sni_ok tls \<Longrightarrow> cache_ok (cache_if_complete tls r)"
  by (simp add: cache_if_complete_def)

lemma tls_sni_ok_with [simp]: "tls_sni_ok (with_sni s) = sni_ok s"
  by (simp add: with_sni_def)

lemma contiguous_ok [sni_facts]:
  "try_extract_from_contiguous r ap = Some (Some tls) \<Longrightarrow> tls_sni_ok tls"
  by (auto simp: try_extract_from_contiguous_def Let_def handshake_ok
      split: option.splits bind_splits if_splits)

lemma fragment_tls_ok: "fragment_tls ap d = Some (Some tls) \<Longrightarrow> tls_sni_ok tls"
  by (auto simp: fragment_tls_def sni_or_alpn_def
      split: option.splits bind_splits if_splits dest: handshake_ok unencrypted_ok)

lemma fragments_ok [sni_facts]:
  "try_extract_from_fragments r ap = Some (Some tls) \<Longrightarrow> tls_sni_ok tls"
  by (auto simp: try_extract_from_fragments_def dest!: first_hit_Some fragment_tls_ok)

lemma sni_extension_at_ok: "sni_extension_at d i = Some (Some s) \<Longrightarrow> sni_ok s"
  by (auto simp: sni_extension_at_def parse_sni_extension_ok split: option.splits bind_splits if_splits)

lemma scan_fragment_ok: "scan_fragment e = Some (Some s) \<Longrightarrow> sni_ok s"
  by (auto simp: scan_fragment_def dest!: first_hit_Some sni_extension_at_ok split: if_splits)

lemma reconstruct_ok [sni_facts]:
  assumes "try_reconstruct_sni_from_fragments r = Some (Some s)"
  shows "sni_ok s"
proof -
  obtain hit where hit: "first_hit scan_fragment (fragments r) = Some hit"
    using assms by (auto simp: try_reconstruct_sni_from_fragments_def split: bind_splits)
  show ?thesis
  proof (cases hit)
    case (Some sni)
    then have "sni = s" using assms hit by (simp add: try_reconstruct_sni_from_fragments_def)
    then show ?thesis using hit Some by (auto dest!: first_hit_Some scan_fragment_ok)
  next
    case None
    obtain data gaps where c: "combine [] 0 False (fragments r) = (data, gaps)" by force
    let ?cs = "sort_key candidate_key (filter (accepted_candidate gaps) (find_hostname_candidates data))"
    obtain rest where "?cs = s # rest"
      using assms hit None c
      by (auto simp: try_reconstruct_sni_from_fragments_def Let_def split: list.splits if_splits)
    then have "s \<in> set ?cs" by simp
    then have "accepted_candidate gaps s" by simp
    then show ?thesis by (auto simp: accepted_candidate_def sni_ok_def split: if_splits)
  qed
qed

lemma greedy_ok [sni_facts]:
  "try_extract_greedy_from_reassembler r = Some (Some tls) \<Longrightarrow> tls_sni_ok tls"
  by (auto simp: try_extract_greedy_from_reassembler_def try_extract_sni_greedy_ok
      dest!: first_hit_Some split: option.splits bind_splits)

lemma extract_by_search_ok:
  assumes "extract_by_search r = Some (t, r')" and "cache_ok r"
  shows "(\<forall>tls. t = Some tls \<longrightarrow> tls_sni_ok tls) \<and> cache_ok r'"
  using assms
  by (auto simp: extract_by_search_def split: option.splits bind_splits if_splits
      dest: reconstruct_ok greedy_ok)

lemma cached_complete_ok: "cached_complete r = Some tls \<Longrightarrow> cache_ok r \<Longrightarrow> tls_sni_ok tls"
  by (auto simp: cached_complete_def get_cached_tls_info_def cache_ok_def split: option.splits if_splits)

lemma extract_ok:
  assumes "try_extract_tls_from_reassembler r ap = Some (t, r')" and "cache_ok r"
  shows "(\<forall>tls. t = Some tls \<longrightarrow> tls_sni_ok tls) \<and> cache_ok r'"
  using assms extract_by_search_ok [of r t r'] cache_ok_if_complete [of r]
  by (auto simp: try_extract_tls_from_reassembler_def split: option.splits bind_splits
      dest: contiguous_ok fragments_ok cached_complete_ok)

text \<open>The extraction leaves the received stream alone.\<close>

lemma extract_frame:
  "try_extract_tls_from_reassembler r ap = Some (t, r') \<Longrightarrow>
   r' = r \<or> (\<exists>tls. t = Some tls \<and> r' = set_complete_tls_info tls r)"
  by (auto simp: try_extract_tls_from_reassembler_def extract_by_search_def cache_if_complete_def
      split: option.splits bind_splits if_splits)

section \<open>From the fragments of a ClientHello to its server name\<close>

lemma extract_from_client_hello:
  assumes "get_contiguous_data r = Some (encode_client_hello ch)" and "cached_complete r = None"
    and "100 \<le> length (encode_client_hello ch)"
    and "ch_ok ch" and "ch_extensions ch = pre @ (0, encode_sni h) # post"
    and "is_valid_hostname h" and "\<forall>e \<in> set post. fst e \<noteq> 0"
  obtains tls r' where "try_extract_tls_from_reassembler r ap = Some (Some tls, r')"
    and "tls_sni tls = Some h"
proof -
  obtain tls where p: "parse_partial_tls_handshake (encode_client_hello ch) ap = Some (Some tls)"
    and s: "tls_sni tls = Some h"
    using parse_encoded_client_hello_sni [OF assms(4-7)] by metis
  have "try_extract_from_contiguous r ap = Some (Some tls)"
    using assms(1,3) p s by (simp add: try_extract_from_contiguous_def)
  then show thesis using that [of tls] s assms(2) by (simp add: try_extract_tls_from_reassembler_def)
qed

section \<open>Properties\<close>

lemma cached_add_fragment: "cached_complete (snd (add_fragment now off d r)) = cached_complete r"
  by (simp add: add_fragment_def Let_def update_contiguous_offset_def cached_complete_def
      get_cached_tls_info_def)

lemma cached_add_fragments: "cached_complete (add_fragments fs r) = cached_complete r"
  by (induction fs r rule: add_fragments.induct) (simp_all add: cached_add_fragment)

lemma extract_names_host:
  assumes "get_contiguous_data r = Some (encode_client_hello ch)" and "cached_complete r = None"
    and "100 \<le> length (encode_client_hello ch)" and "names_host ch h"
  shows "map_option tls_sni (fst (extract_tls r ap)) = Some (Some h)"
proof -
  obtain pre post where "ch_ok ch" "ch_extensions ch = pre @ (0, encode_sni h) # post"
    "is_valid_hostname h" "\<forall>e \<in> set post. fst e \<noteq> 0"
    using assms(4) unfolding names_host_def by blast
  then obtain tls r' where "try_extract_tls_from_reassembler r ap = Some (Some tls, r')" and "tls_sni tls = Some h"
    using extract_from_client_hello [OF assms(1-3)] by metis
  then show ?thesis by (simp add: extract_tls_def)
qed

lemma extract_any_fragmentation:
  assumes "names_host ch h"
    and "100 \<le> length (encode_client_hello ch)" and "length (encode_client_hello ch) \<le> 65536"
    and "fragments_of (encode_client_hello ch) (snd ` set fs)"
    and "\<forall>i < length (encode_client_hello ch). \<exists>f \<in> snd ` set fs. fst f \<le> i \<and> i < fst f + length (snd f)"
  shows "map_option tls_sni (fst (extract_tls (add_fragments fs (reassembler_new now)) ap)) = Some (Some h)"
proof (rule extract_names_host [OF _ _ assms(2,1)])
  show "get_contiguous_data (add_fragments fs (reassembler_new now)) = Some (encode_client_hello ch)"
    using assms(2-5) by (intro stream_reassembled) auto
  show "cached_complete (add_fragments fs (reassembler_new now)) = None"
    unfolding cached_add_fragments
    by (simp add: cached_complete_def get_cached_tls_info_def reassembler_new_def)
qed

text \<open>C20. No input makes the TLS parsers or the server name extraction panic: no index or slice
  is out of bounds, whatever the bytes, fragments and offsets.\<close>

theorem tls_extraction_never_panics:
  "returns (parse_partial_tls_handshake data ap) \<and> returns (try_parse_unencrypted_crypto_frames data)
   \<and> returns (try_extract_tls_from_reassembler r ap)"
  by (intro conjI no_panic)

text \<open>C8. However a ClientHello of 100 bytes to 64 KiB is cut into fragments, and in whatever
  order and how often these arrive, once they cover it the extraction finds its server name.\<close>

theorem sni_from_any_fragmentation:
  assumes "names_host ch h"
    and "100 \<le> length (encode_client_hello ch)" and "length (encode_client_hello ch) \<le> 65536"
    and "fragments_of (encode_client_hello ch) (snd ` set fs)"
    and "\<forall>i < length (encode_client_hello ch). \<exists>f \<in> snd ` set fs. fst f \<le> i \<and> i < fst f + length (snd f)"
  shows "map_option tls_sni (fst (extract_tls (add_fragments fs (reassembler_new now)) ap)) = Some (Some h)"
  by (rule extract_any_fragmentation [OF assms])

lemma halves_fragments:
  assumes "0 < n" and "n < length s"
  shows "fragments_of s {(n, drop n s), (0, take n s)}"
  using assms by (auto simp: fragments_of_def slice_of_def same_or_apart_def)

theorem sni_from_any_fragmentation_witness:
  "map_option tls_sni (fst (extract_tls (add_fragments
       [(1, 50, drop 50 (encode_client_hello sample_hello)), (2, 0, take 50 (encode_client_hello sample_hello))]
       (reassembler_new 0)) True)) = Some (Some sample_host)"
proof (rule sni_from_any_fragmentation [OF sample_names_host])
  have n: "length (encode_client_hello sample_hello) = 108"
    by (simp add: encode_client_hello_def ch_body_def sample_hello_def encode_sni_def sample_host_def ascii_def)
  show "100 \<le> length (encode_client_hello sample_hello)" and "length (encode_client_hello sample_hello) \<le> 65536"
    by (simp_all add: n)
  show "fragments_of (encode_client_hello sample_hello) (snd ` set [(1 :: int, 50, drop 50 (encode_client_hello sample_hello)),
      (2, 0, take 50 (encode_client_hello sample_hello))])"
    using halves_fragments [of 50 "encode_client_hello sample_hello"] n by simp
  show "\<forall>i < length (encode_client_hello sample_hello).
      \<exists>f \<in> snd ` set [(1 :: int, 50, drop 50 (encode_client_hello sample_hello)),
        (2, 0, take 50 (encode_client_hello sample_hello))]. fst f \<le> i \<and> i < fst f + length (snd f)"
    by (auto simp: n)
qed

end
