(* ===== verification/QuicPacket.thy ===== *)
theory QuicPacket
  imports QuicExtract RustText
begin

text \<open>
  QUIC packets: the part of \<^verbatim>\<open>dpi/quic.rs\<close> that splits a datagram into packets, removes the
  protection of Initial packets and walks their frames, down to the CRYPTO fragments that
  \<^verbatim>\<open>QuicExtract\<close> searches. The primitives of the crates \<^verbatim>\<open>ring\<close> and \<^verbatim>\<open>aes\<close> are functions of a
  record. The outer \<open>None\<close> is a panic, the inner one the \<open>None\<close> of the code. \<open>usize\<close> has 64 bits:
  variable-length integers are below $2^{62}$, so no addition of them to an offset overflows, and
  the checked additions always succeed. The clock is read once per datagram.
\<close>

unbundle bit_operations_syntax

section \<open>Numbers and names\<close>

definition varint_len :: "u8 \<Rightarrow> nat" where
  "varint_len first_byte =
     (let k = drop_bit 6 first_byte in if k = 0 then 1 else if k = 1 then 2 else if k = 2 then 4 else 8)"

definition parse_variable_length_int :: "bytes \<Rightarrow> (nat \<times> nat) option option" where
  "parse_variable_length_int data =
     (if data = [] then Some None
      else do {
        first_byte \<leftarrow> byte_at data 0;
        let len = varint_len first_byte;
        if length data < len then Some None
        else do {
          rest \<leftarrow> sub_slice 1 len data;
          Some (Some (be_nat ((first_byte AND 0x3f) # rest), len))
        }
      })"

text \<open>\<open>parse_variable_length_int(&payload[offset..])\<close> with the offset behind the number.\<close>

definition varint_at :: "bytes \<Rightarrow> nat \<Rightarrow> (nat \<times> nat) option option" where
  "varint_at payload offset = do {
     rest \<leftarrow> sub_slice offset (length payload) payload;
     map_option (map_option (\<lambda>(n, bytes_read). (n, offset + bytes_read))) (parse_variable_length_int rest)
   }"

definition is_quic_v2 :: "u32 \<Rightarrow> bool" where
  "is_quic_v2 version \<longleftrightarrow> version = 0x6b3343cf"

definition quic_version_to_string :: "u32 \<Rightarrow> bytes option" where
  "quic_version_to_string version =
     (if version = 0x00000001 then Some (ascii ''v1'')
      else if version = 0x6b3343cf then Some (ascii ''v2'')
      else if version = 0xff00001d then Some (ascii ''draft-29'')
      else if version = 0xff00001c then Some (ascii ''draft-28'')
      else if version = 0xff00001b then Some (ascii ''draft-27'')
      else if version = 0x51303530 then Some (ascii ''Q050'')
      else if version = 0x54303530 then Some (ascii ''T050'')
      else if drop_bit 8 version = 0xff0000 then Some (ascii ''draft-'' @ radix 10 (unat (version AND 0xff)))
      else None)"

definition QuicInfo_new :: "u32 \<Rightarrow> QuicInfo" where
  "QuicInfo_new version = \<lparr>version_string = quic_version_to_string version,
     packet_type = QuicPacketType.Unknown, connection_id = [], connection_id_hex = None,
     connection_state = QuicConnectionState.Unknown, quic_tls_info = None, has_crypto_frame = False,
     crypto_reassembler = None, connection_close = None, idle_timeout = None\<rparr>"

definition ensure_reassembler :: "instant \<Rightarrow> QuicInfo \<Rightarrow> QuicInfo" where
  "ensure_reassembler now info =
     (if crypto_reassembler info = None then info\<lparr>crypto_reassembler := Some (reassembler_new now)\<rparr> else info)"

definition get_long_packet_type :: "u8 \<Rightarrow> u32 \<Rightarrow> QuicPacketType" where
  "get_long_packet_type first_byte version =
     (let type_bits = drop_bit 4 (first_byte AND 0x30) in
      if is_quic_v2 version then
        (if type_bits = 0 then Retry else if type_bits = 1 then QuicPacketType.Initial
         else if type_bits = 2 then ZeroRtt else if type_bits = 3 then Handshake else QuicPacketType.Unknown)
      else
        (if type_bits = 0 then QuicPacketType.Initial else if type_bits = 1 then ZeroRtt
         else if type_bits = 2 then Handshake else if type_bits = 3 then Retry else QuicPacketType.Unknown))"

definition connection_id_to_hex :: "bytes \<Rightarrow> bytes" where
  "connection_id_to_hex cid = join [colon] (map hex2 cid)"

definition known_versions :: "u32 list" where
  "known_versions = [0x00000001, 0x6b3343cf, 0xff00001d, 0xff00001c, 0xff00001b, 0x51303530, 0x51303433,
     0x54303530, 0xfaceb001, 0xfaceb002, 0]"

definition is_quic_packet :: "bytes \<Rightarrow> bool option" where
  "is_quic_packet payload =
     (if length payload < 5 then Some False
      else do {
        first_byte \<leftarrow> byte_at payload 0;
        long \<leftarrow> (if first_byte AND 0x80 \<noteq> 0 then do {
            version \<leftarrow> be32_at payload 1;
            Some (version \<in> set known_versions \<or> drop_bit 8 version = 0xff0000
                  \<or> version AND 0x0F0F0F0F = 0x0a0a0a0a)
          } else Some False);
        Some (long \<or> first_byte AND 0xc0 = 0x40 \<and> length payload \<ge> 20 \<and> length payload \<le> 1500)
      })"

section \<open>Packet protection\<close>

text \<open>HKDF-SHA256, the block cipher AES-128 and AES-128-GCM. A pseudo-random key is the list of
  its bytes.\<close>

record quic_crypto =
  hkdf_extract :: "bytes \<Rightarrow> bytes \<Rightarrow> bytes"
  hkdf_expand :: "bytes \<Rightarrow> bytes \<Rightarrow> nat \<Rightarrow> bytes option"
  aes128_block :: "bytes \<Rightarrow> bytes \<Rightarrow> bytes"
  aes128_gcm_open :: "bytes \<Rightarrow> bytes \<Rightarrow> bytes \<Rightarrow> bytes \<Rightarrow> bytes option"

text \<open>The block cipher maps blocks to blocks.\<close>

definition crypto_ok :: "quic_crypto \<Rightarrow> bool" where
  "crypto_ok C \<longleftrightarrow> (\<forall>k b. length (aes128_block C k b) = 16)"

text \<open>Functions of these types that satisfy what is assumed of them, for examples: a constant
  mask and a constant tag.\<close>

definition sample_tag :: bytes where "sample_tag = replicate 16 0x77"

definition sample_crypto :: quic_crypto where
  "sample_crypto = \<lparr>hkdf_extract = (\<lambda>salt ikm. ikm), hkdf_expand = (\<lambda>prk info n. Some (replicate n 0)),
     aes128_block = (\<lambda>k b. replicate 16 0x5a),
     aes128_gcm_open = (\<lambda>k n aad c. if drop (length c - 16) c = sample_tag then Some (take (length c - 16) c) else None)\<rparr>"

lemma sample_crypto_ok [simp]: "crypto_ok sample_crypto"
  by (simp add: crypto_ok_def sample_crypto_def)

definition INITIAL_SALT_V1 :: bytes where
  "INITIAL_SALT_V1 =
     [0x38, 0x76, 0x2c, 0xf7, 0xf5, 0x59, 0x34, 0xb3, 0x4d, 0x17, 0x9a, 0xe6, 0xa4, 0xc8, 0x0c, 0xad,
      0xcc, 0xbb, 0x7f, 0x0a]"

definition INITIAL_SALT_V2 :: bytes where
  "INITIAL_SALT_V2 =
     [0x0d, 0xed, 0xe3, 0xde, 0xf7, 0x00, 0xa6, 0xdb, 0x81, 0x93, 0x81, 0xbe, 0x6e, 0x26, 0x9d, 0xcb,
      0xf9, 0xbd, 0x2e, 0xd9]"

definition build_hkdf_label :: "bytes \<Rightarrow> bytes \<Rightarrow> nat \<Rightarrow> bytes" where
  "build_hkdf_label label context' len =
     (let full_label = ascii ''tls13 '' @ label
      in [word_of_nat (len div 256), word_of_nat (len mod 256)] @ word_of_nat (length full_label) # full_label
         @ word_of_nat (length context') # context')"

text \<open>\<open>None\<close> where the code returns \<open>false\<close>.\<close>

definition derive_secret :: "quic_crypto \<Rightarrow> bytes \<Rightarrow> bytes \<Rightarrow> nat \<Rightarrow> bytes option" where
  "derive_secret C prk label len = hkdf_expand C prk (build_hkdf_label label [] len) len"

definition derive_packet_protection_key :: "quic_crypto \<Rightarrow> bytes \<Rightarrow> u32 \<Rightarrow> bytes option" where
  "derive_packet_protection_key C secret version =
     derive_secret C secret (ascii (if is_quic_v2 version then ''quicv2 key'' else ''quic key'')) 16"

definition derive_packet_protection_iv :: "quic_crypto \<Rightarrow> bytes \<Rightarrow> u32 \<Rightarrow> bytes option" where
  "derive_packet_protection_iv C secret version =
     derive_secret C secret (ascii (if is_quic_v2 version then ''quicv2 iv'' else ''quic iv'')) 12"

definition derive_header_protection_key :: "quic_crypto \<Rightarrow> bytes \<Rightarrow> u32 \<Rightarrow> bytes option" where
  "derive_header_protection_key C secret version =
     derive_secret C secret (ascii (if is_quic_v2 version then ''quicv2 hp'' else ''quic hp'')) 16"

text \<open>The nonce: the packet number as eight bytes over the end of the vector.\<close>

definition nonce_of :: "bytes \<Rightarrow> nat \<Rightarrow> bytes" where
  "nonce_of iv packet_number = map2 (XOR) iv (replicate 4 0 @ ne_bytes Big 8 packet_number)"

text \<open>The part of \<open>try_decrypt_initial_with_secret\<close> that skips to the packet number: its offset
  and the length field.\<close>

definition packet_number_offset :: "bytes \<Rightarrow> (nat \<times> nat) option option" where
  "packet_number_offset pkt =
     (if length pkt \<le> 5 then Some None
      else do {
        dcid_len \<leftarrow> byte_at pkt 5;
        let offset = 6 + unat dcid_len;
        if length pkt \<le> offset then Some None
        else do {
          scid_len \<leftarrow> byte_at pkt offset;
          let offset = offset + 1 + unat scid_len;
          if length pkt \<le> offset then Some None
          else try_opt (varint_at pkt offset) (\<lambda>(token_len, offset).
            let offset = offset + token_len in
            if offset > length pkt then Some None
            else try_opt (varint_at pkt offset) (\<lambda>(packet_payload_length, offset).
              Some (Some (offset, packet_payload_length))))
        }
      })"

definition try_decrypt_initial_with_secret :: "quic_crypto \<Rightarrow> bytes \<Rightarrow> bytes \<Rightarrow> u32 \<Rightarrow> bytes option option" where
  "try_decrypt_initial_with_secret C pkt secret version =
     (case (derive_packet_protection_key C secret version, derive_packet_protection_iv C secret version,
            derive_header_protection_key C secret version) of
        (Some key, Some iv, Some hp_key) \<Rightarrow>
          try_opt (packet_number_offset pkt) (\<lambda>(pn_offset, packet_payload_length).
            let sample_offset = pn_offset + 4 in
            if sample_offset + 16 > length pkt then Some None
            else do {
              sample \<leftarrow> sub_slice sample_offset (sample_offset + 16) pkt;
              let mask = aes128_block C hp_key sample;
              first \<leftarrow> byte_at pkt 0;
              mask0 \<leftarrow> byte_at mask 0;
              let first_byte = first XOR (mask0 AND 0x0f);
              let pn_length = unat (first_byte AND 0x03) + 1;
              masked \<leftarrow> sub_slice pn_offset (pn_offset + pn_length) pkt;
              pn_mask \<leftarrow> sub_slice 1 (1 + pn_length) mask;
              let pn = map2 (XOR) masked pn_mask;
              header \<leftarrow> sub_slice 1 pn_offset pkt;
              let ciphertext_offset = pn_offset + pn_length;
              if packet_payload_length < pn_length then Some None
              else do {
                let ciphertext_len = packet_payload_length - pn_length;
                if ciphertext_offset + ciphertext_len > length pkt then Some None
                else if ciphertext_len < 16 then Some None
                else do {
                  ciphertext \<leftarrow> sub_slice ciphertext_offset (ciphertext_offset + ciphertext_len) pkt;
                  Some (aes128_gcm_open C key (nonce_of iv (be_nat pn)) (first_byte # header @ pn) ciphertext)
                }
              }
            })
      | _ \<Rightarrow> Some None)"

definition initial_secret :: "quic_crypto \<Rightarrow> bytes \<Rightarrow> u32 \<Rightarrow> bytes" where
  "initial_secret C dcid version = hkdf_extract C (if is_quic_v2 version then INITIAL_SALT_V2 else INITIAL_SALT_V1) dcid"

definition decrypt_client_initial_packet :: "quic_crypto \<Rightarrow> bytes \<Rightarrow> bytes \<Rightarrow> u32 \<Rightarrow> bytes option option" where
  "decrypt_client_initial_packet C pkt dcid version =
     (case derive_secret C (initial_secret C dcid version) (ascii ''client in'') 32 of
        None \<Rightarrow> Some None
      | Some client_secret \<Rightarrow> try_decrypt_initial_with_secret C pkt client_secret version)"

definition decrypt_server_initial_packet :: "quic_crypto \<Rightarrow> bytes \<Rightarrow> bytes \<Rightarrow> u32 \<Rightarrow> bytes option option" where
  "decrypt_server_initial_packet C pkt dcid version =
     (case derive_secret C (initial_secret C dcid version) (ascii ''server in'') 32 of
        None \<Rightarrow> Some None
      | Some server_secret \<Rightarrow> try_decrypt_initial_with_secret C pkt server_secret version)"

section \<open>Frames\<close>

text \<open>Skipping a number of integers; the offset behind them.\<close>

fun skip_varints :: "bytes \<Rightarrow> nat \<Rightarrow> nat \<Rightarrow> nat option option" where
  "skip_varints payload 0 offset = Some (Some offset)"
| "skip_varints payload (Suc n) offset =
     try_opt (varint_at payload offset) (\<lambda>(_, offset). skip_varints payload n offset)"

declare skip_varints.simps [simp del]

text \<open>How the \<open>match\<close> on a frame ends: at the next offset, with \<open>break\<close>, or with a \<open>return None\<close>
  by the operator \<open>?\<close>.\<close>

datatype frame_flow = Next nat | Break | Return

definition next_frame :: "nat option \<Rightarrow> frame_flow" where
  "next_frame r = (case r of None \<Rightarrow> Return | Some offset \<Rightarrow> Next offset)"

definition skip_padding :: "bytes \<Rightarrow> nat \<Rightarrow> nat" where
  "skip_padding payload offset = offset + length (takeWhile ((=) 0) (drop offset payload))"

definition ack_frame :: "bytes \<Rightarrow> bool \<Rightarrow> nat \<Rightarrow> nat option option" where
  "ack_frame payload ecn offset =
     try_opt (skip_varints payload 2 offset) (\<lambda>offset.
     try_opt (varint_at payload offset) (\<lambda>(ack_range_count, offset).
     try_opt (skip_varints payload 1 offset) (\<lambda>offset.
     try_opt (skip_varints payload (2 * ack_range_count) offset) (\<lambda>offset.
       if ecn then skip_varints payload 3 offset else Some (Some offset)))))"

definition stream_frame :: "bytes \<Rightarrow> u8 \<Rightarrow> nat \<Rightarrow> nat option option" where
  "stream_frame payload frame_type_byte offset =
     (let has_offset = frame_type_byte AND 0x04 \<noteq> 0;
          has_length = frame_type_byte AND 0x02 \<noteq> 0
      in try_opt (skip_varints payload (if has_offset then 2 else 1) offset) (\<lambda>offset.
         if has_length then
           map_option (map_option (\<lambda>(n, offset). offset + n)) (varint_at payload offset)
         else Some (Some (length payload))))"

definition new_connection_id_frame :: "bytes \<Rightarrow> nat \<Rightarrow> frame_flow option" where
  "new_connection_id_frame payload offset = do {
     skipped \<leftarrow> skip_varints payload 2 offset;
     case skipped of
       None \<Rightarrow> Some Return
     | Some offset \<Rightarrow>
         if length payload \<le> offset then Some Break
         else do {
           cid_length \<leftarrow> byte_at payload offset;
           Some (Next (offset + 1 + unat cid_length + 16))
         }
   }"

definition crypto_frame :: "instant \<Rightarrow> bytes \<Rightarrow> nat \<Rightarrow> QuicInfo \<Rightarrow> (frame_flow \<times> QuicInfo) option" where
  "crypto_frame now payload offset info = do {
     let info = info\<lparr>has_crypto_frame := True\<rparr>;
     first \<leftarrow> varint_at payload offset;
     case first of
       None \<Rightarrow> Some (Return, info)
     | Some (crypto_offset, offset) \<Rightarrow> do {
         second \<leftarrow> varint_at payload offset;
         case second of
           None \<Rightarrow> Some (Return, info)
         | Some (crypto_length, offset) \<Rightarrow>
             let available = min (length payload - offset) crypto_length in
             if available > 0 then do {
               crypto_data \<leftarrow> sub_slice offset (offset + available) payload;
               Some (Next (offset + available),
                     info\<lparr>crypto_reassembler :=
                       map_option (snd \<circ> add_fragment now crypto_offset crypto_data) (crypto_reassembler info)\<rparr>)
             }
             else Some (Next (offset + available), info)
       }
   }"

definition connection_close_frame ::
  "bytes \<Rightarrow> u8 \<Rightarrow> nat \<Rightarrow> QuicInfo \<Rightarrow> (frame_flow \<times> QuicInfo) option" where
  "connection_close_frame payload frame_type_byte offset info = do {
     first \<leftarrow> varint_at payload offset;
     case first of
       None \<Rightarrow> Some (Return, info)
     | Some (code, offset) \<Rightarrow> do {
         fields \<leftarrow> try_opt (skip_varints payload (if frame_type_byte = 0x1c then 1 else 0) offset) (varint_at payload);
         case fields of
           None \<Rightarrow> Some (Return, info)
         | Some (reason_length, offset) \<Rightarrow>
             let reason_end = offset + reason_length in
             if reason_end > length payload then Some (Break, info)
             else Some (Next reason_end, info\<lparr>
               connection_close := Some \<lparr>frame_type = frame_type_byte, error_code = word_of_nat code\<rparr>,
               connection_state := (if code = 0 then Draining else QuicConnectionState.Closed)\<rparr>)
       }
   }"

text \<open>The frames whose fields are all skipped.\<close>

definition skipped_frame :: "bytes \<Rightarrow> u8 \<Rightarrow> nat \<Rightarrow> frame_flow option" where
  "skipped_frame payload t offset =
     (let skip = (\<lambda>n. map_option next_frame (skip_varints payload n offset)) in
      if t = 0x00 then Some (Next (skip_padding payload offset))
      else if t = 0x01 then Some (Next offset)
      else if t = 0x02 \<or> t = 0x03 then map_option next_frame (ack_frame payload (t = 0x03) offset)
      else if t = 0x04 then skip 3
      else if t = 0x05 then skip 2
      else if t = 0x07 then
        map_option (\<lambda>r. case r of None \<Rightarrow> Return | Some (token_length, offset) \<Rightarrow> Next (offset + token_length))
          (varint_at payload offset)
      else if 0x08 \<le> t \<and> t \<le> 0x0f then map_option next_frame (stream_frame payload t offset)
      else if t \<in> {0x10, 0x12, 0x13, 0x14, 0x16, 0x17} then skip 1
      else if t = 0x11 \<or> t = 0x15 then skip 2
      else if t = 0x18 then new_connection_id_frame payload offset
      else if t = 0x19 then skip 1
      else if t = 0x1a \<or> t = 0x1b then Some (Next (offset + 8))
      else if t = 0x1e then Some (Next offset)
      else Some Break)"

text \<open>One frame of type \<open>t\<close>, whose fields are at \<open>offset\<close>; whether it is a CRYPTO frame is the
  middle component.\<close>

definition frame_step ::
  "instant \<Rightarrow> bytes \<Rightarrow> u8 \<Rightarrow> nat \<Rightarrow> QuicInfo \<Rightarrow> (frame_flow \<times> bool \<times> QuicInfo) option" where
  "frame_step now payload t offset info =
     (if t = 0x06 then map_option (\<lambda>(flow, info). (flow, True, info)) (crypto_frame now payload offset info)
      else if t = 0x1c \<or> t = 0x1d
      then map_option (\<lambda>(flow, info). (flow, False, info)) (connection_close_frame payload t offset info)
      else map_option (\<lambda>flow. (flow, False, info)) (skipped_frame payload t offset))"

subsection \<open>Progress\<close>

text \<open>A field is at least a byte long and ends in the payload; so the walk over the frames moves on.\<close>

lemma parse_varint_length: "parse_variable_length_int data = Some (Some (n, k)) \<Longrightarrow> 0 < k \<and> k \<le> length data"
  by (auto simp: parse_variable_length_int_def varint_len_def Let_def Suc_le_eq split: bind_splits if_splits)

lemma varint_at_progress: "varint_at payload offset = Some (Some (n, o')) \<Longrightarrow> offset < o' \<and> o' \<le> length payload"
  by (auto simp: varint_at_def sub_slice_def split: bind_splits if_splits dest!: parse_varint_length)

lemma try_opt_SomeD: "try_opt m f = Some (Some y) \<Longrightarrow> \<exists>x. m = Some (Some x) \<and> f x = Some (Some y)"
  by (auto simp: try_opt_def split: bind_splits option.splits)

lemma skip_varints_progress:
  "skip_varints payload n offset = Some (Some o') \<Longrightarrow> offset + n \<le> o' \<and> (offset \<le> length payload \<longrightarrow> o' \<le> length payload)"
proof (induction n arbitrary: offset)
  case (Suc n)
  then obtain k o1 where "varint_at payload offset = Some (Some (k, o1))" "skip_varints payload n o1 = Some (Some o')"
    by (auto simp: skip_varints.simps dest!: try_opt_SomeD)
  then show ?case using Suc.IH varint_at_progress by fastforce
qed (simp add: skip_varints.simps)

lemma ack_frame_progress: "ack_frame payload ecn offset = Some (Some o') \<Longrightarrow> offset \<le> o'"
  unfolding ack_frame_def
  by (auto dest!: try_opt_SomeD skip_varints_progress varint_at_progress split: if_splits)

lemma stream_frame_progress: "stream_frame payload t offset = Some (Some o') \<Longrightarrow> offset \<le> length payload \<Longrightarrow> offset \<le> o'"
  unfolding stream_frame_def Let_def
  by (auto dest!: try_opt_SomeD skip_varints_progress varint_at_progress split: if_splits)

lemma next_frame_Next [simp]: "next_frame r = Next o' \<longleftrightarrow> r = Some o'" "Next o' = next_frame r \<longleftrightarrow> r = Some o'"
  by (auto simp: next_frame_def split: option.splits)

lemma skipped_frame_progress: "skipped_frame payload t offset = Some (Next o') \<Longrightarrow> offset \<le> length payload \<Longrightarrow> offset \<le> o'"
  unfolding skipped_frame_def new_connection_id_frame_def skip_padding_def Let_def
  by (auto dest!: skip_varints_progress varint_at_progress ack_frame_progress stream_frame_progress
      split: if_splits bind_splits option.splits)

lemma crypto_frame_progress: "crypto_frame now payload offset info = Some (Next o', info') \<Longrightarrow> offset < o'"
  unfolding crypto_frame_def Let_def
  by (auto dest!: varint_at_progress split: if_splits bind_splits option.splits)

lemma close_frame_progress: "connection_close_frame payload t offset info = Some (Next o', info') \<Longrightarrow> offset < o'"
  unfolding connection_close_frame_def Let_def
  by (auto dest!: varint_at_progress try_opt_SomeD skip_varints_progress split: if_splits bind_splits option.splits)

lemma frame_step_progress:
  "frame_step now payload t offset info = Some (Next o', crypto, info') \<Longrightarrow> offset \<le> length payload \<Longrightarrow> offset \<le> o'"
  unfolding frame_step_def
  by (auto dest!: crypto_frame_progress close_frame_progress skipped_frame_progress split: if_splits)

subsection \<open>The walk\<close>

text \<open>The loop of \<open>process_crypto_frames_in_packet\<close>: whether it returned, and whether there were
  CRYPTO frames.\<close>

function frames_from :: "instant \<Rightarrow> bytes \<Rightarrow> nat \<Rightarrow> bool \<Rightarrow> QuicInfo \<Rightarrow> (bool \<times> bool \<times> QuicInfo) option" where
  "frames_from now payload offset found info =
     (if offset < length payload then do {
        t \<leftarrow> byte_at payload offset;
        (flow, crypto, info) \<leftarrow> frame_step now payload t (offset + 1) info;
        case flow of
          Return \<Rightarrow> Some (True, found \<or> crypto, info)
        | Break \<Rightarrow> Some (False, found \<or> crypto, info)
        | Next next \<Rightarrow>
            if next > length payload then Some (False, found \<or> crypto, info)
            else frames_from now payload next (found \<or> crypto) info
      }
      else Some (False, found, info))"
  by pat_completeness auto
termination
  by (relation "measure (\<lambda>(_, payload, offset, _, _). length payload - offset)")
    (auto dest!: frame_step_progress)

declare frames_from.simps [simp del]

definition process_crypto_frames_in_packet :: "instant \<Rightarrow> bytes \<Rightarrow> QuicInfo \<Rightarrow> (TlsInfo option \<times> QuicInfo) option" where
  "process_crypto_frames_in_packet now payload info = do {
     (returned, found_crypto_frames, info) \<leftarrow> frames_from now payload 0 False (ensure_reassembler now info);
     if returned \<or> \<not> found_crypto_frames then Some (None, info)
     else case crypto_reassembler info of
       None \<Rightarrow> Some (None, info)
     | Some reassembler \<Rightarrow> do {
         (tls, reassembler) \<leftarrow> try_extract_tls_from_reassembler reassembler False;
         let info = info\<lparr>crypto_reassembler := Some reassembler\<rparr>;
         case tls of
           Some tls_info \<Rightarrow> Some (Some tls_info, info\<lparr>quic_tls_info := Some tls_info\<rparr>)
         | None \<Rightarrow> Some (None, info)
       }
   }"

section \<open>Packets\<close>

definition state_of_packet :: "QuicPacketType \<Rightarrow> QuicConnectionState" where
  "state_of_packet t =
     (case t of
        QuicPacketType.Initial \<Rightarrow> QuicConnectionState.Initial
      | Handshake \<Rightarrow> Handshaking
      | Retry \<Rightarrow> QuicConnectionState.Initial
      | VersionNegotiation \<Rightarrow> QuicConnectionState.Initial
      | ZeroRtt \<Rightarrow> Handshaking
      | _ \<Rightarrow> QuicConnectionState.Unknown)"

definition extract_tls_from_long_header_packet ::
  "quic_crypto \<Rightarrow> instant \<Rightarrow> bytes \<Rightarrow> QuicInfo \<Rightarrow> bytes \<Rightarrow> u32 \<Rightarrow> QuicPacketType \<Rightarrow> QuicInfo option" where
  "extract_tls_from_long_header_packet C now payload info dcid version ptype =
     (let info = info\<lparr>connection_state := state_of_packet ptype\<rparr> in
      if ptype = QuicPacketType.Initial \<and> length dcid > 0 then do {
        client \<leftarrow> decrypt_client_initial_packet C payload dcid version;
        case client of
          Some decrypted \<Rightarrow> do {
            (tls, info) \<leftarrow> process_crypto_frames_in_packet now decrypted info;
            Some (case tls of
                    Some tls_info \<Rightarrow>
                      let info = info\<lparr>quic_tls_info := Some tls_info\<rparr>
                      in if dcid \<noteq> [] then info\<lparr>connection_id_hex := Some (connection_id_to_hex dcid)\<rparr> else info
                  | None \<Rightarrow> info)
          }
        | None \<Rightarrow> do {
            server \<leftarrow> decrypt_server_initial_packet C payload dcid version;
            case server of
              Some decrypted \<Rightarrow> do {
                (tls, info) \<leftarrow> process_crypto_frames_in_packet now decrypted info;
                Some (case tls of Some tls_info \<Rightarrow> info\<lparr>quic_tls_info := Some tls_info\<rparr> | None \<Rightarrow> info)
              }
            | None \<Rightarrow> Some info
          }
      }
      else Some info)"

text \<open>The tail of \<open>parse_long_header_packet_with_length\<close>: the length field, and the packet up to
  its end or the end of the datagram.\<close>

definition finish_long_header_packet ::
  "quic_crypto \<Rightarrow> instant \<Rightarrow> bytes \<Rightarrow> nat \<Rightarrow> QuicInfo \<Rightarrow> bytes \<Rightarrow> u32 \<Rightarrow> QuicPacketType \<Rightarrow> (QuicInfo option \<times> nat) option" where
  "finish_long_header_packet C now payload offset info dcid version ptype =
     (if length payload \<le> offset then Some (Some info, length payload)
      else do {
        len \<leftarrow> varint_at payload offset;
        case len of
          None \<Rightarrow> Some (Some info, length payload)
        | Some (packet_length, offset) \<Rightarrow> do {
            let total_packet_size = offset + packet_length;
            packet_data \<leftarrow> sub_slice 0 (min total_packet_size (length payload)) payload;
            info \<leftarrow> extract_tls_from_long_header_packet C now packet_data info dcid version ptype;
            Some (Some info, min total_packet_size (length payload))
          }
      })"

definition parse_long_header_packet_with_length ::
  "quic_crypto \<Rightarrow> instant \<Rightarrow> bytes \<Rightarrow> (QuicInfo option \<times> nat) option" where
  "parse_long_header_packet_with_length C now payload =
     (if length payload < 6 then Some (None, 0)
      else do {
        first_byte \<leftarrow> byte_at payload 0;
        version \<leftarrow> be32_at payload 1;
        let ptype = (if version = 0 then VersionNegotiation else get_long_packet_type first_byte version);
        let info = (QuicInfo_new version)\<lparr>packet_type := ptype\<rparr>;
        dcid_len \<leftarrow> byte_at payload 5;
        let offset = 6 + unat dcid_len;
        if offset > length payload then Some (None, 0)
        else do {
          dcid \<leftarrow> sub_slice 6 offset payload;
          let info = info\<lparr>connection_id := dcid, connection_id_hex := None\<rparr>;
          if length payload \<le> offset then Some (None, 0)
          else do {
            scid_len \<leftarrow> byte_at payload offset;
            let offset = offset + 1 + unat scid_len;
            if offset > length payload then Some (None, 0)
            else if ptype = QuicPacketType.Initial then do {
              token \<leftarrow> varint_at payload offset;
              case token of
                None \<Rightarrow> Some (Some info, length payload)
              | Some (token_len, offset) \<Rightarrow>
                  if offset + token_len \<le> length payload
                  then finish_long_header_packet C now payload (offset + token_len) info dcid version ptype
                  else Some (Some info, length payload)
            }
            else finish_long_header_packet C now payload offset info dcid version ptype
          }
        }
      })"

definition parse_short_header_packet :: "bytes \<Rightarrow> QuicInfo option option" where
  "parse_short_header_packet payload =
     (if payload = [] then Some None
      else do {
        cid \<leftarrow> (if length payload \<ge> 9 then sub_slice 1 9 payload else sub_slice 1 (length payload) payload);
        Some (Some ((QuicInfo_new 0)\<lparr>packet_type := OneRtt, connection_state := Connected,
                      connection_id := cid, connection_id_hex := None\<rparr>))
      })"

definition quic_priority :: "QuicConnectionState \<Rightarrow> nat" where
  "quic_priority s =
     (case s of
        QuicConnectionState.Unknown \<Rightarrow> 0 | QuicConnectionState.Initial \<Rightarrow> 1 | Handshaking \<Rightarrow> 2
      | Connected \<Rightarrow> 3 | Draining \<Rightarrow> 4 | QuicConnectionState.Closed \<Rightarrow> 5)"

definition sni_incomplete :: "TlsInfo \<Rightarrow> bool" where
  "sni_incomplete tls = (case tls_sni tls of Some s \<Rightarrow> is_partial_sni s | None \<Rightarrow> True)"

definition merge_quic_packet_info :: "QuicInfo option \<Rightarrow> QuicInfo \<Rightarrow> QuicInfo" where
  "merge_quic_packet_info existing new =
     (case existing of
        None \<Rightarrow> new
      | Some old \<Rightarrow>
          let old = (if quic_priority (connection_state new) > quic_priority (connection_state old)
                     then old\<lparr>connection_state := connection_state new\<rparr> else old);
              old = (case (quic_tls_info old, quic_tls_info new) of
                       (None, Some new_tls) \<Rightarrow> old\<lparr>quic_tls_info := Some new_tls\<rparr>
                     | (Some old_tls, Some new_tls) \<Rightarrow>
                         if sni_incomplete old_tls \<and> \<not> sni_incomplete new_tls
                            \<or> tls_sni old_tls = None \<and> tls_sni new_tls \<noteq> None
                         then old\<lparr>quic_tls_info := Some new_tls\<rparr> else old
                     | _ \<Rightarrow> old);
              old = (if connection_id old = [] \<and> connection_id new \<noteq> []
                     then old\<lparr>connection_id := connection_id new, connection_id_hex := connection_id_hex new\<rparr> else old);
              old = (if version_string old = None \<and> version_string new \<noteq> None
                     then old\<lparr>version_string := version_string new\<rparr> else old)
          in if crypto_reassembler old = None \<and> crypto_reassembler new \<noteq> None
             then old\<lparr>crypto_reassembler := crypto_reassembler new\<rparr> else old)"

text \<open>The loop of \<open>parse_quic_packet\<close> over at most ten coalesced packets.\<close>

fun coalesced_from :: "quic_crypto \<Rightarrow> instant \<Rightarrow> bytes \<Rightarrow> nat \<Rightarrow> nat \<Rightarrow> QuicInfo option \<Rightarrow> QuicInfo option option" where
  "coalesced_from C now payload 0 offset combined = Some combined"
| "coalesced_from C now payload (Suc n) offset combined =
     (if offset < length payload then do {
        remaining \<leftarrow> sub_slice offset (length payload) payload;
        first_byte \<leftarrow> byte_at remaining 0;
        (packet_info, packet_len) \<leftarrow>
          (if first_byte AND 0x80 \<noteq> 0 then parse_long_header_packet_with_length C now remaining
           else map_option (\<lambda>info. (info, length remaining)) (parse_short_header_packet remaining));
        let combined = (case packet_info of
                          Some info \<Rightarrow> Some (merge_quic_packet_info combined info) | None \<Rightarrow> combined);
        if packet_len = 0 then Some combined
        else coalesced_from C now payload n (offset + packet_len) combined
      }
      else Some combined)"

definition parse_quic_packet :: "quic_crypto \<Rightarrow> instant \<Rightarrow> bytes \<Rightarrow> QuicInfo option option" where
  "parse_quic_packet C now payload = coalesced_from C now payload 10 0 None"

section \<open>No panic\<close>

lemma parse_varint_np [no_panic]: "returns (parse_variable_length_int data)"
  unfolding parse_variable_length_int_def varint_len_def Let_def by (intro no_panic) auto

lemma varint_at_np [no_panic]: "offset \<le> length payload \<Longrightarrow> returns (varint_at payload offset)"
  unfolding varint_at_def by (intro no_panic) auto

lemma skip_varints_np [no_panic]: "offset \<le> length payload \<Longrightarrow> returns (skip_varints payload n offset)"
proof (induction n arbitrary: offset)
  case (Suc n)
  then show ?case by (auto simp: skip_varints.simps intro!: no_panic dest!: varint_at_progress)
qed (simp add: skip_varints.simps returns_def)

lemma skipped_frame_np [no_panic]: "offset \<le> length payload \<Longrightarrow> returns (skipped_frame payload t offset)"
  unfolding skipped_frame_def ack_frame_def stream_frame_def new_connection_id_frame_def
  by (intro no_panic) (auto intro!: no_panic dest!: varint_at_progress skip_varints_progress)

lemma crypto_frame_np [no_panic]: "offset \<le> length payload \<Longrightarrow> returns (crypto_frame now payload offset info)"
  unfolding crypto_frame_def by (auto simp: Let_def intro!: no_panic dest!: varint_at_progress)

lemma close_frame_np [no_panic]:
  "offset \<le> length payload \<Longrightarrow> returns (connection_close_frame payload t offset info)"
  unfolding connection_close_frame_def
  by (auto simp: Let_def intro!: no_panic dest!: varint_at_progress skip_varints_progress)

lemma frame_step_np [no_panic]: "offset \<le> length payload \<Longrightarrow> returns (frame_step now payload t offset info)"
  unfolding frame_step_def by (intro no_panic)

lemma frames_from_np [no_panic]: "returns (frames_from now payload offset found info)"
proof (induction now payload offset found info rule: frames_from.induct)
  case (1 now payload offset found info)
  show ?case by (subst frames_from.simps) (auto intro!: no_panic 1 split: frame_flow.split)
qed

lemma process_crypto_np [no_panic]: "returns (process_crypto_frames_in_packet now payload info)"
  unfolding process_crypto_frames_in_packet_def by (auto intro!: no_panic split: option.split)

lemma packet_number_offset_np [no_panic]: "returns (packet_number_offset pkt)"
  unfolding packet_number_offset_def by (auto intro!: no_panic dest!: varint_at_progress)

lemma packet_number_offset_pos: "packet_number_offset pkt = Some (Some (offset, n)) \<Longrightarrow> 0 < offset"
  unfolding packet_number_offset_def
  by (auto simp: Let_def dest!: try_opt_SomeD varint_at_progress split: if_splits bind_splits)

lemma pn_length_bound: "unat ((x :: u8) AND 3) \<le> 3"
  using word_and_le1 [of x 3] by (simp add: word_le_nat_alt)

lemma try_decrypt_np [no_panic]: "crypto_ok C \<Longrightarrow> returns (try_decrypt_initial_with_secret C pkt secret version)"
proof -
  assume "crypto_ok C"
  then have block: "length (aes128_block C k b) = 16" for k b by (simp add: crypto_ok_def)
  then have "aes128_block C k b \<noteq> []" for k b by (metis list.size(3) zero_neq_numeral)
  moreover have "pn_offset + (unat (x AND 3) + 1) \<le> n" if "pn_offset + 4 \<le> n" for x :: u8 and pn_offset n
    using pn_length_bound [of x] that by simp
  moreover have "1 + (unat (x AND 3) + 1) \<le> 16" for x :: u8 using pn_length_bound [of x] by simp
  ultimately show ?thesis
    unfolding try_decrypt_initial_with_secret_def
    by (intro no_panic) (simp_all add: block packet_number_offset_pos Suc_le_eq, auto)
qed

lemma decrypt_np [no_panic]: "crypto_ok C \<Longrightarrow> returns (decrypt_client_initial_packet C pkt dcid version)"
    "crypto_ok C \<Longrightarrow> returns (decrypt_server_initial_packet C pkt dcid version)"
  unfolding decrypt_client_initial_packet_def decrypt_server_initial_packet_def by (intro no_panic; assumption)+

lemma extract_tls_long_np [no_panic]:
  "crypto_ok C \<Longrightarrow> returns (extract_tls_from_long_header_packet C now payload info dcid version ptype)"
  unfolding extract_tls_from_long_header_packet_def by (auto intro!: no_panic split: option.split)

lemma finish_long_np [no_panic]:
  "crypto_ok C \<Longrightarrow> returns (finish_long_header_packet C now payload offset info dcid version ptype)"
  unfolding finish_long_header_packet_def by (auto simp: Let_def intro!: no_panic split: option.split)

lemma parse_long_np [no_panic]: "crypto_ok C \<Longrightarrow> returns (parse_long_header_packet_with_length C now payload)"
  unfolding parse_long_header_packet_with_length_def
  by (auto simp: Let_def intro!: no_panic split: option.split)

lemma parse_short_np [no_panic]: "returns (parse_short_header_packet payload)"
  unfolding parse_short_header_packet_def by (intro no_panic) (auto simp: Suc_le_eq)

lemma coalesced_np [no_panic]: "crypto_ok C \<Longrightarrow> returns (coalesced_from C now payload n offset combined)"
proof (induction n arbitrary: offset combined)
  case (Suc n)
  show ?case unfolding coalesced_from.simps by (intro no_panic Suc; use Suc.prems in auto)
qed (simp add: no_panic)

lemma parse_quic_packet_np [no_panic]: "crypto_ok C \<Longrightarrow> returns (parse_quic_packet C now payload)"
  unfolding parse_quic_packet_def by (intro no_panic)

lemma is_quic_packet_np [no_panic]: "returns (is_quic_packet payload)"
  unfolding is_quic_packet_def by (intro no_panic) auto

end
