(* ===== verification/Dpi.thy ===== *)
theory Dpi
  imports DnsParse DpiUdp DpiText DpiTcp DpiTls QuicPacket
begin

text \<open>
  The dispatch of \<^verbatim>\<open>dpi/mod.rs\<close>: which inspection a payload gets, by port and signature, in the
  order of the code; the first that recognises the payload names the application. The outer
  \<open>None\<close> is a panic. No payload makes the inspection panic.
\<close>

text \<open>A candidate: tried where its guard holds, passed over where it returns nothing.\<close>

definition candidate ::
  "bool option \<Rightarrow> ('i \<Rightarrow> ApplicationProtocol) \<Rightarrow> 'i option option \<Rightarrow> ApplicationProtocol option option \<Rightarrow>
   ApplicationProtocol option option" where
  "candidate guard wrap result otherwise = do {
     g \<leftarrow> guard;
     if g then do { r \<leftarrow> result; case r of Some i \<Rightarrow> Some (Some (wrap i)) | None \<Rightarrow> otherwise }
     else otherwise
   }"

definition on_port :: "u16 list \<Rightarrow> u16 \<Rightarrow> u16 \<Rightarrow> bool" where
  "on_port ports local_port remote_port \<longleftrightarrow> local_port \<in> set ports \<or> remote_port \<in> set ports"

text \<open>\<open>port || signature\<close>: the signature is looked at on other ports only.\<close>

definition port_or :: "bool \<Rightarrow> bool option \<Rightarrow> bool option" where
  "port_or p sig = (if p then Some True else sig)"

definition analyze_tcp_packet :: "bytes \<Rightarrow> u16 \<Rightarrow> u16 \<Rightarrow> bool \<Rightarrow> ApplicationProtocol option option" where
  "analyze_tcp_packet payload local_port remote_port outgoing =
     (let at = (\<lambda>ports. on_port ports local_port remote_port) in
      if payload = [] then Some None
      else candidate (Some True) Http (Some (analyze_http payload))
         (candidate (port_or (at [443]) (is_tls_handshake payload)) Https (analyze_https payload)
         (candidate (Some (is_bittorrent_handshake payload)) BitTorrent (analyze_bittorrent payload)
         (candidate (port_or (at [1883]) (is_mqtt_packet payload)) Mqtt (analyze_mqtt payload)
         (candidate (port_or (at [22]) (is_likely_ssh payload)) Ssh (analyze_ssh payload outgoing)
         (candidate (Some (at [21] \<or> is_ftp payload)) Ftp (Some (analyze_ftp payload))
         (Some None)))))))"

text \<open>QUIC ends the search: a packet that cannot be parsed counts as QUIC with no information.\<close>

definition analyze_udp_packet ::
  "quic_crypto \<Rightarrow> instant \<Rightarrow> bytes \<Rightarrow> u16 \<Rightarrow> u16 \<Rightarrow> bool \<Rightarrow> ApplicationProtocol option option" where
  "analyze_udp_packet C now payload local_port remote_port outgoing =
     (let at = (\<lambda>ports. on_port ports local_port remote_port) in
      if payload = [] then Some None
      else candidate (Some (at [53])) Dns (analyze_dns payload)
         (candidate (if at [443] then is_quic_packet payload else Some False) Quic
            (map_option (\<lambda>r. Some (case r of Some info \<Rightarrow> info | None \<Rightarrow> QuicInfo_new 0)) (parse_quic_packet C now payload))
         (candidate (Some (at [5353])) Mdns (analyze_mdns payload)
         (candidate (Some (at [67, 68])) Dhcp (analyze_dhcp payload)
         (candidate (Some (at [123])) Ntp (analyze_ntp payload)
         (candidate (Some (at [5355])) Llmnr (analyze_llmnr payload)
         (candidate (Some (at [1900])) Ssdp (Some (analyze_ssdp payload))
         (candidate (Some (at [137])) NetBios (analyze_netbios_ns payload)
         (candidate (Some (at [138])) NetBios (analyze_netbios_dgm payload)
         (candidate (Some (at [161, 162])) Snmp (analyze_snmp payload)
         (candidate (port_or (at [3478, 5349]) (is_likely_stun payload)) Stun (analyze_stun payload)
         (candidate (Some True) BitTorrent (analyze_udp_bittorrent payload)
         (Some None)))))))))))))"

section \<open>No panic\<close>

lemma candidate_np [no_panic]:
  "returns guard \<Longrightarrow> returns result \<Longrightarrow> returns otherwise \<Longrightarrow> returns (candidate guard wrap result otherwise)"
  unfolding candidate_def by (intro no_panic)

lemma port_or_np [no_panic]: "returns sig \<Longrightarrow> returns (port_or p sig)"
  unfolding port_or_def by (intro no_panic)

lemma analyze_tcp_np [no_panic]: "returns (analyze_tcp_packet payload local_port remote_port outgoing)"
  unfolding analyze_tcp_packet_def by (intro no_panic)

lemma analyze_udp_np [no_panic]:
  "crypto_ok C \<Longrightarrow> returns (analyze_udp_packet C now payload local_port remote_port outgoing)"
  unfolding analyze_udp_packet_def by (intro no_panic)

text \<open>So a caller can work with the value.\<close>

definition inspect_tcp :: "bytes \<Rightarrow> u16 \<Rightarrow> u16 \<Rightarrow> bool \<Rightarrow> ApplicationProtocol option" where
  "inspect_tcp payload local_port remote_port outgoing = the (analyze_tcp_packet payload local_port remote_port outgoing)"

definition inspect_udp :: "quic_crypto \<Rightarrow> instant \<Rightarrow> bytes \<Rightarrow> u16 \<Rightarrow> u16 \<Rightarrow> bool \<Rightarrow> ApplicationProtocol option" where
  "inspect_udp C now payload local_port remote_port outgoing =
     the (analyze_udp_packet C now payload local_port remote_port outgoing)"

lemma inspect_tcp_eq:
  "analyze_tcp_packet payload local_port remote_port outgoing = Some (inspect_tcp payload local_port remote_port outgoing)"
  using analyze_tcp_np [of payload local_port remote_port outgoing] by (auto simp: inspect_tcp_def returns_def)

lemma inspect_udp_eq:
  "crypto_ok C \<Longrightarrow> analyze_udp_packet C now payload local_port remote_port outgoing =
     Some (inspect_udp C now payload local_port remote_port outgoing)"
  using analyze_udp_np [of C now payload local_port remote_port outgoing] by (auto simp: inspect_udp_def returns_def)

end
