(* ===== verification/QuicInitial.thy ===== *)
theory QuicInitial
  imports QuicPacket
begin

text \<open>
  What a QUIC client sends and what \<^verbatim>\<open>QuicPacket\<close> makes of it. The encoders follow RFC 9000 and
  RFC 9001: variable-length integers of any width, the frames an Initial packet may carry, and
  header and packet protection by an abstract AEAD. A protected Initial packet with the ClientHello
  in CRYPTO frames is read back to the server name, whatever follows it in the datagram.
\<close>

section \<open>Variable-length integers\<close>

text \<open>Width and value; the two top bits of the first of $2^w$ bytes are the width.\<close>

type_synonym varint = "nat \<times> nat"

fun varint_ok :: "varint \<Rightarrow> bool" where
  "varint_ok (w, n) \<longleftrightarrow> w < 4 \<and> n < 64 * 256 ^ (2 ^ w - 1)"

fun varint :: "varint \<Rightarrow> bytes" where
  "varint (w, n) = ne_bytes Big (2 ^ w) (w * 64 * 256 ^ (2 ^ w - 1) + n)"

lemma length_varint [simp]: "length (varint v) = 2 ^ fst v"
  by (cases v) simp

lemma le_bytes_snoc: "le_bytes (Suc m) x = le_bytes m x @ [word_of_nat (x div 256 ^ m mod 256)]"
proof (induction m arbitrary: x)
  case (Suc m)
  then show ?case by (simp add: div_mult2_eq)
qed simp

lemma be_bytes_Cons: "ne_bytes Big (Suc m) x = word_of_nat (x div 256 ^ m mod 256) # ne_bytes Big m x"
  by (simp add: ne_bytes_def le_bytes_snoc del: le_bytes.simps)

lemma le_nat_append: "le_nat (xs @ ys) = le_nat xs + 256 ^ length xs * le_nat ys"
  by (induction xs) (simp_all add: algebra_simps)

lemma be_nat_Cons: "be_nat (x # xs) = unat x * 256 ^ length xs + be_nat xs"
  by (simp add: ne_nat_def le_nat_append)

lemma varint_first:
  fixes b :: u8
  assumes "unat b = w * 64 + k" and "k < 64"
  shows "unat (drop_bit 6 b) = w" and "unat (b AND 0x3f) = k"
proof -
  show "unat (drop_bit 6 b) = w" using assms by (simp add: drop_bit_eq_div unat_div_distrib)
  have "b AND 0x3f = take_bit 6 b" by (simp add: take_bit_eq_mask mask_eq_exp_minus_1)
  then show "unat (b AND 0x3f) = k" using assms by (simp add: unat_mod_distrib unsigned_take_bit_eq take_bit_eq_mod)
qed

lemma varint_len_first: "unat b = w * 64 + k \<Longrightarrow> k < 64 \<Longrightarrow> w < 4 \<Longrightarrow> varint_len b = 2 ^ w"
proof -
  assume b: "unat b = w * 64 + k" "k < 64" and w: "w < 4"
  have d: "drop_bit 6 b = word_of_nat w" using varint_first(1) [OF b] using word_of_nat_eq_iff by fastforce
  have "w \<in> {0, 1, 2, 3}" using w by auto
  then show ?thesis unfolding varint_len_def d by auto
qed

lemma parse_varint:
  assumes "varint_ok v"
  shows "parse_variable_length_int (varint v @ rest) = Some (Some (snd v, 2 ^ fst v))"
proof -
  obtain w n where v: "v = (w, n)" by (cases v)
  define m where "m = (2::nat) ^ w - 1"
  have w: "w < 4" and n: "n < 64 * 256 ^ m" using assms by (simp_all add: v m_def)
  have m: "2 ^ w = Suc m" by (simp add: m_def)
  define k where "k = n div 256 ^ m"
  have k: "k < 64" using n by (simp add: k_def less_mult_imp_div_less)
  have "(w * 64 * 256 ^ m + n) div 256 ^ m = w * 64 + k" by (simp add: k_def)
  moreover have small: "w * 64 + k < 256" using w k by simp
  ultimately have first: "(w * 64 * 256 ^ m + n) div 256 ^ m mod 256 = w * 64 + k" by simp
  define b :: u8 where "b = word_of_nat (w * 64 + k)"
  define bs where "bs = ne_bytes Big m (w * 64 * 256 ^ m + n)"
  have e: "varint v = b # bs" unfolding v varint.simps m be_bytes_Cons first diff_Suc_1 b_def bs_def ..
  have b: "unat b = w * 64 + k" using small unfolding b_def by (subst unat_of_nat) simp
  have "be_nat bs = n mod 256 ^ m" by (simp add: bs_def ne_nat_ne_bytes)
  then have "be_nat ((b AND 0x3f) # bs) = k * 256 ^ m + n mod 256 ^ m"
    unfolding be_nat_Cons varint_first(2) [OF b k] by (simp add: bs_def)
  then have "be_nat ((b AND 0x3f) # bs) = n" unfolding k_def div_mult_mod_eq .
  moreover have "length bs = m" by (simp add: bs_def)
  ultimately show ?thesis
    unfolding e parse_variable_length_int_def
    by (simp add: varint_len_first [OF b k w] m Let_def v)
qed

lemma varint_at_encoded:
  "varint_ok v \<Longrightarrow> length pre = offset \<Longrightarrow>
   varint_at (pre @ varint v @ rest) offset = Some (Some (snd v, offset + 2 ^ fst v))"
  by (simp add: varint_at_def sub_slice_def parse_varint)

lemma skip_varints_encoded:
  "\<forall>v \<in> set vs. varint_ok v \<Longrightarrow> length pre = offset \<Longrightarrow>
   skip_varints (pre @ concat (map varint vs) @ rest) (length vs) offset
     = Some (Some (offset + length (concat (map varint vs))))"
proof (induction vs arbitrary: pre offset)
  case (Cons v vs)
  then show ?case
    using varint_at_encoded [of v pre offset "concat (map varint vs) @ rest"] Cons.IH [of "pre @ varint v" "offset + 2 ^ fst v"]
    by (simp add: skip_varints.simps comp_def)
qed (simp add: skip_varints.simps)

section \<open>Frames\<close>

text \<open>The frames of Initial packets: runs of padding, PING, ACK with its ranges and ECN counts, and
  CRYPTO. Every integer comes with its width.\<close>

datatype quic_frame =
  Padding nat
| Ping
| Ack varint varint nat nat varint "varint list" "varint list"
| Crypto varint nat bytes

text \<open>\<open>Ack largest delay w k first ranges counts\<close> has a range count of width \<open>w\<close> and value \<open>k\<close>, and
  \<open>2 * k\<close> range fields; \<open>counts\<close> is empty or the three ECN counts. \<open>Crypto off w data\<close> has a length of
  width \<open>w\<close>.\<close>

fun frame_encodable :: "quic_frame \<Rightarrow> bool" where
  "frame_encodable (Padding n) \<longleftrightarrow> 0 < n"
| "frame_encodable Ping \<longleftrightarrow> True"
| "frame_encodable (Ack largest delay w k first ranges counts) \<longleftrightarrow>
     (\<forall>v \<in> set ([largest, delay, (w, k), first] @ ranges @ counts). varint_ok v)
     \<and> length ranges = 2 * k \<and> (counts = [] \<or> length counts = 3)"
| "frame_encodable (Crypto off w data) \<longleftrightarrow> varint_ok off \<and> varint_ok (w, length data)"

fun encode_frame :: "quic_frame \<Rightarrow> bytes" where
  "encode_frame (Padding n) = replicate n 0"
| "encode_frame Ping = [0x01]"
| "encode_frame (Ack largest delay w k first ranges counts) =
     (if counts = [] then 0x02 else 0x03)
     # concat (map varint ([largest, delay] @ (w, k) # first # ranges @ counts))"
| "encode_frame (Crypto off w data) = 0x06 # varint off @ varint (w, length data) @ data"

definition encode_frames :: "quic_frame list \<Rightarrow> bytes" where
  "encode_frames fs = concat (map encode_frame fs)"

text \<open>What a frame does to what is known of the connection.\<close>

fun frame_effect :: "instant \<Rightarrow> quic_frame \<Rightarrow> QuicInfo \<Rightarrow> QuicInfo" where
  "frame_effect now (Crypto off w data) info =
     (let info = info\<lparr>has_crypto_frame := True\<rparr> in
      if data = [] then info
      else info\<lparr>crypto_reassembler := map_option (snd \<circ> add_fragment now (snd off) data) (crypto_reassembler info)\<rparr>)"
| "frame_effect now _ info = info"

fun is_crypto :: "quic_frame \<Rightarrow> bool" where
  "is_crypto (Crypto _ _ _) = True"
| "is_crypto _ = False"

text \<open>Within padding the walk may go on at any later byte of it.\<close>

lemma frames_from_zero:
  assumes "offset < length payload" and "payload ! offset = 0"
  shows "frames_from now payload offset found info =
           frames_from now payload (skip_padding payload (offset + 1)) found info"
proof -
  have "skip_padding payload (offset + 1) \<le> length payload"
    using assms(1) length_takeWhile_le [of "(=) 0" "drop (Suc offset) payload"] by (simp add: skip_padding_def)
  then show ?thesis
    using assms by (subst frames_from.simps) (simp add: frame_step_def skipped_frame_def)
qed

lemma skip_padding_zero:
  assumes "offset < length payload" and "payload ! offset = 0"
  shows "skip_padding payload offset = skip_padding payload (offset + 1)"
  using assms by (simp add: skip_padding_def Cons_nth_drop_Suc [symmetric])

lemma frames_from_pad:
  "(\<forall>i < n. offset + i < length payload \<and> payload ! (offset + i) = 0) \<Longrightarrow>
   frames_from now payload offset found info = frames_from now payload (offset + n) found info"
proof (induction n arbitrary: offset)
  case (Suc n)
  have zero: "offset < length payload" "payload ! offset = 0" using Suc.prems by (metis add_0_right zero_less_Suc)+
  have later: "\<forall>i < n. offset + 1 + i < length payload \<and> payload ! (offset + 1 + i) = 0"
    using Suc.prems by (metis Suc_less_eq add.assoc plus_1_eq_Suc)
  have "frames_from now payload offset found info = frames_from now payload (offset + 1) found info"
  proof (cases "offset + 1 < length payload \<and> payload ! (offset + 1) = 0")
    case True
    then show ?thesis
      using frames_from_zero [OF zero] frames_from_zero [of "offset + 1"] skip_padding_zero [of "offset + 1"] by simp
  next
    case False
    then have "skip_padding payload (offset + 1) = offset + 1"
      by (cases "offset + 1 < length payload") (simp_all add: skip_padding_def Cons_nth_drop_Suc [symmetric])
    then show ?thesis using frames_from_zero [OF zero] by simp
  qed
  then show ?case using Suc.IH [OF later] by simp
qed simp

lemma frames_from_step:
  assumes "payload = pre @ t # body @ rest" and "length pre = offset"
    and "frame_step now payload t (offset + 1) info = Some (Next (offset + 1 + length body), crypto, info')"
  shows "frames_from now payload offset found info =
           frames_from now payload (offset + 1 + length body) (found \<or> crypto) info'"
proof -
  have "offset < length payload" "payload ! offset = t" "offset + 1 + length body \<le> length payload"
    using assms(1,2) by auto
  then show ?thesis using assms(3) by (subst frames_from.simps) simp
qed

lemma ack_frame_encoded:
  assumes "frame_encodable (Ack largest delay w k first ranges counts)" and "length pre = offset"
  shows "ack_frame (pre @ concat (map varint ([largest, delay] @ (w, k) # first # ranges @ counts)) @ rest) (counts \<noteq> []) offset
    = Some (Some (offset + length (concat (map varint ([largest, delay] @ (w, k) # first # ranges @ counts)))))"
proof -
  let ?v = "\<lambda>vs. concat (map varint vs)"
  define D where "D = pre @ ?v [largest, delay] @ varint (w, k) @ ?v [first] @ ?v ranges @ ?v counts @ rest"
  have ok: "\<forall>v \<in> set [largest, delay]. varint_ok v" "varint_ok (w, k)" "\<forall>v \<in> set [first]. varint_ok v"
      "\<forall>v \<in> set ranges. varint_ok v" "\<forall>v \<in> set counts. varint_ok v" "length ranges = 2 * k"
    using assms(1) by auto
  note s1 = skip_varints_encoded [OF ok(1), of pre offset "varint (w, k) @ ?v [first] @ ?v ranges @ ?v counts @ rest"]
  note s2 = varint_at_encoded [OF ok(2), of "pre @ ?v [largest, delay]" _ "?v [first] @ ?v ranges @ ?v counts @ rest"]
  note s3 = skip_varints_encoded [OF ok(3), of "pre @ ?v [largest, delay] @ varint (w, k)" _ "?v ranges @ ?v counts @ rest"]
  note s4 = skip_varints_encoded [OF ok(4), of "pre @ ?v [largest, delay] @ varint (w, k) @ ?v [first]" _ "?v counts @ rest"]
  note s5 = skip_varints_encoded [OF ok(5), of "pre @ ?v [largest, delay] @ varint (w, k) @ ?v [first] @ ?v ranges" _ rest]
  let ?n1 = "offset + length (?v [largest, delay])"
  let ?n2 = "?n1 + 2 ^ w"
  let ?n3 = "?n2 + length (?v [first])"
  let ?n4 = "?n3 + length (?v ranges)"
  have 1: "skip_varints D 2 offset = Some (Some ?n1)" using s1 assms(2) by (simp add: D_def add.assoc numeral_2_eq_2 del: varint.simps)
  have 2: "varint_at D ?n1 = Some (Some (k, ?n2))" using s2 assms(2) by (simp add: D_def add.assoc del: varint.simps)
  have 3: "skip_varints D 1 ?n2 = Some (Some ?n3)" using s3 assms(2) by (simp add: D_def add.assoc del: varint.simps)
  have 4: "skip_varints D (2 * k) ?n3 = Some (Some ?n4)" using s4 assms(2) ok(6) by (simp add: D_def add.assoc del: varint.simps)
  have 5: "skip_varints D (length counts) ?n4 = Some (Some (?n4 + length (?v counts)))" using s5 assms(2) by (simp add: D_def add.assoc del: varint.simps)
  have "counts \<noteq> [] \<Longrightarrow> length counts = 3" using assms(1) by simp
  then have "ack_frame D (counts \<noteq> []) offset = Some (Some (?n4 + length (?v counts)))"
    using 5 unfolding ack_frame_def 1 try_opt_simps 2 prod.case 3 4 by auto
  then show ?thesis by (simp add: D_def add.assoc del: varint.simps)
qed

lemma crypto_frame_encoded:
  assumes "varint_ok off" and "varint_ok (w, length data)" and "length pre = offset"
  shows "crypto_frame now (pre @ varint off @ varint (w, length data) @ data @ rest) offset info
    = Some (Next (offset + length (varint off @ varint (w, length data) @ data)), frame_effect now (Crypto off w data) info)"
proof -
  define D where "D = pre @ varint off @ varint (w, length data) @ data @ rest"
  have 1: "varint_at D offset = Some (Some (snd off, offset + 2 ^ fst off))"
    using varint_at_encoded [OF assms(1,3), of "varint (w, length data) @ data @ rest"] by (simp add: D_def)
  have 2: "varint_at D (offset + 2 ^ fst off) = Some (Some (length data, offset + 2 ^ fst off + 2 ^ w))"
    using varint_at_encoded [OF assms(2), of "pre @ varint off" _ "data @ rest"] assms(3)
    by (simp add: D_def del: varint.simps)
  have 3: "sub_slice (offset + 2 ^ fst off + 2 ^ w) (offset + 2 ^ fst off + 2 ^ w + length data) D = Some data"
    using sub_slice_append [of "pre @ varint off @ varint (w, length data)" _ data "length data" rest] assms(3)
    by (simp add: D_def add.assoc del: varint.simps)
  have 4: "length D - (offset + 2 ^ fst off + 2 ^ w) = length data + length rest"
    using assms(3) by (simp add: D_def del: varint.simps)
  show ?thesis
    unfolding D_def [symmetric] crypto_frame_def Let_def 1 2 4 bind.bind_lunit option.case prod.case
    using 3 by (simp add: min_def add.assoc del: sub_slice_ok)
qed

lemma frames_from_frame:
  assumes "frame_encodable f" and "length pre = offset"
  shows "frames_from now (pre @ encode_frame f @ rest) offset found info =
    frames_from now (pre @ encode_frame f @ rest) (offset + length (encode_frame f)) (found \<or> is_crypto f) (frame_effect now f info)"
proof (cases f)
  case (Padding n)
  have "\<forall>i < n. offset + i < length (pre @ replicate n 0 @ rest) \<and> (pre @ replicate n 0 @ rest) ! (offset + i) = 0"
    using assms(2) by (auto simp: nth_append)
  from frames_from_pad [OF this] show ?thesis by (simp add: Padding)
next
  case Ping
  then show ?thesis
    using frames_from_step [of _ pre "0x01" "[]" rest offset now info False info found] assms(2)
    by (simp add: frame_step_def skipped_frame_def)
next
  case (Ack largest delay w k first ranges counts)
  define body where "body = concat (map varint ([largest, delay] @ (w, k) # first # ranges @ counts))"
  define t :: u8 where "t = (if counts = [] then 0x02 else 0x03)"
  have e: "encode_frame f = t # body" by (simp add: Ack body_def t_def del: varint.simps)
  have "ack_frame ((pre @ [t]) @ body @ rest) (counts \<noteq> []) (offset + 1) = Some (Some (offset + 1 + length body))"
    unfolding body_def using assms Ack by (intro ack_frame_encoded) auto
  moreover have "(t = 0x03) = (counts \<noteq> [])" "t \<noteq> 0" "t \<noteq> 1" "t \<noteq> 6" "t \<noteq> 0x1c" "t \<noteq> 0x1d" "t = 0x02 \<or> t = 0x03"
    by (simp_all add: t_def)
  ultimately have step: "frame_step now (pre @ t # body @ rest) t (offset + 1) info = Some (Next (offset + 1 + length body), False, info)"
    unfolding frame_step_def skipped_frame_def Let_def by (simp add: next_frame_def)
  have "\<not> is_crypto f" "frame_effect now f info = info" by (simp_all add: Ack)
  then show ?thesis using frames_from_step [OF refl assms(2) step] by (simp add: e)
next
  case (Crypto off w data)
  define body where "body = varint off @ varint (w, length data) @ data"
  have e: "encode_frame f = 0x06 # body" by (simp add: Crypto body_def del: varint.simps)
  have "crypto_frame now ((pre @ [0x06]) @ varint off @ varint (w, length data) @ data @ rest) (offset + 1) info
      = Some (Next (offset + 1 + length body), frame_effect now f info)"
    unfolding body_def Crypto using assms by (intro crypto_frame_encoded) (simp_all add: Crypto)
  then have step: "frame_step now (pre @ 0x06 # body @ rest) 0x06 (offset + 1) info
      = Some (Next (offset + 1 + length body), True, frame_effect now f info)"
    unfolding frame_step_def body_def by (simp del: varint.simps)
  have "is_crypto f" by (simp add: Crypto)
  then show ?thesis using frames_from_step [OF refl assms(2) step] by (simp add: e)
qed

lemma frames_encoded:
  assumes "list_all frame_encodable fs" and "length pre = offset"
  shows "frames_from now (pre @ encode_frames fs) offset found info =
    Some (False, found \<or> list_ex is_crypto fs, fold (frame_effect now) fs info)"
  using assms
proof (induction fs arbitrary: pre offset found info)
  case Nil
  then show ?case by (subst frames_from.simps) (simp add: encode_frames_def)
next
  case (Cons f fs)
  have e: "pre @ encode_frames (f # fs) = pre @ encode_frame f @ encode_frames fs" by (simp add: encode_frames_def)
  show ?case
    using frames_from_frame [of f pre offset now "encode_frames fs" found info] Cons.prems
      Cons.IH [of "pre @ encode_frame f" "offset + length (encode_frame f)"]
    unfolding e by simp
qed

text \<open>The CRYPTO fragments of the frames, as the reassembler gets them.\<close>

fun crypto_fragments :: "instant \<Rightarrow> quic_frame list \<Rightarrow> (instant \<times> nat \<times> bytes) list" where
  "crypto_fragments now [] = []"
| "crypto_fragments now (Crypto off w data # fs) =
     (if data = [] then crypto_fragments now fs else (now, snd off, data) # crypto_fragments now fs)"
| "crypto_fragments now (_ # fs) = crypto_fragments now fs"

lemma frame_effects:
  assumes "crypto_reassembler info = Some r"
  shows "crypto_reassembler (fold (frame_effect now) fs info) = Some (add_fragments (crypto_fragments now fs) r)"
  using assms
proof (induction now fs arbitrary: info r rule: crypto_fragments.induct)
  case (2 now off w data fs)
  then show ?case by (cases "data = []") simp_all
qed simp_all

lemma crypto_fragments_crypto: "crypto_fragments now fs \<noteq> [] \<Longrightarrow> list_ex is_crypto fs"
  by (induction now fs rule: crypto_fragments.induct) simp_all

text \<open>The frames carry the ClientHello, cut in any way, in any order.\<close>

definition carries_hello :: "quic_frame list \<Rightarrow> client_hello \<Rightarrow> bool" where
  "carries_hello fs ch \<longleftrightarrow>
     (let stream = encode_client_hello ch; cut = snd ` set (crypto_fragments 0 fs)
      in list_all frame_encodable fs \<and> 100 \<le> length stream \<and> length stream \<le> 65536 \<and> fragments_of stream cut
         \<and> (\<forall>i < length stream. \<exists>f \<in> cut. fst f \<le> i \<and> i < fst f + length (snd f)))"

lemma crypto_fragments_time: "snd ` set (crypto_fragments now fs) = snd ` set (crypto_fragments now' fs)"
  by (induction now fs rule: crypto_fragments.induct) simp_all

lemma process_hello:
  assumes "carries_hello fs ch" and "names_host ch h" and "crypto_reassembler info = None"
  obtains tls info' where "process_crypto_frames_in_packet now (encode_frames fs) info = Some (Some tls, info')"
    and "quic_tls_info info' = Some tls" and "tls_sni tls = Some h"
proof -
  let ?info = "fold (frame_effect now) fs (ensure_reassembler now info)"
    and ?r = "add_fragments (crypto_fragments now fs) (reassembler_new now)"
  have r: "crypto_reassembler ?info = Some ?r"
    using assms(3) by (intro frame_effects) (simp add: ensure_reassembler_def)
  have c: "list_all frame_encodable fs" "100 \<le> length (encode_client_hello ch)" "length (encode_client_hello ch) \<le> 65536"
    "fragments_of (encode_client_hello ch) (snd ` set (crypto_fragments now fs))"
    "\<forall>i < length (encode_client_hello ch). \<exists>f \<in> snd ` set (crypto_fragments now fs). fst f \<le> i \<and> i < fst f + length (snd f)"
    using assms(1) crypto_fragments_time [of now fs 0] by (simp_all add: carries_hello_def Let_def)
  obtain f where "f \<in> snd ` set (crypto_fragments now fs)" using c(2,5) by fastforce
  then have "crypto_fragments now fs \<noteq> []" by auto
  then have found: "list_ex is_crypto fs" by (rule crypto_fragments_crypto)
  have walk: "frames_from now (encode_frames fs) 0 False (ensure_reassembler now info) = Some (False, True, ?info)"
    using frames_encoded [OF c(1), of "[]" 0] found by simp
  obtain tls r' where x: "extract_tls ?r False = (Some tls, r')" and h: "tls_sni tls = Some h"
    using extract_any_fragmentation [OF assms(2) c(2-5), of now False] by (cases "extract_tls ?r False") auto
  then show thesis
    using that walk r by (simp add: process_crypto_frames_in_packet_def extract_tls_eq)
qed

section \<open>Packet protection\<close>

text \<open>An Initial packet before its protection. The low bits of the first byte are the length of the
  packet number less one.\<close>

record initial_packet =
  ip_version :: u32
  ip_dcid :: bytes
  ip_scid :: bytes
  ip_token :: bytes
  ip_token_width :: nat
  ip_length_width :: nat
  ip_pn_len :: nat
  ip_pn :: nat

text \<open>The sealing side of AES-128-GCM, which \<open>ring\<close> opens.\<close>

type_synonym aead_seal = "bytes \<Rightarrow> bytes \<Rightarrow> bytes \<Rightarrow> bytes \<Rightarrow> bytes"

definition aead_ok :: "quic_crypto \<Rightarrow> aead_seal \<Rightarrow> bool" where
  "aead_ok C seal \<longleftrightarrow> crypto_ok C \<and> (\<forall>prk info n. n \<le> 32 \<longrightarrow> hkdf_expand C prk info n \<noteq> None)
     \<and> (\<forall>k n a p. length (seal k n a p) = length p + 16 \<and> aes128_gcm_open C k n a (seal k n a p) = Some p)"

definition initial_first :: "initial_packet \<Rightarrow> u8" where
  "initial_first q = (if is_quic_v2 (ip_version q) then 0xD0 else 0xC0) OR word_of_nat (ip_pn_len q - 1)"

text \<open>The header up to the packet number, of a packet with \<open>n\<close> bytes of packet number and
  ciphertext, behind the first byte.\<close>

definition ids_of :: "initial_packet \<Rightarrow> bytes" where
  "ids_of q = be32 (ip_version q) @ word_of_nat (length (ip_dcid q)) # ip_dcid q
     @ word_of_nat (length (ip_scid q)) # ip_scid q"

definition initial_header :: "initial_packet \<Rightarrow> nat \<Rightarrow> bytes" where
  "initial_header q n = ids_of q @ varint (ip_token_width q, length (ip_token q)) @ ip_token q @ varint (ip_length_width q, n)"

definition pn_bytes :: "initial_packet \<Rightarrow> bytes" where
  "pn_bytes q = ne_bytes Big (ip_pn_len q) (ip_pn q)"

definition client_keys :: "quic_crypto \<Rightarrow> initial_packet \<Rightarrow> bytes \<times> bytes \<times> bytes" where
  "client_keys C q =
     (let v = ip_version q; secret = the (derive_secret C (initial_secret C (ip_dcid q) v) (ascii ''client in'') 32)
      in (the (derive_packet_protection_key C secret v), the (derive_packet_protection_iv C secret v),
          the (derive_header_protection_key C secret v)))"

definition protect :: "quic_crypto \<Rightarrow> aead_seal \<Rightarrow> initial_packet \<Rightarrow> bytes \<Rightarrow> bytes" where
  "protect C seal q plain =
     (let (key, iv, hp) = client_keys C q;
          header = initial_header q (ip_pn_len q + length plain + 16);
          ciphertext = seal key (nonce_of iv (ip_pn q)) (initial_first q # header @ pn_bytes q) plain;
          mask = aes128_block C hp (take 16 (drop (4 - ip_pn_len q) ciphertext))
      in (initial_first q XOR (mask ! 0 AND 0x0f)) # header @ map2 (XOR) (pn_bytes q) (take (ip_pn_len q) (drop 1 mask))
         @ ciphertext)"

definition initial_ok :: "initial_packet \<Rightarrow> bytes \<Rightarrow> bool" where
  "initial_ok q plain \<longleftrightarrow> ip_version q \<noteq> 0 \<and> 0 < length (ip_dcid q) \<and> length (ip_dcid q) < 256 \<and> length (ip_scid q) < 256
     \<and> varint_ok (ip_token_width q, length (ip_token q))
     \<and> varint_ok (ip_length_width q, ip_pn_len q + length plain + 16)
     \<and> 1 \<le> ip_pn_len q \<and> ip_pn_len q \<le> 4 \<and> ip_pn q < 256 ^ ip_pn_len q \<and> 4 \<le> ip_pn_len q + length plain"

lemma packet_number_offset_header:
  assumes "length (ip_dcid q) < 256" and "length (ip_scid q) < 256"
    and "varint_ok (ip_token_width q, length (ip_token q))" and "varint_ok (ip_length_width q, n)"
  shows "packet_number_offset (b # initial_header q n @ rest) = Some (Some (1 + length (initial_header q n), n))"
proof -
  let ?d = "ip_dcid q" and ?s = "ip_scid q"
  let ?vt = "varint (ip_token_width q, length (ip_token q))" and ?vl = "varint (ip_length_width q, n)"
  obtain v1 v2 v3 v4 where v: "be32 (ip_version q) = [v1, v2, v3, v4]" by (rule be32_bytes)
  define D where "D = b # initial_header q n @ rest"
  have D: "D = [b, v1, v2, v3, v4, word_of_nat (length ?d)] @ ?d @ word_of_nat (length ?s) # ?s @ ?vt @ ip_token q @ ?vl @ rest"
    by (simp add: D_def initial_header_def ids_of_def v)
  have u: "unat (word_of_nat (length ?d) :: u8) = length ?d" "unat (word_of_nat (length ?s) :: u8) = length ?s"
    using assms(1,2) by (simp_all add: unat_of_nat)
  have 1: "byte_at D 5 = Some (word_of_nat (length ?d))" by (simp add: D byte_at_def)
  have 2: "byte_at D (6 + length ?d) = Some (word_of_nat (length ?s))" by (simp add: D byte_at_def nth_append)
  let ?o = "6 + length ?d + 1 + length ?s"
  have pos: "0 < (2::nat) ^ ip_token_width q" "0 < (2::nat) ^ ip_length_width q" by simp_all
  have 3: "varint_at D ?o = Some (Some (length (ip_token q), ?o + 2 ^ ip_token_width q))"
    using varint_at_encoded [OF assms(3), of "[b, v1, v2, v3, v4, word_of_nat (length ?d)] @ ?d @ word_of_nat (length ?s) # ?s" ?o
        "ip_token q @ ?vl @ rest"] by (simp add: D del: varint.simps)
  let ?o' = "?o + 2 ^ ip_token_width q + length (ip_token q)"
  have 4: "varint_at D ?o' = Some (Some (n, ?o' + 2 ^ ip_length_width q))"
    using varint_at_encoded [OF assms(4),
        of "[b, v1, v2, v3, v4, word_of_nat (length ?d)] @ ?d @ word_of_nat (length ?s) # ?s @ ?vt @ ip_token q" ?o' rest]
    by (simp add: D add.assoc del: varint.simps)
  have len: "length D = ?o' + 2 ^ ip_length_width q + length rest" by (simp add: D del: varint.simps)
  have h: "1 + length (initial_header q n) = ?o' + 2 ^ ip_length_width q"
    by (simp add: initial_header_def ids_of_def v del: varint.simps)
  have "packet_number_offset D = Some (Some (?o' + 2 ^ ip_length_width q, n))"
    unfolding packet_number_offset_def 1 bind.bind_lunit u Let_def 2 3 4 try_opt_simps prod.case
    using len pos by simp
  then show ?thesis unfolding h D_def .
qed

lemma xor_twice: "length xs = length ys \<Longrightarrow> map2 (XOR) (map2 (XOR) xs ys) ys = (xs :: bytes)"
  by (induction xs ys rule: list_induct2) (simp_all add: xor.assoc)

lemma initial_first_pn:
  assumes "1 \<le> ip_pn_len q" and "ip_pn_len q \<le> 4"
  shows "unat (initial_first q AND 0x03) + 1 = ip_pn_len q"
    and "initial_first q AND 0x80 = 0x80"
    and "drop_bit 4 (initial_first q AND 0x30) = (if is_quic_v2 (ip_version q) then 1 else 0)"
proof -
  have "ip_pn_len q \<in> {1, 2, 3, 4}" using assms by auto
  then show "unat (initial_first q AND 0x03) + 1 = ip_pn_len q" "initial_first q AND 0x80 = 0x80"
    "drop_bit 4 (initial_first q AND 0x30) = (if is_quic_v2 (ip_version q) then 1 else 0)"
    by (auto simp: initial_first_def)
qed

lemma be_nat_pn: "ip_pn q < 256 ^ ip_pn_len q \<Longrightarrow> be_nat (pn_bytes q) = ip_pn q"
  by (simp add: pn_bytes_def ne_nat_ne_bytes)

lemma decrypt_protected:
  assumes ok: "initial_ok q plain" and C: "aead_ok C seal"
  shows "decrypt_client_initial_packet C (protect C seal q plain) (ip_dcid q) (ip_version q) = Some (Some plain)"
proof -
  let ?v = "ip_version q" and ?k = "ip_pn_len q"
  have expand: "\<exists>b. hkdf_expand C prk info n = Some b" if "n \<le> 32" for prk info n
    using C that unfolding aead_ok_def by blast
  obtain secret where sec: "derive_secret C (initial_secret C (ip_dcid q) ?v) (ascii ''client in'') 32 = Some secret"
    using expand unfolding derive_secret_def by fastforce
  obtain key where key: "derive_packet_protection_key C secret ?v = Some key"
    using expand unfolding derive_packet_protection_key_def derive_secret_def by fastforce
  obtain iv where iv: "derive_packet_protection_iv C secret ?v = Some iv"
    using expand unfolding derive_packet_protection_iv_def derive_secret_def by fastforce
  obtain hp where hp: "derive_header_protection_key C secret ?v = Some hp"
    using expand unfolding derive_header_protection_key_def derive_secret_def by fastforce
  have keys: "client_keys C q = (key, iv, hp)" by (simp add: client_keys_def Let_def sec key iv hp)
  define n where "n = ?k + length plain + 16"
  define header where "header = initial_header q n"
  define aad where "aad = initial_first q # header @ pn_bytes q"
  define ct where "ct = seal key (nonce_of iv (ip_pn q)) aad plain"
  define mask where "mask = aes128_block C hp (take 16 (drop (4 - ?k) ct))"
  define pm where "pm = take ?k (drop 1 mask)"
  define masked where "masked = map2 (XOR) (pn_bytes q) pm"
  define b where "b = initial_first q XOR (mask ! 0 AND 0x0f)"
  have q: "1 \<le> ?k" "?k \<le> 4" "ip_pn q < 256 ^ ?k" "4 \<le> ?k + length plain"
    using ok by (simp_all add: initial_ok_def)
  have D: "protect C seal q plain = b # header @ masked @ ct"
    by (simp add: protect_def keys Let_def b_def mask_def header_def n_def ct_def aad_def masked_def pm_def add.assoc)
  define D where "D = b # header @ masked @ ct"
  have lct: "length ct = length plain + 16" using C by (simp add: ct_def aead_ok_def)
  have lmask: "length mask = 16" using C by (simp add: mask_def aead_ok_def crypto_ok_def)
  then have lpm: "length pm = ?k" using q by (simp add: pm_def)
  then have lm: "length masked = ?k" by (simp add: masked_def pn_bytes_def)
  let ?o = "1 + length header"
  have o: "packet_number_offset D = Some (Some (?o, n))"
    unfolding D_def header_def using ok by (intro packet_number_offset_header) (simp_all add: initial_ok_def n_def)
  have len: "length D = ?o + ?k + length plain + 16" by (simp add: D_def lm lct)
  have sample: "sub_slice (?o + 4) (?o + 4 + 16) D = Some (take 16 (drop (4 - ?k) ct))"
  proof -
    have "drop (?o + 4) ((b # header @ masked) @ ct) = drop (4 - ?k) ct"
      using q lm unfolding drop_append by simp
    then show ?thesis using len q by (simp add: D_def)
  qed
  have mask0: "byte_at mask 0 = Some (mask ! 0)" "byte_at D 0 = Some b" by (simp_all add: lmask byte_at_def D_def)
  have unmask: "b XOR (mask ! 0 AND 0x0f) = initial_first q" by (simp add: b_def xor.assoc)
  have pnl: "unat (initial_first q AND 0x03) + 1 = ?k" using q(1,2) by (rule initial_first_pn)
  have sl: "sub_slice ?o (?o + ?k) D = Some masked"
    using sub_slice_append [of "b # header" ?o masked ?k ct] lm by (simp add: D_def)
  have sp: "sub_slice 1 (1 + ?k) mask = Some pm" using lmask q by (simp add: pm_def)
  have pn: "map2 (XOR) masked pm = pn_bytes q" unfolding masked_def by (rule xor_twice) (simp add: lpm pn_bytes_def)
  have sh: "sub_slice 1 ?o D = Some header" by (simp add: D_def)
  have sc: "sub_slice (?o + ?k) (?o + ?k + (n - ?k)) D = Some ct"
    using sub_slice_append [of "b # header @ masked" "?o + ?k" ct "length ct" "[]"] lm lct by (simp add: D_def n_def)
  have open': "aes128_gcm_open C key (nonce_of iv (ip_pn q)) aad ct = Some plain"
    using C by (simp add: ct_def aead_ok_def)
  have "try_decrypt_initial_with_secret C D secret ?v = Some (Some plain)"
    unfolding try_decrypt_initial_with_secret_def key iv hp prod.case option.case o try_opt_simps Let_def sample bind.bind_lunit
      mask_def [symmetric] mask0 unmask pnl sl sp pn sh sc
    using len q lct open' be_nat_pn [OF q(3)] by (simp add: n_def aad_def)
  then show ?thesis by (simp add: decrypt_client_initial_packet_def sec D D_def)
qed

section \<open>Datagrams\<close>

lemma initial_type:
  assumes "1 \<le> ip_pn_len q" and "ip_pn_len q \<le> 4" and "b AND 0xf0 = initial_first q AND 0xf0"
  shows "b AND 0x80 \<noteq> 0" and "get_long_packet_type b (ip_version q) = QuicPacketType.Initial"
proof -
  have "b AND 0x80 = (b AND 0xf0) AND 0x80" "b AND 0x30 = (b AND 0xf0) AND 0x30" by (simp_all add: and.assoc)
  then have "b AND 0x80 = (initial_first q AND 0xf0) AND 0x80" "b AND 0x30 = (initial_first q AND 0xf0) AND 0x30"
    using assms(3) by simp_all
  then have "b AND 0x80 = initial_first q AND 0x80" "b AND 0x30 = initial_first q AND 0x30" by (simp_all add: and.assoc)
  then show "b AND 0x80 \<noteq> 0" "get_long_packet_type b (ip_version q) = QuicPacketType.Initial"
    using initial_first_pn [OF assms(1,2)] by (simp_all add: get_long_packet_type_def Let_def)
qed

lemma protect_shape:
  assumes "initial_ok q plain" and "aead_ok C seal"
  obtains b body where "protect C seal q plain = b # initial_header q (length body) @ body"
    and "length body = ip_pn_len q + length plain + 16" and "b AND 0xf0 = initial_first q AND 0xf0"
proof -
  obtain key iv hp where keys: "client_keys C q = (key, iv, hp)" by (cases "client_keys C q")
  let ?n = "ip_pn_len q + length plain + 16"
  let ?ct = "seal key (nonce_of iv (ip_pn q)) (initial_first q # initial_header q ?n @ pn_bytes q) plain"
  let ?mask = "aes128_block C hp (take 16 (drop (4 - ip_pn_len q) ?ct))"
  let ?body = "map2 (XOR) (pn_bytes q) (take (ip_pn_len q) (drop 1 ?mask)) @ ?ct"
  let ?b = "initial_first q XOR (?mask ! 0 AND 0x0f)"
  have "length ?ct = length plain + 16" using assms(2) by (simp add: aead_ok_def)
  moreover have "length ?mask = 16" using assms(2) by (simp add: aead_ok_def crypto_ok_def)
  ultimately have len: "length ?body = ?n" using assms(1) by (simp add: pn_bytes_def initial_ok_def)
  have "?b AND 0xf0 = (initial_first q AND 0xf0) XOR (?mask ! 0 AND (0x0f AND 0xf0))"
    by (simp only: bit.conj_xor_distrib2 and.assoc)
  then have "?b AND 0xf0 = initial_first q AND 0xf0" by simp
  then show thesis using that [of ?b ?body] len by (simp add: protect_def keys Let_def)
qed

text \<open>The first packet of a datagram, up to the inspection of its own bytes.\<close>

lemma parse_long_initial:
  fixes q plain C seal rest
  defines "wire \<equiv> protect C seal q plain"
  assumes ok: "initial_ok q plain" and C: "aead_ok C seal"
  shows "parse_long_header_packet_with_length C now (wire @ rest) =
    map_option (\<lambda>info. (Some info, length wire))
      (extract_tls_from_long_header_packet C now wire
        ((QuicInfo_new (ip_version q))\<lparr>packet_type := QuicPacketType.Initial, connection_id := ip_dcid q\<rparr>)
        (ip_dcid q) (ip_version q) QuicPacketType.Initial)"
    and "wire ! 0 AND 0x80 \<noteq> 0" and "wire \<noteq> []"
proof -
  obtain b body where wire: "wire = b # initial_header q (length body) @ body"
    and n: "length body = ip_pn_len q + length plain + 16" and b: "b AND 0xf0 = initial_first q AND 0xf0"
    unfolding wire_def using ok C by (rule protect_shape)
  have ip: "1 \<le> ip_pn_len q" "ip_pn_len q \<le> 4" "ip_version q \<noteq> 0" "length (ip_dcid q) < 256" "length (ip_scid q) < 256"
    "varint_ok (ip_token_width q, length (ip_token q))" "varint_ok (ip_length_width q, length body)"
    using ok n by (simp_all add: initial_ok_def)
  show "wire ! 0 AND 0x80 \<noteq> 0" "wire \<noteq> []" using initial_type(1) [OF ip(1,2) b] by (simp_all add: wire)
  let ?d = "ip_dcid q" and ?s = "ip_scid q"
  let ?vt = "varint (ip_token_width q, length (ip_token q))" and ?vl = "varint (ip_length_width q, length body)"
  obtain v1 v2 v3 v4 where v: "be32 (ip_version q) = [v1, v2, v3, v4]" "word_of_nat (be_nat [v1, v2, v3, v4]) = ip_version q"
    by (rule be32_bytes)
  define D where "D = wire @ rest"
  have D: "D = [b, v1, v2, v3, v4, word_of_nat (length ?d)] @ ?d @ word_of_nat (length ?s) # ?s @ ?vt @ ip_token q @ ?vl @ body @ rest"
    by (simp add: D_def wire initial_header_def ids_of_def v)
  have u: "unat (word_of_nat (length ?d) :: u8) = length ?d" "unat (word_of_nat (length ?s) :: u8) = length ?s"
    using ip by (simp_all add: unat_of_nat)
  have 0: "byte_at D 0 = Some b" "be32_at D 1 = Some (ip_version q)" using v(2) by (simp_all add: D byte_at_def be32_at_def)
  have 1: "byte_at D 5 = Some (word_of_nat (length ?d))" by (simp add: D byte_at_def)
  have dc: "sub_slice 6 (6 + length ?d) D = Some ?d"
    unfolding D by (rule sub_slice_append) simp_all
  have 2: "byte_at D (6 + length ?d) = Some (word_of_nat (length ?s))" by (simp add: D byte_at_def nth_append)
  let ?o = "6 + length ?d + 1 + length ?s"
  have pos: "0 < (2::nat) ^ ip_token_width q" "0 < (2::nat) ^ ip_length_width q" by simp_all
  have 3: "varint_at D ?o = Some (Some (length (ip_token q), ?o + 2 ^ ip_token_width q))"
    using varint_at_encoded [OF ip(6), of "[b, v1, v2, v3, v4, word_of_nat (length ?d)] @ ?d @ word_of_nat (length ?s) # ?s" ?o
        "ip_token q @ ?vl @ body @ rest"] by (simp add: D del: varint.simps)
  let ?o' = "?o + 2 ^ ip_token_width q + length (ip_token q)"
  have 4: "varint_at D ?o' = Some (Some (length body, ?o' + 2 ^ ip_length_width q))"
    using varint_at_encoded [OF ip(7),
        of "[b, v1, v2, v3, v4, word_of_nat (length ?d)] @ ?d @ word_of_nat (length ?s) # ?s @ ?vt @ ip_token q" ?o' "body @ rest"]
    by (simp add: D add.assoc del: varint.simps)
  have len: "length D = ?o' + 2 ^ ip_length_width q + length body + length rest" by (simp add: D del: varint.simps)
  have total: "?o' + 2 ^ ip_length_width q + length body = length wire"
    by (simp add: wire initial_header_def ids_of_def v del: varint.simps)
  have whole: "sub_slice 0 (length wire) D = Some wire" by (simp add: D_def)
  have fits: "length wire \<le> length D" by (simp add: D_def)
  have finish: "finish_long_header_packet C now D ?o' info dcid version ptype =
      map_option (\<lambda>info. (Some info, length wire)) (extract_tls_from_long_header_packet C now wire info dcid version ptype)"
    for info dcid version ptype
    unfolding finish_long_header_packet_def 4 bind.bind_lunit option.case prod.case Let_def total min_absorb1 [OF fits] whole
    using len pos by (cases "extract_tls_from_long_header_packet C now wire info dcid version ptype") simp_all
  have "\<not> length D < 6" "\<not> 6 + length ?d > length D" "\<not> length D \<le> 6 + length ?d" "\<not> ?o > length D" "?o' \<le> length D"
    using len pos by simp_all
  then have "parse_long_header_packet_with_length C now D =
    map_option (\<lambda>info. (Some info, length wire))
      (extract_tls_from_long_header_packet C now wire
        ((QuicInfo_new (ip_version q))\<lparr>packet_type := QuicPacketType.Initial, connection_id := ?d, connection_id_hex := None\<rparr>)
        ?d (ip_version q) QuicPacketType.Initial)"
    unfolding parse_long_header_packet_with_length_def 0 1 2 3 dc bind.bind_lunit u Let_def option.case prod.case finish
    using ip(3) initial_type(2) [OF ip(1,2) b] by simp
  then show "parse_long_header_packet_with_length C now (wire @ rest) =
    map_option (\<lambda>info. (Some info, length wire))
      (extract_tls_from_long_header_packet C now wire
        ((QuicInfo_new (ip_version q))\<lparr>packet_type := QuicPacketType.Initial, connection_id := ip_dcid q\<rparr>)
        (ip_dcid q) (ip_version q) QuicPacketType.Initial)"
    by (simp add: D_def QuicInfo_new_def)
qed

section \<open>The server name survives the rest of the datagram\<close>

definition complete_tls :: "TlsInfo \<Rightarrow> QuicInfo \<Rightarrow> bool" where
  "complete_tls tls info \<longleftrightarrow> quic_tls_info info = Some tls \<and> \<not> sni_incomplete tls"

lemma merge_keeps_tls: "complete_tls tls info \<Longrightarrow> complete_tls tls (merge_quic_packet_info (Some info) new)"
  by (auto simp: complete_tls_def merge_quic_packet_info_def sni_incomplete_def Let_def split: option.splits if_splits)

lemma coalesced_keeps_tls:
  assumes "complete_tls tls info" and "coalesced_from C now payload n offset (Some info) = Some r"
  shows "\<exists>info'. r = Some info' \<and> complete_tls tls info'"
  using assms
proof (induction n arbitrary: offset info)
  case (Suc n)
  have keep: "\<exists>i. (case new of None \<Rightarrow> Some info | Some p \<Rightarrow> Some (merge_quic_packet_info (Some info) p)) = Some i \<and> complete_tls tls i"
    for new using Suc.prems(1) merge_keeps_tls by (auto split: option.split)
  show ?case
  proof (cases "offset < length payload")
    case True
    then obtain new len where r: "(let combined = (case new of Some p \<Rightarrow> Some (merge_quic_packet_info (Some info) p) | None \<Rightarrow> Some info) in
        if len = 0 then Some combined else coalesced_from C now payload n (offset + len) combined) = Some r"
      using Suc.prems(2) by (auto split: bind_splits)
    obtain i where i: "(case new of Some p \<Rightarrow> Some (merge_quic_packet_info (Some info) p) | None \<Rightarrow> Some info) = Some i"
      "complete_tls tls i"
      using keep [of new] by auto
    show ?thesis using r i Suc.IH [of i "offset + len"] by (auto simp: i(1) Let_def split: if_splits)
  qed (use Suc.prems in auto)
qed auto

text \<open>A datagram that starts with a protected Initial packet whose frames carry a ClientHello.\<close>

lemma parse_initial_datagram:
  assumes "aead_ok C seal" and "initial_ok q (encode_frames fs)" and "carries_hello fs ch" and "names_host ch h"
  obtains info where "parse_quic_packet C now (protect C seal q (encode_frames fs) @ rest) = Some (Some info)"
    and "map_option tls_sni (quic_tls_info info) = Some (Some h)"
proof -
  let ?wire = "protect C seal q (encode_frames fs)"
  let ?new = "(QuicInfo_new (ip_version q))\<lparr>packet_type := QuicPacketType.Initial, connection_id := ip_dcid q\<rparr>"
  have C: "crypto_ok C" using assms(1) by (simp add: aead_ok_def)
  have dcid: "0 < length (ip_dcid q)" using assms(2) by (simp add: initial_ok_def)
  have none: "crypto_reassembler (?new\<lparr>connection_state := s\<rparr>) = None" for s by (simp add: QuicInfo_new_def)
  obtain tls info where "process_crypto_frames_in_packet now (encode_frames fs)
        (?new\<lparr>connection_state := state_of_packet QuicPacketType.Initial\<rparr>) = Some (Some tls, info)"
    and tls: "quic_tls_info info = Some tls" "tls_sni tls = Some h"
    using assms(3,4) none by (rule process_hello)
  then obtain info' where "extract_tls_from_long_header_packet C now ?wire ?new (ip_dcid q) (ip_version q) QuicPacketType.Initial
      = Some info'" and i: "quic_tls_info info' = Some tls"
    using decrypt_protected [OF assms(2,1)] dcid by (simp add: extract_tls_from_long_header_packet_def Let_def)
  then have long: "parse_long_header_packet_with_length C now (?wire @ rest) = Some (Some info', length ?wire)"
    and first: "?wire ! 0 AND 0x80 \<noteq> 0" and ne: "?wire \<noteq> []"
    using parse_long_initial [OF assms(2,1)] by simp_all
  have "is_valid_hostname h" using assms(4) by (simp add: names_host_def)
  then have c: "complete_tls tls info'" using i tls(2) by (simp add: complete_tls_def sni_incomplete_def not_partial_valid)
  have b0: "byte_at (?wire @ rest) 0 = Some (?wire ! 0)" using ne by (simp add: byte_at_def nth_append)
  have "parse_quic_packet C now (?wire @ rest) = coalesced_from C now (?wire @ rest) 9 (length ?wire) (Some info')"
  proof -
    have ten: "(10::nat) = Suc 9" by simp
    have whole: "sub_slice 0 (length (?wire @ rest)) (?wire @ rest) = Some (?wire @ rest)" by simp
    show ?thesis
      unfolding parse_quic_packet_def ten coalesced_from.simps whole bind.bind_lunit b0
      using long first ne by (simp add: merge_quic_packet_info_def)
  qed
  moreover obtain r where "coalesced_from C now (?wire @ rest) 9 (length ?wire) (Some info') = Some r"
    using coalesced_np [OF C] by (rule returns_obtain)
  ultimately show thesis
    using that coalesced_keeps_tls [OF c] tls(2) by (fastforce simp: complete_tls_def)
qed

section \<open>Version negotiation\<close>

text \<open>A Version Negotiation packet (RFC 9000, 17.2.1) has a list of versions where other long headers
  have a length. The parser reads a length there; for version 1 it is zero, and the rest of the
  list becomes a short header packet.\<close>

definition version_negotiation :: "u8 \<Rightarrow> bytes \<Rightarrow> bytes \<Rightarrow> u32 list \<Rightarrow> bytes" where
  "version_negotiation b dcid scid versions = b # be32 0 @ word_of_nat (length dcid) # dcid
     @ word_of_nat (length scid) # scid @ concat (map be32 versions)"

lemma be32_values: "be32 0 = [0, 0, 0, 0]" "be32 1 = [0, 0, 0, 1]"
  by (simp_all add: be32_def ne_bytes_def le_bytes_numeral)

lemma coalesced_long:
  assumes "offset < length payload" and "payload ! offset AND 0x80 \<noteq> 0" and "len \<noteq> 0"
    and "parse_long_header_packet_with_length C now (drop offset payload) = Some (Some info, len)"
  shows "coalesced_from C now payload (Suc n) offset c =
    coalesced_from C now payload n (offset + len) (Some (merge_quic_packet_info c info))"
  using assms by simp

lemma coalesced_short:
  assumes "offset < length payload" and "payload ! offset AND 0x80 = 0"
    and "parse_short_header_packet (drop offset payload) = Some (Some info)"
  shows "coalesced_from C now payload (Suc n) offset c =
    coalesced_from C now payload n (length payload) (Some (merge_quic_packet_info c info))"
  using assms by simp

lemma coalesced_end: "coalesced_from C now payload n (length payload) c = Some c"
  by (cases n) simp_all

lemma merge_none [simp]: "merge_quic_packet_info None new = new"
  by (simp add: merge_quic_packet_info_def)

lemma parse_short_connected:
  assumes "p \<noteq> []"
  obtains info where "parse_short_header_packet p = Some (Some info)" and "connection_state info = Connected"
  using assms by (cases "9 \<le> length p") (simp_all add: parse_short_header_packet_def Suc_le_eq)

lemma parse_version_negotiation:
  assumes "b AND 0x80 \<noteq> 0" and "length dcid < 256" and "length scid < 256"
  shows "\<exists>info. parse_quic_packet C now (version_negotiation b dcid scid (1 # vs)) = Some (Some info)
    \<and> packet_type info = VersionNegotiation \<and> connection_state info = Connected"
proof -
  let ?more = "[0, 0, 1] @ concat (map be32 vs)"
  define hd' where "hd' = [b, 0, 0, 0, 0, word_of_nat (length dcid)] @ dcid @ word_of_nat (length scid) # scid @ [0]"
  define D where "D = hd' @ ?more"
  have D: "version_negotiation b dcid scid (1 # vs) = D" by (simp add: D_def hd'_def version_negotiation_def be32_values)
  have u: "unat (word_of_nat (length dcid) :: u8) = length dcid" "unat (word_of_nat (length scid) :: u8) = length scid"
    using assms by (simp_all add: unat_of_nat)
  have lh: "length hd' = 8 + length dcid + length scid" by (simp add: hd'_def)
  have 0: "byte_at D 0 = Some b" "be32_at D 1 = Some 0" by (simp_all add: D_def hd'_def byte_at_def be32_at_def ne_nat_def)
  have 1: "byte_at D 5 = Some (word_of_nat (length dcid))" by (simp add: D_def hd'_def byte_at_def)
  have dc: "sub_slice 6 (6 + length dcid) D = Some dcid"
    using sub_slice_append [of "[b, 0, 0, 0, 0, word_of_nat (length dcid)]" 6 dcid "length dcid"] by (simp add: D_def hd'_def)
  have 2: "byte_at D (6 + length dcid) = Some (word_of_nat (length scid))"
    by (simp add: D_def hd'_def byte_at_def nth_append)
  let ?o = "6 + length dcid + 1 + length scid"
  have z: "varint (0, 0) = [0]" by (simp add: ne_bytes_def)
  have 3: "varint_at D ?o = Some (Some (0, length hd'))"
    using varint_at_encoded [of "(0, 0)" "[b, 0, 0, 0, 0, word_of_nat (length dcid)] @ dcid @ word_of_nat (length scid) # scid" ?o ?more]
    unfolding z lh by (simp add: D_def hd'_def)
  let ?vn = "(QuicInfo_new 0)\<lparr>packet_type := VersionNegotiation, connection_id := dcid, connection_id_hex := None\<rparr>"
  have "length D = length hd' + 3 + length (concat (map be32 vs))" by (simp add: D_def)
  then have len: "\<not> length D < 6" "\<not> 6 + length dcid > length D" "\<not> length D \<le> 6 + length dcid" "\<not> ?o > length D"
    "\<not> length D \<le> ?o" and fits: "length hd' \<le> length D" using lh by simp_all
  have first: "parse_long_header_packet_with_length C now D =
      Some (Some (?vn\<lparr>connection_state := QuicConnectionState.Initial\<rparr>), length hd')"
    unfolding parse_long_header_packet_with_length_def 0 1 2 dc bind.bind_lunit u Let_def
    using len fits 3
    by (simp add: finish_long_header_packet_def extract_tls_from_long_header_packet_def state_of_packet_def Let_def
        del: byte_at_ok)
  let ?vn' = "?vn\<lparr>connection_state := QuicConnectionState.Initial\<rparr>"
  have ten: "(10::nat) = Suc (Suc 8)" by simp
  obtain short where short: "parse_short_header_packet ?more = Some (Some short)" "connection_state short = Connected"
    using parse_short_connected [of ?more] by auto
  have at: "0 < length D" "D ! 0 = b" "length hd' < length D" "D ! length hd' = 0" "drop (length hd') D = ?more" "length hd' \<noteq> 0"
    by (simp_all add: D_def) (simp_all add: hd'_def)
  have "coalesced_from C now D 10 0 None = coalesced_from C now D (Suc 8) (length hd') (Some ?vn')"
    unfolding ten using coalesced_long [of 0 D "length hd'" C now ?vn' "Suc 8" None] at assms(1) first by simp
  also have "\<dots> = Some (Some (merge_quic_packet_info (Some ?vn') short))"
    using coalesced_short [of "length hd'" D short C now 8 "Some ?vn'"] at short by (simp add: coalesced_end del: coalesced_from.simps)
  finally have "parse_quic_packet C now D = Some (Some (merge_quic_packet_info (Some ?vn') short))"
    by (simp add: parse_quic_packet_def)
  then show ?thesis unfolding D
    using short(2) by (auto simp: merge_quic_packet_info_def quic_priority_def QuicInfo_new_def Let_def split: option.splits)
qed

end
