(* ===== verification/QuicRead.thy ===== *)
theory QuicRead
  imports Dpi QuicInitial
begin

text \<open>
  QUIC through the dispatcher: the first datagram of a client shows the server, as the TLS segment
  of \<^verbatim>\<open>TlsSpec\<close> does; a Version Negotiation packet is taken for progress of the connection; and
  the walks over frames and names move forward.
\<close>

section \<open>The first datagram of a client\<close>

text \<open>The versions whose Initial packets the code can decrypt.\<close>

definition deployed_version :: "u32 \<Rightarrow> bool" where
  "deployed_version v \<longleftrightarrow> v = 1 \<or> v = 0x6b3343cf"

lemma initial_is_quic:
  assumes "aead_ok C seal" and "initial_ok q plain" and "deployed_version (ip_version q)"
  shows "is_quic_packet (protect C seal q plain @ rest) = Some True"
proof -
  obtain b body where w: "protect C seal q plain = b # initial_header q (length body) @ body"
    and b: "b AND 0xf0 = initial_first q AND 0xf0"
    using protect_shape [OF assms(2,1)] by metis
  have "b AND 0x80 \<noteq> 0" using initial_type(1) [OF _ _ b] assms(2) by (simp add: initial_ok_def)
  moreover obtain v1 v2 v3 v4 where "be32 (ip_version q) = [v1, v2, v3, v4]" "word_of_nat (be_nat [v1, v2, v3, v4]) = ip_version q"
    by (rule be32_bytes)
  moreover have "ip_version q \<in> set known_versions" using assms(3) by (auto simp: deployed_version_def known_versions_def)
  ultimately show ?thesis
    by (simp add: w initial_header_def ids_of_def is_quic_packet_def be32_at_def byte_at_def del: byte_at_ok)
qed

text \<open>C7 (functional). The first datagram of a QUIC client (RFC 9000, RFC 9001), inspected on port
  443, shows the server: whatever the connection ids, the token, the packet number and the widths
  of the integers; whatever other frames there are and however the CRYPTO frames cut, order and
  repeat the ClientHello; whatever else the datagram holds. HKDF, AES and the AEAD are any
  functions for which opening undoes sealing.\<close>

theorem quic_initial_shows_server:
  assumes "aead_ok C seal" and "initial_ok q (encode_frames fs)" and "deployed_version (ip_version q)"
    and "carries_hello fs ch" and "names_host ch h"
    and "on_port [443] local_port remote_port" and "\<not> on_port [53] local_port remote_port"
  shows "\<exists>info. analyze_udp_packet C now (protect C seal q (encode_frames fs) @ rest) local_port remote_port outgoing
      = Some (Some (Quic info)) \<and> map_option tls_sni (quic_tls_info info) = Some (Some h)"
proof -
  let ?D = "protect C seal q (encode_frames fs) @ rest"
  obtain info where "parse_quic_packet C now ?D = Some (Some info)" "map_option tls_sni (quic_tls_info info) = Some (Some h)"
    using parse_initial_datagram [OF assms(1,2,4,5)] .
  moreover note quic = initial_is_quic [OF assms(1-3), of rest]
  moreover have "?D \<noteq> []" using quic by (auto simp: is_quic_packet_def)
  ultimately show ?thesis using assms(6,7) by (simp add: analyze_udp_packet_def candidate_def Let_def)
qed

text \<open>The witness: a ClientHello in two CRYPTO frames, the second part first, padding between them.\<close>

definition sample_seal :: aead_seal where
  "sample_seal key nonce aad plain = plain @ sample_tag"

definition sample_frames :: "quic_frame list" where
  "sample_frames = [Crypto (1, 50) 1 (drop 50 (encode_client_hello sample_hello)), Padding 3,
     Crypto (0, 0) 0 (take 50 (encode_client_hello sample_hello))]"

definition sample_initial :: initial_packet where
  "sample_initial = \<lparr>ip_version = 1, ip_dcid = [1, 2, 3, 4, 5, 6, 7, 8], ip_scid = [], ip_token = [],
     ip_token_width = 0, ip_length_width = 1, ip_pn_len = 1, ip_pn = 0\<rparr>"

lemma sample_aead: "aead_ok sample_crypto sample_seal"
  by (simp add: aead_ok_def) (simp add: sample_crypto_def sample_seal_def sample_tag_def)

lemma length_sample_hello: "length (encode_client_hello sample_hello) = 108"
  by (simp add: encode_client_hello_def ch_body_def sample_hello_def encode_sni_def sample_host_def ascii_def)

lemma sample_carries: "carries_hello sample_frames sample_hello"
proof -
  let ?s = "encode_client_hello sample_hello"
  have ne: "?s \<noteq> []" using length_sample_hello by auto
  then have "fragments_of ?s {(50, drop 50 ?s), (0, take 50 ?s)}"
    by (simp add: fragments_of_def slice_of_def same_or_apart_def length_sample_hello)
  moreover have "\<exists>f \<in> {(50, drop 50 ?s), (0, take 50 ?s)}. fst f \<le> i \<and> i < fst f + length (snd f)" if "i < length ?s" for i
    using that by (simp add: length_sample_hello) linarith
  ultimately show ?thesis
    using ne by (simp add: carries_hello_def sample_frames_def length_sample_hello Let_def)
qed

theorem quic_initial_shows_server_witness:
  "\<exists>info. analyze_udp_packet sample_crypto 0 (protect sample_crypto sample_seal sample_initial (encode_frames sample_frames) @ [0, 0])
     50000 443 True = Some (Some (Quic info)) \<and> map_option tls_sni (quic_tls_info info) = Some (Some sample_host)"
proof -
  have "initial_ok sample_initial (encode_frames sample_frames)"
    by (simp add: initial_ok_def sample_initial_def encode_frames_def sample_frames_def length_sample_hello)
  moreover have "deployed_version (ip_version sample_initial)" by (simp add: sample_initial_def deployed_version_def)
  ultimately show ?thesis
    by (rule quic_initial_shows_server [OF sample_aead _ _ sample_carries sample_names_host]) (simp_all add: on_port_def)
qed

section \<open>Version negotiation\<close>

text \<open>C35 (error). A Version Negotiation packet that offers version 1 first (RFC 9000, 17.2.1), by which
  a server rejects the version of the client, is reported with the state of an established
  connection: the parser reads the list of versions as a length of zero and a short header
  packet.\<close>

theorem version_negotiation_counts_as_connected:
  assumes "b AND 0x80 \<noteq> 0" and "length dcid < 256" and "length scid < 256"
  shows "\<exists>info. parse_quic_packet C now (version_negotiation b dcid scid (1 # vs)) = Some (Some info)
    \<and> packet_type info = VersionNegotiation \<and> connection_state info = Connected"
  using assms by (rule parse_version_negotiation)

theorem version_negotiation_counts_as_connected_witness:
  "\<exists>info. parse_quic_packet sample_crypto 0 (version_negotiation 0x80 [1, 2] [3] [1, 0x6b3343cf]) = Some (Some info)
    \<and> packet_type info = VersionNegotiation \<and> connection_state info = Connected"
  by (rule version_negotiation_counts_as_connected) simp_all

section \<open>Progress\<close>

lemma skip_name_advances:
  "skip_name_from payload hops offset = Some (Some next) \<Longrightarrow> offset < next \<and> next \<le> length payload"
proof (induction payload hops offset rule: skip_name_from.induct)
  case (1 payload hops offset)
  show ?case
    using 1(2) 1(1) unfolding skip_name_from.simps [of payload hops offset]
    by (fastforce split: if_splits bind_splits)
qed

text \<open>C34 (termination). The walks over data of the other side move forward and return, whatever the data:
  a QUIC frame ends behind the byte that starts it, and a DNS name, compressed or not, ends behind
  its first byte and within the message, so a pointer cannot lead back.\<close>

theorem inspection_walks_advance:
  assumes "offset < length payload"
  shows "(\<exists>flow crypto info'. frame_step now payload (payload ! offset) (offset + 1) info = Some (flow, crypto, info')
      \<and> (case flow of Next after \<Rightarrow> offset < after | _ \<Rightarrow> True))
    \<and> (\<exists>r. skip_dns_name payload offset = Some r
      \<and> (case r of Some after \<Rightarrow> offset < after \<and> after \<le> length payload | None \<Rightarrow> True))"
proof -
  have "returns (frame_step now payload (payload ! offset) (offset + 1) info)"
    using assms by (intro no_panic) auto
  then have "\<exists>flow crypto info'. frame_step now payload (payload ! offset) (offset + 1) info = Some (flow, crypto, info')
      \<and> (case flow of Next after \<Rightarrow> offset < after | _ \<Rightarrow> True)"
    using frame_step_progress [of now payload "payload ! offset" "offset + 1" info] assms
    by (auto simp: returns_def Suc_le_eq split: frame_flow.split)
  moreover obtain r where "skip_dns_name payload offset = Some r" using skip_dns_name_np by (rule returns_obtain)
  then have "\<exists>r. skip_dns_name payload offset = Some r
      \<and> (case r of Some after \<Rightarrow> offset < after \<and> after \<le> length payload | None \<Rightarrow> True)"
    using skip_name_advances [of payload 0 offset] by (auto simp: skip_dns_name_def split: option.split)
  ultimately show ?thesis by blast
qed

text \<open>The witness: a pointer that leads to itself.\<close>

theorem inspection_walks_advance_witness:
  "\<exists>r. skip_dns_name [0xC0, 0] 0 = Some r \<and> (case r of Some after \<Rightarrow> 0 < after \<and> after \<le> length [0xC0 :: u8, 0] | None \<Rightarrow> True)"
  using inspection_walks_advance [of 0 "[0xC0, 0]"] by simp

end
