(* ===== verification/DnsSpec.thy ===== *)
theory DnsSpec
  imports DnsParse
begin

text \<open>
  DNS messages as RFC 1035 writes them, and what \<^verbatim>\<open>DnsParse\<close> reads from them: names of labels that
  may end in a compression pointer, questions, and resource records. Every message with its
  questions and answers is read back to the first question and the addresses of its answers,
  within the limits of the code (64 records, 16 addresses).
\<close>

section \<open>Encoders\<close>

record dns_name =
  labels :: "bytes list"
  pointer :: "nat option"

record dns_question =
  q_name :: dns_name
  q_type :: u16
  q_class :: u16

record dns_record =
  rr_name :: dns_name
  rr_type :: u16
  rr_class_ttl :: bytes
  rr_data :: bytes

record dns_message =
  dm_id :: u16
  dm_flags :: u16
  dm_questions :: "dns_question list"
  dm_answers :: "dns_record list"
  dm_nscount :: u16
  dm_arcount :: u16

definition encode_label :: "bytes \<Rightarrow> bytes" where
  "encode_label l = word_of_nat (length l) # l"

definition encode_name :: "dns_name \<Rightarrow> bytes" where
  "encode_name nm = concat (map encode_label (labels nm))
     @ (case pointer nm of None \<Rightarrow> [0] | Some p \<Rightarrow> [0xC0 OR word_of_nat (p div 256), word_of_nat (p mod 256)])"

definition encode_question :: "dns_question \<Rightarrow> bytes" where
  "encode_question q = encode_name (q_name q) @ be16 (q_type q) @ be16 (q_class q)"

definition encode_record :: "dns_record \<Rightarrow> bytes" where
  "encode_record r = encode_name (rr_name r) @ be16 (rr_type r) @ rr_class_ttl r
     @ be16 (word_of_nat (length (rr_data r))) @ rr_data r"

definition encode_message :: "dns_message \<Rightarrow> bytes" where
  "encode_message m = be16 (dm_id m) @ be16 (dm_flags m) @ be16 (word_of_nat (length (dm_questions m)))
     @ be16 (word_of_nat (length (dm_answers m))) @ be16 (dm_nscount m) @ be16 (dm_arcount m)
     @ concat (map encode_question (dm_questions m)) @ concat (map encode_record (dm_answers m))"

text \<open>The text of a name: its labels with dots, up to the pointer.\<close>

definition name_text :: "dns_name \<Rightarrow> bytes" where
  "name_text nm = join [dot] (labels nm)"

definition name_ok :: "dns_name \<Rightarrow> bool" where
  "name_ok nm \<longleftrightarrow> (\<forall>l \<in> set (labels nm). l \<noteq> [] \<and> length l < 64 \<and> utf8_valid l)
     \<and> length (name_text nm) \<le> 253 \<and> (case pointer nm of None \<Rightarrow> True | Some p \<Rightarrow> p < 16384)"

definition record_ok :: "dns_record \<Rightarrow> bool" where
  "record_ok r \<longleftrightarrow> name_ok (rr_name r) \<and> length (rr_class_ttl r) = 6 \<and> length (rr_data r) < 65536"

definition message_ok :: "dns_message \<Rightarrow> bool" where
  "message_ok m \<longleftrightarrow> (\<forall>q \<in> set (dm_questions m). name_ok (q_name q)) \<and> (\<forall>r \<in> set (dm_answers m). record_ok r)
     \<and> length (dm_questions m) < 65536 \<and> length (dm_answers m) < 65536"

text \<open>The address of an A or AAAA record.\<close>

definition rr_address :: "dns_record \<Rightarrow> ip_addr option" where
  "rr_address r =
     (if rr_type r = 1 \<and> length (rr_data r) = 4 then map_option V4 (ipv4_at (rr_data r) 0)
      else if rr_type r = 28 \<and> length (rr_data r) = 16 then map_option V6 (ipv6_at (rr_data r) 0)
      else None)"

section \<open>Names\<close>

lemma label_bytes: "\<forall>k < 64. unat (word_of_nat k :: u8) = k \<and> (word_of_nat k :: u8) AND 0xC0 = 0
    \<and> ((0xC0 :: u8) OR word_of_nat k) AND 0xC0 = 0xC0 \<and> (0xC0 :: u8) \<le> 0xC0 OR word_of_nat k"
proof -
  have "list_all (\<lambda>k. unat (word_of_nat k :: u8) = k \<and> (word_of_nat k :: u8) AND 0xC0 = 0
    \<and> ((0xC0 :: u8) OR word_of_nat k) AND 0xC0 = 0xC0 \<and> (0xC0 :: u8) \<le> 0xC0 OR word_of_nat k) [0..<64]"
    by code_simp
  then show ?thesis by (simp add: list_all_iff)
qed

text \<open>Without the text of the name, which the loops build up as they go.\<close>

definition labels_ok :: "dns_name \<Rightarrow> bool" where
  "labels_ok nm \<longleftrightarrow> (\<forall>l \<in> set (labels nm). l \<noteq> [] \<and> length l < 64 \<and> utf8_valid l)
     \<and> (\<forall>p. pointer nm = Some p \<longrightarrow> p < 16384)"

lemma encoded_end:
  assumes "labels_ok nm" and "labels nm = []"
  obtains "encode_name nm = [0]" "pointer nm = None"
  | a b where "encode_name nm = [a, b]" "a AND 0xC0 = 0xC0" "0xC0 \<le> a"
proof (cases "pointer nm")
  case (Some p)
  then have "p div 256 < 64" using assms by (simp add: labels_ok_def less_mult_imp_div_less)
  then show thesis using that(2) assms label_bytes Some by (simp add: encode_name_def)
qed (use that(1) assms in \<open>simp add: encode_name_def\<close>)

lemma encoded_label:
  "labels nm = l # ls \<Longrightarrow> encode_name nm = word_of_nat (length l) # l @ encode_name (nm\<lparr>labels := ls\<rparr>)"
  by (simp add: encode_name_def encode_label_def)

lemma labels_ok_tl: "labels_ok nm \<Longrightarrow> labels nm = l # ls \<Longrightarrow> labels_ok (nm\<lparr>labels := ls\<rparr>)"
  by (simp add: labels_ok_def)

lemma nth_mid: "length pre = i \<Longrightarrow> (pre @ b # rest) ! i = b"
  by auto

lemma skip_encoded_name:
  assumes "labels_ok nm" and "length pre = offset"
  shows "skip_name_from (pre @ encode_name nm @ rest) 0 offset = Some (Some (offset + length (encode_name nm)))"
  using assms
proof (induction "labels nm" arbitrary: nm pre offset)
  case Nil
  then have "labels nm = []" by simp
  with Nil.prems(1) show ?case
  proof (cases rule: encoded_end)
    case 1
    then show ?thesis using Nil.prems(2) nth_mid [of pre offset 0 rest] by (subst skip_name_from.simps) simp
  next
    case (2 a b)
    then have "a \<noteq> 0" by auto
    then show ?thesis using 2 Nil.prems(2)
        nth_mid [of pre offset a "b # rest"]
      by (subst skip_name_from.simps) (simp add: MAX_NAME_POINTER_HOPS_def)
  qed
next
  case (Cons l ls)
  let ?nm = "nm\<lparr>labels := ls\<rparr>" and ?b = "word_of_nat (length l) :: u8"
  have e: "encode_name nm = ?b # l @ encode_name ?nm" using Cons.hyps(2) by (intro encoded_label) simp
  have l: "l \<noteq> []" "length l < 64" using Cons.hyps(2) Cons.prems(1) unfolding labels_ok_def by (metis list.set_intros(1))+
  then have b: "unat ?b = length l" "?b AND 0xC0 = 0" using label_bytes by auto
  then have "?b \<noteq> 0" using l(1) by auto
  moreover have "skip_name_from ((pre @ ?b # l) @ encode_name ?nm @ rest) 0 (offset + 1 + length l)
      = Some (Some (offset + 1 + length l + length (encode_name ?nm)))"
    using Cons.prems Cons.hyps(2) labels_ok_tl [of nm l ls] by (intro Cons.hyps(1)) auto
  moreover have "(pre @ encode_name nm @ rest) ! offset = ?b" using Cons.prems(2) by (simp add: e nth_mid)
  ultimately show ?case using Cons.prems(2) b
    by (subst skip_name_from.simps) (simp add: e)
qed

text \<open>The name after further labels.\<close>

fun extend_name :: "bytes \<Rightarrow> bytes list \<Rightarrow> bytes" where
  "extend_name name [] = name"
| "extend_name name (l # ls) = extend_name ((if name \<noteq> [] then name @ [dot] else name) @ l) ls"

lemma extend_name_join: "name \<noteq> [] \<Longrightarrow> extend_name name ls = join [dot] (name # ls)"
proof (induction ls arbitrary: name)
  case (Cons l ls)
  then show ?case using Cons.IH [of "name @ dot # l"] by (cases ls) simp_all
qed simp

lemma extend_name_text: "\<forall>l \<in> set ls. l \<noteq> [] \<Longrightarrow> extend_name [] ls = join [dot] ls"
  by (cases ls) (simp_all add: extend_name_join)

lemma extend_name_length: "length name \<le> length (extend_name name ls)"
proof (induction ls arbitrary: name)
  case (Cons l ls)
  show ?case using Cons.IH [of "(if name \<noteq> [] then name @ [dot] else name) @ l"] by (simp split: if_splits)
qed simp

lemma question_encoded_name:
  assumes "labels_ok nm" and "length pre = offset" and "length (extend_name name (labels nm)) \<le> 253"
  shows "question_name (pre @ encode_name nm @ rest) offset name
    = Some (extend_name name (labels nm), offset + length (encode_name nm))"
  using assms
proof (induction "labels nm" arbitrary: nm pre offset name)
  case Nil
  then have n: "labels nm = []" by simp
  with Nil.prems(1) show ?case
  proof (cases rule: encoded_end)
    case 1
    then show ?thesis using Nil.prems(2) n nth_mid [of pre offset 0 rest] by (subst question_name.simps) simp
  next
    case (2 a b)
    then have "192 \<le> unat a" by (simp add: word_le_nat_alt)
    then show ?thesis using 2 Nil.prems(2) n nth_mid [of pre offset a "b # rest"]
      by (subst question_name.simps) (simp add: Let_def)
  qed
next
  case (Cons l ls)
  let ?nm = "nm\<lparr>labels := ls\<rparr>" and ?b = "word_of_nat (length l) :: u8"
    and ?name = "(if name \<noteq> [] then name @ [dot] else name) @ l"
  have e: "encode_name nm = ?b # l @ encode_name ?nm" using Cons.hyps(2) by (intro encoded_label) simp
  have l: "l \<noteq> []" "length l < 64" "utf8_valid l"
    using Cons.hyps(2) Cons.prems(1) unfolding labels_ok_def by (metis list.set_intros(1))+
  then have b: "unat ?b = length l" using label_bytes by auto
  have x: "extend_name name (labels nm) = extend_name ?name ls" using Cons.hyps(2) [symmetric] by simp
  then have short: "length ?name \<le> 253" using extend_name_length [of ?name ls] Cons.prems(3) by simp
  let ?D = "pre @ encode_name nm @ rest"
  have later: "question_name ?D (offset + 1 + length l) ?name
      = Some (extend_name ?name ls, offset + 1 + length l + length (encode_name ?nm))"
    using Cons.hyps(1) [of ?nm "pre @ ?b # l" "offset + 1 + length l" ?name] Cons.prems Cons.hyps(2) labels_ok_tl [of nm l ls] x
    by (simp add: e)
  have s: "sub_slice (offset + 1) (offset + 1 + length l) ?D = Some l"
    using sub_slice_append [of "pre @ [?b]" "offset + 1" l "length l"] Cons.prems(2) by (simp add: e)
  have at: "byte_at ?D offset = Some ?b" "offset < length ?D" "offset + 1 + length l \<le> length ?D"
    using Cons.prems(2) by (simp_all add: e byte_at_def nth_mid)
  have len: "offset + length (encode_name nm) = offset + 1 + length l + length (encode_name ?nm)" by (simp add: e)
  define D where "D = ?D"
  note facts = at later s [folded D_def]
  have "question_name D offset name = Some (extend_name ?name ls, offset + 1 + length l + length (encode_name ?nm))"
    using facts [folded D_def] l short b
    by (subst question_name.simps) (simp add: from_utf8_def MAX_DNS_NAME_LEN_def)
  then show ?case unfolding D_def x len .
qed

lemma name_ok_labels: "name_ok nm \<Longrightarrow> labels_ok nm \<and> length (extend_name [] (labels nm)) \<le> 253"
  using extend_name_text [of "labels nm"] by (simp add: name_ok_def labels_ok_def name_text_def split: option.splits)

lemma skip_dns_name_encoded:
  "name_ok nm \<Longrightarrow> length pre = offset \<Longrightarrow>
   skip_dns_name (pre @ encode_name nm @ rest) offset = Some (Some (offset + length (encode_name nm)))"
  using name_ok_labels skip_encoded_name by (simp add: skip_dns_name_def)

section \<open>Questions\<close>

definition text_of :: "dns_name \<Rightarrow> bytes option" where
  "text_of nm = (if labels nm = [] then None else Some (name_text nm))"

lemma join_Nil: "\<forall>l \<in> set ls. l \<noteq> [] \<Longrightarrow> join [dot] ls = [] \<longleftrightarrow> ls = []"
  by (cases ls; cases "tl ls") auto

lemma parse_encoded_question:
  assumes "name_ok (q_name q)" and "length pre = offset"
  shows "parse_question (pre @ encode_question q @ rest) offset
    = Some (text_of (q_name q), Some (query_type_of (unat (q_type q))), offset + length (encode_question q))"
proof -
  let ?n = "encode_name (q_name q)"
  define D where "D = pre @ encode_question q @ rest"
  have D: "D = pre @ ?n @ be16 (q_type q) @ be16 (q_class q) @ rest" by (simp add: D_def encode_question_def)
  have ls: "\<forall>l \<in> set (labels (q_name q)). l \<noteq> []" using assms(1) by (simp add: name_ok_def)
  have "question_name D offset [] = Some (name_text (q_name q), offset + length ?n)"
    unfolding D using question_encoded_name [of "q_name q" pre offset "[]"] name_ok_labels [OF assms(1)] assms(2)
      extend_name_text [OF ls] by (simp add: name_text_def)
  moreover have "be16_at D (offset + length ?n) = Some (unat (q_type q))"
    using be16_at_be16 [of "pre @ ?n" "offset + length ?n" "q_type q"] assms(2) by (simp add: D)
  moreover have "offset + length ?n + 2 \<le> length D" using assms(2) by (simp add: D)
  moreover have "name_text (q_name q) = [] \<longleftrightarrow> labels (q_name q) = []"
    unfolding name_text_def using join_Nil [OF ls] .
  ultimately show ?thesis
    unfolding D_def [symmetric] parse_question_def Let_def
    by (simp add: text_of_def encode_question_def del: be16_at_ok)
qed

lemma questions_encoded:
  assumes "\<forall>q \<in> set qs. name_ok (q_name q)" and "length pre = offset"
  shows "questions_from (pre @ concat (map encode_question qs) @ rest) (length qs) first (name, ty, offset) =
    Some (if first \<and> qs \<noteq> [] then text_of (q_name (hd qs)) else name,
          if first \<and> qs \<noteq> [] then Some (query_type_of (unat (q_type (hd qs)))) else ty,
          offset + length (concat (map encode_question qs)))"
  using assms
proof (induction qs arbitrary: pre offset first name ty)
  case (Cons q qs)
  let ?r = "concat (map encode_question qs) @ rest"
  have p: "parse_question (pre @ encode_question q @ ?r) offset
    = Some (text_of (q_name q), Some (query_type_of (unat (q_type q))), offset + length (encode_question q))"
    using Cons.prems by (intro parse_encoded_question) simp_all
  show ?case
    using p Cons.IH [of "pre @ encode_question q" "offset + length (encode_question q)" False] Cons.prems
    by (auto simp: Let_def)
qed simp

section \<open>Records\<close>

definition add_address :: "dns_record \<Rightarrow> ip_addr list \<Rightarrow> ip_addr list" where
  "add_address r ips =
     (if length ips < 16 then case rr_address r of Some a \<Rightarrow> ips @ [a] | None \<Rightarrow> ips else ips)"

lemma byte_at_append: "length pre = i \<Longrightarrow> j < length mid \<Longrightarrow> byte_at (pre @ mid @ rest) (i + j) = byte_at mid j"
  by (simp add: byte_at_def nth_append)

lemma ipv4_at_append:
  assumes "length pre = i" and "length mid = 4"
  shows "ipv4_at (pre @ mid @ rest) i = ipv4_at mid 0"
  using assms(2) byte_at_append [OF assms(1), of 0 mid rest] byte_at_append [OF assms(1), of 1 mid rest]
    byte_at_append [OF assms(1), of 2 mid rest] byte_at_append [OF assms(1), of 3 mid rest]
  by (simp add: ipv4_at_def numeral_2_eq_2 del: byte_at_ok)

lemma ipv6_at_append: "length pre = i \<Longrightarrow> length mid = 16 \<Longrightarrow> ipv6_at (pre @ mid @ rest) i = ipv6_at mid 0"
  by (simp add: ipv6_at_def sub_slice_append sub_slice_def)

lemma rr_address_some:
  "rr_type r = 1 \<Longrightarrow> length (rr_data r) = 4 \<Longrightarrow> rr_address r \<noteq> None"
  "rr_type r = 28 \<Longrightarrow> length (rr_data r) = 16 \<Longrightarrow> rr_address r \<noteq> None"
  using ipv4_at_np [of 0 "rr_data r"] ipv6_at_np [of 0 "rr_data r"] by (auto simp: rr_address_def returns_def)

lemma unat_is_1: "unat w = 1 \<longleftrightarrow> w = 1" and unat_is_28: "unat w = 28 \<longleftrightarrow> w = 28" for w :: u16
  using word_unat_eq_iff [of w 1] word_unat_eq_iff [of w 28] by simp_all

lemma added_address:
  assumes "length (rr_data r) = 4 \<Longrightarrow> ipv4_at D i = ipv4_at (rr_data r) 0"
    and "length (rr_data r) = 16 \<Longrightarrow> ipv6_at D i = ipv6_at (rr_data r) 0"
  shows "(if length ips < MAX_RESPONSE_IPS_PER_PACKET then
       if rr_type r = 1 \<and> length (rr_data r) = 4 then map_option (\<lambda>a. ips @ [V4 a]) (ipv4_at D i)
       else if rr_type r = 28 \<and> length (rr_data r) = 16 then map_option (\<lambda>a. ips @ [V6 a]) (ipv6_at D i)
       else Some ips
     else Some ips) = Some (add_address r ips)"
proof (cases "length ips < 16")
  case True
  then show ?thesis using assms rr_address_some [of r]
    by (cases "rr_type r = 1 \<and> length (rr_data r) = 4"; cases "rr_type r = 28 \<and> length (rr_data r) = 16")
      (auto simp: add_address_def rr_address_def MAX_RESPONSE_IPS_PER_PACKET_def)
qed (simp add: add_address_def MAX_RESPONSE_IPS_PER_PACKET_def)

lemma walk_encoded_record:
  assumes "record_ok r" and "length pre = offset"
  shows "walk_records (pre @ encode_record r @ rest) (Suc n) offset ips =
    walk_records (pre @ encode_record r @ rest) n (offset + length (encode_record r)) (add_address r ips)"
proof -
  let ?nm = "encode_name (rr_name r)" and ?d = "rr_data r"
  define D where "D = pre @ encode_record r @ rest"
  have D: "D = pre @ ?nm @ be16 (rr_type r) @ rr_class_ttl r @ be16 (word_of_nat (length ?d)) @ ?d @ rest"
    by (simp add: D_def encode_record_def)
  have ok: "name_ok (rr_name r)" "length (rr_class_ttl r) = 6" "length ?d < 65536" using assms(1) by (simp_all add: record_ok_def)
  let ?o = "offset + length ?nm"
  have 1: "skip_dns_name D offset = Some (Some ?o)" unfolding D using skip_dns_name_encoded [OF ok(1) assms(2)] .
  have 2: "be16_at D ?o = Some (unat (rr_type r))"
    using be16_at_be16 [of "pre @ ?nm" ?o "rr_type r"] assms(2) by (simp add: D)
  have 3: "be16_at D (?o + 8) = Some (length ?d)"
    using be16_at_be16 [of "pre @ ?nm @ be16 (rr_type r) @ rr_class_ttl r" "?o + 8" "word_of_nat (length ?d)" "?d @ rest"] assms(2) ok
    by (simp add: D unat_of_nat)
  have len: "length D = ?o + 10 + length ?d + length rest" using assms(2) ok by (simp add: D)
  let ?pre = "pre @ ?nm @ be16 (rr_type r) @ rr_class_ttl r @ be16 (word_of_nat (length ?d))"
  have pre: "length ?pre = ?o + 10" using assms(2) ok by simp
  have 4: "ipv4_at D (?o + 10) = ipv4_at ?d 0" if "length ?d = 4"
    using ipv4_at_append [OF pre that, of rest] by (simp add: D)
  have 6: "ipv6_at D (?o + 10) = ipv6_at ?d 0" if "length ?d = 16"
    using ipv6_at_append [OF pre that, of rest] by (simp add: D)
  note t = unat_is_1 [of "rr_type r"] unat_is_28 [of "rr_type r"]
  have step: "(if length ips < MAX_RESPONSE_IPS_PER_PACKET then
           if unat (rr_type r) = 1 \<and> length ?d = 4 then map_option (\<lambda>a. ips @ [V4 a]) (ipv4_at D (?o + 10))
           else if unat (rr_type r) = 28 \<and> length ?d = 16 then map_option (\<lambda>a. ips @ [V6 a]) (ipv6_at D (?o + 10))
           else Some ips
         else Some ips) = Some (add_address r ips)"
    using added_address [of r D "?o + 10" ips] 4 6 unfolding t by simp
  have er: "length (encode_record r) = length ?nm + 10 + length ?d" using ok by (simp add: encode_record_def)
  show ?thesis
    unfolding D_def [symmetric] walk_records.simps(2) [of D n] 1 bind.bind_lunit option.case 2 3 Let_def step er
    using len by (simp add: add.assoc)
qed

lemma walk_encoded_records:
  assumes "\<forall>r \<in> set rs. record_ok r" and "length pre = offset" and "n \<le> length rs"
  shows "\<exists>o'. walk_records (pre @ concat (map encode_record rs) @ rest) n offset ips = Some (o', fold add_address (take n rs) ips)"
  using assms
proof (induction n arbitrary: rs pre offset ips)
  case (Suc n)
  then obtain r rs' where rs: "rs = r # rs'" by (cases rs) auto
  show ?case
    using walk_encoded_record [of r pre offset "concat (map encode_record rs') @ rest" n ips] Suc.prems rs
      Suc.IH [of rs' "pre @ encode_record r" "offset + length (encode_record r)" "add_address r ips"]
    by simp
qed simp

lemma fold_add_address:
  "length ips \<le> 16 \<Longrightarrow> fold add_address rs ips = take 16 (ips @ List.map_filter rr_address rs)"
proof (induction rs arbitrary: ips)
  case (Cons r rs)
  show ?case
  proof (cases "rr_address r")
    case None
    then show ?thesis using Cons by (simp add: add_address_def List.map_filter_simps)
  next
    case (Some a)
    then show ?thesis using Cons.IH [of "ips @ [a]"] Cons.IH [of ips] Cons.prems
      by (cases "length ips = 16") (simp_all add: add_address_def List.map_filter_simps)
  qed
qed (simp add: List.map_filter_simps)

section \<open>Messages\<close>

definition is_response :: "dns_message \<Rightarrow> bool" where
  "is_response m \<longleftrightarrow> dm_flags m AND 0x8000 \<noteq> 0"

text \<open>What is kept of a message: the first question and the addresses of a response.\<close>

definition message_info :: "dns_message \<Rightarrow> DnsInfo" where
  "message_info m =
     \<lparr>dns_query_name = (case dm_questions m of [] \<Rightarrow> None | q # _ \<Rightarrow> text_of (q_name q)),
      dns_query_type = (case dm_questions m of [] \<Rightarrow> None | q # _ \<Rightarrow> Some (query_type_of (unat (q_type q)))),
      dns_response_ips =
        (if is_response m then take 16 (List.map_filter rr_address (take 64 (dm_answers m))) else []),
      dns_is_response = is_response m\<rparr>"

lemma encoded_header:
  assumes "message_ok m"
  shows "dns_header_counts (encode_message m @ tail) =
    Some (Some \<lparr>hc_is_response = is_response m, hc_qdcount = length (dm_questions m),
                hc_ancount = length (dm_answers m), hc_arcount = unat (dm_arcount m)\<rparr>)"
proof -
  let ?q = "word_of_nat (length (dm_questions m)) :: u16" and ?a = "word_of_nat (length (dm_answers m)) :: u16"
  define D where "D = encode_message m @ tail"
  define body where "body = concat (map encode_question (dm_questions m)) @ concat (map encode_record (dm_answers m)) @ tail"
  have D: "D = be16 (dm_id m) @ be16 (dm_flags m) @ be16 ?q @ be16 ?a @ be16 (dm_nscount m) @ be16 (dm_arcount m) @ body"
    by (simp add: D_def encode_message_def body_def)
  have "be16_at D 2 = Some (unat (dm_flags m))"
    using be16_at_be16 [of "be16 (dm_id m)" 2 "dm_flags m"] by (simp add: D)
  moreover have "be16_at D 4 = Some (length (dm_questions m))"
    using be16_at_be16 [of "be16 (dm_id m) @ be16 (dm_flags m)" 4 ?q] assms by (simp add: D message_ok_def unat_of_nat)
  moreover have "be16_at D 6 = Some (length (dm_answers m))"
    using be16_at_be16 [of "be16 (dm_id m) @ be16 (dm_flags m) @ be16 ?q" 6 ?a] assms
    by (simp add: D message_ok_def unat_of_nat)
  moreover have "be16_at D 10 = Some (unat (dm_arcount m))"
    using be16_at_be16 [of "be16 (dm_id m) @ be16 (dm_flags m) @ be16 ?q @ be16 ?a @ be16 (dm_nscount m)" 10 "dm_arcount m"]
    by (simp add: D)
  moreover have "\<not> length D < 12" by (simp add: D)
  ultimately show ?thesis
    unfolding D_def [symmetric] dns_header_counts_def is_response_def by simp
qed

text \<open>A response with a compressed answer name and two addresses.\<close>

definition sample_message :: dns_message where
  "sample_message =
     \<lparr>dm_id = 1, dm_flags = 0x8180,
      dm_questions = [\<lparr>q_name = \<lparr>labels = [[97, 98], [99]], pointer = None\<rparr>, q_type = 1, q_class = 1\<rparr>],
      dm_answers =
        [\<lparr>rr_name = \<lparr>labels = [], pointer = Some 12\<rparr>, rr_type = 1, rr_class_ttl = [0, 1, 0, 0, 0, 60],
          rr_data = [10, 0, 0, 7]\<rparr>],
      dm_nscount = 0, dm_arcount = 0\<rparr>"

lemma sample_message_ok: "message_ok sample_message"
proof -
  have "utf8_valid [97, 98]" "utf8_valid [99]" by code_simp+
  then show ?thesis
    by (simp add: message_ok_def record_ok_def name_ok_def sample_message_def name_text_def)
qed

lemma sample_message_info: "message_info sample_message =
    \<lparr>dns_query_name = Some [97, 98, 46, 99], dns_query_type = Some QT_A,
     dns_response_ips = [V4 (Ipv4Addr 10 0 0 7)], dns_is_response = True\<rparr>"
proof -
  have "is_response sample_message" by code_simp
  moreover have "text_of \<lparr>labels = [[97, 98], [99]], pointer = None\<rparr> = Some [97, 98, 46, 99]"
    by (simp add: text_of_def name_text_def dot_def)
  moreover have "query_type_of 1 = QT_A" by (simp add: query_type_of_def query_types_def)
  ultimately show ?thesis
    by (simp add: message_info_def sample_message_def List.map_filter_simps rr_address_def ipv4_at_def byte_at_def numeral_nat)
qed

text \<open>C12 (roundtrip). Every DNS message (RFC 1035: labels with or without a compression pointer, any
  types, any number of questions and records) is read as the name and type of its first question
  and, for a response, the addresses of the A and AAAA records among its first 64 answers, in
  order, at most 16; whatever follows the answers is not looked at.\<close>

theorem dns_message_read:
  assumes "message_ok m"
  shows "analyze_dns (encode_message m @ tail) = Some (Some (message_info m))"
proof -
  define D where "D = encode_message m @ tail"
  define pre where "pre = be16 (dm_id m) @ be16 (dm_flags m) @ be16 (word_of_nat (length (dm_questions m)))
     @ be16 (word_of_nat (length (dm_answers m))) @ be16 (dm_nscount m) @ be16 (dm_arcount m)"
  define qs where "qs = concat (map encode_question (dm_questions m))"
  have D: "D = pre @ qs @ concat (map encode_record (dm_answers m)) @ tail"
    by (simp add: D_def encode_message_def pre_def qs_def)
  have pre: "length pre = 12" by (simp add: pre_def)
  have q: "parse_questions_starting_at_header D (length (dm_questions m)) =
      Some (dns_query_name (message_info m), dns_query_type (message_info m), 12 + length qs)"
    using questions_encoded [of "dm_questions m" pre 12 "concat (map encode_record (dm_answers m)) @ tail" True None None] assms pre
    by (cases "dm_questions m") (simp_all add: D qs_def parse_questions_starting_at_header_def message_ok_def message_info_def)
  obtain o' where w: "walk_a_aaaa_records D (12 + length qs) (length (dm_answers m)) [] =
      Some (o', take 16 (List.map_filter rr_address (take 64 (dm_answers m))))"
  proof -
    have "take (min (length rs) 64) rs = take 64 rs" for rs :: "dns_record list" by (simp add: min_def)
    then show ?thesis
      using walk_encoded_records [of "dm_answers m" "pre @ qs" "12 + length qs" "min (length (dm_answers m)) 64" tail "[]"]
        assms pre that by (auto simp: D walk_a_aaaa_records_def message_ok_def fold_add_address MAX_ANSWERS_TO_PARSE_def)
  qed
  show ?thesis
    using encoded_header [OF assms, of tail] q w
    unfolding D_def [symmetric] analyze_dns_def by (simp add: message_info_def)
qed

theorem dns_message_read_witness:
  "analyze_dns (encode_message sample_message @ [0]) = Some (Some
    \<lparr>dns_query_name = Some [97, 98, 46, 99], dns_query_type = Some QT_A,
     dns_response_ips = [V4 (Ipv4Addr 10 0 0 7)], dns_is_response = True\<rparr>)"
  using dns_message_read [OF sample_message_ok, of "[0]"] unfolding sample_message_info .

end
