(* ===== verification/TcpTrack.thy ===== *)
theory TcpTrack
  imports NetTypes
begin

text \<open>
  The TCP half of \<^verbatim>\<open>crates/rustnet-core/src/network/merge.rs\<close>: the state of a connection as a
  passive observer sees it (\<open>update_tcp_state\<close>) and the per-segment analysis of sequence and
  acknowledgment numbers (\<open>analyze_tcp_segment\<close>), with the flag byte of
  \<^verbatim>\<open>protocol/tcp.rs\<close>. Sequence numbers are 32-bit words: \<open>+\<close> wraps as \<open>wrapping_add\<close> does,
  and \<open><\<close> is the unsigned comparison of the source.
\<close>

unbundle bit_operations_syntax

section \<open>Flags\<close>

definition TCP_FIN :: u8 where "TCP_FIN = 0x01"
definition TCP_SYN :: u8 where "TCP_SYN = 0x02"
definition TCP_RST :: u8 where "TCP_RST = 0x04"
definition TCP_PSH :: u8 where "TCP_PSH = 0x08"
definition TCP_ACK :: u8 where "TCP_ACK = 0x10"
definition TCP_URG :: u8 where "TCP_URG = 0x20"

lemmas tcp_flag_defs = TCP_FIN_def TCP_SYN_def TCP_RST_def TCP_PSH_def TCP_ACK_def TCP_URG_def

definition parse_tcp_flags :: "u8 \<Rightarrow> TcpFlags" where
  "parse_tcp_flags b = \<lparr>fin = b AND TCP_FIN \<noteq> 0, syn = b AND TCP_SYN \<noteq> 0, rst = b AND TCP_RST \<noteq> 0,
     psh = b AND TCP_PSH \<noteq> 0, ack = b AND TCP_ACK \<noteq> 0, urg = b AND TCP_URG \<noteq> 0\<rparr>"

text \<open>The flag byte of a header with given flags (RFC 9293, the two upper bits zero).\<close>

definition flag_byte :: "TcpFlags \<Rightarrow> u8" where
  "flag_byte f = (if fin f then TCP_FIN else 0) OR (if syn f then TCP_SYN else 0)
     OR (if rst f then TCP_RST else 0) OR (if psh f then TCP_PSH else 0)
     OR (if ack f then TCP_ACK else 0) OR (if urg f then TCP_URG else 0)"

lemma parse_flag_byte: "parse_tcp_flags (flag_byte f) = f"
  by (cases f) (auto simp: parse_tcp_flags_def flag_byte_def tcp_flag_defs)

section \<open>The observed state machine\<close>

text \<open>The arms of the \<open>match\<close> in their order.\<close>

definition update_tcp_state :: "TcpState \<Rightarrow> TcpFlags \<Rightarrow> bool \<Rightarrow> TcpState" where
  "update_tcp_state st f outgoing =
     (if st = TcpState.Unknown \<and> syn f \<and> \<not> ack f \<and> \<not> fin f \<and> \<not> rst f \<and> \<not> outgoing then TcpState.SynReceived
      else if st = TcpState.Unknown \<and> syn f \<and> \<not> ack f \<and> \<not> fin f \<and> \<not> rst f \<and> outgoing then TcpState.SynSent
      else if st = TcpState.SynSent \<and> syn f \<and> ack f \<and> \<not> fin f \<and> \<not> rst f \<and> \<not> outgoing then TcpState.Established
      else if st = TcpState.SynReceived \<and> \<not> syn f \<and> ack f \<and> \<not> fin f \<and> \<not> rst f \<and> outgoing then TcpState.Established
      else if st = TcpState.Unknown \<and> \<not> syn f \<and> ack f \<and> \<not> fin f \<and> \<not> rst f then TcpState.Established
      else if st = TcpState.Unknown \<and> \<not> syn f \<and> ack f \<and> fin f \<and> \<not> rst f then TcpState.Established
      else if st = TcpState.Established \<and> \<not> syn f \<and> fin f \<and> \<not> rst f \<and> outgoing then TcpState.FinWait1
      else if st = TcpState.Established \<and> \<not> syn f \<and> fin f \<and> \<not> rst f \<and> \<not> outgoing then TcpState.CloseWait
      else if st = TcpState.FinWait1 \<and> \<not> syn f \<and> ack f \<and> \<not> fin f \<and> \<not> rst f \<and> \<not> outgoing then TcpState.FinWait2
      else if st = TcpState.FinWait1 \<and> \<not> syn f \<and> fin f \<and> \<not> rst f \<and> \<not> outgoing then TcpState.Closing
      else if st = TcpState.FinWait2 \<and> \<not> syn f \<and> fin f \<and> \<not> rst f \<and> \<not> outgoing then TcpState.TimeWait
      else if st = TcpState.CloseWait \<and> \<not> syn f \<and> fin f \<and> \<not> rst f \<and> outgoing then TcpState.LastAck
      else if st = TcpState.LastAck \<and> \<not> syn f \<and> ack f \<and> \<not> fin f \<and> \<not> rst f \<and> \<not> outgoing then TcpState.Closed
      else if st = TcpState.Closing \<and> \<not> syn f \<and> ack f \<and> \<not> fin f \<and> \<not> rst f \<and> \<not> outgoing then TcpState.TimeWait
      else if rst f then TcpState.Closed
      else st)"

text \<open>A segment as the state machine sees it: flags and direction.\<close>

type_synonym segment = "TcpFlags \<times> bool"

definition observe :: "TcpState \<Rightarrow> segment \<Rightarrow> TcpState" where
  "observe st s = update_tcp_state st (fst s) (snd s)"

abbreviation observe_all :: "TcpState \<Rightarrow> segment list \<Rightarrow> TcpState" where
  "observe_all \<equiv> foldl observe"

text \<open>The phases of a connection: a segment never takes it back.\<close>

fun phase :: "TcpState \<Rightarrow> nat" where
  "phase TcpState.Unknown = 0"
| "phase TcpState.SynSent = 1"
| "phase TcpState.SynReceived = 1"
| "phase TcpState.Established = 2"
| "phase TcpState.FinWait1 = 3"
| "phase TcpState.CloseWait = 3"
| "phase TcpState.FinWait2 = 4"
| "phase TcpState.Closing = 4"
| "phase TcpState.LastAck = 4"
| "phase TcpState.TimeWait = 5"
| "phase TcpState.Closed = 6"

lemma observe_rst: "rst (fst s) \<Longrightarrow> observe st s = TcpState.Closed"
  by (simp add: observe_def update_tcp_state_def)

lemma observe_phase: "observe st s = st \<or> phase st < phase (observe st s)"
  by (cases st) (simp_all add: observe_def update_tcp_state_def)

lemma observe_Closed: "observe TcpState.Closed s = TcpState.Closed"
  by (simp add: observe_def update_tcp_state_def)

lemma observe_all_phase: "observe_all st ss = st \<or> phase st < phase (observe_all st ss)"
proof (induction ss arbitrary: st)
  case (Cons s ss)
  then show ?case
    using observe_phase [of st s] Cons.IH [of "observe st s"]
    by (metis foldl_Cons order.strict_trans)
qed simp

lemma observe_all_Closed: "observe_all TcpState.Closed ss = TcpState.Closed"
  by (induction ss) (simp_all add: observe_Closed)

lemma observe_all_rst: "\<exists>s \<in> set ss. rst (fst s) \<Longrightarrow> observe_all st ss = TcpState.Closed"
proof (induction ss arbitrary: st)
  case (Cons s ss)
  then show ?case
    by (cases "rst (fst s)") (simp_all add: observe_rst observe_all_Closed)
qed simp

section \<open>Segment analysis\<close>

text \<open>The outbound half: retransmissions. The result is the new analytics and the number of new
  retransmissions.\<close>

definition analyze_outbound :: "u32 \<Rightarrow> u32 \<Rightarrow> TcpAnalytics \<Rightarrow> TcpAnalytics \<times> u64" where
  "analyze_outbound seq paylen a =
     (if paylen > 0 then
        if last_seq_outbound a \<noteq> 0 then
          let expected_seq = last_seq_outbound a in
          if seq < expected_seq then (a\<lparr>retransmit_count := retransmit_count a + 1\<rparr>, 1)
          else if seq > expected_seq then (a, 0)
          else (a\<lparr>last_seq_outbound := seq + paylen\<rparr>, 0)
        else (a\<lparr>last_seq_outbound := seq + paylen\<rparr>, 0)
      else (a, 0))"

definition analyze_inbound :: "u32 \<Rightarrow> u32 \<Rightarrow> TcpAnalytics \<Rightarrow> TcpAnalytics \<times> u64" where
  "analyze_inbound seq paylen a =
     (if paylen > 0 then
        if last_seq_inbound a \<noteq> 0 then
          let expected_seq = last_seq_inbound a in
          if seq < expected_seq then (a\<lparr>out_of_order_count := out_of_order_count a + 1\<rparr>, 1)
          else if seq > expected_seq then (a\<lparr>last_seq_inbound := seq + paylen\<rparr>, 0)
          else (a\<lparr>last_seq_inbound := seq + paylen\<rparr>, 0)
        else (a\<lparr>last_seq_inbound := seq + paylen\<rparr>, 0)
      else (a, 0))"

definition analyze_ack :: "u32 \<Rightarrow> bool \<Rightarrow> TcpAnalytics \<Rightarrow> TcpAnalytics \<times> u64" where
  "analyze_ack ackno has_ack_flag a =
     (if has_ack_flag then
        if last_ack_received a \<noteq> 0 then
          if ackno = last_ack_received a then
            let a = a\<lparr>duplicate_ack_count := duplicate_ack_count a + 1\<rparr> in
            if duplicate_ack_count a = 3
            then (a\<lparr>fast_retransmit_count := fast_retransmit_count a + 1\<rparr>, 1)
            else (a, 0)
          else (a\<lparr>last_ack_received := ackno, duplicate_ack_count := 0\<rparr>, 0)
        else (a\<lparr>last_ack_received := ackno\<rparr>, 0)
      else (a, 0))"

text \<open>The whole function: analytics and (retransmits, out of order, fast retransmits).\<close>

definition analyze_tcp_segment ::
  "TcpAnalytics \<Rightarrow> u32 \<Rightarrow> u32 \<Rightarrow> u16 \<Rightarrow> u32 \<Rightarrow> bool \<Rightarrow> bool \<Rightarrow> TcpAnalytics \<times> u64 \<times> u64 \<times> u64" where
  "analyze_tcp_segment a seq ackno win paylen outgoing has_ack_flag =
     (let a = a\<lparr>last_window_size := win\<rparr> in
      if outgoing then
        let (a, r) = analyze_outbound seq paylen a in (a, r, 0, 0)
      else
        let (a, o') = analyze_inbound seq paylen a;
            (a, f) = analyze_ack ackno has_ack_flag a in (a, 0, o', f))"

lemmas analyze_defs = analyze_tcp_segment_def analyze_outbound_def analyze_inbound_def analyze_ack_def

text \<open>What is reported is what the counters grow by.\<close>

lemma analyze_counters:
  assumes "analyze_tcp_segment a seq ackno win paylen outgoing hasack = (a', r, oo, f)"
  shows "retransmit_count a' = retransmit_count a + r"
    and "out_of_order_count a' = out_of_order_count a + oo"
    and "fast_retransmit_count a' = fast_retransmit_count a + f"
    and "r \<le> 1" and "oo \<le> 1" and "f \<le> 1" and "last_window_size a' = win"
    and "outgoing \<Longrightarrow> oo = 0 \<and> f = 0" and "\<not> outgoing \<Longrightarrow> r = 0"
  using assms by (auto simp: analyze_defs Let_def split: if_splits)

text \<open>An outbound stream that is sent in order and once: each segment starts where the one before
  ended, modulo $2^{32}$.\<close>

fun send_all :: "(u32 \<times> u32) list \<Rightarrow> TcpAnalytics \<Rightarrow> TcpAnalytics" where
  "send_all [] a = a"
| "send_all ((seq, paylen) # ss) a = send_all ss (fst (analyze_outbound seq paylen a))"

fun in_order_from :: "u32 \<Rightarrow> (u32 \<times> u32) list \<Rightarrow> bool" where
  "in_order_from next [] = True"
| "in_order_from next ((seq, paylen) # ss) = (seq = next \<and> in_order_from (seq + paylen) ss)"

lemma send_in_order:
  "in_order_from next ss \<Longrightarrow> last_seq_outbound a \<in> {0, next} \<Longrightarrow>
   retransmit_count (send_all ss a) = retransmit_count a"
proof (induction ss arbitrary: "next" a)
  case (Cons s ss)
  obtain seq paylen where s: "s = (seq, paylen)" by (cases s)
  let ?a = "fst (analyze_outbound seq paylen a)"
  have "retransmit_count ?a = retransmit_count a" "last_seq_outbound ?a \<in> {0, seq + paylen}"
    using Cons.prems s by (auto simp: analyze_outbound_def word_gt_0)
  then show ?case using Cons.IH [of "seq + paylen" ?a] Cons.prems(1) s by auto
qed simp

text \<open>Once a segment is missed, \<open>last_seq_outbound\<close> is never moved again by later data.\<close>

lemma stuck_after_gap:
  "last_seq_outbound a \<noteq> 0 \<Longrightarrow> \<forall>(seq, paylen) \<in> set ss. seq > last_seq_outbound a \<Longrightarrow> send_all ss a = a"
  by (induction ss) (auto simp: analyze_outbound_def Let_def)

text \<open>Duplicate acknowledgments.\<close>

fun receive_acks :: "u32 list \<Rightarrow> TcpAnalytics \<Rightarrow> TcpAnalytics" where
  "receive_acks [] a = a"
| "receive_acks (n # ns) a = receive_acks ns (fst (analyze_ack n True a))"

lemma receive_duplicates:
  assumes "n \<noteq> 0" and "last_ack_received a = n" and "unat (duplicate_ack_count a) + k < 2 ^ 32"
  shows "receive_acks (replicate k n) a = a\<lparr>duplicate_ack_count := duplicate_ack_count a + of_nat k,
     fast_retransmit_count := fast_retransmit_count a +
       (if unat (duplicate_ack_count a) < 3 \<and> 3 \<le> unat (duplicate_ack_count a) + k then 1 else 0)\<rparr>"
  using assms
proof (induction k arbitrary: a)
  case (Suc k)
  let ?d = "duplicate_ack_count a"
  let ?a = "fst (analyze_ack n True a)"
  have suc: "unat (?d + 1) = unat ?d + 1"
    using Suc.prems(3) by (simp add: unat_word_ariths)
  have three: "?d + 1 = 3 \<longleftrightarrow> unat ?d = 2"
    using suc by (simp add: word_unat_eq_iff)
  have a: "?a = a\<lparr>duplicate_ack_count := ?d + 1,
      fast_retransmit_count := fast_retransmit_count a + (if unat ?d = 2 then 1 else 0)\<rparr>"
    using Suc.prems(1,2) three by (simp add: analyze_ack_def Let_def)
  have "receive_acks (replicate k n) ?a = ?a\<lparr>duplicate_ack_count := duplicate_ack_count ?a + of_nat k,
     fast_retransmit_count := fast_retransmit_count ?a +
       (if unat (duplicate_ack_count ?a) < 3 \<and> 3 \<le> unat (duplicate_ack_count ?a) + k then 1 else 0)\<rparr>"
    using Suc.prems suc a by (intro Suc.IH) simp_all
  then show ?case using a suc by (auto simp: add_ac)
qed simp

section \<open>Properties\<close>

text \<open>A connection only moves forward: over any segments it stays where it is or reaches a
  later phase, so a closed connection is never reopened by further segments.\<close>

theorem tcp_never_regresses:
  "(observe_all st ss = st \<or> phase st < phase (observe_all st ss))
   \<and> observe_all TcpState.Closed ss = TcpState.Closed"
  using observe_all_phase observe_all_Closed by blast

text \<open>A reset closes the connection, whatever its state and whatever else is seen.\<close>

theorem tcp_reset_closes: "(f, d) \<in> set ss \<Longrightarrow> rst f \<Longrightarrow> observe_all st ss = TcpState.Closed"
  by (rule observe_all_rst) force

definition data_flags :: "TcpFlags \<Rightarrow> bool" where
  "data_flags f \<longleftrightarrow> \<not> syn f \<and> \<not> fin f \<and> \<not> rst f"

definition fin_flags :: "TcpFlags \<Rightarrow> bool" where
  "fin_flags f \<longleftrightarrow> \<not> syn f \<and> fin f \<and> \<not> rst f"

lemma observe_data: "\<forall>s \<in> set ss. data_flags (fst s) \<Longrightarrow> observe_all TcpState.Established ss = TcpState.Established"
proof (induction ss)
  case (Cons s ss)
  then have "observe TcpState.Established s = TcpState.Established"
    by (simp add: observe_def update_tcp_state_def data_flags_def)
  then show ?case using Cons by simp
qed simp

text \<open>A connection opened by the peer: the third segment of its handshake, the incoming
  acknowledgment, does not establish it; only an outgoing one does.\<close>

theorem passive_open_waits: "\<not> rst f \<Longrightarrow> observe TcpState.SynReceived (f, False) = TcpState.SynReceived"
  by (simp add: observe_def update_tcp_state_def)

text \<open>The common close in three segments, FIN, the peer's FIN with its acknowledgment and our last
  acknowledgment, ends in \<open>CLOSING\<close>: an acknowledgment that comes with the peer's FIN is not seen.\<close>

theorem three_segment_close:
  assumes "fin_flags f1" and "fin_flags f2" and "ack f2" and "data_flags f3" and "ack f3"
  shows "observe_all TcpState.Established [(f1, True), (f2, False), (f3, True)] = TcpState.Closing"
  using assms by (simp add: observe_def update_tcp_state_def fin_flags_def data_flags_def)

text \<open>A stream sent in order and once, across the wrap-around of the sequence numbers too,
  never counts a retransmission.\<close>

theorem in_order_stream_not_retransmitted:
  assumes "in_order_from isn ss"
  shows "retransmit_count (send_all ss (TcpAnalytics_new)) = 0"
  using send_in_order [OF assms, of TcpAnalytics_new] by (simp add: TcpAnalytics_new_def)

text \<open>After one gap, though, no later segment is compared with anything but the end of the data
  before the gap: retransmissions of what follows are not seen.\<close>

theorem retransmission_missed_after_gap:
  "retransmit_count (send_all [(1, 10), (21, 10), (31, 10), (21, 10)] TcpAnalytics_new) = 0"
  by (simp add: analyze_outbound_def TcpAnalytics_new_def)

text \<open>A run of \<open>k\<close> duplicate acknowledgments after the first counts one fast retransmit,
  from the third on.\<close>

theorem fast_retransmit_once:
  assumes "n \<noteq> 0" and "last_ack_received a = n" and "duplicate_ack_count a = 0" and "k < 2 ^ 32"
  shows "fast_retransmit_count (receive_acks (replicate k n) a) =
           fast_retransmit_count a + (if 3 \<le> k then 1 else 0)"
  using receive_duplicates [of n a k] assms by simp

theorem fast_retransmit_once_witness:
  "fast_retransmit_count (receive_acks (replicate 5 77) (TcpAnalytics_new\<lparr>last_ack_received := 77\<rparr>)) = 1"
  using fast_retransmit_once [of 77 "TcpAnalytics_new\<lparr>last_ack_received := 77\<rparr>" 5]
  by (simp add: TcpAnalytics_new_def)

text \<open>Segments that carry data count as duplicate acknowledgments too: a peer that only sends
  reports a fast retransmit with its fourth segment.\<close>

theorem data_counts_as_duplicate_ack:
  "fast_retransmit_count (fst (foldl (\<lambda>(a, e) seq. analyze_tcp_segment a seq 77 65535 100 False True)
     (TcpAnalytics_new, (0, 0, 0)) [1000, 1100, 1200, 1300])) = 1"
  by (simp add: analyze_defs TcpAnalytics_new_def Let_def)

end
