(* ===== verification/RateTrack.thy ===== *)
theory RateTrack
  imports NetTypes
begin

text \<open>
  \<^verbatim>\<open>RateTracker\<close> of \<^verbatim>\<open>types.rs\<close>: the sliding window of byte-count deltas of one connection.
  The sample buffer is a list, oldest first. The rates computed from it are floating-point
  numbers and left out.
\<close>

definition RateTracker_new :: "instant \<Rightarrow> RateTracker" where
  "RateTracker_new now = \<lparr>samples = [], window_duration = secs 10, rt_last_update = now,
     max_samples = 20000, last_bytes_sent = 0, last_bytes_received = 0\<rparr>"

definition initialize_with_counts :: "u64 \<Rightarrow> u64 \<Rightarrow> RateTracker \<Rightarrow> RateTracker" where
  "initialize_with_counts sent received t = t\<lparr>last_bytes_sent := sent, last_bytes_received := received\<rparr>"

text \<open>\<open>while samples.len() > max_samples { samples.pop_front() }\<close>\<close>

fun pop_to :: "nat \<Rightarrow> 'a list \<Rightarrow> 'a list" where
  "pop_to n [] = []"
| "pop_to n (x # xs) = (if length (x # xs) > n then pop_to n xs else x # xs)"

definition rate_update_at :: "instant \<Rightarrow> u64 \<Rightarrow> u64 \<Rightarrow> RateTracker \<Rightarrow> RateTracker" where
  "rate_update_at now sent received t =
     (let s = \<lparr>rs_timestamp = now, delta_sent = sat_sub sent (last_bytes_sent t),
               delta_received = sat_sub received (last_bytes_received t)\<rparr>
      in t\<lparr>samples := pop_to (max_samples t) (samples t @ [s]), last_bytes_sent := sent,
           last_bytes_received := received, rt_last_update := now\<rparr>)"

text \<open>\<open>prune\<close>: old samples at the front are dropped, then the cap is enforced.\<close>

definition rate_prune :: "RateTracker \<Rightarrow> RateTracker" where
  "rate_prune t =
     (let cutoff_time = rt_last_update t - int (window_duration t) in
      t\<lparr>samples := pop_to (max_samples t) (dropWhile (\<lambda>s. rs_timestamp s < cutoff_time) (samples t))\<rparr>)"

lemma pop_to_eq: "pop_to n xs = drop (length xs - n) xs"
  by (induction xs) (auto simp: Suc_diff_le)

lemma length_pop_to: "length (pop_to n xs) = min (length xs) n"
  by (simp add: pop_to_eq)

lemma set_pop_to: "set (pop_to n xs) \<subseteq> set xs"
  by (induction xs) auto

lemma sorted_pop_to: "sorted (map f xs) \<Longrightarrow> sorted (map f (pop_to n xs))"
  by (induction xs) auto

lemma sorted_map_dropWhile: "sorted (map f xs) \<Longrightarrow> sorted (map f (dropWhile P xs))"
  by (induction xs) auto

lemma length_rate_update: "length (samples (rate_update_at now s r t)) \<le> max_samples t"
  by (simp add: rate_update_at_def Let_def length_pop_to)

lemma length_rate_prune: "length (samples (rate_prune t)) \<le> max_samples t"
  by (simp add: rate_prune_def Let_def length_pop_to)

definition rate_ok :: "RateTracker \<Rightarrow> bool" where
  "rate_ok t \<longleftrightarrow> length (samples t) \<le> max_samples t \<and> sorted (map rs_timestamp (samples t))
     \<and> (\<forall>s \<in> set (samples t). rs_timestamp s \<le> rt_last_update t)"

lemma rate_ok_new: "rate_ok (RateTracker_new now)"
  by (simp add: rate_ok_def RateTracker_new_def)

lemma rate_ok_initialize [simp]: "rate_ok (initialize_with_counts s r t) = rate_ok t"
  by (simp add: rate_ok_def initialize_with_counts_def)

lemma rate_ok_update:
  assumes "rate_ok t" and "rt_last_update t \<le> now"
  shows "rate_ok (rate_update_at now s r t)"
proof -
  let ?ss = "samples t @ [\<lparr>rs_timestamp = now, delta_sent = sat_sub s (last_bytes_sent t),
               delta_received = sat_sub r (last_bytes_received t)\<rparr>]"
  have "\<forall>x \<in> set ?ss. rs_timestamp x \<le> now" and "sorted (map rs_timestamp ?ss)"
    using assms by (auto simp: rate_ok_def sorted_append)
  then show ?thesis using set_pop_to [of "max_samples t" ?ss] sorted_pop_to [of rs_timestamp ?ss]
    by (auto simp: rate_ok_def rate_update_at_def Let_def length_pop_to)
qed

lemma rate_ok_prune: "rate_ok t \<Longrightarrow> rate_ok (rate_prune t)"
  by (auto simp: rate_ok_def rate_prune_def Let_def length_pop_to sorted_pop_to sorted_map_dropWhile
      dest!: subsetD [OF set_pop_to] set_dropWhileD)

text \<open>After pruning, what is left lies in the window.\<close>

lemma prune_window:
  assumes "rate_ok t" and "s \<in> set (samples (rate_prune t))"
  shows "rt_last_update t - int (window_duration t) \<le> rs_timestamp s"
proof -
  let ?cut = "rt_last_update t - int (window_duration t)"
  let ?kept = "dropWhile (\<lambda>s. rs_timestamp s < ?cut) (samples t)"
  have s: "s \<in> set ?kept"
    using assms(2) by (auto simp: rate_prune_def Let_def pop_to_eq dest: in_set_dropD)
  then have hd: "?cut \<le> rs_timestamp (hd ?kept)" using hd_dropWhile [of "\<lambda>s. rs_timestamp s < ?cut" "samples t"]
    by (cases ?kept) auto
  have "sorted (map rs_timestamp ?kept)"
    using assms(1) by (simp add: rate_ok_def sorted_map_dropWhile)
  then have "rs_timestamp (hd ?kept) \<le> rs_timestamp s"
    using s by (cases ?kept) auto
  then show ?thesis using hd by linarith
qed

text \<open>The deltas add up: from \<open>s0\<close> sent bytes on, with a count that never falls and no sample
  dropped, the sum of the samples is what was sent since.\<close>

definition total_sent :: "RateTracker \<Rightarrow> nat" where
  "total_sent t = sum_list (map (\<lambda>s. unat (delta_sent s)) (samples t))"

lemma total_sent_update:
  assumes "length (samples t) < max_samples t" and "last_bytes_sent t \<le> sent"
  shows "total_sent (rate_update_at now sent received t) + unat (last_bytes_sent t) = total_sent t + unat sent"
  using assms by (simp add: total_sent_def rate_update_at_def Let_def pop_to_eq unat_sat_sub word_le_nat_alt)

end
