(* ===== verification/MergeInfo.thy ===== *)
theory MergeInfo
  imports QuicExtract
begin

text \<open>
  How \<^verbatim>\<open>merge.rs\<close> folds the inspection results of later packets into what a connection
  already knows: \<^verbatim>\<open>merge_http_info\<close>, \<^verbatim>\<open>merge_https_info\<close>, \<^verbatim>\<open>merge_quic_info\<close>,
  \<^verbatim>\<open>merge_dns_info\<close>, \<^verbatim>\<open>merge_ssh_info\<close>, \<^verbatim>\<open>merge_ftp_info\<close>, \<^verbatim>\<open>merge_mqtt_info\<close> and the
  dispatch in \<^verbatim>\<open>merge_dpi_info\<close>. Three contracts are stated as locales and interpreted on
  the fields of these records: a field that keeps its first value, one that takes the latest
  value, and a state that only moves forward.
\<close>

section \<open>Contracts\<close>

fun first_some :: "'v option list \<Rightarrow> 'v option" where
  "first_some [] = None"
| "first_some (None # xs) = first_some xs"
| "first_some (Some v # xs) = Some v"

lemma first_some_append: "first_some (xs @ ys) = (case first_some xs of None \<Rightarrow> first_some ys | Some v \<Rightarrow> Some v)"
  by (induction xs rule: first_some.induct) simp_all

locale first_wins =
  fixes field :: "'s \<Rightarrow> 'v option" and offer :: "'i \<Rightarrow> 'v option" and step :: "'s \<Rightarrow> 'i \<Rightarrow> 's"
  assumes step: "field (step s i) = (case field s of None \<Rightarrow> offer i | Some v \<Rightarrow> Some v)"
begin

lemma kept: "field s = Some v \<Longrightarrow> field (step s i) = Some v"
  by (simp add: step)

lemma kept_all: "field s = Some v \<Longrightarrow> field (foldl step s is) = Some v"
  by (induction "is" arbitrary: s) (simp_all add: kept)

lemma foldl_first: "field (foldl step s is) = first_some (field s # map offer is)"
proof (induction "is" arbitrary: s)
  case Nil
  then show ?case by (cases "field s") simp_all
next
  case (Cons i "is")
  then show ?case by (cases "field s"; cases "offer i") (simp_all add: step)
qed

end

locale latest_wins =
  fixes field :: "'s \<Rightarrow> 'v option" and offer :: "'i \<Rightarrow> 'v option" and step :: "'s \<Rightarrow> 'i \<Rightarrow> 's"
  assumes step: "field (step s i) = (case offer i of None \<Rightarrow> field s | Some v \<Rightarrow> Some v)"
begin

lemma foldl_latest: "field (foldl step s is) = first_some (rev (map offer is) @ [field s])"
proof (induction "is" rule: rev_induct)
  case Nil
  then show ?case by (cases "field s") simp_all
next
  case (snoc i "is")
  then show ?case by (cases "offer i") (simp_all add: step)
qed

end

locale only_forward =
  fixes rank :: "'s \<Rightarrow> 'a :: linorder" and step :: "'s \<Rightarrow> 'i \<Rightarrow> 's"
  assumes step: "rank s \<le> rank (step s i)"
begin

lemma forward_all: "rank s \<le> rank (foldl step s is)"
proof (induction "is" arbitrary: s)
  case (Cons i "is")
  then show ?case using step [of s i] by (auto intro: order.trans)
qed simp

end

text \<open>A state that becomes the further advanced one of the two.\<close>

locale takes_max =
  fixes rank :: "'s \<Rightarrow> 'a :: linorder" and offer :: "'i \<Rightarrow> 'a" and step :: "'s \<Rightarrow> 'i \<Rightarrow> 's"
  assumes step_max: "rank (step s i) = max (rank s) (offer i)"
begin

lemma foldl_max: "rank (foldl step s is) = Max (set (rank s # map offer is))"
proof -
  have "rank (foldl step s is) = fold max (map offer is) (rank s)"
    by (induction "is" arbitrary: s) (simp_all add: step_max max.commute)
  then show ?thesis by (simp only: Max.set_eq_fold)
qed

end

sublocale takes_max \<subseteq> only_forward rank step
  by unfold_locales (simp add: step_max)

text \<open>\<open>if old.is_none() && new.is_some() { old = new }\<close>, and the opposite.\<close>

definition keep_first :: "'v option \<Rightarrow> 'v option \<Rightarrow> 'v option" where
  "keep_first old new = (if old = None \<and> new \<noteq> None then new else old)"

definition take_latest :: "'v option \<Rightarrow> 'v option \<Rightarrow> 'v option" where
  "take_latest old new = (if new \<noteq> None then new else old)"

lemma keep_first_case: "keep_first old new = (case old of None \<Rightarrow> new | Some v \<Rightarrow> Some v)"
  by (cases old; cases new) (simp_all add: keep_first_def)

lemma take_latest_case: "take_latest old new = (case new of None \<Rightarrow> old | Some v \<Rightarrow> Some v)"
  by (cases old; cases new) (simp_all add: take_latest_def)

section \<open>HTTP and TLS\<close>

definition merge_http_info :: "HttpInfo \<Rightarrow> HttpInfo \<Rightarrow> HttpInfo" where
  "merge_http_info old new = old\<lparr>
     http_method := keep_first (http_method old) (http_method new),
     http_path := keep_first (http_path old) (http_path new),
     http_host := keep_first (http_host old) (http_host new),
     http_user_agent := keep_first (http_user_agent old) (http_user_agent new),
     http_status_code := keep_first (http_status_code old) (http_status_code new)\<rparr>"

interpretation http_method: first_wins http_method http_method merge_http_info
  by unfold_locales (simp add: merge_http_info_def keep_first_case)

interpretation http_path: first_wins http_path http_path merge_http_info
  by unfold_locales (simp add: merge_http_info_def keep_first_case)

interpretation http_host: first_wins http_host http_host merge_http_info
  by unfold_locales (simp add: merge_http_info_def keep_first_case)

interpretation http_user_agent: first_wins http_user_agent http_user_agent merge_http_info
  by unfold_locales (simp add: merge_http_info_def keep_first_case)

interpretation http_status_code: first_wins http_status_code http_status_code merge_http_info
  by unfold_locales (simp add: merge_http_info_def keep_first_case)

definition merge_tls_first :: "TlsInfo \<Rightarrow> TlsInfo \<Rightarrow> TlsInfo" where
  "merge_tls_first old new = old\<lparr>
     tls_version := keep_first (tls_version old) (tls_version new),
     tls_sni := keep_first (tls_sni old) (tls_sni new),
     tls_alpn := (if tls_alpn old = [] \<and> tls_alpn new \<noteq> [] then tls_alpn new else tls_alpn old),
     tls_cipher_suite := keep_first (tls_cipher_suite old) (tls_cipher_suite new)\<rparr>"

definition merge_https_info :: "HttpsInfo \<Rightarrow> HttpsInfo \<Rightarrow> HttpsInfo" where
  "merge_https_info old new =
     (case (https_tls_info old, https_tls_info new) of
        (None, Some tls) \<Rightarrow> old\<lparr>https_tls_info := Some tls\<rparr>
      | (Some old_tls, Some new_tls) \<Rightarrow> old\<lparr>https_tls_info := Some (merge_tls_first old_tls new_tls)\<rparr>
      | _ \<Rightarrow> old)"

definition https_sni :: "HttpsInfo \<Rightarrow> bytes option" where
  "https_sni h = Option.bind (https_tls_info h) tls_sni"

interpretation https_sni: first_wins https_sni https_sni merge_https_info
  by unfold_locales
     (auto simp: https_sni_def merge_https_info_def merge_tls_first_def keep_first_case split: option.split)

section \<open>DNS\<close>

definition MAX_MERGED_RESPONSE_IPS :: nat where "MAX_MERGED_RESPONSE_IPS = 64"

fun merge_response_ips :: "ip_addr list \<Rightarrow> ip_addr list \<Rightarrow> ip_addr list" where
  "merge_response_ips old [] = old"
| "merge_response_ips old (addr # ips) =
     (if length old \<ge> MAX_MERGED_RESPONSE_IPS then old
      else merge_response_ips (if addr \<in> set old then old else old @ [addr]) ips)"

definition merge_dns_info :: "DnsInfo \<Rightarrow> DnsInfo \<Rightarrow> DnsInfo" where
  "merge_dns_info old new = old\<lparr>
     dns_query_name := keep_first (dns_query_name old) (dns_query_name new),
     dns_query_type := keep_first (dns_query_type old) (dns_query_type new),
     dns_response_ips := merge_response_ips (dns_response_ips old) (dns_response_ips new),
     dns_is_response := (if dns_is_response new then True else dns_is_response old)\<rparr>"

interpretation dns_query_name: first_wins dns_query_name dns_query_name merge_dns_info
  by unfold_locales (simp add: merge_dns_info_def keep_first_case)

interpretation dns_query_type: first_wins dns_query_type dns_query_type merge_dns_info
  by unfold_locales (simp add: merge_dns_info_def keep_first_case)

lemma merge_response_ips_distinct: "distinct old \<Longrightarrow> distinct (merge_response_ips old new)"
  by (induction old new rule: merge_response_ips.induct) simp_all

lemma merge_response_ips_length:
  "length (merge_response_ips old new) \<le> max (length old) MAX_MERGED_RESPONSE_IPS"
  by (induction old new rule: merge_response_ips.induct) (auto simp: max_def split: if_splits)

lemma merge_response_ips_prefix: "\<exists>more. merge_response_ips old new = old @ more"
proof (induction old new rule: merge_response_ips.induct)
  case (2 old addr ips)
  then show ?case by (cases "addr \<in> set old") auto
qed simp

lemma merge_response_ips_set:
  "length (merge_response_ips old new) < MAX_MERGED_RESPONSE_IPS \<Longrightarrow>
   set (merge_response_ips old new) = set old \<union> set new"
proof (induction old new rule: merge_response_ips.induct)
  case (2 old addr ips)
  have "length old < MAX_MERGED_RESPONSE_IPS"
    using 2(2) by (auto split: if_splits)
  then show ?case using 2 by (auto split: if_splits)
qed simp

section \<open>SSH\<close>

definition ssh_state_after :: "SshConnectionState \<Rightarrow> SshConnectionState \<Rightarrow> SshConnectionState" where
  "ssh_state_after old new =
     (case (old, new) of
        (Banner, _) \<Rightarrow> new
      | (KeyExchange, Authentication) \<Rightarrow> new
      | (KeyExchange, SshConnectionState.Established) \<Rightarrow> new
      | (Authentication, SshConnectionState.Established) \<Rightarrow> new
      | _ \<Rightarrow> old)"

text \<open>The loop that pushes every algorithm not yet in the list.\<close>

fun push_new :: "bytes list \<Rightarrow> bytes list \<Rightarrow> bytes list" where
  "push_new old [] = old"
| "push_new old (a # as) = push_new (if a \<in> set old then old else old @ [a]) as"

definition ssh_algorithms_after ::
  "SshConnectionState \<Rightarrow> SshConnectionState \<Rightarrow> bytes list \<Rightarrow> bytes list \<Rightarrow> bytes list" where
  "ssh_algorithms_after state new_state old new =
     (if new_state = SshConnectionState.Established \<and> new \<noteq> [] then new
      else if state = SshConnectionState.Established \<and> new_state = SshConnectionState.Established then push_new old new
      else push_new old new)"

definition merge_ssh_info :: "SshInfo \<Rightarrow> SshInfo \<Rightarrow> SshInfo" where
  "merge_ssh_info old new =
     (let state = ssh_state_after (ssh_state old) (ssh_state new) in
      old\<lparr>ssh_version := keep_first (ssh_version old) (ssh_version new),
          client_software := keep_first (client_software old) (client_software new),
          server_software := keep_first (server_software old) (server_software new),
          ssh_state := state,
          algorithms := ssh_algorithms_after state (ssh_state new) (algorithms old) (algorithms new),
          auth_method := keep_first (auth_method old) (auth_method new)\<rparr>)"

text \<open>The states in the order of a session.\<close>

fun ssh_rank :: "SshConnectionState \<Rightarrow> nat" where
  "ssh_rank Banner = 0"
| "ssh_rank KeyExchange = 1"
| "ssh_rank Authentication = 2"
| "ssh_rank SshConnectionState.Established = 3"

lemma ssh_rank_inject: "ssh_rank s = ssh_rank t \<longleftrightarrow> s = t"
  by (cases s; cases t) simp_all

instantiation SshConnectionState :: linorder
begin

definition less_eq_SshConnectionState :: "SshConnectionState \<Rightarrow> SshConnectionState \<Rightarrow> bool" where
  "s \<le> t \<longleftrightarrow> ssh_rank s \<le> ssh_rank t"

definition less_SshConnectionState :: "SshConnectionState \<Rightarrow> SshConnectionState \<Rightarrow> bool" where
  "s < t \<longleftrightarrow> ssh_rank s < ssh_rank t"

instance
  by standard (auto simp: less_eq_SshConnectionState_def less_SshConnectionState_def ssh_rank_inject)

end

lemma ssh_state_after_max: "ssh_state_after old new = max old new"
  by (cases old; cases new) (simp_all add: ssh_state_after_def max_def less_eq_SshConnectionState_def)

interpretation ssh_progress: takes_max ssh_state ssh_state merge_ssh_info
  by unfold_locales (simp add: merge_ssh_info_def Let_def ssh_state_after_max)

interpretation ssh_client: first_wins client_software client_software merge_ssh_info
  by unfold_locales (simp add: merge_ssh_info_def Let_def keep_first_case)

interpretation ssh_server: first_wins server_software server_software merge_ssh_info
  by unfold_locales (simp add: merge_ssh_info_def Let_def keep_first_case)

section \<open>FTP and MQTT\<close>

definition merge_ftp_info :: "FtpInfo \<Rightarrow> FtpInfo \<Rightarrow> FtpInfo" where
  "merge_ftp_info old new = old\<lparr>
     ftp_username := keep_first (ftp_username old) (ftp_username new),
     ftp_server_software := keep_first (ftp_server_software old) (ftp_server_software new),
     ftp_system_type := keep_first (ftp_system_type old) (ftp_system_type new),
     ftp_message_type := ftp_message_type new,
     ftp_command := take_latest (ftp_command old) (ftp_command new),
     ftp_args := take_latest (ftp_args old) (ftp_args new),
     ftp_response_code := take_latest (ftp_response_code old) (ftp_response_code new),
     ftp_response_message := take_latest (ftp_response_message old) (ftp_response_message new)\<rparr>"

interpretation ftp_username: first_wins ftp_username ftp_username merge_ftp_info
  by unfold_locales (simp add: merge_ftp_info_def keep_first_case)

interpretation ftp_server: first_wins ftp_server_software ftp_server_software merge_ftp_info
  by unfold_locales (simp add: merge_ftp_info_def keep_first_case)

interpretation ftp_system: first_wins ftp_system_type ftp_system_type merge_ftp_info
  by unfold_locales (simp add: merge_ftp_info_def keep_first_case)

interpretation ftp_command: latest_wins ftp_command ftp_command merge_ftp_info
  by unfold_locales (simp add: merge_ftp_info_def take_latest_case)

interpretation ftp_args: latest_wins ftp_args ftp_args merge_ftp_info
  by unfold_locales (simp add: merge_ftp_info_def take_latest_case)

interpretation ftp_code: latest_wins ftp_response_code ftp_response_code merge_ftp_info
  by unfold_locales (simp add: merge_ftp_info_def take_latest_case)

interpretation ftp_message: latest_wins ftp_response_message ftp_response_message merge_ftp_info
  by unfold_locales (simp add: merge_ftp_info_def take_latest_case)

definition merge_mqtt_info :: "MqttInfo \<Rightarrow> MqttInfo \<Rightarrow> MqttInfo" where
  "merge_mqtt_info old new = old\<lparr>
     mqtt_version := keep_first (mqtt_version old) (mqtt_version new),
     mqtt_client_id := keep_first (mqtt_client_id old) (mqtt_client_id new),
     mqtt_topic := keep_first (mqtt_topic old) (mqtt_topic new),
     mqtt_qos := keep_first (mqtt_qos old) (mqtt_qos new),
     mqtt_packet_type := mqtt_packet_type new\<rparr>"

interpretation mqtt_client: first_wins mqtt_client_id mqtt_client_id merge_mqtt_info
  by unfold_locales (simp add: merge_mqtt_info_def keep_first_case)

interpretation mqtt_topic: first_wins mqtt_topic mqtt_topic merge_mqtt_info
  by unfold_locales (simp add: merge_mqtt_info_def keep_first_case)

definition merge_bittorrent_info :: "BitTorrentInfo \<Rightarrow> BitTorrentInfo \<Rightarrow> BitTorrentInfo" where
  "merge_bittorrent_info old new = old\<lparr>
     bt_client := (if bt_client old = None then bt_client new else bt_client old),
     info_hash := (if info_hash old = None then info_hash new else info_hash old)\<rparr>"

interpretation bt_client: first_wins bt_client bt_client merge_bittorrent_info
  by unfold_locales (auto simp: merge_bittorrent_info_def split: option.split)

interpretation bt_info_hash: first_wins info_hash info_hash merge_bittorrent_info
  by unfold_locales (auto simp: merge_bittorrent_info_def split: option.split)

section \<open>Properties\<close>

text \<open>The state of an SSH connection is the furthest one any of its packets showed, in
  whatever order the packets are merged.\<close>

theorem ssh_state_is_furthest:
  "ssh_state (foldl merge_ssh_info s ss) = Max (set (map ssh_state (s # ss)))"
  by (simp only: ssh_progress.foldl_max list.map)

lemma foldl_merge_dns:
  "dns_response_ips (foldl merge_dns_info d ds) = foldl merge_response_ips (dns_response_ips d) (map dns_response_ips ds)"
  by (induction ds arbitrary: d) (simp_all add: merge_dns_info_def)

lemma foldl_merge_ips:
  assumes "distinct ips" and "length ips \<le> MAX_MERGED_RESPONSE_IPS"
  shows "distinct (foldl merge_response_ips ips new) \<and> length (foldl merge_response_ips ips new) \<le> MAX_MERGED_RESPONSE_IPS
    \<and> (\<exists>more. foldl merge_response_ips ips new = ips @ more)
    \<and> (length (foldl merge_response_ips ips new) < MAX_MERGED_RESPONSE_IPS \<longrightarrow>
         set (foldl merge_response_ips ips new) = set ips \<union> (\<Union>n \<in> set new. set n))"
  using assms
proof (induction new arbitrary: ips)
  case (Cons n new)
  let ?i = "merge_response_ips ips n"
  have i: "distinct ?i" "length ?i \<le> MAX_MERGED_RESPONSE_IPS"
    using Cons.prems merge_response_ips_distinct [of ips n] merge_response_ips_length [of ips n] by simp_all
  obtain more where more: "?i = ips @ more" using merge_response_ips_prefix by blast
  note IH = Cons.IH [OF i]
  then obtain more' where more': "foldl merge_response_ips ?i new = ?i @ more'" by blast
  have "length (foldl merge_response_ips ?i new) < MAX_MERGED_RESPONSE_IPS \<Longrightarrow> set ?i = set ips \<union> set n"
    using more' by (intro merge_response_ips_set) simp
  then show ?case using IH more more' by auto
qed simp

text \<open>However many responses are merged, the addresses of a DNS connection stay distinct and
  at most 64, those already known are kept in their place, and below the limit none is lost.\<close>

theorem dns_addresses_bounded:
  assumes "distinct (dns_response_ips d)" and "length (dns_response_ips d) \<le> MAX_MERGED_RESPONSE_IPS"
    and "dns_response_ips (foldl merge_dns_info d ds) = ips"
  shows "distinct ips \<and> length ips \<le> 64 \<and> take (length (dns_response_ips d)) ips = dns_response_ips d
    \<and> (length ips < 64 \<longrightarrow> set ips = set (dns_response_ips d) \<union> (\<Union>n \<in> set ds. set (dns_response_ips n)))"
  using foldl_merge_ips [OF assms(1,2), of "map dns_response_ips ds"] assms(3)
  by (auto simp: foldl_merge_dns MAX_MERGED_RESPONSE_IPS_def)

definition dns_answer :: "ip_addr list \<Rightarrow> DnsInfo" where
  "dns_answer ips = \<lparr>dns_query_name = None, dns_query_type = None, dns_response_ips = ips, dns_is_response = True\<rparr>"

theorem dns_addresses_bounded_witness:
  "dns_response_ips (foldl merge_dns_info (dns_answer [V4 (Ipv4Addr 1 1 1 1)])
      [dns_answer [V4 (Ipv4Addr 8 8 8 8), V4 (Ipv4Addr 1 1 1 1)]]) = [V4 (Ipv4Addr 1 1 1 1), V4 (Ipv4Addr 8 8 8 8)]
   \<and> distinct [V4 (Ipv4Addr 1 1 1 1), V4 (Ipv4Addr 8 8 8 8)]"
proof -
  let ?d = "dns_answer [V4 (Ipv4Addr 1 1 1 1)]" and ?a = "[dns_answer [V4 (Ipv4Addr 8 8 8 8), V4 (Ipv4Addr 1 1 1 1)]]"
  have e: "dns_response_ips (foldl merge_dns_info ?d ?a) = [V4 (Ipv4Addr 1 1 1 1), V4 (Ipv4Addr 8 8 8 8)]"
    by (simp add: dns_answer_def merge_dns_info_def MAX_MERGED_RESPONSE_IPS_def)
  moreover have "distinct (dns_response_ips ?d)" "length (dns_response_ips ?d) \<le> MAX_MERGED_RESPONSE_IPS"
    by (simp_all add: dns_answer_def MAX_MERGED_RESPONSE_IPS_def)
  ultimately show ?thesis using dns_addresses_bounded by blast
qed

end
