(* ===== verification/MergeQuic.thy ===== *)
theory MergeQuic
  imports MergeInfo
begin

text \<open>
  \<^verbatim>\<open>merge_quic_info\<close> of \<^verbatim>\<open>merge.rs\<close>: the information of one more QUIC packet is merged into
  that of its connection: the connection state, identifiers, the CRYPTO fragments (moved
  into the connection's reassembly buffer, from which the server name is extracted again), the
  TLS information and a CONNECTION_CLOSE. The function is written as the sequence of its
  blocks; \<open>now\<close> is the reading of the monotonic clock.
\<close>

section \<open>The blocks of the merge\<close>

fun quic_state_priority :: "QuicConnectionState \<Rightarrow> nat" where
  "quic_state_priority QuicConnectionState.Unknown = 0"
| "quic_state_priority QuicConnectionState.Initial = 1"
| "quic_state_priority Handshaking = 2"
| "quic_state_priority Connected = 3"
| "quic_state_priority Draining = 4"
| "quic_state_priority QuicConnectionState.Closed = 5"

definition partial_sni :: "TlsInfo \<Rightarrow> bool" where
  "partial_sni tls = (case tls_sni tls of Some s \<Rightarrow> is_partial_sni s | None \<Rightarrow> False)"

definition complete_sni :: "TlsInfo \<Rightarrow> bool" where
  "complete_sni tls = (case tls_sni tls of Some s \<Rightarrow> \<not> is_partial_sni s | None \<Rightarrow> False)"

definition merge_identity :: "QuicInfo \<Rightarrow> QuicInfo \<Rightarrow> QuicInfo" where
  "merge_identity old new =
     (let old = (if quic_state_priority (connection_state new) > quic_state_priority (connection_state old)
                 then old\<lparr>connection_state := connection_state new\<rparr> else old);
          old = old\<lparr>packet_type := packet_type new\<rparr>;
          old = (if connection_id old = [] \<and> connection_id new \<noteq> []
                 then old\<lparr>connection_id := connection_id new, connection_id_hex := connection_id_hex new\<rparr>
                 else old)
      in old\<lparr>version_string := keep_first (version_string old) (version_string new)\<rparr>)"

definition should_retry :: "QuicInfo \<Rightarrow> bool" where
  "should_retry info =
     (case quic_tls_info info of None \<Rightarrow> True | Some tls \<Rightarrow> tls_sni tls = None \<or> partial_sni tls)"

text \<open>Extraction from the connection's buffer: complete first, partial as a fallback.\<close>

definition re_extract :: "CryptoFrameReassembler \<Rightarrow> QuicInfo \<Rightarrow> QuicInfo" where
  "re_extract buffer info =
     (case extract_tls buffer False of
        (Some tls, buffer) \<Rightarrow> info\<lparr>crypto_reassembler := Some buffer, quic_tls_info := Some tls\<rparr>
      | (None, buffer) \<Rightarrow>
          (case extract_tls buffer True of
             (Some tls, buffer) \<Rightarrow> info\<lparr>crypto_reassembler := Some buffer, quic_tls_info := Some tls\<rparr>
           | (None, buffer) \<Rightarrow> info\<lparr>crypto_reassembler := Some buffer\<rparr>))"

definition adopt_cached :: "CryptoFrameReassembler \<Rightarrow> QuicInfo \<Rightarrow> QuicInfo" where
  "adopt_cached new_buffer info =
     (case get_cached_tls_info new_buffer of
        None \<Rightarrow> info
      | Some tls \<Rightarrow>
          let should_update =
            (case quic_tls_info info of
               None \<Rightarrow> True
             | Some old_tls \<Rightarrow> tls_sni old_tls = None \<or> partial_sni old_tls \<and> complete_sni tls)
          in if should_update then info\<lparr>quic_tls_info := Some tls\<rparr> else info)"

definition merge_buffer :: "instant \<Rightarrow> CryptoFrameReassembler \<Rightarrow> CryptoFrameReassembler \<Rightarrow> CryptoFrameReassembler" where
  "merge_buffer now old new = add_fragments (map (\<lambda>(offset, data). (now, offset, data)) (fragments new)) old"

definition merge_reassembler :: "instant \<Rightarrow> QuicInfo \<Rightarrow> QuicInfo \<Rightarrow> QuicInfo" where
  "merge_reassembler now old new =
     (case crypto_reassembler new of
        None \<Rightarrow> old
      | Some new_buffer \<Rightarrow>
          (case crypto_reassembler old of
             None \<Rightarrow> old\<lparr>crypto_reassembler := Some new_buffer\<rparr>
           | Some old_buffer \<Rightarrow>
               let buffer = merge_buffer now old_buffer new_buffer;
                   old = old\<lparr>crypto_reassembler := Some buffer\<rparr>;
                   old = (if should_retry old then re_extract buffer old else old)
               in adopt_cached new_buffer old))"

definition better_tls :: "TlsInfo \<Rightarrow> TlsInfo \<Rightarrow> TlsInfo" where
  "better_tls old new = old\<lparr>
     tls_sni := (if tls_sni old = None \<and> tls_sni new \<noteq> None then tls_sni new
                 else if partial_sni old \<and> tls_sni new \<noteq> None \<and> \<not> partial_sni new then tls_sni new
                 else tls_sni old),
     tls_alpn := (if tls_alpn old = [] \<and> tls_alpn new \<noteq> [] then tls_alpn new else tls_alpn old),
     tls_version := keep_first (tls_version old) (tls_version new),
     tls_cipher_suite := keep_first (tls_cipher_suite old) (tls_cipher_suite new)\<rparr>"

definition merge_quic_tls :: "QuicInfo \<Rightarrow> QuicInfo \<Rightarrow> QuicInfo" where
  "merge_quic_tls old new =
     (case (quic_tls_info old, quic_tls_info new) of
        (None, Some tls) \<Rightarrow> old\<lparr>quic_tls_info := Some tls\<rparr>
      | (Some old_tls, Some new_tls) \<Rightarrow> old\<lparr>quic_tls_info := Some (better_tls old_tls new_tls)\<rparr>
      | _ \<Rightarrow> old)"

definition close_state :: "QuicCloseInfo \<Rightarrow> QuicConnectionState" where
  "close_state close =
     (if frame_type close = 0x1c \<and> error_code close = 0 then Draining
      else if frame_type close = 0x1c then QuicConnectionState.Closed
      else if frame_type close = 0x1d then QuicConnectionState.Closed
      else QuicConnectionState.Closed)"

definition merge_close :: "QuicInfo \<Rightarrow> QuicInfo \<Rightarrow> QuicInfo" where
  "merge_close old new =
     (case connection_close new of
        None \<Rightarrow> old
      | Some close \<Rightarrow> old\<lparr>connection_close := Some close, connection_state := close_state close\<rparr>)"

definition merge_quic_info :: "instant \<Rightarrow> QuicInfo \<Rightarrow> QuicInfo \<Rightarrow> QuicInfo" where
  "merge_quic_info now old new =
     (let old = merge_identity old new;
          old = merge_reassembler now old new;
          old = merge_quic_tls old new;
          old = (if has_crypto_frame new then old\<lparr>has_crypto_frame := True\<rparr> else old);
          old = merge_close old new
      in (if idle_timeout new \<noteq> None then old\<lparr>idle_timeout := idle_timeout new\<rparr> else old))"

definition merge_application :: "instant \<Rightarrow> ApplicationProtocol \<Rightarrow> ApplicationProtocol \<Rightarrow> ApplicationProtocol" where
  "merge_application now old new =
     (case (old, new) of
        (Http o', Http n) \<Rightarrow> Http (merge_http_info o' n)
      | (Https o', Https n) \<Rightarrow> Https (merge_https_info o' n)
      | (Quic o', Quic n) \<Rightarrow> Quic (merge_quic_info now o' n)
      | (Dns o', Dns n) \<Rightarrow> Dns (merge_dns_info o' n)
      | (Ssh o', Ssh n) \<Rightarrow> Ssh (merge_ssh_info o' n)
      | (BitTorrent o', BitTorrent n) \<Rightarrow> BitTorrent (merge_bittorrent_info o' n)
      | (Mqtt o', Mqtt n) \<Rightarrow> Mqtt (merge_mqtt_info o' n)
      | (Ftp o', Ftp n) \<Rightarrow> Ftp (merge_ftp_info o' n)
      | _ \<Rightarrow> old)"

section \<open>What the blocks leave alone\<close>

named_theorems quic_frame "fields a block of the merge does not touch"

lemma merge_identity_frame [quic_frame]:
  "quic_tls_info (merge_identity old new) = quic_tls_info old"
  "crypto_reassembler (merge_identity old new) = crypto_reassembler old"
  "connection_close (merge_identity old new) = connection_close old"
  by (simp_all add: merge_identity_def Let_def)

lemma re_extract_frame [quic_frame]:
  "connection_state (re_extract b info) = connection_state info"
  "connection_close (re_extract b info) = connection_close info"
  by (simp_all add: re_extract_def split: prod.split option.split)

lemma adopt_cached_frame [quic_frame]:
  "connection_state (adopt_cached b info) = connection_state info"
  "connection_close (adopt_cached b info) = connection_close info"
  "crypto_reassembler (adopt_cached b info) = crypto_reassembler info"
  by (simp_all add: adopt_cached_def Let_def split: option.split)

lemma merge_reassembler_frame [quic_frame]:
  "connection_state (merge_reassembler now old new) = connection_state old"
  "connection_close (merge_reassembler now old new) = connection_close old"
  by (simp_all add: merge_reassembler_def Let_def quic_frame split: option.split)

lemma merge_quic_tls_frame [quic_frame]:
  "connection_state (merge_quic_tls old new) = connection_state old"
  "connection_close (merge_quic_tls old new) = connection_close old"
  "crypto_reassembler (merge_quic_tls old new) = crypto_reassembler old"
  by (simp_all add: merge_quic_tls_def split: option.split)

lemma merge_close_frame [quic_frame]:
  "quic_tls_info (merge_close old new) = quic_tls_info old"
  "crypto_reassembler (merge_close old new) = crypto_reassembler old"
  by (simp_all add: merge_close_def split: option.split)

section \<open>The connection state\<close>

text \<open>The states in the order of their priority. Without a CONNECTION_CLOSE the state becomes the
  further advanced of the two.\<close>

lemma priority_inject: "quic_state_priority s = quic_state_priority t \<longleftrightarrow> s = t"
  by (cases s; cases t) simp_all

instantiation QuicConnectionState :: linorder
begin

definition less_eq_QuicConnectionState :: "QuicConnectionState \<Rightarrow> QuicConnectionState \<Rightarrow> bool" where
  "s \<le> t \<longleftrightarrow> quic_state_priority s \<le> quic_state_priority t"

definition less_QuicConnectionState :: "QuicConnectionState \<Rightarrow> QuicConnectionState \<Rightarrow> bool" where
  "s < t \<longleftrightarrow> quic_state_priority s < quic_state_priority t"

instance
  by standard (auto simp: less_eq_QuicConnectionState_def less_QuicConnectionState_def priority_inject)

end

lemma merge_identity_state:
  "connection_state (merge_identity old new) = max (connection_state old) (connection_state new)"
  by (auto simp: merge_identity_def Let_def max_def less_eq_QuicConnectionState_def priority_inject)

lemma merge_quic_state:
  "connection_state (merge_quic_info now old new) =
     (case connection_close new of
        Some close \<Rightarrow> close_state close
      | None \<Rightarrow> connection_state (merge_identity old new))"
  by (simp add: merge_quic_info_def Let_def merge_close_def quic_frame split: option.split)

lemma merge_quic_state_max:
  "connection_close new = None \<Longrightarrow>
   connection_state (merge_quic_info now old new) = max (connection_state old) (connection_state new)"
  by (simp add: merge_quic_state merge_identity_state)

section \<open>The reassembly buffer\<close>

lemma frags_nonempty: "reassembler_ok r \<Longrightarrow> \<forall>e \<in> set (fragments r). snd e \<noteq> []"
  by (auto simp: reassembler_ok_def dest: frags_ok_nonempty)

lemma add_fragments_ok:
  assumes "reassembler_ok r" and "\<forall>(t, off, d) \<in> set fs. d \<noteq> []"
  shows "reassembler_ok (add_fragments fs r) \<and> received r \<subseteq>\<^sub>m received (add_fragments fs r)"
  using assms
proof (induction fs arbitrary: r)
  case (Cons f fs)
  obtain t off d where f: "f = (t, off, d)" by (cases f) auto
  let ?r = "snd (add_fragment t off d r)"
  have d: "d \<noteq> []" using Cons.prems(2) f by simp
  have "reassembler_ok (add_fragments fs ?r) \<and> received ?r \<subseteq>\<^sub>m received (add_fragments fs ?r)"
    using Cons.prems(2) add_fragment_ok [OF Cons.prems(1) d] by (intro Cons.IH) auto
  then show ?case using received_mono [OF Cons.prems(1) d, of t off] f
    by (auto intro: map_le_trans)
qed simp

lemma merge_buffer_ok:
  assumes "reassembler_ok old" and "reassembler_ok new"
  shows "reassembler_ok (merge_buffer now old new) \<and> received old \<subseteq>\<^sub>m received (merge_buffer now old new)"
  unfolding merge_buffer_def
  using frags_nonempty [OF assms(2)] by (intro add_fragments_ok [OF assms(1)]) auto

text \<open>Well-formed information: the buffer's invariant and proper server names.\<close>

definition quic_ok :: "QuicInfo \<Rightarrow> bool" where
  "quic_ok q \<longleftrightarrow> (\<forall>r. crypto_reassembler q = Some r \<longrightarrow> reassembler_ok r \<and> cache_ok r)
     \<and> (\<forall>tls. quic_tls_info q = Some tls \<longrightarrow> tls_sni_ok tls)"

lemma extract_tls_ok:
  assumes "extract_tls r ap = (t, r')" and "reassembler_ok r" and "cache_ok r"
  shows "reassembler_ok r' \<and> cache_ok r' \<and> (\<forall>tls. t = Some tls \<longrightarrow> tls_sni_ok tls) \<and> received r' = received r"
proof -
  have e: "try_extract_tls_from_reassembler r ap = Some (t, r')" using assms(1) by (simp add: extract_tls_eq)
  show ?thesis
    using extract_ok [OF e assms(3)] extract_frame [OF e] assms(2)
    by (auto simp: reassembler_ok_tls) (auto simp: received_def set_complete_tls_info_def)
qed

lemma cache_ok_add_fragments: "cache_ok (add_fragments fs r) = cache_ok r"
proof (induction fs arbitrary: r)
  case (Cons f fs)
  obtain t off d where f: "f = (t, off, d)" by (cases f) auto
  have "cache_ok (snd (add_fragment t off d r)) = cache_ok r"
    by (cases rule: add_fragment_cases [of r d t off]) (simp_all add: cache_ok_def)
  then show ?case using Cons f by simp
qed simp

lemma re_extract_ok:
  assumes "reassembler_ok b" and "cache_ok b" and "quic_ok info"
  shows "quic_ok (re_extract b info) \<and>
    (\<exists>b'. crypto_reassembler (re_extract b info) = Some b' \<and> received b' = received b)"
proof -
  obtain t1 b1 where 1: "extract_tls b False = (t1, b1)" by (cases "extract_tls b False")
  obtain t2 b2 where 2: "extract_tls b1 True = (t2, b2)" by (cases "extract_tls b1 True")
  have ok1: "reassembler_ok b1" "cache_ok b1" "\<And>tls. t1 = Some tls \<Longrightarrow> tls_sni_ok tls" "received b1 = received b"
    using extract_tls_ok [OF 1 assms(1,2)] by simp_all
  have ok2: "reassembler_ok b2" "cache_ok b2" "\<And>tls. t2 = Some tls \<Longrightarrow> tls_sni_ok tls" "received b2 = received b1"
    using extract_tls_ok [OF 2 ok1(1,2)] by simp_all
  show ?thesis
    using 1 2 ok1 ok2 assms(3) by (cases t1; cases t2) (auto simp: re_extract_def quic_ok_def)
qed

lemma adopt_cached_ok: "cache_ok b \<Longrightarrow> quic_ok info \<Longrightarrow> quic_ok (adopt_cached b info)"
  by (auto simp: adopt_cached_def Let_def quic_ok_def cache_ok_def get_cached_tls_info_def split: option.split)

lemma merge_reassembler_ok:
  assumes "quic_ok old" and "quic_ok new"
  shows "quic_ok (merge_reassembler now old new)"
proof (cases "crypto_reassembler new"; cases "crypto_reassembler old")
  fix nb ob assume n: "crypto_reassembler new = Some nb" and o': "crypto_reassembler old = Some ob"
  let ?b = "merge_buffer now ob nb" and ?info = "old\<lparr>crypto_reassembler := Some (merge_buffer now ob nb)\<rparr>"
  have b: "reassembler_ok ?b" "cache_ok ?b"
    using merge_buffer_ok [of ob nb now] assms n o'
    by (simp_all add: quic_ok_def merge_buffer_def cache_ok_add_fragments)
  have i: "quic_ok ?info" using b assms(1) by (simp add: quic_ok_def)
  have "quic_ok (if should_retry ?info then re_extract ?b ?info else ?info)"
    using i re_extract_ok [OF b i] by simp
  moreover have "cache_ok nb" using assms(2) n by (simp add: quic_ok_def)
  ultimately show ?thesis
    by (simp add: merge_reassembler_def n o' Let_def adopt_cached_ok)
qed (use assms in \<open>auto simp: merge_reassembler_def quic_ok_def\<close>)

lemma better_tls_ok: "tls_sni_ok old \<Longrightarrow> tls_sni_ok new \<Longrightarrow> tls_sni_ok (better_tls old new)"
  by (auto simp: tls_sni_ok_def better_tls_def)

lemma merge_quic_tls_ok: "quic_ok old \<Longrightarrow> quic_ok new \<Longrightarrow> quic_ok (merge_quic_tls old new)"
  by (auto simp: merge_quic_tls_def quic_ok_def better_tls_ok split: option.split)

lemma merge_quic_info_ok:
  assumes "quic_ok old" and "quic_ok new"
  shows "quic_ok (merge_quic_info now old new)"
proof -
  have "quic_ok (merge_identity old new)"
    using assms(1) by (simp add: quic_ok_def quic_frame)
  then have "quic_ok (merge_quic_tls (merge_reassembler now (merge_identity old new) new) new)"
    using merge_reassembler_ok [OF _ assms(2)] merge_quic_tls_ok [OF _ assms(2)] by blast
  then show ?thesis
    by (simp add: merge_quic_info_def Let_def quic_ok_def quic_frame)
qed

text \<open>A complete server name is never given up again.\<close>

lemma better_tls_complete: "complete_sni old \<Longrightarrow> tls_sni (better_tls old new) = tls_sni old"
  by (auto simp: better_tls_def complete_sni_def partial_sni_def split: option.splits)

lemma merge_reassembler_complete:
  assumes "quic_tls_info old = Some tls" and "complete_sni tls"
  shows "quic_tls_info (merge_reassembler now old new) = Some tls"
  using assms
  by (auto simp: merge_reassembler_def adopt_cached_def should_retry_def Let_def complete_sni_def
      partial_sni_def split: option.splits)

lemma merge_quic_complete:
  assumes "quic_tls_info old = Some tls" and "complete_sni tls"
  shows "\<exists>tls'. quic_tls_info (merge_quic_info now old new) = Some tls' \<and> tls_sni tls' = tls_sni tls"
proof -
  have "quic_tls_info (merge_reassembler now (merge_identity old new) new) = Some tls"
    using assms by (intro merge_reassembler_complete) (simp_all add: quic_frame)
  then show ?thesis
    using better_tls_complete [OF assms(2)]
    by (auto simp: merge_quic_info_def Let_def merge_quic_tls_def quic_frame split: option.split)
qed

definition quic_sni :: "QuicInfo \<Rightarrow> bytes option" where
  "quic_sni q = Option.bind (quic_tls_info q) tls_sni"

definition quic_complete_sni :: "QuicInfo \<Rightarrow> bytes option" where
  "quic_complete_sni q = (case quic_sni q of Some s \<Rightarrow> if is_partial_sni s then None else Some s | None \<Rightarrow> None)"

lemma quic_complete_sni_kept:
  "quic_complete_sni old = Some s \<Longrightarrow> quic_complete_sni (merge_quic_info now old new) = Some s"
proof -
  assume s: "quic_complete_sni old = Some s"
  then obtain tls where "quic_tls_info old = Some tls" "tls_sni tls = Some s" "\<not> is_partial_sni s"
    by (auto simp: quic_complete_sni_def quic_sni_def split: option.splits if_splits bind_splits)
  then show ?thesis
    using merge_quic_complete [of old tls now new]
    by (auto simp: quic_complete_sni_def quic_sni_def complete_sni_def)
qed

section \<open>Properties\<close>

text \<open>A connection's information over the packets merged into it.\<close>

fun merge_all_quic :: "QuicInfo \<Rightarrow> (instant \<times> QuicInfo) list \<Rightarrow> QuicInfo" where
  "merge_all_quic q [] = q"
| "merge_all_quic q ((now, n) # ns) = merge_all_quic (merge_quic_info now q n) ns"

definition sample_quic :: "bytes \<Rightarrow> QuicInfo" where
  "sample_quic data = \<lparr>version_string = None, packet_type = QuicPacketType.Initial, connection_id = [1, 2],
     connection_id_hex = None, connection_state = QuicConnectionState.Initial, quic_tls_info = None,
     has_crypto_frame = True,
     crypto_reassembler = Some (snd (add_fragment 0 0 data (reassembler_new 0))),
     connection_close = None, idle_timeout = None\<rparr>"

lemma sample_quic_ok: "data \<noteq> [] \<Longrightarrow> quic_ok (sample_quic data)"
  using add_fragment_ok [OF reassembler_ok_new, of data 0 0 0] cache_ok_add_fragments [of "[(0, 0, data)]" "reassembler_new 0"]
  by (simp add: quic_ok_def sample_quic_def) (simp add: cache_ok_def reassembler_new_def)

text \<open>C21. Whatever packets are merged, every buffer of a QUIC connection keeps its invariant and
  every server name it is given is a host name, or a partial one marked as such.\<close>

theorem quic_information_well_formed:
  assumes "quic_ok q" and "\<forall>(now, n) \<in> set ns. quic_ok n"
  shows "quic_ok (merge_all_quic q ns) \<and> pred_option sni_ok (quic_sni (merge_all_quic q ns))"
proof -
  have "quic_ok (merge_all_quic q ns)"
    using assms by (induction q ns rule: merge_all_quic.induct) (simp_all add: merge_quic_info_ok)
  then show ?thesis
    by (auto simp: quic_ok_def quic_sni_def tls_sni_ok_def pred_option_def bind_eq_Some_conv elim!: option.set_cases)
qed

theorem quic_information_well_formed_witness:
  "quic_ok (merge_all_quic (sample_quic [1, 0]) [(5, sample_quic [1, 0, 7]), (6, sample_quic [2])])"
proof -
  have "quic_ok (sample_quic [1, 0])" "\<forall>(now, n) \<in> set [(5 :: int, sample_quic [1, 0, 7]), (6, sample_quic [2])]. quic_ok n"
    by (simp_all add: sample_quic_ok)
  from quic_information_well_formed [OF this] show ?thesis ..
qed

text \<open>A complete server name of a connection is never replaced, not by a partial one, not by
  another complete one, whatever packets are merged later.\<close>

theorem complete_sni_kept:
  "quic_complete_sni q = Some s \<Longrightarrow> quic_complete_sni (merge_all_quic q ns) = Some s"
  by (induction q ns rule: merge_all_quic.induct) (simp_all add: quic_complete_sni_kept)

theorem complete_sni_kept_witness:
  "quic_complete_sni (merge_all_quic ((sample_quic [1])\<lparr>quic_tls_info := Some (with_sni sample_host)\<rparr>)
     [(3, (sample_quic [4])\<lparr>quic_tls_info := Some (with_sni (mark_partial_sni [101, 46, 99, 111]))\<rparr>)]) = Some sample_host"
proof (rule complete_sni_kept)
  have "\<not> is_partial_sni sample_host" by code_simp
  then show "quic_complete_sni ((sample_quic [1])\<lparr>quic_tls_info := Some (with_sni sample_host)\<rparr>) = Some sample_host"
    by (simp add: quic_complete_sni_def quic_sni_def with_sni_def)
qed

text \<open>While no packet carries a CONNECTION_CLOSE, the state of a QUIC connection is the
  furthest its packets showed, whatever their order; one that does decides the state alone.\<close>

theorem quic_state_is_furthest:
  assumes "\<forall>(now, n) \<in> set ns. connection_close n = None"
  shows "connection_state (merge_all_quic q ns) = Max (set (connection_state q # map (connection_state \<circ> snd) ns))
     \<and> (connection_close n = Some close \<longrightarrow>
          connection_state (merge_all_quic q (ns @ [(now, n)])) = close_state close)"
proof
  have "connection_state (merge_all_quic q ns) = fold max (map (connection_state \<circ> snd) ns) (connection_state q)"
    using assms by (induction q ns rule: merge_all_quic.induct) (simp_all add: merge_quic_state_max max.commute)
  then show "connection_state (merge_all_quic q ns) = Max (set (connection_state q # map (connection_state \<circ> snd) ns))"
    by (simp only: Max.set_eq_fold)
  have "connection_close n = Some close \<Longrightarrow> connection_state (merge_all_quic q (ns @ [(now, n)])) = close_state close"
    by (induction q ns rule: merge_all_quic.induct) (simp_all add: merge_quic_state)
  then show "connection_close n = Some close \<longrightarrow> connection_state (merge_all_quic q (ns @ [(now, n)])) = close_state close"
    by blast
qed

theorem quic_state_is_furthest_witness:
  "connection_state (merge_all_quic (sample_quic [1])
     [(1, (sample_quic [2])\<lparr>connection_state := Connected\<rparr>), (2, sample_quic [3])]) = Connected"
  using quic_state_is_furthest [of "[(1, (sample_quic [2])\<lparr>connection_state := Connected\<rparr>), (2, sample_quic [3])]" "sample_quic [1]"]
  by (simp add: sample_quic_def max_def less_eq_QuicConnectionState_def)

text \<open>So the state can go back: a CONNECTION_CLOSE without an error takes a connection that is
  already closed to \<open>Draining\<close> again.\<close>

theorem close_reopens_draining:
  assumes "connection_state q = QuicConnectionState.Closed" and "connection_close n = Some close"
    and "frame_type close = 0x1c" and "error_code close = 0"
  shows "connection_state (merge_quic_info now q n) = Draining"
  using assms by (simp add: merge_quic_state close_state_def)

end
