(* ===== verification/ConnTrack.thy ===== *)
theory ConnTrack
  imports TcpTrack RateTrack MergeQuic
begin

text \<open>
  One connection over its packets: \<^verbatim>\<open>Connection::new\<close> and the protocol-aware timeouts of
  \<^verbatim>\<open>types.rs\<close>, \<^verbatim>\<open>create_connection_from_packet\<close> and \<^verbatim>\<open>merge_packet_into_connection\<close>
  of \<^verbatim>\<open>merge.rs\<close>. Byte and packet counts are 64-bit words. An operation that reads a clock
  takes the reading as the argument \<open>clk\<close>; where the source reads a clock several times in one
  operation, all readings are the same.
\<close>

section \<open>Creation\<close>

definition Connection_new ::
  "clock \<Rightarrow> Protocol \<Rightarrow> socket_addr \<Rightarrow> socket_addr \<Rightarrow> ProtocolState \<Rightarrow> Connection" where
  "Connection_new clk prot loc rem state =
     \<lparr>protocol = prot, local_addr = loc, remote_addr = rem, protocol_state = state,
      pid = None, process_name = None, connection_direction = None,
      bytes_sent = 0, bytes_received = 0, packets_sent = 0, packets_received = 0,
      created_at = wall clk, last_activity = wall clk, service_name = None, dpi_info = None,
      rate_tracker = RateTracker_new (mono clk),
      tcp_analytics = (if prot = Tcp then Some TcpAnalytics_new else None),
      initial_rtt = None, geoip_info = None, is_historic = False, closed_at = None\<rparr>"

definition initial_direction :: "TcpState \<Rightarrow> TcpFlags \<Rightarrow> bool \<Rightarrow> bool option" where
  "initial_direction tcp_state f outgoing =
     (case tcp_state of
        SynSent \<Rightarrow> Some True
      | SynReceived \<Rightarrow> Some False
      | _ \<Rightarrow> if syn f \<and> ack f then Some (\<not> outgoing) else None)"

definition create_connection_from_packet :: "clock \<Rightarrow> ParsedPacket \<Rightarrow> system_time \<Rightarrow> Connection" where
  "create_connection_from_packet clk parsed now =
     (let conn = Connection_new clk (pkt_protocol parsed) (pkt_local_addr parsed)
                   (pkt_remote_addr parsed) (pkt_protocol_state parsed);
          conn = (case tcp_header parsed of
              Some hdr \<Rightarrow>
                let tcp_state = update_tcp_state TcpState.Unknown (flags hdr) (is_outgoing parsed)
                in conn\<lparr>protocol_state := PS_Tcp tcp_state,
                        connection_direction := initial_direction tcp_state (flags hdr) (is_outgoing parsed)\<rparr>
            | None \<Rightarrow> conn\<lparr>protocol_state := pkt_protocol_state parsed\<rparr>);
          conn = (if is_outgoing parsed
              then conn\<lparr>packets_sent := 1, bytes_sent := of_nat (packet_len parsed),
                        packets_received := 0, bytes_received := 0\<rparr>
              else conn\<lparr>packets_sent := 0, bytes_sent := 0,
                        packets_received := 1, bytes_received := of_nat (packet_len parsed)\<rparr>);
          conn = (case dpi_result parsed of
              Some app \<Rightarrow> conn\<lparr>dpi_info := Some \<lparr>application = app, last_update_time = mono clk\<rparr>\<rparr>
            | None \<Rightarrow> conn);
          conn = (case pkt_process_name parsed of
              Some name \<Rightarrow> conn\<lparr>process_name := Some name\<rparr> | None \<Rightarrow> conn);
          conn = (case pkt_process_id parsed of
              Some p \<Rightarrow> conn\<lparr>pid := Some p\<rparr> | None \<Rightarrow> conn);
          conn = conn\<lparr>created_at := now, last_activity := now\<rparr>
      in conn\<lparr>rate_tracker :=
                initialize_with_counts (bytes_sent conn) (bytes_received conn) (rate_tracker conn)\<rparr>)"

section \<open>Merging a packet\<close>

definition merge_dpi_info :: "instant \<Rightarrow> Connection \<Rightarrow> ApplicationProtocol \<Rightarrow> Connection" where
  "merge_dpi_info inst conn app =
     (case dpi_info conn of
        None \<Rightarrow> conn\<lparr>dpi_info := Some \<lparr>application = app, last_update_time = inst\<rparr>\<rparr>
      | Some d \<Rightarrow> conn\<lparr>dpi_info := Some (d\<lparr>last_update_time := inst,
                  application := merge_application inst (application d) app\<rparr>)\<rparr>)"

definition count_packet :: "ParsedPacket \<Rightarrow> Connection \<Rightarrow> Connection" where
  "count_packet parsed conn =
     (if is_outgoing parsed
      then conn\<lparr>packets_sent := packets_sent conn + 1,
                bytes_sent := bytes_sent conn + of_nat (packet_len parsed)\<rparr>
      else conn\<lparr>packets_received := packets_received conn + 1,
                bytes_received := bytes_received conn + of_nat (packet_len parsed)\<rparr>)"

definition seq_consumed :: "TcpHeaderInfo \<Rightarrow> u32" where
  "seq_consumed hdr = payload_len hdr + (if syn (flags hdr) then 1 else 0) + (if fin (flags hdr) then 1 else 0)"

type_synonym tcp_events = "u64 \<times> u64 \<times> u64"

definition merge_tcp :: "ParsedPacket \<Rightarrow> TcpHeaderInfo \<Rightarrow> Connection \<Rightarrow> Connection \<times> tcp_events" where
  "merge_tcp parsed hdr conn =
     (let current = (case protocol_state conn of PS_Tcp state \<Rightarrow> state | _ \<Rightarrow> TcpState.Unknown);
          conn = conn\<lparr>protocol_state := PS_Tcp (update_tcp_state current (flags hdr) (is_outgoing parsed))\<rparr>
      in case tcp_analytics conn of
           Some a \<Rightarrow>
             let (a, events) = analyze_tcp_segment a (hdr_seq hdr) (hdr_ack hdr) (window hdr)
                   (seq_consumed hdr) (is_outgoing parsed) (ack (flags hdr))
             in (conn\<lparr>tcp_analytics := Some a\<rparr>, events)
         | None \<Rightarrow> (conn, (0, 0, 0)))"

definition merge_protocol_state :: "ParsedPacket \<Rightarrow> Connection \<Rightarrow> Connection \<times> tcp_events" where
  "merge_protocol_state parsed conn =
     (case tcp_header parsed of
        Some hdr \<Rightarrow> merge_tcp parsed hdr conn
      | None \<Rightarrow>
          ((case protocol_state conn of
              PS_Tcp _ \<Rightarrow> conn
            | _ \<Rightarrow> conn\<lparr>protocol_state := pkt_protocol_state parsed\<rparr>), (0, 0, 0)))"

text \<open>Once set, the process of a connection is not changed.\<close>

definition merge_process :: "ParsedPacket \<Rightarrow> Connection \<Rightarrow> Connection" where
  "merge_process parsed conn =
     (let conn = (case pkt_process_name parsed of
            Some new_name \<Rightarrow>
              (case process_name conn of
                 None \<Rightarrow> conn\<lparr>process_name := Some new_name\<rparr>
               | Some existing_name \<Rightarrow> conn)
          | None \<Rightarrow> conn)
      in case pkt_process_id parsed of
           Some new_pid \<Rightarrow>
             (case pid conn of None \<Rightarrow> conn\<lparr>pid := Some new_pid\<rparr> | Some existing_pid \<Rightarrow> conn)
         | None \<Rightarrow> conn)"

definition update_connection_rates :: "instant \<Rightarrow> Connection \<Rightarrow> Connection" where
  "update_connection_rates inst conn =
     conn\<lparr>rate_tracker := rate_update_at inst (bytes_sent conn) (bytes_received conn) (rate_tracker conn)\<rparr>"

definition merge_packet_into_connection ::
  "clock \<Rightarrow> Connection \<Rightarrow> ParsedPacket \<Rightarrow> system_time \<Rightarrow> Connection \<times> tcp_events" where
  "merge_packet_into_connection clk conn parsed now =
     (let conn = conn\<lparr>last_activity := now\<rparr>;
          conn = count_packet parsed conn;
          (conn, events) = merge_protocol_state parsed conn;
          conn = (case dpi_result parsed of Some app \<Rightarrow> merge_dpi_info (mono clk) conn app | None \<Rightarrow> conn);
          conn = merge_process parsed conn
      in (update_connection_rates (mono clk) conn, events))"

text \<open>A packet with the time it is processed at, and a connection over a run of packets.\<close>

type_synonym arrival = "clock \<times> ParsedPacket \<times> system_time"

fun merge_arrival :: "Connection \<Rightarrow> arrival \<Rightarrow> Connection" where
  "merge_arrival conn (clk, parsed, now) = fst (merge_packet_into_connection clk conn parsed now)"

section \<open>Timeouts\<close>

text \<open>\<open>get_timeout\<close> reads the wall clock through \<open>idle_time\<close>.\<close>

definition idle_time :: "clock \<Rightarrow> Connection \<Rightarrow> duration" where
  "idle_time clk conn = since (wall clk) (last_activity conn)"

definition is_active :: "clock \<Rightarrow> Connection \<Rightarrow> bool" where
  "is_active clk conn \<longleftrightarrow> since (wall clk) (last_activity conn) < secs 300"

definition get_tcp_timeout :: "clock \<Rightarrow> Connection \<Rightarrow> TcpState \<Rightarrow> duration" where
  "get_tcp_timeout clk conn tcp_state =
     (case tcp_state of
        TcpState.Established \<Rightarrow>
          let by_idle = (if idle_time clk conn < secs 60 then secs 600 else secs 300) in
          (case dpi_info conn of
             Some d \<Rightarrow>
               (case application d of
                  Ssh _ \<Rightarrow> secs 1800 | Http _ \<Rightarrow> secs 600 | Https _ \<Rightarrow> secs 600 | _ \<Rightarrow> by_idle)
           | None \<Rightarrow> by_idle)
      | TimeWait \<Rightarrow> secs 30
      | TcpState.Closed \<Rightarrow> secs 5
      | FinWait1 \<Rightarrow> secs 60 | FinWait2 \<Rightarrow> secs 60
      | CloseWait \<Rightarrow> secs 60 | LastAck \<Rightarrow> secs 60
      | SynSent \<Rightarrow> secs 60 | SynReceived \<Rightarrow> secs 60
      | Closing \<Rightarrow> secs 30
      | TcpState.Unknown \<Rightarrow> secs 120)"

definition get_quic_timeout :: "QuicInfo \<Rightarrow> duration" where
  "get_quic_timeout quic =
     (case connection_close quic of
        Some close \<Rightarrow>
          if frame_type close = 0x1c then secs 10
          else if frame_type close = 0x1d then secs 1
          else secs 5
      | None \<Rightarrow>
          (case connection_state quic of
             QuicConnectionState.Initial \<Rightarrow> secs 60
           | Handshaking \<Rightarrow> secs 60
           | Connected \<Rightarrow> (case idle_timeout quic of Some t \<Rightarrow> t | None \<Rightarrow> secs 180)
           | Draining \<Rightarrow> secs 10
           | QuicConnectionState.Closed \<Rightarrow> secs 1
           | QuicConnectionState.Unknown \<Rightarrow> secs 120))"

definition udp_application_timeout :: "ApplicationProtocol \<Rightarrow> duration" where
  "udp_application_timeout app =
     (case app of
        Quic quic \<Rightarrow> get_quic_timeout quic
      | Dns _ \<Rightarrow> secs 30 | Http _ \<Rightarrow> secs 600 | Https _ \<Rightarrow> secs 600 | Ssh _ \<Rightarrow> secs 1800
      | Ntp _ \<Rightarrow> secs 30 | Mdns _ \<Rightarrow> secs 30 | Llmnr _ \<Rightarrow> secs 30 | Dhcp _ \<Rightarrow> secs 60
      | Snmp _ \<Rightarrow> secs 60 | Ssdp _ \<Rightarrow> secs 30 | NetBios _ \<Rightarrow> secs 60 | BitTorrent _ \<Rightarrow> secs 60
      | Stun _ \<Rightarrow> secs 30 | Mqtt _ \<Rightarrow> secs 120 | Ftp _ \<Rightarrow> secs 60)"

definition get_timeout :: "clock \<Rightarrow> Connection \<Rightarrow> duration" where
  "get_timeout clk conn =
     (case protocol_state conn of
        PS_Tcp tcp_state \<Rightarrow> get_tcp_timeout clk conn tcp_state
      | PS_Udp \<Rightarrow>
          (case dpi_info conn of
             Some d \<Rightarrow> udp_application_timeout (application d)
           | None \<Rightarrow> secs 60)
      | PS_Icmp _ _ \<Rightarrow> secs 10
      | PS_Igmp _ _ \<Rightarrow> secs 10
      | PS_Arp _ \<Rightarrow> secs 30)"

definition should_cleanup :: "clock \<Rightarrow> Connection \<Rightarrow> system_time \<Rightarrow> bool" where
  "should_cleanup clk conn now \<longleftrightarrow> since now (last_activity conn) > get_timeout clk conn"

section \<open>Frames\<close>

named_theorems conn_frame "fields of a connection that an operation leaves alone"

lemma merge_dpi_info_frame [conn_frame]:
  "protocol_state (merge_dpi_info i c app) = protocol_state c"
  "bytes_sent (merge_dpi_info i c app) = bytes_sent c"
  "bytes_received (merge_dpi_info i c app) = bytes_received c"
  "packets_sent (merge_dpi_info i c app) = packets_sent c"
  "packets_received (merge_dpi_info i c app) = packets_received c"
  "tcp_analytics (merge_dpi_info i c app) = tcp_analytics c"
  "process_name (merge_dpi_info i c app) = process_name c"
  "pid (merge_dpi_info i c app) = pid c"
  "rate_tracker (merge_dpi_info i c app) = rate_tracker c"
  "last_activity (merge_dpi_info i c app) = last_activity c"
  "created_at (merge_dpi_info i c app) = created_at c"
  "is_historic (merge_dpi_info i c app) = is_historic c"
  by (simp_all add: merge_dpi_info_def split: option.split)

lemma count_packet_frame [conn_frame]:
  "protocol_state (count_packet p c) = protocol_state c"
  "tcp_analytics (count_packet p c) = tcp_analytics c"
  "process_name (count_packet p c) = process_name c"
  "pid (count_packet p c) = pid c"
  "dpi_info (count_packet p c) = dpi_info c"
  "rate_tracker (count_packet p c) = rate_tracker c"
  "last_activity (count_packet p c) = last_activity c"
  "created_at (count_packet p c) = created_at c"
  "is_historic (count_packet p c) = is_historic c"
  by (simp_all add: count_packet_def)

lemma merge_protocol_state_frame [conn_frame]:
  "bytes_sent (fst (merge_protocol_state p c)) = bytes_sent c"
  "bytes_received (fst (merge_protocol_state p c)) = bytes_received c"
  "packets_sent (fst (merge_protocol_state p c)) = packets_sent c"
  "packets_received (fst (merge_protocol_state p c)) = packets_received c"
  "process_name (fst (merge_protocol_state p c)) = process_name c"
  "pid (fst (merge_protocol_state p c)) = pid c"
  "dpi_info (fst (merge_protocol_state p c)) = dpi_info c"
  "rate_tracker (fst (merge_protocol_state p c)) = rate_tracker c"
  "last_activity (fst (merge_protocol_state p c)) = last_activity c"
  "created_at (fst (merge_protocol_state p c)) = created_at c"
  "is_historic (fst (merge_protocol_state p c)) = is_historic c"
  by (simp_all add: merge_protocol_state_def merge_tcp_def Let_def
      split: option.split ProtocolState.split prod.split)

lemma merge_process_frame [conn_frame]:
  "protocol_state (merge_process p c) = protocol_state c"
  "bytes_sent (merge_process p c) = bytes_sent c"
  "bytes_received (merge_process p c) = bytes_received c"
  "packets_sent (merge_process p c) = packets_sent c"
  "packets_received (merge_process p c) = packets_received c"
  "tcp_analytics (merge_process p c) = tcp_analytics c"
  "dpi_info (merge_process p c) = dpi_info c"
  "rate_tracker (merge_process p c) = rate_tracker c"
  "last_activity (merge_process p c) = last_activity c"
  "created_at (merge_process p c) = created_at c"
  "is_historic (merge_process p c) = is_historic c"
  by (simp_all add: merge_process_def Let_def split: option.split)

lemma update_connection_rates_frame [conn_frame]:
  "protocol_state (update_connection_rates i c) = protocol_state c"
  "bytes_sent (update_connection_rates i c) = bytes_sent c"
  "bytes_received (update_connection_rates i c) = bytes_received c"
  "packets_sent (update_connection_rates i c) = packets_sent c"
  "packets_received (update_connection_rates i c) = packets_received c"
  "tcp_analytics (update_connection_rates i c) = tcp_analytics c"
  "process_name (update_connection_rates i c) = process_name c"
  "pid (update_connection_rates i c) = pid c"
  "dpi_info (update_connection_rates i c) = dpi_info c"
  "last_activity (update_connection_rates i c) = last_activity c"
  "created_at (update_connection_rates i c) = created_at c"
  "is_historic (update_connection_rates i c) = is_historic c"
  by (simp_all add: update_connection_rates_def)

text \<open>The blocks of a merge, chained.\<close>

lemma merge_packet_eq:
  "merge_packet_into_connection clk conn parsed now =
     (update_connection_rates (mono clk) (merge_process parsed
        (case dpi_result parsed of
           Some app \<Rightarrow> merge_dpi_info (mono clk)
             (fst (merge_protocol_state parsed (count_packet parsed (conn\<lparr>last_activity := now\<rparr>)))) app
         | None \<Rightarrow> fst (merge_protocol_state parsed (count_packet parsed (conn\<lparr>last_activity := now\<rparr>))))),
      snd (merge_protocol_state parsed (count_packet parsed (conn\<lparr>last_activity := now\<rparr>))))"
  by (cases "merge_protocol_state parsed (count_packet parsed (conn\<lparr>last_activity := now\<rparr>))")
     (simp add: merge_packet_into_connection_def Let_def split: option.split)

lemma merge_process_name:
  "process_name (merge_process p c) = (case process_name c of None \<Rightarrow> pkt_process_name p | Some n \<Rightarrow> Some n)"
  "pid (merge_process p c) = (case pid c of None \<Rightarrow> pkt_process_id p | Some n \<Rightarrow> Some n)"
  by (simp_all add: merge_process_def Let_def split: option.split)

lemma merge_arrival_fields [simp]:
  "created_at (merge_arrival c (clk, p, now)) = created_at c"
  "last_activity (merge_arrival c (clk, p, now)) = now"
  "is_historic (merge_arrival c (clk, p, now)) = is_historic c"
  "process_name (merge_arrival c (clk, p, now)) =
     (case process_name c of None \<Rightarrow> pkt_process_name p | Some n \<Rightarrow> Some n)"
  "pid (merge_arrival c (clk, p, now)) = (case pid c of None \<Rightarrow> pkt_process_id p | Some n \<Rightarrow> Some n)"
  "rate_tracker (merge_arrival c (clk, p, now)) =
     rate_update_at (mono clk) (bytes_sent (count_packet p c)) (bytes_received (count_packet p c)) (rate_tracker c)"
  by (simp_all add: merge_packet_eq conn_frame merge_process_name update_connection_rates_def count_packet_def
      split: option.split)

lemma merge_arrival_counts [simp]:
  "bytes_sent (merge_arrival c (clk, p, now)) = bytes_sent (count_packet p c)"
  "bytes_received (merge_arrival c (clk, p, now)) = bytes_received (count_packet p c)"
  "packets_sent (merge_arrival c (clk, p, now)) = packets_sent (count_packet p c)"
  "packets_received (merge_arrival c (clk, p, now)) = packets_received (count_packet p c)"
  by (simp_all add: merge_packet_eq conn_frame count_packet_def split: option.split)

lemma merge_arrival_state:
  "protocol_state (merge_arrival c (clk, p, now)) = protocol_state (fst (merge_protocol_state p c))"
proof -
  have "protocol_state (fst (merge_protocol_state p (count_packet p (c\<lparr>last_activity := now\<rparr>)))) =
      protocol_state (fst (merge_protocol_state p c))"
    by (simp add: merge_protocol_state_def merge_tcp_def Let_def conn_frame
        split: option.split ProtocolState.split prod.split)
  then show ?thesis by (simp add: merge_packet_eq conn_frame split: option.split)
qed

declare merge_arrival.simps [simp del]

section \<open>Process attribution is kept\<close>

interpretation conn_process: first_wins process_name "\<lambda>(clk, p, now). pkt_process_name p" merge_arrival
  by unfold_locales (auto split: prod.split)

interpretation conn_pid: first_wins pid "\<lambda>(clk, p, now). pkt_process_id p" merge_arrival
  by unfold_locales (auto split: prod.split)

section \<open>Traffic counters\<close>

definition arrived :: "arrival \<Rightarrow> ParsedPacket" where
  "arrived a = fst (snd a)"

definition sent_bytes :: "arrival list \<Rightarrow> nat" where
  "sent_bytes as = sum_list (map (packet_len \<circ> arrived) (filter (is_outgoing \<circ> arrived) as))"

definition received_bytes :: "arrival list \<Rightarrow> nat" where
  "received_bytes as = sum_list (map (packet_len \<circ> arrived) (filter (Not \<circ> is_outgoing \<circ> arrived) as))"

lemma traffic_counts:
  "bytes_sent (foldl merge_arrival c as) = bytes_sent c + of_nat (sent_bytes as)
   \<and> bytes_received (foldl merge_arrival c as) = bytes_received c + of_nat (received_bytes as)
   \<and> packets_sent (foldl merge_arrival c as) + packets_received (foldl merge_arrival c as)
       = packets_sent c + packets_received c + of_nat (length as)"
proof (induction as arbitrary: c)
  case (Cons a as)
  obtain clk p now where a: "a = (clk, p, now)" by (cases a)
  show ?case using Cons.IH [of "merge_arrival c a"]
    by (simp add: a sent_bytes_def received_bytes_def arrived_def count_packet_def add_ac)
qed (simp add: sent_bytes_def received_bytes_def)

section \<open>The TCP state of a connection is the observed one\<close>

definition segment_of :: "ParsedPacket \<Rightarrow> segment option" where
  "segment_of p = map_option (\<lambda>hdr. (flags hdr, is_outgoing p)) (tcp_header p)"

definition segments_of :: "arrival list \<Rightarrow> segment list" where
  "segments_of as = List.map_filter (segment_of \<circ> arrived) as"

lemma merge_arrival_tcp:
  assumes "protocol_state c = PS_Tcp st"
  shows "protocol_state (merge_arrival c (clk, p, now)) =
           PS_Tcp (case segment_of p of Some s \<Rightarrow> observe st s | None \<Rightarrow> st)"
  using assms
  by (simp add: merge_arrival_state merge_protocol_state_def merge_tcp_def Let_def segment_of_def observe_def
      split: option.split prod.split)

lemma tcp_history:
  "protocol_state c = PS_Tcp st \<Longrightarrow>
   protocol_state (foldl merge_arrival c as) = PS_Tcp (observe_all st (segments_of as))"
proof (induction as arbitrary: c st)
  case (Cons a as)
  obtain clk p now where a: "a = (clk, p, now)" by (cases a)
  note now = merge_arrival_tcp [OF Cons.prems, of clk p now]
  show ?case using Cons.IH [OF now]
    by (cases "segment_of p") (simp_all add: a segments_of_def arrived_def List.map_filter_simps)
qed (simp add: segments_of_def List.map_filter_simps)

lemma create_state:
  "protocol_state (create_connection_from_packet clk p now) =
     (case segment_of p of Some s \<Rightarrow> PS_Tcp (observe TcpState.Unknown s) | None \<Rightarrow> pkt_protocol_state p)"
  by (simp add: create_connection_from_packet_def Let_def Connection_new_def segment_of_def observe_def
      split: option.split)

lemma create_fields [simp]:
  "created_at (create_connection_from_packet clk p now) = now"
  "last_activity (create_connection_from_packet clk p now) = now"
  "is_historic (create_connection_from_packet clk p now) = False"
  "closed_at (create_connection_from_packet clk p now) = None"
  "process_name (create_connection_from_packet clk p now) = pkt_process_name p"
  "pid (create_connection_from_packet clk p now) = pkt_process_id p"
  "bytes_sent (create_connection_from_packet clk p now) = (if is_outgoing p then of_nat (packet_len p) else 0)"
  "bytes_received (create_connection_from_packet clk p now) = (if is_outgoing p then 0 else of_nat (packet_len p))"
  "packets_sent (create_connection_from_packet clk p now) = (if is_outgoing p then 1 else 0)"
  "packets_received (create_connection_from_packet clk p now) = (if is_outgoing p then 0 else 1)"
  by (simp_all add: create_connection_from_packet_def Let_def Connection_new_def split: option.split)

text \<open>So a connection's counters are those of all its packets, the first included.\<close>

lemma connection_traffic:
  "bytes_sent (foldl merge_arrival (create_connection_from_packet clk p now) as)
     = of_nat (sent_bytes ((clk, p, now) # as))
   \<and> bytes_received (foldl merge_arrival (create_connection_from_packet clk p now) as)
     = of_nat (received_bytes ((clk, p, now) # as))
   \<and> packets_sent (foldl merge_arrival (create_connection_from_packet clk p now) as)
       + packets_received (foldl merge_arrival (create_connection_from_packet clk p now) as)
     = of_nat (length as + 1)"
  using traffic_counts [of "create_connection_from_packet clk p now" as]
  by (simp add: sent_bytes_def received_bytes_def arrived_def add_ac)

section \<open>The events of a packet\<close>

lemma merge_events:
  assumes "merge_packet_into_connection clk c p now = (c', r, oo, f)"
    and "tcp_analytics c = Some a" and "tcp_analytics c' = Some a'"
  shows "retransmit_count a' = retransmit_count a + r"
    and "out_of_order_count a' = out_of_order_count a + oo"
    and "fast_retransmit_count a' = fast_retransmit_count a + f"
    and "r \<le> 1" and "oo \<le> 1" and "f \<le> 1"
proof -
  let ?c = "count_packet p (c\<lparr>last_activity := now\<rparr>)"
  have ev: "(r, oo, f) = snd (merge_protocol_state p ?c)"
    and an: "tcp_analytics (fst (merge_protocol_state p ?c)) = Some a'"
    using assms(1,3) by (auto simp: merge_packet_eq conn_frame split: option.splits)
  have pre: "tcp_analytics ?c = Some a" using assms(2) by (simp add: conn_frame)
  consider (no_tcp) "tcp_header p = None" "a' = a" "(r, oo, f) = (0, 0, 0)"
    | (tcp) hdr where "tcp_header p = Some hdr"
        "analyze_tcp_segment a (hdr_seq hdr) (hdr_ack hdr) (window hdr) (seq_consumed hdr) (is_outgoing p)
           (ack (flags hdr)) = (a', r, oo, f)"
    using ev an pre
    by (cases "tcp_header p")
       (auto simp: merge_protocol_state_def merge_tcp_def Let_def split: ProtocolState.splits prod.splits)
  then show "retransmit_count a' = retransmit_count a + r"
    and "out_of_order_count a' = out_of_order_count a + oo"
    and "fast_retransmit_count a' = fast_retransmit_count a + f"
    and "r \<le> 1" and "oo \<le> 1" and "f \<le> 1"
    by (cases; (use analyze_counters in \<open>force\<close>))+
qed

section \<open>Timeout bounds\<close>

lemma get_tcp_timeout_bounds: "secs 5 \<le> get_tcp_timeout clk c st \<and> get_tcp_timeout clk c st \<le> secs 1800"
  by (cases st) (auto simp: get_tcp_timeout_def Let_def split: option.split ApplicationProtocol.split)

definition advertised_idle :: "Connection \<Rightarrow> duration option" where
  "advertised_idle c =
     (case (protocol_state c, dpi_info c) of
        (PS_Udp, Some d) \<Rightarrow> (case application d of Quic q \<Rightarrow> idle_timeout q | _ \<Rightarrow> None)
      | _ \<Rightarrow> None)"

lemma get_quic_timeout_bounds:
  "idle_timeout q = None \<Longrightarrow> secs 1 \<le> get_quic_timeout q \<and> get_quic_timeout q \<le> secs 180"
  by (auto simp: get_quic_timeout_def split: option.split QuicConnectionState.split)

lemma get_timeout_bounds:
  assumes "advertised_idle c = None"
  shows "secs 1 \<le> get_timeout clk c \<and> get_timeout clk c \<le> secs 1800"
proof (cases "protocol_state c")
  case (PS_Tcp st)
  have "secs 1 \<le> secs 5" by simp
  then have "secs 1 \<le> get_tcp_timeout clk c st \<and> get_tcp_timeout clk c st \<le> secs 1800"
    using get_tcp_timeout_bounds [of clk c st] order.trans by blast
  then show ?thesis using PS_Tcp by (simp add: get_timeout_def)
next
  case PS_Udp
  show ?thesis
  proof (cases "dpi_info c")
    case None
    then show ?thesis using PS_Udp by (simp add: get_timeout_def)
  next
    case (Some d)
    have "secs 1 \<le> udp_application_timeout (application d) \<and> udp_application_timeout (application d) \<le> secs 1800"
    proof (cases "application d")
      case (Quic q)
      then have "idle_timeout q = None" using assms PS_Udp Some by (simp add: advertised_idle_def)
      then have "secs 1 \<le> get_quic_timeout q \<and> get_quic_timeout q \<le> secs 180" by (rule get_quic_timeout_bounds)
      moreover have "secs 180 \<le> secs 1800" by simp
      ultimately show ?thesis using Quic by (auto simp: udp_application_timeout_def intro: order.trans)
    qed (simp_all add: udp_application_timeout_def)
    then show ?thesis using PS_Udp Some by (simp add: get_timeout_def)
  qed
qed (simp_all add: get_timeout_def)

lemma active_not_cleaned:
  assumes "now \<le> last_activity c"
  shows "\<not> should_cleanup clk c now"
  using assms by (simp add: should_cleanup_def since_def)

section \<open>Properties\<close>

text \<open>Packets for the witnesses: 10.0.0.1:40000 and 10.0.0.2:443.\<close>

definition sample_flags :: "bool \<Rightarrow> bool \<Rightarrow> TcpFlags" where
  "sample_flags s a = \<lparr>fin = False, syn = s, rst = False, psh = False, ack = a, urg = False\<rparr>"

definition sample_packet :: "bool \<Rightarrow> bool \<Rightarrow> bool \<Rightarrow> nat \<Rightarrow> bytes option \<Rightarrow> ParsedPacket" where
  "sample_packet s a out n name = \<lparr>connection_key = ascii ''k'', pkt_protocol = Tcp,
     pkt_local_addr = \<lparr>ip = V4 (Ipv4Addr 10 0 0 1), port = 40000\<rparr>,
     pkt_remote_addr = \<lparr>ip = V4 (Ipv4Addr 10 0 0 2), port = 443\<rparr>,
     tcp_header = Some \<lparr>hdr_seq = 1, hdr_ack = 7, window = 512, flags = sample_flags s a, payload_len = 0\<rparr>,
     pkt_protocol_state = PS_Tcp TcpState.Unknown, is_outgoing = out, packet_len = n, dpi_result = None,
     pkt_process_name = name, pkt_process_id = None\<rparr>"

definition sample_clock :: clock where "sample_clock = \<lparr>wall = 1000, mono = 50\<rparr>"

text \<open>The process of a connection is the first one any of its packets names, and its pid
  likewise: once attributed, a connection is never attributed again.\<close>

theorem process_attribution_kept:
  "process_name (foldl merge_arrival c as) = first_some (process_name c # map (pkt_process_name \<circ> arrived) as)
   \<and> pid (foldl merge_arrival c as) = first_some (pid c # map (pkt_process_id \<circ> arrived) as)"
  by (simp add: conn_process.foldl_first conn_pid.foldl_first arrived_def case_prod_beta' comp_def)

text \<open>The counters of a connection are those of all its packets, the first included: the
  bytes sent and received by direction and the number of packets, modulo $2^{64}$.\<close>

theorem traffic_is_counted:
  "bytes_sent (foldl merge_arrival (create_connection_from_packet clk p now) as)
     = of_nat (sent_bytes ((clk, p, now) # as))
   \<and> bytes_received (foldl merge_arrival (create_connection_from_packet clk p now) as)
     = of_nat (received_bytes ((clk, p, now) # as))
   \<and> packets_sent (foldl merge_arrival (create_connection_from_packet clk p now) as)
       + packets_received (foldl merge_arrival (create_connection_from_packet clk p now) as)
     = of_nat (length as + 1)"
  by (rule connection_traffic)

text \<open>C23. The TCP state of a connection is the state machine run over its segments from the
  first, whatever packets without a TCP header come between.\<close>

theorem tcp_state_is_history:
  assumes "tcp_header p \<noteq> None"
  shows "protocol_state (foldl merge_arrival (create_connection_from_packet clk p now) as)
           = PS_Tcp (observe_all TcpState.Unknown (segments_of ((clk, p, now) # as)))"
proof -
  obtain hdr where h: "tcp_header p = Some hdr" using assms by blast
  then have "protocol_state (create_connection_from_packet clk p now)
      = PS_Tcp (observe TcpState.Unknown (flags hdr, is_outgoing p))"
    by (simp add: create_state segment_of_def)
  from tcp_history [OF this, of as] show ?thesis
    by (simp add: segments_of_def List.map_filter_simps segment_of_def arrived_def h)
qed

theorem tcp_state_is_history_witness:
  "protocol_state (foldl merge_arrival (create_connection_from_packet sample_clock (sample_packet True False True 60 None) 1)
     [(sample_clock, sample_packet True True False 60 None, 2)]) = PS_Tcp TcpState.Established"
  using tcp_state_is_history [of "sample_packet True False True 60 None" sample_clock 1
      "[(sample_clock, sample_packet True True False 60 None, 2)]"]
  by (simp add: sample_packet_def sample_flags_def segments_of_def List.map_filter_simps segment_of_def arrived_def
      observe_def update_tcp_state_def)

text \<open>C37. Every connection is removed by the first cleanup after 30 minutes without a packet and
  by none within a second of one, except a QUIC connection whose peer advertised an idle timeout.\<close>

theorem idle_timeout_bounds:
  assumes "advertised_idle c = None"
  shows "(since now (last_activity c) > secs 1800 \<longrightarrow> should_cleanup clk c now)
    \<and> (since now (last_activity c) \<le> secs 1 \<longrightarrow> \<not> should_cleanup clk c now)"
  using get_timeout_bounds [OF assms, of clk] by (auto simp: should_cleanup_def)

theorem idle_timeout_bounds_witness:
  "should_cleanup sample_clock (create_connection_from_packet sample_clock (sample_packet True False True 60 None) 0)
     (int (secs 1801))"
proof -
  let ?c = "create_connection_from_packet sample_clock (sample_packet True False True 60 None) 0"
  have "advertised_idle ?c = None"
    by (simp add: advertised_idle_def create_state segment_of_def sample_packet_def)
  then show ?thesis
    using idle_timeout_bounds [of ?c "int (secs 1801)" sample_clock] by (simp add: since_def secs_def)
qed

text \<open>The events a merge reports are what the counters of the connection grow by: at most one
  of each kind per packet.\<close>

theorem events_are_counter_growth:
  assumes "merge_packet_into_connection clk c p now = (c', r, oo, f)"
    and "tcp_analytics c = Some a" and "tcp_analytics c' = Some a'"
  shows "retransmit_count a' = retransmit_count a + r \<and> out_of_order_count a' = out_of_order_count a + oo
    \<and> fast_retransmit_count a' = fast_retransmit_count a + f \<and> r \<le> 1 \<and> oo \<le> 1 \<and> f \<le> 1"
  using merge_events [OF assms] by blast

end
