(* ===== verification/Display.thy ===== *)
theory Display
  imports ConnTrack RustText
begin

text \<open>
  How the program shows what it knows, as far as its filter looks at it: the \<open>Display\<close>
  implementations of \<^verbatim>\<open>types.rs\<close>, the state of a connection (\<open>Connection::state\<close>), the sort key of
  an application and the distribution of connections over applications.
\<close>

section \<open>Protocols and applications\<close>

text \<open>\<open>format!("{} ({})", kind, text)\<close>, and without the parenthesis where there is no text.\<close>

definition with_detail :: "bytes \<Rightarrow> bytes option \<Rightarrow> bytes" where
  "with_detail kind detail =
     (case detail of Some d \<Rightarrow> kind @ ascii '' ('' @ d @ ascii '')'' | None \<Rightarrow> kind)"

definition show_protocol :: "Protocol \<Rightarrow> bytes" where
  "show_protocol p = (case p of Tcp \<Rightarrow> ascii ''TCP'' | Udp \<Rightarrow> ascii ''UDP'' | Icmp \<Rightarrow> ascii ''ICMP''
     | Igmp \<Rightarrow> ascii ''IGMP'' | Arp \<Rightarrow> ascii ''ARP'')"

definition show_tcp_state :: "TcpState \<Rightarrow> bytes" where
  "show_tcp_state s =
     (case s of
        SynSent \<Rightarrow> ascii ''SYN_SENT'' | SynReceived \<Rightarrow> ascii ''SYN_RECV''
      | TcpState.Established \<Rightarrow> ascii ''ESTABLISHED'' | FinWait1 \<Rightarrow> ascii ''FIN_WAIT1''
      | FinWait2 \<Rightarrow> ascii ''FIN_WAIT2'' | CloseWait \<Rightarrow> ascii ''CLOSE_WAIT'' | LastAck \<Rightarrow> ascii ''LAST_ACK''
      | TimeWait \<Rightarrow> ascii ''TIME_WAIT'' | Closing \<Rightarrow> ascii ''CLOSING'' | TcpState.Closed \<Rightarrow> ascii ''CLOSED''
      | TcpState.Unknown \<Rightarrow> ascii ''TCP_UNKNOWN'')"

definition show_ntp_mode :: "NtpMode \<Rightarrow> bytes" where
  "show_ntp_mode m =
     (case m of
        Reserved \<Rightarrow> ascii ''Reserved'' | SymmetricActive \<Rightarrow> ascii ''SymActive''
      | SymmetricPassive \<Rightarrow> ascii ''SymPassive'' | Client \<Rightarrow> ascii ''Client'' | Server \<Rightarrow> ascii ''Server''
      | Broadcast \<Rightarrow> ascii ''Broadcast'' | Control \<Rightarrow> ascii ''Control'' | Private \<Rightarrow> ascii ''Private'')"

definition show_dhcp_type :: "DhcpMessageType \<Rightarrow> bytes" where
  "show_dhcp_type t =
     (case t of
        Discover \<Rightarrow> ascii ''DISCOVER'' | Offer \<Rightarrow> ascii ''OFFER'' | DhcpMessageType.Request \<Rightarrow> ascii ''REQUEST''
      | Decline \<Rightarrow> ascii ''DECLINE'' | Ack \<Rightarrow> ascii ''ACK'' | Nak \<Rightarrow> ascii ''NAK''
      | DhcpMessageType.Release \<Rightarrow> ascii ''RELEASE'' | Inform \<Rightarrow> ascii ''INFORM''
      | DhcpMessageType.Unknown v \<Rightarrow> ascii ''UNKNOWN('' @ decimal (unat v) @ ascii '')'')"

definition show_snmp_version :: "SnmpVersion \<Rightarrow> bytes" where
  "show_snmp_version v = (case v of Snmp_V1 \<Rightarrow> ascii ''v1'' | Snmp_V2c \<Rightarrow> ascii ''v2c'' | Snmp_V3 \<Rightarrow> ascii ''v3'')"

definition show_snmp_pdu :: "SnmpPduType \<Rightarrow> bytes" where
  "show_snmp_pdu t =
     (case t of
        GetRequest \<Rightarrow> ascii ''GET'' | GetNextRequest \<Rightarrow> ascii ''GETNEXT'' | GetResponse \<Rightarrow> ascii ''RESPONSE''
      | SetRequest \<Rightarrow> ascii ''SET'' | Trap \<Rightarrow> ascii ''TRAP'' | GetBulkRequest \<Rightarrow> ascii ''GETBULK''
      | InformRequest \<Rightarrow> ascii ''INFORM'' | TrapV2 \<Rightarrow> ascii ''TRAPv2'' | Report \<Rightarrow> ascii ''REPORT'')"

definition show_ssdp_method :: "SsdpMethod \<Rightarrow> bytes" where
  "show_ssdp_method m = (case m of MSearch \<Rightarrow> ascii ''M-SEARCH'' | Notify \<Rightarrow> ascii ''NOTIFY''
     | SsdpMethod.Response \<Rightarrow> ascii ''RESPONSE'')"

definition show_netbios_service :: "NetBiosService \<Rightarrow> bytes" where
  "show_netbios_service s = (case s of NameService \<Rightarrow> ascii ''NS'' | DatagramService \<Rightarrow> ascii ''DGM'')"

definition show_stun_class :: "StunMessageClass \<Rightarrow> bytes" where
  "show_stun_class c = (case c of StunMessageClass.Request \<Rightarrow> ascii ''Request'' | Indication \<Rightarrow> ascii ''Indication''
     | SuccessResponse \<Rightarrow> ascii ''Success'' | ErrorResponse \<Rightarrow> ascii ''Error'')"

text \<open>\<open>{:04x}\<close> of a 16-bit value: its two bytes in hexadecimal.\<close>

definition show_stun_method :: "StunMethod \<Rightarrow> bytes" where
  "show_stun_method m = (case m of Binding \<Rightarrow> ascii ''Binding''
     | StunMethod.Unknown v \<Rightarrow> ascii ''Unknown(0x'' @ concat (map hex2 (be16 v)) @ ascii '')'')"

definition show_mqtt_type :: "MqttPacketType \<Rightarrow> bytes" where
  "show_mqtt_type t =
     (case t of
        Connect \<Rightarrow> ascii ''CONNECT'' | Connack \<Rightarrow> ascii ''CONNACK'' | Publish \<Rightarrow> ascii ''PUBLISH''
      | Puback \<Rightarrow> ascii ''PUBACK'' | Subscribe \<Rightarrow> ascii ''SUBSCRIBE'' | Suback \<Rightarrow> ascii ''SUBACK''
      | Unsubscribe \<Rightarrow> ascii ''UNSUBSCRIBE'' | Unsuback \<Rightarrow> ascii ''UNSUBACK'' | Pingreq \<Rightarrow> ascii ''PINGREQ''
      | Pingresp \<Rightarrow> ascii ''PINGRESP'' | Disconnect \<Rightarrow> ascii ''DISCONNECT'')"

definition show_application :: "ApplicationProtocol \<Rightarrow> bytes" where
  "show_application a =
     (case a of
        Http i \<Rightarrow> with_detail (ascii ''HTTP'') (http_host i)
      | Https i \<Rightarrow> with_detail (ascii ''HTTPS'') (Option.bind (https_tls_info i) tls_sni)
      | Dns i \<Rightarrow> with_detail (ascii ''DNS'') (dns_query_name i)
      | Ssh i \<Rightarrow> with_detail (ascii ''SSH'')
          (map_option (\<lambda>software. hd (split_on 95 software))
            (case server_software i of Some s \<Rightarrow> Some s | None \<Rightarrow> client_software i))
      | Quic i \<Rightarrow> with_detail (ascii ''QUIC'') (Option.bind (quic_tls_info i) tls_sni)
      | Ntp i \<Rightarrow> ascii ''NTP (v'' @ decimal (unat (ntp_version i)) @ ascii '' '' @ show_ntp_mode (ntp_mode i) @ ascii '')''
      | Mdns i \<Rightarrow> with_detail (ascii ''mDNS'') (mdns_query_name i)
      | Llmnr i \<Rightarrow> with_detail (ascii ''LLMNR'') (llmnr_query_name i)
      | Dhcp i \<Rightarrow> with_detail (ascii ''DHCP '' @ show_dhcp_type (dhcp_message_type i)) (dhcp_hostname i)
      | Snmp i \<Rightarrow> with_detail (ascii ''SNMP '' @ show_snmp_version (snmp_version i) @ ascii '' ''
          @ show_snmp_pdu (snmp_pdu_type i)) (snmp_community i)
      | Ssdp i \<Rightarrow> with_detail (ascii ''SSDP '' @ show_ssdp_method (ssdp_method i)) (ssdp_service_type i)
      | NetBios i \<Rightarrow> with_detail (ascii ''NetBIOS '' @ show_netbios_service (netbios_service i)) (netbios_name i)
      | BitTorrent i \<Rightarrow>
          (case bt_type i of
             Peer \<Rightarrow> with_detail (ascii ''BitTorrent'') (bt_client i)
           | Dht \<Rightarrow> with_detail (ascii ''BT DHT'') (dht_method i)
           | Utp \<Rightarrow> ascii ''BT uTP'')
      | Stun i \<Rightarrow> with_detail (ascii ''STUN '' @ show_stun_method (stun_method i) @ ascii '' ''
          @ show_stun_class (stun_message_class i)) (stun_software i)
      | Mqtt i \<Rightarrow> with_detail (ascii ''MQTT '' @ show_mqtt_type (mqtt_packet_type i))
          (case mqtt_topic i of Some t \<Rightarrow> Some t | None \<Rightarrow> mqtt_client_id i)
      | Ftp i \<Rightarrow>
          (case ftp_message_type i of
             FtpMessageType.Request \<Rightarrow>
               (case ftp_command i of
                  None \<Rightarrow> ascii ''FTP''
                | Some cmd \<Rightarrow> ascii ''FTP '' @ cmd @ (case ftp_args i of Some args \<Rightarrow> ascii '' '' @ args | None \<Rightarrow> []))
           | FtpMessageType.Response \<Rightarrow>
               (case ftp_response_code i of
                  None \<Rightarrow> ascii ''FTP''
                | Some code \<Rightarrow> with_detail (ascii ''FTP '' @ decimal (unat code)) (ftp_server_software i))))"

section \<open>The state of a connection\<close>

definition show_quic_state :: "QuicInfo \<Rightarrow> bytes" where
  "show_quic_state quic =
     (case connection_state quic of
        QuicConnectionState.Initial \<Rightarrow> ascii ''QUIC_INITIAL''
      | Handshaking \<Rightarrow> ascii ''QUIC_HANDSHAKE''
      | Connected \<Rightarrow> ascii ''QUIC_CONNECTED''
      | Draining \<Rightarrow> ascii ''QUIC_DRAINING''
      | QuicConnectionState.Closed \<Rightarrow> ascii ''QUIC_CLOSED''
      | QuicConnectionState.Unknown \<Rightarrow>
          (case packet_type quic of
             ZeroRtt \<Rightarrow> ascii ''QUIC_0RTT''
           | Retry \<Rightarrow> ascii ''QUIC_RETRY''
           | VersionNegotiation \<Rightarrow> ascii ''QUIC_VERSION_NEG''
           | _ \<Rightarrow> ascii ''QUIC_UNKNOWN''))"

definition show_udp_state :: "clock \<Rightarrow> Connection \<Rightarrow> bytes" where
  "show_udp_state clk conn =
     (case dpi_info conn of
        Some d \<Rightarrow>
          (case application d of
             Quic quic \<Rightarrow> show_quic_state quic
           | Dns i \<Rightarrow> if dns_is_response i then ascii ''DNS_RESPONSE'' else ascii ''DNS_QUERY''
           | Http _ \<Rightarrow> ascii ''HTTP_UDP''
           | Https _ \<Rightarrow> ascii ''HTTPS_UDP''
           | Ssh _ \<Rightarrow> ascii ''SSH_UDP''
           | Ntp _ \<Rightarrow> ascii ''NTP''
           | Mdns i \<Rightarrow> if mdns_is_response i then ascii ''MDNS_RESPONSE'' else ascii ''MDNS_QUERY''
           | Llmnr i \<Rightarrow> if llmnr_is_response i then ascii ''LLMNR_RESPONSE'' else ascii ''LLMNR_QUERY''
           | Dhcp i \<Rightarrow> ascii ''DHCP_'' @ show_dhcp_type (dhcp_message_type i)
           | Snmp i \<Rightarrow> ascii ''SNMP_'' @ show_snmp_pdu (snmp_pdu_type i)
           | Ssdp i \<Rightarrow> ascii ''SSDP_'' @ show_ssdp_method (ssdp_method i)
           | NetBios i \<Rightarrow> ascii ''NETBIOS_'' @ show_netbios_service (netbios_service i)
           | BitTorrent _ \<Rightarrow> ascii ''BT_UDP''
           | Stun i \<Rightarrow> ascii ''STUN_'' @ show_stun_class (stun_message_class i)
           | Mqtt _ \<Rightarrow> ascii ''MQTT_UDP''
           | Ftp _ \<Rightarrow> ascii ''FTP_UDP'')
      | None \<Rightarrow>
          (if idle_time clk conn > secs 60 then ascii ''UDP_STALE''
           else if idle_time clk conn > secs 30 then ascii ''UDP_IDLE'' else ascii ''UDP_ACTIVE''))"

definition show_icmp_state :: "u8 \<Rightarrow> u16 option \<Rightarrow> bytes" where
  "show_icmp_state t icmp =
     (if t = 8 then (case icmp of Some i \<Rightarrow> ascii ''ECHO_REQ('' @ decimal (unat i) @ ascii '')'' | None \<Rightarrow> ascii ''ECHO_REQUEST'')
      else if t = 0 then (case icmp of Some i \<Rightarrow> ascii ''ECHO_REP('' @ decimal (unat i) @ ascii '')'' | None \<Rightarrow> ascii ''ECHO_REPLY'')
      else if t = 3 then ascii ''DEST_UNREACH'' else if t = 11 then ascii ''TIME_EXCEEDED'' else ascii ''ICMP_OTHER'')"

definition show_igmp_state :: "u8 \<Rightarrow> ipv4 option \<Rightarrow> bytes" where
  "show_igmp_state t grp =
     (let type_str = (if t = 0x11 then ascii ''QUERY'' else if t = 0x12 then ascii ''REPORT_V1''
            else if t = 0x16 then ascii ''REPORT_V2'' else if t = 0x22 then ascii ''REPORT_V3''
            else if t = 0x17 then ascii ''LEAVE_GROUP'' else ascii ''IGMP_OTHER'')
      in case grp of Some addr \<Rightarrow> type_str @ ascii ''('' @ show_ipv4 addr @ ascii '')'' | None \<Rightarrow> type_str)"

definition show_arp_state :: "ArpInfo \<Rightarrow> bytes" where
  "show_arp_state i =
     with_detail
       (case arp_operation i of
          ArpOperation.Request \<Rightarrow> ascii ''ARP_WHO_HAS '' @ show_ip (arp_target_ip i)
        | ArpOperation.Reply \<Rightarrow> ascii ''ARP_IS_AT '' @ arp_sender_mac i)
       (arp_sender_vendor i)"

definition connection_state_text :: "clock \<Rightarrow> Connection \<Rightarrow> bytes" where
  "connection_state_text clk conn =
     (case protocol_state conn of
        PS_Tcp s \<Rightarrow> show_tcp_state s
      | PS_Udp \<Rightarrow> show_udp_state clk conn
      | PS_Icmp t icmp \<Rightarrow> show_icmp_state t icmp
      | PS_Igmp t grp \<Rightarrow> show_igmp_state t grp
      | PS_Arp i \<Rightarrow> show_arp_state i)"

section \<open>Sorting and distribution\<close>

definition app_sort_key :: "ApplicationProtocol \<Rightarrow> bytes" where
  "app_sort_key a =
     (case a of
        BitTorrent _ \<Rightarrow> ascii ''BitTorrent'' | Dhcp _ \<Rightarrow> ascii ''DHCP'' | Dns _ \<Rightarrow> ascii ''DNS''
      | Ftp _ \<Rightarrow> ascii ''FTP'' | Http _ \<Rightarrow> ascii ''HTTP'' | Https _ \<Rightarrow> ascii ''HTTPS'' | Llmnr _ \<Rightarrow> ascii ''LLMNR''
      | Mdns _ \<Rightarrow> ascii ''mDNS'' | Mqtt _ \<Rightarrow> ascii ''MQTT'' | NetBios _ \<Rightarrow> ascii ''NetBIOS'' | Ntp _ \<Rightarrow> ascii ''NTP''
      | Quic _ \<Rightarrow> ascii ''QUIC'' | Snmp _ \<Rightarrow> ascii ''SNMP'' | Ssh _ \<Rightarrow> ascii ''SSH'' | Ssdp _ \<Rightarrow> ascii ''SSDP''
      | Stun _ \<Rightarrow> ascii ''STUN'')"

record AppProtocolDistribution =
  https_count :: nat
  http_count :: nat
  quic_count :: nat
  dns_count :: nat
  ssh_count :: nat
  other_count :: nat

definition count_application :: "Connection \<Rightarrow> AppProtocolDistribution \<Rightarrow> AppProtocolDistribution" where
  "count_application conn dist =
     (case dpi_info conn of
        Some d \<Rightarrow>
          (case application d of
             Https _ \<Rightarrow> dist\<lparr>https_count := https_count dist + 1\<rparr>
           | Http _ \<Rightarrow> dist\<lparr>http_count := http_count dist + 1\<rparr>
           | Quic _ \<Rightarrow> dist\<lparr>quic_count := quic_count dist + 1\<rparr>
           | Dns _ \<Rightarrow> dist\<lparr>dns_count := dns_count dist + 1\<rparr>
           | Ssh _ \<Rightarrow> dist\<lparr>ssh_count := ssh_count dist + 1\<rparr>
           | _ \<Rightarrow> dist\<lparr>other_count := other_count dist + 1\<rparr>)
      | None \<Rightarrow> dist\<lparr>other_count := other_count dist + 1\<rparr>)"

definition from_connections :: "Connection list \<Rightarrow> AppProtocolDistribution" where
  "from_connections conns = fold count_application conns
     \<lparr>https_count = 0, http_count = 0, quic_count = 0, dns_count = 0, ssh_count = 0, other_count = 0\<rparr>"

definition distribution_total :: "AppProtocolDistribution \<Rightarrow> nat" where
  "distribution_total d = https_count d + http_count d + quic_count d + dns_count d + ssh_count d + other_count d"

text \<open>Every connection is counted exactly once.\<close>

lemma distribution_counts_all: "distribution_total (from_connections conns) = length conns"
proof -
  have one: "distribution_total (count_application c d) = distribution_total d + 1" for c d
    by (simp add: count_application_def distribution_total_def split: option.split ApplicationProtocol.split)
  have "distribution_total (fold count_application conns d) = distribution_total d + length conns" for d
    by (induction conns arbitrary: d) (simp_all add: one)
  then show ?thesis by (simp add: from_connections_def distribution_total_def)
qed

text \<open>The states that are shown are told apart.\<close>

lemma show_protocol_inj: "show_protocol p = show_protocol q \<longleftrightarrow> p = q"
  by (cases p; cases q) (simp_all add: show_protocol_def ascii_def)

lemma show_tcp_state_inj: "show_tcp_state s = show_tcp_state t \<longleftrightarrow> s = t"
  by (cases s; cases t) (simp_all add: show_tcp_state_def ascii_def)

end
