(* ===== verification/Lookups.thy ===== *)
theory Lookups
  imports RustText "HOL-Library.Mapping"
begin

text \<open>
  The two tables the program is built with: service names by port and protocol
  (\<^verbatim>\<open>network/services.rs\<close>) and vendors by the first three octets of a MAC address
  (\<^verbatim>\<open>network/oui.rs\<close>). A file is a list of lines, the first line for a key counts. The texts are
  arguments of the model; what \<open>str::to_lowercase\<close> does to text with non-ASCII characters (the
  Unicode tables) and what the gzip decoder returns are parameters.
\<close>

section \<open>Case and hexadecimal\<close>

definition to_lowercase :: "(bytes \<Rightarrow> bytes) \<Rightarrow> bytes \<Rightarrow> bytes" where
  "to_lowercase unicode_lower s =
     (if list_all (\<lambda>c. c < 128) s then map to_ascii_lowercase s else unicode_lower s)"

definition hex_value :: "u8 \<Rightarrow> nat option" where
  "hex_value c =
     (if 48 \<le> c \<and> c \<le> 57 then Some (unat (c - 48))
      else if 97 \<le> c \<and> c \<le> 102 then Some (unat (c - 97) + 10)
      else if 65 \<le> c \<and> c \<le> 70 then Some (unat (c - 65) + 10)
      else None)"

text \<open>\<open>from_str_radix(s, 16)\<close> for a type of \<open>limit\<close> values: a sign \<open>+\<close> is allowed, overflow is an error.\<close>

definition uint_from_hex :: "nat \<Rightarrow> bytes \<Rightarrow> nat option" where
  "uint_from_hex limit s =
     (let ds = map hex_value (if s \<noteq> [] \<and> hd s = 43 then tl s else s);
          n = foldl (\<lambda>n d. 16 * n + the d) 0 ds
      in if ds = [] \<or> None \<in> set ds then None else if n < limit then Some n else None)"

definition u8_from_hex :: "bytes \<Rightarrow> u8 option" where
  "u8_from_hex s = map_option of_nat (uint_from_hex 256 s)"

text \<open>A slice \<open>&s[a..b]\<close> of a string panics where a bound is not at a character.\<close>

definition is_char_boundary :: "bytes \<Rightarrow> nat \<Rightarrow> bool" where
  "is_char_boundary s i \<longleftrightarrow> i = length s \<or> i < length s \<and> \<not> is_cont (s ! i)"

definition str_slice :: "nat \<Rightarrow> nat \<Rightarrow> bytes \<Rightarrow> bytes option" where
  "str_slice a b s =
     (if a \<le> b \<and> is_char_boundary s a \<and> is_char_boundary s b then Some (take (b - a) (drop a s)) else None)"

section \<open>Services\<close>

type_synonym ServiceLookup = "(u16 \<times> Protocol, bytes) mapping"

definition service_of_line :: "(bytes \<Rightarrow> bytes) \<Rightarrow> bytes \<Rightarrow> ((u16 \<times> Protocol) \<times> bytes) option" where
  "service_of_line unicode_lower raw =
     (let line = trim raw in
      if line = [] \<or> starts_with line (ascii ''#'') then None
      else
        let parts = split_whitespace line in
        if length parts < 2 then None
        else
          let service_name = parts ! 0; port_parts = split_on 47 (parts ! 1) in
          if length port_parts \<noteq> 2 then None
          else
            case parse_uint 65536 (port_parts ! 0) of
              None \<Rightarrow> None
            | Some p \<Rightarrow>
                let proto = to_lowercase unicode_lower (port_parts ! 1) in
                if proto = ascii ''tcp'' then Some ((of_nat p, Tcp), service_name)
                else if proto = ascii ''udp'' then Some ((of_nat p, Udp), service_name)
                else None)"

text \<open>\<open>entry(key).or_insert_with(value)\<close> for what one line says.\<close>

definition or_insert :: "('k \<times> 'v) option \<Rightarrow> ('k, 'v) mapping \<Rightarrow> ('k, 'v) mapping" where
  "or_insert e m = (case e of None \<Rightarrow> m | Some (k, v) \<Rightarrow> Mapping.default k v m)"

definition services_from_embedded :: "(bytes \<Rightarrow> bytes) \<Rightarrow> bytes \<Rightarrow> bytes + ServiceLookup" where
  "services_from_embedded unicode_lower text =
     (let services = fold (\<lambda>line. or_insert (service_of_line unicode_lower line)) (lines text) Mapping.empty in
      if Mapping.is_empty services then Inl (ascii ''No services found in embedded data'') else Inr services)"

definition add_service :: "u16 \<Rightarrow> Protocol \<Rightarrow> string \<Rightarrow> ServiceLookup \<Rightarrow> ServiceLookup" where
  "add_service p proto name = Mapping.update (p, proto) (ascii name)"

definition with_defaults :: ServiceLookup where
  "with_defaults =
     fold (\<lambda>(p, proto, name). add_service p proto name)
      [(20, Tcp, ''ftp-data''), (21, Tcp, ''ftp''), (22, Tcp, ''ssh''), (23, Tcp, ''telnet''), (25, Tcp, ''smtp''),
       (53, Tcp, ''dns''), (80, Tcp, ''http''), (110, Tcp, ''pop3''), (143, Tcp, ''imap''), (443, Tcp, ''https''),
       (445, Tcp, ''microsoft-ds''), (587, Tcp, ''submission''), (993, Tcp, ''imaps''), (995, Tcp, ''pop3s''),
       (1433, Tcp, ''mssql''), (3306, Tcp, ''mysql''), (3389, Tcp, ''rdp''), (5432, Tcp, ''postgresql''),
       (5900, Tcp, ''vnc''), (6379, Tcp, ''redis''), (8080, Tcp, ''http-alt''), (8443, Tcp, ''https-alt''),
       (27017, Tcp, ''mongodb''), (53, Udp, ''dns''), (67, Udp, ''dhcp-server''), (68, Udp, ''dhcp-client''),
       (123, Udp, ''ntp''), (161, Udp, ''snmp''), (443, Udp, ''https''), (500, Udp, ''isakmp''),
       (1194, Udp, ''openvpn''), (4500, Udp, ''ipsec-nat''), (5060, Udp, ''sip'')]
      Mapping.empty"

definition service_name_of :: "ServiceLookup \<Rightarrow> u16 \<Rightarrow> Protocol \<Rightarrow> bytes option" where
  "service_name_of t p proto = Mapping.lookup t (p, proto)"

text \<open>What \<open>App::new\<close> loads.\<close>

definition load_services :: "(bytes \<Rightarrow> bytes) \<Rightarrow> bytes \<Rightarrow> ServiceLookup" where
  "load_services unicode_lower text =
     (case services_from_embedded unicode_lower text of Inr t \<Rightarrow> t | Inl _ \<Rightarrow> with_defaults)"

section \<open>Vendors\<close>

type_synonym OuiLookup = "(u8 \<times> u8 \<times> u8, bytes) mapping"

text \<open>What one line says; \<open>None\<close> is a panic, at a slice within a character.\<close>

definition vendor_of_line :: "bytes \<Rightarrow> ((u8 \<times> u8 \<times> u8) \<times> bytes) option option" where
  "vendor_of_line raw =
     (let line = trim raw in
      if line = [] then Some None
      else
        case split_once 9 line of
          None \<Rightarrow> Some None
        | Some (prefix, vendor) \<Rightarrow>
            if length prefix \<noteq> 6 then Some None
            else
              try_opt (map_option u8_from_hex (str_slice 0 2 prefix)) (\<lambda>a.
              try_opt (map_option u8_from_hex (str_slice 2 4 prefix)) (\<lambda>b.
              try_opt (map_option u8_from_hex (str_slice 4 6 prefix)) (\<lambda>c.
                Some (Some ((a, b, c), vendor))))))"

fun load_vendors :: "bytes list \<Rightarrow> OuiLookup \<Rightarrow> OuiLookup option" where
  "load_vendors [] vendors = Some vendors"
| "load_vendors (line # rest) vendors =
     do { e \<leftarrow> vendor_of_line line; load_vendors rest (or_insert e vendors) }"

definition oui_from_embedded :: "(bytes \<Rightarrow> bytes + bytes) \<Rightarrow> bytes \<Rightarrow> (bytes + OuiLookup) option" where
  "oui_from_embedded gunzip gz =
     (case gunzip gz of
        Inl e \<Rightarrow> Some (Inl e)
      | Inr text \<Rightarrow>
          do { vendors \<leftarrow> load_vendors (lines text) Mapping.empty;
               Some (if Mapping.is_empty vendors then Inl (ascii ''No OUI entries found in embedded data'')
                     else Inr vendors) })"

definition parse_mac_prefix :: "bytes \<Rightarrow> (u8 \<times> u8 \<times> u8) option option" where
  "parse_mac_prefix raw =
     (let mac = trim raw;
          octets = (\<lambda>x y z. case (u8_from_hex x, u8_from_hex y, u8_from_hex z) of
                              (Some a, Some b, Some c) \<Rightarrow> Some (a, b, c) | _ \<Rightarrow> None);
          of_parts = (\<lambda>parts. if length parts < 3 then None else octets (parts ! 0) (parts ! 1) (parts ! 2))
      in if colon \<in> set mac then Some (of_parts (split_on colon mac))
         else if hyphen \<in> set mac then Some (of_parts (split_on hyphen mac))
         else if 6 \<le> length mac then
           try_opt (map_option u8_from_hex (str_slice 0 2 mac)) (\<lambda>a.
           try_opt (map_option u8_from_hex (str_slice 2 4 mac)) (\<lambda>b.
           try_opt (map_option u8_from_hex (str_slice 4 6 mac)) (\<lambda>c.
             Some (Some (a, b, c)))))
         else Some None)"

definition vendor_of :: "OuiLookup \<Rightarrow> bytes \<Rightarrow> bytes option option" where
  "vendor_of t mac = try_opt (parse_mac_prefix mac) (\<lambda>prefix. Some (Mapping.lookup t prefix))"

section \<open>Tables of first entries\<close>

definition extended :: "('k, 'v) mapping \<Rightarrow> ('k \<times> 'v) list \<Rightarrow> 'k \<Rightarrow> 'v option" where
  "extended m es k = (case Mapping.lookup m k of None \<Rightarrow> map_of es k | Some v \<Rightarrow> Some v)"

lemma lookup_or_insert:
  "Mapping.lookup (or_insert e m) k = extended m (case e of None \<Rightarrow> [] | Some kv \<Rightarrow> [kv]) k"
  by (auto simp: or_insert_def extended_def lookup_default' Mapping.lookup_default_def split: option.splits prod.splits)

text \<open>The lines one after the other: what the table held stays, then the first line for a key counts.\<close>

lemma lookup_fold_or_insert:
  "Mapping.lookup (fold (\<lambda>l. or_insert (f l)) ls m) k = extended m (List.map_filter f ls) k"
proof (induction ls arbitrary: m)
  case (Cons l ls)
  then show ?case
    by (auto simp: extended_def lookup_or_insert List.map_filter_simps split: option.splits)
qed (simp add: extended_def map_filter_simps split: option.splits)

lemma lookup_first: "Mapping.lookup (fold (\<lambda>l. or_insert (f l)) ls Mapping.empty) k = map_of (List.map_filter f ls) k"
  by (simp add: lookup_fold_or_insert extended_def lookup_empty)

lemma fold_is_empty:
  "Mapping.is_empty (fold (\<lambda>l. or_insert (f l)) ls Mapping.empty) \<longleftrightarrow> List.map_filter f ls = []"
proof -
  let ?m = "fold (\<lambda>l. or_insert (f l)) ls Mapping.empty"
  have "Mapping.is_empty ?m \<longleftrightarrow> (\<forall>k. Mapping.lookup ?m k = None)"
    by (auto simp: Mapping.is_empty_def keys_dom_lookup)
  also have "\<dots> \<longleftrightarrow> List.map_filter f ls = []"
    by (cases "List.map_filter f ls") (auto simp: lookup_first)
  finally show ?thesis .
qed

section \<open>Files of services\<close>

text \<open>A file as its writer sees it: comments, blank lines and entries, with white space after the
  name and possibly aliases or a comment after the port.\<close>

datatype service_item =
  Comment bytes
| Blank
| Entry bytes u16 Protocol bytes bytes

fun show_item :: "service_item \<Rightarrow> bytes" where
  "show_item (Comment c) = 35 # c"
| "show_item Blank = []"
| "show_item (Entry name p proto gap rest) =
     name @ gap @ decimal (unat p) @ 47 # (if proto = Tcp then ascii ''tcp'' else ascii ''udp'') @ rest"

definition plain :: "u8 \<Rightarrow> bool" where
  "plain c \<longleftrightarrow> c < 128 \<and> c \<noteq> newline \<and> c \<noteq> carriage_return"

fun item_ok :: "service_item \<Rightarrow> bool" where
  "item_ok (Comment c) \<longleftrightarrow> list_all plain c"
| "item_ok Blank \<longleftrightarrow> True"
| "item_ok (Entry name p proto gap rest) \<longleftrightarrow>
     name \<noteq> [] \<and> list_all is_ascii_graphic name \<and> hd name \<noteq> 35 \<and> proto \<in> {Tcp, Udp} \<and>
     gap \<noteq> [] \<and> list_all (\<lambda>c. c = 9 \<or> c = 32) gap \<and>
     list_all plain rest \<and> (rest \<noteq> [] \<longrightarrow> is_space (hd rest))"

fun entry_of :: "service_item \<Rightarrow> ((u16 \<times> Protocol) \<times> bytes) option" where
  "entry_of (Entry name p proto gap rest) = Some ((p, proto), name)"
| "entry_of _ = None"

section \<open>Reading back\<close>

text \<open>Decimal numbers.\<close>

lemma digit_ascii: "d < 10 \<Longrightarrow> is_ascii_digit (digit d) \<and> unat (digit d - 48) = d"
proof -
  assume "d < 10"
  then have "d \<in> {0, 1, 2, 3, 4, 5, 6, 7, 8, 9}" by auto
  then show ?thesis by (auto simp: digit_def is_ascii_digit_def)
qed

lemma decimal_ascii:
  "list_all is_ascii_digit (decimal n) \<and> foldl (\<lambda>n d. 10 * n + unat (d - 48)) 0 (decimal n) = n"
proof (induction n rule: less_induct)
  case (less n)
  then show ?case using digit_ascii [of n] digit_ascii [of "n mod 10"] by (simp add: radix.simps [of 10 n])
qed

lemma parse_decimal: "n < limit \<Longrightarrow> parse_uint limit (decimal n) = Some n"
proof -
  assume "n < limit"
  moreover have "is_ascii_digit (hd (decimal n))"
    using decimal_ascii [of n] radix_nonempty [of 10 n] by (cases "decimal n") auto
  then have "hd (decimal n) \<noteq> 43" by (auto simp: is_ascii_digit_def)
  ultimately show ?thesis using decimal_ascii [of n] by (simp add: parse_uint_def radix_nonempty)
qed

lemma digit_graphic: "is_ascii_digit c \<Longrightarrow> is_ascii_graphic c \<and> c \<noteq> 47"
  by (auto simp: is_ascii_digit_def is_ascii_graphic_def word_le_nat_alt)

text \<open>Words.\<close>

lemma chars_ascii_append: "list_all (\<lambda>c. c < 128) w \<Longrightarrow> chars (w @ x) = map (\<lambda>c. [c]) w @ chars x"
  by (induction w) simp_all

lemma list_all_graphic: "list_all is_ascii_graphic w \<Longrightarrow> list_all (\<lambda>c. c < 128) w \<and> (\<forall>c \<in> set w. \<not> is_space c)"
  by (auto simp: list_all_iff graphic_ascii)

lemma concat_singles: "concat (map (\<lambda>c. [c]) w) = w"
  by (induction w) simp_all

lemma space_ascii: "is_space c \<Longrightarrow> c < 128"
  by (auto simp: is_space_def)

lemma split_whitespace_word:
  assumes "list_all is_ascii_graphic w" "w \<noteq> []" "is_space c"
  shows "split_whitespace (w @ c # rest) = w # split_whitespace rest"
proof -
  have "split_chars is_whitespace (map (\<lambda>c. [c]) w @ [c] # chars rest)
      = map (\<lambda>c. [c]) w # split_chars is_whitespace (chars rest)"
    using list_all_graphic [OF assms(1)] assms(3) by (intro split_chars_append) auto
  then show ?thesis
    using list_all_graphic [OF assms(1)] assms(2,3)
    by (simp add: split_whitespace_def chars_ascii_append space_ascii concat_singles)
qed

lemma split_whitespace_space: "is_space c \<Longrightarrow> split_whitespace (c # rest) = split_whitespace rest"
  by (simp add: split_whitespace_def space_ascii)

lemma split_whitespace_spaces: "list_all is_space gap \<Longrightarrow> split_whitespace (gap @ rest) = split_whitespace rest"
  by (induction gap) (simp_all add: split_whitespace_space)

lemma split_whitespace_last:
  assumes "list_all is_ascii_graphic w" "w \<noteq> []"
  shows "split_whitespace w = [w]"
proof -
  have "split_chars is_whitespace (map (\<lambda>c. [c]) w) = [map (\<lambda>c. [c]) w]"
    using list_all_graphic [OF assms(1)] by (intro split_chars_word) auto
  then show ?thesis
    using list_all_graphic [OF assms(1)] assms(2) chars_ascii_append [of w "[]"]
    by (simp add: split_whitespace_def concat_singles)
qed

text \<open>Trimming keeps the text up to its last character that is no space.\<close>

lemma trim_end:
  assumes "list_all (\<lambda>c. c < 128) (body @ rest)" "body \<noteq> []" "\<not> is_space (hd body)" "\<not> is_space (last body)"
  obtains rest' where "trim (body @ rest) = body @ rest'" and "rest' \<noteq> [] \<Longrightarrow> rest \<noteq> [] \<and> hd rest' = hd rest"
proof
  let ?r = "rev (dropWhile is_space (rev rest))"
  have "dropWhile is_space (body @ rest) = body @ rest" using assms(2,3) by (cases body) auto
  moreover have "dropWhile is_space (rev (body @ rest)) = dropWhile is_space (rev rest) @ rev body"
    using assms(2,4) by (cases body rule: rev_cases) (auto simp: dropWhile_append dropWhile_eq_Nil_conv)
  ultimately show "trim (body @ rest) = body @ ?r" using assms(1) by (simp add: trim_ascii list_all_iff)
  have "rest = ?r @ rev (takeWhile is_space (rev rest))"
    by (metis rev_append rev_rev_ident takeWhile_dropWhile_id)
  then show "?r \<noteq> [] \<Longrightarrow> rest \<noteq> [] \<and> hd ?r = hd rest" by (metis append_is_Nil_conv hd_append2)
qed

lemma plain_ascii: "list_all plain s \<Longrightarrow> list_all (\<lambda>c. c < 128) s"
  by (simp add: list_all_iff plain_def)

text \<open>Each line is read as the entry it shows.\<close>

lemma comment_read: "list_all plain c \<Longrightarrow> service_of_line unicode_lower (35 # c) = None"
proof -
  assume "list_all plain c"
  then obtain r where "trim ([35] @ c) = [35] @ r"
    by (rule_tac trim_end [of "[35]" c]) (auto simp: is_space_def dest: plain_ascii)
  then show ?thesis by (simp add: service_of_line_def starts_with_def ascii_def)
qed

lemma entry_read:
  assumes ok: "item_ok (Entry name p proto gap rest)"
  shows "service_of_line unicode_lower (show_item (Entry name p proto gap rest)) = Some ((p, proto), name)"
proof -
  define pr where "pr = (if proto = Tcp then ascii ''tcp'' else ascii ''udp'')"
  define pp where "pp = decimal (unat p) @ 47 # pr"
  have name: "name \<noteq> []" "list_all is_ascii_graphic name" and gap: "gap \<noteq> []" "list_all is_space gap"
    and proto: "proto = Tcp \<or> proto = Udp" and rest: "list_all (\<lambda>c. c < 128) rest" "rest \<noteq> [] \<Longrightarrow> is_space (hd rest)"
    using ok by (auto simp: list_all_iff is_space_def plain_def)
  have pr: "list_all is_ascii_graphic pr" "47 \<notin> set pr" "pr \<noteq> []" "to_lowercase unicode_lower pr = pr"
    by (auto simp: pr_def ascii_def is_ascii_graphic_def to_lowercase_def to_ascii_lowercase_def)
  have digits: "list_all is_ascii_graphic (decimal (unat p))" "47 \<notin> set (decimal (unat p))"
    using decimal_ascii [of "unat p"] by (auto simp: list_all_iff digit_graphic dest: digit_graphic)
  have pp: "list_all is_ascii_graphic pp" "pp \<noteq> []"
    using digits(1) pr(1) by (simp_all add: pp_def, simp add: is_ascii_graphic_def)
  have last: "\<not> is_space (last pp)"
    using pp by (auto simp: list_all_iff graphic_ascii)
  have split: "split_on 47 pp = [decimal (unat p), pr]"
    using digits(2) pr(2) split_on_append [of 47 "decimal (unat p)" pr]
    by (simp add: pp_def split_on_no_sep)
  have shown: "show_item (Entry name p proto gap rest) = (name @ gap @ pp) @ rest" by (simp add: pp_def pr_def)
  obtain r where r: "trim ((name @ gap @ pp) @ rest) = (name @ gap @ pp) @ r"
    and rs: "r \<noteq> [] \<Longrightarrow> rest \<noteq> [] \<and> hd r = hd rest"
    using name gap pp last rest
    by (rule_tac trim_end [of "name @ gap @ pp" rest]) (auto simp: list_all_iff graphic_ascii space_ascii)
  obtain g gap' where g: "gap = g # gap'" using gap(1) by (cases gap) auto
  obtain more_words where words: "split_whitespace ((name @ gap @ pp) @ r) = name # pp # more_words"
  proof (cases r)
    case Nil
    then show thesis using that name gap(2) pp(1,2)
      by (simp add: g split_whitespace_word split_whitespace_spaces split_whitespace_last)
  next
    case (Cons c r')
    then have "is_space c" using rs rest(2) by simp
    then show thesis using that name gap(2) pp(1,2) Cons
      by (simp add: g split_whitespace_word split_whitespace_spaces)
  qed
  define line where "line = (name @ gap @ pp) @ r"
  have "\<not> starts_with line (ascii ''#'')" "line \<noteq> []"
    using ok name(1) by (cases name; auto simp: line_def starts_with_def ascii_def)+
  then have "service_of_line unicode_lower (show_item (Entry name p proto gap rest))
      = (if pr = ascii ''tcp'' then Some ((p, Tcp), name) else if pr = ascii ''udp'' then Some ((p, Udp), name) else None)"
    unfolding shown service_of_line_def r line_def [symmetric]
    using unat_u16_bound [of p] pr(4) by (simp add: words [folded line_def] split parse_decimal Let_def)
  moreover have "ascii ''udp'' \<noteq> ascii ''tcp''" by (simp add: ascii_def)
  ultimately show ?thesis using proto by (auto simp: pr_def)
qed

lemma item_read:
  assumes "item_ok it"
  shows "service_of_line unicode_lower (show_item it) = entry_of it"
  using assms
proof (cases it)
  case Blank
  then show ?thesis by (simp add: service_of_line_def trim_def)
qed (use entry_read in \<open>auto simp: comment_read simp del: item_ok.simps(3)\<close>)

section \<open>What a file of services gives\<close>

lemma plain_lines:
  assumes "\<forall>l \<in> set ls. list_all plain l"
  shows "lines (concat (map (\<lambda>l. l @ [newline]) ls)) = ls"
proof -
  have l: "newline \<notin> set l" "strip_cr l = l" if "list_all plain l" for l
    using that by (auto simp: list_all_iff plain_def strip_cr_def)
  have "split_on newline (concat (map (\<lambda>l. l @ [newline]) ls)) = ls @ [[]]"
    using assms by (induction ls) (simp_all add: split_on_append split_on_no_sep l)
  moreover have "map strip_cr ls = ls" using assms l(2) by (simp add: map_idI)
  ultimately show ?thesis by (simp add: lines_def Let_def)
qed

lemma graphic_plain: "is_ascii_graphic c \<Longrightarrow> plain c"
  by (auto simp: plain_def graphic_ascii newline_def carriage_return_def) (simp_all add: is_ascii_graphic_def)

lemma item_plain: "item_ok it \<Longrightarrow> list_all plain (show_item it)"
proof (cases it)
  case (Entry name p proto gap rest)
  assume ok: "item_ok it"
  have "list_all plain (decimal (unat p))" using decimal_ascii [of "unat p"]
    by (auto simp: list_all_iff intro: graphic_plain dest: digit_graphic)
  moreover have "list_all plain name" "list_all plain rest" using ok by (auto simp: Entry list_all_iff graphic_plain)
  moreover have "list_all plain gap"
    using ok by (auto simp: Entry list_all_iff plain_def newline_def carriage_return_def)
  moreover have "list_all plain (47 # (if proto = Tcp then ascii ''tcp'' else ascii ''udp''))"
    by (simp add: plain_def newline_def carriage_return_def ascii_def)
  ultimately show ?thesis by (simp add: Entry)
qed (simp_all add: plain_def newline_def carriage_return_def)

definition show_services :: "service_item list \<Rightarrow> bytes" where
  "show_services items = concat (map (\<lambda>it. show_item it @ [newline]) items)"

lemma services_read:
  assumes "list_all item_ok items"
  shows "List.map_filter (service_of_line unicode_lower) (lines (show_services items)) = List.map_filter entry_of items"
proof -
  have "lines (show_services items) = map show_item items"
    using plain_lines [of "map show_item items"] assms item_plain by (auto simp: show_services_def list_all_iff comp_def)
  moreover have "List.map_filter (service_of_line unicode_lower) (map show_item items) = List.map_filter entry_of items"
    using assms by (induction items) (auto simp: map_filter_simps item_read split: option.splits)
  ultimately show ?thesis by simp
qed

text \<open>C31 (round trip). The service file: what the program loads from a file that lists services,
  with comments and blank lines, names for every port and protocol the service of the first entry
  for them, and no other; a file without an entry leaves the defaults.\<close>

theorem services_file_loaded:
  assumes "list_all item_ok items"
  shows "service_name_of (load_services unicode_lower (show_services items)) p proto =
    (if List.map_filter entry_of items = [] then service_name_of with_defaults p proto
     else map_of (List.map_filter entry_of items) (p, proto))"
  using assms
  by (simp add: load_services_def services_from_embedded_def service_name_of_def Let_def fold_is_empty lookup_first services_read)

definition sample_services :: "service_item list" where
  "sample_services =
     [Comment (ascii '' Network services''), Blank, Entry (ascii ''ssh'') 22 Tcp (ascii ''   '') (ascii '' # SSH''),
      Entry (ascii ''dns'') 53 Udp (ascii '' '') [], Entry (ascii ''domain'') 53 Udp [9] (ascii '' alias'')]"

lemma services_file_loaded_witness:
  "service_name_of (load_services (\<lambda>s. s) (show_services sample_services)) 53 Udp = Some (ascii ''dns'')"
  by (subst services_file_loaded)
    (simp_all add: sample_services_def ascii_def plain_def newline_def carriage_return_def is_ascii_graphic_def
      is_space_def map_filter_simps)

section \<open>Vendors of addresses\<close>

lemma hex_value_digit: "d < 16 \<Longrightarrow> hex_value (digit d) = Some d"
proof -
  have "\<forall>d < 16. hex_value (digit d) = Some d" unfolding digit_all by (simp add: digit_def hex_value_def)
  then show "d < 16 \<Longrightarrow> hex_value (digit d) = Some d" by blast
qed

lemma unat_u8_bound: "unat (b :: u8) < 256"
  using unsigned_less [of b] by simp

lemma u8_from_hex2: "u8_from_hex (hex2 b) = Some b"
proof -
  note b = unat_u8_bound [of b]
  have d: "hex_value (digit (unat b div 16)) = Some (unat b div 16)" "hex_value (digit (unat b mod 16)) = Some (unat b mod 16)"
    using b by (simp_all add: hex_value_digit)
  have "digit (unat b div 16) \<noteq> 43" using d(1) by (auto simp: hex_value_def)
  then show ?thesis using b by (simp add: u8_from_hex_def uint_from_hex_def hex2_def d Let_def)
qed

lemma hex2_chars: "c \<in> set (hex2 b) \<Longrightarrow> is_ascii_graphic c \<and> c \<noteq> colon"
proof -
  assume "c \<in> set (hex2 b)"
  moreover have "\<forall>d < 16. is_ascii_graphic (digit d) \<and> digit d \<noteq> colon"
    unfolding digit_all by (simp add: digit_def is_ascii_graphic_def colon_def)
  moreover have "unat b div 16 < 16" "unat b mod 16 < 16" using unat_u8_bound [of b] by simp_all
  ultimately show ?thesis by (auto simp: hex2_def)
qed

text \<open>The prefix of an address as the parser shows it.\<close>

lemma mac_prefix:
  assumes "6 \<le> length mac"
  shows "parse_mac_prefix (show_mac mac) = Some (Some (mac ! 0, mac ! 1, mac ! 2))"
proof -
  have "c = colon \<or> (\<exists>b. c \<in> set (hex2 b))" if "c \<in> set (show_mac mac)" for c
    using that set_join [of "[colon]" "map hex2 mac"] by (auto simp: show_mac_def)
  moreover have "is_ascii_graphic colon" by (simp add: colon_def is_ascii_graphic_def)
  ultimately have "is_ascii_graphic c" if "c \<in> set (show_mac mac)" for c using that hex2_chars by blast
  then have t: "trim (show_mac mac) = show_mac mac" by (rule_tac trim_graphic) simp
  have s: "split_on colon (show_mac mac) = map hex2 mac"
    unfolding show_mac_def using assms hex2_chars by (intro split_join) auto
  have "colon \<in> set (show_mac mac)"
  proof (rule ccontr)
    assume "colon \<notin> set (show_mac mac)"
    from split_on_no_sep [OF this] s assms show False by (cases mac; cases "tl mac") auto
  qed
  moreover have "map hex2 mac ! 0 = hex2 (mac ! 0)" "map hex2 mac ! 1 = hex2 (mac ! 1)" "map hex2 mac ! 2 = hex2 (mac ! 2)"
    by (rule nth_map; use assms in linarith)+
  ultimately show ?thesis using assms by (simp add: parse_mac_prefix_def Let_def t s u8_from_hex2)
qed

text \<open>A file of vendors: a line per prefix, its octets in capital hexadecimal digits.\<close>

definition hex2_upper :: "u8 \<Rightarrow> bytes" where
  "hex2_upper b = map to_ascii_uppercase (hex2 b)"

fun show_vendor :: "(u8 \<times> u8 \<times> u8) \<times> bytes \<Rightarrow> bytes" where
  "show_vendor ((a, b, c), vendor) = hex2_upper a @ hex2_upper b @ hex2_upper c @ 9 # vendor"

definition show_vendors :: "((u8 \<times> u8 \<times> u8) \<times> bytes) list \<Rightarrow> bytes" where
  "show_vendors es = concat (map (\<lambda>e. show_vendor e @ [newline]) es)"

fun vendor_ok :: "(u8 \<times> u8 \<times> u8) \<times> bytes \<Rightarrow> bool" where
  "vendor_ok (prefix, vendor) \<longleftrightarrow> vendor \<noteq> [] \<and> list_all plain vendor \<and> \<not> is_space (last vendor)"

lemma upper_digit: "d < 16 \<Longrightarrow> hex_value (to_ascii_uppercase (digit d)) = Some d \<and> is_ascii_graphic (to_ascii_uppercase (digit d))"
proof -
  have "\<forall>d < 16. hex_value (to_ascii_uppercase (digit d)) = Some d \<and> is_ascii_graphic (to_ascii_uppercase (digit d))"
    unfolding digit_all by (simp add: digit_def hex_value_def to_ascii_uppercase_def is_ascii_graphic_def)
  then show "d < 16 \<Longrightarrow> ?thesis" by blast
qed

lemma hex2_upper_facts:
  obtains x y where "hex2_upper b = [x, y]" "is_ascii_graphic x" "is_ascii_graphic y" "u8_from_hex [x, y] = Some b"
proof
  let ?x = "to_ascii_uppercase (digit (unat b div 16))" and ?y = "to_ascii_uppercase (digit (unat b mod 16))"
  note b = unat_u8_bound [of b]
  have d: "hex_value ?x = Some (unat b div 16) \<and> is_ascii_graphic ?x" "hex_value ?y = Some (unat b mod 16) \<and> is_ascii_graphic ?y"
    using b by (simp_all add: upper_digit)
  then show "is_ascii_graphic ?x" "is_ascii_graphic ?y" by simp_all
  have "?x \<noteq> 43" using d(1) by (auto simp: hex_value_def)
  then show "u8_from_hex [?x, ?y] = Some b" using b d by (simp add: u8_from_hex_def uint_from_hex_def Let_def)
qed (simp add: hex2_upper_def hex2_def)

lemma graphic_boundary: "is_ascii_graphic c \<Longrightarrow> \<not> is_cont c"
  using graphic_ascii [of c] by (auto simp: is_cont_def)

lemma vendor_read: "vendor_ok (k, vendor) \<Longrightarrow> vendor_of_line (show_vendor (k, vendor)) = Some (Some (k, vendor))"
proof -
  assume ok: "vendor_ok (k, vendor)"
  obtain a b c where k: "k = (a, b, c)" by (cases k)
  obtain a0 a1 where a: "hex2_upper a = [a0, a1]" "is_ascii_graphic a0" "is_ascii_graphic a1" "u8_from_hex [a0, a1] = Some a"
    by (rule hex2_upper_facts)
  obtain b0 b1 where b: "hex2_upper b = [b0, b1]" "is_ascii_graphic b0" "is_ascii_graphic b1" "u8_from_hex [b0, b1] = Some b"
    by (rule hex2_upper_facts)
  obtain c0 c1 where c: "hex2_upper c = [c0, c1]" "is_ascii_graphic c0" "is_ascii_graphic c1" "u8_from_hex [c0, c1] = Some c"
    by (rule hex2_upper_facts)
  let ?p = "[a0, a1, b0, b1, c0, c1]"
  have p: "\<forall>x \<in> set ?p. is_ascii_graphic x \<and> x \<noteq> 9" using a b c by (auto simp: is_ascii_graphic_def)
  have shown: "show_vendor (k, vendor) = (?p @ 9 # vendor) @ []" by (simp add: k a b c)
  obtain r where r: "trim ((?p @ 9 # vendor) @ []) = (?p @ 9 # vendor) @ r" and "r \<noteq> [] \<Longrightarrow> False"
    using ok p by (rule_tac trim_end [of "?p @ 9 # vendor" "[]"]) (auto simp: list_all_iff plain_def graphic_ascii)
  then have t: "trim (show_vendor (k, vendor)) = ?p @ 9 # vendor" unfolding shown r by auto
  have "split_once 9 (?p @ 9 # vendor) = Some (?p, vendor)" using p by (auto simp: split_once_def)
  then show ?thesis
    using p unfolding vendor_of_line_def t
    by (simp add: Let_def k a b c str_slice_def is_char_boundary_def graphic_boundary)
qed

lemma load_vendors_read:
  "list_all vendor_ok es \<Longrightarrow> load_vendors (map show_vendor es) m = Some (fold (\<lambda>e. or_insert (Some e)) es m)"
proof (induction es arbitrary: m)
  case (Cons e es)
  then show ?case using vendor_read [of "fst e" "snd e"] by simp
qed simp

lemma vendor_plain:
  assumes "vendor_ok e"
  shows "list_all plain (show_vendor e)"
proof -
  obtain a b c vendor where e: "e = ((a, b, c), vendor)" by (metis prod.collapse)
  have "list_all plain (hex2_upper b)" for b
    by (rule hex2_upper_facts [of b]) (simp add: graphic_plain)
  then show ?thesis using assms by (simp add: e plain_def newline_def carriage_return_def)
qed

lemma fold_entries: "Mapping.lookup (fold (\<lambda>e. or_insert (Some e)) es Mapping.empty) k = map_of es k"
  using lookup_first [of Some es k] by (simp add: map_filter_def comp_def)

text \<open>The vendor database: once it is loaded from the file of a list of entries,
  the vendor of a MAC address, in the form the parser shows it, is the one of the first entry for
  its first three octets, and the lookup does not panic.\<close>

theorem vendor_file_loaded:
  assumes "gunzip gz = Inr (show_vendors es)" and "list_all vendor_ok es" and "es \<noteq> []" and "6 \<le> length mac"
  shows "\<exists>t. oui_from_embedded gunzip gz = Some (Inr t) \<and>
    vendor_of t (show_mac mac) = Some (map_of es (mac ! 0, mac ! 1, mac ! 2))"
proof -
  have "lines (show_vendors es) = map show_vendor es"
  proof -
    have "\<forall>l \<in> set (map show_vendor es). list_all plain l" using assms(2) vendor_plain by (auto simp only: list_all_iff set_map)
    from plain_lines [OF this] show ?thesis by (simp add: show_vendors_def comp_def)
  qed
  moreover have "\<not> Mapping.is_empty (fold (\<lambda>e. or_insert (Some e)) es Mapping.empty)"
    using fold_is_empty [of Some es] assms(3) by (simp add: map_filter_def comp_def)
  ultimately show ?thesis
    using assms by (simp add: oui_from_embedded_def load_vendors_read vendor_of_def mac_prefix fold_entries)
qed

definition sample_vendors :: "((u8 \<times> u8 \<times> u8) \<times> bytes) list" where
  "sample_vendors = [((0, 27, 99), ascii ''Apple, Inc.''), ((0, 27, 99), ascii ''Other''), ((16, 32, 255), ascii ''Acme'')]"

lemma vendor_file_loaded_witness:
  "\<exists>t. oui_from_embedded (\<lambda>gz. Inr (tl gz)) (31 # show_vendors sample_vendors) = Some (Inr t) \<and>
     vendor_of t (show_mac [0, 27, 99, 1, 2, 3]) = Some (Some (ascii ''Apple, Inc.''))"
proof -
  have "\<exists>t. oui_from_embedded (\<lambda>gz. Inr (tl gz)) (31 # show_vendors sample_vendors) = Some (Inr t) \<and>
    vendor_of t (show_mac [0, 27, 99, 1, 2, 3]) = Some (map_of sample_vendors ([0, 27, 99, 1, 2, 3] ! 0, [0, 27, 99, 1, 2, 3] ! 1, [0, 27, 99, 1, 2, 3] ! 2))"
    by (rule vendor_file_loaded)
      (simp_all add: sample_vendors_def ascii_def plain_def newline_def carriage_return_def is_space_def)
  then show ?thesis by (simp add: sample_vendors_def)
qed

end
