(* ===== verification/QueryFilter.thy ===== *)
theory QueryFilter
  imports Display Lookups
begin

text \<open>
  The connection filter of the user interface (\<^verbatim>\<open>src/filter.rs\<close>): a query is a list of words, each
  is a criterion, and a connection has to meet all of them. The parameters are what
  \<open>to_lowercase\<close> makes of text with non-ASCII characters and the crate \<^verbatim>\<open>regex-lite\<close>: a
  pattern gives an error or a predicate on texts.
\<close>

section \<open>Data\<close>

record TextEnv =
  unicode_lower :: "bytes \<Rightarrow> bytes"
  regex_new :: "bytes \<Rightarrow> (bytes \<Rightarrow> bool) option"

datatype FilterValue =
  Literal bytes | Regex "bytes \<Rightarrow> bool"

datatype PortMatch =
  Exact u16 | Partial bytes | Regex "bytes \<Rightarrow> bool"

datatype FilterCriteria =
  General FilterValue | Port PortMatch | SourcePort PortMatch | DestinationPort PortMatch
  | SourceIp FilterValue | DestinationIp FilterValue | Protocol FilterValue | Process FilterValue
  | Service FilterValue | Sni FilterValue | Application FilterValue | State FilterValue

section \<open>Parsing\<close>

definition slash :: u8 where "slash = 47"

definition is_pattern :: "bytes \<Rightarrow> bool" where
  "is_pattern value \<longleftrightarrow> starts_with value [slash] \<and> ends_with value [slash] \<and> length value > 2"

definition parse_port_match :: "TextEnv \<Rightarrow> bytes \<Rightarrow> PortMatch" where
  "parse_port_match E value =
     (if is_pattern value then
        (case regex_new E (take (length value - 2) (drop 1 value)) of
           Some re \<Rightarrow> PortMatch.Regex re
         | None \<Rightarrow> Partial value)
      else if list_all is_ascii_digit value then
        (case parse_uint 65536 value of Some n \<Rightarrow> Exact (of_nat n) | None \<Rightarrow> Partial value)
      else Partial value)"

definition parse_filter_value :: "TextEnv \<Rightarrow> bytes \<Rightarrow> FilterValue" where
  "parse_filter_value E value =
     (if is_pattern value then
        (case regex_new E (ascii ''(?i)'' @ take (length value - 2) (drop 1 value)) of
           Some re \<Rightarrow> FilterValue.Regex re
         | None \<Rightarrow> Literal value)
      else Literal value)"

definition lower :: "TextEnv \<Rightarrow> bytes \<Rightarrow> bytes" where
  "lower E = to_lowercase (unicode_lower E)"

definition criterion_of :: "TextEnv \<Rightarrow> bytes \<Rightarrow> FilterCriteria" where
  "criterion_of E part =
     (case split_once colon part of
        Some (keyword, v) \<Rightarrow>
          (let value = lower E v; k = lower E keyword in
           if k = ascii ''port'' then Port (parse_port_match E value)
           else if k \<in> {ascii ''sport'', ascii ''srcport'', ascii ''source-port''} then
             SourcePort (parse_port_match E value)
           else if k \<in> {ascii ''dport'', ascii ''dstport'', ascii ''dest-port'', ascii ''destination-port''} then
             DestinationPort (parse_port_match E value)
           else if k \<in> {ascii ''src'', ascii ''source''} then SourceIp (parse_filter_value E value)
           else if k \<in> {ascii ''dst'', ascii ''dest'', ascii ''destination''} then
             DestinationIp (parse_filter_value E value)
           else if k \<in> {ascii ''proto'', ascii ''protocol''} then FilterCriteria.Protocol (parse_filter_value E value)
           else if k \<in> {ascii ''process'', ascii ''proc''} then Process (parse_filter_value E value)
           else if k \<in> {ascii ''service'', ascii ''svc''} then Service (parse_filter_value E value)
           else if k \<in> {ascii ''sni'', ascii ''host'', ascii ''hostname''} then Sni (parse_filter_value E value)
           else if k \<in> {ascii ''app'', ascii ''application''} then Application (parse_filter_value E value)
           else if k = ascii ''state'' then State (parse_filter_value E value)
           else General (parse_filter_value E (lower E part)))
      | None \<Rightarrow> General (parse_filter_value E (lower E part)))"

definition parse :: "TextEnv \<Rightarrow> bytes \<Rightarrow> FilterCriteria list" where
  "parse E query = (if trim query = [] then [] else map (criterion_of E) (split_whitespace query))"

section \<open>Matching\<close>

definition match_port :: "u16 \<Rightarrow> PortMatch \<Rightarrow> bool" where
  "match_port p m =
     (case m of
        Exact n \<Rightarrow> p = n
      | Partial s \<Rightarrow> contains_str (decimal (unat p)) s
      | PortMatch.Regex re \<Rightarrow> re (decimal (unat p)))"

definition match_text :: "TextEnv \<Rightarrow> FilterValue \<Rightarrow> bytes \<Rightarrow> bool" where
  "match_text E fv haystack =
     (case fv of
        Literal s \<Rightarrow> contains_str (lower E haystack) s
      | FilterValue.Regex re \<Rightarrow> re haystack)"

definition match_opt :: "TextEnv \<Rightarrow> FilterValue \<Rightarrow> bytes option \<Rightarrow> bool" where
  "match_opt E fv t = (case t of Some s \<Rightarrow> match_text E fv s | None \<Rightarrow> False)"

definition matches_sni :: "TextEnv \<Rightarrow> FilterValue \<Rightarrow> Connection \<Rightarrow> bool" where
  "matches_sni E fv conn =
     (case dpi_info conn of
        None \<Rightarrow> False
      | Some d \<Rightarrow>
          (case application d of
             Https i \<Rightarrow> match_opt E fv (Option.bind (https_tls_info i) tls_sni)
           | Quic i \<Rightarrow> match_opt E fv (Option.bind (quic_tls_info i) tls_sni)
           | Http i \<Rightarrow> match_opt E fv (http_host i)
           | _ \<Rightarrow> False))"

definition matches_application :: "TextEnv \<Rightarrow> FilterValue \<Rightarrow> Connection \<Rightarrow> bool" where
  "matches_application E fv conn =
     (case dpi_info conn of Some d \<Rightarrow> match_text E fv (show_application (application d)) | None \<Rightarrow> False)"

text \<open>\<open>format!("{:?}", state).to_lowercase()\<close>\<close>

definition ssh_state_text :: "SshConnectionState \<Rightarrow> bytes" where
  "ssh_state_text s =
     (case s of Banner \<Rightarrow> ascii ''banner'' | KeyExchange \<Rightarrow> ascii ''keyexchange''
      | Authentication \<Rightarrow> ascii ''authentication'' | SshConnectionState.Established \<Rightarrow> ascii ''established'')"

definition matches_tls :: "TextEnv \<Rightarrow> FilterValue \<Rightarrow> TlsInfo option \<Rightarrow> bool" where
  "matches_tls E fv tls =
     (case tls of None \<Rightarrow> False | Some t \<Rightarrow> match_opt E fv (tls_sni t) \<or> list_ex (match_text E fv) (tls_alpn t))"

definition matches_dpi_general :: "TextEnv \<Rightarrow> FilterValue \<Rightarrow> ApplicationProtocol \<Rightarrow> bool" where
  "matches_dpi_general E fv a \<longleftrightarrow>
     match_text E fv (show_application a) \<or>
     (case a of
        Http i \<Rightarrow> match_opt E fv (http_host i) \<or> match_opt E fv (http_path i) \<or> match_opt E fv (http_method i)
      | Https i \<Rightarrow> matches_tls E fv (https_tls_info i)
      | Dns i \<Rightarrow> match_opt E fv (dns_query_name i)
      | Quic i \<Rightarrow> matches_tls E fv (quic_tls_info i)
      | Ssh i \<Rightarrow>
          match_text E fv (ascii ''ssh'') \<or> match_opt E fv (server_software i) \<or> match_opt E fv (client_software i)
          \<or> match_text E fv (ssh_state_text (ssh_state i)) \<or> list_ex (match_text E fv) (algorithms i)
      | Ntp _ \<Rightarrow> match_text E fv (ascii ''ntp'')
      | Ftp i \<Rightarrow>
          match_text E fv (ascii ''ftp'') \<or> match_opt E fv (ftp_command i) \<or> match_opt E fv (ftp_username i)
          \<or> match_opt E fv (ftp_server_software i) \<or> match_opt E fv (ftp_system_type i)
          \<or> match_opt E fv (map_option (\<lambda>code. decimal (unat code)) (ftp_response_code i))
      | Mdns i \<Rightarrow> match_opt E fv (mdns_query_name i)
      | Llmnr i \<Rightarrow> match_opt E fv (llmnr_query_name i)
      | Dhcp i \<Rightarrow> match_opt E fv (dhcp_hostname i)
      | Snmp i \<Rightarrow> match_opt E fv (snmp_community i)
      | Ssdp i \<Rightarrow> match_opt E fv (ssdp_service_type i)
      | NetBios i \<Rightarrow> match_opt E fv (netbios_name i)
      | BitTorrent i \<Rightarrow> match_text E fv (ascii ''bittorrent'') \<or> match_opt E fv (bt_client i)
      | Stun i \<Rightarrow> match_text E fv (ascii ''stun'') \<or> match_opt E fv (stun_software i)
      | Mqtt i \<Rightarrow> match_text E fv (ascii ''mqtt'') \<or> match_opt E fv (mqtt_client_id i) \<or> match_opt E fv (mqtt_topic i))"

definition matches_general :: "TextEnv \<Rightarrow> FilterValue \<Rightarrow> Connection \<Rightarrow> bool" where
  "matches_general E fv conn \<longleftrightarrow>
     match_text E fv (show_protocol (protocol conn)) \<or> match_text E fv (show_socket (local_addr conn))
     \<or> match_text E fv (show_socket (remote_addr conn))
     \<or> match_opt E fv (process_name conn)
     \<or> match_opt E fv (service_name conn)
     \<or> (case dpi_info conn of Some d \<Rightarrow> matches_dpi_general E fv (application d) | None \<Rightarrow> False)
     \<or> (case protocol_state conn of
          PS_Arp i \<Rightarrow> match_opt E fv (arp_sender_vendor i) \<or> match_opt E fv (arp_target_vendor i)
        | _ \<Rightarrow> False)"

definition meets :: "TextEnv \<Rightarrow> clock \<Rightarrow> Connection \<Rightarrow> FilterCriteria \<Rightarrow> bool" where
  "meets E clk conn criterion =
     (case criterion of
        General fv \<Rightarrow> matches_general E fv conn
      | Port pm \<Rightarrow> match_port (port (local_addr conn)) pm \<or> match_port (port (remote_addr conn)) pm
      | SourcePort pm \<Rightarrow> match_port (port (local_addr conn)) pm
      | DestinationPort pm \<Rightarrow> match_port (port (remote_addr conn)) pm
      | SourceIp fv \<Rightarrow> match_text E fv (show_ip (ip (local_addr conn)))
      | DestinationIp fv \<Rightarrow> match_text E fv (show_ip (ip (remote_addr conn)))
      | FilterCriteria.Protocol fv \<Rightarrow> match_text E fv (show_protocol (protocol conn))
      | Process fv \<Rightarrow> match_opt E fv (process_name conn)
      | Service fv \<Rightarrow> match_opt E fv (service_name conn)
      | Sni fv \<Rightarrow> matches_sni E fv conn
      | Application fv \<Rightarrow> matches_application E fv conn
      | State fv \<Rightarrow> match_text E fv (connection_state_text clk conn))"

definition matches :: "TextEnv \<Rightarrow> clock \<Rightarrow> FilterCriteria list \<Rightarrow> Connection \<Rightarrow> bool" where
  "matches E clk criteria conn = (if criteria = [] then True else list_all (meets E clk conn) criteria)"

section \<open>Queries as lists of words\<close>

lemma chars_nonempty: "c \<in> set (chars s) \<Longrightarrow> c \<noteq> []"
proof (induction s rule: chars.induct)
  case (1 bs)
  then show ?case using utf8_head_pos [of bs] by (cases "bs = []") (auto simp: chars.simps [of bs] dest: sym)
qed

lemma split_chars_all: "\<forall>c \<in> set cs. P c \<Longrightarrow> \<forall>w \<in> set (split_chars P cs). w = []"
  by (induction cs) auto

lemma trim_empty: "trim s = [] \<Longrightarrow> split_whitespace s = []"
proof -
  let ?d = "dropWhile is_whitespace (chars s)"
  assume "trim s = []"
  then have "\<forall>c \<in> set (dropWhile is_whitespace (rev ?d)). c = []" by (simp add: trim_def)
  moreover have "\<forall>c \<in> set (dropWhile is_whitespace (rev ?d)). c \<noteq> []"
    using chars_nonempty by (metis set_dropWhileD set_rev)
  ultimately have "dropWhile is_whitespace (rev ?d) = []" by (cases "dropWhile is_whitespace (rev ?d)") auto
  then have "\<forall>c \<in> set ?d. is_whitespace c" by (simp add: dropWhile_eq_Nil_conv)
  then have "?d = []" using hd_dropWhile [of is_whitespace "chars s"] by (cases "?d") auto
  then have "\<forall>c \<in> set (chars s). is_whitespace c" by (simp add: dropWhile_eq_Nil_conv)
  from split_chars_all [OF this] show ?thesis by (auto simp: split_whitespace_def filter_empty_conv)
qed

lemma parse_words: "parse E q = map (criterion_of E) (split_whitespace q)"
  using trim_empty [of q] by (simp add: parse_def)

text \<open>A string is read up to the end of a valid prefix, and on from there.\<close>

definition utf8_of :: "u8 \<Rightarrow> u8 \<Rightarrow> u8 \<Rightarrow> u8 \<Rightarrow> bool \<times> nat" where
  "utf8_of a b c d =
     (if a < 128 then (True, 1)
      else if 194 \<le> a \<and> a \<le> 223 then (if is_cont b then (True, 2) else (False, 1))
      else if 224 \<le> a \<and> a \<le> 239 then
        (if \<not> second3_ok a b then (False, 1) else if is_cont c then (True, 3) else (False, 2))
      else if 240 \<le> a \<and> a \<le> 244 then
        (if \<not> second4_ok a b then (False, 1) else if \<not> is_cont c then (False, 2)
         else if is_cont d then (True, 4) else (False, 3))
      else (False, 1))"

lemma utf8_head_of: "utf8_head bs = utf8_of (byte_or_0 bs 0) (byte_or_0 bs 1) (byte_or_0 bs 2) (byte_or_0 bs 3)"
  by (simp only: utf8_head_def utf8_of_def Let_def)

text \<open>The bytes of a valid sequence decide; past the end of the text a byte reads as 0.\<close>

lemma utf8_of_cases:
  assumes "fst (utf8_of a b c d)"
  obtains "\<And>b' c' d'. utf8_of a b' c' d' = (True, 1)"
  | "\<And>c' d'. utf8_of a b c' d' = (True, 2)" "b \<noteq> 0"
  | "\<And>d'. utf8_of a b c d' = (True, 3)" "b \<noteq> 0" "c \<noteq> 0"
  | "utf8_of a b c d = (True, 4)" "b \<noteq> 0" "c \<noteq> 0" "d \<noteq> 0"
proof -
  have z: "\<not> is_cont 0" "\<not> second3_ok a 0" "\<not> second4_ok a 0"
    by (simp_all add: is_cont_def second3_ok_def second4_ok_def)
  consider "a < 128" | "\<not> a < 128" "194 \<le> a \<and> a \<le> 223"
    | "\<not> a < 128" "\<not> (194 \<le> a \<and> a \<le> 223)" "224 \<le> a \<and> a \<le> 239"
    | "\<not> a < 128" "\<not> (194 \<le> a \<and> a \<le> 223)" "\<not> (224 \<le> a \<and> a \<le> 239)" "240 \<le> a \<and> a \<le> 244"
    using assms unfolding utf8_of_def by (auto split: if_splits)
  then show thesis
  proof cases
    case 1
    then show thesis by (intro that(1)) (simp add: utf8_of_def)
  next
    case 2
    then have "is_cont b" using assms by (simp add: utf8_of_def split: if_splits)
    then show thesis using 2 z(1) by (intro that(2)) (auto simp: utf8_of_def)
  next
    case 3
    then have "second3_ok a b" "is_cont c" using assms by (simp_all only: utf8_of_def if_True if_False split: if_splits) simp_all
    then show thesis using 3 z by (intro that(3)) (auto simp: utf8_of_def)
  next
    case 4
    then have "second4_ok a b" "is_cont c" "is_cont d"
      using assms by (simp_all only: utf8_of_def if_True if_False split: if_splits) simp_all
    then show thesis using 4 z by (intro that(4)) (auto simp: utf8_of_def)
  qed
qed

lemma utf8_head_append:
  assumes "fst (utf8_head bs)" and "bs \<noteq> []"
  shows "utf8_head (bs @ r) = utf8_head bs \<and> snd (utf8_head bs) \<le> length bs"
proof -
  have at: "byte_or_0 (bs @ r) i = byte_or_0 bs i" if "i < length bs" for i
    using that by (simp add: byte_or_0_def nth_append)
  have in_text: "byte_or_0 bs i \<noteq> 0 \<Longrightarrow> i < length bs" for i
    by (simp add: byte_or_0_def split: if_splits)
  have len: "0 < length bs" using assms(2) by simp
  from assms(1) [unfolded utf8_head_of] show ?thesis
  proof (cases rule: utf8_of_cases)
    case 1
    then show ?thesis using len by (simp add: at utf8_head_of Suc_le_eq)
  next
    case 2
    then show ?thesis using len in_text [of 1] by (simp add: at utf8_head_of)
  next
    case 3
    then show ?thesis using len in_text [of 1] in_text [of 2] by (simp add: at utf8_head_of)
  next
    case 4
    then show ?thesis using len in_text [of 1] in_text [of 2] in_text [of 3] by (simp add: at utf8_head_of)
  qed
qed

lemma chars_append: "utf8_valid bs \<Longrightarrow> chars (bs @ r) = chars bs @ chars r"
proof (induction bs rule: chars.induct)
  case (1 bs)
  show ?case
  proof (cases "bs = []")
    case False
    let ?n = "snd (utf8_head bs)"
    have v: "fst (utf8_head bs)" "utf8_valid (drop ?n bs)"
      using 1(2) False by (auto simp: utf8_valid.simps [of bs] split: if_splits)
    have "chars (bs @ r) = take ?n bs # chars (drop ?n bs @ r)"
      using False utf8_head_append [OF v(1) False] by (simp add: chars.simps [of "bs @ r"])
    then show ?thesis using 1(1) [OF False v(2)] False by (simp add: chars.simps [of bs])
  qed simp
qed

lemma split_chars_sep: "P c \<Longrightarrow> split_chars P (xs @ c # ys) = split_chars P xs @ split_chars P ys"
proof (induction xs)
  case (Cons x xs)
  have "split_chars P xs \<noteq> []" by (induction xs) (auto split: list.splits)
  then show ?case using Cons by (cases "split_chars P xs") auto
qed simp

lemma words_append:
  "utf8_valid q \<Longrightarrow> is_space c \<Longrightarrow> split_whitespace (q @ c # r) = split_whitespace q @ split_whitespace r"
  by (simp add: split_whitespace_def chars_append space_ascii split_chars_sep)

text \<open>Letters: a query in ASCII means the same in lower case.\<close>

definition lower_ascii :: "bytes \<Rightarrow> bytes" where
  "lower_ascii = map to_ascii_lowercase"

lemma to_lower_cases: "c < 128 \<Longrightarrow> to_ascii_lowercase c < 128"
  and to_lower_idem: "to_ascii_lowercase (to_ascii_lowercase c) = to_ascii_lowercase c"
  by (auto simp: to_ascii_lowercase_def word_le_nat_alt word_less_nat_alt unat_word_ariths)

lemma to_lower_keeps:
  assumes "d < 65 \<or> 90 < d \<and> d < 97 \<or> 122 < d"
  shows "to_ascii_lowercase c = d \<longleftrightarrow> c = d"
proof (cases "65 \<le> c \<and> c \<le> 90")
  case True
  then have "unat (c + 32) = unat c + 32" by (simp add: unat_word_ariths word_le_nat_alt)
  then show ?thesis using True assms
    by (auto simp: to_ascii_lowercase_def word_le_nat_alt word_less_nat_alt)
qed (auto simp: to_ascii_lowercase_def)

lemma lower_ascii_simp: "list_all (\<lambda>c. c < 128) s \<Longrightarrow> lower E s = lower_ascii s"
  by (simp add: lower_def to_lowercase_def lower_ascii_def)

lemma lower_idem: "list_all (\<lambda>c. c < 128) s \<Longrightarrow> lower E (lower_ascii s) = lower E s"
  by (simp add: lower_def to_lowercase_def lower_ascii_def list_all_iff to_lower_cases to_lower_idem)

lemma position_map: "position P (map f s) = position (P \<circ> f) s"
  by (induction s) simp_all

lemma split_once_lower:
  "split_once colon (lower_ascii s) = map_option (map_prod lower_ascii lower_ascii) (split_once colon s)"
proof -
  have "((=) colon) \<circ> to_ascii_lowercase = (=) colon"
    by (rule ext) (use to_lower_keeps [of colon] in \<open>auto simp: colon_def eq_commute [of 58]\<close>)
  then show ?thesis
    by (simp add: split_once_def lower_ascii_def position_map take_map drop_map split: option.split)
qed

lemma split_once_parts: "split_once c s = Some (a, b) \<Longrightarrow> s = a @ c # b"
  by (auto simp: split_once_def position_less id_take_nth_drop split: option.splits dest!: position_less)

lemma criterion_lower:
  assumes "list_all (\<lambda>c. c < 128) w"
  shows "criterion_of E (lower_ascii w) = criterion_of E w"
proof (cases "split_once colon w")
  case None
  then show ?thesis using assms by (simp add: criterion_of_def split_once_lower lower_idem)
next
  case (Some kv)
  then obtain k v where kv: "split_once colon w = Some (k, v)" "w = k @ colon # v" by (cases kv) (auto dest: split_once_parts)
  then have "lower E (lower_ascii k) = lower E k" "lower E (lower_ascii v) = lower E v" using assms by (simp_all add: lower_idem)
  then show ?thesis unfolding criterion_of_def split_once_lower kv(1)
    by (simp only: option.map(2) map_prod_simp option.case(2) prod.case lower_idem [OF assms])
qed

lemma space_lower: "is_space (to_ascii_lowercase c) \<longleftrightarrow> is_space c"
  by (simp add: is_space_def to_lower_keeps)

lemma split_chars_lower:
  "split_chars is_whitespace (map (\<lambda>c. [to_ascii_lowercase c]) s)
   = map (map lower_ascii) (split_chars is_whitespace (map (\<lambda>c. [c]) s))"
  by (induction s) (auto simp: space_lower lower_ascii_def split: list.splits)

lemma words_lower:
  assumes "list_all (\<lambda>c. c < 128) s"
  shows "split_whitespace (lower_ascii s) = map lower_ascii (split_whitespace s)"
proof -
  have "chars s = map (\<lambda>c. [c]) s" "chars (lower_ascii s) = map (\<lambda>c. [to_ascii_lowercase c]) s"
    using assms by (simp_all add: chars_all_ascii lower_ascii_def list_all_iff to_lower_cases)
  moreover have "concat (map lower_ascii w) = lower_ascii (concat w)" for w
    by (simp add: lower_ascii_def map_concat)
  then have "map concat (map (map lower_ascii) ws) = map lower_ascii (map concat ws)" for ws by simp
  moreover have "filter (\<lambda>w. w \<noteq> []) (map lower_ascii ws) = map lower_ascii (filter (\<lambda>w. w \<noteq> []) ws)" for ws
    by (induction ws) (simp_all add: lower_ascii_def)
  ultimately show ?thesis unfolding split_whitespace_def by (simp only: split_chars_lower)
qed

lemma set_split_chars: "w \<in> set (split_chars P cs) \<Longrightarrow> set w \<subseteq> set cs"
proof (induction cs arbitrary: w)
  case (Cons c cs)
  then show ?case by (cases "split_chars P cs") (force split: if_splits)+
qed simp

lemma words_chars: "w \<in> set (split_whitespace s) \<Longrightarrow> set w \<subseteq> set s"
proof -
  assume "w \<in> set (split_whitespace s)"
  then obtain cs where "w = concat cs" "set cs \<subseteq> set (chars s)"
    using set_split_chars by (fastforce simp: split_whitespace_def)
  then have "set w \<subseteq> set (concat (chars s))" by (auto simp del: concat_chars)
  then show ?thesis by simp
qed

lemma parse_lower_ascii:
  assumes "list_all (\<lambda>c. c < 128) q"
  shows "parse E (lower_ascii q) = parse E q"
proof -
  have "list_all (\<lambda>c. c < 128) w" if "w \<in> set (split_whitespace q)" for w
    using words_chars [OF that] assms by (auto simp: list_all_iff)
  then show ?thesis by (simp add: parse_words words_lower [OF assms] criterion_lower)
qed

section \<open>Properties\<close>

text \<open>A query of two parts asks for both; the empty query for nothing.\<close>

lemma matches_append: "matches E clk (cs @ ds) conn \<longleftrightarrow> matches E clk cs conn \<and> matches E clk ds conn"
  by (simp add: matches_def)

text \<open>A pattern between slashes is taken in lower case too: the class of the characters that are no
  white space becomes the class of white space.\<close>

lemma pattern_class_lost: "parse E [47, 92, 83, 43, 47] = parse E [47, 92, 115, 43, 47]"
  using parse_lower_ascii [of "[47, 92, 83, 43, 47]" E] by (simp add: lower_ascii_def to_ascii_lowercase_def)

text \<open>C30 (functional). A filter query means its words, all of them: written one after the other, with
  white space between, two queries select the connections that each of them selects, and in
  ASCII the case of the letters makes no difference.\<close>

theorem query_selects_both:
  assumes "utf8_valid q" and "is_space s"
  shows "(matches E clk (parse E (q @ s # r)) conn \<longleftrightarrow>
      matches E clk (parse E q) conn \<and> matches E clk (parse E r) conn) \<and>
    (list_all (\<lambda>c. c < 128) q \<longrightarrow> parse E (lower_ascii q) = parse E q)"
  using words_append [OF assms, of r] by (simp add: parse_words [of E "q @ s # r"] parse_words [of E q, symmetric]
      parse_words [of E r, symmetric] matches_append parse_lower_ascii)

definition plain_env :: TextEnv where
  "plain_env = \<lparr>unicode_lower = (\<lambda>s. s), regex_new = (\<lambda>p. None)\<rparr>"

definition sample_https :: Connection where
  "sample_https = Connection_new sample_clock Tcp \<lparr>ip = V4 (Ipv4Addr 10 0 0 1), port = 40000\<rparr>
     \<lparr>ip = V4 (Ipv4Addr 10 0 0 2), port = 443\<rparr> (PS_Tcp TcpState.Established)"

lemma query_selects_both_witness:
  "matches plain_env sample_clock (parse plain_env (ascii ''PORT:443'' @ 32 # ascii ''proto:tcp'')) sample_https
   \<longleftrightarrow> matches plain_env sample_clock (parse plain_env (ascii ''port:443'')) sample_https
     \<and> matches plain_env sample_clock (parse plain_env (ascii ''proto:tcp'')) sample_https"
proof -
  have "utf8_valid (ascii ''PORT:443'')" "is_space 32" by (simp_all add: ascii_def is_space_def)
  note both = query_selects_both [OF this, of plain_env sample_clock "ascii ''proto:tcp''" sample_https]
  moreover have "list_all (\<lambda>c. c < 128) (ascii ''PORT:443'')" "lower_ascii (ascii ''PORT:443'') = ascii ''port:443''"
    by (simp_all add: ascii_def lower_ascii_def to_ascii_lowercase_def)
  ultimately show ?thesis by simp
qed

section \<open>Words of one criterion\<close>

lemma single_word: "list_all is_ascii_graphic w \<Longrightarrow> w \<noteq> [] \<Longrightarrow> parse E w = [criterion_of E w]"
  by (simp add: parse_words split_whitespace_last)

lemma split_once_first: "c \<notin> set k \<Longrightarrow> split_once c (k @ c # v) = Some (k, v)"
proof -
  assume "c \<notin> set k"
  then have "position ((=) c) (k @ c # v) = Some (length k)" by (induction k) auto
  then show ?thesis by (simp add: split_once_def)
qed

lemma hd_lower_slash: "starts_with (lower_ascii x) [slash] \<longleftrightarrow> starts_with x [slash]"
  by (cases x) (auto simp: starts_with_def lower_ascii_def slash_def to_lower_keeps)

definition host_keywords :: "bytes list" where
  "host_keywords = [ascii ''sni'', ascii ''host'', ascii ''hostname'']"

lemma ascii_inject: "ascii s = ascii t \<longleftrightarrow> s = t"
proof -
  have "c = d" if "(of_char c :: u8) = of_char d" for c d
  proof -
    have "unat (of_char c :: u8) = of_char c" "unat (of_char d :: u8) = of_char d"
      by (simp_all add: of_char_def unat_word_ariths)
    then show ?thesis using that by (metis of_char_eq_iff)
  qed
  then have "inj (of_char :: char \<Rightarrow> u8)" by (rule injI)
  then show ?thesis by (simp add: ascii_def inj_map_eq_map)
qed

lemma host_word:
  assumes "k \<in> set host_keywords" and "list_all is_ascii_graphic x" and "\<not> starts_with x [slash]"
  shows "parse E (k @ colon # x) = [Sni (Literal (lower_ascii x))]"
proof -
  consider "k = ascii ''sni''" | "k = ascii ''host''" | "k = ascii ''hostname''"
    using assms(1) by (auto simp: host_keywords_def)
  then have k: "list_all is_ascii_graphic (k @ [colon]) \<and> colon \<notin> set k \<and> lower E k = k"
    by cases (simp_all add: ascii_def is_ascii_graphic_def colon_def lower_def to_lowercase_def to_ascii_lowercase_def)
  have "list_all (\<lambda>c. c < 128) x" using assms(2) list_all_graphic by blast
  then have v: "parse_filter_value E (lower E x) = Literal (lower_ascii x)"
    using assms(3) by (simp add: lower_ascii_simp parse_filter_value_def is_pattern_def hd_lower_slash)
  have split: "split_once colon (k @ colon # x) = Some (k, x)" using k by (simp add: split_once_first)
  consider "k = ascii ''sni''" | "k = ascii ''host''" | "k = ascii ''hostname''"
    using assms(1) by (auto simp: host_keywords_def)
  then have "criterion_of E (k @ colon # x) = Sni (Literal (lower_ascii x))"
    unfolding criterion_of_def split using k
    by cases (simp_all add: v Let_def ascii_inject)
  moreover have "list_all is_ascii_graphic (k @ colon # x)" using k(1) assms(2) by simp
  ultimately show ?thesis by (simp add: single_word)
qed

text \<open>The host that a connection is known to speak to, and text within it in any case.\<close>

definition known_host :: "Connection \<Rightarrow> bytes option" where
  "known_host c =
     (case map_option application (dpi_info c) of
        Some (Https i) \<Rightarrow> Option.bind (https_tls_info i) tls_sni
      | Some (Quic i) \<Rightarrow> Option.bind (quic_tls_info i) tls_sni
      | Some (Http i) \<Rightarrow> http_host i
      | _ \<Rightarrow> None)"

definition occurs :: "bytes \<Rightarrow> bytes \<Rightarrow> bool" where
  "occurs p s \<longleftrightarrow> (\<exists>a b. s = a @ p @ b)"

lemma contains_occurs: "contains_str s p \<longleftrightarrow> occurs p s"
proof (induction s)
  case (Cons c s)
  have "starts_with (c # s) p \<longleftrightarrow> (\<exists>b. c # s = p @ b)"
    unfolding starts_with_def by (metis append_eq_conv_conj append_take_drop_id)
  moreover have "occurs p (c # s) \<longleftrightarrow> (\<exists>b. c # s = p @ b) \<or> occurs p s"
    unfolding occurs_def by (metis append_Cons append_Nil list.exhaust list.inject)
  ultimately show ?case using Cons by simp
qed (simp add: occurs_def)

lemma host_filter:
  assumes "k \<in> set host_keywords" and "list_all is_ascii_graphic x" and "\<not> starts_with x [slash]"
  shows "matches E clk (parse E (k @ colon # x)) conn \<longleftrightarrow>
    (\<exists>h. known_host conn = Some h \<and> occurs (lower_ascii x) (lower E h))"
  by (auto simp: host_word [OF assms] matches_def meets_def matches_sni_def match_opt_def match_text_def known_host_def
      contains_occurs split: option.splits ApplicationProtocol.splits)

lemma port_word: "parse E (ascii ''port:'' @ decimal (unat p)) = [Port (Exact p)]"
proof -
  have d: "list_all is_ascii_graphic (decimal (unat p))" "list_all is_ascii_digit (decimal (unat p))"
      "list_all (\<lambda>c. c < 128) (decimal (unat p))"
    using decimal_ascii [of "unat p"] by (auto simp: list_all_iff digit_graphic graphic_ascii)
  have s: "ascii ''port:'' @ x = ascii ''port'' @ colon # x" for x by (simp add: ascii_def colon_def)
  have c: "colon \<notin> set (ascii ''port'')" by (simp add: ascii_def colon_def)
  have l: "lower_ascii (decimal (unat p)) = decimal (unat p)"
    using d(2) by (auto simp: lower_ascii_def list_all_iff is_ascii_digit_def to_ascii_lowercase_def word_le_nat_alt intro!: map_idI)
  have k: "lower E (ascii ''port'') = ascii ''port''" by (simp add: lower_def to_lowercase_def ascii_def to_ascii_lowercase_def)
  have "\<not> is_pattern (decimal (unat p))"
    using d(2) radix_nonempty [of 10 "unat p"] by (cases "decimal (unat p)") (auto simp: is_pattern_def starts_with_def slash_def is_ascii_digit_def)
  then have "parse_port_match E (decimal (unat p)) = Exact p"
    using d(2) unat_u16_bound [of p] by (simp add: parse_port_match_def parse_decimal)
  then have "criterion_of E (ascii ''port'' @ colon # decimal (unat p)) = Port (Exact p)"
    by (simp add: criterion_of_def split_once_first [OF c] k lower_ascii_simp [OF d(3)] l Let_def)
  moreover have "list_all is_ascii_graphic (ascii ''port'' @ colon # decimal (unat p))"
    using d(1) by (simp add: ascii_def colon_def is_ascii_graphic_def)
  ultimately show ?thesis unfolding s by (simp add: single_word)
qed

lemma port_filter:
  "matches E clk (parse E (ascii ''port:'' @ decimal (unat p))) conn \<longleftrightarrow>
    port (local_addr conn) = p \<or> port (remote_addr conn) = p"
  by (simp add: port_word matches_def meets_def match_port_def)

end
