(* ===== verification/TransportParse.thy ===== *)
theory TransportParse
  imports Dpi TcpTrack
begin

text \<open>
  The transport layer of the packet parser: \<^verbatim>\<open>protocol/tcp.rs\<close>, \<^verbatim>\<open>udp.rs\<close>, \<^verbatim>\<open>icmp.rs\<close> and
  \<^verbatim>\<open>igmp.rs\<close>. A parser returns an option, in the option monad of \<^verbatim>\<open>RustStr\<close>: the outer \<open>None\<close>
  is a panic. The payload inspection is that of \<^verbatim>\<open>Dpi\<close>; the cryptography it needs for QUIC, the
  reading of the clock while a packet is inspected and the vendor table are fields of the parser's
  record. The direction of a packet is decided by the set of local addresses, a list here.
  Connection keys are shown to determine the flow.
\<close>

record ParserConfig =
  enable_dpi :: bool
  dpi_packet_limit :: nat

record PacketParser =
  local_ips :: "ip_addr list"
  parser_config :: ParserConfig
  linktype :: "int option"
  oui_lookup :: "(bytes \<Rightarrow> bytes option) option"
  crypto :: quic_crypto
  inspect_time :: instant

definition ParserConfig_default :: ParserConfig where
  "ParserConfig_default = \<lparr>enable_dpi = True, dpi_packet_limit = 10\<rparr>"

text \<open>Not called outside of log statements: every packet is inspected.\<close>

definition should_perform_dpi :: "ParserConfig \<Rightarrow> nat \<Rightarrow> bool" where
  "should_perform_dpi cfg packet_count \<longleftrightarrow> enable_dpi cfg \<and> packet_count < dpi_packet_limit cfg"

text \<open>\<open>parser_with_config\<close> takes the addresses of the interfaces, the cryptography and the time.\<close>

definition parser_with_config :: "ip_addr list \<Rightarrow> quic_crypto \<Rightarrow> instant \<Rightarrow> ParserConfig \<Rightarrow> PacketParser" where
  "parser_with_config ips C now cfg = \<lparr>local_ips = ips, parser_config = cfg, linktype = None, oui_lookup = None,
     crypto = C, inspect_time = now\<rparr>"

definition with_linktype :: "int \<Rightarrow> PacketParser \<Rightarrow> PacketParser" where
  "with_linktype lt P = P\<lparr>linktype := Some lt\<rparr>"

definition with_oui_lookup :: "(bytes \<Rightarrow> bytes option) \<Rightarrow> PacketParser \<Rightarrow> PacketParser" where
  "with_oui_lookup oui P = P\<lparr>oui_lookup := Some oui\<rparr>"

record TransportParams =
  src_ip :: ip_addr
  dst_ip :: ip_addr
  par_packet_len :: nat
  par_process_name :: "bytes option"
  par_process_id :: "u32 option"

section \<open>Direction and key\<close>

definition is_local :: "PacketParser \<Rightarrow> ip_addr \<Rightarrow> bool" where
  "is_local P addr \<longleftrightarrow> addr \<in> set (local_ips P)"

text \<open>Local and remote end of a packet from its source and destination ports.\<close>

definition endpoints :: "PacketParser \<Rightarrow> TransportParams \<Rightarrow> u16 \<Rightarrow> u16 \<Rightarrow> socket_addr \<times> socket_addr" where
  "endpoints P params sport dport =
     (if is_local P (src_ip params)
      then (\<lparr>ip = src_ip params, port = sport\<rparr>, \<lparr>ip = dst_ip params, port = dport\<rparr>)
      else (\<lparr>ip = dst_ip params, port = dport\<rparr>, \<lparr>ip = src_ip params, port = sport\<rparr>))"

fun key_prefix :: "Protocol \<Rightarrow> bytes" where
  "key_prefix Tcp = ascii ''TCP:''"
| "key_prefix Udp = ascii ''UDP:''"
| "key_prefix Icmp = ascii ''ICMP:''"
| "key_prefix Igmp = ascii ''IGMP:''"
| "key_prefix Arp = ascii ''ARP:''"

text \<open>\<open>format!("TCP:{}-TCP:{}", local_addr, remote_addr)\<close>\<close>

definition flow_key :: "Protocol \<Rightarrow> socket_addr \<Rightarrow> socket_addr \<Rightarrow> bytes" where
  "flow_key prot l r = key_prefix prot @ show_socket l @ hyphen # key_prefix prot @ show_socket r"

text \<open>The record every transport parser returns.\<close>

definition packet ::
  "PacketParser \<Rightarrow> TransportParams \<Rightarrow> Protocol \<Rightarrow> u16 \<Rightarrow> u16 \<Rightarrow> TcpHeaderInfo option \<Rightarrow> ProtocolState \<Rightarrow>
   ApplicationProtocol option \<Rightarrow> ParsedPacket" where
  "packet P params prot sport dport hdr st dpi =
     (let (l, r) = endpoints P params sport dport in
      \<lparr>connection_key = flow_key prot l r, pkt_protocol = prot, pkt_local_addr = l, pkt_remote_addr = r,
       tcp_header = hdr, pkt_protocol_state = st, is_outgoing = is_local P (src_ip params),
       packet_len = par_packet_len params, dpi_result = dpi,
       pkt_process_name = par_process_name params, pkt_process_id = par_process_id params\<rparr>)"

section \<open>Parsers\<close>

definition tcp_parse ::
  "PacketParser \<Rightarrow> TransportParams \<Rightarrow> bytes \<Rightarrow> ParsedPacket option option" where
  "tcp_parse P params data =
     (if length data < 20 then Some None
      else do {
        sport \<leftarrow> be16_at data 0;
        dport \<leftarrow> be16_at data 2;
        seq \<leftarrow> be32_at data 4;
        ackno \<leftarrow> be32_at data 8;
        win \<leftarrow> be16_at data 14;
        flag_bits \<leftarrow> byte_at data 13;
        offset_byte \<leftarrow> byte_at data 12;
        let header_len = unat (drop_bit 4 offset_byte) * 4;
        let hdr = \<lparr>hdr_seq = seq, hdr_ack = ackno, window = word_of_nat win,
                   flags = parse_tcp_flags flag_bits, payload_len = word_of_nat (length data - header_len)\<rparr>;
        let (l, r) = endpoints P params (word_of_nat sport) (word_of_nat dport);
        dpi \<leftarrow> (if enable_dpi (parser_config P) then
                  if length data > header_len then do {
                    payload \<leftarrow> sub_slice header_len (length data) data;
                    analyze_tcp_packet payload (port l) (port r) (is_local P (src_ip params))
                  }
                  else Some None
                else Some None);
        Some (Some (packet P params Tcp (word_of_nat sport) (word_of_nat dport) (Some hdr) (PS_Tcp TcpState.Unknown) dpi))
      })"

definition udp_parse ::
  "PacketParser \<Rightarrow> TransportParams \<Rightarrow> bytes \<Rightarrow> ParsedPacket option option" where
  "udp_parse P params data =
     (if length data < 8 then Some None
      else do {
        sport \<leftarrow> be16_at data 0;
        dport \<leftarrow> be16_at data 2;
        let (l, r) = endpoints P params (word_of_nat sport) (word_of_nat dport);
        dpi \<leftarrow> (if enable_dpi (parser_config P) \<and> length data > 8 then do {
                  payload \<leftarrow> sub_slice 8 (length data) data;
                  analyze_udp_packet (crypto P) (inspect_time P) payload (port l) (port r) (is_local P (src_ip params))
                }
                else Some None);
        Some (Some (packet P params Udp (word_of_nat sport) (word_of_nat dport) None PS_Udp dpi))
      })"

text \<open>\<open>icmp::parse\<close> and \<open>icmp::parse_v6\<close> differ in the two echo types.\<close>

definition icmp_parse_types ::
  "u8 \<Rightarrow> u8 \<Rightarrow> PacketParser \<Rightarrow> TransportParams \<Rightarrow> bytes \<Rightarrow> ParsedPacket option option" where
  "icmp_parse_types echo1 echo2 P params data =
     (if data = [] then Some None
      else do {
        ty \<leftarrow> byte_at data 0;
        ident \<leftarrow> (if length data \<ge> 6 \<and> (ty = echo1 \<or> ty = echo2)
                  then map_option (Some \<circ> word_of_nat) (be16_at data 4) else Some None);
        Some (Some (packet P params Icmp 0 0 None (PS_Icmp ty ident) None))
      })"

definition icmp_parse :: "PacketParser \<Rightarrow> TransportParams \<Rightarrow> bytes \<Rightarrow> ParsedPacket option option" where
  "icmp_parse = icmp_parse_types 8 0"

definition icmp_parse_v6 :: "PacketParser \<Rightarrow> TransportParams \<Rightarrow> bytes \<Rightarrow> ParsedPacket option option" where
  "icmp_parse_v6 = icmp_parse_types 128 129"

definition igmp_parse :: "PacketParser \<Rightarrow> TransportParams \<Rightarrow> bytes \<Rightarrow> ParsedPacket option option" where
  "igmp_parse P params data =
     (if data = [] then Some None
      else do {
        ty \<leftarrow> byte_at data 0;
        group \<leftarrow> (if ty \<noteq> 0x22 \<and> length data \<ge> 8 then do {
                    a \<leftarrow> byte_at data 4; b \<leftarrow> byte_at data 5; c \<leftarrow> byte_at data 6; d \<leftarrow> byte_at data 7;
                    Some (Some (Ipv4Addr a b c d))
                  }
                  else Some None);
        Some (Some (packet P params Igmp 0 0 None (PS_Igmp ty group) None))
      })"

section \<open>No panic\<close>

lemma tcp_parse_np [no_panic]: "returns (tcp_parse P params data)"
  unfolding tcp_parse_def by (intro no_panic) auto

lemma udp_parse_np [no_panic]: "crypto_ok (crypto P) \<Longrightarrow> returns (udp_parse P params data)"
  unfolding udp_parse_def by (intro no_panic) auto

lemma icmp_parse_np [no_panic]: "returns (icmp_parse P params data)" "returns (icmp_parse_v6 P params data)"
  unfolding icmp_parse_def icmp_parse_v6_def icmp_parse_types_def by (intro no_panic; simp)+

lemma igmp_parse_np [no_panic]: "returns (igmp_parse P params data)"
  unfolding igmp_parse_def by (intro no_panic) auto

section \<open>What every parser returns\<close>

text \<open>\<open>packet_ok\<close>: the key is that of the protocol and the two ends, the local end of an outgoing
  packet is local, the TCP header is present exactly for TCP.\<close>

definition packet_ok :: "PacketParser \<Rightarrow> ParsedPacket \<Rightarrow> bool" where
  "packet_ok P p \<longleftrightarrow>
     connection_key p = flow_key (pkt_protocol p) (pkt_local_addr p) (pkt_remote_addr p)
     \<and> (is_outgoing p \<longrightarrow> is_local P (ip (pkt_local_addr p)))
     \<and> (\<not> is_outgoing p \<longrightarrow> \<not> is_local P (ip (pkt_remote_addr p)))
     \<and> (tcp_header p \<noteq> None \<longleftrightarrow> pkt_protocol p = Tcp)"

lemma packet_packet_ok:
  "(hdr \<noteq> None \<longleftrightarrow> prot = Tcp) \<Longrightarrow> packet_ok P (packet P params prot sport dport hdr st dpi)"
  by (simp add: packet_ok_def packet_def endpoints_def)

named_theorems parsed_ok "what the parsers return is well-formed"

lemma transport_ok [parsed_ok]:
  "tcp_parse P params data = Some (Some p) \<Longrightarrow> packet_ok P p"
  "udp_parse P params data = Some (Some p) \<Longrightarrow> packet_ok P p"
  "icmp_parse P params data = Some (Some p) \<Longrightarrow> packet_ok P p"
  "icmp_parse_v6 P params data = Some (Some p) \<Longrightarrow> packet_ok P p"
  "igmp_parse P params data = Some (Some p) \<Longrightarrow> packet_ok P p"
  by (auto simp: tcp_parse_def udp_parse_def icmp_parse_def icmp_parse_v6_def icmp_parse_types_def igmp_parse_def
      Let_def packet_packet_ok split: if_splits bind_splits prod.splits)

text \<open>A key determines the protocol and both ends of its flow.\<close>

lemma key_prefix_chars: "hyphen \<notin> set (key_prefix prot)"
  by (cases prot) (simp_all add: ascii_def hyphen_def)

lemma key_prefix_inject: "key_prefix a @ xs = key_prefix b @ ys \<longleftrightarrow> a = b \<and> xs = ys"
  by (cases a; cases b) (simp_all add: ascii_def)

lemma flow_key_inject: "flow_key a l r = flow_key b l' r' \<longleftrightarrow> a = b \<and> l = l' \<and> r = r'"
proof
  assume eq: "flow_key a l r = flow_key b l' r'"
  have no: "hyphen \<notin> set (key_prefix p @ show_socket s)" for p s
    using key_prefix_chars show_socket_no_hyphen by simp
  have "key_prefix a @ show_socket l = key_prefix b @ show_socket l'
      \<and> key_prefix a @ show_socket r = key_prefix b @ show_socket r'"
    using eq no by (intro cut_first [where c = hyphen]) (simp_all add: flow_key_def)
  then show "a = b \<and> l = l' \<and> r = r'" by (simp add: key_prefix_inject show_socket_inject)
qed simp

lemma packet_ok_key:
  "packet_ok P p \<Longrightarrow> packet_ok P' q \<Longrightarrow> connection_key p = connection_key q \<longleftrightarrow>
   pkt_protocol p = pkt_protocol q \<and> pkt_local_addr p = pkt_local_addr q \<and> pkt_remote_addr p = pkt_remote_addr q"
  by (simp add: packet_ok_def flow_key_inject)

text \<open>The packets of the two directions of a flow.\<close>

definition reply :: "TransportParams \<Rightarrow> TransportParams" where
  "reply params = params\<lparr>src_ip := dst_ip params, dst_ip := src_ip params\<rparr>"

lemma endpoints_reply:
  "endpoints P (reply params) dport sport = endpoints P params sport dport \<longleftrightarrow>
     is_local P (src_ip params) \<noteq> is_local P (dst_ip params) \<or> (src_ip params, sport) = (dst_ip params, dport)"
  by (auto simp: endpoints_def reply_def)

end
