(* ===== verification/FrameParse.thy ===== *)
theory FrameParse
  imports TransportParse
begin

text \<open>
  The packet parser below the transport layer: IPv4, IPv6 with its extension headers and ARP of
  \<^verbatim>\<open>parser.rs\<close>, and the link layers of \<^verbatim>\<open>link_layer/\<close> (Ethernet with a VLAN tag, the two Linux
  cooked captures, raw IP, TUN/TAP) with the dispatch of \<open>parse_packet\<close> on the link type. The
  branch for PKTAP exists on macOS only and is left out; link types are then as on the other
  systems. As before the outer \<open>None\<close> is a panic.
\<close>

section \<open>Network layer\<close>

definition transport_params :: "ip_addr \<Rightarrow> ip_addr \<Rightarrow> nat \<Rightarrow> bytes option \<Rightarrow> u32 option \<Rightarrow> TransportParams" where
  "transport_params src dst len name procid =
     \<lparr>src_ip = src, dst_ip = dst, par_packet_len = len, par_process_name = name, par_process_id = procid\<rparr>"

text \<open>The common body of \<open>parse_raw_ipv4_packet\<close> (no bytes before the packet) and
  \<open>parse_ipv4_packet_inner\<close> (\<open>before\<close> bytes, which count into the length).\<close>

definition ipv4_body ::
  "PacketParser \<Rightarrow> nat \<Rightarrow> bytes \<Rightarrow> bytes option \<Rightarrow> u32 option \<Rightarrow> ParsedPacket option option" where
  "ipv4_body P before data name procid =
     (if length data < 20 then Some None
      else do {
        first \<leftarrow> byte_at data 0;
        if drop_bit 4 first \<noteq> 4 then Some None
        else do {
          total \<leftarrow> be16_at data 2;
          protocol_num \<leftarrow> byte_at data 9;
          src \<leftarrow> ipv4_at data 12;
          dst \<leftarrow> ipv4_at data 16;
          let header_len = unat (first AND 0x0F) * 4;
          if length data < header_len then Some None
          else do {
            transport \<leftarrow> sub_slice header_len (length data) data;
            let params = transport_params (V4 src) (V4 dst) (before + total) name procid;
            if protocol_num = 1 then icmp_parse P params transport
            else if protocol_num = 2 then igmp_parse P params transport
            else if protocol_num = 6 then tcp_parse P params transport
            else if protocol_num = 17 then udp_parse P params transport
            else Some None
          }
        }
      })"

definition parse_raw_ipv4_packet ::
  "PacketParser \<Rightarrow> bytes \<Rightarrow> bytes option \<Rightarrow> u32 option \<Rightarrow> ParsedPacket option option" where
  "parse_raw_ipv4_packet P data = ipv4_body P 0 data"

definition parse_ipv4_packet_inner ::
  "PacketParser \<Rightarrow> bytes \<Rightarrow> nat \<Rightarrow> bytes option \<Rightarrow> u32 option \<Rightarrow> ParsedPacket option option" where
  "parse_ipv4_packet_inner P data offset name procid = do {
     ip_data \<leftarrow> sub_slice offset (length data) data;
     ipv4_body P offset ip_data name procid
   }"

text \<open>The loop of \<open>parse_ipv6_extension_headers\<close>: the next header and the offset it starts at.
  Each round moves past a header and stops at the end of the data.\<close>

function ext_headers :: "u8 \<Rightarrow> bytes \<Rightarrow> nat \<Rightarrow> (u8 \<times> nat) option" where
  "ext_headers next_header data offset =
     (if next_header = 0 \<or> next_header = 43 \<or> next_header = 60 then
        if length data < offset + 2 then Some (next_header, offset)
        else do {
          n \<leftarrow> byte_at data offset;
          l \<leftarrow> byte_at data (offset + 1);
          let offset' = offset + (unat l + 1) * 8;
          if offset' \<ge> length data then Some (n, offset') else ext_headers n data offset'
        }
      else if next_header = 44 then
        if length data < offset + 8 then Some (next_header, offset)
        else do {
          n \<leftarrow> byte_at data offset;
          if offset + 8 \<ge> length data then Some (n, offset + 8) else ext_headers n data (offset + 8)
        }
      else if next_header = 51 then
        if length data < offset + 2 then Some (next_header, offset)
        else do {
          n \<leftarrow> byte_at data offset;
          l \<leftarrow> byte_at data (offset + 1);
          let offset' = offset + (unat l + 2) * 4;
          if offset' \<ge> length data then Some (n, offset') else ext_headers n data offset'
        }
      else Some (next_header, offset))"
  by pat_completeness auto
termination
  by (relation "measure (\<lambda>(_, data, offset). length data - offset)") auto

declare ext_headers.simps [simp del]

definition ipv6_body ::
  "PacketParser \<Rightarrow> nat \<Rightarrow> bytes \<Rightarrow> bytes option \<Rightarrow> u32 option \<Rightarrow> ParsedPacket option option" where
  "ipv6_body P before data name procid =
     (if length data < 40 then Some None
      else do {
        first \<leftarrow> byte_at data 0;
        if drop_bit 4 first \<noteq> 6 then Some None
        else do {
          payload_length \<leftarrow> be16_at data 4;
          next_header \<leftarrow> byte_at data 6;
          src \<leftarrow> ipv6_at data 8;
          dst \<leftarrow> ipv6_at data 24;
          transport \<leftarrow> sub_slice 40 (length data) data;
          (final, offset) \<leftarrow> ext_headers next_header transport 0;
          final_transport \<leftarrow> sub_slice (min offset (length transport)) (length transport) transport;
          let params = transport_params (V6 src) (V6 dst) (before + 40 + payload_length) name procid;
          if final = 58 then icmp_parse_v6 P params final_transport
          else if final = 6 then tcp_parse P params final_transport
          else if final = 17 then udp_parse P params final_transport
          else Some None
        }
      })"

definition parse_raw_ipv6_packet ::
  "PacketParser \<Rightarrow> bytes \<Rightarrow> bytes option \<Rightarrow> u32 option \<Rightarrow> ParsedPacket option option" where
  "parse_raw_ipv6_packet P data = ipv6_body P 0 data"

definition parse_ipv6_packet_inner ::
  "PacketParser \<Rightarrow> bytes \<Rightarrow> nat \<Rightarrow> bytes option \<Rightarrow> u32 option \<Rightarrow> ParsedPacket option option" where
  "parse_ipv6_packet_inner P data offset name procid = do {
     ip_data \<leftarrow> sub_slice offset (length data) data;
     ipv6_body P offset ip_data name procid
   }"

definition parse_arp_packet_with_offset ::
  "PacketParser \<Rightarrow> bytes \<Rightarrow> nat \<Rightarrow> bytes option \<Rightarrow> u32 option \<Rightarrow> ParsedPacket option option" where
  "parse_arp_packet_with_offset P data header_len name procid = do {
     arp \<leftarrow> sub_slice header_len (length data) data;
     if length arp < 28 then Some None
     else do {
       hardware_type \<leftarrow> be16_at arp 0;
       protocol_type \<leftarrow> be16_at arp 2;
       opcode \<leftarrow> be16_at arp 6;
       if hardware_type \<noteq> 1 \<or> protocol_type \<noteq> 0x0800 then Some None
       else do {
         sender \<leftarrow> sub_slice 8 14 arp;
         target \<leftarrow> sub_slice 18 24 arp;
         sender_ip \<leftarrow> ipv4_at arp 14;
         target_ip \<leftarrow> ipv4_at arp 24;
         if opcode \<noteq> 1 \<and> opcode \<noteq> 2 then Some None
         else
           let vendor = (\<lambda>mac. Option.bind (oui_lookup P) (\<lambda>oui. oui (show_mac mac)));
               info = \<lparr>arp_operation = (if opcode = 1 then ArpOperation.Request else ArpOperation.Reply),
                       arp_sender_mac = show_mac sender, arp_sender_ip = V4 sender_ip,
                       arp_target_mac = show_mac target, arp_target_ip = V4 target_ip,
                       arp_sender_vendor = vendor sender, arp_target_vendor = vendor target\<rparr>;
               params = transport_params (V4 sender_ip) (V4 target_ip) (length data) name procid
           in Some (Some (packet P params Arp 0 0 None (PS_Arp info) None))
       }
     }
   }"

definition parse_arp_packet_inner ::
  "PacketParser \<Rightarrow> bytes \<Rightarrow> nat \<Rightarrow> bytes option \<Rightarrow> u32 option \<Rightarrow> ParsedPacket option option" where
  "parse_arp_packet_inner = parse_arp_packet_with_offset"

section \<open>Link layer\<close>

definition extract_ethertype :: "bytes \<Rightarrow> (nat \<times> nat) option option" where
  "extract_ethertype data = do {
     ethertype \<leftarrow> be16_at data 12;
     if ethertype = 0x8100 then
       if length data < 18 then Some None
       else do { inner \<leftarrow> be16_at data 16; Some (Some (inner, 18)) }
     else Some (Some (ethertype, 14))
   }"

definition ethernet_parse ::
  "PacketParser \<Rightarrow> bytes \<Rightarrow> bytes option \<Rightarrow> u32 option \<Rightarrow> ParsedPacket option option" where
  "ethernet_parse P data name procid =
     (if length data < 14 then Some None
      else do {
        e \<leftarrow> extract_ethertype data;
        case e of
          None \<Rightarrow> Some None
        | Some (ethertype, offset) \<Rightarrow>
            if ethertype = 0x0800 then parse_ipv4_packet_inner P data offset name procid
            else if ethertype = 0x86dd then parse_ipv6_packet_inner P data offset name procid
            else if ethertype = 0x0806 then parse_arp_packet_inner P data offset name procid
            else Some None
      })"

text \<open>The three-way dispatch of the cooked captures: what starts at \<open>offset\<close> is the raw packet.\<close>

definition cooked_dispatch ::
  "PacketParser \<Rightarrow> nat \<Rightarrow> bytes \<Rightarrow> nat \<Rightarrow> bytes option \<Rightarrow> u32 option \<Rightarrow> ParsedPacket option option" where
  "cooked_dispatch P proto_num data offset name procid =
     (if proto_num = 0x0800 then do {
        ip_data \<leftarrow> sub_slice offset (length data) data;
        parse_raw_ipv4_packet P ip_data name procid
      }
      else if proto_num = 0x86dd then do {
        ip_data \<leftarrow> sub_slice offset (length data) data;
        parse_raw_ipv6_packet P ip_data name procid
      }
      else if proto_num = 0x0806 then parse_arp_packet_with_offset P data offset name procid
      else Some None)"

definition parse_sll ::
  "PacketParser \<Rightarrow> bytes \<Rightarrow> bytes option \<Rightarrow> u32 option \<Rightarrow> ParsedPacket option option" where
  "parse_sll P data name procid =
     (if length data < 16 then Some None
      else do {
        proto_num \<leftarrow> be16_at data 14;
        if proto_num = 0x8100 then
          if length data < 20 then Some None
          else do { inner \<leftarrow> be16_at data 18; cooked_dispatch P inner data 20 name procid }
        else cooked_dispatch P proto_num data 16 name procid
      })"

definition parse_sll2 ::
  "PacketParser \<Rightarrow> bytes \<Rightarrow> bytes option \<Rightarrow> u32 option \<Rightarrow> ParsedPacket option option" where
  "parse_sll2 P data name procid =
     (if length data < 20 then Some None
      else do {
        proto_num \<leftarrow> be16_at data 0;
        if proto_num = 0x8100 then
          if length data < 24 then Some None
          else do { inner \<leftarrow> be16_at data 22; cooked_dispatch P inner data 24 name procid }
        else cooked_dispatch P proto_num data 20 name procid
      })"

definition raw_ip_parse ::
  "PacketParser \<Rightarrow> bytes \<Rightarrow> bytes option \<Rightarrow> u32 option \<Rightarrow> ParsedPacket option option" where
  "raw_ip_parse P data name procid =
     (if data = [] then Some None
      else do {
        first \<leftarrow> byte_at data 0;
        if drop_bit 4 first = 4 then parse_raw_ipv4_packet P data name procid
        else if drop_bit 4 first = 6 then parse_raw_ipv6_packet P data name procid
        else Some None
      })"

definition raw_ip_parse_ipv4 ::
  "PacketParser \<Rightarrow> bytes \<Rightarrow> bytes option \<Rightarrow> u32 option \<Rightarrow> ParsedPacket option option" where
  "raw_ip_parse_ipv4 P data name procid =
     (if data = [] \<or> length data < 20 then Some None
      else do {
        first \<leftarrow> byte_at data 0;
        if drop_bit 4 first \<noteq> 4 then Some None else parse_raw_ipv4_packet P data name procid
      })"

definition raw_ip_parse_ipv6 ::
  "PacketParser \<Rightarrow> bytes \<Rightarrow> bytes option \<Rightarrow> u32 option \<Rightarrow> ParsedPacket option option" where
  "raw_ip_parse_ipv6 P data name procid =
     (if data = [] \<or> length data < 40 then Some None
      else do {
        first \<leftarrow> byte_at data 0;
        if drop_bit 4 first \<noteq> 6 then Some None else parse_raw_ipv6_packet P data name procid
      })"

text \<open>TUN carries raw IP, TAP carries Ethernet.\<close>

definition parse_tun ::
  "PacketParser \<Rightarrow> bytes \<Rightarrow> bytes option \<Rightarrow> u32 option \<Rightarrow> ParsedPacket option option" where
  "parse_tun = raw_ip_parse"

definition parse_tap ::
  "PacketParser \<Rightarrow> bytes \<Rightarrow> bytes option \<Rightarrow> u32 option \<Rightarrow> ParsedPacket option option" where
  "parse_tap = ethernet_parse"

definition parse_by_dlt ::
  "PacketParser \<Rightarrow> bytes \<Rightarrow> int \<Rightarrow> bytes option \<Rightarrow> u32 option \<Rightarrow> ParsedPacket option option" where
  "parse_by_dlt P data dlt name procid =
     (if dlt = 0 then parse_tun P data name procid
      else if dlt = 1 then parse_tap P data name procid
      else if dlt = 12 \<or> dlt = 101 then parse_tun P data name procid
      else if dlt = 228 then raw_ip_parse_ipv4 P data name procid
      else if dlt = 229 then raw_ip_parse_ipv6 P data name procid
      else Some None)"

definition parse_packet :: "PacketParser \<Rightarrow> bytes \<Rightarrow> ParsedPacket option option" where
  "parse_packet P data =
     (case linktype P of
        Some lt \<Rightarrow>
          if lt = 113 then parse_sll P data None None
          else if lt = 276 then parse_sll2 P data None None
          else if lt \<in> {0, 1, 12, 101, 228, 229} then parse_by_dlt P data lt None None
          else ethernet_parse P data None None
      | None \<Rightarrow> ethernet_parse P data None None)"

section \<open>No panic\<close>

lemma ipv4_body_np [no_panic]: "crypto_ok (crypto P) \<Longrightarrow> returns (ipv4_body P before data name procid)"
  unfolding ipv4_body_def by (intro no_panic) auto

lemma ext_headers_np [no_panic]: "returns (ext_headers next_header data offset)"
proof (induction next_header data offset rule: ext_headers.induct)
  case (1 n data offset)
  show ?case
    by (subst ext_headers.simps) (intro no_panic 1; simp)
qed

lemma ipv6_body_np [no_panic]: "crypto_ok (crypto P) \<Longrightarrow> returns (ipv6_body P before data name procid)"
  unfolding ipv6_body_def by (intro no_panic) auto

lemma inner_np [no_panic]:
  "crypto_ok (crypto P) \<Longrightarrow> offset \<le> length data \<Longrightarrow> returns (parse_ipv4_packet_inner P data offset name procid)"
  "crypto_ok (crypto P) \<Longrightarrow> offset \<le> length data \<Longrightarrow> returns (parse_ipv6_packet_inner P data offset name procid)"
  "crypto_ok (crypto P) \<Longrightarrow> returns (parse_raw_ipv4_packet P data name procid)"
  "crypto_ok (crypto P) \<Longrightarrow> returns (parse_raw_ipv6_packet P data name procid)"
  unfolding parse_ipv4_packet_inner_def parse_ipv6_packet_inner_def parse_raw_ipv4_packet_def parse_raw_ipv6_packet_def
  by (intro no_panic; simp)+

lemma arp_np [no_panic]:
  "offset \<le> length data \<Longrightarrow> returns (parse_arp_packet_with_offset P data offset name procid)"
  unfolding parse_arp_packet_with_offset_def by (intro no_panic) (auto simp: Let_def returns_def)

lemma ethernet_np [no_panic]:
  assumes "crypto_ok (crypto P)"
  shows "returns (ethernet_parse P data name procid)"
proof (cases "length data < 14")
  case False
  have "returns (extract_ethertype data)"
    using False unfolding extract_ethertype_def by (intro no_panic) auto
  moreover have "offset \<le> length data" if "extract_ethertype data = Some (Some (ty, offset))" for ty offset
    using that False by (auto simp: extract_ethertype_def split: if_splits bind_splits)
  ultimately show ?thesis
    using assms unfolding ethernet_parse_def parse_arp_packet_inner_def by (intro no_panic) auto
qed (simp add: ethernet_parse_def returns_def)

lemma cooked_np [no_panic]: "crypto_ok (crypto P) \<Longrightarrow> offset \<le> length data \<Longrightarrow> returns (cooked_dispatch P n data offset name procid)"
  unfolding cooked_dispatch_def by (intro no_panic) auto

lemma link_np [no_panic]:
  "crypto_ok (crypto P) \<Longrightarrow> returns (parse_sll P data name procid)" "crypto_ok (crypto P) \<Longrightarrow> returns (parse_sll2 P data name procid)"
  "crypto_ok (crypto P) \<Longrightarrow> returns (raw_ip_parse P data name procid)" "crypto_ok (crypto P) \<Longrightarrow> returns (raw_ip_parse_ipv4 P data name procid)"
  "crypto_ok (crypto P) \<Longrightarrow> returns (raw_ip_parse_ipv6 P data name procid)"
  "crypto_ok (crypto P) \<Longrightarrow> returns (parse_tun P data name procid)" "crypto_ok (crypto P) \<Longrightarrow> returns (parse_tap P data name procid)"
  unfolding parse_tun_def parse_tap_def parse_sll_def parse_sll2_def raw_ip_parse_def raw_ip_parse_ipv4_def raw_ip_parse_ipv6_def
  by (intro no_panic; simp)+

lemma parse_packet_np [no_panic]: "crypto_ok (crypto P) \<Longrightarrow> returns (parse_packet P data)"
  unfolding parse_packet_def parse_by_dlt_def by (intro no_panic)

section \<open>What the parser returns\<close>

text \<open>\<open>returns_ok P m\<close>: if the parser gives a packet, it is well-formed.\<close>

definition returns_ok :: "PacketParser \<Rightarrow> ParsedPacket option option \<Rightarrow> bool" where
  "returns_ok P m \<longleftrightarrow> (\<forall>p. m = Some (Some p) \<longrightarrow> packet_ok P p)"

lemma returns_ok_intros [parsed_ok]:
  "returns_ok P (Some None)"
  "(c \<Longrightarrow> returns_ok P a) \<Longrightarrow> (\<not> c \<Longrightarrow> returns_ok P b) \<Longrightarrow> returns_ok P (if c then a else b)"
  "(\<And>x. m = Some x \<Longrightarrow> returns_ok P (f x)) \<Longrightarrow> returns_ok P (Option.bind m f)"
  "packet_ok P p \<Longrightarrow> returns_ok P (Some (Some p))"
  "returns_ok P (tcp_parse P params bs)" "returns_ok P (udp_parse P params bs)"
  "returns_ok P (icmp_parse P params bs)" "returns_ok P (icmp_parse_v6 P params bs)"
  "returns_ok P (igmp_parse P params bs)"
  by (auto simp: returns_ok_def bind_eq_Some_conv intro: transport_ok)

lemma body_ok [parsed_ok]:
  "returns_ok P (ipv4_body P before data name procid)"
  "returns_ok P (ipv6_body P before data name procid)"
  "returns_ok P (parse_arp_packet_with_offset P data offset name procid)"
  unfolding ipv4_body_def ipv6_body_def parse_arp_packet_with_offset_def Let_def case_prod_beta'
  by (intro parsed_ok packet_packet_ok; simp)+

lemma network_ok [parsed_ok]:
  "returns_ok P (parse_ipv4_packet_inner P data offset name procid)"
  "returns_ok P (parse_ipv6_packet_inner P data offset name procid)"
  "returns_ok P (parse_raw_ipv4_packet P data name procid)"
  "returns_ok P (parse_raw_ipv6_packet P data name procid)"
  "returns_ok P (parse_arp_packet_inner P data offset name procid)"
  unfolding parse_ipv4_packet_inner_def parse_ipv6_packet_inner_def parse_raw_ipv4_packet_def
    parse_raw_ipv6_packet_def parse_arp_packet_inner_def
  by (intro parsed_ok)+

lemma link_ok [parsed_ok]:
  "returns_ok P (cooked_dispatch P n data offset name procid)"
  "returns_ok P (ethernet_parse P data name procid)"
  "returns_ok P (parse_sll P data name procid)" "returns_ok P (parse_sll2 P data name procid)"
  "returns_ok P (raw_ip_parse P data name procid)" "returns_ok P (raw_ip_parse_ipv4 P data name procid)"
  "returns_ok P (raw_ip_parse_ipv6 P data name procid)"
  unfolding cooked_dispatch_def ethernet_parse_def parse_sll_def parse_sll2_def raw_ip_parse_def
    raw_ip_parse_ipv4_def raw_ip_parse_ipv6_def
  by (auto intro!: parsed_ok split: option.split)

lemma parse_packet_ok: "parse_packet P data = Some (Some p) \<Longrightarrow> packet_ok P p"
proof -
  have "returns_ok P (parse_packet P data)"
    unfolding parse_packet_def parse_by_dlt_def parse_tun_def parse_tap_def by (auto intro!: parsed_ok split: option.split)
  then show "parse_packet P data = Some (Some p) \<Longrightarrow> packet_ok P p" by (simp add: returns_ok_def)
qed

end
