(* ===== verification/FrameSpec.thy ===== *)
theory FrameSpec
  imports FrameParse
begin

text \<open>
  What a host puts on the wire, as the reference for the packet parser: TCP segments with their
  options (RFC 9293) and UDP datagrams (RFC 768), IPv4 packets with options (RFC 791), IPv6
  packets with a chain of extension headers (RFC 8200), and the framings the parser reads:
  Ethernet with an optional VLAN tag and padding, the two Linux cooked headers, raw IP. The parser
  is shown to read back what these encode, and what it makes of padding.
\<close>

section \<open>Encoders\<close>

record tcp_segment =
  seg_sport :: u16
  seg_dport :: u16
  seg_seq :: u32
  seg_ack :: u32
  seg_flags :: TcpFlags
  seg_window :: u16
  seg_check :: bytes
  seg_urgent :: bytes
  seg_options :: bytes
  seg_payload :: bytes

definition encode_tcp :: "tcp_segment \<Rightarrow> bytes" where
  "encode_tcp s = be16 (seg_sport s) @ be16 (seg_dport s) @ be32 (seg_seq s) @ be32 (seg_ack s)
     @ [push_bit 4 (word_of_nat (5 + length (seg_options s) div 4)), flag_byte (seg_flags s)]
     @ be16 (seg_window s) @ seg_check s @ seg_urgent s @ seg_options s @ seg_payload s"

definition tcp_segment_ok :: "tcp_segment \<Rightarrow> bool" where
  "tcp_segment_ok s \<longleftrightarrow> length (seg_check s) = 2 \<and> length (seg_urgent s) = 2
     \<and> length (seg_options s) mod 4 = 0 \<and> length (seg_options s) \<le> 40"

record udp_datagram =
  dg_sport :: u16
  dg_dport :: u16
  dg_check :: bytes
  dg_payload :: bytes

definition encode_udp :: "udp_datagram \<Rightarrow> bytes" where
  "encode_udp d = be16 (dg_sport d) @ be16 (dg_dport d) @ be16 (word_of_nat (8 + length (dg_payload d)))
     @ dg_check d @ dg_payload d"

datatype transport = Segment tcp_segment | Datagram udp_datagram

fun encode_transport :: "transport \<Rightarrow> bytes" where
  "encode_transport (Segment s) = encode_tcp s"
| "encode_transport (Datagram d) = encode_udp d"

fun transport_number :: "transport \<Rightarrow> u8" where
  "transport_number (Segment s) = 6"
| "transport_number (Datagram d) = 17"

fun transport_encodable :: "transport \<Rightarrow> bool" where
  "transport_encodable (Segment s) = tcp_segment_ok s"
| "transport_encodable (Datagram d) = (length (dg_check d) = 2)"

record ipv4_header =
  h4_tos :: u8
  h4_ident :: bytes
  h4_ttl :: u8
  h4_check :: bytes
  h4_src :: ipv4
  h4_dst :: ipv4
  h4_options :: bytes

definition encode_ipv4 :: "ipv4_header \<Rightarrow> u8 \<Rightarrow> bytes \<Rightarrow> bytes" where
  "encode_ipv4 h proto_num payload =
     [0x40 OR word_of_nat (5 + length (h4_options h) div 4), h4_tos h]
     @ be16 (word_of_nat (20 + length (h4_options h) + length payload)) @ h4_ident h
     @ [h4_ttl h, proto_num] @ h4_check h @ octets4 (h4_src h) @ octets4 (h4_dst h) @ h4_options h @ payload"

definition ipv4_header_ok :: "ipv4_header \<Rightarrow> bool" where
  "ipv4_header_ok h \<longleftrightarrow> length (h4_ident h) = 4 \<and> length (h4_check h) = 2
     \<and> length (h4_options h) mod 4 = 0 \<and> length (h4_options h) \<le> 40"

text \<open>An extension header without its first byte, the number of the header that follows it. The
  length bytes count 8-byte and 4-byte units.\<close>

datatype extension = Options u8 bytes | Fragment bytes | Authentication bytes

fun ext_number :: "extension \<Rightarrow> u8" where
  "ext_number (Options k body) = k"
| "ext_number (Fragment body) = 44"
| "ext_number (Authentication body) = 51"

fun ext_rest :: "extension \<Rightarrow> bytes" where
  "ext_rest (Options k body) = word_of_nat (length body div 8) # body"
| "ext_rest (Fragment body) = body"
| "ext_rest (Authentication body) = word_of_nat ((length body - 6) div 4) # body"

fun ext_ok :: "extension \<Rightarrow> bool" where
  "ext_ok (Options k body) \<longleftrightarrow> k \<in> {0, 43, 60} \<and> length body mod 8 = 6 \<and> length body < 2048"
| "ext_ok (Fragment body) \<longleftrightarrow> length body = 7"
| "ext_ok (Authentication body) \<longleftrightarrow> 6 \<le> length body \<and> length body mod 4 = 2 \<and> length body < 1030"

fun first_number :: "extension list \<Rightarrow> u8 \<Rightarrow> u8" where
  "first_number [] n = n"
| "first_number (e # es) n = ext_number e"

fun encode_exts :: "extension list \<Rightarrow> u8 \<Rightarrow> bytes" where
  "encode_exts [] n = []"
| "encode_exts (e # es) n = first_number es n # ext_rest e @ encode_exts es n"

record ipv6_header =
  h6_class :: u8
  h6_flow :: bytes
  h6_hop :: u8
  h6_src :: ipv6
  h6_dst :: ipv6
  h6_exts :: "extension list"

definition encode_ipv6 :: "ipv6_header \<Rightarrow> u8 \<Rightarrow> bytes \<Rightarrow> bytes" where
  "encode_ipv6 h proto_num payload =
     (0x60 OR h6_class h AND 0x0F) # h6_flow h
     @ be16 (word_of_nat (length (encode_exts (h6_exts h) proto_num) + length payload))
     @ [first_number (h6_exts h) proto_num, h6_hop h] @ octets6 (h6_src h) @ octets6 (h6_dst h)
     @ encode_exts (h6_exts h) proto_num @ payload"

definition ipv6_header_ok :: "ipv6_header \<Rightarrow> bool" where
  "ipv6_header_ok h \<longleftrightarrow> length (h6_flow h) = 3 \<and> list_all ext_ok (h6_exts h)"

datatype network = Net4 ipv4_header | Net6 ipv6_header

fun encode_network :: "network \<Rightarrow> u8 \<Rightarrow> bytes \<Rightarrow> bytes" where
  "encode_network (Net4 h) = encode_ipv4 h"
| "encode_network (Net6 h) = encode_ipv6 h"

fun ethertype :: "network \<Rightarrow> u16" where
  "ethertype (Net4 h) = 0x0800"
| "ethertype (Net6 h) = 0x86dd"

fun network_ok :: "network \<Rightarrow> bool" where
  "network_ok (Net4 h) = ipv4_header_ok h"
| "network_ok (Net6 h) = ipv6_header_ok h"

text \<open>The VLAN tag and type field; the cooked header of the second kind has the tag's type first.\<close>

fun tagged :: "bytes option \<Rightarrow> u16 \<Rightarrow> bytes" where
  "tagged None ty = be16 ty"
| "tagged (Some tci) ty = be16 0x8100 @ tci @ be16 ty"

datatype link = Ethernet bytes "bytes option" | Cooked bytes "bytes option" | Cooked2 bytes "bytes option" | Raw

fun encode_link :: "link \<Rightarrow> u16 \<Rightarrow> bytes \<Rightarrow> bytes" where
  "encode_link (Ethernet macs vlan) ty data = macs @ tagged vlan ty @ data"
| "encode_link (Cooked hdr vlan) ty data = hdr @ tagged vlan ty @ data"
| "encode_link (Cooked2 hdr None) ty data = be16 ty @ hdr @ data"
| "encode_link (Cooked2 hdr (Some tci)) ty data = be16 0x8100 @ hdr @ tci @ be16 ty @ data"
| "encode_link Raw ty data = data"

fun vlan_ok :: "bytes option \<Rightarrow> bool" where
  "vlan_ok None = True"
| "vlan_ok (Some tci) = (length tci = 2)"

fun link_ok :: "link \<Rightarrow> bool" where
  "link_ok (Ethernet macs vlan) = (length macs = 12 \<and> vlan_ok vlan)"
| "link_ok (Cooked hdr vlan) = (length hdr = 14 \<and> vlan_ok vlan)"
| "link_ok (Cooked2 hdr vlan) = (length hdr = 18 \<and> vlan_ok vlan)"
| "link_ok Raw = True"

text \<open>The link types under which a framing is read: Ethernet also when none is given or it is one
  the parser does not know.\<close>

fun reads :: "PacketParser \<Rightarrow> link \<Rightarrow> bool" where
  "reads P (Ethernet macs vlan) =
     (case linktype P of None \<Rightarrow> True | Some lt \<Rightarrow> lt \<notin> {0, 12, 101, 113, 228, 229, 276})"
| "reads P (Cooked hdr vlan) = (linktype P = Some 113)"
| "reads P (Cooked2 hdr vlan) = (linktype P = Some 276)"
| "reads P Raw = (linktype P \<in> {Some 0, Some 12, Some 101})"

text \<open>The bytes before the packet that its length counts: those of an Ethernet header.\<close>

fun link_len :: "link \<Rightarrow> nat" where
  "link_len (Ethernet macs vlan) = (if vlan = None then 14 else 18)"
| "link_len _ = 0"

definition frame :: "link \<Rightarrow> network \<Rightarrow> transport \<Rightarrow> bytes \<Rightarrow> bytes" where
  "frame lk net tr pad =
     encode_link lk (ethertype net) (encode_network net (transport_number tr) (encode_transport tr) @ pad)"

definition frame_ok :: "PacketParser \<Rightarrow> link \<Rightarrow> network \<Rightarrow> transport \<Rightarrow> bool" where
  "frame_ok P lk net tr \<longleftrightarrow> crypto_ok (crypto P) \<and> reads P lk \<and> link_ok lk \<and> network_ok net \<and> transport_encodable tr"

section \<open>Reading back\<close>

lemma nibbles: "\<forall>k < 16. unat (drop_bit 4 (push_bit 4 (word_of_nat k :: u8))) = k
    \<and> drop_bit 4 ((0x40 :: u8) OR word_of_nat k) = 4 \<and> unat (((0x40 :: u8) OR word_of_nat k) AND 0x0F) = k"
  unfolding digit_all by simp

lemma be16_bytes:
  obtains a b where "be16 w = [a, b]" and "be_nat [a, b] = unat w"
  using be16_pair [of w] be_nat_be16_bytes [of w] by metis

lemma list2: "length xs = 2 \<Longrightarrow> \<exists>a b. xs = [a, b]"
  by (auto simp: length_Suc_conv eval_nat_numeral)

lemma sub_slice_rest: "length pre = n \<Longrightarrow> sub_slice n (length (pre @ rest)) (pre @ rest) = Some rest"
  by (simp add: sub_slice_def)

lemma ipv6_of_octets6: "ipv6_of (octets6 a) = Some a"
proof (cases a)
  case (Ipv6Addr a b c d e f g h)
  have "\<exists>x y. be16 w = [x, y] \<and> from_be16 x y = w" for w
    using be16_pair from_be16_be16 by metis
  from this [of a] this [of b] this [of c] this [of d] this [of e] this [of f] this [of g] this [of h]
  show ?thesis by (auto simp: Ipv6Addr)
qed

text \<open>The inspection of a payload, when there is one.\<close>

definition inspection :: "(bytes \<Rightarrow> u16 \<Rightarrow> u16 \<Rightarrow> bool \<Rightarrow> ApplicationProtocol option) \<Rightarrow> PacketParser \<Rightarrow>
    TransportParams \<Rightarrow> u16 \<Rightarrow> u16 \<Rightarrow> bytes \<Rightarrow> ApplicationProtocol option" where
  "inspection analyze P params sport dport payload =
     (if enable_dpi (parser_config P) \<and> payload \<noteq> [] then
        let (l, r) = endpoints P params sport dport
        in analyze payload (port l) (port r) (is_local P (src_ip params))
      else None)"

definition segment_packet :: "PacketParser \<Rightarrow> TransportParams \<Rightarrow> tcp_segment \<Rightarrow> bytes \<Rightarrow> ParsedPacket" where
  "segment_packet P params s pad =
     packet P params Tcp (seg_sport s) (seg_dport s)
       (Some \<lparr>hdr_seq = seg_seq s, hdr_ack = seg_ack s, window = seg_window s, flags = seg_flags s,
              payload_len = word_of_nat (length (seg_payload s @ pad))\<rparr>)
       (PS_Tcp TcpState.Unknown) (inspection inspect_tcp P params (seg_sport s) (seg_dport s) (seg_payload s @ pad))"

lemma tcp_parse_encoded:
  assumes "tcp_segment_ok s"
  shows "tcp_parse P params (encode_tcp s @ pad) = Some (Some (segment_packet P params s pad))"
proof -
  obtain p1 p2 where p: "be16 (seg_sport s) = [p1, p2]" "be_nat [p1, p2] = unat (seg_sport s)" by (rule be16_bytes)
  obtain d1 d2 where d: "be16 (seg_dport s) = [d1, d2]" "be_nat [d1, d2] = unat (seg_dport s)" by (rule be16_bytes)
  obtain w1 w2 where w: "be16 (seg_window s) = [w1, w2]" "be_nat [w1, w2] = unat (seg_window s)" by (rule be16_bytes)
  obtain q1 q2 q3 q4 where q: "be32 (seg_seq s) = [q1, q2, q3, q4]" "word_of_nat (be_nat [q1, q2, q3, q4]) = seg_seq s"
    by (rule be32_bytes)
  obtain a1 a2 a3 a4 where a: "be32 (seg_ack s) = [a1, a2, a3, a4]" "word_of_nat (be_nat [a1, a2, a3, a4]) = seg_ack s"
    by (rule be32_bytes)
  obtain c1 c2 u1 u2 where cu: "seg_check s = [c1, c2]" "seg_urgent s = [u1, u2]"
    using assms list2 [of "seg_check s"] list2 [of "seg_urgent s"] by (auto simp: tcp_segment_ok_def)
  let ?k = "5 + length (seg_options s) div 4" and ?opt = "seg_options s"
  let ?rest = "seg_payload s @ pad"
  have "?k < 16" using assms unfolding tcp_segment_ok_def by linarith
  then have k: "unat (drop_bit 4 (push_bit 4 (word_of_nat ?k :: u8))) = ?k" using nibbles by blast
  have len: "?k * 4 = 20 + length ?opt" using assms by (auto simp: tcp_segment_ok_def)
  define D where "D = [p1, p2, d1, d2, q1, q2, q3, q4, a1, a2, a3, a4, push_bit 4 (word_of_nat ?k), flag_byte (seg_flags s),
     w1, w2, c1, c2, u1, u2] @ ?opt @ ?rest"
  have D: "encode_tcp s @ pad = D" by (simp add: encode_tcp_def D_def p d w q a cu)
  have L: "length D = 20 + length ?opt + length ?rest" by (simp add: D_def)
  have S: "sub_slice (20 + length ?opt) (length D) D = Some ?rest"
    unfolding D_def append_assoc [symmetric, of _ ?opt] by (rule sub_slice_rest) simp
  have B: "be16_at D 0 = Some (unat (seg_sport s))" "be16_at D 2 = Some (unat (seg_dport s))"
      "be32_at D 4 = Some (seg_seq s)" "be32_at D 8 = Some (seg_ack s)" "be16_at D 14 = Some (unat (seg_window s))"
      "byte_at D 13 = Some (flag_byte (seg_flags s))" "byte_at D 12 = Some (push_bit 4 (word_of_nat ?k))"
    using p(2) d(2) w(2) q(2) a(2) by (simp_all add: D_def be16_at_def be32_at_def byte_at_def)
  obtain l r where lr: "endpoints P params (seg_sport s) (seg_dport s) = (l, r)"
    by (cases "endpoints P params (seg_sport s) (seg_dport s)")
  show ?thesis
    unfolding D tcp_parse_def B bind.bind_lunit k len Let_def
    using L S lr
    by (simp add: segment_packet_def inspection_def parse_flag_byte inspect_tcp_eq)
qed

definition datagram_packet :: "PacketParser \<Rightarrow> TransportParams \<Rightarrow> udp_datagram \<Rightarrow> bytes \<Rightarrow> ParsedPacket" where
  "datagram_packet P params d pad =
     packet P params Udp (dg_sport d) (dg_dport d) None PS_Udp
       (inspection (inspect_udp (crypto P) (inspect_time P)) P params (dg_sport d) (dg_dport d) (dg_payload d @ pad))"

lemma udp_parse_encoded:
  assumes "length (dg_check u) = 2" and "crypto_ok (crypto P)"
  shows "udp_parse P params (encode_udp u @ pad) = Some (Some (datagram_packet P params u pad))"
proof -
  obtain p1 p2 where p: "be16 (dg_sport u) = [p1, p2]" "be_nat [p1, p2] = unat (dg_sport u)" by (rule be16_bytes)
  obtain d1 d2 where d: "be16 (dg_dport u) = [d1, d2]" "be_nat [d1, d2] = unat (dg_dport u)" by (rule be16_bytes)
  obtain l1 l2 where l: "be16 (word_of_nat (8 + length (dg_payload u))) = [l1, l2]" using be16_pair by blast
  obtain c1 c2 where c: "dg_check u = [c1, c2]" using assms(1) list2 [of "dg_check u"] by auto
  define D where "D = [p1, p2, d1, d2, l1, l2, c1, c2] @ dg_payload u @ pad"
  have D: "encode_udp u @ pad = D" using l by (simp add: encode_udp_def D_def p d c)
  have L: "length D = 8 + length (dg_payload u @ pad)" by (simp add: D_def)
  have S: "sub_slice 8 (length D) D = Some (dg_payload u @ pad)"
    unfolding D_def by (rule sub_slice_rest) simp
  have B: "be16_at D 0 = Some (unat (dg_sport u))" "be16_at D 2 = Some (unat (dg_dport u))"
    using p(2) d(2) by (simp_all add: D_def be16_at_def byte_at_def)
  obtain lo re where lr: "endpoints P params (dg_sport u) (dg_dport u) = (lo, re)"
    by (cases "endpoints P params (dg_sport u) (dg_dport u)")
  show ?thesis
    unfolding D udp_parse_def B bind.bind_lunit Let_def
    using L S lr inspect_udp_eq [OF assms(2)] by (auto simp: datagram_packet_def inspection_def)
qed

fun transport_packet :: "PacketParser \<Rightarrow> TransportParams \<Rightarrow> transport \<Rightarrow> bytes \<Rightarrow> ParsedPacket" where
  "transport_packet P params (Segment s) pad = segment_packet P params s pad"
| "transport_packet P params (Datagram d) pad = datagram_packet P params d pad"

text \<open>The length field of the network header counts modulo $2^{16}$.\<close>

fun network_params :: "network \<Rightarrow> nat \<Rightarrow> transport \<Rightarrow> TransportParams" where
  "network_params (Net4 h) before tr =
     transport_params (V4 (h4_src h)) (V4 (h4_dst h))
       (before + (20 + length (h4_options h) + length (encode_transport tr)) mod 65536) None None"
| "network_params (Net6 h) before tr =
     transport_params (V6 (h6_src h)) (V6 (h6_dst h))
       (before + 40 + (length (encode_exts (h6_exts h) (transport_number tr)) + length (encode_transport tr)) mod 65536)
       None None"

definition transport_parse :: "PacketParser \<Rightarrow> TransportParams \<Rightarrow> u8 \<Rightarrow> bytes \<Rightarrow> ParsedPacket option option" where
  "transport_parse P params proto_num = (if proto_num = 6 then tcp_parse P params else udp_parse P params)"

lemma ipv4_body_encoded:
  assumes "ipv4_header_ok h" and "proto_num = 6 \<or> proto_num = 17"
  shows "ipv4_body P before (encode_ipv4 h proto_num payload @ pad) name procid =
           transport_parse P (transport_params (V4 (h4_src h)) (V4 (h4_dst h))
             (before + (20 + length (h4_options h) + length payload) mod 65536) name procid) proto_num (payload @ pad)"
proof -
  let ?opt = "h4_options h"
  let ?k = "5 + length ?opt div 4" and ?n = "20 + length ?opt + length payload"
  obtain t1 t2 where t: "be16 (word_of_nat ?n) = [t1, t2]" "be_nat [t1, t2] = unat (word_of_nat ?n :: u16)"
    by (rule be16_bytes)
  have "length (h4_ident h) = Suc (Suc (Suc (Suc 0)))" using assms by (simp add: ipv4_header_ok_def)
  then obtain i1 i2 i3 i4 where i: "h4_ident h = [i1, i2, i3, i4]" by (auto simp: length_Suc_conv)
  obtain c1 c2 where c: "h4_check h = [c1, c2]" using assms list2 [of "h4_check h"] by (auto simp: ipv4_header_ok_def)
  obtain s1 s2 s3 s4 where s: "h4_src h = Ipv4Addr s1 s2 s3 s4" by (cases "h4_src h")
  obtain d1 d2 d3 d4 where d: "h4_dst h = Ipv4Addr d1 d2 d3 d4" by (cases "h4_dst h")
  have "?k < 16" using assms unfolding ipv4_header_ok_def by linarith
  then have k: "drop_bit 4 ((0x40 :: u8) OR word_of_nat ?k) = 4"
      "unat (((0x40 :: u8) OR word_of_nat ?k) AND 0x0F) = ?k" using nibbles by blast+
  have len: "?k * 4 = 20 + length ?opt" using assms by (auto simp: ipv4_header_ok_def)
  define first where "first = (0x40 :: u8) OR word_of_nat ?k"
  define D where "D = [first, h4_tos h, t1, t2, i1, i2, i3, i4, h4_ttl h, proto_num, c1, c2,
     s1, s2, s3, s4, d1, d2, d3, d4] @ ?opt @ payload @ pad"
  have D: "encode_ipv4 h proto_num payload @ pad = D"
    using t(1) by (simp add: encode_ipv4_def D_def first_def i c s d)
  have L: "length D = 20 + length ?opt + length (payload @ pad)" by (simp add: D_def)
  have S: "sub_slice (20 + length ?opt) (length D) D = Some (payload @ pad)"
    unfolding D_def append_assoc [symmetric, of _ ?opt] by (rule sub_slice_rest) simp
  have n: "unat (word_of_nat ?n :: u16) = ?n mod 65536" by (subst unat_of_nat) simp
  have B: "byte_at D 0 = Some first" "be16_at D 2 = Some (?n mod 65536)" "byte_at D 9 = Some proto_num"
      "ipv4_at D 12 = Some (h4_src h)" "ipv4_at D 16 = Some (h4_dst h)"
    using t(2) [unfolded n] by (simp_all add: D_def be16_at_def byte_at_def ipv4_at_def s d)
  show ?thesis
    unfolding D ipv4_body_def B bind.bind_lunit k [folded first_def] len Let_def
    using L S assms(2) by (auto simp: transport_parse_def)
qed

lemma ext_headers_step:
  assumes "ext_ok e" and "D = pre @ n # ext_rest e @ rest" and "i = length pre" and "j = length (pre @ n # ext_rest e)"
  shows "ext_headers (ext_number e) D i = (if length D \<le> j then Some (n, j) else ext_headers n D j)"
proof (cases e)
  case (Options k body)
  have k: "k = 0 \<or> k = 43 \<or> k = 60" and m: "length body mod 8 = 6" "length body < 2048"
    using assms(1) Options by auto
  have u: "unat (word_of_nat (length body div 8) :: u8) = length body div 8"
    using m(2) by (simp add: unat_of_nat)
  have j: "i + (length body div 8 + 1) * 8 = j"
    using m(1) assms(3,4) Options div_mult_mod_eq [of "length body" 8] by simp
  have b: "byte_at D i = Some n" "byte_at D (i + 1) = Some (word_of_nat (length body div 8))"
    using assms Options by (simp_all add: byte_at_def nth_append)
  have l: "\<not> length D < i + 2" using assms Options by simp
  show ?thesis
    using k l by (subst ext_headers.simps) (simp only: Options ext_number.simps b bind.bind_lunit Let_def u j if_True if_False)
next
  case (Fragment body)
  then have b: "byte_at D i = Some n" and l: "\<not> length D < i + 8" and j: "i + 8 = j"
    using assms by (simp_all add: byte_at_def nth_append)
  show ?thesis using l by (subst ext_headers.simps) (simp add: Fragment b j)
next
  case (Authentication body)
  have m: "6 \<le> length body" "length body mod 4 = 2" "length body < 1030" using assms(1) Authentication by auto
  have u: "unat (word_of_nat ((length body - 6) div 4) :: u8) = (length body - 6) div 4"
    using m(3) by (simp add: unat_of_nat)
  have "length body = 4 * ((length body - 6) div 4) + 6" using m by presburger
  then have j: "i + ((length body - 6) div 4 + 2) * 4 = j"
    using assms(3,4) Authentication by simp
  have b: "byte_at D i = Some n" "byte_at D (i + 1) = Some (word_of_nat ((length body - 6) div 4))"
    using assms Authentication by (simp_all add: byte_at_def nth_append)
  have l: "\<not> length D < i + 2" using assms Authentication by simp
  have t: "(51 :: u8) \<noteq> 0" "(51 :: u8) \<noteq> 43" "(51 :: u8) \<noteq> 60" "(51 :: u8) \<noteq> 44" by simp_all
  show ?thesis
    using l by (subst ext_headers.simps)
      (simp only: Authentication ext_number.simps t b bind.bind_lunit Let_def u j if_True if_False simp_thms)
qed

lemma ext_headers_encoded:
  assumes "n \<notin> {0, 43, 44, 51, 60}"
  shows "list_all ext_ok es \<Longrightarrow> ext_headers (first_number es n) (pre @ encode_exts es n @ rest) (length pre)
    = Some (n, length (pre @ encode_exts es n))"
proof (induction es arbitrary: pre)
  case Nil
  show ?case using assms by (subst ext_headers.simps) simp
next
  case (Cons e es)
  let ?pre = "pre @ first_number es n # ext_rest e" and ?D = "pre @ encode_exts (e # es) n @ rest"
  have D: "?D = ?pre @ encode_exts es n @ rest" by simp
  have step: "ext_headers (ext_number e) ?D (length pre) =
      (if length ?D \<le> length ?pre then Some (first_number es n, length ?pre)
       else ext_headers (first_number es n) ?D (length ?pre))"
    using Cons.prems by (intro ext_headers_step [where rest = "encode_exts es n @ rest"]) simp_all
  show ?case
  proof (cases "length ?D \<le> length ?pre")
    case True
    then have "es = []" by (cases es) (simp_all)
    then show ?thesis using step True by simp
  next
    case False
    have "list_all ext_ok es" using Cons.prems by simp
    from Cons.IH [OF this, of ?pre] show ?thesis
      using step [unfolded if_not_P [OF False]] unfolding D by simp
  qed
qed

lemma ipv6_body_encoded:
  assumes "ipv6_header_ok h" and "proto_num = 6 \<or> proto_num = 17"
  shows "ipv6_body P before (encode_ipv6 h proto_num payload @ pad) name procid =
           transport_parse P (transport_params (V6 (h6_src h)) (V6 (h6_dst h))
             (before + 40 + (length (encode_exts (h6_exts h) proto_num) + length payload) mod 65536) name procid)
             proto_num (payload @ pad)"
proof -
  let ?x = "encode_exts (h6_exts h) proto_num" and ?nh = "first_number (h6_exts h) proto_num"
  let ?n = "length ?x + length payload"
  obtain l1 l2 where l: "be16 (word_of_nat ?n) = [l1, l2]" "be_nat [l1, l2] = unat (word_of_nat ?n :: u16)"
    by (rule be16_bytes)
  have n: "unat (word_of_nat ?n :: u16) = ?n mod 65536" by (subst unat_of_nat) simp
  have "length (h6_flow h) = Suc (Suc (Suc 0))" using assms(1) by (simp add: ipv6_header_ok_def)
  then obtain f1 f2 f3 where f: "h6_flow h = [f1, f2, f3]" by (auto simp: length_Suc_conv)
  define first where "first = (0x60 :: u8) OR h6_class h AND 0x0F"
  have v: "drop_bit 4 first = 6" by (simp add: first_def drop_bit_or drop_bit_and)
  define H where "H = [first, f1, f2, f3, l1, l2, ?nh, h6_hop h]"
  define T where "T = ?x @ payload @ pad"
  define D where "D = H @ octets6 (h6_src h) @ octets6 (h6_dst h) @ T"
  have D: "encode_ipv6 h proto_num payload @ pad = D"
    using l(1) by (simp add: encode_ipv6_def D_def H_def T_def first_def f)
  have L: "length D = 40 + length T" by (simp add: D_def H_def)
  have S: "sub_slice 40 (length D) D = Some T"
    unfolding D_def append_assoc [symmetric, of _ _ T] append_assoc [symmetric, of H] by (rule sub_slice_rest) (simp add: H_def)
  have A: "ipv6_at D 8 = Some (h6_src h)" "ipv6_at D 24 = Some (h6_dst h)"
    using sub_slice_append [of H 8 "octets6 (h6_src h)" 16 "octets6 (h6_dst h) @ T"]
      sub_slice_append [of "H @ octets6 (h6_src h)" 24 "octets6 (h6_dst h)" 16 T]
    by (simp_all add: ipv6_at_def D_def H_def ipv6_of_octets6)
  have B: "byte_at D 0 = Some first" "be16_at D 4 = Some (?n mod 65536)" "byte_at D 6 = Some ?nh"
    using l(2) [unfolded n] by (simp_all add: D_def H_def be16_at_def byte_at_def)
  have "proto_num \<notin> {0, 43, 44, 51, 60}" using assms(2) by auto
  then have E: "ext_headers ?nh T 0 = Some (proto_num, length ?x)"
    using ext_headers_encoded [of proto_num "h6_exts h" "[]" "payload @ pad"] assms(1)
    by (simp add: T_def ipv6_header_ok_def)
  have S': "sub_slice (min (length ?x) (length T)) (length T) T = Some (payload @ pad)"
  proof -
    have "min (length ?x) (length T) = length ?x" by (simp add: T_def)
    then show ?thesis unfolding T_def by (simp only:) (rule sub_slice_rest [OF refl])
  qed
  show ?thesis
    unfolding D ipv6_body_def B A bind.bind_lunit v Let_def
    using L S E S' assms(2) by (auto simp: transport_parse_def)
qed

end
