(* ===== verification/FrameRead.thy ===== *)
theory FrameRead
  imports FrameSpec
begin

text \<open>
  The packet parser on whole frames: every framing around an IPv4 or IPv6 packet that carries a
  TCP segment or a UDP datagram is read back to its addresses, ports, header fields and payload;
  what follows the packet in the frame counts as payload. With it the properties of the parser on
  arbitrary bytes: it never panics, and the key of a packet identifies its flow.
\<close>

section \<open>Framings\<close>

lemma transport_parse_encoded:
  "transport_encodable tr \<Longrightarrow> crypto_ok (crypto P) \<Longrightarrow> transport_parse P params (transport_number tr) (encode_transport tr @ pad)
     = Some (Some (transport_packet P params tr pad))"
  by (cases tr) (simp_all add: transport_parse_def tcp_parse_encoded udp_parse_encoded)

definition network_body :: "PacketParser \<Rightarrow> nat \<Rightarrow> u16 \<Rightarrow> bytes \<Rightarrow> ParsedPacket option option" where
  "network_body P before ty data =
     (if ty = 0x0800 then ipv4_body P before data None None else ipv6_body P before data None None)"

lemma network_encoded:
  assumes "network_ok net" and "transport_encodable tr" and "crypto_ok (crypto P)"
  shows "network_body P before (ethertype net) (encode_network net (transport_number tr) (encode_transport tr) @ pad)
     = Some (Some (transport_packet P (network_params net before tr) tr pad))"
proof -
  have n: "transport_number tr = 6 \<or> transport_number tr = 17" by (cases tr) simp_all
  show ?thesis
    using assms transport_parse_encoded [OF assms(2,3)]
    by (cases net) (simp_all add: network_body_def ipv4_body_encoded [OF _ n] ipv6_body_encoded [OF _ n])
qed

lemma network_first_byte:
  assumes "network_ok net"
  obtains first rest where "encode_network net n payload @ pad = first # rest"
    and "drop_bit 4 first = (if ethertype net = 0x0800 then 4 else 6)"
proof (cases net)
  case (Net4 h)
  have "5 + length (h4_options h) div 4 < 16" using assms Net4 by (auto simp: ipv4_header_ok_def)
  then have "drop_bit 4 ((0x40 :: u8) OR word_of_nat (5 + length (h4_options h) div 4)) = 4" using nibbles by blast
  then show thesis using that Net4 by (simp add: encode_ipv4_def)
next
  case (Net6 h)
  then show thesis using that by (simp add: encode_ipv6_def drop_bit_or drop_bit_and)
qed

lemma tagged_read:
  assumes "length pre = i" and "vlan_ok vlan" and "D = pre @ tagged vlan ty @ data"
  shows "be16_at D i = Some (unat (if vlan = None then ty else 0x8100))"
    and "vlan \<noteq> None \<Longrightarrow> be16_at D (i + 4) = Some (unat ty)"
    and "sub_slice (i + (if vlan = None then 2 else 6)) (length D) D = Some data"
    and "length D = i + (if vlan = None then 2 else 6) + length data"
proof -
  show "be16_at D i = Some (unat (if vlan = None then ty else 0x8100))"
    using be16_at_be16 [OF assms(1)] assms(3) by (cases vlan) simp_all
  show "be16_at D (i + 4) = Some (unat ty)" if some: "vlan \<noteq> None"
  proof -
    obtain tci where "vlan = Some tci" using some by (cases vlan) auto
    then show ?thesis
      using be16_at_be16 [of "pre @ be16 0x8100 @ tci" "i + 4" ty data] assms by simp
  qed
  have l: "length (pre @ tagged vlan ty) = i + (if vlan = None then 2 else 6)"
    using assms(1,2) by (cases vlan) simp_all
  have D: "D = (pre @ tagged vlan ty) @ data" using assms(3) by simp
  show "sub_slice (i + (if vlan = None then 2 else 6)) (length D) D = Some data"
    unfolding D by (rule sub_slice_rest [OF l])
  show "length D = i + (if vlan = None then 2 else 6) + length data" using l D by simp
qed

text \<open>Reading a framing is reading the packet inside it.\<close>

lemma ethernet_read:
  assumes "length macs = 12" and "vlan_ok vlan" and "ty = 0x0800 \<or> ty = 0x86dd"
  shows "ethernet_parse P (macs @ tagged vlan ty @ data) None None
     = network_body P (link_len (Ethernet macs vlan)) ty data"
proof -
  define D where "D = macs @ tagged vlan ty @ data"
  note r = tagged_read [OF assms(1,2) D_def]
  have e: "extract_ethertype D = Some (Some (unat ty, link_len (Ethernet macs vlan)))"
    using r(1,2,4) assms(3) by (cases vlan) (auto simp: extract_ethertype_def)
  show ?thesis
    unfolding D_def [symmetric] using r(3,4) assms(3)
    by (auto simp: ethernet_parse_def e network_body_def parse_ipv4_packet_inner_def parse_ipv6_packet_inner_def
        simp del: sub_slice_ok)
qed

lemma cooked_read:
  assumes "sub_slice i (length D) D = Some data" and "ty = 0x0800 \<or> ty = 0x86dd"
  shows "cooked_dispatch P (unat ty) D i None None = network_body P 0 ty data"
  using assms
  by (auto simp: cooked_dispatch_def network_body_def parse_raw_ipv4_packet_def parse_raw_ipv6_packet_def
      simp del: sub_slice_ok)

lemma sll_read:
  assumes "length hdr = 14" and "vlan_ok vlan" and "ty = 0x0800 \<or> ty = 0x86dd"
  shows "parse_sll P (hdr @ tagged vlan ty @ data) None None = network_body P 0 ty data"
proof -
  define D where "D = hdr @ tagged vlan ty @ data"
  note r = tagged_read [OF assms(1,2) D_def]
  show ?thesis
    unfolding D_def [symmetric] using r cooked_read [OF r(3) assms(3)] assms(3)
    by (cases vlan) (auto simp: parse_sll_def simp del: sub_slice_ok)
qed

lemma sll2_read:
  assumes "length hdr = 18" and "vlan_ok vlan" and "ty = 0x0800 \<or> ty = 0x86dd"
  shows "parse_sll2 P (encode_link (Cooked2 hdr vlan) ty data) None None = network_body P 0 ty data"
proof (cases vlan)
  case None
  define D where "D = be16 ty @ hdr @ data"
  have "be16_at D 0 = Some (unat ty)" using be16_at_be16 [of "[]" 0] by (simp add: D_def)
  moreover have "sub_slice 20 (length D) D = Some data"
    unfolding D_def append_assoc [symmetric] by (rule sub_slice_rest) (simp add: assms(1))
  ultimately show ?thesis
    using None cooked_read [of 20 D data ty P] assms by (auto simp: parse_sll2_def D_def [symmetric] simp del: sub_slice_ok)
      (simp_all add: D_def)
next
  case (Some tci)
  define D where "D = be16 0x8100 @ hdr @ tci @ be16 ty @ data"
  have tci: "length tci = 2" using assms(2) Some by simp
  have "be16_at D 0 = Some 0x8100" using be16_at_be16 [of "[]" 0 "0x8100"] by (simp add: D_def)
  moreover have "be16_at D 22 = Some (unat ty)"
    using be16_at_be16 [of "be16 0x8100 @ hdr @ tci" 22] tci assms(1) by (simp add: D_def)
  moreover have "sub_slice 24 (length D) D = Some data"
    unfolding D_def append_assoc [symmetric] by (rule sub_slice_rest) (simp add: assms(1) tci)
  moreover have "24 \<le> length D" by (simp add: D_def assms(1) tci)
  ultimately show ?thesis
    using Some cooked_read [of 24 D data ty P] assms by (auto simp: parse_sll2_def D_def [symmetric] simp del: sub_slice_ok)
qed

lemma raw_read:
  assumes "data = first # rest" and "drop_bit 4 first = (if ty = 0x0800 then 4 else 6)"
  shows "raw_ip_parse P data None None = network_body P 0 ty data"
  using assms
  by (simp add: raw_ip_parse_def byte_at_def network_body_def parse_raw_ipv4_packet_def parse_raw_ipv6_packet_def)

lemma frame_parsed:
  assumes "frame_ok P lk net tr"
  shows "parse_packet P (frame lk net tr pad)
     = Some (Some (transport_packet P (network_params net (link_len lk) tr) tr pad))"
proof -
  define data where "data = encode_network net (transport_number tr) (encode_transport tr) @ pad"
  have ok: "reads P lk" "link_ok lk" "network_ok net" "transport_encodable tr" "crypto_ok (crypto P)"
    using assms by (simp_all add: frame_ok_def)
  have ty: "ethertype net = 0x0800 \<or> ethertype net = 0x86dd" by (cases net) simp_all
  have "parse_packet P (encode_link lk (ethertype net) data) = network_body P (link_len lk) (ethertype net) data"
  proof (cases lk)
    case (Ethernet macs vlan)
    then have "parse_packet P d = ethernet_parse P d None None" for d
      using ok(1) by (auto simp: parse_packet_def parse_by_dlt_def parse_tap_def split: option.splits)
    then show ?thesis using ethernet_read [of macs vlan "ethertype net" P data] ok(2) ty Ethernet by simp
  next
    case (Cooked hdr vlan)
    then show ?thesis using sll_read [of hdr vlan "ethertype net" P data] ok(1,2) ty by (simp add: parse_packet_def)
  next
    case (Cooked2 hdr vlan)
    then show ?thesis using sll2_read [of hdr vlan "ethertype net" P data] ok(1,2) ty by (simp add: parse_packet_def)
  next
    case Raw
    obtain first rest where "data = first # rest" "drop_bit 4 first = (if ethertype net = 0x0800 then 4 else 6)"
      using network_first_byte [OF ok(3)] unfolding data_def by metis
    from raw_read [OF this] show ?thesis
      using Raw ok(1) by (auto simp: parse_packet_def parse_by_dlt_def parse_tun_def)
  qed
  then show ?thesis
    unfolding frame_def data_def [symmetric] using network_encoded [OF ok(3-5)] by (simp add: data_def)
qed

section \<open>Packets that are not read\<close>

text \<open>The loopback link type has a four-byte header that names the address family; it is not skipped,
  and its first byte has no IP version in its upper half.\<close>

lemma null_loopback_unread:
  assumes "linktype P = Some 0" and "family < 16"
  shows "parse_packet P ([family, 0, 0, 0] @ data) = Some None"
proof -
  have "drop_bit 4 family = 0"
  proof -
    have "\<forall>k < 16. drop_bit 4 (word_of_nat k :: u8) = 0" unfolding digit_all by simp
    moreover have "unat family < 16" using assms(2) by (simp add: word_less_nat_alt)
    ultimately have "drop_bit 4 (word_of_nat (unat family) :: u8) = 0" by blast
    then show ?thesis by simp
  qed
  then show ?thesis using assms(1) by (simp add: parse_packet_def parse_by_dlt_def parse_tun_def raw_ip_parse_def byte_at_def)
qed

section \<open>Properties\<close>

definition sample_parser :: PacketParser where
  "sample_parser = \<lparr>local_ips = [V4 (Ipv4Addr 10 0 0 1)], parser_config = \<lparr>enable_dpi = True, dpi_packet_limit = 10\<rparr>,
     linktype = Some 1, oui_lookup = None, crypto = sample_crypto, inspect_time = 0\<rparr>"

definition sample_net :: "ipv4 \<Rightarrow> ipv4 \<Rightarrow> network" where
  "sample_net src dst = Net4 \<lparr>h4_tos = 0, h4_ident = [0, 1, 64, 0], h4_ttl = 64, h4_check = [0, 0],
     h4_src = src, h4_dst = dst, h4_options = []\<rparr>"

definition sample_segment :: "u16 \<Rightarrow> u16 \<Rightarrow> TcpFlags \<Rightarrow> tcp_segment" where
  "sample_segment sp dp fl = \<lparr>seg_sport = sp, seg_dport = dp, seg_seq = 1000, seg_ack = 0, seg_flags = fl,
     seg_window = 512, seg_check = [0, 0], seg_urgent = [0, 0], seg_options = [2, 4, 5, 180], seg_payload = []\<rparr>"

text \<open>C13. No captured bytes make the parser panic, whatever the link type and the local addresses
  are: not the link, network and transport headers, and not the inspection of the payload by any
  of its sixteen protocols. Of the cryptography only the block size of the cipher is used.\<close>

theorem parser_never_panics: "crypto_ok (crypto P) \<Longrightarrow> parse_packet P data \<noteq> None"
  using parse_packet_np [of P data] by (simp add: returns_def)

theorem parser_never_panics_witness: "parse_packet sample_parser (replicate 40 0xff) \<noteq> None"
  by (rule parser_never_panics) (simp add: sample_parser_def)

text \<open>C10. What a host sends is what the parser reads: a TCP segment or UDP datagram in an IPv4 packet
  with options or an IPv6 packet with extension headers, in an Ethernet frame with or without a
  VLAN tag, a Linux cooked frame or raw, is parsed to its addresses, ports, sequence and
  acknowledgment numbers, window, flags and payload. Bytes after the packet count as payload.\<close>

theorem frame_roundtrip:
  assumes "frame_ok P lk net tr"
  shows "parse_packet P (frame lk net tr pad)
     = Some (Some (transport_packet P (network_params net (link_len lk) tr) tr pad))"
  by (rule frame_parsed [OF assms])

theorem frame_roundtrip_witness:
  "let h = \<lparr>h6_class = 0, h6_flow = [0, 0, 0], h6_hop = 64, h6_src = Ipv6Addr 0x2001 0xdb8 0 0 0 0 0 1,
             h6_dst = Ipv6Addr 0x2001 0xdb8 0 0 0 0 0 2,
             h6_exts = [Options 0 (replicate 6 1), Fragment (replicate 7 0), Authentication (replicate 10 3)]\<rparr>;
       d = \<lparr>dg_sport = 5353, dg_dport = 53, dg_check = [1, 2], dg_payload = [9, 9, 9]\<rparr> in
   parse_packet sample_parser (frame (Ethernet (replicate 12 7) (Some [0, 5])) (Net6 h) (Datagram d) [])
     = Some (Some (transport_packet sample_parser (network_params (Net6 h) 18 (Datagram d)) (Datagram d) []))"
proof -
  have l: "link_len (Ethernet (replicate 12 7) (Some [0, 5])) = 18" by simp
  show ?thesis
    unfolding Let_def l [symmetric]
    by (rule frame_roundtrip) (simp add: frame_ok_def sample_parser_def ipv6_header_ok_def)
qed

text \<open>C18. The key of a packet is exactly its flow: two parsed packets have the same connection key
  if and only if they have the same protocol, local end and remote end.\<close>

theorem parsed_key_identifies_flow:
  assumes "parse_packet P data = Some (Some p)" and "parse_packet P' data' = Some (Some q)"
  shows "connection_key p = connection_key q \<longleftrightarrow>
    pkt_protocol p = pkt_protocol q \<and> pkt_local_addr p = pkt_local_addr q \<and> pkt_remote_addr p = pkt_remote_addr q"
  by (rule packet_ok_key [OF parse_packet_ok [OF assms(1)] parse_packet_ok [OF assms(2)]])

theorem parsed_key_identifies_flow_witness:
  "let fr = (\<lambda>sp. frame Raw (sample_net (Ipv4Addr 10 0 0 1) (Ipv4Addr 10 0 0 2))
                (Segment (sample_segment sp 443 (parse_tcp_flags 2))) []);
       P = sample_parser\<lparr>linktype := Some 101\<rparr> in
   \<forall>p q. parse_packet P (fr 40000) = Some (Some p) \<longrightarrow> parse_packet P (fr 40001) = Some (Some q)
     \<longrightarrow> connection_key p \<noteq> connection_key q"
proof -
  let ?P = "sample_parser\<lparr>linktype := Some 101\<rparr>" and ?n = "sample_net (Ipv4Addr 10 0 0 1) (Ipv4Addr 10 0 0 2)"
  let ?t = "\<lambda>sp. Segment (sample_segment sp 443 (parse_tcp_flags 2))"
  have "frame_ok ?P Raw ?n (?t sp)" for sp
    by (simp add: frame_ok_def sample_parser_def sample_net_def sample_segment_def ipv4_header_ok_def tcp_segment_ok_def)
  note parsed = frame_parsed [OF this, of _ "[]"]
  have "pkt_local_addr (transport_packet ?P (network_params ?n 0 (?t sp)) (?t sp) []) = \<lparr>ip = V4 (Ipv4Addr 10 0 0 1), port = sp\<rparr>" for sp
    by (simp add: sample_net_def sample_segment_def segment_packet_def packet_def endpoints_def is_local_def
        transport_params_def sample_parser_def)
  then show ?thesis
    using parsed_key_identifies_flow [OF parsed [of 40000] parsed [of 40001]] parsed by (simp add: Let_def)
qed

end
