(* ===== verification/Tracker.thy ===== *)
theory Tracker
  imports ConnTrack RustFmt "HOL-Library.AList"
begin

text \<open>
  The connection tracker: \<^verbatim>\<open>RttTracker\<close> of \<^verbatim>\<open>types.rs\<close> and \<^verbatim>\<open>ConnectionTracker\<close> of
  \<^verbatim>\<open>tracker.rs\<close>, with \<^verbatim>\<open>ingest_at\<close>, \<^verbatim>\<open>cleanup\<close> and \<^verbatim>\<open>clear\<close>. A \<open>HashMap\<close> or \<open>DashMap\<close> is
  an association list with distinct keys; its order is the iteration order, about which
  nothing is assumed. Operations are atomic here; the source lets several threads call them.
  \<open>tracker_ok\<close> is the invariant, \<open>represents\<close> the abstraction: a connection is the fold of
  the packets that arrived under its key since it was created.
\<close>

section \<open>Round-trip times\<close>

record ConnectionKey =
  key_local :: socket_addr
  key_remote :: socket_addr

record RttTracker =
  pending_syns :: "(ConnectionKey \<times> instant) list"
  recent_rtts :: "(instant \<times> duration) list"
  max_pending_age :: duration
  max_recent_rtts :: nat

definition RttTracker_new :: RttTracker where
  "RttTracker_new = \<lparr>pending_syns = [], recent_rtts = [], max_pending_age = secs 30, max_recent_rtts = 100\<rparr>"

definition cleanup_stale :: "instant \<Rightarrow> RttTracker \<Rightarrow> RttTracker" where
  "cleanup_stale now t =
     (let cutoff = now - int (max_pending_age t) in
      t\<lparr>pending_syns := filter (\<lambda>(_, ts). ts > cutoff) (pending_syns t)\<rparr>)"

definition record_syn :: "instant \<Rightarrow> ConnectionKey \<Rightarrow> RttTracker \<Rightarrow> RttTracker" where
  "record_syn now k t = cleanup_stale now (t\<lparr>pending_syns := AList.update k now (pending_syns t)\<rparr>)"

definition add_rtt_sample :: "instant \<Rightarrow> duration \<Rightarrow> RttTracker \<Rightarrow> RttTracker" where
  "add_rtt_sample now rtt t =
     (let kept = (if length (recent_rtts t) \<ge> max_recent_rtts t then tl (recent_rtts t) else recent_rtts t)
      in t\<lparr>recent_rtts := kept @ [(now, rtt)]\<rparr>)"

definition record_syn_ack :: "instant \<Rightarrow> ConnectionKey \<Rightarrow> RttTracker \<Rightarrow> duration option \<times> RttTracker" where
  "record_syn_ack now k t =
     (case map_of (pending_syns t) k of
        Some syn_time \<Rightarrow>
          let rtt = since now syn_time in
          (Some rtt, add_rtt_sample now rtt (t\<lparr>pending_syns := AList.delete k (pending_syns t)\<rparr>))
      | None \<Rightarrow> (None, t))"

text \<open>The samples \<open>take_average_rtt\<close> averages; the tracker itself is not changed by it.\<close>

definition rtt_window :: "instant \<Rightarrow> nat \<Rightarrow> RttTracker \<Rightarrow> duration list" where
  "rtt_window now window_secs t =
     map snd (filter (\<lambda>(ts, _). ts \<ge> now - int (secs window_secs)) (recent_rtts t))"

definition rtt_clear :: "RttTracker \<Rightarrow> RttTracker" where
  "rtt_clear t = t\<lparr>pending_syns := [], recent_rtts := []\<rparr>"

section \<open>The tracker\<close>

record TrackerConfig =
  max_connections :: nat
  max_historic :: nat
  max_quic_mappings :: nat
  keep_historic :: bool

definition TrackerConfig_default :: TrackerConfig where
  "TrackerConfig_default = \<lparr>max_connections = 50000, max_historic = 5000, max_quic_mappings = 10000,
     keep_historic = True\<rparr>"

record ConnectionTracker =
  connections :: "(bytes \<times> Connection) list"
  historic :: "(bytes \<times> Connection) list"
  rtt :: RttTracker
  quic_map :: "(bytes \<times> bytes) list"
  config :: TrackerConfig

record IngestOutcome =
  out_key :: bytes
  created :: bool
  dropped :: bool
  out_events :: tcp_events
  measured_rtt :: "duration option"

definition with_config :: "TrackerConfig \<Rightarrow> ConnectionTracker" where
  "with_config cfg = \<lparr>connections = [], historic = [], rtt = RttTracker_new, quic_map = [], config = cfg\<rparr>"

text \<open>The three parts of \<open>ingest_at\<close>: RTT, QUIC coalescing, the table update.\<close>

definition track_rtt :: "instant \<Rightarrow> ParsedPacket \<Rightarrow> RttTracker \<Rightarrow> duration option \<times> RttTracker" where
  "track_rtt now parsed t =
     (case tcp_header parsed of
        Some hdr \<Rightarrow>
          if pkt_protocol parsed = Tcp then
            let k = \<lparr>key_local = pkt_local_addr parsed, key_remote = pkt_remote_addr parsed\<rparr> in
            if syn (flags hdr) \<and> \<not> ack (flags hdr) then (None, record_syn now k t)
            else if syn (flags hdr) \<and> ack (flags hdr) then record_syn_ack now k t
            else (None, t)
          else (None, t)
      | None \<Rightarrow> (None, t))"

definition quic_id :: "ParsedPacket \<Rightarrow> bytes option" where
  "quic_id parsed =
     (if pkt_protocol parsed = Udp then
        case dpi_result parsed of Some (Quic q) \<Rightarrow> connection_id_hex q | _ \<Rightarrow> None
      else None)"

definition coalesce :: "nat \<Rightarrow> ParsedPacket \<Rightarrow> (bytes \<times> bytes) list \<Rightarrow> bytes \<times> (bytes \<times> bytes) list" where
  "coalesce max_mappings parsed mapping =
     (case quic_id parsed of
        None \<Rightarrow> (connection_key parsed, mapping)
      | Some conn_id \<Rightarrow>
          (case map_of mapping conn_id of
             Some existing_key \<Rightarrow> (existing_key, mapping)
           | None \<Rightarrow>
               (connection_key parsed,
                AList.update conn_id (connection_key parsed)
                  (if length mapping \<ge> max_mappings then [] else mapping))))"

definition set_initial_rtt :: "duration option \<Rightarrow> Connection \<Rightarrow> Connection" where
  "set_initial_rtt m conn =
     (case m of Some d \<Rightarrow> if initial_rtt conn = None then conn\<lparr>initial_rtt := Some d\<rparr> else conn | None \<Rightarrow> conn)"

definition ingest_at ::
  "clock \<Rightarrow> ParsedPacket \<Rightarrow> system_time \<Rightarrow> ConnectionTracker \<Rightarrow> ConnectionTracker \<times> IngestOutcome" where
  "ingest_at clk parsed now t =
     (let (measured, rtt') = track_rtt (mono clk) parsed (rtt t);
          (key, quic') = coalesce (max_quic_mappings (config t)) parsed (quic_map t);
          t = t\<lparr>rtt := rtt', quic_map := quic'\<rparr>
      in case map_of (connections t) key of
           None \<Rightarrow>
             if length (connections t) \<ge> max_connections (config t) then
               (t, \<lparr>out_key = key, created = False, dropped = True, out_events = (0, 0, 0), measured_rtt = measured\<rparr>)
             else
               (t\<lparr>connections := AList.update key
                    (set_initial_rtt measured (create_connection_from_packet clk parsed now)) (connections t)\<rparr>,
                \<lparr>out_key = key, created = True, dropped = False, out_events = (0, 0, 0), measured_rtt = measured\<rparr>)
         | Some conn \<Rightarrow>
             let (conn, events) = merge_packet_into_connection clk conn parsed now in
             (t\<lparr>connections := AList.update key (set_initial_rtt measured conn) (connections t)\<rparr>,
              \<lparr>out_key = key, created = False, dropped = False, out_events = events, measured_rtt = measured\<rparr>))"

definition ingest :: "clock \<Rightarrow> ParsedPacket \<Rightarrow> ConnectionTracker \<Rightarrow> ConnectionTracker \<times> IngestOutcome" where
  "ingest clk parsed t = ingest_at clk parsed (wall clk) t"

text \<open>\<open>cleanup\<close>: \<open>format!("{}:{}", key, nanos)\<close> is the key of the archived copy.\<close>

definition historic_key :: "bytes \<Rightarrow> Connection \<Rightarrow> bytes" where
  "historic_key key conn = key @ ascii '':'' @ decimal (since (created_at conn) 0)"

definition archived :: "system_time \<Rightarrow> Connection \<Rightarrow> Connection" where
  "archived now conn = conn\<lparr>is_historic := True, closed_at := Some now\<rparr>"

definition closing_time :: "Connection \<Rightarrow> system_time" where
  "closing_time conn = (case closed_at conn of Some t \<Rightarrow> t | None \<Rightarrow> created_at conn)"

definition victims :: "nat \<Rightarrow> (bytes \<times> Connection) list \<Rightarrow> bytes list" where
  "victims limit h =
     map fst (take (length h - limit) (sort_key snd (map (\<lambda>(k, c). (k, closing_time c)) h)))"

definition evict :: "nat \<Rightarrow> (bytes \<times> Connection) list \<Rightarrow> (bytes \<times> Connection) list" where
  "evict limit h =
     (if length h > limit then filter (\<lambda>(k, _). k \<notin> set (victims limit h)) h else h)"

fun archive_all :: "(bytes \<times> Connection) list \<Rightarrow> (bytes \<times> Connection) list \<Rightarrow> (bytes \<times> Connection) list" where
  "archive_all [] h = h"
| "archive_all ((k, c) # es) h = archive_all es (AList.update k c h)"

definition cleanup :: "clock \<Rightarrow> system_time \<Rightarrow> ConnectionTracker \<Rightarrow> ConnectionTracker \<times> Connection list" where
  "cleanup clk now t =
     (let gone = filter (\<lambda>(_, conn). should_cleanup clk conn now) (connections t);
          removed_keys = map fst gone;
          to_archive = map (\<lambda>(k, conn). (historic_key k conn, archived now conn)) gone
      in (t\<lparr>connections := filter (\<lambda>(_, conn). \<not> should_cleanup clk conn now) (connections t),
            historic := (if keep_historic (config t)
                         then evict (max_historic (config t)) (archive_all to_archive (historic t))
                         else historic t),
            quic_map := (if removed_keys \<noteq> []
                         then filter (\<lambda>(_, conn_key). conn_key \<notin> set removed_keys) (quic_map t)
                         else quic_map t)\<rparr>,
          map snd gone))"

definition clear_all :: "ConnectionTracker \<Rightarrow> ConnectionTracker" where
  "clear_all t = t\<lparr>connections := [], historic := [], rtt := rtt_clear (rtt t), quic_map := []\<rparr>"

section \<open>Association lists\<close>

named_theorems alist "association lists with distinct keys"

abbreviation keys_of :: "('k \<times> 'v) list \<Rightarrow> 'k list" where
  "keys_of al \<equiv> map fst al"

lemma keys_update [alist]: "set (keys_of (AList.update k v al)) = insert k (set (keys_of al))"
  by (simp add: dom_update)

lemma distinct_update [alist]: "distinct (keys_of al) \<Longrightarrow> distinct (keys_of (AList.update k v al))"
  by (rule distinct_update)

lemma length_update [alist]:
  "length (AList.update k v al) = (if k \<in> set (keys_of al) then length al else length al + 1)"
  by (induction al) auto

lemma map_of_None_keys [alist]: "map_of al k = None \<longleftrightarrow> k \<notin> set (keys_of al)"
  by (simp add: map_of_eq_None_iff)

lemma distinct_filter_keys [alist]: "distinct (keys_of al) \<Longrightarrow> distinct (keys_of (filter P al))"
  by (rule distinct_map_filter)

lemma update_set: "set (AList.update k v al) \<subseteq> insert (k, v) (set al)"
  by (induction al) auto

lemma map_of_filter_distinct:
  "distinct (keys_of al) \<Longrightarrow>
   map_of (filter (\<lambda>(_, v). P v) al) k = (case map_of al k of Some v \<Rightarrow> if P v then Some v else None | None \<Rightarrow> None)"
  by (induction al) (auto simp: map_of_eq_None_iff split: option.split)

lemma length_filter_keys:
  assumes "distinct (keys_of al)" and "distinct V" and "set V \<subseteq> set (keys_of al)"
  shows "length (filter (\<lambda>(k, _). k \<notin> set V) al) = length al - length V"
proof -
  have "length (filter (\<lambda>(k, _). k \<notin> set V) al) = length (filter (\<lambda>k. k \<notin> set V) (keys_of al))"
    by (simp add: filter_map comp_def case_prod_beta')
  also have "\<dots> = card (set (keys_of al) - set V)"
  proof -
    have "distinct (filter (\<lambda>k. k \<notin> set V) (keys_of al))" using assms(1) by simp
    moreover have "set (filter (\<lambda>k. k \<notin> set V) (keys_of al)) = set (keys_of al) - set V" by auto
    ultimately show ?thesis by (metis distinct_card)
  qed
  also have "\<dots> = length al - length V"
    using assms distinct_card [of "keys_of al"] by (simp add: card_Diff_subset distinct_card)
  finally show ?thesis .
qed

section \<open>The invariant\<close>

definition tracker_ok :: "ConnectionTracker \<Rightarrow> bool" where
  "tracker_ok t \<longleftrightarrow>
     distinct (keys_of (connections t)) \<and> distinct (keys_of (historic t)) \<and> distinct (keys_of (quic_map t))
     \<and> length (connections t) \<le> max_connections (config t)
     \<and> length (historic t) \<le> max_historic (config t)
     \<and> length (quic_map t) \<le> max 1 (max_quic_mappings (config t))
     \<and> (\<forall>(k, c) \<in> set (connections t). \<not> is_historic c)
     \<and> (\<forall>(k, c) \<in> set (historic t). is_historic c \<and> closed_at c \<noteq> None)
     \<and> (\<not> keep_historic (config t) \<longrightarrow> historic t = [])
     \<and> length (recent_rtts (rtt t)) \<le> max_recent_rtts (rtt t) \<and> 0 < max_recent_rtts (rtt t)"

lemma tracker_ok_with_config: "tracker_ok (with_config cfg)"
  by (simp add: tracker_ok_def with_config_def RttTracker_new_def)

lemma rtt_bound_step:
  assumes "length (recent_rtts r) \<le> max_recent_rtts r" and "0 < max_recent_rtts r"
  shows "length (recent_rtts (snd (track_rtt now p r))) \<le> max_recent_rtts (snd (track_rtt now p r))
    \<and> 0 < max_recent_rtts (snd (track_rtt now p r))"
  using assms
  by (auto simp: track_rtt_def record_syn_def cleanup_stale_def record_syn_ack_def add_rtt_sample_def Let_def
      split: option.split)

lemma coalesce_ok:
  assumes "distinct (keys_of m)" and "length m \<le> max 1 n"
  shows "distinct (keys_of (snd (coalesce n p m))) \<and> length (snd (coalesce n p m)) \<le> max 1 n"
  using assms by (auto simp: coalesce_def alist map_of_eq_None_iff split: option.split)

lemma set_initial_rtt_frame [simp]:
  "is_historic (set_initial_rtt m c) = is_historic c"
  "protocol_state (set_initial_rtt m c) = protocol_state c"
  "last_activity (set_initial_rtt m c) = last_activity c"
  "created_at (set_initial_rtt m c) = created_at c"
  "process_name (set_initial_rtt m c) = process_name c"
  "pid (set_initial_rtt m c) = pid c"
  by (simp_all add: set_initial_rtt_def split: option.split)

lemma merge_is_historic: "is_historic (fst (merge_packet_into_connection clk c p now)) = is_historic c"
  using merge_arrival_fields(3) [of c clk p now] by (simp add: merge_arrival.simps)

text \<open>The three outcomes of an ingest: dropped, created, updated.\<close>

lemma ingest_cases:
  obtains (dropped) rt qm key m where "track_rtt (mono clk) p (rtt t) = (m, rt)"
      "coalesce (max_quic_mappings (config t)) p (quic_map t) = (key, qm)"
      "map_of (connections t) key = None" "max_connections (config t) \<le> length (connections t)"
      "ingest_at clk p now t = (t\<lparr>rtt := rt, quic_map := qm\<rparr>,
         \<lparr>out_key = key, created = False, dropped = True, out_events = (0, 0, 0), measured_rtt = m\<rparr>)"
  | (created) rt qm key m where "track_rtt (mono clk) p (rtt t) = (m, rt)"
      "coalesce (max_quic_mappings (config t)) p (quic_map t) = (key, qm)"
      "map_of (connections t) key = None" "length (connections t) < max_connections (config t)"
      "ingest_at clk p now t = (t\<lparr>rtt := rt, quic_map := qm, connections :=
           AList.update key (set_initial_rtt m (create_connection_from_packet clk p now)) (connections t)\<rparr>,
         \<lparr>out_key = key, created = True, dropped = False, out_events = (0, 0, 0), measured_rtt = m\<rparr>)"
  | (updated) rt qm key m c where "track_rtt (mono clk) p (rtt t) = (m, rt)"
      "coalesce (max_quic_mappings (config t)) p (quic_map t) = (key, qm)"
      "map_of (connections t) key = Some c"
      "ingest_at clk p now t = (t\<lparr>rtt := rt, quic_map := qm, connections :=
           AList.update key (set_initial_rtt m (fst (merge_packet_into_connection clk c p now))) (connections t)\<rparr>,
         \<lparr>out_key = key, created = False, dropped = False,
          out_events = snd (merge_packet_into_connection clk c p now), measured_rtt = m\<rparr>)"
proof -
  obtain m rt where r: "track_rtt (mono clk) p (rtt t) = (m, rt)" by (cases "track_rtt (mono clk) p (rtt t)")
  obtain key qm where q: "coalesce (max_quic_mappings (config t)) p (quic_map t) = (key, qm)"
    by (cases "coalesce (max_quic_mappings (config t)) p (quic_map t)")
  show thesis
  proof (cases "map_of (connections t) key")
    case None
    show thesis
    proof (cases "max_connections (config t) \<le> length (connections t)")
      case True
      show thesis by (rule dropped [OF r q None True]) (simp add: ingest_at_def r q None True)
    next
      case False
      then have "length (connections t) < max_connections (config t)" by simp
      then show thesis by (rule created [OF r q None]) (simp add: ingest_at_def r q None False)
    qed
  next
    case (Some c)
    obtain c' ev where "merge_packet_into_connection clk c p now = (c', ev)"
      by (cases "merge_packet_into_connection clk c p now")
    then show thesis by (intro updated [OF r q Some]) (simp add: ingest_at_def r q Some)
  qed
qed

lemma ingest_config: "config (fst (ingest_at clk p now t)) = config t"
  and ingest_historic: "historic (fst (ingest_at clk p now t)) = historic t"
  by (cases rule: ingest_cases [of clk p t now]; simp)+

lemma ingest_ok:
  assumes "tracker_ok t"
  shows "tracker_ok (fst (ingest_at clk p now t))"
proof (cases rule: ingest_cases [of clk p t now])
  case (dropped rt qm key m)
  then show ?thesis using assms rtt_bound_step [of "rtt t" "mono clk" p]
      coalesce_ok [of "quic_map t" "max_quic_mappings (config t)" p]
    by (simp add: tracker_ok_def)
next
  case (created rt qm key m)
  let ?c = "set_initial_rtt m (create_connection_from_packet clk p now)"
  have "\<forall>(k, c) \<in> set (AList.update key ?c (connections t)). \<not> is_historic c"
    using assms update_set [of key ?c "connections t"] by (auto simp: tracker_ok_def)
  then show ?thesis using created assms rtt_bound_step [of "rtt t" "mono clk" p]
      coalesce_ok [of "quic_map t" "max_quic_mappings (config t)" p]
    by (simp add: tracker_ok_def alist)
next
  case (updated rt qm key m c)
  let ?c = "set_initial_rtt m (fst (merge_packet_into_connection clk c p now))"
  have "\<not> is_historic c" using assms map_of_SomeD [OF updated(3)] by (auto simp: tracker_ok_def)
  then have "\<forall>(k, c) \<in> set (AList.update key ?c (connections t)). \<not> is_historic c"
    using assms update_set [of key ?c "connections t"] by (auto simp: tracker_ok_def merge_is_historic)
  moreover have "key \<in> set (keys_of (connections t))" using map_of_SomeD [OF updated(3)] by force
  ultimately show ?thesis using updated assms rtt_bound_step [of "rtt t" "mono clk" p]
      coalesce_ok [of "quic_map t" "max_quic_mappings (config t)" p]
    by (simp add: tracker_ok_def alist)
qed

section \<open>Cleanup\<close>

lemma victims_props:
  assumes "distinct (keys_of h)" and "limit < length h"
  shows "distinct (victims limit h)" and "set (victims limit h) \<subseteq> set (keys_of h)"
    and "length (victims limit h) = length h - limit"
proof -
  let ?es = "map (\<lambda>(k, c). (k, closing_time c)) h"
  have "keys_of ?es = keys_of h" by (simp add: case_prod_beta' comp_def)
  then have "distinct ?es \<and> inj_on fst (set ?es)" using assms(1) by (metis distinct_map)
  then have d: "distinct (keys_of (sort_key snd ?es))" by (simp only: distinct_map distinct_sort set_sort)
  have s: "set (keys_of (sort_key snd ?es)) = set (keys_of h)"
    using \<open>keys_of ?es = keys_of h\<close> by (simp only: set_map set_sort) (metis set_map)
  show "distinct (victims limit h)" using d by (simp add: victims_def take_map [symmetric])
  show "set (victims limit h) \<subseteq> set (keys_of h)"
    using s set_take_subset [of "length h - limit" "keys_of (sort_key snd ?es)"]
    by (simp add: victims_def take_map [symmetric])
  show "length (victims limit h) = length h - limit" by (simp add: victims_def)
qed

lemma length_evict: "distinct (keys_of h) \<Longrightarrow> length (evict limit h) \<le> limit"
  using victims_props [of h limit] by (simp add: evict_def length_filter_keys)

lemma evict_exact: "distinct (keys_of h) \<Longrightarrow> length (evict limit h) = min limit (length h)"
  using victims_props [of h limit] by (simp add: evict_def length_filter_keys)

lemma evict_subset: "set (evict limit h) \<subseteq> set h"
  by (auto simp: evict_def)

lemma evict_distinct: "distinct (keys_of h) \<Longrightarrow> distinct (keys_of (evict limit h))"
  by (simp add: evict_def alist)

text \<open>What is evicted was closed no later than anything that stays.\<close>

lemma evict_oldest:
  assumes d: "distinct (keys_of h)" and gone: "(k, c) \<in> set h" "(k, c) \<notin> set (evict limit h)"
    and kept: "(k', c') \<in> set (evict limit h)"
  shows "closing_time c \<le> closing_time c'"
proof -
  let ?es = "map (\<lambda>(k, c). (k, closing_time c)) h"
  let ?s = "sort_key snd ?es" and ?n = "length h - limit"
  have big: "limit < length h" using gone by (auto simp: evict_def split: if_splits)
  have k: "k \<in> set (victims limit h)" and k': "k' \<notin> set (victims limit h)" and c': "(k', c') \<in> set h"
    using gone kept big by (auto simp: evict_def)
  obtain x where x: "(k, x) \<in> set (take ?n ?s)" using k by (auto simp: victims_def)
  then have "(k, x) \<in> set ?es" by (metis in_set_takeD set_sort)
  then have "(k, x) = (k, closing_time c)" using gone(1) d by (auto dest: eq_key_imp_eq_value)
  then have c: "(k, closing_time c) \<in> set (take ?n ?s)" using x by simp
  have "(k', closing_time c') \<in> set ?s" using c' by force
  moreover have "(k', closing_time c') \<notin> set (take ?n ?s)" using k' by (force simp: victims_def)
  ultimately have "(k', closing_time c') \<in> set (drop ?n ?s)"
    by (metis Un_iff append_take_drop_id set_append)
  moreover have "sorted (map snd (take ?n ?s) @ map snd (drop ?n ?s))"
    by (simp flip: map_append)
  ultimately show ?thesis using c by (fastforce simp: sorted_append)
qed

lemma archive_all_keys: "distinct (keys_of h) \<Longrightarrow> distinct (keys_of (archive_all es h))"
  by (induction es h rule: archive_all.induct) (simp_all add: alist)

lemma archive_all_set: "set (archive_all es h) \<subseteq> set es \<union> set h"
proof (induction es h rule: archive_all.induct)
  case (2 k c es h)
  then show ?case using update_set [of k c h] by auto
qed simp

lemma archive_all_map:
  "distinct (keys_of es) \<Longrightarrow> map_of (archive_all es h) k = (case map_of es k of Some c \<Rightarrow> Some c | None \<Rightarrow> map_of h k)"
proof (induction es h rule: archive_all.induct)
  case (2 k' c es h)
  have "map_of es k' = None" using 2(2) by (simp add: map_of_eq_None_iff)
  then show ?case using 2 by (cases "k = k'") (simp_all add: update_conv' split: option.split)
qed simp

lemma cleanup_ok:
  assumes "tracker_ok t"
  shows "tracker_ok (fst (cleanup clk now t))"
proof -
  let ?gone = "filter (\<lambda>(_, conn). should_cleanup clk conn now) (connections t)"
  let ?arch = "map (\<lambda>(k, conn). (historic_key k conn, archived now conn)) ?gone"
  let ?h = "archive_all ?arch (historic t)"
  have "\<forall>(k, c) \<in> set ?h. is_historic c \<and> closed_at c \<noteq> None"
    using archive_all_set [of ?arch "historic t"] assms by (fastforce simp: tracker_ok_def archived_def)
  then have "\<forall>(k, c) \<in> set (evict (max_historic (config t)) ?h). is_historic c \<and> closed_at c \<noteq> None"
    using evict_subset by blast
  moreover have d: "distinct (keys_of ?h)" using assms by (intro archive_all_keys) (simp add: tracker_ok_def)
  ultimately show ?thesis
    using assms length_evict [OF d, of "max_historic (config t)"] evict_distinct [OF d]
    by (auto simp: tracker_ok_def cleanup_def Let_def alist intro: le_trans [OF length_filter_le])
qed

lemma clear_ok: "tracker_ok t \<Longrightarrow> tracker_ok (clear_all t)"
  by (simp add: tracker_ok_def clear_all_def rtt_clear_def)

section \<open>Reachable trackers\<close>

inductive tracker_step :: "ConnectionTracker \<Rightarrow> ConnectionTracker \<Rightarrow> bool" where
  step_ingest: "tracker_step t (fst (ingest_at clk p now t))"
| step_cleanup: "tracker_step t (fst (cleanup clk now t))"
| step_clear: "tracker_step t (clear_all t)"

inductive_cases tracker_stepE: "tracker_step t t'"

inductive reachable_tracker :: "TrackerConfig \<Rightarrow> ConnectionTracker \<Rightarrow> bool" for cfg where
  rt_init: "reachable_tracker cfg (with_config cfg)"
| rt_step: "reachable_tracker cfg t \<Longrightarrow> tracker_step t t' \<Longrightarrow> reachable_tracker cfg t'"

lemma step_ok: "tracker_step t t' \<Longrightarrow> tracker_ok t \<Longrightarrow> tracker_ok t' \<and> config t' = config t"
  by (erule tracker_stepE)
     (simp_all add: ingest_ok cleanup_ok clear_ok ingest_config, simp_all add: cleanup_def clear_all_def Let_def)

lemma reachable_tracker_ok: "reachable_tracker cfg t \<Longrightarrow> tracker_ok t \<and> config t = cfg"
proof (induction rule: reachable_tracker.induct)
  case rt_init
  then show ?case by (simp add: tracker_ok_with_config) (simp add: with_config_def)
next
  case (rt_step t t')
  then show ?case using step_ok by fastforce
qed

section \<open>A connection is the fold of its packets\<close>

text \<open>The abstract tracker: for each key the packets that arrived since the connection was
  created, the first one apart. The measured round-trip time is kept aside.\<close>

type_synonym history = "bytes \<Rightarrow> (arrival \<times> arrival list) option"

definition without_rtt :: "Connection \<Rightarrow> Connection" where
  "without_rtt c = c\<lparr>initial_rtt := None\<rparr>"

fun connection_of :: "arrival \<times> arrival list \<Rightarrow> Connection" where
  "connection_of ((clk, p, now), as) = foldl merge_arrival (create_connection_from_packet clk p now) as"

definition represents :: "history \<Rightarrow> ConnectionTracker \<Rightarrow> bool" where
  "represents H t \<longleftrightarrow>
     (\<forall>k. map_option without_rtt (map_of (connections t) k) = map_option (without_rtt \<circ> connection_of) (H k))"

definition history_ingest :: "bytes \<Rightarrow> bool \<Rightarrow> arrival \<Rightarrow> history \<Rightarrow> history" where
  "history_ingest k drp a H =
     (if drp then H
      else case H k of None \<Rightarrow> H(k \<mapsto> (a, [])) | Some (a0, as) \<Rightarrow> H(k \<mapsto> (a0, as @ [a])))"

lemma represents_empty: "represents Map.empty (with_config cfg)"
  by (simp add: represents_def with_config_def)

lemma without_rtt_set [simp]: "without_rtt (set_initial_rtt m c) = without_rtt c"
  by (simp add: without_rtt_def set_initial_rtt_def split: option.split)

lemma without_rtt_upd: "merge_dpi_info i (c\<lparr>initial_rtt := x\<rparr>) app = (merge_dpi_info i c app)\<lparr>initial_rtt := x\<rparr>"
  "count_packet p (c\<lparr>initial_rtt := x\<rparr>) = (count_packet p c)\<lparr>initial_rtt := x\<rparr>"
  "merge_protocol_state p (c\<lparr>initial_rtt := x\<rparr>) =
     (let (c', e) = merge_protocol_state p c in (c'\<lparr>initial_rtt := x\<rparr>, e))"
  "merge_process p (c\<lparr>initial_rtt := x\<rparr>) = (merge_process p c)\<lparr>initial_rtt := x\<rparr>"
  "update_connection_rates i (c\<lparr>initial_rtt := x\<rparr>) = (update_connection_rates i c)\<lparr>initial_rtt := x\<rparr>"
  by (simp_all add: merge_dpi_info_def count_packet_def merge_process_def update_connection_rates_def
      merge_protocol_state_def merge_tcp_def Let_def split: option.split ProtocolState.split prod.split)

lemma merge_arrival_rtt:
  "merge_arrival (c\<lparr>initial_rtt := x\<rparr>) a = (merge_arrival c a)\<lparr>initial_rtt := x\<rparr>"
proof -
  obtain clk p now where a: "a = (clk, p, now)" by (cases a)
  obtain d where d: "d = c\<lparr>last_activity := now\<rparr>" by blast
  have "c\<lparr>initial_rtt := x, last_activity := now\<rparr> = d\<lparr>initial_rtt := x\<rparr>" by (simp add: d)
  then show ?thesis
    by (simp add: a merge_arrival.simps merge_packet_eq d [symmetric] without_rtt_upd Let_def case_prod_beta'
        split: option.split)
qed

lemma merge_arrival_without: "without_rtt c = without_rtt d \<Longrightarrow> without_rtt (merge_arrival c a) = without_rtt (merge_arrival d a)"
  using merge_arrival_rtt [where c = c and x = None and a = a]
    merge_arrival_rtt [where c = d and x = None and a = a] by (simp add: without_rtt_def)

text \<open>The refinement: a packet is appended to the history of the key it was filed under.\<close>

lemma represents_ingest:
  assumes "represents H t" and "ingest_at clk p now t = (t', out)"
  shows "represents (history_ingest (out_key out) (dropped out) (clk, p, now) H) t'"
proof -
  have at: "map_option without_rtt (map_of (connections t) k) = map_option (without_rtt \<circ> connection_of) (H k)" for k
    using assms(1) unfolding represents_def by blast
  show ?thesis
  proof (cases rule: ingest_cases [of clk p t now])
    case (dropped rt qm key m)
    then show ?thesis using assms by (simp add: represents_def history_ingest_def)
  next
    case (created rt qm key m)
    have out: "out_key out = key" "\<not> dropped out" and conns: "connections t' = AList.update key
        (set_initial_rtt m (create_connection_from_packet clk p now)) (connections t)"
      using assms(2) created(5) by auto
    have "H key = None" using at [of key] created(3) by simp
    then have "history_ingest key False (clk, p, now) H = H(key \<mapsto> ((clk, p, now), []))"
      by (simp add: history_ingest_def)
    then show ?thesis unfolding represents_def using out conns at by (simp add: update_conv')
  next
    case (updated rt qm key m c)
    have out: "out_key out = key" "\<not> dropped out" and conns: "connections t' = AList.update key
        (set_initial_rtt m (merge_arrival c (clk, p, now))) (connections t)"
      using assms(2) updated(4) by (auto simp: merge_arrival.simps)
    obtain a0 as where Hk: "H key = Some (a0, as)" and c: "without_rtt c = without_rtt (connection_of (a0, as))"
      using at [of key] updated(3) by (cases "H key") auto
    have "without_rtt (merge_arrival c (clk, p, now)) = without_rtt (connection_of (a0, as @ [(clk, p, now)]))"
      using merge_arrival_without [OF c] by (cases a0) simp
    moreover have "history_ingest key False (clk, p, now) H = H(key \<mapsto> (a0, as @ [(clk, p, now)]))"
      by (simp add: history_ingest_def Hk)
    ultimately show ?thesis unfolding represents_def using out conns at by (simp add: update_conv')
  qed
qed

lemma represents_cleanup:
  assumes "represents H t" and "tracker_ok t"
  shows "represents (\<lambda>k. case map_of (connections t) k of
            Some c \<Rightarrow> if should_cleanup clk c now then None else H k | None \<Rightarrow> None)
          (fst (cleanup clk now t))"
proof -
  have d: "distinct (keys_of (connections t))" using assms(2) by (simp add: tracker_ok_def)
  show ?thesis
    using assms(1) map_of_filter_distinct [OF d, of "\<lambda>c. \<not> should_cleanup clk c now"]
    by (auto simp: represents_def cleanup_def Let_def split: option.split)
      (metis option.map(2))+
qed

section \<open>QUIC connections that change address\<close>

lemma coalesce_known: "quic_id p = Some i \<Longrightarrow> map_of m i = Some k \<Longrightarrow> coalesce n p m = (k, m)"
  by (simp add: coalesce_def)

lemma coalesce_maps: "quic_id p = Some i \<Longrightarrow> map_of (snd (coalesce n p m)) i = Some (fst (coalesce n p m))"
  by (simp add: coalesce_def update_conv' split: option.split)

lemma ingest_key:
  "out_key (snd (ingest_at clk p now t)) = fst (coalesce (max_quic_mappings (config t)) p (quic_map t))"
  "quic_map (fst (ingest_at clk p now t)) = snd (coalesce (max_quic_mappings (config t)) p (quic_map t))"
  by (cases rule: ingest_cases [of clk p t now]; simp)+

section \<open>Archive keys\<close>

lemma historic_key_inject:
  assumes "historic_key k c = historic_key k' c'"
  shows "k = k' \<and> since (created_at c) 0 = since (created_at c') 0"
proof -
  have "colon \<notin> set (decimal n)" for n using decimal_digits [of colon n] by (auto simp: colon_def)
  moreover have "ascii '':'' = [colon]" by (simp add: ascii_def colon_def)
  ultimately show ?thesis
    using assms cut_last [of k colon "decimal (since (created_at c) 0)" k' "decimal (since (created_at c') 0)"]
    by (simp add: historic_key_def radix_inject)
qed

section \<open>Round-trip times are measured\<close>

lemma syn_ack_measured:
  assumes "t1 \<le> t2" and "0 < max_pending_age r"
  shows "fst (record_syn_ack t2 k (record_syn t1 k r)) = Some (since t2 t1)"
proof -
  have "map_of (pending_syns (record_syn t1 k r)) k = Some t1"
  proof -
    have "map_of (filter (\<lambda>(_, ts). t1 - int (max_pending_age r) < ts) (AList.update k t1 al)) k = Some t1" for al
      using assms(2) by (induction al) auto
    then show ?thesis by (simp add: record_syn_def cleanup_stale_def Let_def)
  qed
  then show ?thesis by (simp add: record_syn_ack_def Let_def)
qed

section \<open>Properties\<close>

text \<open>A run of packets.\<close>

fun ingest_all :: "ConnectionTracker \<Rightarrow> arrival list \<Rightarrow> ConnectionTracker" where
  "ingest_all t [] = t"
| "ingest_all t ((clk, p, now) # as) = ingest_all (fst (ingest_at clk p now t)) as"

lemma coalesce_keeps:
  assumes "map_of m i = Some k" and "length m < n"
  shows "map_of (snd (coalesce n p m)) i = Some k"
  using assms by (auto simp: coalesce_def update_conv' split: option.split)

lemma coalesce_length: "length (snd (coalesce n p m)) \<le> length m + 1"
  by (simp add: coalesce_def alist split: option.split)

lemma ingest_all_mapping:
  assumes "map_of (quic_map t) i = Some k" and "length (quic_map t) + length as \<le> max_quic_mappings (config t)"
  shows "map_of (quic_map (ingest_all t as)) i = Some k"
  using assms
proof (induction t as rule: ingest_all.induct)
  case (2 t clk p now as)
  let ?t = "fst (ingest_at clk p now t)"
  have "map_of (quic_map ?t) i = Some k" "length (quic_map ?t) \<le> length (quic_map t) + 1"
    using 2(2,3) coalesce_length [of "max_quic_mappings (config t)" p "quic_map t"]
    by (simp_all add: ingest_key coalesce_keeps)
  then show ?case using 2 by (simp add: ingest_config)
qed simp

definition small_config :: TrackerConfig where
  "small_config = \<lparr>max_connections = 1, max_historic = 1, max_quic_mappings = 2, keep_historic = True\<rparr>"

lemma small_tracker_ok: "tracker_ok (with_config small_config)"
  by (rule tracker_ok_with_config)

text \<open>C15. Every state of the tracker that packets, cleanups and \<open>clear\<close> can reach holds at most
  one connection per key and respects its limits: connections, archive, QUIC mappings and RTT
  samples are bounded, nothing archived is among the live connections and conversely.\<close>

theorem tracker_invariant:
  assumes "reachable_tracker cfg t"
  shows "distinct (keys_of (connections t)) \<and> length (connections t) \<le> max_connections cfg
    \<and> distinct (keys_of (historic t)) \<and> length (historic t) \<le> max_historic cfg
    \<and> distinct (keys_of (quic_map t)) \<and> length (quic_map t) \<le> max 1 (max_quic_mappings cfg)
    \<and> list_all (Not \<circ> is_historic \<circ> snd) (connections t) \<and> list_all (is_historic \<circ> snd) (historic t)
    \<and> length (recent_rtts (rtt t)) \<le> max_recent_rtts (rtt t)"
  using reachable_tracker_ok [OF assms] by (auto simp: tracker_ok_def list_all_iff)

theorem tracker_invariant_witness:
  "length (connections (fst (ingest_at sample_clock (sample_packet True False True 60 None) 3 (with_config small_config)))) \<le> 1"
proof -
  have "reachable_tracker small_config
      (fst (ingest_at sample_clock (sample_packet True False True 60 None) 3 (with_config small_config)))"
    by (intro rt_step [OF rt_init] step_ingest)
  from tracker_invariant [OF this] show ?thesis by (simp add: small_config_def)
qed

text \<open>C2. The tracker implements the history it abstracts from: apart from the measured round-trip
  time, each live connection is the fold of the packets filed under its key since it was
  created. \<open>ingest_at\<close> appends the packet to the history of the key it reports, unless it
  reports it dropped; \<open>cleanup\<close> forgets exactly the histories of the timed-out connections.\<close>

theorem tracker_refines_history:
  assumes "represents H t" and "tracker_ok t"
    and "ingest_at clk p now t = (t', out)" and "cleanup clk now t = (t'', removed)"
  shows "represents (history_ingest (out_key out) (dropped out) (clk, p, now) H) t'
    \<and> represents (\<lambda>k. case map_of (connections t) k of
          Some c \<Rightarrow> if should_cleanup clk c now then None else H k | None \<Rightarrow> None) t''"
  using represents_ingest [OF assms(1,3)] represents_cleanup [OF assms(1,2), of clk now] assms(4) by simp

theorem tracker_refines_history_witness:
  "\<exists>H. represents H (fst (ingest_at sample_clock (sample_packet True False True 60 None) 3 (with_config small_config)))"
proof -
  let ?i = "ingest_at sample_clock (sample_packet True False True 60 None) 3 (with_config small_config)"
  let ?c = "cleanup sample_clock 3 (with_config small_config)"
  show ?thesis
    using tracker_refines_history [OF represents_empty small_tracker_ok prod.collapse [of ?i, symmetric]
        prod.collapse [of ?c, symmetric]] by blast
qed

lemma archive_keys_distinct:
  assumes "distinct (keys_of (connections t))"
  shows "distinct (keys_of (map (\<lambda>(k, c). (historic_key k c, archived now c)) (filter P (connections t))))"
proof -
  let ?g = "filter P (connections t)"
  have "distinct (keys_of ?g)" using assms by (rule distinct_filter_keys)
  moreover have "distinct ?g" using calculation by (simp add: distinct_map)
  moreover have "inj_on (\<lambda>(k, c). historic_key k c) (set ?g)"
  proof (rule inj_onI)
    fix x y assume xy: "x \<in> set ?g" "y \<in> set ?g" "(\<lambda>(k, c). historic_key k c) x = (\<lambda>(k, c). historic_key k c) y"
    then have "fst x = fst y" using historic_key_inject by (auto simp: case_prod_beta')
    then show "x = y" using xy \<open>distinct (keys_of ?g)\<close> by (metis distinct_map inj_onD)
  qed
  ultimately show ?thesis by (simp add: comp_def case_prod_beta' distinct_map)
qed

lemma purge_mapping: "k \<in> set G \<Longrightarrow> k \<notin> snd ` set (if G \<noteq> [] then filter (\<lambda>(_, ck). ck \<notin> set G) qm else qm)"
  by (cases "G = []") auto

lemma archive_all_length: "length (archive_all es h) \<le> length h + length es"
proof (induction es h rule: archive_all.induct)
  case (2 k c es h)
  then show ?case by (auto simp: alist split: if_splits)
qed simp

text \<open>C17. A cleanup removes and returns exactly the timed-out connections, keeps the others
  unchanged, leaves no QUIC mapping to a removed connection, and, when the archive has room,
  archives each removed connection under a key of its own.\<close>

theorem cleanup_exact_removal:
  assumes "tracker_ok t" and "cleanup clk now t = (t', removed)"
  shows "map_of (connections t') k =
          (case map_of (connections t) k of Some c \<Rightarrow> if should_cleanup clk c now then None else Some c | None \<Rightarrow> None)
    \<and> set removed = {c. should_cleanup clk c now \<and> c \<in> snd ` set (connections t)}
    \<and> (map_of (connections t) k = Some c \<and> should_cleanup clk c now \<longrightarrow> k \<notin> snd ` set (quic_map t')
         \<and> (keep_historic (config t) \<and> length (historic t) + length removed \<le> max_historic (config t)
              \<longrightarrow> map_of (historic t') (historic_key k c) = Some (archived now c)))"
proof -
  let ?P = "\<lambda>(k, c). should_cleanup clk c now"
  let ?gone = "filter ?P (connections t)"
  let ?arch = "map (\<lambda>(k, c). (historic_key k c, archived now c)) ?gone"
  have d1: "distinct (keys_of (connections t))" using assms(1) by (simp add: tracker_ok_def)
  note d = d1 archive_keys_distinct [OF d1, of now ?P]
  have t': "connections t' = filter (\<lambda>(_, c). \<not> should_cleanup clk c now) (connections t)"
      "removed = map snd ?gone"
      "quic_map t' = (if map fst ?gone \<noteq> [] then filter (\<lambda>(_, ck). ck \<notin> set (map fst ?gone)) (quic_map t) else quic_map t)"
      "keep_historic (config t) \<Longrightarrow> historic t' = evict (max_historic (config t)) (archive_all ?arch (historic t))"
    using assms(2) by (auto simp: cleanup_def Let_def)
  have "keep_historic (config t) \<Longrightarrow> length (historic t) + length removed \<le> max_historic (config t) \<Longrightarrow>
      map_of (historic t') (historic_key k c) = Some (archived now c)" and "k \<notin> snd ` set (quic_map t')"
    if k: "map_of (connections t) k = Some c" "should_cleanup clk c now" for c
  proof -
    have g: "(k, c) \<in> set ?gone" using map_of_SomeD [OF k(1)] k(2) by simp
    then show "k \<notin> snd ` set (quic_map t')" unfolding t'(3) by (intro purge_mapping) force
    show "map_of (historic t') (historic_key k c) = Some (archived now c)"
      if "keep_historic (config t)" "length (historic t) + length removed \<le> max_historic (config t)"
    proof -
      have "(historic_key k c, archived now c) \<in> set ?arch" using g by force
      then have "map_of ?arch (historic_key k c) = Some (archived now c)"
        using d(2) by (intro map_of_is_SomeI)
      then have "map_of (archive_all ?arch (historic t)) (historic_key k c) = Some (archived now c)"
        by (simp only: archive_all_map [OF d(2)] option.case)
      moreover have "length (archive_all ?arch (historic t)) \<le> max_historic (config t)"
        using archive_all_length [of ?arch "historic t"] that(2) t'(2) by simp
      ultimately show ?thesis using t'(4) [OF that(1)] by (simp add: evict_def)
    qed
  qed
  moreover have "set removed = {c. should_cleanup clk c now \<and> c \<in> snd ` set (connections t)}"
    unfolding t'(2) by force
  moreover have "map_of (connections t') k =
      (case map_of (connections t) k of Some c \<Rightarrow> if should_cleanup clk c now then None else Some c | None \<Rightarrow> None)"
    unfolding t'(1) map_of_filter_distinct [OF d(1)] by (simp split: option.split)
  ultimately show ?thesis by blast
qed

definition sample_tracker :: ConnectionTracker where
  "sample_tracker = fst (ingest_at sample_clock (sample_packet True False True 60 None) 0 (with_config small_config))"

lemma sample_tracker_ok: "tracker_ok sample_tracker"
  by (simp add: sample_tracker_def ingest_ok small_tracker_ok)

theorem cleanup_exact_removal_witness:
  "map_of (connections (fst (cleanup sample_clock 0 sample_tracker))) (ascii ''x'')
     = (case map_of (connections sample_tracker) (ascii ''x'') of
          Some c \<Rightarrow> if should_cleanup sample_clock c 0 then None else Some c | None \<Rightarrow> None)"
  using cleanup_exact_removal [OF sample_tracker_ok prod.collapse [symmetric], of sample_clock 0 "ascii ''x''"] by blast

text \<open>C22. Packets that carry the same QUIC connection identifier are filed under one key, whatever
  their addresses and whatever packets come between, while the mapping table has room.\<close>

theorem quic_migration_coalesced:
  assumes "quic_id p = Some i" and "quic_id p' = Some i"
    and "t1 = fst (ingest_at clk p now t)"
    and "length (quic_map t1) + length as \<le> max_quic_mappings (config t)"
  shows "out_key (snd (ingest_at clk' p' now' (ingest_all t1 as))) = out_key (snd (ingest_at clk p now t))"
proof -
  have "map_of (quic_map t1) i = Some (out_key (snd (ingest_at clk p now t)))"
    by (simp add: assms(3) ingest_key coalesce_maps [OF assms(1)])
  moreover have "config t1 = config t" by (simp add: assms(3) ingest_config)
  ultimately have "map_of (quic_map (ingest_all t1 as)) i = Some (out_key (snd (ingest_at clk p now t)))"
    using assms(4) by (intro ingest_all_mapping) simp_all
  from coalesce_known [OF assms(2) this] show ?thesis by (simp add: ingest_key(1))
qed

definition sample_quic_packet :: "bytes \<Rightarrow> ParsedPacket" where
  "sample_quic_packet k = (sample_packet False False True 1200 None)\<lparr>connection_key := k, pkt_protocol := Udp,
     tcp_header := None, pkt_protocol_state := PS_Udp,
     dpi_result := Some (Quic ((sample_quic [1])\<lparr>connection_id_hex := Some (ascii ''0102'')\<rparr>))\<rparr>"

lemma sample_quic_id: "quic_id (sample_quic_packet k) = Some (ascii ''0102'')"
  by (simp add: quic_id_def sample_quic_packet_def)

theorem quic_migration_coalesced_witness:
  "out_key (snd (ingest_at sample_clock (sample_quic_packet (ascii ''new'')) 9
      (ingest_all (fst (ingest_at sample_clock (sample_quic_packet (ascii ''old'')) 5 (with_config small_config)))
         [(sample_clock, sample_packet True False True 60 None, 7)])))
   = ascii ''old''"
proof -
  have o': "fst (coalesce 2 (sample_quic_packet (ascii ''old'')) []) = ascii ''old''"
      "length (snd (coalesce 2 (sample_quic_packet (ascii ''old'')) [])) = 1"
    by (simp_all add: coalesce_def sample_quic_id) (simp add: sample_quic_packet_def)
  then show ?thesis
    using quic_migration_coalesced [OF sample_quic_id [of "ascii ''old''"] sample_quic_id [of "ascii ''new''"] refl,
        of sample_clock 5 "with_config small_config" "[(sample_clock, sample_packet True False True 60 None, 7)]" sample_clock 9]
    by (simp add: ingest_key with_config_def small_config_def)
qed

text \<open>The archive drops exactly as many entries as it is over its limit, and never one that
  was closed later than one it keeps.\<close>

theorem eviction_drops_oldest:
  assumes "distinct (keys_of h)"
  shows "length (evict limit h) = min limit (length h) \<and> set (evict limit h) \<subseteq> set h
    \<and> (\<forall>(k, c) \<in> set h - set (evict limit h). \<forall>(k', c') \<in> set (evict limit h). closing_time c \<le> closing_time c')"
  using evict_exact [OF assms] evict_subset evict_oldest [OF assms] by blast

theorem eviction_drops_oldest_witness:
  "length (evict 1 [([1 :: u8], archived 8 (create_connection_from_packet sample_clock (sample_packet True False True 60 None) 0)),
     ([2], archived 5 (create_connection_from_packet sample_clock (sample_packet True False True 60 None) 0))]) = 1"
  using eviction_drops_oldest [of "[([1 :: u8], archived 8 (create_connection_from_packet sample_clock (sample_packet True False True 60 None) 0)),
     ([2], archived 5 (create_connection_from_packet sample_clock (sample_packet True False True 60 None) 0))]" 1]
  by simp

text \<open>A SYN and the SYN-ACK that answers it between the same addresses measure the time from
  the one to the other.\<close>

theorem handshake_rtt_measured:
  assumes "tcp_header p = Some h" and "syn (flags h)" and "\<not> ack (flags h)"
    and "tcp_header p' = Some h'" and "syn (flags h')" and "ack (flags h')"
    and "pkt_protocol p = Tcp" and "pkt_protocol p' = Tcp"
    and "pkt_local_addr p' = pkt_local_addr p" and "pkt_remote_addr p' = pkt_remote_addr p"
    and "mono clk \<le> mono clk'" and "0 < max_pending_age (rtt t)"
  shows "measured_rtt (snd (ingest_at clk' p' now' (fst (ingest_at clk p now t)))) = Some (since (mono clk') (mono clk))"
proof -
  let ?k = "\<lparr>key_local = pkt_local_addr p, key_remote = pkt_remote_addr p\<rparr>"
  have "track_rtt (mono clk) p (rtt t) = (None, record_syn (mono clk) ?k (rtt t))"
    using assms by (simp add: track_rtt_def Let_def)
  then have "rtt (fst (ingest_at clk p now t)) = record_syn (mono clk) ?k (rtt t)"
    by (cases rule: ingest_cases [of clk p t now]; simp)
  then have "fst (track_rtt (mono clk') p' (rtt (fst (ingest_at clk p now t)))) = Some (since (mono clk') (mono clk))"
    using assms syn_ack_measured [OF assms(11,12)] by (simp add: track_rtt_def Let_def)
  then show ?thesis
    by (cases rule: ingest_cases [of clk' p' "fst (ingest_at clk p now t)" now']; simp)
qed

theorem handshake_rtt_measured_witness:
  "measured_rtt (snd (ingest_at (sample_clock\<lparr>mono := 75\<rparr>) (sample_packet True True False 60 None) 4
      (fst (ingest_at sample_clock (sample_packet True False True 60 None) 3 (with_config small_config))))) = Some 25"
proof -
  have "0 < max_pending_age (rtt (with_config small_config))"
    by (simp add: with_config_def RttTracker_new_def secs_def)
  from handshake_rtt_measured [OF _ _ _ _ _ _ _ _ _ _ _ this, of "sample_packet True False True 60 None" _
      "sample_packet True True False 60 None" _ sample_clock "sample_clock\<lparr>mono := 75\<rparr>" 4 3]
  show ?thesis by (simp add: sample_packet_def sample_flags_def sample_clock_def since_def)
qed

text \<open>A full table drops the packets of new connections and says so; packets of known
  connections are still merged, and no connection is lost.\<close>

theorem full_table_drops_new:
  assumes "max_connections (config t) \<le> length (connections t)"
    and "ingest_at clk p now t = (t', out)"
  shows "(dropped out \<longleftrightarrow> map_of (connections t) (out_key out) = None) \<and> \<not> created out
    \<and> (dropped out \<longrightarrow> connections t' = connections t) \<and> keys_of (connections t') = keys_of (connections t)"
  using assms
proof (cases rule: ingest_cases [of clk p t now])
  case (updated rt qm key m c)
  have "key \<in> set (keys_of (connections t))" using map_of_SomeD [OF updated(3)] by force
  then have "keys_of (AList.update key v (connections t)) = keys_of (connections t)" for v
    by (simp add: update_keys)
  then show ?thesis using updated assms by auto
qed auto

theorem full_table_drops_new_witness:
  "dropped (snd (ingest_at sample_clock ((sample_packet True False True 60 None)\<lparr>connection_key := ascii ''z''\<rparr>) 3
      ((with_config small_config)\<lparr>config := small_config\<lparr>max_connections := 0\<rparr>\<rparr>)))"
proof -
  let ?t = "(with_config small_config)\<lparr>config := small_config\<lparr>max_connections := 0\<rparr>\<rparr>"
  let ?i = "ingest_at sample_clock ((sample_packet True False True 60 None)\<lparr>connection_key := ascii ''z''\<rparr>) 3 ?t"
  have "max_connections (config ?t) \<le> length (connections ?t)" and "connections ?t = []"
    by (simp_all add: with_config_def)
  then show ?thesis using full_table_drops_new [OF _ prod.collapse [of ?i, symmetric]] by simp
qed

end
