(* ===== verification/Pipeline.thy ===== *)
theory Pipeline
  imports FrameRead Tracker
begin

text \<open>
  From captured bytes to connections: the packet-processor loop of \<^verbatim>\<open>app.rs\<close>, which parses a
  batch of frames, files each packet with the tracker and adds its TCP events to the program's
  totals. A parser that panics loses its packet only (\<open>catch_unwind\<close>). The operations of several
  processor threads are atomic on tracker and totals and interleave here as one sequence. Logging
  is left out, and the clock is read once per packet. What the program shows of a flow is stated
  over the frames of the flow.
\<close>

section \<open>The packet processor\<close>

record AppStats =
  packets_processed :: u64
  packets_dropped :: u64
  connections_tracked :: u64
  stats_last_update :: instant
  total_tcp_retransmits :: u64
  total_tcp_out_of_order :: u64
  total_tcp_fast_retransmits :: u64

definition AppStats_default :: "clock \<Rightarrow> AppStats" where
  "AppStats_default clk = \<lparr>packets_processed = 0, packets_dropped = 0, connections_tracked = 0,
     stats_last_update = mono clk, total_tcp_retransmits = 0, total_tcp_out_of_order = 0,
     total_tcp_fast_retransmits = 0\<rparr>"

definition update_connection ::
  "clock \<Rightarrow> ParsedPacket \<Rightarrow> ConnectionTracker \<times> AppStats \<Rightarrow> ConnectionTracker \<times> AppStats" where
  "update_connection clk parsed s =
     (let (t, stats) = s;
          (t, outcome) = ingest clk parsed t;
          (retransmits, out_of_order, fast_retransmits) = out_events outcome;
          stats = (if retransmits > 0
                   then stats\<lparr>total_tcp_retransmits := total_tcp_retransmits stats + retransmits\<rparr> else stats);
          stats = (if out_of_order > 0
                   then stats\<lparr>total_tcp_out_of_order := total_tcp_out_of_order stats + out_of_order\<rparr> else stats);
          stats = (if fast_retransmits > 0
                   then stats\<lparr>total_tcp_fast_retransmits := total_tcp_fast_retransmits stats + fast_retransmits\<rparr>
                   else stats)
      in (t, stats))"

definition process_packet ::
  "PacketParser \<Rightarrow> clock \<times> bytes \<Rightarrow> ConnectionTracker \<times> AppStats \<Rightarrow> ConnectionTracker \<times> AppStats" where
  "process_packet P captured s =
     (let (clk, packet_data) = captured in
      case parse_packet (P\<lparr>inspect_time := mono clk\<rparr>) packet_data of
        Some (Some parsed) \<Rightarrow> update_connection clk parsed s
      | Some None \<Rightarrow> s
      | None \<Rightarrow> s)"

definition process_batch ::
  "PacketParser \<Rightarrow> (clock \<times> bytes) list \<Rightarrow> ConnectionTracker \<times> AppStats \<Rightarrow> ConnectionTracker \<times> AppStats" where
  "process_batch P batch s =
     (let (t, stats) = fold (process_packet P) batch s
      in (t, stats\<lparr>packets_processed := packets_processed stats + of_nat (length batch)\<rparr>))"

section \<open>A batch is the packets parsed from it\<close>

definition arrival_of :: "PacketParser \<Rightarrow> clock \<times> bytes \<Rightarrow> arrival option" where
  "arrival_of P captured =
     (case parse_packet (P\<lparr>inspect_time := mono (fst captured)\<rparr>) (snd captured) of
        Some (Some p) \<Rightarrow> Some (fst captured, p, wall (fst captured))
      | _ \<Rightarrow> None)"

definition arrivals :: "PacketParser \<Rightarrow> (clock \<times> bytes) list \<Rightarrow> arrival list" where
  "arrivals P = List.map_filter (arrival_of P)"

lemma update_connection_tracker: "fst (update_connection clk p s) = fst (ingest_at clk p (wall clk) (fst s))"
  by (simp add: update_connection_def ingest_def Let_def split: prod.split)

lemma process_packet_tracker:
  "fst (process_packet P a s) = (case arrival_of P a of Some b \<Rightarrow> ingest_all (fst s) [b] | None \<Rightarrow> fst s)"
  by (simp add: process_packet_def arrival_of_def update_connection_tracker split: prod.split option.split)

lemma ingest_all_append: "ingest_all t (as @ bs) = ingest_all (ingest_all t as) bs"
  by (induction t as rule: ingest_all.induct) simp_all

lemma fold_process: "fst (fold (process_packet P) batch s) = ingest_all (fst s) (arrivals P batch)"
proof (induction batch arbitrary: s)
  case (Cons a batch)
  show ?case
    using Cons.IH [of "process_packet P a s"] ingest_all_append [of "fst s" "[b]" "arrivals P batch" for b]
    by (cases "arrival_of P a") (simp_all add: arrivals_def List.map_filter_simps process_packet_tracker)
qed (simp add: arrivals_def List.map_filter_simps)

lemma process_batch_tracker: "fst (process_batch P batch s) = ingest_all (fst s) (arrivals P batch)"
  using fold_process [of P batch s] by (simp add: process_batch_def case_prod_beta' Let_def)

section \<open>The totals\<close>

text \<open>An event counter of a connection, and its sum over the table.\<close>

definition count_of :: "(TcpAnalytics \<Rightarrow> u64) \<Rightarrow> Connection \<Rightarrow> u64" where
  "count_of sel c = (case tcp_analytics c of Some a \<Rightarrow> sel a | None \<Rightarrow> 0)"

definition table_total :: "(TcpAnalytics \<Rightarrow> u64) \<Rightarrow> ConnectionTracker \<Rightarrow> u64" where
  "table_total sel t = sum_list (map (count_of sel \<circ> snd) (connections t))"

lemma merge_counts:
  assumes "merge_packet_into_connection clk c p now = (c', r, oo, f)"
  shows "count_of retransmit_count c' = count_of retransmit_count c + r"
    and "count_of out_of_order_count c' = count_of out_of_order_count c + oo"
    and "count_of fast_retransmit_count c' = count_of fast_retransmit_count c + f"
proof -
  let ?c = "count_packet p (c\<lparr>last_activity := now\<rparr>)"
  let ?m = "merge_protocol_state p ?c"
  have ev: "(r, oo, f) = snd ?m" and an: "tcp_analytics c' = tcp_analytics (fst ?m)"
    using assms by (auto simp: merge_packet_eq conn_frame split: option.splits)
  show "count_of retransmit_count c' = count_of retransmit_count c + r"
    and "count_of out_of_order_count c' = count_of out_of_order_count c + oo"
    and "count_of fast_retransmit_count c' = count_of fast_retransmit_count c + f"
  proof -
    consider (none) "tcp_analytics c = None" | (some) a a' where "tcp_analytics c = Some a" "tcp_analytics c' = Some a'"
      using an by (auto simp: merge_protocol_state_def merge_tcp_def Let_def count_packet_def
          split: option.splits ProtocolState.splits prod.splits if_splits)
    then have "count_of retransmit_count c' = count_of retransmit_count c + r
      \<and> count_of out_of_order_count c' = count_of out_of_order_count c + oo
      \<and> count_of fast_retransmit_count c' = count_of fast_retransmit_count c + f"
    proof cases
      case none
      then have "tcp_analytics (fst ?m) = None \<and> snd ?m = (0, 0, 0)"
        by (auto simp: merge_protocol_state_def merge_tcp_def Let_def conn_frame
            split: option.split ProtocolState.split)
      then show ?thesis using none an ev by (simp add: count_of_def)
    next
      case (some a a')
      then show ?thesis using merge_events [OF assms some] by (simp add: count_of_def)
    qed
    then show "count_of retransmit_count c' = count_of retransmit_count c + r"
      and "count_of out_of_order_count c' = count_of out_of_order_count c + oo"
      and "count_of fast_retransmit_count c' = count_of fast_retransmit_count c + f" by blast+
  qed
qed

lemma count_of_create:
  "sel TcpAnalytics_new = 0 \<Longrightarrow> count_of sel (create_connection_from_packet clk p now) = 0"
  by (simp add: count_of_def create_connection_from_packet_def Connection_new_def Let_def split: option.split)

lemma count_of_set_rtt [simp]: "count_of sel (set_initial_rtt m c) = count_of sel c"
  by (simp add: count_of_def set_initial_rtt_def split: option.split)

lemma sum_update_new:
  fixes f :: "'v \<Rightarrow> 'n :: comm_monoid_add"
  shows "map_of al k = None \<Longrightarrow> sum_list (map (f \<circ> snd) (AList.update k v al)) = sum_list (map (f \<circ> snd) al) + f v"
  by (induction al) (auto simp: add_ac split: if_splits)

lemma sum_update_known:
  fixes f :: "'v \<Rightarrow> 'n :: comm_monoid_add"
  shows "map_of al k = Some w \<Longrightarrow>
    sum_list (map (f \<circ> snd) (AList.update k v al)) + f w = sum_list (map (f \<circ> snd) al) + f v"
  by (induction al) (auto simp: add_ac split: if_splits)

text \<open>The three event counters, each with its place among the events.\<close>

definition counter_event :: "(TcpAnalytics \<Rightarrow> u64) \<Rightarrow> (tcp_events \<Rightarrow> u64) \<Rightarrow> bool" where
  "counter_event sel ev \<longleftrightarrow> sel TcpAnalytics_new = 0 \<and> ev (0, 0, 0) = 0
     \<and> (\<forall>clk c p now. count_of sel (fst (merge_packet_into_connection clk c p now))
          = count_of sel c + ev (snd (merge_packet_into_connection clk c p now)))"

lemma counter_events:
  "counter_event retransmit_count fst" "counter_event out_of_order_count (fst \<circ> snd)"
  "counter_event fast_retransmit_count (snd \<circ> snd)"
  unfolding counter_event_def using merge_counts
  by (simp_all add: TcpAnalytics_new_def) (metis fst_conv snd_conv surj_pair)+

lemma ingest_total:
  assumes "counter_event sel ev"
  shows "table_total sel (fst (ingest_at clk p now t)) = table_total sel t + ev (out_events (snd (ingest_at clk p now t)))"
proof (cases rule: ingest_cases [of clk p t now])
  case (dropped rt qm key m)
  then show ?thesis using assms by (simp add: table_total_def counter_event_def)
next
  case (created rt qm key m)
  then show ?thesis using assms
    by (simp add: table_total_def counter_event_def sum_update_new count_of_create)
next
  case (updated rt qm key m c)
  have "count_of sel (fst (merge_packet_into_connection clk c p now))
      = count_of sel c + ev (snd (merge_packet_into_connection clk c p now))"
    using assms by (simp add: counter_event_def)
  then show ?thesis
    using sum_update_known [OF updated(3), of "count_of sel" "set_initial_rtt m (fst (merge_packet_into_connection clk c p now))"]
    by (simp add: table_total_def updated(4) algebra_simps)
qed

text \<open>The totals and the table grow alike.\<close>

definition balanced :: "(TcpAnalytics \<Rightarrow> u64) \<Rightarrow> (AppStats \<Rightarrow> u64) \<Rightarrow> ConnectionTracker \<times> AppStats \<Rightarrow>
    ConnectionTracker \<times> AppStats \<Rightarrow> bool" where
  "balanced sel tot s s' \<longleftrightarrow>
     table_total sel (fst s') - table_total sel (fst s) = tot (snd s') - tot (snd s)"

lemma update_connection_totals:
  "balanced retransmit_count total_tcp_retransmits s (update_connection clk p s)"
  "balanced out_of_order_count total_tcp_out_of_order s (update_connection clk p s)"
  "balanced fast_retransmit_count total_tcp_fast_retransmits s (update_connection clk p s)"
  using counter_events [THEN ingest_total, of clk p "wall clk" "fst s"]
  by (auto simp: balanced_def update_connection_def ingest_def Let_def word_gt_0 split: prod.split)

lemma process_totals:
  "balanced retransmit_count total_tcp_retransmits s (process_packet P a s)"
  "balanced out_of_order_count total_tcp_out_of_order s (process_packet P a s)"
  "balanced fast_retransmit_count total_tcp_fast_retransmits s (process_packet P a s)"
  using update_connection_totals [of s]
  by (auto simp: process_packet_def balanced_def split: prod.split option.split)

lemma balanced_trans: "balanced sel tot s s' \<Longrightarrow> balanced sel tot s' s'' \<Longrightarrow> balanced sel tot s s''"
proof -
  have "a - c = (a - b) + (b - c)" for a b c :: u64 by simp
  then show "balanced sel tot s s' \<Longrightarrow> balanced sel tot s' s'' \<Longrightarrow> balanced sel tot s s''"
    unfolding balanced_def by metis
qed

lemma balanced_fold:
  assumes "\<And>a s. balanced sel tot s (f a s)"
  shows "balanced sel tot s (fold f as s)"
proof (induction as arbitrary: s)
  case (Cons a as)
  show ?case using balanced_trans [OF assms [of s a] Cons.IH] by simp
qed (simp add: balanced_def)

section \<open>A flow over its frames\<close>

lemma merge_arrival_ends [simp]:
  "local_addr (merge_arrival c a) = local_addr c" "remote_addr (merge_arrival c a) = remote_addr c"
proof -
  have "local_addr (fst (merge_protocol_state p c)) = local_addr c"
    "remote_addr (fst (merge_protocol_state p c)) = remote_addr c" for p c
    by (simp_all add: merge_protocol_state_def merge_tcp_def Let_def split: option.split ProtocolState.split prod.split)
  then show "local_addr (merge_arrival c a) = local_addr c" "remote_addr (merge_arrival c a) = remote_addr c"
    by (cases a; simp add: merge_arrival.simps merge_packet_eq merge_dpi_info_def count_packet_def merge_process_def
        update_connection_rates_def Let_def split: option.split)+
qed

lemma fold_ends [simp]:
  "local_addr (foldl merge_arrival c as) = local_addr c" "remote_addr (foldl merge_arrival c as) = remote_addr c"
  by (induction as arbitrary: c) simp_all

lemma create_ends [simp]:
  "local_addr (create_connection_from_packet clk p now) = pkt_local_addr p"
  "remote_addr (create_connection_from_packet clk p now) = pkt_remote_addr p"
  by (simp_all add: create_connection_from_packet_def Connection_new_def Let_def split: option.split)

text \<open>TCP packets are filed under their own key.\<close>

lemma coalesce_tcp: "pkt_protocol p = Tcp \<Longrightarrow> coalesce n p m = (connection_key p, m)"
  by (simp add: coalesce_def quic_id_def)

lemma ingest_new:
  assumes "pkt_protocol p = Tcp" and "map_of (connections t) (connection_key p) = None"
    and "length (connections t) < max_connections (config t)"
  obtains c where "map_of (connections (fst (ingest_at clk p now t))) = (map_of (connections t)) (connection_key p \<mapsto> c)"
    and "without_rtt c = without_rtt (create_connection_from_packet clk p now)"
proof (cases rule: ingest_cases [of clk p t now])
  case (created rt qm key m)
  then show thesis using that assms by (simp add: coalesce_tcp update_conv')
qed (use assms in \<open>simp_all add: coalesce_tcp\<close>)

lemma ingest_known:
  assumes "pkt_protocol p = Tcp" and "map_of (connections t) (connection_key p) = Some c"
  obtains c' where "map_of (connections (fst (ingest_at clk p now t))) = (map_of (connections t)) (connection_key p \<mapsto> c')"
    and "without_rtt c' = without_rtt (merge_arrival c (clk, p, now))"
proof (cases rule: ingest_cases [of clk p t now])
  case (updated rt qm key m c')
  then show thesis using that assms by (simp add: coalesce_tcp update_conv' merge_arrival.simps)
qed (use assms in \<open>simp_all add: coalesce_tcp\<close>)

lemma fold_without:
  "without_rtt c = without_rtt d \<Longrightarrow> without_rtt (foldl merge_arrival c as) = without_rtt (foldl merge_arrival d as)"
proof (induction as arbitrary: c d)
  case (Cons a as)
  show ?case using Cons.IH [OF merge_arrival_without [OF Cons.prems]] by simp
qed simp

lemma ingest_all_known:
  assumes "map_of (connections t) key = Some c"
    and "\<forall>(clk, p, now) \<in> set as. pkt_protocol p = Tcp \<and> connection_key p = key"
  shows "\<exists>c'. map_of (connections (ingest_all t as)) = (map_of (connections t)) (key \<mapsto> c')
    \<and> without_rtt c' = without_rtt (foldl merge_arrival c as)"
  using assms
proof (induction t as arbitrary: c rule: ingest_all.induct)
  case (1 t)
  show ?case
    by (rule exI [of _ c])
       (simp only: ingest_all.simps foldl_Nil map_upd_triv [of "map_of (connections t)" key c, OF 1(1)] simp_thms)
next
  case (2 t clk p now as)
  let ?t = "fst (ingest_at clk p now t)"
  have p: "pkt_protocol p = Tcp" "connection_key p = key" using 2(3) by auto
  obtain d where d: "map_of (connections ?t) = (map_of (connections t)) (key \<mapsto> d)"
      "without_rtt d = without_rtt (merge_arrival c (clk, p, now))"
    by (rule ingest_known [OF p(1), of t c clk now]) (use 2(2) p(2) in auto)
  have "map_of (connections ?t) key = Some d" using d(1) by simp
  moreover have "\<forall>(clk, p, now) \<in> set as. pkt_protocol p = Tcp \<and> connection_key p = key" using 2(3) by simp
  ultimately obtain c' where c': "map_of (connections (ingest_all ?t as)) = (map_of (connections ?t)) (key \<mapsto> c')"
      "without_rtt c' = without_rtt (foldl merge_arrival d as)"
    using 2(1) [of d] by blast
  have "map_of (connections (ingest_all t ((clk, p, now) # as))) = (map_of (connections t)) (key \<mapsto> c')"
    using c'(1) unfolding d(1) by simp
  then show ?case using fold_without [OF d(2), of as] c'(2) by (intro exI [of _ c']) simp
qed

text \<open>A frame of a flow: reading, framing, headers, segment and padding. The flow is given by the
  local and the remote socket, and a frame's direction by the order of its ends.\<close>

record flow_frame =
  ff_clock :: clock
  ff_link :: link
  ff_net :: network
  ff_segment :: tcp_segment
  ff_pad :: bytes

fun net_src :: "network \<Rightarrow> ip_addr" where
  "net_src (Net4 h) = V4 (h4_src h)"
| "net_src (Net6 h) = V6 (h6_src h)"

fun net_dst :: "network \<Rightarrow> ip_addr" where
  "net_dst (Net4 h) = V4 (h4_dst h)"
| "net_dst (Net6 h) = V6 (h6_dst h)"

definition ends_of :: "flow_frame \<Rightarrow> socket_addr \<times> socket_addr" where
  "ends_of f = (\<lparr>ip = net_src (ff_net f), port = seg_sport (ff_segment f)\<rparr>,
                \<lparr>ip = net_dst (ff_net f), port = seg_dport (ff_segment f)\<rparr>)"

definition captured :: "flow_frame \<Rightarrow> clock \<times> bytes" where
  "captured f = (ff_clock f, frame (ff_link f) (ff_net f) (Segment (ff_segment f)) (ff_pad f))"

definition flow_of :: "PacketParser \<Rightarrow> socket_addr \<Rightarrow> socket_addr \<Rightarrow> flow_frame \<Rightarrow> bool" where
  "flow_of P l r f \<longleftrightarrow> frame_ok P (ff_link f) (ff_net f) (Segment (ff_segment f)) \<and> ends_of f \<in> {(l, r), (r, l)}"

definition frame_packet :: "PacketParser \<Rightarrow> flow_frame \<Rightarrow> ParsedPacket" where
  "frame_packet P f = segment_packet P (network_params (ff_net f) (link_len (ff_link f)) (Segment (ff_segment f)))
     (ff_segment f) (ff_pad f)"

definition frame_arrival :: "PacketParser \<Rightarrow> flow_frame \<Rightarrow> arrival" where
  "frame_arrival P f = (ff_clock f, frame_packet P f, wall (ff_clock f))"

lemma ends_of_iff:
  "ends_of f = (a, b) \<longleftrightarrow> net_src (ff_net f) = ip a \<and> seg_sport (ff_segment f) = port a
     \<and> net_dst (ff_net f) = ip b \<and> seg_dport (ff_segment f) = port b"
  by (cases a; cases b) (auto simp: ends_of_def)

lemma network_params_ends [simp]:
  "src_ip (network_params net before tr) = net_src net" "dst_ip (network_params net before tr) = net_dst net"
  by (cases net; simp add: transport_params_def)+

text \<open>The time of the inspection does not matter for a TCP segment.\<close>

lemma frame_ok_time [simp]: "frame_ok (P\<lparr>inspect_time := n\<rparr>) lk net tr = frame_ok P lk net tr"
  by (cases lk) (simp_all add: frame_ok_def)

lemma parser_time [simp]:
  "is_local (P\<lparr>inspect_time := n\<rparr>) = is_local P" "endpoints (P\<lparr>inspect_time := n\<rparr>) = endpoints P"
  "inspection f (P\<lparr>inspect_time := n\<rparr>) = inspection f P" "packet (P\<lparr>inspect_time := n\<rparr>) = packet P"
proof -
  show l: "is_local (P\<lparr>inspect_time := n\<rparr>) = is_local P" by (simp add: is_local_def fun_eq_iff)
  show e: "endpoints (P\<lparr>inspect_time := n\<rparr>) = endpoints P" unfolding fun_eq_iff endpoints_def l by simp
  show "inspection f (P\<lparr>inspect_time := n\<rparr>) = inspection f P" unfolding fun_eq_iff inspection_def l e by simp
  show "packet (P\<lparr>inspect_time := n\<rparr>) = packet P" unfolding fun_eq_iff packet_def l e by simp
qed

lemma segment_packet_time [simp]: "segment_packet (P\<lparr>inspect_time := n\<rparr>) params s pad = segment_packet P params s pad"
  by (simp add: segment_packet_def)

lemma captured_arrives: "flow_of P l r f \<Longrightarrow> arrival_of P (captured f) = Some (frame_arrival P f)"
  by (simp add: flow_of_def arrival_of_def captured_def frame_parsed frame_arrival_def frame_packet_def)

lemma arrivals_flow: "list_all (flow_of P l r) fs \<Longrightarrow> arrivals P (map captured fs) = map (frame_arrival P) fs"
proof (induction fs)
  case (Cons f fs)
  then have "arrival_of P (captured f) = Some (frame_arrival P f)" by (intro captured_arrives [of P l r]) simp
  then show ?case using Cons by (simp add: arrivals_def List.map_filter_simps)
qed (simp add: arrivals_def List.map_filter_simps)

lemma frame_packet_fields:
  assumes "flow_of P l r f" and "is_local P (ip l)" and "\<not> is_local P (ip r)"
  shows "connection_key (frame_packet P f) = flow_key Tcp l r" and "pkt_protocol (frame_packet P f) = Tcp"
    and "is_outgoing (frame_packet P f) \<longleftrightarrow> ends_of f = (l, r)"
    and "segment_of (frame_packet P f) = Some (seg_flags (ff_segment f), ends_of f = (l, r))"
    and "pkt_local_addr (frame_packet P f) = l" and "pkt_remote_addr (frame_packet P f) = r"
proof -
  have ne: "(l, r) \<noteq> (r, l)" using assms(2,3) by blast
  have ends: "ends_of f = (l, r) \<or> ends_of f = (r, l)" using assms(1) by (simp add: flow_of_def)
  have out: "is_local P (net_src (ff_net f)) \<longleftrightarrow> ends_of f = (l, r)"
    using ends assms(2,3) ne by (metis ends_of_iff)
  have "endpoints P params (seg_sport (ff_segment f)) (seg_dport (ff_segment f)) = (l, r)"
    if "src_ip params = net_src (ff_net f)" "dst_ip params = net_dst (ff_net f)" for params
    using that out ends unfolding endpoints_def ends_of_iff by auto
  then have e: "endpoints P (network_params (ff_net f) (link_len (ff_link f)) (Segment (ff_segment f)))
      (seg_sport (ff_segment f)) (seg_dport (ff_segment f)) = (l, r)" by simp
  show "connection_key (frame_packet P f) = flow_key Tcp l r" "pkt_protocol (frame_packet P f) = Tcp"
    "is_outgoing (frame_packet P f) \<longleftrightarrow> ends_of f = (l, r)"
    "segment_of (frame_packet P f) = Some (seg_flags (ff_segment f), ends_of f = (l, r))"
    "pkt_local_addr (frame_packet P f) = l" "pkt_remote_addr (frame_packet P f) = r"
    by (simp_all add: frame_packet_def segment_packet_def packet_def e out segment_of_def)
qed

lemma without_rtt_keeps:
  "protocol_state (without_rtt c) = protocol_state c" "local_addr (without_rtt c) = local_addr c"
  "remote_addr (without_rtt c) = remote_addr c" "packets_sent (without_rtt c) = packets_sent c"
  "packets_received (without_rtt c) = packets_received c" "bytes_sent (without_rtt c) = bytes_sent c"
  "bytes_received (without_rtt c) = bytes_received c"
  by (simp_all add: without_rtt_def)

lemma without_rtt_fields:
  assumes "without_rtt c = without_rtt d"
  shows "protocol_state c = protocol_state d" "local_addr c = local_addr d" "remote_addr c = remote_addr d"
    "packets_sent c = packets_sent d" "packets_received c = packets_received d"
    "bytes_sent c = bytes_sent d" "bytes_received c = bytes_received d"
  using assms without_rtt_keeps by metis+

text \<open>What the tracker holds after the frames of a new flow.\<close>

lemma flow_tracked:
  assumes "is_local P (ip l)" and "\<not> is_local P (ip r)" and "list_all (flow_of P l r) (f # fs)"
    and "map_of (connections t) (flow_key Tcp l r) = None" and "length (connections t) < max_connections (config t)"
  obtains c where "map_of (connections (fst (process_batch P (map captured (f # fs)) (t, stats))))
      = (map_of (connections t)) (flow_key Tcp l r \<mapsto> c)"
    and "without_rtt c = without_rtt (foldl merge_arrival
           (create_connection_from_packet (ff_clock f) (frame_packet P f) (wall (ff_clock f))) (map (frame_arrival P) fs))"
proof -
  let ?key = "flow_key Tcp l r" and ?as = "map (frame_arrival P) fs"
  let ?t = "fst (ingest_at (ff_clock f) (frame_packet P f) (wall (ff_clock f)) t)"
  have fl: "flow_of P l r g" if "g \<in> set (f # fs)" for g using assms(3) that by (auto simp: list_all_iff)
  note fields = frame_packet_fields [OF fl assms(1,2)]
  obtain c0 where c0: "map_of (connections ?t) = (map_of (connections t)) (?key \<mapsto> c0)"
      "without_rtt c0 = without_rtt (create_connection_from_packet (ff_clock f) (frame_packet P f) (wall (ff_clock f)))"
    using ingest_new [of "frame_packet P f" t "ff_clock f" "wall (ff_clock f)"] fields(1,2) [of f] assms(4,5) by auto
  have "\<forall>(clk, p, now) \<in> set ?as. pkt_protocol p = Tcp \<and> connection_key p = ?key"
    using fields(1,2) by (auto simp: frame_arrival_def)
  then obtain c where c: "map_of (connections (ingest_all ?t ?as)) = (map_of (connections ?t)) (?key \<mapsto> c)"
      "without_rtt c = without_rtt (foldl merge_arrival c0 ?as)"
    using ingest_all_known [of ?t ?key c0 ?as] c0(1) by (auto simp only: fun_upd_same simp_thms)
  have "fst (process_batch P (map captured (f # fs)) (t, stats)) = ingest_all ?t ?as"
    unfolding process_batch_tracker arrivals_flow [OF assms(3)] by (simp add: frame_arrival_def)
  then show thesis using that [of c] c c0(1) fold_without [OF c0(2), of ?as] by (simp add: fun_upd_upd)
qed

text \<open>Bytes of the frames of one direction, as the program counts them.\<close>

definition flow_bytes :: "PacketParser \<Rightarrow> socket_addr \<times> socket_addr \<Rightarrow> flow_frame list \<Rightarrow> nat" where
  "flow_bytes P dir fs = sum_list (map (packet_len \<circ> frame_packet P) (filter (\<lambda>f. ends_of f = dir) fs))"

lemma flow_bytes_arrivals:
  assumes "is_local P (ip l)" and "\<not> is_local P (ip r)"
  shows "list_all (flow_of P l r) fs \<Longrightarrow> sent_bytes (map (frame_arrival P) fs) = flow_bytes P (l, r) fs
    \<and> received_bytes (map (frame_arrival P) fs) = flow_bytes P (r, l) fs
    \<and> segments_of (map (frame_arrival P) fs) = map (\<lambda>f. (seg_flags (ff_segment f), ends_of f = (l, r))) fs"
proof (induction fs)
  case (Cons f fs)
  have f: "flow_of P l r f" using Cons.prems by simp
  have ne: "(l, r) \<noteq> (r, l)" "(r, l) \<noteq> (l, r)" using assms by blast+
  have "ends_of f = (l, r) \<or> ends_of f = (r, l)" using f by (simp add: flow_of_def)
  moreover note fields = frame_packet_fields(3,4) [OF f assms]
  moreover have "sent_bytes (frame_arrival P f # as) =
        (if is_outgoing (frame_packet P f) then packet_len (frame_packet P f) else 0) + sent_bytes as"
      "received_bytes (frame_arrival P f # as) =
        (if is_outgoing (frame_packet P f) then 0 else packet_len (frame_packet P f)) + received_bytes as"
      "segments_of (frame_arrival P f # as) =
        (case segment_of (frame_packet P f) of Some g \<Rightarrow> g # segments_of as | None \<Rightarrow> segments_of as)" for as
    by (simp_all add: sent_bytes_def received_bytes_def segments_of_def arrived_def frame_arrival_def List.map_filter_simps
        split: option.split)
  moreover have "flow_bytes P dir (f # fs) =
      (if ends_of f = dir then packet_len (frame_packet P f) else 0) + flow_bytes P dir fs" for dir
    by (simp add: flow_bytes_def)
  moreover have "list_all (flow_of P l r) fs" using Cons.prems by simp
  note Cons.IH [OF this]
  ultimately show ?case by (elim disjE) (simp_all only: ne list.map if_True if_False option.case simp_thms add_0)
qed (simp add: sent_bytes_def received_bytes_def flow_bytes_def segments_of_def List.map_filter_simps)

section \<open>Padding\<close>

text \<open>The payload length is that of the captured bytes, not the one the network header gives. So a
  short segment that the link layer has padded advances the expected sequence number past what
  was sent, and the peer's next segment, which is in order, is reported out of order.\<close>

lemma padded_ack_then_data:
  assumes "is_local P (ip l)" and "\<not> is_local P (ip r)" and "flow_of P l r f" and "flow_of P l r g"
    and "ends_of f = (r, l)" and "ends_of g = (r, l)"
    and "seg_payload (ff_segment f) = []" and "\<not> syn (seg_flags (ff_segment f))" and "\<not> fin (seg_flags (ff_segment f))"
    and "ff_pad f \<noteq> []" and "unat (seg_seq (ff_segment f)) + length (ff_pad f) < 2 ^ 32"
    and "seg_seq (ff_segment g) = seg_seq (ff_segment f)"
    and "tcp_header (frame_packet P f) = Some h" and "tcp_header (frame_packet P g) = Some h'" and "seq_consumed h' \<noteq> 0"
    and "tcp_analytics conn = Some a" and "last_seq_inbound a \<in> {0, seg_seq (ff_segment f)}"
  shows "fst (snd (snd (merge_tcp (frame_packet P g) h' (fst (merge_tcp (frame_packet P f) h conn))))) = 1"
proof -
  let ?q = "seg_seq (ff_segment f)" and ?n = "word_of_nat (length (ff_pad f)) :: u32"
  have out: "\<not> is_outgoing (frame_packet P f)" "\<not> is_outgoing (frame_packet P g)"
    using frame_packet_fields(3) [OF assms(3,1,2)] frame_packet_fields(3) [OF assms(4,1,2)] assms(1,2,5,6) by auto
  have h: "hdr_seq h = ?q" "seq_consumed h = ?n" "hdr_seq h' = ?q"
    using assms(7-9,12-14) by (auto simp: frame_packet_def segment_packet_def packet_def seq_consumed_def Let_def split: prod.splits)
  have n: "unat ?n = length (ff_pad f)" using assms(11) by (simp add: unat_of_nat)
  then have u: "unat (?q + ?n) = unat ?q + length (ff_pad f)" using assms(11) by (simp add: unat_word_ariths)
  have "0 < length (ff_pad f)" using assms(10) by simp
  then have "?n \<noteq> 0" "?q < ?q + ?n" "?q + ?n \<noteq> 0" using n u by (auto simp: word_less_nat_alt unat_eq_0 [symmetric])
  then have "analyze_inbound ?q ?n b = (b\<lparr>last_seq_inbound := ?q + ?n\<rparr>, 0)"
    if "last_seq_inbound b \<in> {0, ?q}" for b
    using that by (auto simp: analyze_inbound_def word_gt_0)
  moreover have "snd (analyze_inbound ?q (seq_consumed h') b) = 1" if "last_seq_inbound b = ?q + ?n" for b
    using that assms(15) \<open>?q < ?q + ?n\<close> \<open>?q + ?n \<noteq> 0\<close> by (simp add: analyze_inbound_def word_gt_0)
  moreover have "last_seq_inbound (fst (analyze_ack k v b)) = last_seq_inbound b" for k v b
    by (simp add: analyze_ack_def Let_def)
  ultimately show ?thesis
    using assms(16,17) out h by (simp add: merge_tcp_def analyze_tcp_segment_def Let_def case_prod_beta')
qed

section \<open>Properties\<close>

definition sample_flow_frame :: "clock \<Rightarrow> bool \<Rightarrow> TcpFlags \<Rightarrow> flow_frame" where
  "sample_flow_frame clk out fl = \<lparr>ff_clock = clk, ff_link = Ethernet (replicate 12 7) None,
     ff_net = (if out then sample_net (Ipv4Addr 10 0 0 1) (Ipv4Addr 93 184 216 34)
               else sample_net (Ipv4Addr 93 184 216 34) (Ipv4Addr 10 0 0 1)),
     ff_segment = (if out then sample_segment 40000 443 fl else sample_segment 443 40000 fl), ff_pad = [0, 0, 0, 0, 0, 0]\<rparr>"

definition sample_local :: socket_addr where
  "sample_local = \<lparr>ip = V4 (Ipv4Addr 10 0 0 1), port = 40000\<rparr>"

definition sample_remote :: socket_addr where
  "sample_remote = \<lparr>ip = V4 (Ipv4Addr 93 184 216 34), port = 443\<rparr>"

lemma sample_flow: "flow_of sample_parser sample_local sample_remote (sample_flow_frame clk out fl)"
  by (simp add: flow_of_def sample_flow_frame_def ends_of_def sample_net_def sample_segment_def sample_local_def
      sample_remote_def frame_ok_def sample_parser_def ipv4_header_ok_def tcp_segment_ok_def)

lemma sample_ends: "is_local sample_parser (ip sample_local)" "\<not> is_local sample_parser (ip sample_remote)"
  by (simp_all add: is_local_def sample_parser_def sample_local_def sample_remote_def)

text \<open>C3. The frames of a new TCP flow between a local and a remote host, whatever their framing,
  address family, options, direction and order, become one connection under one key: its state is
  that of the observed state machine over the segments' flags and directions, its counters are
  the bytes and the number of its frames, and no other connection is touched.\<close>

theorem flow_end_to_end:
  assumes "is_local P (ip l)" and "\<not> is_local P (ip r)" and "list_all (flow_of P l r) fs" and "fs \<noteq> []"
    and "map_of (connections t) (flow_key Tcp l r) = None" and "length (connections t) < max_connections (config t)"
    and "t' = fst (process_batch P (map captured fs) (t, stats))"
  shows "\<exists>c. map_of (connections t') = (map_of (connections t)) (flow_key Tcp l r \<mapsto> c)
    \<and> local_addr c = l \<and> remote_addr c = r
    \<and> protocol_state c = PS_Tcp (observe_all TcpState.Unknown (map (\<lambda>f. (seg_flags (ff_segment f), ends_of f = (l, r))) fs))
    \<and> bytes_sent c = of_nat (flow_bytes P (l, r) fs) \<and> bytes_received c = of_nat (flow_bytes P (r, l) fs)
    \<and> packets_sent c + packets_received c = of_nat (length fs)"
proof -
  obtain f gs where fs: "fs = f # gs" using assms(4) by (cases fs) auto
  have f: "flow_of P l r f" and gs: "list_all (flow_of P l r) (f # gs)" using assms(3) fs by simp_all
  note fields = frame_packet_fields [OF f assms(1,2)]
  let ?start = "create_connection_from_packet (ff_clock f) (frame_packet P f) (wall (ff_clock f))"
  let ?last = "foldl merge_arrival ?start (map (frame_arrival P) gs)"
  obtain c where c: "map_of (connections t') = (map_of (connections t)) (flow_key Tcp l r \<mapsto> c)"
      "without_rtt c = without_rtt ?last"
    using flow_tracked [OF assms(1,2) gs assms(5,6), of stats] unfolding assms(7) fs by metis
  have arr: "(ff_clock f, frame_packet P f, wall (ff_clock f)) # map (frame_arrival P) gs = map (frame_arrival P) (f # gs)"
    by (simp add: frame_arrival_def)
  note flow = flow_bytes_arrivals [OF assms(1,2) gs]
  have "protocol_state ?start = PS_Tcp (observe TcpState.Unknown (seg_flags (ff_segment f), ends_of f = (l, r)))"
    using fields(4) by (simp add: create_state)
  from tcp_history [OF this] have st: "protocol_state ?last
      = PS_Tcp (observe_all TcpState.Unknown (map (\<lambda>f. (seg_flags (ff_segment f), ends_of f = (l, r))) fs))"
    using flow_bytes_arrivals [OF assms(1,2), of gs] gs fs by simp
  have "bytes_sent ?last = of_nat (flow_bytes P (l, r) fs) \<and> bytes_received ?last = of_nat (flow_bytes P (r, l) fs)
      \<and> packets_sent ?last + packets_received ?last = of_nat (length fs)"
    using connection_traffic [of "ff_clock f" "frame_packet P f" "wall (ff_clock f)" "map (frame_arrival P) gs"] flow
    unfolding arr fs by simp
  then show ?thesis
    using c(1) st fields(5,6) without_rtt_fields [OF c(2)] by (intro exI [of _ c]) simp
qed

theorem flow_end_to_end_witness:
  "\<exists>c. map_of (connections (fst (process_batch sample_parser (map captured
       [sample_flow_frame sample_clock True (sample_flags True False),
        sample_flow_frame sample_clock False (sample_flags True True),
        sample_flow_frame sample_clock True (sample_flags False True)]) (with_config TrackerConfig_default, AppStats_default sample_clock))))
      (flow_key Tcp sample_local sample_remote) = Some c
    \<and> protocol_state c = PS_Tcp TcpState.Established \<and> packets_sent c + packets_received c = 3"
proof -
  let ?fs = "[sample_flow_frame sample_clock True (sample_flags True False),
        sample_flow_frame sample_clock False (sample_flags True True),
        sample_flow_frame sample_clock True (sample_flags False True)]"
  have "list_all (flow_of sample_parser sample_local sample_remote) ?fs" by (simp add: sample_flow)
  moreover have "map_of (connections (with_config TrackerConfig_default)) (flow_key Tcp sample_local sample_remote) = None"
    and "length (connections (with_config TrackerConfig_default)) < max_connections (config (with_config TrackerConfig_default))"
    by (simp_all add: with_config_def TrackerConfig_default_def)
  ultimately obtain c where c: "map_of (connections (fst (process_batch sample_parser (map captured ?fs)
        (with_config TrackerConfig_default, AppStats_default sample_clock)))) (flow_key Tcp sample_local sample_remote) = Some c"
      "protocol_state c = PS_Tcp (observe_all TcpState.Unknown
         (map (\<lambda>f. (seg_flags (ff_segment f), ends_of f = (sample_local, sample_remote))) ?fs))"
      "packets_sent c + packets_received c = of_nat (length ?fs)"
    using flow_end_to_end [OF sample_ends, of ?fs "with_config TrackerConfig_default" _ "AppStats_default sample_clock"]
    by auto
  have "observe_all TcpState.Unknown
      (map (\<lambda>f. (seg_flags (ff_segment f), ends_of f = (sample_local, sample_remote))) ?fs) = TcpState.Established"
    by (simp add: sample_flow_frame_def sample_segment_def sample_flags_def ends_of_def sample_net_def sample_local_def
        sample_remote_def observe_def update_tcp_state_def)
  then show ?thesis using c by (intro exI [of _ c]) simp
qed

text \<open>C19. The program's totals of retransmissions, out-of-order segments and fast retransmits grow
  by exactly what the counters of the connections in the table grow by, over any batch of
  frames, malformed ones included; every frame is counted as processed.\<close>

theorem totals_are_table_sums:
  "table_total retransmit_count (fst (process_batch P batch s)) - table_total retransmit_count (fst s)
     = total_tcp_retransmits (snd (process_batch P batch s)) - total_tcp_retransmits (snd s)
   \<and> table_total out_of_order_count (fst (process_batch P batch s)) - table_total out_of_order_count (fst s)
     = total_tcp_out_of_order (snd (process_batch P batch s)) - total_tcp_out_of_order (snd s)
   \<and> table_total fast_retransmit_count (fst (process_batch P batch s)) - table_total fast_retransmit_count (fst s)
     = total_tcp_fast_retransmits (snd (process_batch P batch s)) - total_tcp_fast_retransmits (snd s)
   \<and> packets_processed (snd (process_batch P batch s)) = packets_processed (snd s) + of_nat (length batch)"
proof -
  note balanced_fold [of retransmit_count total_tcp_retransmits "process_packet P" s batch, OF process_totals(1)]
    balanced_fold [of out_of_order_count total_tcp_out_of_order "process_packet P" s batch, OF process_totals(2)]
    balanced_fold [of fast_retransmit_count total_tcp_fast_retransmits "process_packet P" s batch, OF process_totals(3)]
  moreover have "packets_processed (snd (fold (process_packet P) batch s)) = packets_processed (snd s)"
  proof (induction batch arbitrary: s)
    case (Cons a batch)
    have "packets_processed (snd (process_packet P a s)) = packets_processed (snd s)"
      by (auto simp: process_packet_def update_connection_def Let_def split: prod.split option.split)
    then show ?case using Cons.IH [of "process_packet P a s"] by simp
  qed simp
  ultimately show ?thesis by (simp add: process_batch_def balanced_def Let_def case_prod_beta')
qed

text \<open>C32. The frames of the two directions of a TCP flow get the same connection key exactly when
  one end is local and the other is not, or when both ends are the same socket: a flow between two
  local addresses, or between two remote ones, shows up as two connections.\<close>

theorem directions_share_key:
  assumes "frame_ok P (ff_link f) (ff_net f) (Segment (ff_segment f))" and "ends_of f = (a, b)"
    and "frame_ok P (ff_link g) (ff_net g) (Segment (ff_segment g))" and "ends_of g = (b, a)"
    and "parse_packet P (snd (captured f)) = Some (Some p)" and "parse_packet P (snd (captured g)) = Some (Some q)"
  shows "connection_key p = connection_key q \<longleftrightarrow> is_local P (ip a) \<noteq> is_local P (ip b) \<or> a = b"
proof -
  have "p = frame_packet P f" "q = frame_packet P g"
    using assms(5,6) frame_parsed [OF assms(1)] frame_parsed [OF assms(3)] by (simp_all add: captured_def frame_packet_def)
  then show ?thesis
    using assms(2,4) unfolding ends_of_iff
    by (cases a; cases b) (auto simp: frame_packet_def segment_packet_def packet_def endpoints_def flow_key_inject)
qed

theorem directions_share_key_witness:
  "connection_key (frame_packet sample_parser (sample_flow_frame sample_clock True (sample_flags True False)))
     = connection_key (frame_packet sample_parser (sample_flow_frame sample_clock False (sample_flags True True)))"
proof -
  have ok: "frame_ok sample_parser (ff_link (sample_flow_frame sample_clock out fl)) (ff_net (sample_flow_frame sample_clock out fl))
      (Segment (ff_segment (sample_flow_frame sample_clock out fl)))" for out fl
    using sample_flow by (simp add: flow_of_def)
  have f: "parse_packet sample_parser (snd (captured (sample_flow_frame sample_clock out fl)))
      = Some (Some (frame_packet sample_parser (sample_flow_frame sample_clock out fl)))" for out fl
    using frame_parsed [OF ok, of out fl] by (simp add: captured_def frame_packet_def)
  have "ends_of (sample_flow_frame sample_clock True fl) = (sample_local, sample_remote)"
    "ends_of (sample_flow_frame sample_clock False fl) = (sample_remote, sample_local)" for fl
    by (simp_all add: ends_of_def sample_flow_frame_def sample_net_def sample_segment_def sample_local_def sample_remote_def)
  from directions_share_key [OF ok this(1) ok this(2) f f] show ?thesis using sample_ends by simp
qed

end
