(* ===== verification/TlsSpec.thy ===== *)
theory TlsSpec
  imports Dpi
begin

text \<open>
  TLS over TCP from the sender's side: a ClientHello (RFC 8446, 4.1.2, as \<^verbatim>\<open>QuicTls\<close> encodes it)
  in a handshake record. A TCP segment may end anywhere in the message; wherever it ends behind the
  server name extension, the inspection of the segment finds the same name that the QUIC side
  reads from the whole message.
\<close>

section \<open>Records\<close>

definition tls_record :: "u8 \<Rightarrow> client_hello \<Rightarrow> bytes" where
  "tls_record minor ch = 0x16 # 3 # minor # be16 (word_of_nat (length (encode_client_hello ch))) @ encode_client_hello ch"

definition extensions_bytes :: "(nat \<times> bytes) list \<Rightarrow> bytes" where
  "extensions_bytes es = concat (map encode_extension es)"

text \<open>The part of a ClientHello in front of its extensions.\<close>

definition ch_front :: "client_hello \<Rightarrow> bytes" where
  "ch_front ch = ch_version_random ch
     @ word_of_nat (length (ch_session_id ch)) # ch_session_id ch
     @ be16 (word_of_nat (length (ch_cipher_suites ch))) @ ch_cipher_suites ch
     @ word_of_nat (length (ch_compression ch)) # ch_compression ch
     @ be16 (word_of_nat (length (extensions_bytes (ch_extensions ch))))"

lemma ch_body_front: "ch_body ch = ch_front ch @ extensions_bytes (ch_extensions ch)"
  by (simp add: ch_body_def ch_front_def extensions_bytes_def)

lemma extensions_bytes_simps [simp]:
  "extensions_bytes [] = []" "extensions_bytes (e # es) = encode_extension e @ extensions_bytes es"
  "extensions_bytes (es @ es') = extensions_bytes es @ extensions_bytes es'"
  by (simp_all add: extensions_bytes_def)

definition sendable :: "(nat \<times> bytes) list \<Rightarrow> bool" where
  "sendable es \<longleftrightarrow> (\<forall>e \<in> set es. fst e < 65536 \<and> length (snd e) < 65536)"

lemma sendable_simps [simp]:
  "sendable []" "sendable (e # es) \<longleftrightarrow> fst e < 65536 \<and> length (snd e) < 65536 \<and> sendable es"
  "sendable (es @ es') \<longleftrightarrow> sendable es \<and> sendable es'"
  by (auto simp: sendable_def)

lemma sendable_ok:
  assumes "ch_ok ch"
  shows "sendable (ch_extensions ch)"
  unfolding sendable_def
proof
  fix e assume e: "e \<in> set (ch_extensions ch)"
  then have "length (encode_extension e) \<le> length (concat (map encode_extension (ch_extensions ch)))"
    by (intro length_concat_ge) simp
  then show "fst e < 65536 \<and> length (snd e) < 65536" using e assms by (simp add: ch_ok_def)
qed

section \<open>Extensions\<close>

lemma extension_type_at:
  "length pre = off \<Longrightarrow> t < 65536 \<Longrightarrow> 2 \<le> k \<Longrightarrow>
   be16_at (pre @ take k (encode_extension (t, d) @ rest)) off = Some t"
  using be16_at_be16 [of pre off "word_of_nat t"]
  by (simp add: encode_extension_def unat_of_nat)

lemma extension_length_at:
  "length pre = off \<Longrightarrow> length d < 65536 \<Longrightarrow> 4 \<le> k \<Longrightarrow>
   be16_at (pre @ take k (encode_extension (t, d) @ rest)) (off + 2) = Some (length d)"
  using be16_at_be16 [of "pre @ be16 (word_of_nat t)" "off + 2" "word_of_nat (length d)"]
  by (simp add: encode_extension_def unat_of_nat)

text \<open>One pass of the loop over an extension that is there as a whole.\<close>

lemma parse_whole_extension:
  assumes "length pre = off" and "t < 65536" "length d < 65536" and "n < 100"
  shows "parse_extensions_from (pre @ encode_extension (t, d) @ rest) True n off info = do {
     info \<leftarrow> (if d = [] then Some info else apply_tls_extension True t d info);
     parse_extensions_from (pre @ encode_extension (t, d) @ rest) True (n + 1) (off + 4 + length d) info
   }"
proof -
  define D where "D = pre @ encode_extension (t, d) @ rest"
  have "be16_at D off = Some t" "be16_at D (off + 2) = Some (length d)"
    using extension_type_at [OF assms(1,2), of "length (encode_extension (t, d) @ rest)" d rest]
      extension_length_at [OF assms(1,3), of "length (encode_extension (t, d) @ rest)" t rest]
    by (simp_all add: D_def)
  moreover have "sub_slice (off + 4) (off + 4 + length d) D = Some d"
    using sub_slice_append [of "pre @ be16 (word_of_nat t) @ be16 (word_of_nat (length d))" "off + 4" d "length d" rest] assms(1)
    by (simp add: D_def encode_extension_def)
  moreover have "off + 4 \<le> length D" "min (length d) (length D - (off + 4)) = length d" using assms(1) by (simp_all add: D_def)
  ultimately show ?thesis
    unfolding D_def [symmetric] parse_extensions_from.simps [of D True n off info]
    using assms(4) by (simp add: MAX_TLS_EXTENSIONS_def Let_def del: be16_at_ok sub_slice_ok min_less_iff_conj)
qed

lemma apply_returns:
  obtains info' where "(if d = [] then Some info else apply_tls_extension c t d info) = Some info'"
  using apply_tls_extension_np [of c t d info] by (cases "d = []") (auto simp: returns_def)

lemma parse_whole_extensions:
  assumes "length pre = off" and "sendable es" and "n + length es \<le> 100"
  shows "\<exists>info'. parse_extensions_from (pre @ extensions_bytes es @ rest) True n off info =
    parse_extensions_from (pre @ extensions_bytes es @ rest) True (n + length es) (off + length (extensions_bytes es)) info'"
  using assms
proof (induction es arbitrary: pre off n info)
  case (Cons e es)
  obtain t d where e: "e = (t, d)" by (cases e)
  obtain i where i: "(if d = [] then Some info else apply_tls_extension True t d info) = Some i" by (rule apply_returns)
  show ?case
    using Cons.IH [of "pre @ encode_extension e" "off + 4 + length d" "n + 1" i] Cons.prems i
      parse_whole_extension [of pre off t d n "extensions_bytes es @ rest" info]
    by (simp add: e add.assoc)
qed auto

text \<open>Other extensions leave the server name alone, also where the data ends in one.\<close>

lemma apply_other_extension:
  "t \<noteq> 0 \<Longrightarrow> (if d = [] then Some info else apply_tls_extension True t d info) = Some info' \<Longrightarrow> tls_sni info' = tls_sni info"
  by (auto simp: apply_tls_extension_def split: if_splits bind_splits option.splits)

lemma other_extensions_keep_sni:
  assumes "sendable es" and "\<forall>e \<in> set es. fst e \<noteq> 0" and "length pre = off"
    and "parse_extensions_from (pre @ take k (extensions_bytes es)) True n off info = Some info'"
  shows "tls_sni info' = tls_sni info"
  using assms
proof (induction es arbitrary: pre off n k info)
  case Nil
  then show ?case by (subst (asm) (1) parse_extensions_from.simps) simp
next
  case (Cons e es)
  obtain t d where e: "e = (t, d)" by (cases e)
  let ?D = "pre @ take k (extensions_bytes (e # es))"
  have td: "t < 65536" "length d < 65536" "t \<noteq> 0" using Cons.prems(1,2) by (simp_all add: e)
  consider "k < 4 \<or> 100 \<le> n" | "4 \<le> k" "n < 100" "k < 4 + length d" | "n < 100" "4 + length d \<le> k" by linarith
  then show ?case
  proof cases
    case 1
    then show ?thesis
      using Cons.prems(3,4) by (subst (asm) (1) parse_extensions_from.simps) (auto simp: MAX_TLS_EXTENSIONS_def split: if_splits)
  next
    case 2
    define D where "D = ?D"
    have "be16_at D off = Some t" "be16_at D (off + 2) = Some (length d)"
      using extension_type_at [OF Cons.prems(3) td(1), of k d] extension_length_at [OF Cons.prems(3) td(2), of k t] 2
      by (simp_all add: D_def e)
    moreover have "length D = off + k" using Cons.prems(3) 2 by (simp add: D_def e)
    moreover have "min (length d) (length D - (off + 4)) = k - 4" "off + 4 \<le> length D" using 2 calculation(3) by simp_all
    moreover have "parse_extensions_from D True (n + 1) (off + 4 + length d) = Some"
      using 2 calculation(3) by (intro ext, subst parse_extensions_from.simps) simp
    ultimately have "parse_extensions_from D True n off info = (if k - 4 > 0 then do {
        ext_data \<leftarrow> sub_slice (off + 4) (off + 4 + (k - 4)) D;
        apply_tls_extension True t ext_data info
      } else Some info)"
      using 2 unfolding parse_extensions_from.simps [of D True n off info]
      by (simp add: MAX_TLS_EXTENSIONS_def Let_def del: be16_at_ok sub_slice_ok min_less_iff_conj zero_less_diff)
    then have "(if k - 4 > 0 then do {
        ext_data \<leftarrow> sub_slice (off + 4) (off + 4 + (k - 4)) D;
        apply_tls_extension True t ext_data info
      } else Some info) = Some info'"
      using Cons.prems(4) unfolding D_def by simp
    then show ?thesis using apply_other_extension [OF td(3), of _ info info']
      by (auto simp: apply_tls_extension_def td(3) split: if_splits bind_splits option.splits)
  next
    case 3
    have D: "?D = pre @ encode_extension (t, d) @ take (k - 4 - length d) (extensions_bytes es)" using 3 by (simp add: e)
    obtain i where i: "(if d = [] then Some info else apply_tls_extension True t d info) = Some i" by (rule apply_returns)
    then have "parse_extensions_from ((pre @ encode_extension e) @ take (k - 4 - length d) (extensions_bytes es)) True (n + 1)
        (off + 4 + length d) i = Some info'"
      using Cons.prems(4) parse_whole_extension [OF Cons.prems(3) td(1,2) 3(1), of _ info] unfolding D by (simp add: e)
    then have "tls_sni info' = tls_sni i"
      using Cons.prems(1-3) by (intro Cons.IH [of "pre @ encode_extension e" "off + 4 + length d"]) (simp_all add: e)
    then show ?thesis using apply_other_extension [OF td(3) i] by simp
  qed
qed

text \<open>The server name extension.\<close>

lemma hostname_graphic: "hostname_char c \<Longrightarrow> is_ascii_graphic c"
  by (auto simp: hostname_char_def is_ascii_alphanumeric_def is_ascii_alphabetic_def is_ascii_graphic_def dot_def hyphen_def
      word_le_nat_alt)

lemma resilient_encoded_sni:
  assumes "is_valid_hostname h"
  shows "parse_sni_extension_resilient (encode_sni h) = Some (Some h)"
proof -
  have len: "4 \<le> length h" "length h \<le> 253" and chars: "list_all hostname_char h"
    using assms by (simp_all add: is_valid_hostname_def split: if_splits)
  obtain a b where ab: "be16 (word_of_nat (length h + 3)) = [a, b]"
    by (rule be16_pair)
  obtain c d where cd: "be16 (word_of_nat (length h)) = [c, d]"
    by (rule be16_pair)
  have v: "be_nat [c, d] = length h"
    using be_nat_be16_bytes [of "word_of_nat (length h)"] cd len by (simp add: unat_of_nat)
  have e: "encode_sni h = a # b # 0 # c # d # h" unfolding encode_sni_def ab cd by simp
  have "be16_at (encode_sni h) 3 = Some (length h)" by (simp add: e be16_at_def byte_at_def v)
  moreover have "sub_slice 5 (5 + length h) (encode_sni h) = Some h"
    using sub_slice_append [of "[a, b, 0, c, d]" 5 h "length h" "[]"] by (simp add: e)
  moreover have "list_all is_ascii_graphic h" "h \<noteq> []" using chars len(1) by (auto simp: list_all_iff hostname_graphic)
  moreover have "length (encode_sni h) = 5 + length h" "byte_at (encode_sni h) 2 = Some 0" by (simp_all add: e byte_at_def)
  ultimately show ?thesis
    using len valid_hostname_utf8 [OF assms] 
    unfolding parse_sni_extension_resilient_def
    by (simp add: Let_def from_utf8_def mark_cut_def del: sub_slice_ok be16_at_ok byte_at_ok from_utf8_Some)
qed

text \<open>Extensions that may be cut behind the server name.\<close>

lemma extensions_sni:
  assumes "sendable (before @ (0, encode_sni h) # after)" and "is_valid_hostname h" and "\<forall>e \<in> set after. fst e \<noteq> 0"
    and "length before < 100"
  obtains info' where
    "parse_extensions (extensions_bytes before @ encode_extension (0, encode_sni h) @ take k (extensions_bytes after)) info True
       = Some info'" and "tls_sni info' = Some h"
proof -
  let ?S = "encode_extension (0, encode_sni h)" and ?b = "extensions_bytes before"
  define D where "D = ?b @ ?S @ take k (extensions_bytes after)"
  obtain i where i: "parse_extensions_from D True 0 0 info = parse_extensions_from D True (length before) (length ?b) i"
    using parse_whole_extensions [of "[]" 0 before 0 "?S @ take k (extensions_bytes after)" info] assms(1,4)
    unfolding D_def by auto
  have "encode_sni h \<noteq> []" by (simp add: encode_sni_def)
  then have s: "parse_extensions_from D True (length before) (length ?b) i =
      parse_extensions_from ((?b @ ?S) @ take k (extensions_bytes after)) True (length before + 1) (length (?b @ ?S)) (i\<lparr>tls_sni := Some h\<rparr>)"
    using parse_whole_extension [of ?b "length ?b" 0 "encode_sni h" "length before" "take k (extensions_bytes after)" i] assms(1,4)
    by (simp add: D_def apply_tls_extension_def resilient_encoded_sni [OF assms(2)] add.assoc)
  obtain info' where info': "parse_extensions D info True = Some info'"
    using parse_extensions_np [of D True 0 0 info] by (auto simp: parse_extensions_def returns_def)
  then have "tls_sni info' = Some h"
    using other_extensions_keep_sni [of after "?b @ ?S" "length (?b @ ?S)" k "length before + 1" "i\<lparr>tls_sni := Some h\<rparr>" info']
      assms(1,3) i s by (simp add: parse_extensions_def)
  then show thesis using that info' unfolding D_def by blast
qed

section \<open>The ClientHello\<close>

lemma https_client_hello_fields:
  assumes "40 + s + c + m < length data"
    and "byte_at data 34 = Some sb" "unat sb = s" and "be16_at data (35 + s) = Some c"
    and "byte_at data (37 + s + c) = Some mb" "unat mb = m" and "be16_at data (38 + s + c + m) = Some e"
    and "sub_slice (40 + s + c + m) (min (length data) (40 + s + c + m + e)) data = Some exts" and "exts \<noteq> []"
  obtains v where "parse_client_hello data info rv = parse_extensions exts (info\<lparr>tls_version := v\<rparr>) True"
proof -
  obtain cv where "version_at data 0 = Some cv"
    using version_at_np [of 0 data] assms(1) by (auto simp: returns_def)
  then have "parse_client_hello data info rv =
      parse_extensions exts (info\<lparr>tls_version := (case cv of Some v \<Rightarrow> Some v | None \<Rightarrow> rv)\<rparr>) True"
    using assms
    by (simp add: parse_client_hello_def hello_extensions_def Let_def add.assoc del: byte_at_ok be16_at_ok sub_slice_ok)
  then show thesis by (rule that)
qed

text \<open>The body up to some point behind its fixed fields.\<close>

lemma https_client_hello_front:
  assumes "ch_ok ch" and "length E \<le> length (extensions_bytes (ch_extensions ch))" and "E \<noteq> []"
  obtains v where "parse_client_hello (ch_front ch @ E) info rv = parse_extensions E (info\<lparr>tls_version := v\<rparr>) True"
proof -
  let ?sid = "ch_session_id ch" and ?cs = "ch_cipher_suites ch" and ?cm = "ch_compression ch"
  let ?X = "extensions_bytes (ch_extensions ch)"
  let ?p1 = "ch_version_random ch"
  let ?p2 = "?p1 @ word_of_nat (length ?sid) # ?sid"
  let ?p3 = "?p2 @ be16 (word_of_nat (length ?cs)) @ ?cs"
  let ?p4 = "?p3 @ word_of_nat (length ?cm) # ?cm"
  let ?o = "40 + length ?sid + length ?cs + length ?cm"
  define b where "b = ch_front ch @ E"
  have len: "length ?p1 = 34" "length ?sid < 256" "length ?cs < 65536" "length ?cm < 256" "length ?X < 65536"
    using assms(1) by (simp_all add: ch_ok_def extensions_bytes_def)
  have b: "b = ?p4 @ be16 (word_of_nat (length ?X)) @ E" by (simp add: b_def ch_front_def)
  have n: "length b = ?o + length E" using len(1) by (simp add: b)
  have long: "?o < length b" using n assms(3) by simp
  have 1: "byte_at b 34 = Some (word_of_nat (length ?sid))"
    using len(1) by (simp add: b byte_at_def nth_append)
  have 2: "be16_at b (35 + length ?sid) = Some (length ?cs)"
    using be16_at_be16 [of ?p2 "35 + length ?sid" "word_of_nat (length ?cs)"] len by (simp add: b unat_of_nat)
  have 3: "byte_at b (37 + length ?sid + length ?cs) = Some (word_of_nat (length ?cm))"
    using len(1) by (simp add: b byte_at_def nth_append)
  have 4: "be16_at b (38 + length ?sid + length ?cs + length ?cm) = Some (length ?X)"
    using be16_at_be16 [of ?p4 "38 + length ?sid + length ?cs + length ?cm" "word_of_nat (length ?X)"] len
    by (simp add: b unat_of_nat)
  have "sub_slice ?o (?o + length E) b = Some E"
    using sub_slice_append [of "?p4 @ be16 (word_of_nat (length ?X))" ?o E "length E" "[]"] len(1) by (simp add: b)
  then have 5: "sub_slice ?o (min (length b) (?o + length ?X)) b = Some E"
    using n assms(2) by (simp add: min_def del: sub_slice_ok)
  have u: "unat (word_of_nat (length ?sid) :: u8) = length ?sid" "unat (word_of_nat (length ?cm) :: u8) = length ?cm"
    using len by (simp_all add: unat_of_nat)
  show thesis
    by (rule https_client_hello_fields [OF long 1 u(1) 2 3 u(2) 4 5 assms(3), of info rv])
      (use that in \<open>simp add: b_def\<close>)
qed

text \<open>A record, read as far as the segment reaches.\<close>

lemma https_record:
  assumes "1 \<le> minor" "minor \<le> 4" and "length body \<le> 16384" and "body = given @ missing" and "given \<noteq> []"
    and "drop 1 (ne_bytes Big 4 (length body)) = [l1, l2, l3]" "be_nat [0, l1, l2, l3] = length body"
    and "missing \<noteq> [] \<Longrightarrow> later = []"
  shows "\<exists>rv. analyze_https ([0x16, 3, minor] @ be16 (word_of_nat (4 + length body)) @ 1 # l1 # l2 # l3 # given @ later) =
    map_option (\<lambda>info. Some \<lparr>https_tls_info = Some info\<rparr>) (parse_client_hello given (TlsInfo_new\<lparr>tls_version := rv\<rparr>) rv)"
proof -
  obtain a b where ab: "be16 (word_of_nat (4 + length body)) = [a, b]" by (rule be16_pair)
  have "unat (word_of_nat (4 + length body) :: u16) = 4 + length body"
    using assms(3) by (subst unat_of_nat) simp
  then have n: "be_nat [a, b] = 4 + length body"
    using be_nat_be16_bytes [of "word_of_nat (4 + length body)"] unfolding ab by simp
  define P where "P = [0x16, 3, minor, a, b] @ (1 # l1 # l2 # l3 # given) @ later"
  define av where "av = min (length P - 5) (4 + length body)"
  have av: "av = 4 + length given" using assms(4,8) by (cases "missing = []") (auto simp: P_def av_def)
  obtain rv where rv: "version_at P 1 = Some rv"
    using version_at_np [of 1 P] by (auto simp: P_def returns_def)
  have "sub_slice 5 (5 + av) P = Some (1 # l1 # l2 # l3 # given)"
    using sub_slice_append [of "[0x16, 3, minor, a, b]" 5 "1 # l1 # l2 # l3 # given" av later] by (simp add: P_def av)
  moreover have "be16_at P 3 = Some (4 + length body)" "byte_at P 0 = Some 0x16" "\<not> length P < 5"
    by (simp_all add: P_def be16_at_def byte_at_def n)
  moreover have "min (length given) (length body) = length given" using assms(4) by simp
  ultimately have "analyze_https P =
      map_option (\<lambda>info. Some \<lparr>https_tls_info = Some info\<rparr>) (parse_client_hello given (TlsInfo_new\<lparr>tls_version := rv\<rparr>) rv)"
    using assms(3,5,7) av rv unfolding analyze_https_def av_def [symmetric]
    by (cases "parse_client_hello given (TlsInfo_new\<lparr>tls_version := rv\<rparr>) rv")
      (simp_all add: Let_def av_def [symmetric] handshake_type_known_def byte_at_def sub_slice_def del: be16_at_ok)
  then show ?thesis unfolding ab P_def by auto
qed

lemma take_between:
  "length X \<le> n \<Longrightarrow> take n ((X @ A) @ Y) = X @ take (min (n - length X) (length A)) A @ take (n - length (X @ A)) Y"
  by (simp add: min_def)

text \<open>A ClientHello in a record, cut anywhere behind its server name, or followed by later records.\<close>

lemma https_cut_record:
  assumes ok: "ch_ok ch" "ch_extensions ch = before @ (0, encode_sni h) # after" "is_valid_hostname h"
      "\<forall>e \<in> set after. fst e \<noteq> 0" "length before < 100" "length (ch_body ch) \<le> 16384"
    and minor: "1 \<le> minor" "minor \<le> 4"
    and n: "length (tls_record minor ch) \<le> n + length (extensions_bytes after)"
  obtains info where "analyze_https (take n (tls_record minor ch @ later)) = Some (Some \<lparr>https_tls_info = Some info\<rparr>)"
    and "tls_sni info = Some h"
proof -
  let ?S = "encode_extension (0, encode_sni h)" and ?A = "extensions_bytes after" and ?B = "extensions_bytes before"
  let ?L = "length (tls_record minor ch)"
  obtain l1 l2 l3 where l: "drop 1 (ne_bytes Big 4 (length (ch_body ch))) = [l1, l2, l3]"
      "be_nat [0, l1, l2, l3] = length (ch_body ch)"
    using bytes3_of_length [of "length (ch_body ch)"] ok(6) by auto
  define X where "X = [0x16, 3, minor] @ be16 (word_of_nat (4 + length (ch_body ch))) @ 1 # l1 # l2 # l3 # ch_front ch @ ?B @ ?S"
  define k where "k = min (n - length X) (length ?A)"
  define E where "E = ?B @ ?S @ take k ?A"
  have body: "ch_body ch = ch_front ch @ ?B @ ?S @ ?A" using ok(2) by (simp add: ch_body_front)
  have hello: "encode_client_hello ch = 1 # l1 # l2 # l3 # ch_body ch" by (simp only: encode_client_hello_def l append.simps)
  then have len: "length (encode_client_hello ch) = 4 + length (ch_body ch)" by simp
  have rec: "tls_record minor ch = X @ ?A"
    unfolding tls_record_def X_def len unfolding hello body by simp
  have seg: "take n (tls_record minor ch @ later) =
      [0x16, 3, minor] @ be16 (word_of_nat (4 + length (ch_body ch))) @ 1 # l1 # l2 # l3 # (ch_front ch @ E) @ take (n - ?L) later"
    unfolding rec using n take_between [of X n ?A later, folded k_def] by (simp add: rec E_def X_def)
  obtain rv where rv: "analyze_https (take n (tls_record minor ch @ later)) =
      map_option (\<lambda>info. Some \<lparr>https_tls_info = Some info\<rparr>)
        (parse_client_hello (ch_front ch @ E) (TlsInfo_new\<lparr>tls_version := rv\<rparr>) rv)"
  proof -
    have "ch_body ch = (ch_front ch @ E) @ drop k ?A" "ch_front ch @ E \<noteq> []"
      by (simp_all add: body E_def encode_extension_def encode_sni_def)
    moreover have "take (n - ?L) later = []" if "drop k ?A \<noteq> []" using that by (auto simp: rec k_def min_def split: if_splits)
    ultimately show ?thesis
      using https_record [OF minor ok(6), of "ch_front ch @ E" "drop k ?A" l1 l2 l3 "take (n - ?L) later"] l that
      unfolding seg by blast
  qed
  have "length E \<le> length (extensions_bytes (ch_extensions ch))" "E \<noteq> []"
    using ok(2) by (simp_all add: E_def k_def encode_extension_def encode_sni_def)
  then obtain v where v: "parse_client_hello (ch_front ch @ E) (TlsInfo_new\<lparr>tls_version := rv\<rparr>) rv =
      parse_extensions E (TlsInfo_new\<lparr>tls_version := v\<rparr>) True"
    using https_client_hello_front [OF ok(1), of E "TlsInfo_new\<lparr>tls_version := rv\<rparr>" rv] by auto
  obtain info where "parse_extensions E (TlsInfo_new\<lparr>tls_version := v\<rparr>) True = Some info" "tls_sni info = Some h"
    using extensions_sni [of before h after k "TlsInfo_new\<lparr>tls_version := v\<rparr>"] sendable_ok [OF ok(1)] ok(2-5)
    unfolding E_def by metis
  then show thesis using that [of info] rv v by simp
qed

section \<open>Through the dispatcher\<close>

lemma tls_not_http: "analyze_http (0x16 # rest) = None"
  by (simp add: analyze_http_def is_likely_http_def starts_with_def ascii_def)

lemma tls_recognised:
  assumes "1 \<le> minor" "minor \<le> 4" and "P = 0x16 # 3 # minor # a # b # Q"
  shows "is_tls_handshake P = Some True" and "analyze_http P = None" and "P \<noteq> []"
  using assms tls_not_http by (auto simp: is_tls_handshake_def byte_at_def)

lemma tls_segment:
  assumes "5 \<le> n"
  obtains a b Q where "take n (tls_record minor ch @ later) = 0x16 # 3 # minor # a # b # Q"
proof -
  obtain a b where "be16 (word_of_nat (length (encode_client_hello ch))) = [a, b]" by (rule be16_pair)
  then have "take n (tls_record minor ch @ later) = 0x16 # 3 # minor # a # b # take (n - 5) (encode_client_hello ch @ later)"
    using assms take_append [of n "[0x16, 3, minor, a, b]" "encode_client_hello ch @ later"]
    by (simp add: tls_record_def eval_nat_numeral del: take_append)
  then show thesis by (rule that)
qed

lemma tls_segment_sni:
  assumes "ch_ok ch" "ch_extensions ch = before @ (0, encode_sni h) # after" "is_valid_hostname h"
      "\<forall>e \<in> set after. fst e \<noteq> 0" "length before < 100" "length (ch_body ch) \<le> 16384"
    and "1 \<le> minor" "minor \<le> 4"
    and "length (tls_record minor ch) \<le> n + length (extensions_bytes after)"
  shows "\<exists>info. analyze_tcp_packet (take n (tls_record minor ch @ later)) local_port remote_port outgoing
      = Some (Some (Https \<lparr>https_tls_info = Some info\<rparr>)) \<and> tls_sni info = Some h"
proof -
  have "5 + length (extensions_bytes after) \<le> length (tls_record minor ch)"
    by (simp add: tls_record_def encode_client_hello_def ch_body_front assms(2))
  then have "5 \<le> n" using assms(9) by simp
  then obtain a b Q where "take n (tls_record minor ch @ later) = 0x16 # 3 # minor # a # b # Q"
    by (rule tls_segment)
  note tls = tls_recognised [OF assms(7,8) this]
  obtain info where "analyze_https (take n (tls_record minor ch @ later)) = Some (Some \<lparr>https_tls_info = Some info\<rparr>)"
    and "tls_sni info = Some h"
    using https_cut_record [OF assms, where later = later] .
  then show ?thesis using tls by (simp add: analyze_tcp_packet_def candidate_def port_or_def)
qed

text \<open>C11 (functional). Whatever the ports, and wherever the first segment of a TLS client ends
  behind the server name extension of its ClientHello (RFC 8446, 4.1.2; before it, or in the
  extensions that follow, or in later records), the inspection of the segment reports TLS and
  the server name that the client sent.\<close>

theorem tls_sni_from_segment:
  assumes "ch_ok ch" "ch_extensions ch = before @ (0, encode_sni h) # after" "is_valid_hostname h"
      "\<forall>e \<in> set after. fst e \<noteq> 0" "length before < 100" "length (ch_body ch) \<le> 16384"
    and "1 \<le> minor" "minor \<le> 4"
    and "length (tls_record minor ch) \<le> n + length (extensions_bytes after)"
  shows "\<exists>info. analyze_tcp_packet (take n (tls_record minor ch @ later)) local_port remote_port outgoing
      = Some (Some (Https \<lparr>https_tls_info = Some info\<rparr>)) \<and> tls_sni info = Some h"
  using assms by (rule tls_segment_sni)

text \<open>The witness: a segment that ends within the last extension.\<close>

theorem tls_sni_from_segment_witness:
  "\<exists>info. analyze_tcp_packet (take (length (tls_record 1 sample_hello) - 2) (tls_record 1 sample_hello @ [])) 40000 8443 True
     = Some (Some (Https \<lparr>https_tls_info = Some info\<rparr>)) \<and> tls_sni info = Some sample_host"
proof -
  have "is_valid_hostname sample_host" "ch_ok sample_hello"
    using sample_names_host by (simp_all add: names_host_def)
  moreover have "ch_extensions sample_hello = [] @ (0, encode_sni sample_host) # [(43, [2, 3, 4])]"
    by (simp add: sample_hello_def)
  moreover have "length (ch_body sample_hello) \<le> 16384"
    by (simp add: ch_body_def sample_hello_def encode_sni_def sample_host_def ascii_def)
  moreover have "length (extensions_bytes [(43, [2, 3, 4])]) = 7" by simp
  ultimately show ?thesis
    by (intro tls_sni_from_segment [where before = "[]" and after = "[(43, [2, 3, 4])]"]) simp_all
qed

end
