(* ===== verification/FlowRead.thy ===== *)
theory FlowRead
  imports Pipeline TlsSpec
begin

text \<open>
  From the frames of a flow to what the program shows of it: the server name of a TLS connection.
  A client's ClientHello, in whatever frames it comes, gives the tracked connection its name, and
  no later frame takes it away.
\<close>

section \<open>The application of a connection\<close>

definition application_of :: "Connection \<Rightarrow> ApplicationProtocol option" where
  "application_of c = map_option application (dpi_info c)"

text \<open>What a packet adds.\<close>

definition after_packet :: "instant \<Rightarrow> ApplicationProtocol option \<Rightarrow> ApplicationProtocol option \<Rightarrow> ApplicationProtocol option" where
  "after_packet inst old new =
     (case new of
        None \<Rightarrow> old
      | Some n \<Rightarrow> Some (case old of None \<Rightarrow> n | Some o' \<Rightarrow> merge_application inst o' n))"

lemma application_created: "application_of (create_connection_from_packet clk p now) = dpi_result p"
  by (simp add: application_of_def create_connection_from_packet_def Connection_new_def Let_def split: option.split)

lemma application_merged:
  "application_of (merge_arrival c (clk, p, now)) = after_packet (mono clk) (application_of c) (dpi_result p)"
  by (simp add: application_of_def after_packet_def merge_arrival.simps merge_packet_eq conn_frame merge_dpi_info_def
      split: option.split)

lemma application_without_rtt: "without_rtt c = without_rtt d \<Longrightarrow> application_of c = application_of d"
proof -
  have "application_of (without_rtt c) = application_of c" for c by (simp add: without_rtt_def application_of_def)
  then show "without_rtt c = without_rtt d \<Longrightarrow> ?thesis" by metis
qed

section \<open>The server name\<close>

definition shown_server :: "ApplicationProtocol option \<Rightarrow> bytes option" where
  "shown_server a = (case a of Some (Https i) \<Rightarrow> https_sni i | _ \<Rightarrow> None)"

text \<open>Nothing recognised yet, or TLS without a name.\<close>

definition nameless :: "ApplicationProtocol option \<Rightarrow> bool" where
  "nameless a \<longleftrightarrow> (case a of None \<Rightarrow> True | Some (Https i) \<Rightarrow> https_sni i = None | _ \<Rightarrow> False)"

lemma shown_kept: "shown_server old = Some h \<Longrightarrow> shown_server (after_packet inst old new) = Some h"
  by (auto simp: shown_server_def after_packet_def merge_application_def https_sni.kept
      split: option.splits ApplicationProtocol.splits)

lemma nameless_kept: "nameless old \<Longrightarrow> nameless new \<Longrightarrow> nameless (after_packet inst old new)"
  by (auto simp: nameless_def after_packet_def merge_application_def https_sni.step
      split: option.splits ApplicationProtocol.splits)

lemma shown_first: "nameless old \<Longrightarrow> shown_server new = Some h \<Longrightarrow> shown_server (after_packet inst old new) = Some h"
  by (auto simp: nameless_def shown_server_def after_packet_def merge_application_def https_sni.step
      split: option.splits ApplicationProtocol.splits)

lemma fold_shown: "shown_server (application_of c) = Some h \<Longrightarrow> shown_server (application_of (foldl merge_arrival c as)) = Some h"
proof (induction as arbitrary: c)
  case (Cons a as)
  obtain clk p now where "a = (clk, p, now)" by (cases a)
  then show ?case using Cons shown_kept by (simp add: application_merged)
qed simp

lemma fold_nameless:
  "nameless (application_of c) \<Longrightarrow> \<forall>(clk, p, now) \<in> set as. nameless (dpi_result p) \<Longrightarrow>
   nameless (application_of (foldl merge_arrival c as))"
proof (induction as arbitrary: c)
  case (Cons a as)
  obtain clk p now where "a = (clk, p, now)" by (cases a)
  then show ?case using Cons nameless_kept by (simp add: application_merged)
qed simp

lemma history_shows:
  assumes "\<forall>(clk, p, now) \<in> set before. nameless (dpi_result p)" and "shown_server (dpi_result q) = Some h"
    and "(k0, p0, n0) # as = before @ (k, q, n) # after"
  shows "shown_server (application_of (foldl merge_arrival (create_connection_from_packet k0 p0 n0) as)) = Some h"
proof (cases before)
  case Nil
  then show ?thesis using assms by (intro fold_shown) (simp add: application_created)
next
  case (Cons b bs)
  let ?c = "foldl merge_arrival (create_connection_from_packet k0 p0 n0) bs"
  have "nameless (application_of ?c)"
    using assms(1,3) Cons by (intro fold_nameless) (auto simp: application_created)
  then have "shown_server (application_of (merge_arrival ?c (k, q, n))) = Some h"
    using shown_first assms(2) by (simp add: application_merged)
  then show ?thesis using fold_shown [of "merge_arrival ?c (k, q, n)" h after] assms(3) Cons by simp
qed

section \<open>Properties\<close>

text \<open>A frame whose inspection shows no server: it has no payload, or one that is not recognised, or
  TLS without a server name, as the padding of a short Ethernet frame on port 443.\<close>

definition shows_none :: "PacketParser \<Rightarrow> flow_frame \<Rightarrow> bool" where
  "shows_none P f \<longleftrightarrow> nameless (dpi_result (frame_packet P f))"

lemma empty_shows_none: "seg_payload (ff_segment f) @ ff_pad f = [] \<Longrightarrow> shows_none P f"
  by (simp add: shows_none_def frame_packet_def segment_packet_def packet_def inspection_def nameless_def split: prod.split)

lemma frame_shows:
  assumes "enable_dpi (parser_config P)" and "payload = seg_payload (ff_segment f) @ ff_pad f"
    and "\<And>lp rp out. \<exists>info. analyze_tcp_packet payload lp rp out = Some (Some (Https \<lparr>https_tls_info = Some info\<rparr>))
      \<and> tls_sni info = Some h"
  shows "shown_server (dpi_result (frame_packet P f)) = Some h"
proof -
  have "payload \<noteq> []" using assms(3) [of 0 0 False] by (auto simp: analyze_tcp_packet_def Let_def)
  moreover have "shown_server (inspect_tcp payload lp rp out) = Some h" for lp rp out
    using assms(3) [of lp rp out] by (auto simp: inspect_tcp_def shown_server_def https_sni_def)
  ultimately show ?thesis using assms(1,2)
    by (auto simp: frame_packet_def segment_packet_def packet_def inspection_def Let_def split: prod.split)
qed

text \<open>The connection that the table holds after the frames of such a flow.\<close>

lemma last_seen: "last_activity (foldl merge_arrival c as) = (if as = [] then last_activity c else snd (snd (last as)))"
  by (induction as arbitrary: c) (auto split: prod.split)

lemma created_ends: "local_addr (create_connection_from_packet clk p now) = pkt_local_addr p"
  "remote_addr (create_connection_from_packet clk p now) = pkt_remote_addr p"
  by (simp_all add: create_connection_from_packet_def Connection_new_def Let_def split: option.split)

lemma last_seen_without_rtt: "without_rtt c = without_rtt d \<Longrightarrow> last_activity c = last_activity d"
proof -
  have "last_activity (without_rtt c) = last_activity c" for c by (simp add: without_rtt_def)
  then show "without_rtt c = without_rtt d \<Longrightarrow> ?thesis" by metis
qed

lemma flow_server_tracked:
  assumes "is_local P (ip l)" and "\<not> is_local P (ip r)" and "list_all (flow_of P l r) (gs @ f # fs)"
    and "map_of (connections t) (flow_key Tcp l r) = None" and "length (connections t) < max_connections (config t)"
    and "enable_dpi (parser_config P)" and "list_all (shows_none P) gs"
    and "seg_payload (ff_segment f) @ ff_pad f = take n (tls_record minor ch @ later)"
    and "ch_ok ch" "ch_extensions ch = before @ (0, encode_sni h) # after" "is_valid_hostname h"
      "\<forall>e \<in> set after. fst e \<noteq> 0" "length before < 100" "length (ch_body ch) \<le> 16384" "1 \<le> minor" "minor \<le> 4"
    and "length (tls_record minor ch) \<le> n + length (extensions_bytes after)"
  obtains c where "map_of (connections (fst (process_batch P (map captured (gs @ f # fs)) (t, stats))))
      = (map_of (connections t)) (flow_key Tcp l r \<mapsto> c)"
    and "shown_server (application_of c) = Some h" and "local_addr c = l" and "remote_addr c = r"
    and "last_activity c = wall (ff_clock (last (gs @ f # fs)))"
proof -
  obtain f0 fs0 where fs0: "gs @ f # fs = f0 # fs0" by (cases gs) auto
  let ?start = "create_connection_from_packet (ff_clock f0) (frame_packet P f0) (wall (ff_clock f0))"
  obtain c where c: "map_of (connections (fst (process_batch P (map captured (gs @ f # fs)) (t, stats))))
        = (map_of (connections t)) (flow_key Tcp l r \<mapsto> c)"
      "without_rtt c = without_rtt (foldl merge_arrival ?start (map (frame_arrival P) fs0))"
    using flow_tracked [OF assms(1,2) assms(3) [unfolded fs0] assms(4,5), of stats] unfolding fs0 by metis
  have 2: "shown_server (dpi_result (frame_packet P f)) = Some h"
    using frame_shows [OF assms(6) assms(8) [symmetric]] tls_segment_sni [OF assms(9-17)] by blast
  have 1: "\<forall>(clk, p, now) \<in> set (map (frame_arrival P) gs). nameless (dpi_result p)"
    using assms(7) by (auto simp: frame_arrival_def shows_none_def list_all_iff)
  have 3: "frame_arrival P f0 # map (frame_arrival P) fs0
      = map (frame_arrival P) gs @ frame_arrival P f # map (frame_arrival P) fs"
    using arg_cong [OF fs0, of "map (frame_arrival P)"] by simp
  have "shown_server (application_of (foldl merge_arrival ?start (map (frame_arrival P) fs0))) = Some h"
    using history_shows [OF 1 2, of "ff_clock f0" "frame_packet P f0" "wall (ff_clock f0)" "map (frame_arrival P) fs0"] 3
    by (simp add: frame_arrival_def)
  then have "shown_server (application_of c) = Some h" using application_without_rtt [OF c(2)] by simp
  moreover have "flow_of P l r f0" using assms(3) unfolding fs0 by simp
  then have "pkt_local_addr (frame_packet P f0) = l" "pkt_remote_addr (frame_packet P f0) = r"
    using frame_packet_fields(5,6) assms(1,2) by blast+
  then have "local_addr c = l" "remote_addr c = r" using without_rtt_fields(2,3) [OF c(2)] by (simp_all add: created_ends)
  moreover have "last_activity c = wall (ff_clock (last (gs @ f # fs)))"
    unfolding fs0 using last_seen_without_rtt [OF c(2)] by (simp add: last_seen last_map frame_arrival_def)
  ultimately show thesis by (intro that [OF c(1)])
qed


text \<open>C4 (functional). The server name of a TLS connection. Let the frames of a new TCP flow, in any
  framing and direction, bring a segment that carries a ClientHello with a server name, whole or
  cut behind the name, with padding or later records after it, and let no earlier frame of the
  flow show a server. Then the connection in the table is a TLS connection to that server,
  whatever frames of the flow follow.\<close>

theorem tls_flow_shows_server:
  assumes "is_local P (ip l)" and "\<not> is_local P (ip r)" and "list_all (flow_of P l r) (gs @ f # fs)"
    and "map_of (connections t) (flow_key Tcp l r) = None" and "length (connections t) < max_connections (config t)"
    and "enable_dpi (parser_config P)" and "list_all (shows_none P) gs"
    and "seg_payload (ff_segment f) @ ff_pad f = take n (tls_record minor ch @ later)"
    and "ch_ok ch" "ch_extensions ch = before @ (0, encode_sni h) # after" "is_valid_hostname h"
      "\<forall>e \<in> set after. fst e \<noteq> 0" "length before < 100" "length (ch_body ch) \<le> 16384" "1 \<le> minor" "minor \<le> 4"
    and "length (tls_record minor ch) \<le> n + length (extensions_bytes after)"
  shows "\<exists>c. map_of (connections (fst (process_batch P (map captured (gs @ f # fs)) (t, stats)))) (flow_key Tcp l r) = Some c
    \<and> shown_server (application_of c) = Some h"
  by (rule flow_server_tracked [OF assms, of stats]) simp

text \<open>The witness: a connection that is opened, and a ClientHello in its first data segment.\<close>

definition hello_frame :: flow_frame where
  "hello_frame = (sample_flow_frame sample_clock True (sample_flags False True))
     \<lparr>ff_segment := (sample_segment 40000 443 (sample_flags False True))\<lparr>seg_payload := tls_record 1 sample_hello\<rparr>,
      ff_pad := []\<rparr>"

definition opening_frame :: "bool \<Rightarrow> flow_frame" where
  "opening_frame out = (sample_flow_frame sample_clock out (sample_flags True (\<not> out)))\<lparr>ff_pad := []\<rparr>"

lemma sample_hello_parts:
  "ch_ok sample_hello" "ch_extensions sample_hello = [] @ (0, encode_sni sample_host) # [(43, [2, 3, 4])]"
  "is_valid_hostname sample_host" "length (ch_body sample_hello) = 104"
proof -
  show "ch_ok sample_hello" "is_valid_hostname sample_host" using sample_names_host by (simp_all add: names_host_def)
  show "ch_extensions sample_hello = [] @ (0, encode_sni sample_host) # [(43, [2, 3, 4])]" by (simp add: sample_hello_def)
  show "length (ch_body sample_hello) = 104"
    by (simp add: ch_body_def sample_hello_def encode_sni_def sample_host_def ascii_def)
qed

lemma sample_frames:
  "list_all (flow_of sample_parser sample_local sample_remote)
     ([opening_frame True, opening_frame False] @ hello_frame # [opening_frame False])"
  "list_all (shows_none sample_parser) [opening_frame True, opening_frame False]"
  "seg_payload (ff_segment hello_frame) @ ff_pad hello_frame
     = take (length (tls_record 1 sample_hello)) (tls_record 1 sample_hello @ [])"
proof -
  have hello: "tcp_segment_ok (ff_segment hello_frame)"
    by (simp add: hello_frame_def tcp_segment_ok_def sample_segment_def)
  have "flow_of sample_parser sample_local sample_remote (opening_frame out)" for out
    using sample_flow [of sample_clock out "sample_flags True (\<not> out)"] by (simp add: opening_frame_def flow_of_def ends_of_def)
  moreover have "flow_of sample_parser sample_local sample_remote hello_frame"
    using sample_flow [of sample_clock True "sample_flags False True"] hello
    by (simp add: hello_frame_def flow_of_def ends_of_def frame_ok_def sample_flow_frame_def sample_segment_def)
  ultimately show "list_all (flow_of sample_parser sample_local sample_remote)
      ([opening_frame True, opening_frame False] @ hello_frame # [opening_frame False])" by simp
  show "list_all (shows_none sample_parser) [opening_frame True, opening_frame False]"
    by (simp add: empty_shows_none opening_frame_def sample_flow_frame_def sample_segment_def)
  show "seg_payload (ff_segment hello_frame) @ ff_pad hello_frame
      = take (length (tls_record 1 sample_hello)) (tls_record 1 sample_hello @ [])" by (simp add: hello_frame_def)
qed

theorem tls_flow_shows_server_witness:
  "\<exists>c. map_of (connections (fst (process_batch sample_parser
       (map captured ([opening_frame True, opening_frame False] @ hello_frame # [opening_frame False]))
       (with_config TrackerConfig_default, AppStats_default sample_clock)))) (flow_key Tcp sample_local sample_remote) = Some c
    \<and> shown_server (application_of c) = Some sample_host"
proof (rule tls_flow_shows_server [OF sample_ends sample_frames(1)])
  let ?after = "[(43, [2, 3, 4])] :: (nat \<times> bytes) list"
  show "list_all (shows_none sample_parser) [opening_frame True, opening_frame False]" by (rule sample_frames(2))
  show "seg_payload (ff_segment hello_frame) @ ff_pad hello_frame
      = take (length (tls_record 1 sample_hello)) (tls_record 1 sample_hello @ [])" by (rule sample_frames(3))
  show "\<forall>e \<in> set ?after. fst e \<noteq> 0" "length ([] :: (nat \<times> bytes) list) < 100" by simp_all
  show "length (ch_body sample_hello) \<le> 16384" by (simp add: sample_hello_parts(4))
qed (simp_all add: sample_hello_parts with_config_def TrackerConfig_default_def sample_parser_def)

end
