(* ===== verification/UserView.thy ===== *)
theory UserView
  imports QueryFilter FlowRead
begin

text \<open>
  What the user interface shows (\<^verbatim>\<open>src/app.rs\<close>): the snapshot of the table that a thread takes at
  every refresh, with service names and without the idle connections, the query that selects from
  it, the traffic history, and the command that clears everything. The table is a list, in the
  order in which its iterator gives the entries; connections with the same creation time stay in
  that order. Floating-point values, of type \<open>'f\<close>, are parameters.
\<close>

section \<open>The snapshot\<close>

fun is_loopback :: "ip_addr \<Rightarrow> bool" where
  "is_loopback (V4 (Ipv4Addr a b c d)) \<longleftrightarrow> a = 127"
| "is_loopback (V6 x) \<longleftrightarrow> x = Ipv6Addr 0 0 0 0 0 0 0 1"

definition with_service :: "ServiceLookup \<Rightarrow> Connection \<Rightarrow> Connection" where
  "with_service services conn =
     (if service_name conn = None then
        (case service_name_of services (port (remote_addr conn)) (protocol conn) of
           Some s \<Rightarrow> conn\<lparr>service_name := Some s\<rparr>
         | None \<Rightarrow>
             (case service_name_of services (port (local_addr conn)) (protocol conn) of
                Some s \<Rightarrow> conn\<lparr>service_name := Some s\<rparr>
              | None \<Rightarrow> conn))
      else conn)"

definition enrich_and_filter :: "ServiceLookup \<Rightarrow> bool \<Rightarrow> Connection \<Rightarrow> Connection \<times> bool" where
  "enrich_and_filter services filter_localhost conn =
     (let conn = with_service services conn in
      if filter_localhost \<and> is_loopback (ip (local_addr conn)) \<and> is_loopback (ip (remote_addr conn))
      then (conn, False) else (conn, True))"

definition kept :: "ServiceLookup \<Rightarrow> bool \<Rightarrow> (Connection \<Rightarrow> bool) \<Rightarrow> (bytes \<times> Connection) list \<Rightarrow> Connection list" where
  "kept services filter_localhost also entries =
     List.map_filter (\<lambda>(k, c). case enrich_and_filter services filter_localhost c of
         (conn, keep) \<Rightarrow> if keep \<and> also conn then Some conn else None) entries"

definition take_snapshot :: "clock \<Rightarrow> ServiceLookup \<Rightarrow> bool \<Rightarrow> bool \<Rightarrow> ConnectionTracker \<Rightarrow> Connection list" where
  "take_snapshot clk services filter_localhost show_historic t =
     (let snapshot_data = kept services filter_localhost (is_active clk) (connections t);
          snapshot_data = (if show_historic
             then snapshot_data @ kept services filter_localhost (\<lambda>_. True) (historic t) else snapshot_data)
      in sort_key created_at snapshot_data)"

definition refresh_stats :: "clock \<Rightarrow> ConnectionTracker \<Rightarrow> AppStats \<Rightarrow> AppStats" where
  "refresh_stats clk t stats =
     stats\<lparr>connections_tracked := of_nat (length (connections t)), stats_last_update := mono clk\<rparr>"

section \<open>The query\<close>

definition is_ptr_lookup :: "Connection \<Rightarrow> bool" where
  "is_ptr_lookup conn =
     (case map_option application (dpi_info conn) of
        Some (Dns i) \<Rightarrow> dns_query_type i = Some QT_PTR
      | _ \<Rightarrow> False)"

definition get_filtered_connections :: "TextEnv \<Rightarrow> clock \<Rightarrow> bool \<Rightarrow> bool \<Rightarrow> Connection list \<Rightarrow> bytes \<Rightarrow> Connection list" where
  "get_filtered_connections E clk resolves_names show_ptr_lookups snapshot filter_query =
     (let hide_ptr_lookups = resolves_names \<and> \<not> show_ptr_lookups;
          conns = (if hide_ptr_lookups then filter (\<lambda>c. \<not> is_ptr_lookup c) snapshot else snapshot)
      in if trim filter_query = [] then conns
         else filter (matches E clk (parse E filter_query)) conns)"

definition get_connections :: "TextEnv \<Rightarrow> clock \<Rightarrow> bool \<Rightarrow> bool \<Rightarrow> Connection list \<Rightarrow> Connection list" where
  "get_connections E clk resolves_names show_ptr_lookups snapshot =
     get_filtered_connections E clk resolves_names show_ptr_lookups snapshot []"

section \<open>Traffic history\<close>

record 'f TrafficSample =
  ts_timestamp :: instant
  rx_bytes_per_sec :: u64
  tx_bytes_per_sec :: u64
  connection_count :: nat
  packets_per_sec :: u64
  packet_loss_pct :: 'f
  avg_rtt_ms :: "'f option"

record 'f TrafficHistory =
  th_samples :: "'f TrafficSample list"
  th_max_samples :: nat

definition TrafficHistory_new :: "nat \<Rightarrow> 'f TrafficHistory" where
  "TrafficHistory_new n = \<lparr>th_samples = [], th_max_samples = n\<rparr>"

text \<open>The parameter \<open>percent\<close> is the loss rate of two counters, \<open>0.0\<close> with no packets.\<close>

definition add_sample ::
  "(u64 \<Rightarrow> u64 \<Rightarrow> 'f) \<Rightarrow> clock \<Rightarrow> u64 \<Rightarrow> u64 \<Rightarrow> nat \<Rightarrow> u64 \<Rightarrow> u64 \<Rightarrow> 'f option \<Rightarrow> 'f TrafficHistory \<Rightarrow> 'f TrafficHistory" where
  "add_sample percent clk rx tx count total_packets retransmits rtt_ms h =
     (let sample = \<lparr>ts_timestamp = mono clk, rx_bytes_per_sec = rx, tx_bytes_per_sec = tx,
            connection_count = count, packets_per_sec = total_packets,
            packet_loss_pct = percent retransmits total_packets, avg_rtt_ms = rtt_ms\<rparr>;
          kept = (if length (th_samples h) \<ge> th_max_samples h then tl (th_samples h) else th_samples h)
      in h\<lparr>th_samples := kept @ [sample]\<rparr>)"

definition get_latest_packets_per_sec :: "'f TrafficHistory \<Rightarrow> u64" where
  "get_latest_packets_per_sec h =
     (if th_samples h = [] then 0 else packets_per_sec (last (th_samples h)))"

text \<open>\<open>data.windows(window)\<close>\<close>

fun windows :: "nat \<Rightarrow> 'a list \<Rightarrow> 'a list list" where
  "windows w [] = []"
| "windows w (x # xs) = (if length (x # xs) < w then [] else take w (x # xs) # windows w xs)"

text \<open>A sum of rates beyond 64 bits panics or wraps, depending on the build; here it wraps.\<close>

definition smooth_data :: "u64 list \<Rightarrow> nat \<Rightarrow> u64 list" where
  "smooth_data data n =
     (if length data < n \<or> n = 0 then data
      else map (\<lambda>w. sum_list w div of_nat n) (windows n data))"

definition last_samples :: "nat \<Rightarrow> 'f TrafficHistory \<Rightarrow> 'f TrafficSample list" where
  "last_samples count h = drop (length (th_samples h) - count) (th_samples h)"

definition get_rx_sparkline_data :: "'f TrafficHistory \<Rightarrow> nat \<Rightarrow> u64 list" where
  "get_rx_sparkline_data h count = smooth_data (map rx_bytes_per_sec (last_samples count h)) 3"

definition get_tx_sparkline_data :: "'f TrafficHistory \<Rightarrow> nat \<Rightarrow> u64 list" where
  "get_tx_sparkline_data h count = smooth_data (map tx_bytes_per_sec (last_samples count h)) 3"

definition get_connection_sparkline_data :: "'f TrafficHistory \<Rightarrow> nat \<Rightarrow> u64 list" where
  "get_connection_sparkline_data h count = map (of_nat \<circ> TrafficSample.connection_count) (last_samples count h)"

definition has_enough_data :: "'f TrafficHistory \<Rightarrow> bool" where
  "has_enough_data h \<longleftrightarrow> length (th_samples h) \<ge> 2"

definition history_clear :: "'f TrafficHistory \<Rightarrow> 'f TrafficHistory" where
  "history_clear h = h\<lparr>th_samples := []\<rparr>"

section \<open>The shared state and clearing it\<close>

record 'f AppState =
  app_tracker :: ConnectionTracker
  app_snapshot :: "Connection list"
  app_stats :: AppStats
  app_history :: "'f TrafficHistory"
  app_show_historic :: bool

definition snapshot_step :: "clock \<Rightarrow> ServiceLookup \<Rightarrow> bool \<Rightarrow> 'f AppState \<Rightarrow> 'f AppState" where
  "snapshot_step clk services filter_localhost s =
     s\<lparr>app_snapshot := take_snapshot clk services filter_localhost (app_show_historic s) (app_tracker s),
       app_stats := refresh_stats clk (app_tracker s) (app_stats s)\<rparr>"

definition toggle_show_historic :: "'f AppState \<Rightarrow> 'f AppState" where
  "toggle_show_historic s = s\<lparr>app_show_historic := \<not> app_show_historic s\<rparr>"

definition set_show_historic :: "bool \<Rightarrow> 'f AppState \<Rightarrow> 'f AppState" where
  "set_show_historic value s = s\<lparr>app_show_historic := value\<rparr>"

definition clear_all_connections :: "'f AppState \<Rightarrow> 'f AppState" where
  "clear_all_connections s =
     s\<lparr>app_tracker := clear_all (app_tracker s), app_show_historic := False, app_snapshot := [],
       app_history := history_clear (app_history s),
       app_stats := (app_stats s)\<lparr>packets_processed := 0, packets_dropped := 0, connections_tracked := 0,
         total_tcp_retransmits := 0, total_tcp_out_of_order := 0, total_tcp_fast_retransmits := 0\<rparr>\<rparr>"

section \<open>Lemmas\<close>

lemma with_service_keeps [simp]:
  "local_addr (with_service services c) = local_addr c" "remote_addr (with_service services c) = remote_addr c"
  "dpi_info (with_service services c) = dpi_info c" "last_activity (with_service services c) = last_activity c"
  "created_at (with_service services c) = created_at c" "protocol_state (with_service services c) = protocol_state c"
  by (simp_all add: with_service_def split: option.split)

definition hidden :: "bool \<Rightarrow> Connection \<Rightarrow> bool" where
  "hidden filter_localhost c \<longleftrightarrow> filter_localhost \<and> is_loopback (ip (local_addr c)) \<and> is_loopback (ip (remote_addr c))"

lemma set_map_filter: "x \<in> set (List.map_filter f xs) \<longleftrightarrow> (\<exists>y \<in> set xs. f y = Some x)"
  by (force simp: List.map_filter_def)

lemma set_kept:
  "c \<in> set (kept services fl also entries) \<longleftrightarrow>
   (\<exists>k d. (k, d) \<in> set entries \<and> c = with_service services d \<and> \<not> hidden fl d \<and> also c)"
proof -
  have one: "(case e of (k, d) \<Rightarrow> case enrich_and_filter services fl d of
        (conn, keep) \<Rightarrow> if keep \<and> also conn then Some conn else None) = Some c
      \<longleftrightarrow> c = with_service services (snd e) \<and> \<not> hidden fl (snd e) \<and> also c" for e :: "bytes \<times> Connection"
    by (cases e) (auto simp: enrich_and_filter_def Let_def hidden_def)
  show ?thesis unfolding kept_def set_map_filter one by force
qed

text \<open>The snapshot is in the order of creation and shows exactly the active connections, and the
  archived ones when they are asked for.\<close>

lemma snapshot_sorted: "sorted (map created_at (take_snapshot clk services fl sh t))"
  by (simp add: take_snapshot_def Let_def)

lemma set_snapshot:
  "c \<in> set (take_snapshot clk services fl sh t) \<longleftrightarrow>
   (\<exists>k d. c = with_service services d \<and> \<not> hidden fl d \<and>
      ((k, d) \<in> set (connections t) \<and> is_active clk d \<or> sh \<and> (k, d) \<in> set (historic t)))"
  by (auto simp: take_snapshot_def Let_def set_kept is_active_def) blast+

lemma set_filtered:
  "c \<in> set (get_filtered_connections E clk rn sp snapshot q) \<longleftrightarrow>
   c \<in> set snapshot \<and> \<not> (rn \<and> \<not> sp \<and> is_ptr_lookup c) \<and> matches E clk (parse E q) c"
  by (auto simp: get_filtered_connections_def Let_def parse_def matches_def)

text \<open>The history is bounded, and a full one drops its oldest sample.\<close>

lemma history_bounded:
  "length (th_samples h) \<le> th_max_samples h \<Longrightarrow> 0 < th_max_samples h \<Longrightarrow>
   length (th_samples (add_sample pct clk rx tx n p r rtt_ms h)) \<le> th_max_samples h"
  by (auto simp: add_sample_def Let_def)

lemma latest_sample: "get_latest_packets_per_sec (add_sample pct clk rx tx n p r rtt_ms h) = p"
  by (simp add: add_sample_def get_latest_packets_per_sec_def Let_def)

text \<open>After clearing, the next snapshot shows nothing and counts nothing.\<close>

lemma cleared_view:
  "app_snapshot (snapshot_step clk services fl (clear_all_connections s)) = [] \<and>
   connections_tracked (app_stats (snapshot_step clk services fl (clear_all_connections s))) = 0"
  by (simp add: snapshot_step_def clear_all_connections_def take_snapshot_def kept_def refresh_stats_def clear_all_def
      map_filter_simps)

lemma shown_host: "shown_server (application_of c) = Some h \<Longrightarrow> known_host c = Some h \<and> \<not> is_ptr_lookup c"
  by (auto simp: shown_server_def application_of_def known_host_def is_ptr_lookup_def https_sni_def
      split: option.splits ApplicationProtocol.splits)

section \<open>Properties\<close>

text \<open>C5 (functional). From the wire to the screen. A TLS connection whose ClientHello came in the
  frames of its flow is found by its server: within five minutes of its last frame the next
  snapshot, asked for any text within the server's name, in any case, shows the connection with
  its ends and its server, unless both ends are loopback addresses that are hidden; and what such a
  query shows are connections with a known host that holds the text.\<close>

theorem flow_found_by_server:
  assumes "is_local P (ip l)" and "\<not> is_local P (ip r)" and "list_all (flow_of P l r) (gs @ f # fs)"
    and "map_of (connections t) (flow_key Tcp l r) = None" and "length (connections t) < max_connections (config t)"
    and "enable_dpi (parser_config P)" and "list_all (shows_none P) gs"
    and "seg_payload (ff_segment f) @ ff_pad f = take n (tls_record minor ch @ later)"
    and "ch_ok ch" "ch_extensions ch = before @ (0, encode_sni h) # after" "is_valid_hostname h"
      "\<forall>e \<in> set after. fst e \<noteq> 0" "length before < 100" "length (ch_body ch) \<le> 16384" "1 \<le> minor" "minor \<le> 4"
    and "length (tls_record minor ch) \<le> n + length (extensions_bytes after)"
    and "\<not> (filter_localhost \<and> is_loopback (ip l) \<and> is_loopback (ip r))"
    and "since (wall clk) (wall (ff_clock (last (gs @ f # fs)))) < secs 300"
    and "k \<in> set host_keywords" "list_all is_ascii_graphic x" "\<not> starts_with x [slash]"
    and "occurs (lower_ascii x) (lower_ascii h)"
    and "view = get_filtered_connections E clk rn sp (take_snapshot clk services filter_localhost sh
      (fst (process_batch P (map captured (gs @ f # fs)) (t, stats)))) (k @ colon # x)"
  shows "(\<exists>c \<in> set view. local_addr c = l \<and> remote_addr c = r \<and> shown_server (application_of c) = Some h) \<and>
    (\<forall>c \<in> set view. \<exists>h'. known_host c = Some h' \<and> occurs (lower_ascii x) (lower E h'))"
proof
  note host = host_filter [OF assms(20-22)]
  obtain c where c: "map_of (connections (fst (process_batch P (map captured (gs @ f # fs)) (t, stats))))
        = (map_of (connections t)) (flow_key Tcp l r \<mapsto> c)"
      "shown_server (application_of c) = Some h" "local_addr c = l" "remote_addr c = r"
      "last_activity c = wall (ff_clock (last (gs @ f # fs)))"
    by (rule flow_server_tracked [OF assms(1-17), of stats])
  let ?d = "with_service services c"
  have "(flow_key Tcp l r, c) \<in> set (connections (fst (process_batch P (map captured (gs @ f # fs)) (t, stats))))"
    using c(1) by (simp add: map_of_SomeD)
  then have "?d \<in> set (take_snapshot clk services filter_localhost sh (fst (process_batch P (map captured (gs @ f # fs)) (t, stats))))"
    using assms(18,19) c(3-5) unfolding set_snapshot hidden_def is_active_def
    by (intro exI [of _ "flow_key Tcp l r"] exI [of _ c]) simp
  moreover have d: "shown_server (application_of ?d) = Some h" using c(2) by (simp add: application_of_def)
  moreover have "lower E h = lower_ascii h"
    using assms(11) by (intro lower_ascii_simp) (auto simp: is_valid_hostname_def hostname_char_def list_all_iff alnum_ascii dot_def hyphen_def split: if_splits)
  ultimately have "?d \<in> set view"
    using shown_host [OF d] assms(23) unfolding assms(24) set_filtered host by auto
  then show "\<exists>c \<in> set view. local_addr c = l \<and> remote_addr c = r \<and> shown_server (application_of c) = Some h"
    using d c(3,4) by (intro bexI [of _ ?d]) simp_all
  show "\<forall>c \<in> set view. \<exists>h'. known_host c = Some h' \<and> occurs (lower_ascii x) (lower E h')"
    unfolding assms(24) using host by (auto simp: set_filtered)
qed

definition sample_flow_frames :: "flow_frame list" where
  "sample_flow_frames = [opening_frame True, opening_frame False] @ hello_frame # [opening_frame False]"

definition sample_view :: "Connection list" where
  "sample_view = get_filtered_connections plain_env sample_clock True False
     (take_snapshot sample_clock with_defaults True False
       (fst (process_batch sample_parser (map captured sample_flow_frames)
         (with_config TrackerConfig_default, AppStats_default sample_clock))))
     (ascii ''host'' @ colon # ascii ''EXAMPLE'')"

theorem flow_found_by_server_witness:
  "\<exists>c. c \<in> set sample_view \<and> local_addr c = sample_local \<and> remote_addr c = sample_remote
    \<and> shown_server (application_of c) = Some sample_host \<and> known_host c = Some sample_host"
proof -
  have "(\<exists>c \<in> set sample_view. local_addr c = sample_local \<and> remote_addr c = sample_remote
        \<and> shown_server (application_of c) = Some sample_host) \<and>
     (\<forall>c \<in> set sample_view. \<exists>h'. known_host c = Some h' \<and> occurs (lower_ascii (ascii ''EXAMPLE'')) (lower plain_env h'))"
  proof (rule flow_found_by_server [OF sample_ends sample_frames(1)])
    let ?after = "[(43, [2, 3, 4])] :: (nat \<times> bytes) list"
    show "list_all (shows_none sample_parser) [opening_frame True, opening_frame False]" by (rule sample_frames(2))
    show "seg_payload (ff_segment hello_frame) @ ff_pad hello_frame
        = take (length (tls_record 1 sample_hello)) (tls_record 1 sample_hello @ [])" by (rule sample_frames(3))
    show "\<forall>e \<in> set ?after. fst e \<noteq> 0" "length ([] :: (nat \<times> bytes) list) < 100" by simp_all
    show "length (ch_body sample_hello) \<le> 16384" by (simp add: sample_hello_parts(4))
    have "lower_ascii sample_host = [] @ lower_ascii (ascii ''EXAMPLE'') @ ascii ''.com''"
      by (simp add: sample_host_def ascii_def lower_ascii_def to_ascii_lowercase_def)
    then show "occurs (lower_ascii (ascii ''EXAMPLE'')) (lower_ascii sample_host)" unfolding occurs_def by blast
    show "since (wall sample_clock)
        (wall (ff_clock (last ([opening_frame True, opening_frame False] @ hello_frame # [opening_frame False])))) < secs 300"
      by (simp add: opening_frame_def sample_flow_frame_def since_def secs_def)
    show "sample_view = get_filtered_connections plain_env sample_clock True False
        (take_snapshot sample_clock with_defaults True False (fst (process_batch sample_parser (map captured
          ([opening_frame True, opening_frame False] @ hello_frame # [opening_frame False]))
          (with_config TrackerConfig_default, AppStats_default sample_clock)))) (ascii ''host'' @ colon # ascii ''EXAMPLE'')"
      by (simp only: sample_view_def sample_flow_frames_def)
  qed (simp_all add: sample_hello_parts with_config_def TrackerConfig_default_def
      sample_parser_def sample_local_def host_keywords_def ascii_def is_ascii_graphic_def starts_with_def slash_def)
  then obtain c h' where "c \<in> set sample_view" "local_addr c = sample_local" "remote_addr c = sample_remote"
      "shown_server (application_of c) = Some sample_host" by blast
  then show ?thesis using shown_host by blast
qed

end
