(* ===== verification/UiState.thy ===== *)
theory UiState
  imports UserView "HOL-Library.Sorting_Algorithms" "HOL-Library.List_Lexorder"
begin

text \<open>
  The state of the terminal user interface (\<^verbatim>\<open>src/ui/state.rs\<close>, \<^verbatim>\<open>sorting.rs\<close>) and its operations:
  the selection, the filter line that is being edited, sorting, the rows grouped by process, scrolling
  and the regions that can be clicked. A character is its UTF-8 bytes and the cursor a byte
  position, as in the code; an operation that panics has no result. Floating-point rates are
  parameters, and so is the order in which a \<open>HashMap\<close> gives its entries.
\<close>

section \<open>Sorting\<close>

datatype SortColumn =
  CreatedAt | BandwidthTotal | Process | LocalAddress | RemoteAddress | Location | Application | Service
  | State | Protocol

definition next_column :: "SortColumn \<Rightarrow> bool \<Rightarrow> SortColumn" where
  "next_column c has_location =
     (case c of
        CreatedAt \<Rightarrow> SortColumn.Protocol
      | SortColumn.Protocol \<Rightarrow> LocalAddress
      | LocalAddress \<Rightarrow> RemoteAddress
      | RemoteAddress \<Rightarrow> if has_location then Location else SortColumn.State
      | Location \<Rightarrow> SortColumn.State
      | SortColumn.State \<Rightarrow> SortColumn.Service
      | SortColumn.Service \<Rightarrow> SortColumn.Application
      | SortColumn.Application \<Rightarrow> BandwidthTotal
      | BandwidthTotal \<Rightarrow> SortColumn.Process
      | SortColumn.Process \<Rightarrow> CreatedAt)"

definition default_direction :: "SortColumn \<Rightarrow> bool" where
  "default_direction c \<longleftrightarrow> c \<noteq> BandwidthTotal"

text \<open>The order of \<open>IpAddr\<close> and of \<open>Protocol\<close>: by variant, then by octets or groups.\<close>

definition ip_rank :: "ip_addr \<Rightarrow> nat \<times> nat list" where
  "ip_rank a = (case a of V4 x \<Rightarrow> (0, map unat (octets4 x)) | V6 x \<Rightarrow> (1, map unat (segments x)))"

lemma ip_rank_inject: "ip_rank a = ip_rank b \<longleftrightarrow> a = b"
proof -
  have "map unat x = map unat y \<longleftrightarrow> x = y" for x y :: "'a::len word list"
    by (rule inj_map_eq_map) (simp add: inj_def word_unat_eq_iff)
  then show ?thesis
    by (cases a; cases b) (simp_all add: ip_rank_def octets4_inject segments_inject)
qed

instantiation ip_addr :: linorder
begin

definition less_eq_ip_addr :: "ip_addr \<Rightarrow> ip_addr \<Rightarrow> bool" where
  "less_eq_ip_addr a b \<longleftrightarrow> ip_rank a \<le> ip_rank b"

definition less_ip_addr :: "ip_addr \<Rightarrow> ip_addr \<Rightarrow> bool" where
  "less_ip_addr a b \<longleftrightarrow> ip_rank a < ip_rank b"

instance
  by standard (auto simp: less_eq_ip_addr_def less_ip_addr_def less_le ip_rank_inject)

end

definition protocol_rank :: "Protocol \<Rightarrow> nat" where
  "protocol_rank p = (case p of Tcp \<Rightarrow> 0 | Udp \<Rightarrow> 1 | Icmp \<Rightarrow> 2 | Igmp \<Rightarrow> 3 | Arp \<Rightarrow> 4)"

definition address_key :: "socket_addr \<Rightarrow> ip_addr \<times> u16" where
  "address_key s = (ip s, port s)"

definition application_key :: "Connection \<Rightarrow> bool \<times> bytes" where
  "application_key c =
     (case dpi_info c of None \<Rightarrow> (False, []) | Some d \<Rightarrow> (True, app_sort_key (application d)))"

definition location_key :: "Connection \<Rightarrow> bytes" where
  "location_key c =
     (case geoip_info c of None \<Rightarrow> [] | Some g \<Rightarrow> (case country_code g of None \<Rightarrow> [] | Some x \<Rightarrow> x))"

text \<open>The comparison of combined rates, which are never NaN, is a parameter.\<close>

definition column_order :: "clock \<Rightarrow> Connection comparator \<Rightarrow> SortColumn \<Rightarrow> Connection comparator" where
  "column_order clk bandwidth c =
     (case c of
        CreatedAt \<Rightarrow> key created_at default
      | BandwidthTotal \<Rightarrow> bandwidth
      | SortColumn.Process \<Rightarrow> key (\<lambda>c. case process_name c of None \<Rightarrow> [] | Some n \<Rightarrow> n) default
      | LocalAddress \<Rightarrow> key (address_key \<circ> local_addr) default
      | RemoteAddress \<Rightarrow> key (address_key \<circ> remote_addr) default
      | Location \<Rightarrow> key location_key default
      | SortColumn.Application \<Rightarrow> key application_key default
      | SortColumn.Service \<Rightarrow> key (\<lambda>c. case service_name c of None \<Rightarrow> [] | Some n \<Rightarrow> n) default
      | SortColumn.State \<Rightarrow> key (connection_state_text clk) default
      | SortColumn.Protocol \<Rightarrow> key (protocol_rank \<circ> protocol) default)"

definition sort_connections ::
    "clock \<Rightarrow> Connection comparator \<Rightarrow> Connection list \<Rightarrow> SortColumn \<Rightarrow> bool \<Rightarrow> Connection list" where
  "sort_connections clk bandwidth conns column ascending =
     (let ordering = column_order clk bandwidth column in
      Sorting_Algorithms.sort (if ascending then ordering else reversed ordering) conns)"

section \<open>Keys and grouped rows\<close>

definition debug_protocol :: "Protocol \<Rightarrow> bytes" where
  "debug_protocol p = (case p of Tcp \<Rightarrow> ascii ''Tcp'' | Udp \<Rightarrow> ascii ''Udp'' | Icmp \<Rightarrow> ascii ''Icmp''
     | Igmp \<Rightarrow> ascii ''Igmp'' | Arp \<Rightarrow> ascii ''Arp'')"

definition conn_key :: "Connection \<Rightarrow> bytes" where
  "conn_key c =
     (let p = debug_protocol (protocol c);
          ends = p @ colon # show_socket (local_addr c) @ hyphen # p @ colon # show_socket (remote_addr c)
      in if is_historic c then ends @ ascii '':h:'' @ decimal (since (created_at c) 0) else ends)"

record 'f Rates =
  no_rate :: 'f
  add_rate :: "'f \<Rightarrow> 'f \<Rightarrow> 'f"
  incoming_rate :: "Connection \<Rightarrow> 'f"
  outgoing_rate :: "Connection \<Rightarrow> 'f"

record 'f ProcessGroupStats =
  connection_count :: nat
  historic_count :: nat
  tcp_count :: nat
  udp_count :: nat
  total_incoming_rate_bps :: 'f
  total_outgoing_rate_bps :: 'f

datatype 'f GroupedRow =
  Group bytes "'f ProcessGroupStats" bool
| Connection bytes Connection bool

definition group_name :: "Connection \<Rightarrow> bytes" where
  "group_name conn = (case process_name conn of None \<Rightarrow> ascii ''<unknown>'' | Some n \<Rightarrow> n)"

fun push_conn :: "bytes \<Rightarrow> Connection \<Rightarrow> (bytes \<times> Connection list) list \<Rightarrow> (bytes \<times> Connection list) list" where
  "push_conn n conn [] = [(n, [conn])]"
| "push_conn n conn ((m, cs) # gs) = (if m = n then (m, cs @ [conn]) # gs else (m, cs) # push_conn n conn gs)"

definition grouped :: "Connection list \<Rightarrow> (bytes \<times> Connection list) list" where
  "grouped conns = fold (\<lambda>conn. push_conn (group_name conn) conn) conns []"

definition count_conn :: "'f Rates \<Rightarrow> Connection \<Rightarrow> 'f ProcessGroupStats \<Rightarrow> 'f ProcessGroupStats" where
  "count_conn R c s =
     (if is_historic c then s\<lparr>historic_count := historic_count s + 1\<rparr>
      else
        let s = s\<lparr>connection_count := connection_count s + 1\<rparr>;
            s = (if protocol c = Tcp then s\<lparr>tcp_count := tcp_count s + 1\<rparr>
                 else if protocol c = Udp then s\<lparr>udp_count := udp_count s + 1\<rparr> else s)
        in s\<lparr>total_incoming_rate_bps := add_rate R (total_incoming_rate_bps s) (incoming_rate R c),
             total_outgoing_rate_bps := add_rate R (total_outgoing_rate_bps s) (outgoing_rate R c)\<rparr>)"

definition group_stats :: "'f Rates \<Rightarrow> Connection list \<Rightarrow> 'f ProcessGroupStats" where
  "group_stats R conns = fold (count_conn R) conns
     \<lparr>connection_count = 0, historic_count = 0, tcp_count = 0, udp_count = 0,
       total_incoming_rate_bps = no_rate R, total_outgoing_rate_bps = no_rate R\<rparr>"

definition group_rows :: "bytes set \<Rightarrow> bytes \<times> 'f ProcessGroupStats \<times> Connection list \<Rightarrow> 'f GroupedRow list" where
  "group_rows expanded = (\<lambda>(name, stats, conns).
     Group name stats (name \<in> expanded) #
     (if name \<in> expanded
      then map (\<lambda>(idx, conn). GroupedRow.Connection name conn (idx = length conns - 1)) (enumerate 0 conns)
      else []))"

definition compute_grouped_rows ::
    "'f Rates \<Rightarrow> TextEnv \<Rightarrow> ((bytes \<times> Connection list) list \<Rightarrow> (bytes \<times> Connection list) list) \<Rightarrow>
     Connection list \<Rightarrow> bytes set \<Rightarrow> 'f GroupedRow list" where
  "compute_grouped_rows R E hash_order conns expanded =
     (let stats = map (\<lambda>(name, cs). (name, group_stats R cs, cs)) (hash_order (grouped conns))
      in concat (map (group_rows expanded) (sort_key (lower E \<circ> fst) stats)))"

section \<open>The state\<close>

record UIState =
  selected_tab :: nat
  selected_connection_key :: "bytes option"
  show_help :: bool
  quit_confirmation :: bool
  clear_confirmation :: bool
  clipboard_message :: "(bytes \<times> instant) option"
  filter_mode :: bool
  filter_query :: bytes
  filter_cursor_position :: nat
  show_port_numbers :: bool
  sort_column :: SortColumn
  sort_ascending :: bool
  show_hostnames :: bool
  grouping_enabled :: bool
  expanded_groups :: "bytes set"
  selected_group :: "bytes option"
  has_geoip :: bool
  last_click :: "(u16 \<times> u16 \<times> instant) option"
  show_historic :: bool
  visible_rows :: nat
  scroll_offset :: nat
  grouped_scroll_offset :: nat

definition UIState_default :: UIState where
  "UIState_default = \<lparr>selected_tab = 0, selected_connection_key = None, show_help = False,
     quit_confirmation = False, clear_confirmation = False, clipboard_message = None,
     filter_mode = False, filter_query = [], filter_cursor_position = 0, show_port_numbers = False,
     sort_column = CreatedAt, sort_ascending = True, show_hostnames = True,
     grouping_enabled = False, expanded_groups = {}, selected_group = None, has_geoip = False,
     last_click = None, show_historic = False, visible_rows = 10, scroll_offset = 0,
     grouped_scroll_offset = 0\<rparr>"

definition TAB_COUNT :: nat where "TAB_COUNT = 5"
definition HELP_TAB_INDEX :: nat where "HELP_TAB_INDEX = TAB_COUNT - 1"

definition compute_scroll_offset :: "nat \<Rightarrow> nat \<Rightarrow> nat \<Rightarrow> nat \<Rightarrow> nat" where
  "compute_scroll_offset selected_index current_offset rows total_rows =
     (if total_rows = 0 \<or> rows = 0 then 0
      else
        let max_offset = total_rows - rows;
            offset = min current_offset max_offset;
            offset = (if selected_index < offset then selected_index else offset);
            offset = (if selected_index \<ge> offset + rows then selected_index - rows + 1 else offset)
        in min offset max_offset)"

section \<open>Selection in the flat list\<close>

definition get_selected_index :: "UIState \<Rightarrow> Connection list \<Rightarrow> nat option" where
  "get_selected_index ui conns =
     (case selected_connection_key ui of
        Some k \<Rightarrow> position (\<lambda>conn. conn_key conn = k) conns
      | None \<Rightarrow> if conns \<noteq> [] then Some 0 else None)"

definition set_selected_by_index :: "Connection list \<Rightarrow> nat \<Rightarrow> UIState \<Rightarrow> UIState" where
  "set_selected_by_index conns index ui =
     (if index < length conns then ui\<lparr>selected_connection_key := Some (conn_key (conns ! index))\<rparr> else ui)"

definition or_first :: "nat option \<Rightarrow> nat" where
  "or_first i = (case i of None \<Rightarrow> 0 | Some n \<Rightarrow> n)"

definition move_selection_up :: "Connection list \<Rightarrow> UIState \<Rightarrow> UIState" where
  "move_selection_up conns ui =
     (if conns = [] then ui
      else let current_index = or_first (get_selected_index ui conns) in
        set_selected_by_index conns
          (if current_index > 0 then current_index - 1 else length conns - 1) ui)"

definition move_selection_down :: "Connection list \<Rightarrow> UIState \<Rightarrow> UIState" where
  "move_selection_down conns ui =
     (if conns = [] then ui
      else let current_index = or_first (get_selected_index ui conns) in
        set_selected_by_index conns
          (if current_index < length conns - 1 then current_index + 1 else 0) ui)"

definition move_selection_page_up :: "Connection list \<Rightarrow> nat \<Rightarrow> UIState \<Rightarrow> UIState" where
  "move_selection_page_up conns page_size ui =
     (if conns = [] then ui
      else let current_index = or_first (get_selected_index ui conns) in
        set_selected_by_index conns
          (if current_index \<ge> page_size then current_index - page_size else 0) ui)"

definition move_selection_page_down :: "Connection list \<Rightarrow> nat \<Rightarrow> UIState \<Rightarrow> UIState" where
  "move_selection_page_down conns page_size ui =
     (if conns = [] then ui
      else let new_index = or_first (get_selected_index ui conns) + page_size in
        set_selected_by_index conns
          (if new_index < length conns then new_index else length conns - 1) ui)"

definition move_selection_to_first :: "Connection list \<Rightarrow> UIState \<Rightarrow> UIState" where
  "move_selection_to_first conns ui =
     (if conns = [] then ui else set_selected_by_index conns 0 ui)"

definition move_selection_to_last :: "Connection list \<Rightarrow> UIState \<Rightarrow> UIState" where
  "move_selection_to_last conns ui =
     (if conns = [] then ui else set_selected_by_index conns (length conns - 1) ui)"

definition ensure_valid_selection :: "Connection list \<Rightarrow> UIState \<Rightarrow> UIState" where
  "ensure_valid_selection conns ui =
     (if conns = [] then ui\<lparr>selected_connection_key := None\<rparr>
      else if selected_connection_key ui = None \<or> get_selected_index ui conns = None
      then set_selected_by_index conns 0 ui
      else ui)"

section \<open>The filter line\<close>

text \<open>\<open>String::insert\<close> and \<open>String::remove\<close> panic off a character boundary, the latter at the end too.\<close>

definition str_insert :: "nat \<Rightarrow> bytes \<Rightarrow> bytes \<Rightarrow> bytes option" where
  "str_insert i c s = (if is_char_boundary s i then Some (take i s @ c @ drop i s) else None)"

definition str_remove :: "nat \<Rightarrow> bytes \<Rightarrow> bytes option" where
  "str_remove i s =
     (if is_char_boundary s i \<and> i < length s
      then Some (take i s @ drop (i + snd (utf8_head (drop i s))) s) else None)"

definition enter_filter_mode :: "UIState \<Rightarrow> UIState" where
  "enter_filter_mode ui = ui\<lparr>filter_mode := True, filter_cursor_position := length (filter_query ui)\<rparr>"

definition exit_filter_mode :: "UIState \<Rightarrow> UIState" where
  "exit_filter_mode ui = ui\<lparr>filter_mode := False, filter_cursor_position := 0\<rparr>"

definition clear_filter :: "UIState \<Rightarrow> UIState" where
  "clear_filter ui = exit_filter_mode (ui\<lparr>filter_query := []\<rparr>)"

definition filter_add_char :: "bytes \<Rightarrow> UIState \<Rightarrow> UIState option" where
  "filter_add_char c ui =
     map_option (\<lambda>q. ui\<lparr>filter_query := q, filter_cursor_position := filter_cursor_position ui + 1\<rparr>)
       (str_insert (filter_cursor_position ui) c (filter_query ui))"

definition filter_backspace :: "UIState \<Rightarrow> UIState option" where
  "filter_backspace ui =
     (if filter_cursor_position ui > 0 then
        let i = filter_cursor_position ui - 1 in
        map_option (\<lambda>q. ui\<lparr>filter_query := q, filter_cursor_position := i\<rparr>) (str_remove i (filter_query ui))
      else Some ui)"

definition filter_delete :: "UIState \<Rightarrow> UIState option" where
  "filter_delete ui =
     map_option (\<lambda>q. ui\<lparr>filter_query := q\<rparr>) (str_remove (filter_cursor_position ui) (filter_query ui))"

definition filter_cursor_left :: "UIState \<Rightarrow> UIState" where
  "filter_cursor_left ui =
     (if filter_cursor_position ui > 0 then ui\<lparr>filter_cursor_position := filter_cursor_position ui - 1\<rparr> else ui)"

definition filter_cursor_right :: "UIState \<Rightarrow> UIState" where
  "filter_cursor_right ui =
     (if filter_cursor_position ui < length (filter_query ui)
      then ui\<lparr>filter_cursor_position := filter_cursor_position ui + 1\<rparr> else ui)"

text \<open>The text that is drawn in the filter line.\<close>

definition filter_input_text :: "UIState \<Rightarrow> bytes option" where
  "filter_input_text ui =
     (if filter_mode ui \<and> filter_cursor_position ui \<le> length (filter_query ui)
      then str_insert (filter_cursor_position ui) (ascii ''|'') (filter_query ui)
      else Some (filter_query ui))"

section \<open>Tabs, sorting, grouping\<close>

definition jump_to_tab :: "nat \<Rightarrow> UIState \<Rightarrow> UIState" where
  "jump_to_tab target ui =
     (if target \<ge> TAB_COUNT then ui else ui\<lparr>selected_tab := target, show_help := target = HELP_TAB_INDEX\<rparr>)"

definition next_tab :: "UIState \<Rightarrow> UIState" where
  "next_tab ui = ui\<lparr>selected_tab := (selected_tab ui + 1) mod TAB_COUNT\<rparr>"

definition prev_tab :: "UIState \<Rightarrow> UIState" where
  "prev_tab ui = ui\<lparr>selected_tab := if selected_tab ui = 0 then TAB_COUNT - 1 else selected_tab ui - 1\<rparr>"

definition cycle_sort_column :: "UIState \<Rightarrow> UIState" where
  "cycle_sort_column ui =
     (let c = next_column (sort_column ui) (has_geoip ui) in
      ui\<lparr>sort_column := c, sort_ascending := default_direction c\<rparr>)"

definition toggle_sort_direction :: "UIState \<Rightarrow> UIState" where
  "toggle_sort_direction ui = ui\<lparr>sort_ascending := \<not> sort_ascending ui\<rparr>"

definition reset_view :: "UIState \<Rightarrow> UIState" where
  "reset_view ui = ui\<lparr>grouping_enabled := False, expanded_groups := {}, selected_group := None,
     sort_column := CreatedAt, sort_ascending := default_direction CreatedAt, filter_query := [],
     filter_mode := False, filter_cursor_position := 0, show_historic := False,
     scroll_offset := 0, grouped_scroll_offset := 0\<rparr>"

definition toggle_grouping :: "UIState \<Rightarrow> UIState" where
  "toggle_grouping ui =
     (let ui = ui\<lparr>grouping_enabled := \<not> grouping_enabled ui\<rparr> in
      if grouping_enabled ui then ui\<lparr>selected_group := None, grouped_scroll_offset := 0\<rparr>
      else ui\<lparr>scroll_offset := 0\<rparr>)"

definition toggle_group_expansion :: "UIState \<Rightarrow> UIState" where
  "toggle_group_expansion ui =
     (case selected_group ui of
        None \<Rightarrow> ui
      | Some g \<Rightarrow> ui\<lparr>expanded_groups :=
          if g \<in> expanded_groups ui then expanded_groups ui - {g} else insert g (expanded_groups ui)\<rparr>)"

definition expand_selected_group :: "UIState \<Rightarrow> UIState" where
  "expand_selected_group ui =
     (case selected_group ui of None \<Rightarrow> ui | Some g \<Rightarrow> ui\<lparr>expanded_groups := insert g (expanded_groups ui)\<rparr>)"

definition collapse_selected_group :: "UIState \<Rightarrow> UIState" where
  "collapse_selected_group ui =
     (case selected_group ui of None \<Rightarrow> ui | Some g \<Rightarrow> ui\<lparr>expanded_groups := expanded_groups ui - {g}\<rparr>)"

section \<open>Selection in the grouped rows\<close>

fun shows_connection :: "bytes \<Rightarrow> 'f GroupedRow \<Rightarrow> bool" where
  "shows_connection k (GroupedRow.Connection n conn l) \<longleftrightarrow> conn_key conn = k"
| "shows_connection k (Group n s e) \<longleftrightarrow> False"

fun heads_group :: "bytes \<Rightarrow> 'f GroupedRow \<Rightarrow> bool" where
  "heads_group g (Group n s e) \<longleftrightarrow> n = g"
| "heads_group g (GroupedRow.Connection n conn l) \<longleftrightarrow> False"

definition get_selected_grouped_index :: "UIState \<Rightarrow> 'f GroupedRow list \<Rightarrow> nat option" where
  "get_selected_grouped_index ui rows =
     (if rows = [] then None
      else
        case Option.bind (selected_connection_key ui) (\<lambda>k. position (shows_connection k) rows) of
          Some i \<Rightarrow> Some i
        | None \<Rightarrow>
            (case Option.bind (selected_group ui) (\<lambda>g. position (heads_group g) rows) of
               Some i \<Rightarrow> Some i
             | None \<Rightarrow> Some 0))"

definition select_row :: "'f GroupedRow \<Rightarrow> UIState \<Rightarrow> UIState" where
  "select_row row ui =
     (case row of
        Group n s e \<Rightarrow> ui\<lparr>selected_group := Some n, selected_connection_key := None\<rparr>
      | GroupedRow.Connection n conn l \<Rightarrow>
          ui\<lparr>selected_connection_key := Some (conn_key conn), selected_group := Some n\<rparr>)"

definition set_selected_grouped_by_index :: "'f GroupedRow list \<Rightarrow> nat \<Rightarrow> UIState \<Rightarrow> UIState" where
  "set_selected_grouped_by_index rows index ui = (if index < length rows then select_row (rows ! index) ui else ui)"

definition move_selection_up_grouped :: "'f GroupedRow list \<Rightarrow> UIState \<Rightarrow> UIState" where
  "move_selection_up_grouped rows ui =
     (if rows = [] then ui
      else let current_index = or_first (get_selected_grouped_index ui rows) in
        set_selected_grouped_by_index rows (if current_index > 0 then current_index - 1 else length rows - 1) ui)"

definition move_selection_down_grouped :: "'f GroupedRow list \<Rightarrow> UIState \<Rightarrow> UIState" where
  "move_selection_down_grouped rows ui =
     (if rows = [] then ui
      else let current_index = or_first (get_selected_grouped_index ui rows) in
        set_selected_grouped_by_index rows (if current_index < length rows - 1 then current_index + 1 else 0) ui)"

definition move_selection_page_up_grouped :: "'f GroupedRow list \<Rightarrow> nat \<Rightarrow> UIState \<Rightarrow> UIState" where
  "move_selection_page_up_grouped rows page_size ui =
     (if rows = [] then ui
      else set_selected_grouped_by_index rows (or_first (get_selected_grouped_index ui rows) - page_size) ui)"

definition move_selection_page_down_grouped :: "'f GroupedRow list \<Rightarrow> nat \<Rightarrow> UIState \<Rightarrow> UIState" where
  "move_selection_page_down_grouped rows page_size ui =
     (if rows = [] then ui
      else set_selected_grouped_by_index rows
        (min (or_first (get_selected_grouped_index ui rows) + page_size) (length rows - 1)) ui)"

definition ensure_valid_grouped_selection :: "'f GroupedRow list \<Rightarrow> UIState \<Rightarrow> UIState" where
  "ensure_valid_grouped_selection rows ui =
     (if rows = [] then ui\<lparr>selected_group := None, selected_connection_key := None\<rparr>
      else if selected_group ui = None \<or> get_selected_grouped_index ui rows = None
      then set_selected_grouped_by_index rows 0 ui
      else ui)"

definition is_group_selected :: "UIState \<Rightarrow> bool" where
  "is_group_selected ui \<longleftrightarrow> selected_group ui \<noteq> None \<and> selected_connection_key ui = None"

section \<open>Groups\<close>

lemma push_conn_names:
  "map fst (push_conn n c gs) = (if n \<in> fst ` set gs then map fst gs else map fst gs @ [n])"
  by (induction gs) (force split: if_splits)+

lemma push_conn_lookup:
  "map_of (push_conn n c gs) m =
     (if m = n then Some (case map_of gs n of None \<Rightarrow> [c] | Some cs \<Rightarrow> cs @ [c]) else map_of gs m)"
  by (induction gs) auto

lemma grouped_snoc: "grouped (cs @ [c]) = push_conn (group_name c) c (grouped cs)"
  by (simp add: grouped_def)

lemma grouped_names: "distinct (map fst (grouped cs)) \<and> set (map fst (grouped cs)) = group_name ` set cs"
proof (induction cs rule: rev_induct)
  case (snoc c cs)
  have "map fst (grouped (cs @ [c])) = (if group_name c \<in> set (map fst (grouped cs)) then map fst (grouped cs)
      else map fst (grouped cs) @ [group_name c])"
    by (simp add: grouped_snoc push_conn_names)
  then show ?case using snoc by (simp add: insert_absorb del: set_map)
qed (simp add: grouped_def)

lemma grouped_lookup:
  "map_of (grouped cs) n = (if n \<in> group_name ` set cs then Some (filter (\<lambda>c. group_name c = n) cs) else None)"
proof (induction cs rule: rev_induct)
  case (snoc c cs)
  have "n \<notin> group_name ` set cs \<Longrightarrow> filter (\<lambda>c. group_name c = n) cs = []" by (auto simp: filter_empty_conv)
  with snoc show ?case by (auto simp: grouped_snoc push_conn_lookup)
qed (simp add: grouped_def)

text \<open>The groups are the names that occur, each with its connections in their order.\<close>

lemma grouped_set: "set (grouped cs) = (\<lambda>n. (n, filter (\<lambda>c. group_name c = n) cs)) ` group_name ` set cs"
proof -
  have "(n, xs) \<in> set (grouped cs) \<longleftrightarrow> n \<in> group_name ` set cs \<and> xs = filter (\<lambda>c. group_name c = n) cs" for n xs
    using grouped_names [of cs] by (auto simp: grouped_lookup simp flip: map_of_eq_Some_iff)
  then show ?thesis by (auto simp: set_eq_iff)
qed

fun headers :: "'f GroupedRow list \<Rightarrow> (bytes \<times> 'f ProcessGroupStats \<times> bool) list" where
  "headers [] = []"
| "headers (Group n s e # rows) = (n, s, e) # headers rows"
| "headers (GroupedRow.Connection n c l # rows) = headers rows"

fun members :: "'f GroupedRow list \<Rightarrow> (bytes \<times> Connection) list" where
  "members [] = []"
| "members (Group n s e # rows) = members rows"
| "members (GroupedRow.Connection n c l # rows) = (n, c) # members rows"

lemma headers_append: "headers (r @ rs) = headers r @ headers rs"
  by (induction r rule: headers.induct) simp_all

lemma members_append: "members (r @ rs) = members r @ members rs"
  by (induction r rule: members.induct) simp_all

lemma rows_of_members:
  "headers (map (\<lambda>(i, c). GroupedRow.Connection n c (P i)) zs) = []"
  "members (map (\<lambda>(i, c). GroupedRow.Connection n c (P i)) zs) = map (Pair n) (map snd zs)"
  by (induction zs) auto

lemma group_rows_shown:
  "headers (group_rows X (n, s, cs)) = [(n, s, n \<in> X)]"
  "members (group_rows X (n, s, cs)) = (if n \<in> X then map (Pair n) cs else [])"
  by (simp_all add: group_rows_def rows_of_members)

lemma headers_rows: "headers (concat (map (group_rows X) gs)) = map (\<lambda>(n, s, cs). (n, s, n \<in> X)) gs"
  by (induction gs) (auto simp: headers_append group_rows_shown)

lemma members_rows: "members (concat (map (group_rows X) gs)) =
    concat (map (\<lambda>(n, s, cs). if n \<in> X then map (Pair n) cs else []) gs)"
  by (induction gs) (auto simp: members_append group_rows_shown)

lemma group_stats_counts:
  "connection_count (group_stats R cs) = length (filter (\<lambda>c. \<not> is_historic c) cs)"
  "historic_count (group_stats R cs) = length (filter is_historic cs)"
  "tcp_count (group_stats R cs) = length (filter (\<lambda>c. \<not> is_historic c \<and> protocol c = Tcp) cs)"
  "udp_count (group_stats R cs) = length (filter (\<lambda>c. \<not> is_historic c \<and> protocol c = Udp) cs)"
  by (induction cs rule: rev_induct) (simp_all add: group_stats_def count_conn_def Let_def)

text \<open>A filter of the names keeps the connections of those names, in any order of the names.\<close>

lemma mset_filter_names:
  assumes "distinct ns"
  shows "mset (concat (map (\<lambda>n. filter (\<lambda>c. f c = n) cs) ns)) = mset (filter (\<lambda>c. f c \<in> set ns) cs)"
  using assms
proof (induction ns)
  case (Cons n ns)
  have "mset (filter (\<lambda>c. f c = n \<or> f c \<in> set ns) cs)
      = mset (filter (\<lambda>c. f c = n) cs) + mset (filter (\<lambda>c. f c \<in> set ns) cs)"
    using Cons.prems by (induction cs) auto
  then show ?case using Cons by simp
qed simp

text \<open>The rows are made of the groups in some order of their names, by their lower-case form.\<close>

lemma rows_by_name:
  assumes "\<forall>gs. mset (hash_order gs) = mset gs"
  obtains ns where "distinct ns" and "set ns = group_name ` set conns" and "sorted_wrt (\<le>) (map (lower E) ns)"
    and "compute_grouped_rows R E hash_order conns X = concat (map (group_rows X)
      (map (\<lambda>n. let cs = filter (\<lambda>c. group_name c = n) conns in (n, group_stats R cs, cs)) ns))"
proof -
  define gs where "gs = sort_key (lower E \<circ> fst) (map (\<lambda>(n, cs). (n, group_stats R cs, cs)) (hash_order (grouped conns)))"
  let ?g = "\<lambda>n. let cs = filter (\<lambda>c. group_name c = n) conns in (n, group_stats R cs, cs)"
  have order: "mset (hash_order (grouped conns)) = mset (grouped conns)" using assms by blast
  have "\<forall>g \<in> set gs. g = ?g (fst g)"
    unfolding gs_def using mset_eq_setD [OF order] by (auto simp: grouped_set Let_def)
  then have gs: "gs = map ?g (map fst gs)" by (simp add: map_idI)
  have "mset (map fst gs) = mset (map fst (grouped conns))"
    unfolding gs_def using order by (simp add: multiset.map_comp comp_def case_prod_unfold)
  moreover have "sorted_wrt (\<le>) (map (lower E) (map fst gs))" unfolding gs_def map_map by (rule sorted_sort_key)
  moreover have "compute_grouped_rows R E hash_order conns X = concat (map (group_rows X) gs)"
    by (simp add: compute_grouped_rows_def gs_def)
  ultimately show thesis
    using grouped_names [of conns] gs
    by (intro that [of "map fst gs"]) (metis mset_eq_imp_distinct_iff, metis list.set_map mset_eq_setD, simp, metis)
qed

section \<open>Walking through a list\<close>

text \<open>A list of rows in which selecting the row at an index makes it the selected one.\<close>

locale walk =
  fixes distinct_rows :: bool and rows :: nat and index :: "'s \<Rightarrow> nat option" and select :: "nat \<Rightarrow> 's \<Rightarrow> 's"
    and up down :: "'s \<Rightarrow> 's"
  assumes selected: "distinct_rows \<Longrightarrow> i < rows \<Longrightarrow> index (select i s) = Some i"
    and index_bound: "index s = Some i \<Longrightarrow> i < rows"
    and up: "index s = Some i \<Longrightarrow> up s = select (if i > 0 then i - 1 else rows - 1) s"
    and down: "index s = Some i \<Longrightarrow> down s = select (if i < rows - 1 then i + 1 else 0) s"
begin

lemma step_down: "distinct_rows \<Longrightarrow> index s = Some i \<Longrightarrow> index (down s) = Some ((i + 1) mod rows)"
  using index_bound [of s i] by (auto simp: down selected mod_if)

lemma step_up:
  assumes "distinct_rows" and "index s = Some i"
  shows "index (up s) = Some ((i + (rows - 1)) mod rows)"
proof -
  have "i < rows" using assms(2) by (rule index_bound)
  moreover have "(i + (rows - 1)) mod rows = (if i > 0 then i - 1 else rows - 1)"
  proof (cases "i > 0")
    case True
    then have "i + (rows - 1) = (i - 1) + rows" using \<open>i < rows\<close> by simp
    moreover have "((i - 1) + rows) mod rows = i - 1" using \<open>i < rows\<close> by (subst mod_add_self2) simp
    ultimately show ?thesis using True by (simp only: if_True)
  qed (use \<open>i < rows\<close> in simp)
  ultimately show ?thesis using assms by (auto simp: up selected)
qed

text \<open>After any steps down (\<open>True\<close>) and up, the selected row is that many rows on, in a circle.\<close>

lemma walked:
  assumes "distinct_rows" and "index s = Some i"
  shows "index (fold (\<lambda>d. if d then down else up) ds s)
    = Some (nat ((int i + (\<Sum>d \<leftarrow> ds. if d then 1 else - 1)) mod int rows))"
  using assms(2)
proof (induction ds arbitrary: s i)
  case Nil
  then show ?case using index_bound [of s i] by simp
next
  case (Cons d ds)
  have rows: "rows > 0" using index_bound [OF Cons.prems] by simp
  define j where "j = (if d then (i + 1) mod rows else (i + (rows - 1)) mod rows)"
  have "int (i + (rows - 1)) = (int i - 1) + int rows" using rows by simp
  then have "int j mod int rows = (int i + (if d then 1 else - 1)) mod int rows"
    unfolding j_def by (simp only: if_split zmod_int of_nat_add mod_mod_trivial split: if_split)
      (simp add: zmod_int)
  moreover have "index ((if d then down else up) s) = Some j"
    using step_down [OF assms(1) Cons.prems] step_up [OF assms(1) Cons.prems] by (simp add: j_def)
  from Cons.IH [OF this] have "index (fold (\<lambda>d. if d then down else up) (d # ds) s)
      = Some (nat ((int j + (\<Sum>d \<leftarrow> ds. if d then 1 else - 1)) mod int rows))" by simp
  ultimately show ?case by (metis (no_types, lifting) add.assoc list.simps(9) mod_add_left_eq sum_list.Cons)
qed

end

text \<open>What the selection shows when every connection and every group is there once.\<close>

lemma position_nth:
  assumes "i < length xs" and "P (xs ! i)" and "\<And>j. j < length xs \<Longrightarrow> P (xs ! j) \<Longrightarrow> j = i"
  shows "position P xs = Some i"
proof (cases "position P xs")
  case None
  then show ?thesis using assms(1,2) by (auto simp: position_None)
next
  case (Some j)
  then show ?thesis using position_less [OF Some] assms(3) by simp
qed

fun row_key :: "'f GroupedRow \<Rightarrow> bytes + bytes" where
  "row_key (Group n s e) = Inl n"
| "row_key (GroupedRow.Connection n c l) = Inr (conn_key c)"

lemma unique_position:
  assumes "distinct (map f xs)" and "i < length xs" and "P (xs ! i)" and "\<And>x. P x \<Longrightarrow> f x = f (xs ! i)"
  shows "position P xs = Some i"
proof (rule position_nth [of i xs P, OF assms(2,3)])
  fix j assume "j < length xs" "P (xs ! j)"
  then show "j = i" using assms(4) [of "xs ! j"] assms(1,2) by (simp add: distinct_conv_nth) (metis nth_map)
qed

interpretation flat: walk "distinct (map conn_key conns)" "length conns" "\<lambda>ui. get_selected_index ui conns"
    "set_selected_by_index conns" "move_selection_up conns" "move_selection_down conns" for conns
proof
  fix i ui assume "distinct (map conn_key conns)" "i < length conns"
  then have "position (\<lambda>conn. conn_key conn = conn_key (conns ! i)) conns = Some i"
    by (intro unique_position [where f = conn_key]) simp_all
  with \<open>i < length conns\<close> show "get_selected_index (set_selected_by_index conns i ui) conns = Some i"
    by (simp add: get_selected_index_def set_selected_by_index_def)
next
  fix i ui assume index: "get_selected_index ui conns = Some i"
  then show "i < length conns"
    by (auto simp: get_selected_index_def position_less split: option.splits if_splits)
  then have "conns \<noteq> []" by auto
  with index show "move_selection_up conns ui = set_selected_by_index conns (if i > 0 then i - 1 else length conns - 1) ui"
    and "move_selection_down conns ui = set_selected_by_index conns (if i < length conns - 1 then i + 1 else 0) ui"
    by (simp_all add: move_selection_up_def move_selection_down_def or_first_def Let_def)
qed

lemma row_position:
  assumes "distinct (map row_key rows)" and "i < length rows"
  shows "rows ! i = Group n s e \<Longrightarrow> position (heads_group n) rows = Some i"
    and "rows ! i = GroupedRow.Connection n c l \<Longrightarrow> position (shows_connection (conn_key c)) rows = Some i"
proof -
  have "heads_group n r \<Longrightarrow> row_key r = Inl n" "shows_connection k r \<Longrightarrow> row_key r = Inr k" for r k
    by (cases r; simp)+
  then show "rows ! i = Group n s e \<Longrightarrow> position (heads_group n) rows = Some i"
    and "rows ! i = GroupedRow.Connection n c l \<Longrightarrow> position (shows_connection (conn_key c)) rows = Some i"
    using assms by (auto intro!: unique_position [where f = row_key])
qed

interpretation by_process: walk "distinct (map row_key rows)" "length rows" "\<lambda>ui. get_selected_grouped_index ui rows"
    "set_selected_grouped_by_index rows" "move_selection_up_grouped rows" "move_selection_down_grouped rows" for rows
proof
  fix i ui assume "distinct (map row_key rows)" "i < length rows"
  then show "get_selected_grouped_index (set_selected_grouped_by_index rows i ui) rows = Some i"
    using row_position [of rows i]
    by (cases "rows ! i") (auto simp: get_selected_grouped_index_def set_selected_grouped_by_index_def select_row_def)
next
  fix i ui assume index: "get_selected_grouped_index ui rows = Some i"
  then have "rows \<noteq> []" by (auto simp: get_selected_grouped_index_def)
  with index show "i < length rows"
    by (auto simp: get_selected_grouped_index_def position_less split: option.splits bind_splits)
  from index \<open>rows \<noteq> []\<close>
  show "move_selection_up_grouped rows ui = set_selected_grouped_by_index rows (if i > 0 then i - 1 else length rows - 1) ui"
    and "move_selection_down_grouped rows ui = set_selected_grouped_by_index rows (if i < length rows - 1 then i + 1 else 0) ui"
    by (simp_all add: move_selection_up_grouped_def move_selection_down_grouped_def or_first_def Let_def)
qed

lemma distinct_row_keys:
  "distinct (map fst (headers rows)) \<Longrightarrow> distinct (map (conn_key \<circ> snd) (members rows)) \<Longrightarrow> distinct (map row_key rows)"
proof -
  have "Inl n \<in> set (map row_key rows) \<longleftrightarrow> n \<in> set (map fst (headers rows))"
    "Inr k \<in> set (map row_key rows) \<longleftrightarrow> k \<in> set (map (conn_key \<circ> snd) (members rows))" for n k and rows :: "'a GroupedRow list"
    by (induction rows rule: headers.induct; auto)+
  then show "distinct (map fst (headers rows)) \<Longrightarrow> distinct (map (conn_key \<circ> snd) (members rows)) \<Longrightarrow> distinct (map row_key rows)"
    by (induction rows rule: headers.induct) (simp_all del: set_map)
qed

lemma rows_shown:
  assumes "\<forall>gs. mset (hash_order gs) = mset gs" and rows: "rows = compute_grouped_rows R E hash_order conns X"
  shows "mset (map snd (members rows)) = mset (filter (\<lambda>c. group_name c \<in> X) conns)"
    and "\<forall>(n, c) \<in> set (members rows). group_name c = n"
    and "distinct (map fst (headers rows))" and "fst ` set (headers rows) = group_name ` set conns"
    and "sorted_wrt (\<le>) (map (lower E \<circ> fst) (headers rows))"
    and "\<forall>(n, s, e) \<in> set (headers rows). s = group_stats R (filter (\<lambda>c. group_name c = n) conns) \<and> e = (n \<in> X)"
proof -
  obtain ns where ns: "distinct ns" "set ns = group_name ` set conns" "sorted_wrt (\<le>) (map (lower E) ns)"
    and made: "rows = concat (map (group_rows X)
      (map (\<lambda>n. let cs = filter (\<lambda>c. group_name c = n) conns in (n, group_stats R cs, cs)) ns))"
    unfolding rows by (rule rows_by_name [OF assms(1), where conns = conns and E = E and R = R and X = X])
  let ?cs = "\<lambda>n. filter (\<lambda>c. group_name c = n) conns"
  have heads: "headers rows = map (\<lambda>n. (n, group_stats R (?cs n), n \<in> X)) ns"
    unfolding made headers_rows by (simp add: Let_def)
  have mem: "members rows = concat (map (\<lambda>n. if n \<in> X then map (Pair n) (?cs n) else []) ns)"
    unfolding made members_rows by (simp add: Let_def comp_def)
  have "map snd (members rows) = concat (map ?cs (filter (\<lambda>n. n \<in> X) ns))"
    unfolding mem by (induction ns) (simp_all add: comp_def)
  moreover have "mset (concat (map ?cs (filter (\<lambda>n. n \<in> X) ns)))
      = mset (filter (\<lambda>c. group_name c \<in> set (filter (\<lambda>n. n \<in> X) ns)) conns)"
    by (rule mset_filter_names) (use ns(1) in simp)
  moreover have "filter (\<lambda>c. group_name c \<in> set (filter (\<lambda>n. n \<in> X) ns)) conns = filter (\<lambda>c. group_name c \<in> X) conns"
    using ns(2) by (auto intro: filter_cong)
  ultimately show "mset (map snd (members rows)) = mset (filter (\<lambda>c. group_name c \<in> X) conns)" by (simp only:)
  show "\<forall>(n, c) \<in> set (members rows). group_name c = n" unfolding mem by auto
  show "distinct (map fst (headers rows))" "fst ` set (headers rows) = group_name ` set conns"
    "sorted_wrt (\<le>) (map (lower E \<circ> fst) (headers rows))"
    "\<forall>(n, s, e) \<in> set (headers rows). s = group_stats R (?cs n) \<and> e = (n \<in> X)"
    unfolding heads using ns by (auto simp: comp_def image_image)
qed

text \<open>C26 (functional). In the view grouped by process every process of a listed connection has one
  header, in the order of the lower-case names, whose counts are those of its connections; below
  the headers that are expanded, and only there, each of their connections is shown exactly once
  under its own process.\<close>

theorem grouped_rows_complete:
  assumes "\<forall>gs. mset (hash_order gs) = mset gs"
    and "rows = compute_grouped_rows R E hash_order conns X"
  shows "mset (map snd (members rows)) = mset (filter (\<lambda>c. group_name c \<in> X) conns)
    \<and> (\<forall>(n, c) \<in> set (members rows). group_name c = n)
    \<and> distinct (map fst (headers rows)) \<and> fst ` set (headers rows) = group_name ` set conns
    \<and> sorted_wrt (\<le>) (map (lower E \<circ> fst) (headers rows))
    \<and> (\<forall>(n, s, e) \<in> set (headers rows). e = (n \<in> X)
        \<and> connection_count s = length (filter (\<lambda>c. group_name c = n \<and> \<not> is_historic c) conns)
        \<and> historic_count s = length (filter (\<lambda>c. group_name c = n \<and> is_historic c) conns)
        \<and> tcp_count s = length (filter (\<lambda>c. group_name c = n \<and> \<not> is_historic c \<and> protocol c = Tcp) conns)
        \<and> udp_count s = length (filter (\<lambda>c. group_name c = n \<and> \<not> is_historic c \<and> protocol c = Udp) conns))"
  using rows_shown [OF assms]
  by (fastforce simp: group_stats_counts conj_commute)

definition process_conn :: "Protocol \<Rightarrow> nat \<Rightarrow> bytes option \<Rightarrow> Connection" where
  "process_conn p n name = (Connection_new \<lparr>wall = 0, mono = 0\<rparr> p \<lparr>ip = V4 (Ipv4Addr 10 0 0 1), port = of_nat n\<rparr>
     \<lparr>ip = V4 (Ipv4Addr 10 0 0 2), port = 443\<rparr> PS_Udp)\<lparr>process_name := name\<rparr>"

definition count_rates :: "nat Rates" where
  "count_rates = \<lparr>no_rate = 0, add_rate = (+), incoming_rate = (\<lambda>c. 0), outgoing_rate = (\<lambda>c. 0)\<rparr>"

definition sample_conns :: "Connection list" where
  "sample_conns = [process_conn Tcp 1 (Some (ascii ''zsh'')), process_conn Udp 2 None, process_conn Tcp 3 (Some (ascii ''zsh''))]"

theorem grouped_rows_complete_witness:
  "let rows = compute_grouped_rows count_rates plain_env rev sample_conns {ascii ''zsh''} in
     mset (map snd (members rows)) = mset [sample_conns ! 0, sample_conns ! 2]
     \<and> fst ` set (headers rows) = {ascii ''zsh'', ascii ''<unknown>''} \<and> distinct (map fst (headers rows))"
proof -
  have names: "group_name (process_conn p n name) = (case name of None \<Rightarrow> ascii ''<unknown>'' | Some x \<Rightarrow> x)" for p n name
    by (simp add: group_name_def process_conn_def)
  let ?rows = "compute_grouped_rows count_rates plain_env rev sample_conns {ascii ''zsh''}"
  have "ascii ''<unknown>'' \<noteq> ascii ''zsh''" by (simp add: ascii_def)
  moreover have "\<forall>gs. mset (rev gs) = mset gs" by simp
  from grouped_rows_complete [OF this refl, of count_rates plain_env sample_conns "{ascii ''zsh''}"]
  have "mset (map snd (members ?rows)) = mset (filter (\<lambda>c. group_name c \<in> {ascii ''zsh''}) sample_conns)"
    and "distinct (map fst (headers ?rows))" and "fst ` set (headers ?rows) = group_name ` set sample_conns"
    by blast+
  ultimately show ?thesis by (simp only: Let_def) (simp add: sample_conns_def names insert_commute)
qed

text \<open>C27 (functional). If no two connections have the same key, any presses of up and down move the
  selection through the flat list and through the rows grouped by process as in a circle: by as
  many rows as there are more presses of down than of up.\<close>

theorem selection_walks:
  assumes "distinct (map conn_key conns)" and "\<forall>gs. mset (hash_order gs) = mset gs"
    and "get_selected_index ui conns = Some i"
    and "get_selected_grouped_index ui' (compute_grouped_rows R E hash_order conns X) = Some j"
  shows "get_selected_index (fold (\<lambda>d. if d then move_selection_down conns else move_selection_up conns) ds ui) conns
      = Some (nat ((int i + (\<Sum>d \<leftarrow> ds. if d then 1 else - 1)) mod int (length conns))) \<and>
    (let rows = compute_grouped_rows R E hash_order conns X in
      get_selected_grouped_index
        (fold (\<lambda>d. if d then move_selection_down_grouped rows else move_selection_up_grouped rows) ds ui') rows
      = Some (nat ((int j + (\<Sum>d \<leftarrow> ds. if d then 1 else - 1)) mod int (length rows))))"
proof -
  let ?rows = "compute_grouped_rows R E hash_order conns X"
  have "mset (map (conn_key \<circ> snd) (members ?rows)) = image_mset conn_key (mset (map snd (members ?rows)))"
    by (simp add: multiset.map_comp)
  also have "\<dots> = mset (map conn_key (filter (\<lambda>c. group_name c \<in> X) conns))"
    by (simp add: rows_shown(1) [OF assms(2) refl, simplified])
  finally have "distinct (map (conn_key \<circ> snd) (members ?rows))"
    using assms(1) by (metis distinct_map_filter mset_eq_imp_distinct_iff)
  then have "distinct (map row_key ?rows)" using rows_shown(3) [OF assms(2) refl] by (rule distinct_row_keys [rotated])
  from by_process.walked [OF this assms(4)] flat.walked [OF assms(1,3)] show ?thesis by (simp add: Let_def)
qed

lemma conn_key_inject:
  "conn_key c = conn_key d \<longleftrightarrow> protocol c = protocol d \<and> local_addr c = local_addr d \<and> remote_addr c = remote_addr d
     \<and> is_historic c = is_historic d \<and> (is_historic c \<longrightarrow> since (created_at c) 0 = since (created_at d) 0)"
proof
  let ?tail = "\<lambda>c :: Connection. if is_historic c then ascii '':h:'' @ decimal (since (created_at c) 0) else []"
  let ?side = "\<lambda>(c :: Connection) f. debug_protocol (protocol c) @ colon # show_socket (f c)"
  have no: "hyphen \<notin> set (?side c f)" for c :: Connection and f
    using show_socket_no_hyphen [of "f c"] by (cases "protocol c") (simp_all add: debug_protocol_def ascii_def hyphen_def colon_def)
  have no_h: "104 \<notin> set (show_socket a)" for a
    by (auto simp: show_socket_def is_digit_def dot_def colon_def split: ip_addr.splits
        dest!: show_ipv4_chars show_ipv6_chars decimal_digits)
  have no_h_end: "104 \<notin> set (?side c remote_addr @ [colon])" for c :: Connection
    using no_h by (cases "protocol c") (simp_all add: debug_protocol_def ascii_def colon_def)
  have key: "conn_key c = ?side c local_addr @ hyphen # ?side c remote_addr @ ?tail c" for c
    by (simp add: conn_key_def Let_def)
  have end_inject: "?side c f = ?side d f \<longleftrightarrow> protocol c = protocol d \<and> f c = f d" for c d :: Connection and f
    by (cases "protocol c"; cases "protocol d") (auto simp: debug_protocol_def ascii_def show_socket_inject)
  assume "conn_key c = conn_key d"
  from this [unfolded key] have "?side c local_addr = ?side d local_addr \<and> ?side c remote_addr @ ?tail c = ?side d remote_addr @ ?tail d"
    using no [of c local_addr] no [of d local_addr] by (rule cut_first)
  then have l: "?side c local_addr = ?side d local_addr" and r: "?side c remote_addr @ ?tail c = ?side d remote_addr @ ?tail d"
    by simp_all
  have tail: "?tail c = (if is_historic c then colon # 104 # colon # decimal (since (created_at c) 0) else [])" for c
    by (simp add: ascii_def colon_def)
  have hist: "ascii '':h:'' = [colon, 104, colon]" by (simp add: ascii_def colon_def)
  have "104 \<in> set (?side c remote_addr @ ?tail c) \<longleftrightarrow> is_historic c" for c
    using no_h_end [of c] by (auto simp: tail)
  with r have h: "is_historic c = is_historic d" by metis
  have "?side c remote_addr = ?side d remote_addr
      \<and> (is_historic c \<longrightarrow> since (created_at c) 0 = since (created_at d) 0)"
  proof (cases "is_historic c")
    case True
    then have "(?side c remote_addr @ [colon]) @ 104 # colon # decimal (since (created_at c) 0)
        = (?side d remote_addr @ [colon]) @ 104 # colon # decimal (since (created_at d) 0)"
      using r h by (simp add: hist)
    then have "?side c remote_addr @ [colon] = ?side d remote_addr @ [colon] \<and>
        colon # decimal (since (created_at c) 0) = colon # decimal (since (created_at d) 0)"
      using no_h_end [of c] no_h_end [of d] by (rule cut_first)
    then show ?thesis by (simp add: radix_inject)
  qed (use r h in simp)
  with l h end_inject [of c local_addr d] end_inject [of c remote_addr d]
  show "protocol c = protocol d \<and> local_addr c = local_addr d \<and> remote_addr c = remote_addr d
     \<and> is_historic c = is_historic d \<and> (is_historic c \<longrightarrow> since (created_at c) 0 = since (created_at d) 0)"
    by blast
qed (simp add: conn_key_def Let_def)

theorem selection_walks_witness:
  "let rows = compute_grouped_rows count_rates plain_env rev sample_conns {ascii ''zsh''} in
     get_selected_index (move_selection_up sample_conns UIState_default) sample_conns = Some 2 \<and>
     get_selected_grouped_index (move_selection_up_grouped rows UIState_default) rows = Some (length rows - 1)"
proof -
  let ?rows = "compute_grouped_rows count_rates plain_env rev sample_conns {ascii ''zsh''}"
  have keys: "distinct (map conn_key sample_conns)"
    by (simp add: sample_conns_def process_conn_def Connection_new_def conn_key_inject)
  have first: "get_selected_index UIState_default sample_conns = Some 0"
    by (simp add: get_selected_index_def UIState_default_def sample_conns_def)
  have "fst ` set (headers ?rows) = group_name ` set sample_conns" by (rule rows_shown(4) [OF _ refl]) simp
  then have "?rows \<noteq> []" by (auto simp: sample_conns_def)
  then have row: "get_selected_grouped_index UIState_default ?rows = Some 0"
    by (simp add: get_selected_grouped_index_def UIState_default_def)
  have "int (length ?rows) > 0" using \<open>?rows \<noteq> []\<close> by simp
  then have "- 1 mod int (length ?rows) = int (length ?rows) - 1" by (simp add: zmod_minus1)
  then show ?thesis using selection_walks [OF keys _ first row, of "[False]"] by (simp add: Let_def sample_conns_def)
qed

section \<open>Scrolling and the order of groups\<close>

text \<open>The selected row is in view, no row is left empty below the last one without need, and a
  selection that is in view already does not move the list.\<close>

lemma scroll_keeps_selection_visible:
  assumes "i < n" and "0 < rows"
    and "offset = compute_scroll_offset i current rows n"
  shows "offset \<le> i" and "i < offset + rows" and "offset \<le> n - rows"
    and "current \<le> i \<Longrightarrow> i < current + rows \<Longrightarrow> current \<le> n - rows \<Longrightarrow> offset = current"
proof -
  define m where "m = min current (n - rows)"
  have m: "m \<le> n - rows" "current \<le> n - rows \<Longrightarrow> m = current" by (simp_all add: m_def)
  have offset: "offset = (if i < m then i else if i \<ge> m + rows then i - rows + 1 else m)"
    using assms(1,2) m(1) unfolding assms(3) compute_scroll_offset_def Let_def m_def [symmetric] by auto
  show "offset \<le> i" "i < offset + rows" "offset \<le> n - rows"
    "current \<le> i \<Longrightarrow> i < current + rows \<Longrightarrow> current \<le> n - rows \<Longrightarrow> offset = current"
    using assms(1,2) m by (auto simp: offset)
qed

text \<open>Names that differ only in case come in the order of the hash map, which differs from one
  refresh to the next.\<close>

lemma case_twins_in_hash_order:
  assumes "lower E n = lower E m" and "n \<noteq> m"
    and "conns = [process_conn Tcp 1 (Some n), process_conn Tcp 2 (Some m)]"
  shows "map fst (headers (compute_grouped_rows R E id conns X)) = [n, m]"
    and "map fst (headers (compute_grouped_rows R E rev conns X)) = [m, n]"
  using assms
  by (simp_all add: compute_grouped_rows_def headers_rows grouped_def group_name_def process_conn_def
      headers_append group_rows_shown)

end
