(* ===== verification/UiDraw.thy ===== *)
theory UiDraw
  imports UiState
begin

text \<open>
  What the tabs draw of the data of other programs (\<^verbatim>\<open>src/ui/tabs/overview.rs\<close>, \<^verbatim>\<open>details.rs\<close>,
  \<^verbatim>\<open>graph.rs\<close>), as far as it can panic: the window of rows, the selected connection, and the texts
  that are cut to the width of a column. A name is cut at a number of bytes, and slicing a \<open>String\<close> inside
  a character panics. The other cells are texts shown as they are.
\<close>

section \<open>Slices\<close>

text \<open>\<open>&s[..n]\<close> of a string and \<open>&xs[a..b]\<close> of a slice of rows.\<close>

definition str_prefix :: "nat \<Rightarrow> bytes \<Rightarrow> bytes option" where
  "str_prefix n s = (if is_char_boundary s n then Some (take n s) else None)"

definition rows_between :: "nat \<Rightarrow> nat \<Rightarrow> 'a list \<Rightarrow> 'a list option" where
  "rows_between a b xs = (if a \<le> b \<and> b \<le> length xs then Some (take (b - a) (drop a xs)) else None)"

definition visible_window :: "nat \<Rightarrow> UIState \<Rightarrow> 'a list \<Rightarrow> 'a list option" where
  "visible_window offset ui xs =
     (let window_end = min (offset + max (visible_rows ui) 1 + 1) (length xs)
      in rows_between (min offset (length xs)) window_end xs)"

section \<open>The tables of the overview\<close>

definition NONE_PLACEHOLDER :: bytes where "NONE_PLACEHOLDER = ascii ''-''"

definition process_display :: "Connection \<Rightarrow> bytes option" where
  "process_display conn =
     (let process_str = (case process_name conn of None \<Rightarrow> NONE_PLACEHOLDER | Some n \<Rightarrow> n) in
      case pid conn of
        Some p \<Rightarrow>
          (let full_display = process_str @ ascii '' ('' @ decimal (unat p) @ ascii '')'' in
           if length full_display > 25 then map_option (\<lambda>s. s @ ascii ''...'') (str_prefix 22 full_display)
           else Some full_display)
      | None \<Rightarrow>
          (if length process_str > 25 then map_option (\<lambda>s. s @ ascii ''...'') (str_prefix 22 process_str)
           else Some process_str))"

text \<open>The remote address, or the host name that the resolver has for it: both tables cut the name to the
  width of the column less seven, to leave room for the dots.\<close>

type_synonym resolver = "(ip_addr \<Rightarrow> bytes option) option"

definition host_of :: "UIState \<Rightarrow> resolver \<Rightarrow> Connection \<Rightarrow> bytes option" where
  "host_of ui dns conn =
     (if show_hostnames ui \<and> protocol conn \<noteq> Arp
      then Option.bind dns (\<lambda>get_hostname. get_hostname (ip (remote_addr conn))) else None)"

definition remote_display :: "nat \<Rightarrow> bytes \<Rightarrow> UIState \<Rightarrow> resolver \<Rightarrow> Connection \<Rightarrow> bytes option" where
  "remote_display width ellipsis ui dns conn =
     (case host_of ui dns conn of
        None \<Rightarrow> Some (show_socket (remote_addr conn))
      | Some hostname \<Rightarrow>
          (let p = colon # decimal (unat (port (remote_addr conn))); max_len = width - 7 in
           if length hostname > max_len
           then map_option (\<lambda>s. s @ ellipsis @ p) (str_prefix (max_len - length ellipsis) hostname)
           else Some (hostname @ p)))"

definition flat_remote_width :: "UIState \<Rightarrow> resolver \<Rightarrow> nat" where
  "flat_remote_width ui dns = (if dns \<noteq> None \<and> show_hostnames ui then 30 else 21)"

definition grouped_remote_width :: "UIState \<Rightarrow> resolver \<Rightarrow> nat" where
  "grouped_remote_width ui dns = (if dns \<noteq> None \<and> show_hostnames ui then 26 else 18)"

text \<open>The cells for the process and the remote end of the visible connections.\<close>

definition draw_connections_list :: "UIState \<Rightarrow> resolver \<Rightarrow> Connection list \<Rightarrow> (bytes \<times> bytes) list option" where
  "draw_connections_list ui dns conns =
     do { visible \<leftarrow> visible_window (scroll_offset ui) ui conns;
          those (map (\<lambda>conn. do {
              process \<leftarrow> process_display conn;
              remote \<leftarrow> remote_display (flat_remote_width ui dns) (ascii ''...'') ui dns conn;
              Some (process, remote) }) visible) }"

text \<open>The cell for the remote end of the visible rows; it is empty in the header of a group.\<close>

definition draw_grouped_connections_list :: "UIState \<Rightarrow> resolver \<Rightarrow> 'f GroupedRow list \<Rightarrow> bytes list option" where
  "draw_grouped_connections_list ui dns rows =
     do { visible \<leftarrow> visible_window (grouped_scroll_offset ui) ui rows;
          those (map (\<lambda>row. case row of
              Group name stats expanded \<Rightarrow> Some []
            | GroupedRow.Connection name conn is_last \<Rightarrow>
                remote_display (grouped_remote_width ui dns) (ascii ''..'') ui dns conn) visible) }"

section \<open>The details and the graphs\<close>

text \<open>The connection whose details are shown, if there is one.\<close>

definition draw_connection_details :: "UIState \<Rightarrow> Connection list \<Rightarrow> Connection option option" where
  "draw_connection_details ui conns =
     (if conns = [] then Some None
      else let conn_idx = or_first (get_selected_index ui conns) in
        if conn_idx < length conns then Some (Some (conns ! conn_idx)) else None)"

text \<open>The traffic of each process, in the order in which the names first occur.\<close>

fun add_traffic :: "'f Rates \<Rightarrow> bytes \<Rightarrow> 'f \<Rightarrow> (bytes \<times> 'f) list \<Rightarrow> (bytes \<times> 'f) list" where
  "add_traffic R name traffic [] = [(name, add_rate R (no_rate R) traffic)]"
| "add_traffic R name traffic ((n, rate) # ts) =
     (if n = name then (n, add_rate R rate traffic) # ts else (n, rate) # add_traffic R name traffic ts)"

definition process_traffic :: "'f Rates \<Rightarrow> Connection list \<Rightarrow> (bytes \<times> 'f) list" where
  "process_traffic R conns =
     fold (\<lambda>conn. add_traffic R (case process_name conn of None \<Rightarrow> ascii ''Unknown'' | Some n \<Rightarrow> n)
         (add_rate R (incoming_rate R conn) (outgoing_rate R conn))) conns []"

text \<open>The hash map gives its entries in some order of their names.\<close>

definition in_hash_order :: "(bytes list \<Rightarrow> bytes list) \<Rightarrow> (bytes \<times> 'f) list \<Rightarrow> (bytes \<times> 'f) list" where
  "in_hash_order name_order traffic = map (\<lambda>n. (n, the (map_of traffic n))) (name_order (map fst traffic))"

definition top_processes ::
    "'f Rates \<Rightarrow> ('f \<Rightarrow> bool) \<Rightarrow> 'f comparator \<Rightarrow> (bytes list \<Rightarrow> bytes list) \<Rightarrow> Connection list \<Rightarrow> (bytes \<times> 'f) list" where
  "top_processes R positive rate_order name_order conns =
     take 5 (Sorting_Algorithms.sort (key snd (reversed rate_order))
       (filter (\<lambda>(name, rate). positive rate)
         (in_hash_order name_order (process_traffic R (filter (\<lambda>c. \<not> is_historic c) conns)))))"

definition display_name :: "bytes \<Rightarrow> bytes option" where
  "display_name name =
     (if length name > 20 then map_option (\<lambda>s. s @ ascii ''...'') (str_prefix 17 name) else Some name)"

definition draw_top_processes ::
    "'f Rates \<Rightarrow> ('f \<Rightarrow> bool) \<Rightarrow> 'f comparator \<Rightarrow> (bytes list \<Rightarrow> bytes list) \<Rightarrow> Connection list \<Rightarrow> bytes list option" where
  "draw_top_processes R positive rate_order name_order conns =
     those (map (\<lambda>(name, rate). display_name name) (top_processes R positive rate_order name_order conns))"

section \<open>Names that can be cut\<close>

text \<open>Neither table nor graph cuts such a name inside a character.\<close>

definition name_fits :: "bytes \<Rightarrow> bool" where
  "name_fits n \<longleftrightarrow> (20 < length n \<longrightarrow> is_char_boundary n 17) \<and> (22 < length n \<longrightarrow> is_char_boundary n 22)"

definition host_fits :: "bytes \<Rightarrow> bool" where
  "host_fits n \<longleftrightarrow> (19 < length n \<longrightarrow> is_char_boundary n 17) \<and> (23 < length n \<longrightarrow> is_char_boundary n 20)"

definition process_fits :: "Connection \<Rightarrow> bool" where
  "process_fits c \<longleftrightarrow> (case process_name c of None \<Rightarrow> True | Some n \<Rightarrow> name_fits n)"

definition resolver_fits :: "resolver \<Rightarrow> bool" where
  "resolver_fits dns \<longleftrightarrow> (case dns of None \<Rightarrow> True | Some f \<Rightarrow> \<forall>a h. f a = Some h \<longrightarrow> host_fits h)"

text \<open>Every position of an ASCII text is a boundary.\<close>

lemma ascii_boundary: "list_all (\<lambda>b. b < 128) s \<Longrightarrow> i \<le> length s \<Longrightarrow> is_char_boundary s i"
  by (auto simp: is_char_boundary_def is_cont_def list_all_length not_le le_less)

lemma ascii_fits: "list_all (\<lambda>b. b < 128) n \<Longrightarrow> name_fits n \<and> host_fits n"
  by (simp add: name_fits_def host_fits_def ascii_boundary)

lemma short_fits: "length n \<le> 19 \<Longrightarrow> name_fits n \<and> host_fits n"
  by (simp add: name_fits_def host_fits_def)

lemma those_Some: "(\<And>x. x \<in> set xs \<Longrightarrow> f x \<noteq> None) \<Longrightarrow> those (map f xs) \<noteq> None"
proof (induction xs)
  case (Cons x xs)
  then obtain y where "f x = Some y" by fastforce
  then show ?case using Cons by simp
qed simp

lemma those_None: "x \<in> set xs \<Longrightarrow> f x = None \<Longrightarrow> those (map f xs) = None"
  by (induction xs) (auto split: option.split)

lemma window_rows: "\<exists>vs. visible_window offset ui xs = Some vs \<and> set vs \<subseteq> set xs"
  by (auto simp: visible_window_def rows_between_def Let_def dest: in_set_takeD in_set_dropD)

lemma window_all: "length xs \<le> visible_rows ui \<Longrightarrow> visible_window 0 ui xs = Some xs"
  by (simp add: visible_window_def rows_between_def Let_def)

lemma boundary_append:
  "is_char_boundary (s @ t) i \<longleftrightarrow> (if i < length s then is_char_boundary s i else is_char_boundary t (i - length s))"
  by (auto simp: is_char_boundary_def nth_append)

lemma digits_ascii: "list_all (\<lambda>b. b < 128) (ascii '' ('' @ decimal n @ ascii '')'')"
proof -
  have "b < 128" if "b \<in> set (decimal n)" for b
    using decimal_digits [OF that] by (auto simp: is_digit_def word_le_nat_alt word_less_nat_alt)
  then show ?thesis by (simp add: ascii_def list_all_iff)
qed

lemma process_display_fits: "process_fits c \<Longrightarrow> process_display c \<noteq> None"
proof -
  have cut: "is_char_boundary (n @ ascii '' ('' @ decimal p @ ascii '')'') 22"
    if "22 < length n \<longrightarrow> is_char_boundary n 22" "25 < length (n @ ascii '' ('' @ decimal p @ ascii '')'')" for n p
  proof (cases "22 < length n")
    case False
    then show ?thesis using that(2) ascii_boundary [OF digits_ascii [of p], of "22 - length n"]
      by (subst boundary_append) auto
  qed (use that(1) in \<open>simp add: boundary_append\<close>)
  obtain n where n: "(case process_name c of None \<Rightarrow> NONE_PLACEHOLDER | Some n \<Rightarrow> n) = n" by blast
  assume "process_fits c"
  then have "22 < length n \<longrightarrow> is_char_boundary n 22"
    using n by (auto simp: process_fits_def name_fits_def NONE_PLACEHOLDER_def ascii_def split: option.splits)
  then show "process_display c \<noteq> None"
    using cut [of n] by (cases "pid c") (auto simp: process_display_def n str_prefix_def Let_def)
qed

lemma remote_display_fits:
  assumes "resolver_fits dns"
  shows "\<exists>r. remote_display (flat_remote_width ui dns) (ascii ''...'') ui dns c = Some r"
    and "\<exists>r. remote_display (grouped_remote_width ui dns) (ascii ''..'') ui dns c = Some r"
proof -
  show "\<exists>r. remote_display (flat_remote_width ui dns) (ascii ''...'') ui dns c = Some r"
    "\<exists>r. remote_display (grouped_remote_width ui dns) (ascii ''..'') ui dns c = Some r"
  proof (atomize (full), cases "host_of ui dns c")
    case (Some h)
    then have "host_fits h" "dns \<noteq> None" "show_hostnames ui"
      using assms by (auto simp: host_of_def resolver_fits_def split: if_splits bind_splits)
    then show "(\<exists>r. remote_display (flat_remote_width ui dns) (ascii ''...'') ui dns c = Some r) \<and>
        (\<exists>r. remote_display (grouped_remote_width ui dns) (ascii ''..'') ui dns c = Some r)"
      by (simp add: remote_display_def Some flat_remote_width_def grouped_remote_width_def host_fits_def str_prefix_def
          ascii_def Let_def)
  qed (simp add: remote_display_def)
qed

lemma flat_drawn:
  assumes "resolver_fits dns" and "\<forall>c \<in> set conns. process_fits c"
  shows "draw_connections_list ui dns conns \<noteq> None"
proof -
  obtain vs where vs: "visible_window (scroll_offset ui) ui conns = Some vs" "set vs \<subseteq> set conns"
    using window_rows [of "scroll_offset ui" ui conns] by (elim exE conjE)
  show ?thesis unfolding draw_connections_list_def vs(1) Option.bind.simps
  proof (rule those_Some)
    fix c assume "c \<in> set vs"
    then obtain p where p: "process_display c = Some p" using process_display_fits assms(2) vs(2) by blast
    obtain r where "remote_display (flat_remote_width ui dns) (ascii ''...'') ui dns c = Some r"
      using remote_display_fits(1) [OF assms(1)] by blast
    with p show "(do { process \<leftarrow> process_display c;
        remote \<leftarrow> remote_display (flat_remote_width ui dns) (ascii ''...'') ui dns c; Some (process, remote) }) \<noteq> None" by simp
  qed
qed

lemma grouped_drawn:
  assumes "resolver_fits dns"
  shows "draw_grouped_connections_list ui dns rows \<noteq> None"
proof -
  obtain vs where vs: "visible_window (grouped_scroll_offset ui) ui rows = Some vs"
    using window_rows [of "grouped_scroll_offset ui" ui rows] by (elim exE conjE)
  show ?thesis unfolding draw_grouped_connections_list_def vs Option.bind.simps
  proof (rule those_Some)
    fix row :: "'a GroupedRow"
    show "(case row of Group name stats expanded \<Rightarrow> Some []
        | GroupedRow.Connection name conn is_last \<Rightarrow>
            remote_display (grouped_remote_width ui dns) (ascii ''..'') ui dns conn) \<noteq> None"
    proof (cases row)
      case (Connection name conn is_last)
      then show ?thesis using remote_display_fits(2) [OF assms, of ui conn] by auto
    qed simp
  qed
qed

lemma details_drawn: "draw_connection_details ui conns \<noteq> None"
  by (auto simp: draw_connection_details_def or_first_def get_selected_index_def Let_def split: option.splits
      dest: position_less)

lemma traffic_names: "fst ` set (process_traffic R conns) = (\<lambda>c. case process_name c of None \<Rightarrow> ascii ''Unknown'' | Some n \<Rightarrow> n) ` set conns"
proof -
  let ?n = "\<lambda>c. case process_name c of None \<Rightarrow> ascii ''Unknown'' | Some n \<Rightarrow> n"
  have add: "fst ` set (add_traffic R n t ts) = insert n (fst ` set ts)" for n t ts
    by (induction ts rule: add_traffic.induct [of _ R n t]) auto
  have "fst ` set (fold (\<lambda>c. add_traffic R (?n c) (add_rate R (incoming_rate R c) (outgoing_rate R c))) conns ts)
      = ?n ` set conns \<union> fst ` set ts" for ts
    by (induction conns arbitrary: ts) (auto simp: add)
  then show ?thesis by (simp add: process_traffic_def)
qed

lemma top_drawn:
  assumes "\<And>ns. set (name_order ns) \<subseteq> set ns" and "\<forall>c \<in> set conns. process_fits c"
  shows "draw_top_processes R positive rate_order name_order conns \<noteq> None"
proof -
  have "name_fits n" if top: "(n, r) \<in> set (top_processes R positive rate_order name_order conns)" for n r
  proof -
    have "n \<in> fst ` set (process_traffic R (filter (\<lambda>c. \<not> is_historic c) conns))"
      using top assms(1) unfolding top_processes_def in_hash_order_def by (fastforce dest!: in_set_takeD)
    then obtain c where "c \<in> set conns" "n = (case process_name c of None \<Rightarrow> ascii ''Unknown'' | Some n \<Rightarrow> n)"
      unfolding traffic_names by auto
    then show ?thesis using assms(2) short_fits [of "ascii ''Unknown''"]
      by (auto simp: process_fits_def ascii_def split: option.splits)
  qed
  then have "display_name n \<noteq> None" if "(n, r) \<in> set (top_processes R positive rate_order name_order conns)" for n r
    using that by (force simp: display_name_def str_prefix_def name_fits_def)
  then show ?thesis unfolding draw_top_processes_def by (intro those_Some) auto
qed

section \<open>Names that are not UTF-8\<close>

text \<open>Bytes that begin no character, and that no character can contain where one could begin, are each
  replaced by three.\<close>

definition undecodable :: "u8 \<Rightarrow> bool" where
  "undecodable b \<longleftrightarrow> 128 \<le> b \<and> b < 194 \<or> 244 < b"

lemma lossy_undecodable: "list_all undecodable bs \<Longrightarrow> from_utf8_lossy bs = concat (replicate (length bs) replacement)"
proof (induction bs)
  case (Cons b bs)
  then have "128 \<le> unat b \<and> unat b < 194 \<or> 244 < unat b"
    by (simp add: undecodable_def word_le_nat_alt word_less_nat_alt)
  then have "\<not> b < 128" "\<not> (194 \<le> b \<and> b \<le> 223)" "\<not> (224 \<le> b \<and> b \<le> 239)" "\<not> (240 \<le> b \<and> b \<le> 244)"
    by (simp_all add: word_le_nat_alt word_less_nat_alt, arith+)
  then have "utf8_head (b # bs) = (False, 1)"
    by (simp only: utf8_head_def byte_or_0_def Let_def list.size zero_less_Suc add_Suc_right if_True nth_Cons_0 if_False)
  then have "from_utf8_lossy (b # bs) = replacement @ from_utf8_lossy bs"
    using from_utf8_lossy.simps [of "b # bs"] by (simp only: fst_conv snd_conv list.distinct if_False) simp
  then show ?case using Cons by simp
qed simp

lemma lossy_cut:
  assumes "list_all undecodable bs" and "8 \<le> length bs"
  shows "22 < length (from_utf8_lossy bs)" and "\<not> is_char_boundary (from_utf8_lossy bs) 22"
proof -
  obtain n where n: "length bs = 8 + n" using assms(2) le_Suc_ex by blast
  have lossy: "from_utf8_lossy bs = concat (replicate 8 replacement) @ concat (replicate n replacement)"
    by (simp add: lossy_undecodable [OF assms(1)] n replicate_add)
  have eight: "length (concat (replicate 8 replacement)) = 24" "concat (replicate 8 replacement) ! 22 = 191"
    by (simp_all add: replicate_numeral replacement_def)
  show "22 < length (from_utf8_lossy bs)" by (simp add: lossy eight)
  show "\<not> is_char_boundary (from_utf8_lossy bs) 22"
    unfolding lossy boundary_append using eight by (simp add: is_char_boundary_def is_cont_def)
qed

lemma undecodable_panics:
  assumes "list_all undecodable comm" and "8 \<le> length comm" and "process_name c = Some (from_utf8_lossy comm)"
    and "pid c \<noteq> None"
  shows "process_display c = None"
proof -
  obtain p where p: "pid c = Some p" using assms(4) by auto
  note cut = lossy_cut [OF assms(1,2)]
  let ?t = "ascii '' ('' @ decimal (unat p) @ ascii '')''"
  have "25 < length (from_utf8_lossy comm @ ?t)" using cut(1) by (simp add: ascii_def)
  moreover have "\<not> is_char_boundary (from_utf8_lossy comm @ ?t) 22" unfolding boundary_append using cut by simp
  ultimately show ?thesis by (simp add: process_display_def assms(3) p str_prefix_def)
qed

lemma name_not_drawn:
  assumes "c \<in> set vs" and "visible_window (scroll_offset ui) ui conns = Some vs" and "process_display c = None"
  shows "draw_connections_list ui dns conns = None"
  unfolding draw_connections_list_def assms(2) Option.bind.simps
  by (rule those_None [OF assms(1)]) (simp add: assms(3))

end
