(* ===== verification/UiKeys.thy ===== *)
theory UiKeys
  imports UiDraw
begin

text \<open>
  What keys and the mouse do (\<^verbatim>\<open>src/ui/actions.rs\<close>, \<^verbatim>\<open>component.rs\<close>, \<^verbatim>\<open>effects.rs\<close>, the handlers of
  \<^verbatim>\<open>src/ui/tabs/\<close>, \<open>dispatch_key\<close> and \<open>dispatch_mouse\<close>) and the main loop of the user interface
  (\<open>run_ui_loop\<close> of \<^verbatim>\<open>src/main.rs\<close>). A turn of the loop reads everything it needs of the outside from a
  record: the clocks, the order of hash maps, the size of the terminal, the layout, the event. A panic
  is \<open>None\<close>. The clipboard and the layout of the screen are parameters; of what is drawn there are
  the texts whose making can panic (the filter line, and the names in \<open>UiDraw\<close>) and the regions that can
  be clicked.
\<close>

section \<open>Events and effects\<close>

datatype KeyCode =
  Backspace | Enter | Left | Right | Up | Down | Home | End | PageUp | PageDown | Tab | BackTab | Delete
  | Esc | KeyChar bytes | OtherKey

datatype Modifier = SHIFT | CONTROL | ALT | OtherModifier

datatype KeyEventKind = Press | Repeat | Release

record KeyEvent =
  code :: KeyCode
  modifiers :: "Modifier set"
  kind :: KeyEventKind

datatype MouseEventKind = ScrollUp | ScrollDown | DownLeft | OtherMouse

record MouseEvent =
  mouse_kind :: MouseEventKind
  column :: u16
  row :: u16

datatype Effect = RefreshData | Regroup | Copy bytes bytes

datatype ClickAction = SwitchTab nat | SelectConnection nat | CopyField bytes bytes

record Rect =
  rx :: u16
  ry :: u16
  rwidth :: u16
  rheight :: u16

record ClickableRegions =
  regions :: "(Rect \<times> ClickAction) list"
  scroll_area :: "Rect option"

text \<open>Sums of coordinates wrap in a release build.\<close>

definition in_rect :: "u16 \<Rightarrow> u16 \<Rightarrow> Rect \<Rightarrow> bool" where
  "in_rect c r a \<longleftrightarrow> rx a \<le> c \<and> c < rx a + rwidth a \<and> ry a \<le> r \<and> r < ry a + rheight a"

definition hit_test :: "u16 \<Rightarrow> u16 \<Rightarrow> ClickableRegions \<Rightarrow> ClickAction option" where
  "hit_test c r cr = map_option snd (find (\<lambda>(a, _). in_rect c r a) (rev (regions cr)))"

section \<open>The regions of a frame\<close>

definition tab_titles :: "bytes list" where
  "tab_titles = [ascii ''Overview'', ascii ''Details'', ascii ''Interfaces'', ascii ''Graph'', ascii ''Help'']"

fun tab_regions_from :: "Rect \<Rightarrow> u16 \<Rightarrow> nat \<Rightarrow> bytes list \<Rightarrow> (Rect \<times> ClickAction) list" where
  "tab_regions_from inner x_offset i [] = []"
| "tab_regions_from inner x_offset i (t # ts) =
     (let padded_width = of_nat (length t) + 2 in
      (\<lparr>rx = x_offset, ry = ry inner, rwidth = padded_width, rheight = rheight inner\<rparr>, SwitchTab i)
      # tab_regions_from inner (x_offset + (padded_width + 3)) (i + 1) ts)"

definition tab_regions :: "Rect \<Rightarrow> (Rect \<times> ClickAction) list" where
  "tab_regions inner = tab_regions_from inner (rx inner) 0 tab_titles"

text \<open>The loops over the visible rows of the flat and of the grouped table are the same.\<close>

definition row_regions :: "Rect \<Rightarrow> nat \<Rightarrow> nat \<Rightarrow> (Rect \<times> ClickAction) list" where
  "row_regions inner offset n =
     (let visible_start_y = ry inner + 2; max_visible_rows = unat (rheight inner) - 2 in
      map (\<lambda>i. (\<lparr>rx = rx inner, ry = visible_start_y + of_nat i, rwidth = rwidth inner, rheight = 1\<rparr>,
          SelectConnection (offset + i)))
        (takeWhile (\<lambda>i. offset + i < n) [0..<max_visible_rows]))"

fun detail_regions :: "Rect \<Rightarrow> bool \<Rightarrow> nat \<Rightarrow> (bytes \<times> bytes) option list \<Rightarrow> (Rect \<times> ClickAction) list" where
  "detail_regions inner skip i [] = []"
| "detail_regions inner skip i (None # fs) = detail_regions inner skip (i + 1) fs"
| "detail_regions inner skip i (Some (label, v) # fs) =
     (if skip \<and> (v = ascii ''-'' \<or> v = []) then detail_regions inner skip (i + 1) fs
      else
        let row_y = ry inner + of_nat i in
        if row_y \<ge> ry inner + rheight inner then []
        else (\<lparr>rx = rx inner, ry = row_y, rwidth = rwidth inner, rheight = 1\<rparr>, CopyField label v)
          # detail_regions inner skip (i + 1) fs)"

section \<open>What the handlers work on\<close>

record 'f UiEnv =
  text_env :: TextEnv
  resolves_names :: bool
  show_ptr_lookups :: bool
  rates :: "'f Rates"
  positive_rate :: "'f \<Rightarrow> bool"
  rate_order :: "'f comparator"
  bandwidth :: "Connection comparator"
  clipboard_error :: "bytes \<Rightarrow> bytes option"

text \<open>\<open>HandlerContext\<close>: the state of the application and of the user interface, which the handlers
  change, and what they read.\<close>

record 'f HandlerContext =
  app :: "'f AppState"
  ui_state :: UIState
  ctx_connections :: "Connection list"
  grouped_rows :: "'f GroupedRow list option"
  click_regions :: ClickableRegions

abbreviation on_ui :: "(UIState \<Rightarrow> UIState) \<Rightarrow> 'f HandlerContext \<Rightarrow> 'f HandlerContext" where
  "on_ui f ctx \<equiv> ctx\<lparr>ui_state := f (ui_state ctx)\<rparr>"

definition copy_to_clipboard :: "'f UiEnv \<Rightarrow> clock \<Rightarrow> bytes \<Rightarrow> bytes \<Rightarrow> UIState \<Rightarrow> UIState" where
  "copy_to_clipboard W clk value display_msg ui =
     (case clipboard_error W value of
        None \<Rightarrow> ui\<lparr>clipboard_message := Some (ascii ''Copied: '' @ display_msg, mono clk)\<rparr>
      | Some msg \<Rightarrow> ui\<lparr>clipboard_message := Some (msg, mono clk)\<rparr>)"

fun apply_effect :: "'f UiEnv \<Rightarrow> clock \<Rightarrow> Effect \<Rightarrow> UIState \<times> bool \<times> bool \<Rightarrow> UIState \<times> bool \<times> bool" where
  "apply_effect W clk RefreshData (ui, refresh, regroup) = (ui, True, regroup)"
| "apply_effect W clk Regroup (ui, refresh, regroup) = (ui, refresh, True)"
| "apply_effect W clk (Copy label v) (ui, refresh, regroup) = (copy_to_clipboard W clk v label ui, refresh, regroup)"

definition apply_effects :: "'f UiEnv \<Rightarrow> clock \<Rightarrow> Effect list \<Rightarrow> UIState \<Rightarrow> UIState \<times> bool \<times> bool" where
  "apply_effects W clk effects ui = fold (apply_effect W clk) effects (ui, False, False)"

definition clear_all_with_confirmation :: "clock \<Rightarrow> 'f HandlerContext \<Rightarrow> bool \<times> 'f HandlerContext" where
  "clear_all_with_confirmation clk ctx =
     (if clear_confirmation (ui_state ctx) then
        (True, ctx\<lparr>app := clear_all_connections (app ctx), ui_state := (ui_state ctx)\<lparr>clear_confirmation := False,
           show_historic := False, selected_connection_key := None,
           clipboard_message := Some (ascii ''All connections cleared'', mono clk)\<rparr>\<rparr>)
      else (False, on_ui (\<lambda>ui. ui\<lparr>clear_confirmation := True\<rparr>) ctx))"

section \<open>Handlers of the tabs\<close>

text \<open>The list that the keys move through: the grouped rows if there are any to show.\<close>

definition navigate ::
    "('f GroupedRow list \<Rightarrow> UIState \<Rightarrow> UIState) \<Rightarrow> (Connection list \<Rightarrow> UIState \<Rightarrow> UIState) \<Rightarrow>
     'f HandlerContext \<Rightarrow> 'f HandlerContext" where
  "navigate by_group in_list ctx =
     (case (grouping_enabled (ui_state ctx), grouped_rows ctx) of
        (True, Some rows) \<Rightarrow> on_ui (by_group rows) ctx
      | _ \<Rightarrow> on_ui (in_list (ctx_connections ctx)) ctx)"

definition try_handle_connection_nav ::
    "KeyEvent \<Rightarrow> 'f HandlerContext \<Rightarrow> (Effect list \<times> 'f HandlerContext) option" where
  "try_handle_connection_nav ev ctx =
     (let k = code ev; m = modifiers ev; page_size = max (visible_rows (ui_state ctx)) 1 in
      if k = Up \<or> k = KeyChar (ascii ''k'') then
        Some ([], navigate move_selection_up_grouped move_selection_up ctx)
      else if k = Down \<or> k = KeyChar (ascii ''j'') then
        Some ([], navigate move_selection_down_grouped move_selection_down ctx)
      else if k = PageUp \<or> k = KeyChar (ascii ''b'') \<and> m = {CONTROL} then
        Some ([], navigate (\<lambda>rows. move_selection_page_up_grouped rows page_size)
          (\<lambda>conns. move_selection_page_up conns page_size) ctx)
      else if k = PageDown \<or> k = KeyChar (ascii ''f'') \<and> m = {CONTROL} then
        Some ([], navigate (\<lambda>rows. move_selection_page_down_grouped rows page_size)
          (\<lambda>conns. move_selection_page_down conns page_size) ctx)
      else if k = KeyChar (ascii ''g'') \<and> m = {} then
        Some ([], on_ui (move_selection_to_first (ctx_connections ctx)) ctx)
      else if k = KeyChar (ascii ''G'') \<or> k = KeyChar (ascii ''g'') \<and> m = {SHIFT} then
        Some ([], on_ui (move_selection_to_last (ctx_connections ctx)) ctx)
      else if k = KeyChar (ascii ''c'') \<and> m = {} then
        (case get_selected_index (ui_state ctx) (ctx_connections ctx) of
           Some idx \<Rightarrow>
             (if idx < length (ctx_connections ctx)
              then let addr = show_socket (remote_addr (ctx_connections ctx ! idx)) in Some ([Copy addr addr], ctx)
              else Some ([], ctx))
         | None \<Rightarrow> Some ([], ctx))
      else None)"

definition is_filter_backspace_char :: "bytes \<Rightarrow> Modifier set \<Rightarrow> bool" where
  "is_filter_backspace_char c m \<longleftrightarrow> c = [8] \<or> c = [127] \<or> c = ascii ''h'' \<and> CONTROL \<in> m"

definition handle_filter_mode_key :: "KeyEvent \<Rightarrow> 'f HandlerContext \<Rightarrow> (Effect list \<times> 'f HandlerContext) option" where
  "handle_filter_mode_key ev ctx =
     (let ui = ui_state ctx; with_ui = (\<lambda>u. ctx\<lparr>ui_state := u\<rparr>) in
      case code ev of
        Enter \<Rightarrow> Some ([RefreshData], with_ui (exit_filter_mode ui))
      | Esc \<Rightarrow> Some ([RefreshData], with_ui (clear_filter ui))
      | Backspace \<Rightarrow> map_option (\<lambda>u. ([RefreshData], with_ui u)) (filter_backspace ui)
      | Delete \<Rightarrow>
          (if filter_cursor_position ui < length (filter_query ui)
           then map_option (\<lambda>u. ([RefreshData], with_ui u)) (filter_delete ui)
           else Some ([], ctx))
      | Left \<Rightarrow> Some ([], with_ui (filter_cursor_left ui))
      | Right \<Rightarrow> Some ([], with_ui (filter_cursor_right ui))
      | Home \<Rightarrow> Some ([], with_ui (ui\<lparr>filter_cursor_position := 0\<rparr>))
      | End \<Rightarrow> Some ([], with_ui (ui\<lparr>filter_cursor_position := length (filter_query ui)\<rparr>))
      | Up \<Rightarrow> Some ([], with_ui (move_selection_up (ctx_connections ctx) ui))
      | Down \<Rightarrow> Some ([], with_ui (move_selection_down (ctx_connections ctx) ui))
      | KeyChar c \<Rightarrow>
          map_option (\<lambda>u. ([RefreshData], with_ui u))
            (if is_filter_backspace_char c (modifiers ev) then filter_backspace ui else filter_add_char c ui)
      | _ \<Rightarrow> Some ([], ctx))"

text \<open>A handler of a tab either claims a key, with effects, or leaves it to the main loop.\<close>

type_synonym 'f claimed = "Effect list option \<times> 'f HandlerContext"

definition overview_normal_key :: "'f UiEnv \<Rightarrow> clock \<Rightarrow> KeyEvent \<Rightarrow> 'f HandlerContext \<Rightarrow> 'f claimed" where
  "overview_normal_key W clk ev ctx =
     (let k = code ev; m = modifiers ev; ui = ui_state ctx;
          isc = (\<lambda>c. k = KeyChar (ascii c));
          did = (\<lambda>effects f. (Some effects, on_ui f ctx)) in
      if k = Enter then
        (Some [], if ctx_connections ctx \<noteq> [] \<and> \<not> (grouping_enabled ui \<and> is_group_selected ui)
          then on_ui (\<lambda>ui. ui\<lparr>selected_tab := 1\<rparr>) ctx else ctx)
      else if isc '' '' \<and> grouping_enabled ui \<and> is_group_selected ui then did [Regroup] toggle_group_expansion
      else if k = Left \<and> grouping_enabled ui then did [Regroup] collapse_selected_group
      else if (k = Right \<or> isc ''l'') \<and> grouping_enabled ui then did [Regroup] expand_selected_group
      else if isc ''/'' then did [] enter_filter_mode
      else if k = Esc \<and> filter_query ui \<noteq> [] then did [RefreshData] clear_filter
      else if isc ''p'' then did [] (\<lambda>ui. ui\<lparr>show_port_numbers := \<not> show_port_numbers ui\<rparr>)
      else if isc ''d'' \<and> resolves_names W then did [] (\<lambda>ui. ui\<lparr>show_hostnames := \<not> show_hostnames ui\<rparr>)
      else if isc ''t'' then
        (Some [RefreshData], ctx\<lparr>app := toggle_show_historic (app ctx),
           ui_state := ui\<lparr>show_historic := \<not> show_historic ui, scroll_offset := 0, grouped_scroll_offset := 0\<rparr>\<rparr>)
      else if isc ''a'' then did [Regroup] toggle_grouping
      else if isc ''r'' then
        (Some [RefreshData], ctx\<lparr>app := if show_historic ui then set_show_historic False (app ctx) else app ctx,
           ui_state := reset_view ui\<rparr>)
      else if isc ''s'' \<and> m = {} then did [RefreshData] cycle_sort_column
      else if isc ''S'' then did [RefreshData] toggle_sort_direction
      else if isc ''x'' then
        (case clear_all_with_confirmation clk ctx of
           (cleared, ctx') \<Rightarrow> (Some (if cleared then [RefreshData] else []), ctx'))
      else (None, ctx))"

definition overview_handle_key :: "'f UiEnv \<Rightarrow> clock \<Rightarrow> KeyEvent \<Rightarrow> 'f HandlerContext \<Rightarrow> 'f claimed option" where
  "overview_handle_key W clk ev ctx =
     (if filter_mode (ui_state ctx) then map_option (\<lambda>(e, c). (Some e, c)) (handle_filter_mode_key ev ctx)
      else
        case try_handle_connection_nav ev ctx of
          Some (effects, ctx') \<Rightarrow> Some (Some effects, ctx')
        | None \<Rightarrow> Some (overview_normal_key W clk ev ctx))"

definition details_handle_key :: "KeyEvent \<Rightarrow> 'f HandlerContext \<Rightarrow> 'f claimed" where
  "details_handle_key ev ctx =
     (case try_handle_connection_nav ev ctx of
        Some (effects, ctx') \<Rightarrow> (Some effects, ctx')
      | None \<Rightarrow> (None, ctx))"

definition dispatch_key :: "'f UiEnv \<Rightarrow> clock \<Rightarrow> nat \<Rightarrow> KeyEvent \<Rightarrow> 'f HandlerContext \<Rightarrow> 'f claimed option" where
  "dispatch_key W clk tab ev ctx =
     (if filter_mode (ui_state ctx) then overview_handle_key W clk ev ctx
      else if tab = 0 then overview_handle_key W clk ev ctx
      else if tab = 1 then Some (details_handle_key ev ctx)
      else Some (None, ctx))"

definition overview_handle_mouse :: "MouseEvent \<Rightarrow> 'f HandlerContext \<Rightarrow> 'f claimed" where
  "overview_handle_mouse mouse ctx =
     (case scroll_area (click_regions ctx) of
        None \<Rightarrow> (None, ctx)
      | Some area \<Rightarrow>
          (if \<not> in_rect (column mouse) (row mouse) area then (None, ctx)
           else
             case mouse_kind mouse of
               ScrollUp \<Rightarrow> (Some [], navigate move_selection_up_grouped move_selection_up ctx)
             | ScrollDown \<Rightarrow> (Some [], navigate move_selection_down_grouped move_selection_down ctx)
             | _ \<Rightarrow> (None, ctx)))"

definition dispatch_mouse :: "nat \<Rightarrow> MouseEvent \<Rightarrow> 'f HandlerContext \<Rightarrow> 'f claimed" where
  "dispatch_mouse tab mouse ctx = (if tab = 0 then overview_handle_mouse mouse ctx else (None, ctx))"

section \<open>The main loop\<close>

datatype Event = Key KeyEvent | Mouse MouseEvent | OtherEvent

record Layout =
  tabs_inner :: Rect
  table_area :: Rect
  table_inner :: Rect
  detail_panes :: "(Rect \<times> bool \<times> (bytes \<times> bytes) option list) list"

record Turn =
  refresh_clock :: clock
  event_clock :: clock
  hash_order :: "(bytes \<times> Connection list) list \<Rightarrow> (bytes \<times> Connection list) list"
  name_order :: "bytes list \<Rightarrow> bytes list"
  host_names :: "ip_addr \<Rightarrow> bytes option"
  is_loading :: bool
  layout :: Layout
  height :: "u16 option"
  event :: "Event option"

record 'f UiLoop =
  lp_app :: "'f AppState"
  lp_ui :: UIState
  lp_connections :: "Connection list"
  lp_rows :: "'f GroupedRow list"
  last_tick :: instant
  needs_data_refresh :: bool
  needs_regroup :: bool
  finished :: bool

definition loop_start :: "clock \<Rightarrow> bool \<Rightarrow> 'f AppState \<Rightarrow> 'f UiLoop" where
  "loop_start clk has_country_db a = \<lparr>lp_app = a, lp_ui = UIState_default\<lparr>has_geoip := has_country_db\<rparr>,
     lp_connections = [], lp_rows = [], last_tick = mono clk, needs_data_refresh = True, needs_regroup = False,
     finished = False\<rparr>"

definition regroup :: "'f UiEnv \<Rightarrow> Turn \<Rightarrow> 'f UiLoop \<Rightarrow> 'f UiLoop" where
  "regroup W t lp =
     lp\<lparr>lp_rows := (if grouping_enabled (lp_ui lp)
          then compute_grouped_rows (rates W) (text_env W) (hash_order t) (lp_connections lp) (expanded_groups (lp_ui lp))
          else []),
       needs_regroup := False\<rparr>"

definition refresh_data :: "'f UiEnv \<Rightarrow> Turn \<Rightarrow> 'f UiLoop \<Rightarrow> 'f UiLoop" where
  "refresh_data W t lp =
     (let ui = lp_ui lp; clk = refresh_clock t in
      if needs_data_refresh lp \<or> since (mono clk) (last_tick lp) \<ge> 200000000 then
        let conns = (if filter_query ui = [] \<and> \<not> filter_mode ui
              then get_connections (text_env W) clk (resolves_names W) (show_ptr_lookups W) (app_snapshot (lp_app lp))
              else get_filtered_connections (text_env W) clk (resolves_names W) (show_ptr_lookups W)
                (app_snapshot (lp_app lp)) (filter_query ui));
            conns = sort_connections clk (bandwidth W) conns (sort_column ui) (sort_ascending ui)
        in (regroup W t (lp\<lparr>lp_connections := conns\<rparr>))\<lparr>last_tick := mono clk, needs_data_refresh := False\<rparr>
      else if needs_regroup lp then regroup W t lp
      else lp)"

definition settle_selection :: "'f UiLoop \<Rightarrow> UIState" where
  "settle_selection lp =
     (let ui = lp_ui lp in
      if grouping_enabled ui then
        let ui = ensure_valid_grouped_selection (lp_rows lp) ui;
            selected_idx = or_first (get_selected_grouped_index ui (lp_rows lp))
        in ui\<lparr>grouped_scroll_offset := compute_scroll_offset selected_idx (grouped_scroll_offset ui)
             (visible_rows ui) (length (lp_rows lp))\<rparr>
      else
        let ui = ensure_valid_selection (lp_connections lp) ui;
            selected_idx = or_first (get_selected_index ui (lp_connections lp))
        in ui\<lparr>scroll_offset := compute_scroll_offset selected_idx (scroll_offset ui)
             (visible_rows ui) (length (lp_connections lp))\<rparr>)"

text \<open>The frame that is drawn, as far as it can be clicked; \<open>None\<close> if drawing it panics.\<close>

definition draw_regions :: "Layout \<Rightarrow> 'f UiLoop \<Rightarrow> ClickableRegions" where
  "draw_regions l lp =
     (let ui = lp_ui lp; tabs = tab_regions (tabs_inner l) in
      if selected_tab ui = 0 then
        \<lparr>regions = tabs @ (if grouping_enabled ui
            then row_regions (table_inner l) (grouped_scroll_offset ui) (length (lp_rows lp))
            else row_regions (table_inner l) (scroll_offset ui) (length (lp_connections lp))),
          scroll_area = Some (table_area l)\<rparr>
      else if selected_tab ui = 1 then
        \<lparr>regions = tabs @ concat (map (\<lambda>(inner, skip, fields). detail_regions inner skip 0 fields) (detail_panes l)),
          scroll_area = None\<rparr>
      else \<lparr>regions = tabs, scroll_area = None\<rparr>)"

definition has_filter_line :: "UIState \<Rightarrow> bool" where
  "has_filter_line ui \<longleftrightarrow> filter_mode ui \<or> filter_query ui \<noteq> []"

definition dns_resolver :: "'f UiEnv \<Rightarrow> Turn \<Rightarrow> resolver" where
  "dns_resolver W t = (if resolves_names W then Some (host_names t) else None)"

text \<open>The contents of the selected tab; the interfaces and the help have nothing to cut.\<close>

definition draw_content :: "'f UiEnv \<Rightarrow> Turn \<Rightarrow> 'f UiLoop \<Rightarrow> unit option" where
  "draw_content W t lp =
     (let ui = lp_ui lp; dns = dns_resolver W t in
      if selected_tab ui = 0 then
        (if grouping_enabled ui then map_option (\<lambda>_. ()) (draw_grouped_connections_list ui dns (lp_rows lp))
         else map_option (\<lambda>_. ()) (draw_connections_list ui dns (lp_connections lp)))
      else if selected_tab ui = 1 then map_option (\<lambda>_. ()) (draw_connection_details ui (lp_connections lp))
      else if selected_tab ui = 3 then
        map_option (\<lambda>_. ()) (draw_top_processes (rates W) (positive_rate W) (rate_order W) (name_order t) (lp_connections lp))
      else Some ())"

definition draw :: "'f UiEnv \<Rightarrow> Turn \<Rightarrow> 'f UiLoop \<Rightarrow> ClickableRegions option" where
  "draw W t lp =
     (if is_loading t then Some \<lparr>regions = [], scroll_area = None\<rparr>
      else do {
        _ \<leftarrow> draw_content W t lp;
        _ \<leftarrow> (if has_filter_line (lp_ui lp) then map_option (\<lambda>_. ()) (filter_input_text (lp_ui lp)) else Some ());
        Some (draw_regions (layout t) lp) })"

definition update_visible_rows :: "u16 option \<Rightarrow> UIState \<Rightarrow> UIState" where
  "update_visible_rows h ui =
     (case h of
        None \<Rightarrow> ui
      | Some h \<Rightarrow> ui\<lparr>visible_rows := unat h - (if has_filter_line ui then 11 else 8)\<rparr>)"

definition expire_message :: "clock \<Rightarrow> UIState \<Rightarrow> UIState" where
  "expire_message clk ui =
     (case clipboard_message ui of
        Some (msg, time) \<Rightarrow> if since (mono clk) time \<ge> secs 3 then ui\<lparr>clipboard_message := None\<rparr> else ui
      | None \<Rightarrow> ui)"

definition handler_context :: "ClickableRegions \<Rightarrow> 'f UiLoop \<Rightarrow> 'f HandlerContext" where
  "handler_context cr lp = \<lparr>app = lp_app lp, ui_state = lp_ui lp, ctx_connections = lp_connections lp,
     grouped_rows = (if grouping_enabled (lp_ui lp) then Some (lp_rows lp) else None), click_regions = cr\<rparr>"

definition take_back :: "'f HandlerContext \<Rightarrow> 'f UiLoop \<Rightarrow> 'f UiLoop" where
  "take_back ctx lp = lp\<lparr>lp_app := app ctx, lp_ui := ui_state ctx\<rparr>"

definition perform :: "'f UiEnv \<Rightarrow> clock \<Rightarrow> Effect list \<Rightarrow> 'f UiLoop \<Rightarrow> 'f UiLoop" where
  "perform W clk effects lp =
     (case apply_effects W clk effects (lp_ui lp) of
        (ui, refresh, again) \<Rightarrow> lp\<lparr>lp_ui := ui, needs_data_refresh := needs_data_refresh lp \<or> refresh,
          needs_regroup := needs_regroup lp \<or> again\<rparr>)"

definition with_ui :: "(UIState \<Rightarrow> UIState) \<Rightarrow> 'f UiLoop \<Rightarrow> 'f UiLoop" where
  "with_ui f lp = lp\<lparr>lp_ui := f (lp_ui lp)\<rparr>"

definition click :: "'f UiEnv \<Rightarrow> clock \<Rightarrow> ClickableRegions \<Rightarrow> MouseEvent \<Rightarrow> 'f UiLoop \<Rightarrow> 'f UiLoop" where
  "click W clk cr mouse lp =
     (let is_double_click = (case last_click (lp_ui lp) of
            Some (_, prev_row, prev_time) \<Rightarrow> prev_row = row mouse \<and> since (mono clk) prev_time div 1000000 < 400
          | None \<Rightarrow> False);
          ui = (lp_ui lp)\<lparr>quit_confirmation := False, clear_confirmation := False,
            last_click := Some (column mouse, row mouse, mono clk)\<rparr>;
          lp = lp\<lparr>lp_ui := ui\<rparr>
      in case hit_test (column mouse) (row mouse) cr of
           None \<Rightarrow> lp
         | Some (SwitchTab i) \<Rightarrow> lp\<lparr>lp_ui := ui\<lparr>selected_tab := i\<rparr>\<rparr>
         | Some (SelectConnection i) \<Rightarrow>
             (if grouping_enabled ui then
                let ui = set_selected_grouped_by_index (lp_rows lp) i ui in
                if is_double_click \<and> i < length (lp_rows lp) then
                  case lp_rows lp ! i of
                    Group _ _ _ \<Rightarrow> lp\<lparr>lp_ui := toggle_group_expansion ui, needs_regroup := True\<rparr>
                  | GroupedRow.Connection _ _ _ \<Rightarrow> lp\<lparr>lp_ui := ui\<lparr>selected_tab := 1\<rparr>\<rparr>
                else lp\<lparr>lp_ui := ui\<rparr>
              else
                let ui = set_selected_by_index (lp_connections lp) i ui in
                lp\<lparr>lp_ui := if is_double_click then ui\<lparr>selected_tab := 1\<rparr> else ui\<rparr>)
         | Some (CopyField label v) \<Rightarrow>
             lp\<lparr>lp_ui := copy_to_clipboard W clk v (label @ ascii '': '' @ v) ui\<rparr>)"

definition on_mouse :: "'f UiEnv \<Rightarrow> clock \<Rightarrow> ClickableRegions \<Rightarrow> MouseEvent \<Rightarrow> 'f UiLoop \<Rightarrow> 'f UiLoop" where
  "on_mouse W clk cr mouse lp =
     (case dispatch_mouse (selected_tab (lp_ui lp)) mouse (handler_context cr lp) of
        (Some effects, ctx) \<Rightarrow> perform W clk effects (take_back ctx lp)
      | (None, ctx) \<Rightarrow> if mouse_kind mouse = DownLeft then click W clk cr mouse lp else lp)"

definition reset_confirmations :: "KeyCode \<Rightarrow> UIState \<Rightarrow> UIState" where
  "reset_confirmations k ui =
     (if k = KeyChar (ascii ''q'') then ui\<lparr>clear_confirmation := False\<rparr>
      else if k = KeyChar (ascii ''x'') then ui\<lparr>quit_confirmation := False\<rparr>
      else ui\<lparr>quit_confirmation := False, clear_confirmation := False\<rparr>)"

definition digit_tab :: "KeyCode \<Rightarrow> nat option" where
  "digit_tab k = position (\<lambda>c. k = KeyChar c) [ascii ''1'', ascii ''2'', ascii ''3'', ascii ''4'', ascii ''5'']"

definition fallback_key :: "clock \<Rightarrow> ClickableRegions \<Rightarrow> KeyEvent \<Rightarrow> 'f UiLoop \<Rightarrow> 'f UiLoop" where
  "fallback_key clk cr ev lp =
     (let k = code ev; m = modifiers ev; isc = (\<lambda>c. k = KeyChar (ascii c)); ui = lp_ui lp in
      if isc ''q'' then
        (if quit_confirmation ui then lp\<lparr>finished := True\<rparr> else with_ui (\<lambda>ui. ui\<lparr>quit_confirmation := True\<rparr>) lp)
      else if isc ''c'' \<and> m = {CONTROL} then lp\<lparr>finished := True\<rparr>
      else if (k = Tab \<or> isc '']'') \<and> m = {} then with_ui next_tab lp
      else if k = BackTab \<or> k = Tab \<and> m = {SHIFT} \<or> isc ''['' \<and> m = {} then with_ui prev_tab lp
      else if digit_tab k \<noteq> None \<and> m = {} then with_ui (jump_to_tab (the (digit_tab k))) lp
      else if isc ''h'' then
        with_ui (\<lambda>ui. let help = \<not> show_help ui in ui\<lparr>show_help := help, selected_tab := if help then 4 else 0\<rparr>) lp
      else if isc ''x'' then
        (case clear_all_with_confirmation clk (handler_context cr lp) of
           (cleared, ctx) \<Rightarrow>
             (take_back ctx lp)\<lparr>needs_data_refresh := needs_data_refresh lp \<or> cleared\<rparr>)
      else if k = Esc then
        (if filter_query ui \<noteq> [] then (with_ui clear_filter lp)\<lparr>needs_data_refresh := True\<rparr>
         else if selected_tab ui \<noteq> 0 then with_ui (\<lambda>ui. ui\<lparr>selected_tab := 0\<rparr>) lp
         else lp)
      else lp)"

definition on_key :: "'f UiEnv \<Rightarrow> clock \<Rightarrow> ClickableRegions \<Rightarrow> KeyEvent \<Rightarrow> 'f UiLoop \<Rightarrow> 'f UiLoop option" where
  "on_key W clk cr ev lp =
     (if kind ev \<noteq> Press then Some lp
      else
        let lp = with_ui (reset_confirmations (code ev)) lp in
        case dispatch_key W clk (selected_tab (lp_ui lp)) ev (handler_context cr lp) of
          None \<Rightarrow> None
        | Some (Some effects, ctx) \<Rightarrow> Some (perform W clk effects (take_back ctx lp))
        | Some (None, ctx) \<Rightarrow> Some (fallback_key clk cr ev lp))"

definition ui_turn :: "'f UiEnv \<Rightarrow> Turn \<Rightarrow> 'f UiLoop \<Rightarrow> 'f UiLoop option" where
  "ui_turn W t lp =
     (let lp = refresh_data W t lp;
          lp = lp\<lparr>lp_ui := settle_selection lp\<rparr>
      in case draw W t lp of
           None \<Rightarrow> None
         | Some cr \<Rightarrow>
             let lp = with_ui (update_visible_rows (height t)) lp;
                 lp = with_ui (expire_message (event_clock t)) lp
             in case event t of
                  None \<Rightarrow> Some lp
                | Some (Mouse mouse) \<Rightarrow> Some (on_mouse W (event_clock t) cr mouse lp)
                | Some (Key ev) \<Rightarrow> on_key W (event_clock t) cr ev lp
                | Some OtherEvent \<Rightarrow> Some lp)"

section \<open>What every operation keeps\<close>

text \<open>The tab that is shown exists, the query is ASCII text with the cursor in it, and the user
  interface and the snapshot thread agree on whether historic connections are shown.\<close>

definition ui_ok :: "bool \<Rightarrow> UIState \<Rightarrow> bool" where
  "ui_ok h ui \<longleftrightarrow> selected_tab ui < TAB_COUNT \<and> list_all (\<lambda>b. b < 128) (filter_query ui)
     \<and> filter_cursor_position ui \<le> length (filter_query ui) \<and> show_historic ui = h"

named_theorems keeps

lemma default_ok: "ui_ok False (UIState_default\<lparr>has_geoip := db\<rparr>)"
  by (simp add: ui_ok_def UIState_default_def TAB_COUNT_def)

lemma fields_ok [keeps]:
  "ui_ok h (ui\<lparr>selected_connection_key := k\<rparr>) = ui_ok h ui" "ui_ok h (ui\<lparr>show_help := b\<rparr>) = ui_ok h ui"
  "ui_ok h (ui\<lparr>quit_confirmation := b\<rparr>) = ui_ok h ui" "ui_ok h (ui\<lparr>clear_confirmation := b\<rparr>) = ui_ok h ui"
  "ui_ok h (ui\<lparr>clipboard_message := m\<rparr>) = ui_ok h ui" "ui_ok h (ui\<lparr>filter_mode := b\<rparr>) = ui_ok h ui"
  "ui_ok h (ui\<lparr>show_port_numbers := b\<rparr>) = ui_ok h ui" "ui_ok h (ui\<lparr>sort_column := c\<rparr>) = ui_ok h ui"
  "ui_ok h (ui\<lparr>sort_ascending := b\<rparr>) = ui_ok h ui" "ui_ok h (ui\<lparr>show_hostnames := b\<rparr>) = ui_ok h ui"
  "ui_ok h (ui\<lparr>grouping_enabled := b\<rparr>) = ui_ok h ui" "ui_ok h (ui\<lparr>expanded_groups := X\<rparr>) = ui_ok h ui"
  "ui_ok h (ui\<lparr>selected_group := g\<rparr>) = ui_ok h ui" "ui_ok h (ui\<lparr>last_click := l\<rparr>) = ui_ok h ui"
  "ui_ok h (ui\<lparr>visible_rows := n\<rparr>) = ui_ok h ui" "ui_ok h (ui\<lparr>scroll_offset := n\<rparr>) = ui_ok h ui"
  "ui_ok h (ui\<lparr>grouped_scroll_offset := n\<rparr>) = ui_ok h ui"
  by (simp_all add: ui_ok_def)

lemma tab_ok [keeps]: "ui_ok h ui \<Longrightarrow> i < TAB_COUNT \<Longrightarrow> ui_ok h (ui\<lparr>selected_tab := i\<rparr>)"
  by (simp add: ui_ok_def)

lemma tabs_exist [keeps]: "0 < TAB_COUNT" "Suc 0 < TAB_COUNT" "4 < TAB_COUNT" "n mod TAB_COUNT < TAB_COUNT" "TAB_COUNT - 1 < TAB_COUNT"
  by (simp_all add: TAB_COUNT_def)

lemma flat_ok [keeps]:
  "ui_ok h (set_selected_by_index conns i ui) = ui_ok h ui"
  "ui_ok h (move_selection_up conns ui) = ui_ok h ui" "ui_ok h (move_selection_down conns ui) = ui_ok h ui"
  "ui_ok h (move_selection_page_up conns n ui) = ui_ok h ui" "ui_ok h (move_selection_page_down conns n ui) = ui_ok h ui"
  "ui_ok h (move_selection_to_first conns ui) = ui_ok h ui" "ui_ok h (move_selection_to_last conns ui) = ui_ok h ui"
  "ui_ok h (ensure_valid_selection conns ui) = ui_ok h ui"
  by (simp_all add: set_selected_by_index_def move_selection_up_def move_selection_down_def move_selection_page_up_def
      move_selection_page_down_def move_selection_to_first_def move_selection_to_last_def ensure_valid_selection_def
      Let_def fields_ok)

lemma select_row_ok [keeps]: "ui_ok h (set_selected_grouped_by_index rows i ui) = ui_ok h ui"
  by (simp add: set_selected_grouped_by_index_def select_row_def fields_ok split: GroupedRow.split)

lemma by_group_ok [keeps]:
  "ui_ok h (move_selection_up_grouped rows ui) = ui_ok h ui" "ui_ok h (move_selection_down_grouped rows ui) = ui_ok h ui"
  "ui_ok h (move_selection_page_up_grouped rows n ui) = ui_ok h ui"
  "ui_ok h (move_selection_page_down_grouped rows n ui) = ui_ok h ui"
  "ui_ok h (ensure_valid_grouped_selection rows ui) = ui_ok h ui"
  by (simp_all add: move_selection_up_grouped_def move_selection_down_grouped_def move_selection_page_up_grouped_def
      move_selection_page_down_grouped_def ensure_valid_grouped_selection_def Let_def fields_ok select_row_ok)

lemma groups_ok [keeps]:
  "ui_ok h (toggle_grouping ui) = ui_ok h ui" "ui_ok h (toggle_group_expansion ui) = ui_ok h ui"
  "ui_ok h (expand_selected_group ui) = ui_ok h ui" "ui_ok h (collapse_selected_group ui) = ui_ok h ui"
  "ui_ok h (cycle_sort_column ui) = ui_ok h ui" "ui_ok h (toggle_sort_direction ui) = ui_ok h ui"
  by (simp_all add: toggle_grouping_def toggle_group_expansion_def expand_selected_group_def collapse_selected_group_def
      cycle_sort_column_def toggle_sort_direction_def Let_def fields_ok split: option.split)

lemma tab_moves_ok [keeps]:
  "ui_ok h ui \<Longrightarrow> ui_ok h (next_tab ui)" "ui_ok h ui \<Longrightarrow> ui_ok h (prev_tab ui)" "ui_ok h ui \<Longrightarrow> ui_ok h (jump_to_tab i ui)"
  by (auto simp: ui_ok_def next_tab_def prev_tab_def jump_to_tab_def TAB_COUNT_def)

lemma filter_mode_ok [keeps]:
  "ui_ok h ui \<Longrightarrow> ui_ok h (enter_filter_mode ui)" "ui_ok h ui \<Longrightarrow> ui_ok h (exit_filter_mode ui)"
  "ui_ok h ui \<Longrightarrow> ui_ok h (clear_filter ui)" "ui_ok h ui \<Longrightarrow> ui_ok h (filter_cursor_left ui)"
  "ui_ok h ui \<Longrightarrow> ui_ok h (filter_cursor_right ui)" "ui_ok h ui \<Longrightarrow> ui_ok h (ui\<lparr>filter_cursor_position := 0\<rparr>)"
  "ui_ok h ui \<Longrightarrow> ui_ok h (ui\<lparr>filter_cursor_position := length (filter_query ui)\<rparr>)"
  "ui_ok h ui \<Longrightarrow> ui_ok False (reset_view ui)"
  by (auto simp: ui_ok_def enter_filter_mode_def exit_filter_mode_def clear_filter_def filter_cursor_left_def
      filter_cursor_right_def reset_view_def)

lemma ascii_remove:
  assumes "list_all (\<lambda>b. b < 128) s" and "i < length s"
  shows "str_remove i s = Some (take i s @ drop (Suc i) s)"
proof -
  have "s ! i < 128" using assms by (simp add: list_all_length)
  then have "snd (utf8_head (drop i s)) = 1"
    using assms(2) by (simp add: utf8_head_ascii flip: Cons_nth_drop_Suc)
  then show ?thesis using assms ascii_boundary [of s i] by (simp add: str_remove_def)
qed

lemma list_all_take_drop: "list_all P s \<Longrightarrow> list_all P (take i s)" "list_all P s \<Longrightarrow> list_all P (drop i s)"
  by (auto simp: list_all_iff dest: in_set_takeD in_set_dropD)

lemma edits_ok:
  assumes "ui_ok h ui"
  shows "b < 128 \<Longrightarrow> \<exists>u. filter_add_char [b] ui = Some u \<and> ui_ok h u"
    and "\<exists>u. filter_backspace ui = Some u \<and> ui_ok h u"
    and "filter_cursor_position ui < length (filter_query ui) \<Longrightarrow> \<exists>u. filter_delete ui = Some u \<and> ui_ok h u"
    and "filter_mode ui \<Longrightarrow> filter_input_text ui \<noteq> None"
  using assms
  by (auto simp: ui_ok_def filter_add_char_def filter_backspace_def filter_delete_def filter_input_text_def str_insert_def
      ascii_boundary ascii_remove list_all_take_drop Let_def)

section \<open>Every turn returns\<close>

text \<open>No process name of the snapshot would be cut inside a character.\<close>

definition names_fit :: "'f AppState \<Rightarrow> bool" where
  "names_fit a \<longleftrightarrow> (\<forall>c \<in> set (app_snapshot a). process_fits c)"

definition ctx_ok :: "'f HandlerContext \<Rightarrow> bool" where
  "ctx_ok ctx \<longleftrightarrow> ui_ok (app_show_historic (app ctx)) (ui_state ctx) \<and> names_fit (app ctx)"

definition loop_ok :: "'f UiLoop \<Rightarrow> bool" where
  "loop_ok lp \<longleftrightarrow> ui_ok (app_show_historic (lp_app lp)) (lp_ui lp) \<and> names_fit (lp_app lp)"

text \<open>The same of the connections that are shown.\<close>

definition rows_fit :: "'f UiLoop \<Rightarrow> bool" where
  "rows_fit lp \<longleftrightarrow> (\<forall>c \<in> set (lp_connections lp). process_fits c)"

lemma names_kept [keeps]:
  "names_fit (toggle_show_historic a) = names_fit a" "names_fit (set_show_historic v a) = names_fit a"
  "names_fit (clear_all_connections a)"
  by (simp_all add: names_fit_def toggle_show_historic_def set_show_historic_def clear_all_connections_def)

lemma ctx_loop [simp]: "loop_ok (take_back ctx lp) = ctx_ok ctx" "ctx_ok (handler_context cr lp) = loop_ok lp"
  by (simp_all add: ctx_ok_def loop_ok_def take_back_def handler_context_def)

lemma loop_fields [simp]:
  "loop_ok (lp\<lparr>needs_data_refresh := b\<rparr>) = loop_ok lp" "loop_ok (lp\<lparr>needs_regroup := b\<rparr>) = loop_ok lp"
  "loop_ok (lp\<lparr>finished := b\<rparr>) = loop_ok lp" "loop_ok (lp\<lparr>last_tick := i\<rparr>) = loop_ok lp"
  "loop_ok (lp\<lparr>lp_connections := cs\<rparr>) = loop_ok lp" "loop_ok (lp\<lparr>lp_rows := rows\<rparr>) = loop_ok lp"
  "loop_ok (lp\<lparr>lp_ui := ui\<rparr>) = (ui_ok (app_show_historic (lp_app lp)) ui \<and> names_fit (lp_app lp))"
  by (simp_all add: loop_ok_def)

text \<open>Where the user interface keeps its state, so does the loop.\<close>

lemma with_ui_ok: "loop_ok lp \<Longrightarrow> (\<And>h ui. ui_ok h ui \<Longrightarrow> ui_ok h (f ui)) \<Longrightarrow> loop_ok (with_ui f lp)"
  by (simp add: with_ui_def loop_ok_def)

lemma on_ui_ok: "ctx_ok ctx \<Longrightarrow> (\<And>h ui. ui_ok h ui \<Longrightarrow> ui_ok h (f ui)) \<Longrightarrow> ctx_ok (on_ui f ctx)"
  by (simp add: ctx_ok_def)

lemma navigate_ok: "ctx_ok (navigate by_group in_list ctx) = ctx_ok ctx"
  if "\<And>h rows ui. ui_ok h (by_group rows ui) = ui_ok h ui" "\<And>h conns ui. ui_ok h (in_list conns ui) = ui_ok h ui"
  using that by (cases "grouping_enabled (ui_state ctx)") (simp_all add: navigate_def ctx_ok_def split: option.split)

definition left_ok :: "('e \<times> 'f HandlerContext) option \<Rightarrow> bool" where
  "left_ok r \<longleftrightarrow> (case r of None \<Rightarrow> True | Some (e, ctx) \<Rightarrow> ctx_ok ctx)"

lemma left_ok_simps [simp]: "left_ok None" "left_ok (Some (e, ctx)) = ctx_ok ctx"
  by (simp_all add: left_ok_def)

lemma left_ok_if: "left_ok x \<Longrightarrow> left_ok y \<Longrightarrow> left_ok (if b then x else y)"
  by simp

lemma nav_ok:
  assumes "ctx_ok ctx"
  shows "left_ok (try_handle_connection_nav ev ctx)"
  unfolding try_handle_connection_nav_def Let_def
  by (intro left_ok_if) (simp_all add: assms navigate_ok keeps on_ui_ok split: option.split)

lemma clear_all_ok:
  "ctx_ok ctx \<Longrightarrow> clear_all_with_confirmation clk ctx = (b, ctx') \<Longrightarrow> ctx_ok ctx'"
  by (auto simp: clear_all_with_confirmation_def ctx_ok_def keeps split: if_splits)
    (simp add: clear_all_connections_def ui_ok_def)

definition plain_key :: "KeyEvent \<Rightarrow> bool" where
  "plain_key ev \<longleftrightarrow> (case code ev of KeyChar c \<Rightarrow> length c = 1 \<and> hd c < 128 | _ \<Rightarrow> True)"

lemma filter_key_ok:
  assumes "ctx_ok ctx" and "plain_key ev"
  shows "\<exists>e ctx'. handle_filter_mode_key ev ctx = Some (e, ctx') \<and> ctx_ok ctx'"
proof -
  have ui: "ui_ok (app_show_historic (app ctx)) (ui_state ctx)" "names_fit (app ctx)" using assms(1) by (simp_all add: ctx_ok_def)
  note edits = edits_ok [OF ui(1)]
  show ?thesis
  proof (cases "code ev")
    case (KeyChar c)
    then obtain b where "c = [b]" "b < 128" using assms(2) by (cases c) (auto simp: plain_key_def)
    then show ?thesis using KeyChar edits(1) [of b] edits(2) ui(2)
      by (auto simp: handle_filter_mode_key_def Let_def ctx_ok_def)
  qed (use ui edits(2,3) in \<open>auto simp: handle_filter_mode_key_def Let_def ctx_ok_def keeps\<close>)
qed

lemma overview_normal_ok:
  assumes "ctx_ok ctx"
  shows "left_ok (Some (overview_normal_key W clk ev ctx))"
proof -
  have ui: "ui_ok (app_show_historic (app ctx)) (ui_state ctx)" "names_fit (app ctx)" using assms(1) by (simp_all add: ctx_ok_def)
  have historic: "ui_ok (app_show_historic (toggle_show_historic a)) (ui\<lparr>show_historic := \<not> show_historic ui\<rparr>)
      = ui_ok (app_show_historic a) ui"
    "ui_ok (app_show_historic a) ui \<Longrightarrow> show_historic ui \<Longrightarrow> ui_ok (app_show_historic (set_show_historic False a)) (reset_view ui)"
    "ui_ok (app_show_historic a) ui \<Longrightarrow> \<not> show_historic ui \<Longrightarrow> ui_ok (app_show_historic a) (reset_view ui)"
    for ui and a :: "'a AppState"
    by (auto simp: ui_ok_def toggle_show_historic_def set_show_historic_def reset_view_def)
  obtain b ctx'' where clear: "clear_all_with_confirmation clk ctx = (b, ctx'')" by fastforce
  have if_pair: "left_ok (Some x) \<Longrightarrow> left_ok (Some y) \<Longrightarrow> left_ok (Some (if b then x else y))" for b and x y :: "'a claimed"
    by simp
  show ?thesis
    unfolding overview_normal_key_def Let_def
    using ui clear_all_ok [OF assms clear] by (intro if_pair) (auto simp: clear ctx_ok_def keeps historic)
qed

lemma dispatch_key_ok:
  assumes "ctx_ok ctx" and "plain_key ev"
  shows "\<exists>e ctx'. dispatch_key W clk tab ev ctx = Some (e, ctx') \<and> ctx_ok ctx'"
  using filter_key_ok [OF assms] nav_ok [OF assms(1), of ev] overview_normal_ok [OF assms(1), of W clk ev]
  by (cases "overview_normal_key W clk ev ctx"; cases "try_handle_connection_nav ev ctx")
    (auto simp: dispatch_key_def overview_handle_key_def details_handle_key_def assms(1))

lemma copy_ok [keeps]: "ui_ok h (copy_to_clipboard W clk v msg ui) = ui_ok h ui"
  by (simp add: copy_to_clipboard_def keeps split: option.split)

lemma apply_effects_ok: "ui_ok h (fst (apply_effects W clk effects ui)) = ui_ok h ui"
proof -
  have "ui_ok h (fst (fold (apply_effect W clk) effects (ui, a, b))) = ui_ok h ui" for a b
  proof (induction effects arbitrary: ui a b)
    case (Cons e es)
    then show ?case by (cases e) (simp_all add: keeps)
  qed simp
  then show ?thesis by (simp add: apply_effects_def)
qed

lemma perform_ok: "loop_ok (perform W clk effects lp) = loop_ok lp"
  using apply_effects_ok [of _ W clk effects "lp_ui lp"]
  by (cases "apply_effects W clk effects (lp_ui lp)") (simp add: perform_def, simp add: loop_ok_def)

lemma tab_region_exists: "(a, SwitchTab i) \<in> set (regions (draw_regions l lp)) \<Longrightarrow> i < TAB_COUNT"
proof -
  have tabs: "(a, SwitchTab i) \<in> set (tab_regions_from r x j ts) \<Longrightarrow> i < j + length ts" for r x j ts
    by (induction r x j ts rule: tab_regions_from.induct) (auto simp: Let_def)
  have "(a, SwitchTab i) \<notin> set (detail_regions r b j fs)" for r b j fs
    by (induction r b j fs rule: detail_regions.induct) (auto simp: Let_def)
  then show "(a, SwitchTab i) \<in> set (regions (draw_regions l lp)) \<Longrightarrow> i < TAB_COUNT"
    using tabs [of "tabs_inner l" "rx (tabs_inner l)" 0 tab_titles]
    by (auto simp: draw_regions_def tab_regions_def row_regions_def tab_titles_def TAB_COUNT_def Let_def split: if_splits)
qed

lemma hit_region: "hit_test c r cr = Some act \<Longrightarrow> \<exists>a. (a, act) \<in> set (regions cr)"
  by (auto simp: hit_test_def find_Some_iff) (metis nth_mem length_rev set_rev)

lemma click_ok:
  assumes "loop_ok lp" and "\<And>a i. (a, SwitchTab i) \<in> set (regions cr) \<Longrightarrow> i < TAB_COUNT"
  shows "loop_ok (click W clk cr mouse lp)"
proof -
  have "hit_test (column mouse) (row mouse) cr = Some (SwitchTab i) \<Longrightarrow> i < TAB_COUNT" for i
    using assms(2) hit_region by blast
  then show ?thesis using assms(1)
    by (auto simp: click_def Let_def keeps loop_ok_def split: option.split ClickAction.split GroupedRow.split)
qed

lemma mouse_ok:
  assumes "loop_ok lp" and "\<And>a i. (a, SwitchTab i) \<in> set (regions cr) \<Longrightarrow> i < TAB_COUNT"
  shows "loop_ok (on_mouse W clk cr mouse lp)"
proof -
  have "ctx_ok (snd (dispatch_mouse tab mouse (handler_context cr lp)))" for tab
    using assms(1) by (simp add: dispatch_mouse_def overview_handle_mouse_def navigate_ok keeps
        split: option.split MouseEventKind.split)
  then show ?thesis
    using assms(1) click_ok [OF assms]
    by (auto simp: on_mouse_def perform_ok split: prod.split option.split) (metis snd_conv)
qed

lemma fallback_ok:
  assumes "loop_ok lp"
  shows "loop_ok (fallback_key clk cr ev lp)"
proof -
  have either: "loop_ok x \<Longrightarrow> loop_ok y \<Longrightarrow> loop_ok (if b then x else y)" for b and x y :: "'a UiLoop" by simp
  obtain b ctx where clear: "clear_all_with_confirmation clk (handler_context cr lp) = (b, ctx)" by fastforce
  then have "ctx_ok ctx" using clear_all_ok assms by (metis ctx_loop(2))
  then show ?thesis
    unfolding fallback_key_def Let_def
    by (intro either) (auto simp: clear with_ui_ok keeps assms)
qed

lemma key_ok:
  assumes "loop_ok lp" and "plain_key ev"
  shows "\<exists>lp'. on_key W clk cr ev lp = Some lp' \<and> loop_ok lp'"
proof -
  define lp1 where "lp1 = with_ui (reset_confirmations (code ev)) lp"
  have "loop_ok lp1" unfolding lp1_def by (intro with_ui_ok assms) (simp add: reset_confirmations_def keeps)
  moreover from this obtain e ctx where "dispatch_key W clk (selected_tab (lp_ui lp1)) ev (handler_context cr lp1) = Some (e, ctx)"
    and "ctx_ok ctx"
    using dispatch_key_ok [OF _ assms(2), of "handler_context cr lp1" W clk "selected_tab (lp_ui lp1)"] by auto
  ultimately show ?thesis
    using assms(1) fallback_ok [of lp1 clk cr ev] by (cases e) (simp_all add: on_key_def perform_ok Let_def flip: lp1_def)
qed

lemma refresh_ok: "loop_ok (refresh_data W t lp) = loop_ok lp"
  by (simp add: refresh_data_def regroup_def Let_def)

lemma settle_ok: "ui_ok h (settle_selection lp) = ui_ok h (lp_ui lp)"
  by (simp add: settle_selection_def Let_def keeps)

text \<open>The state that a turn shows, and the rest of the turn once it is drawn.\<close>

definition shown :: "'f UiEnv \<Rightarrow> Turn \<Rightarrow> 'f UiLoop \<Rightarrow> 'f UiLoop" where
  "shown W t lp = (let lp = refresh_data W t lp in lp\<lparr>lp_ui := settle_selection lp\<rparr>)"

definition polled :: "Turn \<Rightarrow> 'f UiLoop \<Rightarrow> 'f UiLoop" where
  "polled t lp = with_ui (expire_message (event_clock t)) (with_ui (update_visible_rows (height t)) lp)"

definition react :: "'f UiEnv \<Rightarrow> Turn \<Rightarrow> ClickableRegions \<Rightarrow> 'f UiLoop \<Rightarrow> 'f UiLoop option" where
  "react W t cr lp =
     (case event t of
        Some (Mouse mouse) \<Rightarrow> Some (on_mouse W (event_clock t) cr mouse lp)
      | Some (Key ev) \<Rightarrow> on_key W (event_clock t) cr ev lp
      | _ \<Rightarrow> Some lp)"

lemma turn_drawn:
  "ui_turn W t lp = (case draw W t (shown W t lp) of None \<Rightarrow> None | Some cr \<Rightarrow> react W t cr (polled t (shown W t lp)))"
  by (simp add: ui_turn_def shown_def polled_def react_def Let_def split: option.split Event.split)

text \<open>What the other components give a turn: host names that are not cut inside a character, and the
  names of a hash map's entries in some order. The keys typed are ASCII.\<close>

definition frame_ok :: "Turn \<Rightarrow> bool" where
  "frame_ok t \<longleftrightarrow> (\<forall>a h. host_names t a = Some h \<longrightarrow> host_fits h) \<and> (\<forall>ns. set (name_order t ns) = set ns)"

definition plain_turn :: "Turn \<Rightarrow> bool" where
  "plain_turn t \<longleftrightarrow> frame_ok t \<and> (case event t of Some (Key ev) \<Rightarrow> plain_key ev | _ \<Rightarrow> True)"

lemma shown_ok: "loop_ok (shown W t lp) = loop_ok lp"
  by (simp add: shown_def Let_def settle_ok refresh_ok flip: loop_ok_def)

lemma polled_ok: "loop_ok lp \<Longrightarrow> loop_ok (polled t lp)"
  unfolding polled_def
  by (intro with_ui_ok) (simp_all add: expire_message_def update_visible_rows_def keeps split: option.split)

lemma snapshot_rows: "set (get_filtered_connections E clk b1 b2 conns q) \<subseteq> set conns"
  by (auto simp: get_filtered_connections_def Let_def)

lemma shown_rows: "set (lp_connections (shown W t lp)) \<subseteq> set (lp_connections lp) \<union> set (app_snapshot (lp_app lp))"
  by (simp add: shown_def refresh_data_def regroup_def sort_connections_def get_connections_def Let_def snapshot_rows le_supI2)

lemma shown_rows_fit: "loop_ok lp \<Longrightarrow> rows_fit lp \<Longrightarrow> rows_fit (shown W t lp)"
  using shown_rows [of W t lp] by (fastforce simp: rows_fit_def loop_ok_def names_fit_def)

lemma polled_rows [simp]: "rows_fit (polled t lp) = rows_fit lp"
  by (simp add: polled_def with_ui_def rows_fit_def)

lemma content_drawn: "frame_ok t \<Longrightarrow> rows_fit lp \<Longrightarrow> draw_content W t lp = Some ()"
  using flat_drawn [of "dns_resolver W t" "lp_connections lp" "lp_ui lp"] details_drawn [of "lp_ui lp" "lp_connections lp"]
    grouped_drawn [of "dns_resolver W t" "lp_ui lp" "lp_rows lp"]
    top_drawn [of "name_order t" "lp_connections lp" "rates W" "positive_rate W" "rate_order W"]
  by (auto simp: draw_content_def frame_ok_def rows_fit_def resolver_fits_def dns_resolver_def Let_def)

lemma draw_returns:
  assumes "frame_ok t" and "rows_fit lp" and "filter_input_text (lp_ui lp) \<noteq> None"
  shows "\<exists>cr. draw W t lp = Some cr \<and> (\<forall>a i. (a, SwitchTab i) \<in> set (regions cr) \<longrightarrow> i < TAB_COUNT)"
  using assms(3) tab_region_exists [of _ _ "layout t" lp] content_drawn [OF assms(1,2), of W] by (auto simp: draw_def)

lemma rows_kept: "lp_connections (on_mouse W clk cr mouse lp) = lp_connections lp"
  "on_key W clk cr ev lp = Some lp' \<Longrightarrow> lp_connections lp' = lp_connections lp"
proof -
  have perform: "lp_connections (perform W clk effects (take_back ctx lp)) = lp_connections lp" for effects ctx and lp :: "'a UiLoop"
    by (simp add: perform_def take_back_def split: prod.split)
  show "lp_connections (on_mouse W clk cr mouse lp) = lp_connections lp"
    by (simp add: on_mouse_def perform click_def Let_def split: prod.split option.split ClickAction.split GroupedRow.split)
  have either: "lp_connections x = cs \<Longrightarrow> lp_connections y = cs \<Longrightarrow> lp_connections (if b then x else y) = cs"
    for b cs and x y :: "'a UiLoop" by simp
  have "lp_connections (fallback_key clk cr ev lp) = lp_connections lp" for lp :: "'a UiLoop"
    unfolding fallback_key_def Let_def by (intro either) (simp_all add: with_ui_def take_back_def split: prod.split)
  then show "on_key W clk cr ev lp = Some lp' \<Longrightarrow> lp_connections lp' = lp_connections lp"
    by (auto simp: on_key_def perform with_ui_def Let_def split: if_splits option.splits prod.splits)
qed

lemma turn_ok:
  assumes "loop_ok lp" and "rows_fit lp" and "plain_turn t"
  shows "\<exists>lp'. ui_turn W t lp = Some lp' \<and> loop_ok lp' \<and> rows_fit lp'"
proof -
  let ?lp = "polled t (shown W t lp)"
  have ok: "loop_ok (shown W t lp)" "rows_fit (shown W t lp)" using assms(1,2) by (simp_all add: shown_ok shown_rows_fit)
  then have "filter_input_text (lp_ui (shown W t lp)) \<noteq> None"
    using edits_ok(4) [of "app_show_historic (lp_app (shown W t lp))" "lp_ui (shown W t lp)"]
    by (cases "filter_mode (lp_ui (shown W t lp))") (simp add: loop_ok_def, simp add: filter_input_text_def)
  then obtain cr where cr: "draw W t (shown W t lp) = Some cr"
    and tabs: "\<And>a i. (a, SwitchTab i) \<in> set (regions cr) \<Longrightarrow> i < TAB_COUNT"
    using draw_returns [OF _ ok(2)] assms(3) unfolding plain_turn_def by blast
  have rows: "rows_fit lp' = rows_fit ?lp" if "lp_connections lp' = lp_connections ?lp" for lp'
    using that by (simp add: rows_fit_def)
  have ready: "loop_ok ?lp" "rows_fit ?lp" using polled_ok ok by simp_all
  show ?thesis
  proof (cases "\<exists>ev. event t = Some (Key ev)")
    case True
    then obtain ev where ev: "event t = Some (Key ev)" "plain_key ev" using assms(3) by (auto simp: plain_turn_def)
    then show ?thesis using key_ok [OF ready(1) ev(2), of W "event_clock t" cr] rows [OF rows_kept(2)] ready(2) cr
      by (auto simp: turn_drawn react_def)
  next
    case False
    then show ?thesis using mouse_ok [OF ready(1) tabs] rows [OF rows_kept(1)] ready cr
      by (auto simp: turn_drawn react_def split: option.split Event.split)
  qed
qed

section \<open>Runs\<close>

text \<open>The turns of the loop, in any order with what the other threads do to the state they share
  with it: everything but the flag that only the user interface sets, with names that fit.\<close>

inductive ui_run :: "'f UiEnv \<Rightarrow> 'f UiLoop \<Rightarrow> bool" for W where
  start: "\<not> app_show_historic a \<Longrightarrow> names_fit a \<Longrightarrow> ui_run W (loop_start clk has_country_db a)"
| turn: "ui_run W lp \<Longrightarrow> plain_turn t \<Longrightarrow> ui_turn W t lp = Some lp' \<Longrightarrow> ui_run W lp'"
| others: "ui_run W lp \<Longrightarrow> app_show_historic a = app_show_historic (lp_app lp) \<Longrightarrow> names_fit a \<Longrightarrow> ui_run W (lp\<lparr>lp_app := a\<rparr>)"

lemma run_ok: "ui_run W lp \<Longrightarrow> loop_ok lp \<and> rows_fit lp"
proof (induction rule: ui_run.induct)
  case (start a clk db)
  then show ?case using default_ok [of db] by (simp add: loop_ok_def rows_fit_def loop_start_def)
next
  case (turn lp t lp')
  then show ?case using turn_ok [of lp t W] by auto
qed (simp add: loop_ok_def rows_fit_def)

text \<open>C24 (safety). As long as only ASCII characters are typed, and the names of processes and hosts are
  such that no table or graph cuts them inside a character (all ASCII names are, and all names of at
  most 19 bytes), no sequence of keys, clicks, refreshes and changes by other threads makes the user
  interface panic; one of its tabs is shown, the cursor is in the filter query, and historic
  connections are shown exactly when the snapshot has them.\<close>

theorem ui_never_panics:
  assumes "ui_run W lp" and "plain_turn t"
  shows "ui_turn W t lp \<noteq> None \<and> selected_tab (lp_ui lp) < length tab_titles
    \<and> filter_cursor_position (lp_ui lp) \<le> length (filter_query (lp_ui lp))
    \<and> show_historic (lp_ui lp) = app_show_historic (lp_app lp)"
proof -
  have ok: "loop_ok lp" "rows_fit lp" using run_ok [OF assms(1)] by simp_all
  then show ?thesis using turn_ok [OF ok assms(2), of W] by (auto simp: loop_ok_def ui_ok_def TAB_COUNT_def tab_titles_def)
qed

definition sample_ui_env :: "nat UiEnv" where
  "sample_ui_env = \<lparr>text_env = plain_env, resolves_names = False, show_ptr_lookups = False, rates = count_rates, positive_rate = (\<lambda>r. 0 < r), rate_order = default,
     bandwidth = key created_at default, clipboard_error = (\<lambda>v. None)\<rparr>"

definition sample_app :: "nat AppState" where
  "sample_app = \<lparr>app_tracker = with_config TrackerConfig_default, app_snapshot = [], app_stats = AppStats_default sample_clock,
     app_history = TrafficHistory_new 60, app_show_historic = False\<rparr>"

definition sample_turn :: "KeyCode \<Rightarrow> Turn" where
  "sample_turn k = \<lparr>refresh_clock = \<lparr>wall = 0, mono = 0\<rparr>, event_clock = \<lparr>wall = 0, mono = 0\<rparr>, hash_order = id,
     name_order = id, host_names = (\<lambda>a. None), is_loading = False, layout = \<lparr>tabs_inner = \<lparr>rx = 1, ry = 1, rwidth = 78, rheight = 1\<rparr>,
       table_area = \<lparr>rx = 0, ry = 3, rwidth = 56, rheight = 20\<rparr>, table_inner = \<lparr>rx = 1, ry = 4, rwidth = 54, rheight = 18\<rparr>,
       detail_panes = []\<rparr>,
     height = Some 24, event = Some (Key \<lparr>code = k, modifiers = {}, kind = Press\<rparr>)\<rparr>"

lemma ui_never_panics_witness:
  "ui_turn sample_ui_env (sample_turn Esc) (loop_start \<lparr>wall = 0, mono = 0\<rparr> True sample_app) \<noteq> None"
proof -
  have "ui_run sample_ui_env (loop_start \<lparr>wall = 0, mono = 0\<rparr> True sample_app)"
    by (rule ui_run.start) (simp_all add: sample_app_def names_fit_def)
  moreover have "plain_turn (sample_turn Esc)" by (simp add: plain_turn_def frame_ok_def sample_turn_def plain_key_def)
  ultimately show ?thesis using ui_never_panics by blast
qed

section \<open>The filter line and other characters\<close>

definition edit :: "UIState \<Rightarrow> bool \<times> bytes \<times> nat" where
  "edit ui = (filter_mode ui, filter_query ui, filter_cursor_position ui)"

lemma edit_settle: "edit (settle_selection lp) = edit (lp_ui lp)"
  by (simp add: edit_def settle_selection_def ensure_valid_selection_def ensure_valid_grouped_selection_def
      set_selected_by_index_def set_selected_grouped_by_index_def select_row_def Let_def split: GroupedRow.split)

lemma edit_between:
  "edit (reset_confirmations k ui) = edit ui" "edit (expire_message clk ui) = edit ui" "edit (update_visible_rows h ui) = edit ui"
  by (simp_all add: edit_def reset_confirmations_def expire_message_def update_visible_rows_def split: option.split)

lemma edit_refresh: "edit (lp_ui (refresh_data W t lp)) = edit (lp_ui lp)"
  by (simp add: refresh_data_def regroup_def Let_def)

text \<open>The cursor of the line in its place among the bytes of a character: the line cannot be drawn.\<close>

lemma edit_shown: "edit (lp_ui (shown W t lp)) = edit (lp_ui lp)"
  by (simp add: shown_def Let_def edit_settle edit_refresh)

lemma cursor_in_character:
  assumes "edit (lp_ui lp) = (True, take i q @ c @ drop i q, i + 1)" and "i \<le> length q"
    and "1 < length c" and "is_cont (c ! 1)" and "\<not> is_loading t"
  shows "ui_turn W t lp = None"
proof -
  have "edit (lp_ui (shown W t lp)) = (True, take i q @ c @ drop i q, i + 1)" using assms(1) by (simp add: edit_shown)
  moreover have "(take i q @ c @ drop i q) ! (i + 1) = c ! 1" using assms(2,3) by (simp add: nth_append)
  ultimately have "has_filter_line (lp_ui (shown W t lp))" "filter_input_text (lp_ui (shown W t lp)) = None"
    using assms(2-4) by (simp_all add: has_filter_line_def filter_input_text_def edit_def str_insert_def is_char_boundary_def)
  then have "draw W t (shown W t lp) = None" using assms(5) by (simp add: draw_def split: bind_splits)
  then show ?thesis by (simp add: turn_drawn)
qed

lemma char_typed:
  assumes "edit (lp_ui lp) = (True, q, i)" and "is_char_boundary q i"
    and "kind ev = Press" and "code ev = KeyChar c" and "\<not> is_filter_backspace_char c (modifiers ev)"
  shows "\<exists>lp'. on_key W clk cr ev lp = Some lp' \<and> edit (lp_ui lp') = (True, take i q @ c @ drop i q, i + 1)
    \<and> finished lp' = finished lp"
proof -
  define lp1 where "lp1 = with_ui (reset_confirmations (code ev)) lp"
  let ?ui = "(lp_ui lp1)\<lparr>filter_query := take i q @ c @ drop i q, filter_cursor_position := i + 1\<rparr>"
  have e: "edit (lp_ui lp1) = (True, q, i)" "finished lp1 = finished lp"
    using assms(1) by (simp_all add: lp1_def with_ui_def edit_between)
  then have "filter_add_char c (lp_ui lp1) = Some ?ui"
    using assms(2) by (simp add: filter_add_char_def str_insert_def edit_def)
  then have "dispatch_key W clk (selected_tab (lp_ui lp1)) ev (handler_context cr lp1)
      = Some (Some [RefreshData], (handler_context cr lp1)\<lparr>ui_state := ?ui\<rparr>)"
    using e assms(4,5) by (simp add: dispatch_key_def overview_handle_key_def handle_filter_mode_key_def Let_def
        handler_context_def edit_def)
  then show ?thesis
    using assms(3) e by (simp add: on_key_def Let_def perform_def apply_effects_def take_back_def edit_def flip: lp1_def)
qed

text \<open>C25 (error). A character that is not ASCII, typed into the filter of a program that shows only names
  that fit, is taken; the program stops with a panic when the next frame is drawn.\<close>

theorem non_ascii_key_crashes:
  assumes "ui_run W lp" and "filter_mode (lp_ui lp)" and "frame_ok t"
    and "event t = Some (Key ev)" and "kind ev = Press" and "code ev = KeyChar c"
    and "1 < length c" and "is_cont (c ! 1)" and "\<not> is_loading t'"
  shows "\<exists>lp'. ui_turn W t lp = Some lp' \<and> ui_turn W t' lp' = None"
proof -
  let ?q = "filter_query (lp_ui lp)" and ?i = "filter_cursor_position (lp_ui lp)"
  have ui: "list_all (\<lambda>b. b < 128) ?q" "?i \<le> length ?q"
    using run_ok [OF assms(1)] by (simp_all add: loop_ok_def ui_ok_def)
  have rows: "rows_fit (shown W t lp)" using run_ok [OF assms(1)] shown_rows_fit by blast
  have edit: "edit (lp_ui lp) = (True, ?q, ?i)" using assms(2) by (simp add: edit_def)
  have "edit (lp_ui (shown W t lp)) = (True, ?q, ?i)" using edit by (simp add: edit_shown)
  then have "filter_input_text (lp_ui (shown W t lp)) \<noteq> None"
    using ui by (simp add: filter_input_text_def edit_def str_insert_def ascii_boundary)
  then obtain cr where cr: "draw W t (shown W t lp) = Some cr" using draw_returns [OF assms(3) rows] by blast
  have "edit (lp_ui (polled t (shown W t lp))) = (True, ?q, ?i)"
    using edit by (simp add: polled_def with_ui_def edit_between edit_shown)
  moreover have "\<not> is_filter_backspace_char c (modifiers ev)"
    using assms(7) by (auto simp: is_filter_backspace_char_def ascii_def)
  ultimately obtain lp' where "on_key W (event_clock t) cr ev (polled t (shown W t lp)) = Some lp'"
    and e: "edit (lp_ui lp') = (True, take ?i ?q @ c @ drop ?i ?q, ?i + 1)"
    using char_typed ascii_boundary [OF ui] assms(5,6) by blast
  then have "ui_turn W t lp = Some lp'" using cr assms(4) by (simp add: turn_drawn react_def)
  then show ?thesis using cursor_in_character [OF e ui(2) assms(7,8,9)] by blast
qed

lemma tab_shown: "selected_tab (lp_ui (shown W t lp)) = selected_tab (lp_ui lp)"
proof -
  have "selected_tab (settle_selection lp) = selected_tab (lp_ui lp)" for lp :: "'a UiLoop"
    by (simp add: settle_selection_def ensure_valid_selection_def ensure_valid_grouped_selection_def
        set_selected_by_index_def set_selected_grouped_by_index_def select_row_def Let_def split: GroupedRow.split)
  moreover have "selected_tab (lp_ui (refresh_data W t lp)) = selected_tab (lp_ui lp)"
    by (simp add: refresh_data_def regroup_def Let_def)
  ultimately show ?thesis by (simp add: shown_def Let_def)
qed

lemma tab_polled: "selected_tab (lp_ui (polled t lp)) = selected_tab (lp_ui lp)"
  by (simp add: polled_def with_ui_def expire_message_def update_visible_rows_def split: option.split)

lemma filter_line_opened: "\<exists>lp. ui_run sample_ui_env lp \<and> filter_mode (lp_ui lp)"
proof -
  let ?start = "loop_start \<lparr>wall = 0, mono = 0\<rparr> True sample_app" and ?t = "sample_turn (KeyChar (ascii ''/''))"
  have run: "ui_run sample_ui_env ?start" by (rule ui_run.start) (simp_all add: sample_app_def names_fit_def)
  have plain: "plain_turn ?t" by (simp add: plain_turn_def frame_ok_def sample_turn_def plain_key_def ascii_def)
  then obtain lp where lp: "ui_turn sample_ui_env ?t ?start = Some lp" using turn_ok run_ok [OF run] by blast
  let ?lp = "polled ?t (shown sample_ui_env ?t ?start)"
  have "edit (lp_ui ?lp) = edit UIState_default"
    by (simp add: polled_def with_ui_def edit_between edit_shown) (simp add: loop_start_def edit_def)
  then have "\<not> filter_mode (lp_ui ?lp)" by (simp add: edit_def UIState_default_def)
  moreover have "selected_tab (lp_ui ?lp) = 0"
    by (simp add: tab_polled tab_shown) (simp add: loop_start_def UIState_default_def)
  ultimately have "filter_mode (lp_ui lp)"
    using lp by (auto simp: turn_drawn react_def on_key_def dispatch_key_def overview_handle_key_def
        try_handle_connection_nav_def overview_normal_key_def handler_context_def take_back_def perform_def apply_effects_def
        with_ui_def reset_confirmations_def enter_filter_mode_def sample_turn_def Let_def ascii_def
        split: option.splits)
  then show ?thesis using ui_run.turn [OF run plain lp] by blast
qed

lemma non_ascii_key_crashes_witness:
  "\<exists>lp lp'. ui_run sample_ui_env lp \<and> ui_turn sample_ui_env (sample_turn (KeyChar [195, 169])) lp = Some lp'
    \<and> ui_turn sample_ui_env (sample_turn Esc) lp' = None"
proof -
  obtain lp where lp: "ui_run sample_ui_env lp" "filter_mode (lp_ui lp)" using filter_line_opened by blast
  have "is_cont 169" by (simp add: is_cont_def)
  then show ?thesis
    using non_ascii_key_crashes [OF lp, of "sample_turn (KeyChar [195, 169])" _ "[195, 169]" "sample_turn Esc"] lp(1)
    by (auto simp: sample_turn_def frame_ok_def)
qed

section \<open>Names that are not UTF-8\<close>

lemma scroll_fits: "n \<le> m \<Longrightarrow> compute_scroll_offset i offset m n = 0"
  by (simp add: compute_scroll_offset_def Let_def)

lemma settled_flat:
  assumes "\<not> grouping_enabled (lp_ui lp)" and "length (lp_connections lp) \<le> visible_rows (lp_ui lp)"
  shows "scroll_offset (settle_selection lp) = 0" "visible_rows (settle_selection lp) = visible_rows (lp_ui lp)"
    "grouping_enabled (settle_selection lp) = grouping_enabled (lp_ui lp)"
    "selected_tab (settle_selection lp) = selected_tab (lp_ui lp)"
  using assms by (simp_all add: settle_selection_def Let_def ensure_valid_selection_def set_selected_by_index_def scroll_fits)

lemma unfiltered_rows:
  "set (get_connections E clk b1 b2 conns) = {c \<in> set conns. b1 \<and> \<not> b2 \<longrightarrow> \<not> is_ptr_lookup c}"
  "length (get_connections E clk b1 b2 conns) \<le> length conns"
  by (auto simp: get_connections_def get_filtered_connections_def Let_def trim_graphic)

lemma refreshed_all:
  assumes "needs_data_refresh lp" and "filter_query (lp_ui lp) = []" and "\<not> filter_mode (lp_ui lp)"
  shows "set (lp_connections (refresh_data W t lp))
      = {c \<in> set (app_snapshot (lp_app lp)). resolves_names W \<and> \<not> show_ptr_lookups W \<longrightarrow> \<not> is_ptr_lookup c}"
    and "length (lp_connections (refresh_data W t lp)) \<le> length (app_snapshot (lp_app lp))"
    and "lp_ui (refresh_data W t lp) = lp_ui lp"
  using assms unfiltered_rows
  by (simp_all add: refresh_data_def regroup_def sort_connections_def Let_def)

text \<open>C36 (error). The kernel lets a program call itself by any bytes; a name that the tracker recorded is
  made a string by replacing what is not UTF-8. A program whose name has eight bytes or more, none of
  them part of UTF-8 text, stops the user interface: the first frame of the overview in which one of
  its connections is in the table, here one that shows the whole snapshot, is never drawn.\<close>

theorem undecodable_name_crashes:
  assumes "c \<in> set (app_snapshot (lp_app lp))" and "length (app_snapshot (lp_app lp)) \<le> visible_rows (lp_ui lp)"
    and "process_name c = Some (from_utf8_lossy comm)" and "Connection.pid c \<noteq> None"
    and "list_all undecodable comm" and "8 \<le> length comm"
    and "selected_tab (lp_ui lp) = 0" and "\<not> grouping_enabled (lp_ui lp)"
    and "filter_query (lp_ui lp) = []" and "\<not> filter_mode (lp_ui lp)"
    and "needs_data_refresh lp" and "resolves_names W \<and> \<not> show_ptr_lookups W \<longrightarrow> \<not> is_ptr_lookup c"
    and "\<not> is_loading t"
  shows "ui_turn W t lp = None"
proof -
  let ?lp = "refresh_data W t lp"
  note fresh = refreshed_all [OF assms(11,9,10), of W t]
  have rows: "length (lp_connections ?lp) \<le> visible_rows (lp_ui ?lp)" "\<not> grouping_enabled (lp_ui ?lp)" "c \<in> set (lp_connections ?lp)"
    using fresh assms(1,2,8,12) by simp_all
  note flat = settled_flat [OF rows(2,1)]
  have "draw_connections_list (settle_selection ?lp) dns (lp_connections ?lp) = None" for dns
    using undecodable_panics [OF assms(5,6,3,4)] rows(1) flat
    by (intro name_not_drawn [OF rows(3)]) (simp_all add: window_all)
  then have "draw W t (shown W t lp) = None"
    using assms(7,8,13) flat fresh(3) by (simp add: draw_def draw_content_def shown_def Let_def)
  then show ?thesis by (simp add: turn_drawn)
qed

definition undecodable_sample :: Connection where
  "undecodable_sample = (Connection_new \<lparr>wall = 0, mono = 0\<rparr> Tcp \<lparr>ip = V4 (Ipv4Addr 10 0 0 1), port = 12345\<rparr>
     \<lparr>ip = V4 (Ipv4Addr 93 184 216 34), port = 443\<rparr> (PS_Tcp SynSent))
     \<lparr>Connection.pid := Some 1234, process_name := Some (from_utf8_lossy (replicate 15 255))\<rparr>"

theorem undecodable_name_crashes_witness:
  "ui_turn sample_ui_env (sample_turn Esc)
     (loop_start \<lparr>wall = 0, mono = 0\<rparr> True (sample_app\<lparr>app_snapshot := [undecodable_sample]\<rparr>)) = None"
  by (rule undecodable_name_crashes [where c = undecodable_sample and comm = "replicate 15 255"])
    (simp_all add: loop_start_def UIState_default_def undecodable_sample_def sample_app_def sample_ui_env_def sample_turn_def
      undecodable_def list_all_iff)

text \<open>While the filter is edited, the key that should quit at once is text.\<close>

lemma ctrl_c_is_text:
  assumes "loop_ok lp" and "filter_mode (lp_ui lp)"
  shows "\<exists>lp'. on_key W clk cr \<lparr>code = KeyChar (ascii ''c''), modifiers = {CONTROL}, kind = Press\<rparr> lp = Some lp'
    \<and> finished lp' = finished lp \<and> length (filter_query (lp_ui lp')) = length (filter_query (lp_ui lp)) + 1"
proof -
  let ?q = "filter_query (lp_ui lp)" and ?i = "filter_cursor_position (lp_ui lp)"
  have "is_char_boundary ?q ?i" using assms(1) by (simp add: loop_ok_def ui_ok_def ascii_boundary)
  then show ?thesis
    using char_typed [of lp ?q ?i "\<lparr>code = KeyChar (ascii ''c''), modifiers = {CONTROL}, kind = Press\<rparr>" "ascii ''c''" W clk cr] assms
    by (auto simp: edit_def is_filter_backspace_char_def ascii_def)
qed

text \<open>\<open>h\<close> opens the help, the next tab is the overview; then \<open>h\<close> leads to the overview, not to the help.\<close>

lemma help_flag_stale:
  assumes "selected_tab ui \<noteq> 4" and "\<not> show_help ui"
  defines "h \<equiv> \<lambda>ui. let help = \<not> show_help ui in ui\<lparr>show_help := help, selected_tab := if help then 4 else (0 :: nat)\<rparr>"
  shows "selected_tab (h ui) = 4" and "selected_tab (next_tab (h ui)) = 0" and "selected_tab (h (next_tab (h ui))) = 0"
  using assms(2) by (simp_all add: h_def Let_def next_tab_def TAB_COUNT_def)

section \<open>Clicks on rows\<close>

lemma find_unique:
  assumes "x \<in> set xs" and "P x" and "\<And>y. y \<in> set xs \<Longrightarrow> P y \<Longrightarrow> y = x"
  shows "find P xs = Some x"
proof (cases "find P xs")
  case None
  then show ?thesis using assms(1,2) by (simp add: find_None_iff)
next
  case (Some y)
  then obtain i where "i < length xs" "P (xs ! i)" "y = xs ! i" unfolding find_Some_iff by blast
  then show ?thesis using Some assms(3) [of y] by simp
qed

lemma find_append: "find P xs = Some x \<Longrightarrow> find P (xs @ ys) = Some x"
  by (induction xs) auto

lemma row_coordinate:
  assumes "unat (y :: u16) + h < 65536" and "j + 2 < h"
  shows "unat (y + 2 + of_nat j) = unat y + 2 + j" and "unat (y + 2 + of_nat j + 1) = unat y + 2 + j + 1"
proof -
  have "y + 2 + of_nat j = of_nat (unat y + 2 + j)" "y + 2 + of_nat j + 1 = of_nat (unat y + 2 + j + 1)"
    by simp_all
  then show "unat (y + 2 + of_nat j) = unat y + 2 + j" "unat (y + 2 + of_nat j + 1) = unat y + 2 + j + 1"
    using assms by (simp_all only: unat_of_nat) simp_all
qed

text \<open>A click within the line of the table that shows the \<open>i\<close>-th visible row selects that row.\<close>

lemma row_click:
  assumes "unat (ry inner) + unat (rheight inner) < 65536" and "i + 2 < unat (rheight inner)" and "offset + i < n"
    and "rx inner \<le> c" and "c < rx inner + rwidth inner"
  shows "hit_test c (ry inner + 2 + of_nat i) \<lparr>regions = tabs @ row_regions inner offset n, scroll_area = sa\<rparr>
    = Some (SelectConnection (offset + i))"
proof -
  let ?r = "ry inner + 2 + of_nat i"
  let ?region = "\<lambda>j. (\<lparr>rx = rx inner, ry = ry inner + 2 + of_nat j, rwidth = rwidth inner, rheight = 1\<rparr>, SelectConnection (offset + j))"
  have at: "in_rect c ?r (fst (?region j)) \<longleftrightarrow> j = i" if "j + 2 < unat (rheight inner)" for j
    using row_coordinate [OF assms(1) that] row_coordinate [OF assms(1,2)] assms(4,5)
    by (auto simp: in_rect_def word_le_nat_alt word_less_nat_alt)
  have rows: "row_regions inner offset n = map ?region (takeWhile (\<lambda>i. offset + i < n) [0..<unat (rheight inner) - 2])"
    by (simp add: row_regions_def Let_def)
  have js: "j \<in> set (takeWhile (\<lambda>i. offset + i < n) [0..<m]) \<longleftrightarrow> j < m \<and> offset + j < n" for j m
    by (induction m) (auto simp: takeWhile_append dest: set_takeWhileD)
  have "find (\<lambda>(a, _). in_rect c ?r a) (rev (row_regions inner offset n)) = Some (?region i)"
  proof (rule find_unique)
    show "?region i \<in> set (rev (row_regions inner offset n))" using assms(2,3) by (simp add: rows js)
    show "case ?region i of (a, _) \<Rightarrow> in_rect c ?r a" using at [OF assms(2)] by simp
  qed (use at in \<open>auto simp: rows js\<close>)
  then have "find (\<lambda>(a, _). in_rect c ?r a) (rev (tabs @ row_regions inner offset n)) = Some (?region i)"
    by (simp add: find_append)
  then show ?thesis by (simp add: hit_test_def)
qed

end
