(* ===== verification/AddrScope.thy ===== *)
theory AddrScope
  imports RustStd
begin

text \<open>
  \<^verbatim>\<open>network/bogon.rs\<close>: the scope of an address, with which the program marks remote ends. The
  reference is a table of CIDR blocks: the scope of an address is that of the first block that
  holds it.
\<close>

unbundle bit_operations_syntax

section \<open>The code\<close>

datatype Scope =
  Public | Loopback | Private | LinkLocal | Cgnat | Multicast | Broadcast | Documentation | Benchmarking
  | Unspecified | Reserved | UniqueLocal | Discard | Ipv4Mapped

definition label :: "Scope \<Rightarrow> bytes" where
  "label s =
     (case s of
        Public \<Rightarrow> ascii ''PUBLIC'' | Loopback \<Rightarrow> ascii ''LOOPBACK'' | Private \<Rightarrow> ascii ''PRIVATE''
      | LinkLocal \<Rightarrow> ascii ''LINK-LOCAL'' | Cgnat \<Rightarrow> ascii ''CGNAT'' | Multicast \<Rightarrow> ascii ''MULTICAST''
      | Broadcast \<Rightarrow> ascii ''BROADCAST'' | Documentation \<Rightarrow> ascii ''DOCUMENTATION''
      | Benchmarking \<Rightarrow> ascii ''BENCHMARKING'' | Unspecified \<Rightarrow> ascii ''UNSPECIFIED''
      | Reserved \<Rightarrow> ascii ''RESERVED'' | UniqueLocal \<Rightarrow> ascii ''UNIQUE-LOCAL'' | Discard \<Rightarrow> ascii ''DISCARD''
      | Ipv4Mapped \<Rightarrow> ascii ''IPV4-MAPPED'')"

fun classify_v4 :: "ipv4 \<Rightarrow> Scope" where
  "classify_v4 (Ipv4Addr a b c d) =
     (if a = 0 \<and> b = 0 \<and> c = 0 \<and> d = 0 then Unspecified
      else if a = 127 then Loopback
      else if a = 10 \<or> a = 172 \<and> 16 \<le> b \<and> b \<le> 31 \<or> a = 192 \<and> b = 168 then Private
      else if a = 169 \<and> b = 254 then LinkLocal
      else if a = 100 \<and> 64 \<le> b \<and> b \<le> 127 then Cgnat
      else if a = 192 \<and> b = 0 \<and> c = 2 \<or> a = 198 \<and> b = 51 \<and> c = 100 \<or> a = 203 \<and> b = 0 \<and> c = 113 then Documentation
      else if a = 198 \<and> (b = 18 \<or> b = 19) then Benchmarking
      else if a = 255 \<and> b = 255 \<and> c = 255 \<and> d = 255 then Broadcast
      else if 224 \<le> a \<and> a \<le> 239 then Multicast
      else if a \<ge> 240 then Reserved
      else Public)"

fun classify_v6 :: "ipv6 \<Rightarrow> Scope" where
  "classify_v6 (Ipv6Addr s0 s1 s2 s3 s4 s5 s6 s7) =
     (if s0 = 0 \<and> s1 = 0 \<and> s2 = 0 \<and> s3 = 0 \<and> s4 = 0 \<and> s5 = 0 \<and> s6 = 0 \<and> s7 = 0 then Unspecified
      else if s0 = 0 \<and> s1 = 0 \<and> s2 = 0 \<and> s3 = 0 \<and> s4 = 0 \<and> s5 = 0 \<and> s6 = 0 \<and> s7 = 1 then Loopback
      else if s0 = 0 \<and> s1 = 0 \<and> s2 = 0 \<and> s3 = 0 \<and> s4 = 0 \<and> s5 = 0xffff then Ipv4Mapped
      else if s0 = 0x0100 \<and> s1 = 0 \<and> s2 = 0 \<and> s3 = 0 then Discard
      else if s0 = 0x2001 \<and> s1 = 0x0db8 then Documentation
      else if drop_bit 8 s0 = 0xff then Multicast
      else if s0 AND 0xffc0 = 0xfe80 then LinkLocal
      else if s0 AND 0xfe00 = 0xfc00 then UniqueLocal
      else Public)"

fun classify :: "ip_addr \<Rightarrow> Scope" where
  "classify (V4 a) = classify_v4 a"
| "classify (V6 a) = classify_v6 a"

section \<open>The reference: CIDR blocks\<close>

text \<open>An address as a number, in base \<open>m\<close>, and a block as an address and a prefix length: the
  addresses that agree with it in the prefix.\<close>

definition digits :: "nat \<Rightarrow> nat list \<Rightarrow> nat" where
  "digits m ds = foldl (\<lambda>x s. x * m + s) 0 ds"

definition value4 :: "ipv4 \<Rightarrow> nat" where
  "value4 a = digits 256 (map unat (octets4 a))"

fun groups6 :: "ipv6 \<Rightarrow> u16 list" where
  "groups6 (Ipv6Addr a b c d e f g h) = [a, b, c, d, e, f, g, h]"

definition value6 :: "ipv6 \<Rightarrow> nat" where
  "value6 a = digits 65536 (map unat (groups6 a))"

type_synonym 'a cidr = "'a \<times> nat"

definition within :: "nat \<Rightarrow> ('a \<Rightarrow> nat) \<Rightarrow> 'a \<Rightarrow> 'a cidr \<Rightarrow> bool" where
  "within width value a block \<longleftrightarrow>
     value a div 2 ^ (width - snd block) = value (fst block) div 2 ^ (width - snd block)"

fun first_block :: "nat \<Rightarrow> ('a \<Rightarrow> nat) \<Rightarrow> 'a \<Rightarrow> ('a cidr \<times> Scope) list \<Rightarrow> Scope" where
  "first_block width value a [] = Public"
| "first_block width value a ((block, s) # blocks) =
     (if within width value a block then s else first_block width value a blocks)"

definition blocks4 :: "(ipv4 cidr \<times> Scope) list" where
  "blocks4 =
     [((Ipv4Addr 0 0 0 0, 32), Unspecified), ((Ipv4Addr 127 0 0 0, 8), Loopback),
      ((Ipv4Addr 10 0 0 0, 8), Private), ((Ipv4Addr 172 16 0 0, 12), Private), ((Ipv4Addr 192 168 0 0, 16), Private),
      ((Ipv4Addr 169 254 0 0, 16), LinkLocal), ((Ipv4Addr 100 64 0 0, 10), Cgnat),
      ((Ipv4Addr 192 0 2 0, 24), Documentation), ((Ipv4Addr 198 51 100 0, 24), Documentation),
      ((Ipv4Addr 203 0 113 0, 24), Documentation), ((Ipv4Addr 198 18 0 0, 15), Benchmarking),
      ((Ipv4Addr 255 255 255 255, 32), Broadcast), ((Ipv4Addr 224 0 0 0, 4), Multicast),
      ((Ipv4Addr 240 0 0 0, 4), Reserved)]"

definition blocks6 :: "(ipv6 cidr \<times> Scope) list" where
  "blocks6 =
     [((Ipv6Addr 0 0 0 0 0 0 0 0, 128), Unspecified), ((Ipv6Addr 0 0 0 0 0 0 0 1, 128), Loopback),
      ((Ipv6Addr 0 0 0 0 0 0xffff 0 0, 96), Ipv4Mapped), ((Ipv6Addr 0x0100 0 0 0 0 0 0 0, 64), Discard),
      ((Ipv6Addr 0x2001 0x0db8 0 0 0 0 0 0, 32), Documentation), ((Ipv6Addr 0xff00 0 0 0 0 0 0 0, 8), Multicast),
      ((Ipv6Addr 0xfe80 0 0 0 0 0 0 0, 10), LinkLocal), ((Ipv6Addr 0xfc00 0 0 0 0 0 0 0, 7), UniqueLocal)]"

section \<open>Prefixes\<close>

text \<open>Dividing takes digits off the end.\<close>

lemma digits_snoc: "digits m (ds @ [s]) = digits m ds * m + s"
  by (simp add: digits_def)

lemma digits_take:
  "\<forall>d \<in> set ds. d < m \<Longrightarrow> digits m ds div m ^ k = digits m (take (length ds - k) ds)"
proof (induction k arbitrary: ds)
  case (Suc k)
  show ?case
  proof (cases ds rule: rev_cases)
    case (snoc ds' d)
    have "digits m ds div m ^ Suc k = (digits m ds div m) div m ^ k" by (simp add: div_mult2_eq)
    also have "digits m ds div m = digits m ds'" using Suc.prems by (simp add: snoc digits_snoc)
    finally show ?thesis using Suc.IH [of ds'] Suc.prems by (simp add: snoc)
  qed (simp add: digits_def)
qed simp

lemma digits_eq:
  "length ds = length es \<Longrightarrow> \<forall>d \<in> set ds. d < m \<Longrightarrow> \<forall>e \<in> set es. e < m \<Longrightarrow> digits m ds = digits m es \<longleftrightarrow> ds = es"
proof (induction ds arbitrary: es rule: rev_induct)
  case (snoc d ds)
  then obtain es' e where es: "es = es' @ [e]" by (cases es rule: rev_cases) auto
  have "digits m (xs @ [x]) div m = digits m xs \<and> digits m (xs @ [x]) mod m = x" if "x < m" for xs x
    using that by (simp add: digits_snoc)
  then have "digits m (ds @ [d]) = digits m (es' @ [e]) \<longleftrightarrow> digits m ds = digits m es' \<and> d = e"
    using snoc.prems es by (metis UnI2 digits_snoc list.set_intros(1) set_append)
  then show ?case using snoc es by simp
qed (simp add: digits_def)

text \<open>A prefix that ends within a digit, a value of \<open>k\<close> bits of it being left.\<close>

lemma digits_within:
  assumes "\<forall>d \<in> set (ds @ [s]). d < k * j" and "\<forall>d \<in> set (es @ [t]). d < k * j" and "length ds = length es"
  shows "digits (k * j) (ds @ [s]) div k = digits (k * j) (es @ [t]) div k \<longleftrightarrow> ds = es \<and> s div k = t div k"
proof -
  have k: "0 < k" using assms(1) by (cases k) auto
  have cut: "digits (k * j) (xs @ [x]) div k = digits (k * j) xs * j + x div k" for xs x
  proof -
    have "digits (k * j) (xs @ [x]) = x + k * (digits (k * j) xs * j)" by (simp add: digits_snoc)
    then show ?thesis using k by simp
  qed
  have small: "s div k < j" "t div k < j" using assms(1,2) by (simp_all add: less_mult_imp_div_less mult.commute)
  have "a * j + s div k = b * j + t div k \<longleftrightarrow> a = b \<and> s div k = t div k" for a b
  proof
    assume sum: "a * j + s div k = b * j + t div k"
    have "a = (a * j + s div k) div j" using small(1) by simp
    also have "\<dots> = b" using small(2) by (simp add: sum)
    finally show "a = b \<and> s div k = t div k" using sum by simp
  qed simp
  then show ?thesis using digits_eq [OF assms(3), of "k * j"] assms(1,2) by (simp add: cut)
qed

text \<open>Two numbers of \<open>n\<close> digits of \<open>e\<close> bits agree above the last \<open>e * k + r\<close> bits when their first
  digits agree, and the next one agrees above its last \<open>r\<close> bits.\<close>

lemma digits_prefix:
  assumes ds: "\<forall>d \<in> set ds. d < 2 ^ e" "length ds = n" and es: "\<forall>d \<in> set es. d < 2 ^ e" "length es = n"
    and k: "k < n" and r: "r < e"
  shows "digits (2 ^ e) ds div 2 ^ (e * k + r) = digits (2 ^ e) es div 2 ^ (e * k + r)
    \<longleftrightarrow> take (n - k - 1) ds = take (n - k - 1) es \<and> ds ! (n - k - 1) div 2 ^ r = es ! (n - k - 1) div 2 ^ r"
proof -
  let ?i = "n - k - 1"
  have e: "(2 :: nat) ^ e = 2 ^ r * 2 ^ (e - r)" using r by (simp flip: power_add)
  have upto: "take (n - k) xs = take ?i xs @ [xs ! ?i]" if "length xs = n" for xs :: "nat list"
    using that k by (simp flip: take_Suc_conv_app_nth add: Suc_diff_Suc)
  have cut: "digits (2 ^ e) xs div 2 ^ (e * k + r) = digits (2 ^ e) (take ?i xs @ [xs ! ?i]) div 2 ^ r"
    if "\<forall>d \<in> set xs. d < 2 ^ e" "length xs = n" for xs
    using digits_take [OF that(1), of k] that(2) by (simp add: power_add power_mult div_mult2_eq upto)
  have small: "\<forall>d \<in> set (take ?i xs @ [xs ! ?i]). d < 2 ^ r * 2 ^ (e - r)"
    if "\<forall>d \<in> set xs. d < 2 ^ e" "length xs = n" for xs :: "nat list"
    using that k by (auto simp flip: e dest: in_set_takeD)
  show ?thesis
    unfolding cut [OF ds] cut [OF es] using digits_within [OF small [OF ds] small [OF es]] ds(2) es(2) by (simp flip: e)
qed

lemma take_map_unat: "take i (map unat xs) = take i (map unat ys) \<longleftrightarrow> take i xs = take i (ys :: 'a::len word list)"
proof -
  have "inj (unat :: 'a word \<Rightarrow> nat)" by (rule injI) (rule word_unat_eq_iff [THEN iffD2])
  then show ?thesis by (simp add: take_map inj_map_eq_map)
qed

lemma within4:
  assumes "0 < n" "n \<le> 32"
  shows "within 32 value4 a (b, n) \<longleftrightarrow>
    (let i = 3 - (32 - n) div 8; r = (32 - n) mod 8
     in take i (octets4 a) = take i (octets4 b) \<and> unat (octets4 a ! i) div 2 ^ r = unat (octets4 b ! i) div 2 ^ r)"
proof -
  let ?k = "(32 - n) div 8" and ?r = "(32 - n) mod 8"
  have small: "\<forall>d \<in> set (map unat (octets4 c)). d < 2 ^ 8" for c using unsigned_less [where 'b = 8] by auto
  have "?k < 4" using assms by simp
  then show ?thesis
    using digits_prefix [of "map unat (octets4 a)" 8 4 "map unat (octets4 b)" ?k ?r] small [of a] small [of b]
    by (simp add: within_def value4_def take_map_unat Let_def)
qed

lemma length_groups6 [simp]: "length (groups6 a) = 8"
  by (cases a) simp

lemma within6:
  assumes "0 < n" "n \<le> 128"
  shows "within 128 value6 a (b, n) \<longleftrightarrow>
    (let i = 7 - (128 - n) div 16; r = (128 - n) mod 16
     in take i (groups6 a) = take i (groups6 b) \<and> unat (groups6 a ! i) div 2 ^ r = unat (groups6 b ! i) div 2 ^ r)"
proof -
  let ?k = "(128 - n) div 16" and ?r = "(128 - n) mod 16"
  have small: "\<forall>d \<in> set (map unat (groups6 c)). d < 2 ^ 16" for c using unsigned_less [where 'b = 16] by auto
  have "?k < 8" using assms by simp
  then show ?thesis
    using digits_prefix [of "map unat (groups6 a)" 16 8 "map unat (groups6 b)" ?k ?r] small [of a] small [of b]
    by (simp add: within_def value6_def take_map_unat Let_def)
qed

section \<open>The code follows the table\<close>

text \<open>The ranges of an octet or a group that a shorter prefix leaves.\<close>

lemma range_div:
  fixes b :: "'a::len word"
  assumes "0 < m"
  shows "unat b div m = q \<longleftrightarrow> q * m \<le> unat b \<and> unat b < q * m + m"
  using assms div_nat_eqI [of m q "unat b"] dividend_less_times_div [of m "unat b"] times_div_less_eq_dividend [of m "unat b"]
  by (auto simp: mult.commute)

lemma blocks_v4:
  shows "within 32 value4 (Ipv4Addr p q r s) (Ipv4Addr a b c d, 32) \<longleftrightarrow> p = a \<and> q = b \<and> r = c \<and> s = d"
    and "within 32 value4 (Ipv4Addr p q r s) (Ipv4Addr a b c d, 24) \<longleftrightarrow> p = a \<and> q = b \<and> r = c"
    and "within 32 value4 (Ipv4Addr p q r s) (Ipv4Addr a b c d, 16) \<longleftrightarrow> p = a \<and> q = b"
    and "within 32 value4 (Ipv4Addr p q r s) (Ipv4Addr a b c d, 8) \<longleftrightarrow> p = a"
  by (simp_all add: within4 Let_def word_unat_eq_iff)

lemma ranges_v4:
  shows "within 32 value4 (Ipv4Addr p q r s) (Ipv4Addr a 16 0 0, 12) \<longleftrightarrow> p = a \<and> 16 \<le> q \<and> q \<le> 31"
    and "within 32 value4 (Ipv4Addr p q r s) (Ipv4Addr a 64 0 0, 10) \<longleftrightarrow> p = a \<and> 64 \<le> q \<and> q \<le> 127"
    and "within 32 value4 (Ipv4Addr p q r s) (Ipv4Addr a 18 0 0, 15) \<longleftrightarrow> p = a \<and> (q = 18 \<or> q = 19)"
    and "within 32 value4 (Ipv4Addr p q r s) (Ipv4Addr 224 0 0 0, 4) \<longleftrightarrow> 224 \<le> p \<and> p \<le> 239"
    and "within 32 value4 (Ipv4Addr p q r s) (Ipv4Addr 240 0 0 0, 4) \<longleftrightarrow> 240 \<le> p"
  using unsigned_less [of p] unsigned_less [of q]
  by (auto simp: within4 Let_def range_div word_le_nat_alt word_unat_eq_iff [of q])

text \<open>Blocks of one scope that follow each other are one case.\<close>

lemma merge_cases: "(if p then s else if q then s else t) = (if p \<or> q then s else t)"
  by simp

lemma classify_v4_table: "classify_v4 a = first_block 32 value4 a blocks4"
  by (cases a) (simp only: classify_v4.simps blocks4_def first_block.simps blocks_v4 ranges_v4 merge_cases disj_assoc conj_assoc)

lemma blocks_v6:
  shows "within 128 value6 (Ipv6Addr s0 s1 s2 s3 s4 s5 s6 s7) (Ipv6Addr a b c d e f g h, 128)
      \<longleftrightarrow> s0 = a \<and> s1 = b \<and> s2 = c \<and> s3 = d \<and> s4 = e \<and> s5 = f \<and> s6 = g \<and> s7 = h"
    and "within 128 value6 (Ipv6Addr s0 s1 s2 s3 s4 s5 s6 s7) (Ipv6Addr a b c d e f g h, 96)
      \<longleftrightarrow> s0 = a \<and> s1 = b \<and> s2 = c \<and> s3 = d \<and> s4 = e \<and> s5 = f"
    and "within 128 value6 (Ipv6Addr s0 s1 s2 s3 s4 s5 s6 s7) (Ipv6Addr a b c d e f g h, 64)
      \<longleftrightarrow> s0 = a \<and> s1 = b \<and> s2 = c \<and> s3 = d"
    and "within 128 value6 (Ipv6Addr s0 s1 s2 s3 s4 s5 s6 s7) (Ipv6Addr a b c d e f g h, 32) \<longleftrightarrow> s0 = a \<and> s1 = b"
  by (simp_all add: within6 Let_def word_unat_eq_iff)

text \<open>Testing the leading bits of a group: by a shift and by a mask.\<close>

lemma unat_drop16: "unat (drop_bit n (w :: u16)) = unat w div 2 ^ n"
  using unat_u16_bound [of w] by (simp add: unsigned_drop_bit_eq drop_bit_eq_div [where 'a = nat] take_bit_nat_eq_self)

lemma leading_bits:
  fixes w v :: u16
  shows "w AND NOT (mask n) = v AND NOT (mask n) \<longleftrightarrow> unat w div 2 ^ n = unat v div 2 ^ n"
proof -
  have kept: "drop_bit n (x AND NOT (mask n)) = drop_bit n x" "push_bit n (drop_bit n x) = x AND NOT (mask n)" for x :: u16
    by (rule bit_word_eqI; auto simp: bit_simps dest: bit_imp_le_length)+
  have "w AND NOT (mask n) = v AND NOT (mask n) \<longleftrightarrow> drop_bit n w = drop_bit n v"
    by (metis kept)
  also have "\<dots> \<longleftrightarrow> unat w div 2 ^ n = unat v div 2 ^ n"
    by (simp add: word_unat_eq_iff unat_drop16)
  finally show ?thesis .
qed

lemma masks: "(- 64 :: u16) = 0xffc0" "(- 512 :: u16) = 0xfe00"
  by simp_all

lemma ranges_v6:
  shows "within 128 value6 (Ipv6Addr s0 s1 s2 s3 s4 s5 s6 s7) (Ipv6Addr 0xff00 0 0 0 0 0 0 0, 8)
      \<longleftrightarrow> drop_bit 8 s0 = 0xff"
    and "within 128 value6 (Ipv6Addr s0 s1 s2 s3 s4 s5 s6 s7) (Ipv6Addr 0xfe80 0 0 0 0 0 0 0, 10)
      \<longleftrightarrow> s0 AND 0xffc0 = 0xfe80"
    and "within 128 value6 (Ipv6Addr s0 s1 s2 s3 s4 s5 s6 s7) (Ipv6Addr 0xfc00 0 0 0 0 0 0 0, 7)
      \<longleftrightarrow> s0 AND 0xfe00 = 0xfc00"
  using leading_bits [of s0 6 "0xfe80"] leading_bits [of s0 9 "0xfc00"]
  by (simp_all add: within6 Let_def word_unat_eq_iff [of "drop_bit 8 s0"] unat_drop16 mask_eq_exp_minus_1 masks)

lemma classify_v6_table: "classify_v6 a = first_block 128 value6 a blocks6"
  by (cases a) (simp only: classify_v6.simps blocks6_def first_block.simps blocks_v6 ranges_v6 conj_assoc)

section \<open>Properties\<close>

text \<open>C29 (equivalence). The scope of every address, of either family, is the scope of the first block
  of the table of special-purpose blocks that holds it, and an address of no block is public.\<close>

theorem scope_is_first_block:
  "classify a = (case a of V4 x \<Rightarrow> first_block 32 value4 x blocks4 | V6 x \<Rightarrow> first_block 128 value6 x blocks6)"
  by (cases a) (simp_all add: classify_v4_table classify_v6_table)

text \<open>Blocks shown with the label of their scope are told apart by it.\<close>

lemma label_inject: "label s = label t \<longleftrightarrow> s = t"
  by (cases s; cases t) (simp_all add: label_def ascii_def)

end
