(* ===== verification/ProcFs.thy ===== *)
theory ProcFs
  imports Lookups
begin

text \<open>
  Which process owns a connection, from the files of \<^verbatim>\<open>/proc\<close>
  (\<^verbatim>\<open>rustnet-host/src/linux/process.rs\<close>), and the relaxed lookup of \<^verbatim>\<open>rustnet-host/src/lib.rs\<close> for
  sockets that are bound to no address. What the file system returns is an argument: a read that
  fails is \<open>None\<close>. Code that may panic returns an option. The reference is the text that the
  kernel writes for a table of sockets, with the addresses as words of the host's byte order.
\<close>

section \<open>The files\<close>

text \<open>An entry of \<^verbatim>\<open>/proc\<close>: its name, if it is text, the contents of \<open>comm\<close>, and the targets of the
  links in \<open>fd\<close>, as far as they can be read and are text.\<close>

record proc_entry =
  pe_name :: "bytes option"
  pe_comm :: "bytes option"
  pe_links :: "bytes option list option"

record procfs =
  proc_dir :: "proc_entry option list option"
  net_file :: "bytes \<Rightarrow> bytes option"
  comm_file :: "u32 \<Rightarrow> bytes option"

datatype io_error = Io_error

section \<open>Keys and caches\<close>

text \<open>The \<open>ConnectionKey\<close> of this crate: the protocol and both ends.\<close>

record SocketKey =
  ck_protocol :: Protocol
  ck_local :: socket_addr
  ck_remote :: socket_addr

definition from_connection :: "Connection \<Rightarrow> SocketKey" where
  "from_connection conn =
     \<lparr>ck_protocol = protocol conn, ck_local = local_addr conn, ck_remote = remote_addr conn\<rparr>"

type_synonym process = "u32 \<times> bytes"
type_synonym InodeProcessMap = "(nat, process) mapping"
type_synonym PidNameMap = "(u32, bytes) mapping"
type_synonym ConnectionProcessMap = "(SocketKey, process) mapping"

record LinuxProcessLookup =
  cache_lookup :: ConnectionProcessMap
  cache_last_refresh :: instant
  pid_names :: PidNameMap

section \<open>Sockets of processes\<close>

definition extract_socket_inode :: "bytes \<Rightarrow> nat option" where
  "extract_socket_inode link =
     (if starts_with link (ascii ''socket:['') \<and> ends_with link (ascii '']'')
      then parse_uint (2 ^ 64) (take (length link - 9) (drop 8 link)) else None)"

definition comm_name :: "proc_entry \<Rightarrow> bytes" where
  "comm_name e = trim (case pe_comm e of Some c \<Rightarrow> c | None \<Rightarrow> ascii ''unknown'')"

definition add_link :: "process \<Rightarrow> bytes option \<Rightarrow> InodeProcessMap \<Rightarrow> InodeProcessMap" where
  "add_link pn link m =
     (case Option.bind link extract_socket_inode of Some inode \<Rightarrow> Mapping.update inode pn m | None \<Rightarrow> m)"

definition scan_entry :: "proc_entry \<Rightarrow> InodeProcessMap \<times> PidNameMap \<Rightarrow> InodeProcessMap \<times> PidNameMap" where
  "scan_entry e s =
     (case Option.bind (pe_name e) (parse_uint (2 ^ 32)) of
        None \<Rightarrow> s
      | Some n \<Rightarrow>
          (let p = of_nat n; process_name = comm_name e in
           if p = 0 then s
           else (fold (add_link (p, process_name)) (case pe_links e of Some ls \<Rightarrow> ls | None \<Rightarrow> []) (fst s),
                 Mapping.update p process_name (snd s))))"

fun scan_entries ::
  "proc_entry option list \<Rightarrow> InodeProcessMap \<times> PidNameMap \<Rightarrow> io_error + InodeProcessMap \<times> PidNameMap" where
  "scan_entries [] s = Inr s"
| "scan_entries (None # es) s = Inl Io_error"
| "scan_entries (Some e # es) s = scan_entries es (scan_entry e s)"

definition build_inode_map :: "procfs \<Rightarrow> io_error + InodeProcessMap \<times> PidNameMap" where
  "build_inode_map fs =
     (case proc_dir fs of
        None \<Rightarrow> Inl Io_error
      | Some es \<Rightarrow> scan_entries es (Mapping.empty, Mapping.empty))"

section \<open>Tables of sockets\<close>

fun hex_groups :: "bytes \<Rightarrow> nat list \<Rightarrow> bytes option option" where
  "hex_groups h [] = Some (Some [])"
| "hex_groups h (i # is) =
     try_opt (map_option (uint_from_hex (2 ^ 32)) (str_slice (i * 8) ((i + 1) * 8) h)) (\<lambda>v.
     try_opt (hex_groups h is) (\<lambda>bs. Some (Some (ne_bytes Little 4 v @ bs))))"

definition ipv4_of_octets :: "bytes \<Rightarrow> ipv4" where
  "ipv4_of_octets bs = Ipv4Addr (bs ! 0) (bs ! 1) (bs ! 2) (bs ! 3)"

definition parse_hex_address :: "bytes \<Rightarrow> socket_addr option option" where
  "parse_hex_address hex_addr =
     (let parts = split_on colon hex_addr in
      if length parts \<noteq> 2 then Some None
      else
        let ip_hex = parts ! 0 in
        case uint_from_hex 65536 (parts ! 1) of
          None \<Rightarrow> Some None
        | Some p \<Rightarrow>
            if length ip_hex = 8 then
              Some (map_option (\<lambda>v. \<lparr>ip = V4 (ipv4_of_octets (ne_bytes Little 4 v)), port = of_nat p\<rparr>)
                (uint_from_hex (2 ^ 32) ip_hex))
            else if length ip_hex = 32 then
              try_opt (hex_groups ip_hex [0, 1, 2, 3]) (\<lambda>bs.
                Some (map_option (\<lambda>a. \<lparr>ip = V6 a, port = of_nat p\<rparr>) (ipv6_of bs)))
            else Some None)"

definition map_line :: "Protocol \<Rightarrow> InodeProcessMap \<Rightarrow> bytes \<Rightarrow> ConnectionProcessMap \<Rightarrow> ConnectionProcessMap option" where
  "map_line proto inode_map line result =
     (let parts = split_whitespace line in
      if length parts < 10 then Some result
      else do {
        loc \<leftarrow> parse_hex_address (parts ! 1);
        case loc of
          None \<Rightarrow> Some result
        | Some l \<Rightarrow> do {
            rem \<leftarrow> parse_hex_address (parts ! 2);
            case rem of
              None \<Rightarrow> Some result
            | Some r \<Rightarrow>
                (case Option.bind (parse_uint (2 ^ 64) (parts ! 9)) (Mapping.lookup inode_map) of
                   None \<Rightarrow> Some result
                 | Some pn \<Rightarrow> Some (Mapping.update \<lparr>ck_protocol = proto, ck_local = l, ck_remote = r\<rparr> pn result))
          }
      })"

fun map_lines :: "Protocol \<Rightarrow> InodeProcessMap \<Rightarrow> bytes list \<Rightarrow> ConnectionProcessMap \<Rightarrow> ConnectionProcessMap option" where
  "map_lines proto inode_map [] result = Some result"
| "map_lines proto inode_map (line # ls) result =
     do { result \<leftarrow> map_line proto inode_map line result; map_lines proto inode_map ls result }"

definition parse_and_map ::
  "procfs \<Rightarrow> string \<Rightarrow> Protocol \<Rightarrow> InodeProcessMap \<Rightarrow> ConnectionProcessMap \<Rightarrow> ConnectionProcessMap option" where
  "parse_and_map fs path proto inode_map result =
     (case net_file fs (ascii path) of
        None \<Rightarrow> Some result
      | Some content \<Rightarrow> map_lines proto inode_map (drop 1 (lines content)) result)"

definition build_process_map :: "procfs \<Rightarrow> (io_error + ConnectionProcessMap \<times> PidNameMap) option" where
  "build_process_map fs =
     (case build_inode_map fs of
        Inl e \<Rightarrow> Some (Inl e)
      | Inr (inodes, names) \<Rightarrow> do {
          m \<leftarrow> parse_and_map fs ''/proc/net/tcp'' Tcp inodes Mapping.empty;
          m \<leftarrow> parse_and_map fs ''/proc/net/tcp6'' Tcp inodes m;
          m \<leftarrow> parse_and_map fs ''/proc/net/udp'' Udp inodes m;
          m \<leftarrow> parse_and_map fs ''/proc/net/udp6'' Udp inodes m;
          Some (Inr (m, names)) })"

section \<open>Lookups\<close>

definition LinuxProcessLookup_new :: "clock \<Rightarrow> procfs \<Rightarrow> (io_error + LinuxProcessLookup) option" where
  "LinuxProcessLookup_new clk fs =
     do { r \<leftarrow> build_process_map fs;
          Some (case r of
              Inl e \<Rightarrow> Inl e
            | Inr (m, names) \<Rightarrow> Inr \<lparr>cache_lookup = m, cache_last_refresh = mono clk, pid_names = names\<rparr>) }"

definition procfs_refresh :: "clock \<Rightarrow> procfs \<Rightarrow> LinuxProcessLookup \<Rightarrow> ((io_error + unit) \<times> LinuxProcessLookup) option" where
  "procfs_refresh clk fs s =
     do { r \<leftarrow> build_process_map fs;
          Some (case r of
              Inl e \<Rightarrow> (Inl e, s)
            | Inr (m, names) \<Rightarrow> (Inr (), s\<lparr>cache_lookup := m, cache_last_refresh := mono clk, pid_names := names\<rparr>)) }"

definition get_process_name_by_pid :: "procfs \<Rightarrow> u32 \<Rightarrow> LinuxProcessLookup \<Rightarrow> bytes option \<times> LinuxProcessLookup" where
  "get_process_name_by_pid fs p s =
     (case Mapping.lookup (pid_names s) p of
        Some name \<Rightarrow> (Some name, s)
      | None \<Rightarrow>
          (case comm_file fs p of
             None \<Rightarrow> (None, s)
           | Some c \<Rightarrow>
               (let comm = trim c in
                if comm = [] then (None, s)
                else (Some comm, s\<lparr>pid_names := Mapping.update p comm (pid_names s)\<rparr>))))"

definition unspecified_like :: "socket_addr \<Rightarrow> ip_addr" where
  "unspecified_like a = (case ip a of V4 _ \<Rightarrow> V4 UNSPECIFIED4 | V6 _ \<Rightarrow> V6 UNSPECIFIED6)"

definition candidates :: "SocketKey \<Rightarrow> SocketKey list" where
  "candidates k =
     (let l = ck_local k; r = ck_remote k in
      map (\<lambda>(l', r'). k\<lparr>ck_local := l', ck_remote := r'\<rparr>)
        [(l, \<lparr>ip = unspecified_like r, port = 0\<rparr>),
         (\<lparr>ip = unspecified_like l, port = port l\<rparr>, r),
         (\<lparr>ip = unspecified_like l, port = port l\<rparr>, \<lparr>ip = unspecified_like r, port = 0\<rparr>)])"

fun unambiguous :: "ConnectionProcessMap \<Rightarrow> SocketKey list \<Rightarrow> process option \<Rightarrow> process option" where
  "unambiguous m [] found = found"
| "unambiguous m (c # cs) found =
     (case Mapping.lookup m c of
        None \<Rightarrow> unambiguous m cs found
      | Some entry \<Rightarrow>
          (case found of
             None \<Rightarrow> unambiguous m cs (Some entry)
           | Some existing \<Rightarrow> if existing = entry then unambiguous m cs found else None))"

definition fallback_lookup :: "ConnectionProcessMap \<Rightarrow> SocketKey \<Rightarrow> process option" where
  "fallback_lookup m k =
     (if ck_protocol k \<notin> {Tcp, Udp} then None else unambiguous m (candidates k) None)"

definition get_process_for_connection :: "LinuxProcessLookup \<Rightarrow> Connection \<Rightarrow> process option" where
  "get_process_for_connection s conn =
     (let k = from_connection conn in
      case Mapping.lookup (cache_lookup s) k of
        Some entry \<Rightarrow> Some entry
      | None \<Rightarrow> fallback_lookup (cache_lookup s) k)"

section \<open>Relaxed lookups\<close>

text \<open>The relaxed lookup finds a process exactly when one of the candidates is known and all known
  ones name the same process.\<close>

lemma unambiguous_Some:
  "unambiguous m cs found = Some pn \<longleftrightarrow>
   (found = Some pn \<or> found = None \<and> (\<exists>c \<in> set cs. Mapping.lookup m c = Some pn)) \<and>
   (\<forall>c \<in> set cs. Mapping.lookup m c \<in> {None, Some pn})"
proof (induction cs arbitrary: found)
  case (Cons c cs)
  then show ?case by (cases "Mapping.lookup m c"; cases found) auto
qed auto

lemma fallback_unique:
  "fallback_lookup m k = Some pn \<longleftrightarrow>
   ck_protocol k \<in> {Tcp, Udp} \<and> (\<exists>c \<in> set (candidates k). Mapping.lookup m c = Some pn) \<and>
   (\<forall>c \<in> set (candidates k). Mapping.lookup m c \<in> {None, Some pn})"
  by (auto simp: fallback_lookup_def unambiguous_Some)

end
