(* ===== verification/ProcRead.thy ===== *)
theory ProcRead
  imports ProcFs FrameSpec ConnTrack
begin

text \<open>
  What \<^emph>\<open>ProcFs\<close> reads from the texts that a Linux kernel writes: the addresses of
  \<^verbatim>\<open>/proc/net/tcp\<close> and its siblings (each 32-bit word of the address, as it stands in memory, in
  hexadecimal), the rows of the tables, the links of open sockets. A socket of a process is
  attributed to it.
\<close>

section \<open>Numbers and addresses\<close>

text \<open>\<open>%08X\<close> and the like: the bytes of a value, most significant first, in capital digits.\<close>

definition hex_text :: "bytes \<Rightarrow> bytes" where
  "hex_text bs = concat (map hex2_upper bs)"

lemma upper_pair:
  obtains x y where "hex2_upper b = [x, y]" "is_ascii_graphic x" "is_ascii_graphic y" "x \<noteq> colon" "y \<noteq> colon" "x \<noteq> 43"
    "hex_value x = Some (unat b div 16)" "hex_value y = Some (unat b mod 16)"
proof
  let ?x = "to_ascii_uppercase (digit (unat b div 16))" and ?y = "to_ascii_uppercase (digit (unat b mod 16))"
  note b = unat_u8_bound [of b]
  have d: "hex_value ?x = Some (unat b div 16) \<and> is_ascii_graphic ?x" "hex_value ?y = Some (unat b mod 16) \<and> is_ascii_graphic ?y"
    using b by (simp_all add: upper_digit)
  then show "is_ascii_graphic ?x" "is_ascii_graphic ?y" "hex_value ?x = Some (unat b div 16)" "hex_value ?y = Some (unat b mod 16)"
    by simp_all
  show "?x \<noteq> colon" "?y \<noteq> colon" "?x \<noteq> 43" using d by (auto simp: hex_value_def colon_def)
qed (simp add: hex2_upper_def hex2_def)

lemma hex_text_value:
  "None \<notin> set (map hex_value (hex_text bs)) \<and>
   foldl (\<lambda>n d. 16 * n + the d) a (map hex_value (hex_text bs)) = foldl (\<lambda>n b. 256 * n + unat b) a bs"
proof (induction bs arbitrary: a)
  case (Cons b bs)
  obtain x y where xy: "hex2_upper b = [x, y]" "hex_value x = Some (unat b div 16)" "hex_value y = Some (unat b mod 16)"
    by (rule upper_pair [of b])
  have "16 * (16 * a + unat b div 16) + unat b mod 16 = 256 * a + unat b" by simp
  then show ?case using Cons xy by (simp add: hex_text_def add.commute)
qed (simp add: hex_text_def)

lemma foldl_be_nat: "foldl (\<lambda>n b. 256 * n + unat b) 0 bs = be_nat bs"
proof (induction bs rule: rev_induct)
  case (snoc b bs)
  then show ?case by (simp add: ne_nat_def)
qed (simp add: ne_nat_def)

lemma hex_text_chars:
  "bs \<noteq> [] \<Longrightarrow> hex_text bs \<noteq> [] \<and> hd (hex_text bs) \<noteq> 43"
  "c \<in> set (hex_text bs) \<Longrightarrow> is_ascii_graphic c \<and> c \<noteq> colon"
  "length (hex_text bs) = 2 * length bs"
proof -
  show "bs \<noteq> [] \<Longrightarrow> hex_text bs \<noteq> [] \<and> hd (hex_text bs) \<noteq> 43"
    by (cases bs) (auto simp: hex_text_def intro: upper_pair [of "hd bs"])
  show "c \<in> set (hex_text bs) \<Longrightarrow> is_ascii_graphic c \<and> c \<noteq> colon"
  proof -
    assume "c \<in> set (hex_text bs)"
    then obtain b where "c \<in> set (hex2_upper b)" by (auto simp: hex_text_def)
    then show ?thesis by (cases rule: upper_pair [of b]) auto
  qed
  show "length (hex_text bs) = 2 * length bs"
    by (induction bs) (auto simp: hex_text_def hex2_upper_def hex2_def)
qed

lemma read_hex_text:
  assumes "bs \<noteq> []" and "limit = 256 ^ length bs"
  shows "uint_from_hex limit (hex_text bs) = Some (be_nat bs)"
proof -
  have "be_nat bs < limit" using le_nat_bound [of "rev bs"] assms(2) by (simp add: ne_nat_def)
  then show ?thesis
    using hex_text_chars(1) [OF assms(1)] hex_text_value [of bs 0] foldl_be_nat [of bs]
    by (simp add: uint_from_hex_def Let_def)
qed

text \<open>A 32-bit word of an address: the kernel prints its value, read in the host's byte order, and
  the program turns the value into bytes from the least significant one on.\<close>

definition word_text :: "endian \<Rightarrow> bytes \<Rightarrow> bytes" where
  "word_text en w = hex_text (ne_bytes Big 4 (ne_nat en w))"

lemma word_text_facts:
  assumes "length w = 4"
  shows "length (word_text en w) = 8" and "uint_from_hex (2 ^ 32) (word_text en w) = Some (ne_nat en w)"
    and "c \<in> set (word_text en w) \<Longrightarrow> is_ascii_graphic c \<and> c \<noteq> colon"
proof -
  have "be_nat (ne_bytes Big 4 (ne_nat en w)) = ne_nat en w"
    using ne_nat_bound [of en w] assms by (simp add: ne_nat_ne_bytes)
  moreover have "ne_bytes Big 4 (ne_nat en w) \<noteq> []" by (simp flip: length_greater_0_conv)
  ultimately show "uint_from_hex (2 ^ 32) (word_text en w) = Some (ne_nat en w)"
    by (simp add: word_text_def read_hex_text)
  show "length (word_text en w) = 8" by (simp add: word_text_def hex_text_chars(3))
  show "c \<in> set (word_text en w) \<Longrightarrow> is_ascii_graphic c \<and> c \<noteq> colon"
    unfolding word_text_def by (rule hex_text_chars(2))
qed

fun addr_words :: "ip_addr \<Rightarrow> bytes list" where
  "addr_words (V4 a) = [octets4 a]"
| "addr_words (V6 a) = map (\<lambda>i. take 4 (drop (4 * i) (octets6 a))) [0, 1, 2, 3]"

definition addr_text :: "endian \<Rightarrow> socket_addr \<Rightarrow> bytes" where
  "addr_text en a = concat (map (word_text en) (addr_words (ip a))) @ colon # hex_text (be16 (port a))"

lemma addr_text_chars:
  "c \<in> set (addr_text en a) \<Longrightarrow> is_ascii_graphic c"
  by (cases "ip a") (auto simp: addr_text_def colon_def is_ascii_graphic_def
      dest!: word_text_facts(3) [rotated] hex_text_chars(2))

lemma slice_graphic:
  assumes "list_all is_ascii_graphic s" and "b \<le> length s" and "a \<le> b"
  shows "str_slice a b s = Some (take (b - a) (drop a s))"
  using assms by (auto simp: str_slice_def is_char_boundary_def list_all_length graphic_boundary)

lemma octets6_words: "concat (addr_words (V6 a)) = octets6 a"
  by (cases a) (simp add: be16_def ne_bytes_def)

lemma words_read:
  assumes "length u = 4" "length v = 4" "length w = 4" "length x = 4"
  shows "hex_groups (concat (map (word_text Little) [u, v, w, x])) [0, 1, 2, 3] = Some (Some (u @ v @ w @ x))"
proof -
  let ?h = "concat (map (word_text Little) [u, v, w, x])"
  note facts = word_text_facts [OF assms(1)] word_text_facts [OF assms(2)] word_text_facts [OF assms(3)]
    word_text_facts [OF assms(4)]
  have h: "list_all is_ascii_graphic ?h" "length ?h = 32" using facts by (auto simp: list_all_iff)
  have "str_slice 0 8 ?h = Some (word_text Little u)" "str_slice 8 16 ?h = Some (word_text Little v)"
    "str_slice 16 24 ?h = Some (word_text Little w)" "str_slice 24 32 ?h = Some (word_text Little x)"
    using h facts by (simp_all add: slice_graphic)
  then show ?thesis using facts assms by (simp add: ne_bytes_ne_nat)
qed

lemma addr_read: "parse_hex_address (addr_text Little a) = Some (Some a)"
proof -
  define h where "h = concat (map (word_text Little) (addr_words (ip a)))"
  have words: "\<forall>w \<in> set (addr_words (ip a)). length w = 4" by (cases "ip a") auto
  have "colon \<notin> set h" using words by (auto simp: h_def dest: word_text_facts(3))
  moreover have "colon \<notin> set (hex_text (be16 (port a)))" by (auto dest: hex_text_chars(2))
  ultimately have split: "split_on colon (addr_text Little a) = [h, hex_text (be16 (port a))]"
    by (simp add: addr_text_def h_def [symmetric] split_on_append split_on_no_sep)
  have p: "uint_from_hex 65536 (hex_text (be16 (port a))) = Some (unat (port a))"
  proof -
    have l: "length (be16 (port a)) = 2" and v: "be_nat (be16 (port a)) = unat (port a)"
      using unat_u16_bound [of "port a"] by (simp_all add: be16_def ne_nat_ne_bytes)
    then have "be16 (port a) \<noteq> []" by (metis list.size(3) zero_neq_numeral)
    then show ?thesis by (simp add: read_hex_text l v)
  qed
  show ?thesis
  proof (cases "ip a")
    case (V4 x)
    then have "h = word_text Little (octets4 x)" by (simp add: h_def)
    then have "length h = 8" "uint_from_hex (2 ^ 32) h = Some (ne_nat Little (octets4 x))"
      using word_text_facts(1,2) [of "octets4 x" Little] by simp_all
    moreover have "ipv4_of_octets (ne_bytes Little 4 (ne_nat Little (octets4 x))) = x"
      by (cases x) (simp add: ne_bytes_ne_nat ipv4_of_octets_def)
    ultimately show ?thesis using V4 p by (simp add: parse_hex_address_def split Let_def)
  next
    case (V6 x)
    have "length h = 32" using words word_text_facts(1) by (auto simp: h_def V6)
    moreover have "hex_groups h [0, 1, 2, 3] = Some (Some (octets6 x))"
      using words_read [of "addr_words (V6 x) ! 0" "addr_words (V6 x) ! 1" "addr_words (V6 x) ! 2" "addr_words (V6 x) ! 3"]
        octets6_words [of x] by (simp add: h_def V6)
    ultimately show ?thesis using V6 p by (simp add: parse_hex_address_def split Let_def ipv6_of_octets6)
  qed
qed

section \<open>Tables of sockets\<close>

text \<open>A row of a table: the slot, the two addresses, six fields the program skips, the inode, and
  what follows; each but the first after at least one space, with spaces at the end.\<close>

record socket_row =
  row_slot :: bytes
  row_local :: socket_addr
  row_remote :: socket_addr
  row_skipped :: "bytes list"
  row_inode :: nat
  row_more :: "bytes list"
  row_gaps :: "bytes list"
  row_end :: bytes

definition row_words :: "socket_row \<Rightarrow> bytes list" where
  "row_words r = row_slot r # addr_text Little (row_local r) # addr_text Little (row_remote r)
     # row_skipped r @ decimal (row_inode r) # row_more r"

fun spaced :: "bytes list \<Rightarrow> bytes list \<Rightarrow> bytes \<Rightarrow> bytes" where
  "spaced (g # gs) (w # ws) e = g @ w @ spaced gs ws e"
| "spaced _ _ e = e"

definition show_row :: "socket_row \<Rightarrow> bytes" where
  "show_row r = spaced (row_gaps r) (row_words r) (row_end r)"

definition word_ok :: "bytes \<Rightarrow> bool" where
  "word_ok w \<longleftrightarrow> w \<noteq> [] \<and> list_all is_ascii_graphic w"

definition gap_ok :: "bytes \<Rightarrow> bool" where
  "gap_ok g \<longleftrightarrow> list_all (\<lambda>c. c = 32) g"

definition row_ok :: "socket_row \<Rightarrow> bool" where
  "row_ok r \<longleftrightarrow> word_ok (row_slot r) \<and> length (row_skipped r) = 6 \<and> list_all word_ok (row_skipped r) \<and>
     list_all word_ok (row_more r) \<and> row_inode r < 2 ^ 64 \<and> length (row_gaps r) = length (row_words r) \<and>
     list_all gap_ok (row_gaps r) \<and> [] \<notin> set (tl (row_gaps r)) \<and> gap_ok (row_end r)"

lemma gap_space: "gap_ok g \<Longrightarrow> list_all is_space g"
  by (auto simp: gap_ok_def list_all_iff is_space_def)

lemma split_gap: "gap_ok g \<Longrightarrow> split_whitespace g = []"
  using split_whitespace_spaces [of g "[]"] gap_space [of g] by (simp add: split_whitespace_def)

lemma spaced_head:
  assumes "length gs = length ws" "list_all gap_ok gs" "[] \<notin> set gs" "gap_ok e" "spaced gs ws e = c # x"
  shows "c = 32"
proof (cases gs)
  case (Cons a as)
  obtain b bs where "ws = b # bs" using assms(1) Cons by (cases ws) auto
  moreover obtain y ys where "a = y # ys" using assms(3) Cons by (cases a) auto
  ultimately show ?thesis using assms(2,5) Cons by (auto simp: gap_ok_def)
qed (use assms in \<open>auto simp: gap_ok_def\<close>)

lemma words_spaced:
  assumes "length gs = length ws" "list_all word_ok ws" "list_all gap_ok gs" "[] \<notin> set (tl gs)" "gap_ok e"
  shows "split_whitespace (spaced gs ws e) = ws"
  using assms
proof (induction gs ws e rule: spaced.induct)
  case (1 g gs w ws e)
  have w: "w \<noteq> []" "list_all is_ascii_graphic w" using 1 by (simp_all add: word_ok_def)
  have IH: "split_whitespace (spaced gs ws e) = ws" using 1 by (cases gs) auto
  show ?case
  proof (cases "spaced gs ws e")
    case Nil
    then show ?thesis using IH w gap_space [of g] 1
      by (simp add: split_whitespace_spaces split_whitespace_last) (simp add: split_whitespace_def)
  next
    case (Cons c x)
    have "c = 32" using 1 Cons by (intro spaced_head [of gs ws e c x]) simp_all
    then show ?thesis using IH w gap_space [of g] 1 Cons
      by (simp add: split_whitespace_spaces split_whitespace_word split_whitespace_space is_space_def)
  qed
qed (auto simp: split_gap)

text \<open>Tables in which the last entry for a key counts.\<close>

lemma empty_mapping: "Mapping.lookup Mapping.empty = Map.empty"
  by (rule ext) (rule lookup_empty)

lemma lookup_fold_update:
  assumes "\<And>x m. x \<in> set xs \<Longrightarrow> g x m = (case f x of None \<Rightarrow> m | Some (k, v) \<Rightarrow> Mapping.update k v m)"
  shows "Mapping.lookup (fold g xs m) = Mapping.lookup m ++ map_of (rev (List.map_filter f xs))"
  using assms
proof (induction xs arbitrary: m)
  case (Cons x xs)
  have "Mapping.lookup (Mapping.update k v m) = (Mapping.lookup m)(k \<mapsto> v)" for k v
    by (rule ext) (simp add: lookup_update')
  then show ?case using Cons by (auto simp: split: option.splits)
qed simp

definition row_key :: "Protocol \<Rightarrow> socket_row \<Rightarrow> SocketKey" where
  "row_key proto r = \<lparr>ck_protocol = proto, ck_local = row_local r, ck_remote = row_remote r\<rparr>"

definition row_entry :: "(nat \<rightharpoonup> process) \<Rightarrow> Protocol \<times> socket_row \<Rightarrow> (SocketKey \<times> process) option" where
  "row_entry owner pr = map_option (Pair (row_key (fst pr) (snd pr))) (owner (row_inode (snd pr)))"

lemma row_words_ok: "row_ok r \<Longrightarrow> list_all word_ok (row_words r)"
proof -
  have "word_ok (addr_text Little a)" for a
    using addr_text_chars [of _ Little a] by (auto simp: word_ok_def list_all_iff addr_text_def)
  moreover have "word_ok (decimal (row_inode r))"
    using decimal_ascii [of "row_inode r"] by (auto simp: word_ok_def list_all_iff radix_nonempty dest: digit_graphic)
  ultimately show "row_ok r \<Longrightarrow> ?thesis" by (simp add: row_ok_def row_words_def)
qed

lemma row_read:
  assumes "row_ok r"
  shows "map_line proto inodes (show_row r) m =
    Some (case row_entry (Mapping.lookup inodes) (proto, r) of None \<Rightarrow> m | Some (k, v) \<Rightarrow> Mapping.update k v m)"
proof -
  have "split_whitespace (show_row r) = row_words r"
    using assms row_words_ok [OF assms] unfolding show_row_def by (intro words_spaced) (auto simp: row_ok_def)
  moreover have "row_words r ! 1 = addr_text Little (row_local r)" "row_words r ! 2 = addr_text Little (row_remote r)"
    "row_words r ! 9 = decimal (row_inode r)" "\<not> length (row_words r) < 10"
    using assms by (simp_all add: row_words_def row_ok_def nth_append nth_Cons')
  ultimately show ?thesis
    using assms by (simp add: map_line_def Let_def addr_read parse_decimal row_ok_def row_entry_def row_key_def
        split: option.split)
qed

lemma rows_read:
  "list_all row_ok rs \<Longrightarrow> map_lines proto inodes (map show_row rs) m =
     Some (fold (\<lambda>pr m. case row_entry (Mapping.lookup inodes) pr of None \<Rightarrow> m | Some (k, v) \<Rightarrow> Mapping.update k v m)
       (map (Pair proto) rs) m)"
  by (induction rs arbitrary: m) (simp_all add: row_read)

text \<open>A table is its title line and its rows.\<close>

definition show_table :: "bytes \<Rightarrow> socket_row list \<Rightarrow> bytes" where
  "show_table title rs = concat (map (\<lambda>l. l @ [newline]) (title # map show_row rs))"

lemma spaced_plain:
  "list_all gap_ok gs \<Longrightarrow> list_all word_ok ws \<Longrightarrow> gap_ok e \<Longrightarrow> list_all plain (spaced gs ws e)"
proof (induction gs ws e rule: spaced.induct)
  case (1 g gs w ws e)
  then have "list_all plain w" by (auto simp: word_ok_def list_all_iff graphic_plain)
  moreover have "list_all plain g"
    using 1 by (auto simp: gap_ok_def plain_def list_all_iff newline_def carriage_return_def)
  ultimately show ?case using 1 by simp
qed (auto simp: gap_ok_def plain_def list_all_iff newline_def carriage_return_def)

lemma row_plain: "row_ok r \<Longrightarrow> list_all plain (show_row r)"
  using row_words_ok [of r] by (auto simp: show_row_def row_ok_def intro: spaced_plain)

lemma table_read:
  assumes "list_all plain title" and "list_all row_ok rs"
  shows "drop 1 (lines (show_table title rs)) = map show_row rs"
proof -
  have "\<forall>l \<in> set (title # map show_row rs). list_all plain l" using assms row_plain by (auto simp: list_all_iff)
  from plain_lines [OF this] show ?thesis by (simp add: show_table_def del: list.map concat.simps)
qed

section \<open>Processes\<close>

datatype fd_link = Socket nat | Other_target bytes | Unreadable

record os_process =
  op_pid :: u32
  op_comm :: bytes
  op_links :: "fd_link list"

datatype proc_item = Process_dir os_process | Other_dir "bytes option"

fun show_link :: "fd_link \<Rightarrow> bytes option" where
  "show_link (Socket i) = Some (ascii ''socket:['' @ decimal i @ ascii '']'')"
| "show_link (Other_target t) = Some t"
| "show_link Unreadable = None"

fun link_ok :: "fd_link \<Rightarrow> bool" where
  "link_ok (Socket i) \<longleftrightarrow> i < 2 ^ 64"
| "link_ok (Other_target t) \<longleftrightarrow> extract_socket_inode t = None"
| "link_ok Unreadable \<longleftrightarrow> True"

fun show_dir :: "proc_item \<Rightarrow> proc_entry" where
  "show_dir (Process_dir p) = \<lparr>pe_name = Some (decimal (unat (op_pid p))), pe_comm = Some (op_comm p @ [newline]),
     pe_links = Some (map show_link (op_links p))\<rparr>"
| "show_dir (Other_dir n) = \<lparr>pe_name = n, pe_comm = None, pe_links = None\<rparr>"

text \<open>A process has a positive number; its name is what is left of the line of \<open>comm\<close> without white
  space at its ends. Other entries of \<^verbatim>\<open>/proc\<close> are not numbers.\<close>

fun dir_ok :: "proc_item \<Rightarrow> bool" where
  "dir_ok (Process_dir p) \<longleftrightarrow>
     op_pid p \<noteq> 0 \<and> trim (op_comm p @ [newline]) = op_comm p \<and> list_all link_ok (op_links p)"
| "dir_ok (Other_dir n) \<longleftrightarrow> Option.bind n (parse_uint (2 ^ 32)) = None"

fun sockets_of :: "proc_item \<Rightarrow> (nat \<times> process) list" where
  "sockets_of (Process_dir p) =
     List.map_filter (\<lambda>l. case l of Socket i \<Rightarrow> Some (i, (op_pid p, op_comm p)) | _ \<Rightarrow> None) (op_links p)"
| "sockets_of (Other_dir n) = []"

fun name_of :: "proc_item \<Rightarrow> (u32 \<times> bytes) option" where
  "name_of (Process_dir p) = Some (op_pid p, op_comm p)"
| "name_of (Other_dir n) = None"

lemma link_read:
  assumes "link_ok l"
  shows "Option.bind (show_link l) extract_socket_inode = (case l of Socket i \<Rightarrow> Some i | _ \<Rightarrow> None)"
proof (cases l)
  case (Socket i)
  have "ends_with (ascii ''socket:['' @ decimal i @ ascii '']'') (ascii '']'')"
    by (simp add: ends_with_def ascii_def)
  then show ?thesis using assms parse_decimal [of i "2 ^ 64"]
    by (simp add: Socket extract_socket_inode_def starts_with_def ascii_def)
qed (use assms in simp_all)

lemma links_read:
  assumes "list_all link_ok ls"
  shows "Mapping.lookup (fold (add_link pn) (map show_link ls) m)
    = Mapping.lookup m ++ map_of (rev (List.map_filter (\<lambda>l. case l of Socket i \<Rightarrow> Some (i, pn) | _ \<Rightarrow> None) ls))"
  unfolding fold_map
  by (rule lookup_fold_update)
    (use assms in \<open>auto simp: add_link_def link_read list_all_iff split: fd_link.split\<close>)

lemma dir_read:
  assumes "dir_ok it"
  shows "Mapping.lookup (fst (scan_entry (show_dir it) s)) = Mapping.lookup (fst s) ++ map_of (rev (sockets_of it))"
    and "Mapping.lookup (snd (scan_entry (show_dir it) s))
      = (case name_of it of None \<Rightarrow> Mapping.lookup (snd s) | Some (p, n) \<Rightarrow> (Mapping.lookup (snd s))(p \<mapsto> n))"
proof -
  have "Mapping.lookup (Mapping.update k v m) = (Mapping.lookup m)(k \<mapsto> v)" for k :: u32 and v :: bytes and m
    by (rule ext) (simp add: lookup_update')
  moreover have "parse_uint 4294967296 (decimal (unat p)) = Some (unat p)" for p :: u32
    using parse_decimal [of "unat p" 4294967296] unsigned_less [of p] by simp
  ultimately show "Mapping.lookup (fst (scan_entry (show_dir it) s)) = Mapping.lookup (fst s) ++ map_of (rev (sockets_of it))"
    and "Mapping.lookup (snd (scan_entry (show_dir it) s))
      = (case name_of it of None \<Rightarrow> Mapping.lookup (snd s) | Some (p, n) \<Rightarrow> (Mapping.lookup (snd s))(p \<mapsto> n))"
    using assms by (cases it; simp add: scan_entry_def comm_name_def Let_def links_read)+
qed

lemma dirs_read:
  assumes "list_all dir_ok its"
  shows "\<exists>inodes names. scan_entries (map (\<lambda>it. Some (show_dir it)) its) s = Inr (inodes, names) \<and>
    Mapping.lookup inodes = Mapping.lookup (fst s) ++ map_of (rev (concat (map sockets_of its))) \<and>
    Mapping.lookup names = Mapping.lookup (snd s) ++ map_of (rev (List.map_filter name_of its))"
  using assms
proof (induction its arbitrary: s)
  case Nil
  show ?case by (cases s) simp
next
  case (Cons it its)
  have ok: "dir_ok it" and oks: "list_all dir_ok its" using Cons.prems by simp_all
  show ?case using dir_read [OF ok, of s] Cons.IH [OF oks, of "scan_entry (show_dir it) s"]
    by (cases "name_of it") (auto simp del: fun_upd_apply)
qed

section \<open>What a scan of the host gives\<close>

record os_view =
  os_items :: "proc_item list"
  os_title :: bytes
  os_tcp :: "socket_row list"
  os_tcp6 :: "socket_row list"
  os_udp :: "socket_row list"
  os_udp6 :: "socket_row list"

definition os_ok :: "os_view \<Rightarrow> bool" where
  "os_ok os \<longleftrightarrow> list_all dir_ok (os_items os) \<and> list_all plain (os_title os) \<and>
     list_all row_ok (os_tcp os) \<and> list_all row_ok (os_tcp6 os) \<and>
     list_all row_ok (os_udp os) \<and> list_all row_ok (os_udp6 os)"

definition names_by_pid :: "os_view \<Rightarrow> u32 \<rightharpoonup> bytes" where
  "names_by_pid os = map_of (rev (List.map_filter name_of (os_items os)))"

definition inode_owner :: "os_view \<Rightarrow> nat \<rightharpoonup> process" where
  "inode_owner os = map_of (rev (concat (map sockets_of (os_items os))))"

definition os_rows :: "os_view \<Rightarrow> (Protocol \<times> socket_row) list" where
  "os_rows os = map (Pair Tcp) (os_tcp os @ os_tcp6 os) @ map (Pair Udp) (os_udp os @ os_udp6 os)"

text \<open>The owner of a socket: of the last row with its protocol and addresses whose inode some process
  has open, the last process that has.\<close>

definition socket_owner :: "os_view \<Rightarrow> SocketKey \<rightharpoonup> process" where
  "socket_owner os = map_of (rev (List.map_filter (row_entry (inode_owner os)) (os_rows os)))"

definition show_os :: "os_view \<Rightarrow> procfs" where
  "show_os os = \<lparr>proc_dir = Some (map (\<lambda>it. Some (show_dir it)) (os_items os)),
     net_file = map_of [(ascii ''/proc/net/tcp'', show_table (os_title os) (os_tcp os)),
       (ascii ''/proc/net/tcp6'', show_table (os_title os) (os_tcp6 os)),
       (ascii ''/proc/net/udp'', show_table (os_title os) (os_udp os)),
       (ascii ''/proc/net/udp6'', show_table (os_title os) (os_udp6 os))],
     comm_file = (\<lambda>p. map_option (\<lambda>n. n @ [newline]) (names_by_pid os p))\<rparr>"

lemma scan_read:
  assumes "os_ok os"
  obtains m names where "build_process_map (show_os os) = Some (Inr (m, names))"
    and "Mapping.lookup m = socket_owner os" and "Mapping.lookup names = names_by_pid os"
proof -
  have dirs: "list_all dir_ok (os_items os)" using assms by (simp add: os_ok_def)
  obtain inodes names where scan: "scan_entries (map (\<lambda>it. Some (show_dir it)) (os_items os)) (Mapping.empty, Mapping.empty)
      = Inr (inodes, names)"
    and inodes: "Mapping.lookup inodes = inode_owner os" and names: "Mapping.lookup names = names_by_pid os"
    using dirs_read [OF dirs, of "(Mapping.empty, Mapping.empty)"]
    by (auto simp: inode_owner_def names_by_pid_def empty_mapping)
  let ?g = "\<lambda>pr m. case row_entry (Mapping.lookup inodes) pr of None \<Rightarrow> m | Some (k, v) \<Rightarrow> Mapping.update k v m"
  define m where "m = fold ?g (os_rows os) Mapping.empty"
  have dir: "proc_dir (show_os os) = Some (map (\<lambda>it. Some (show_dir it)) (os_items os))"
    by (simp add: show_os_def)
  have paths: "net_file (show_os os) (ascii ''/proc/net/tcp'') = Some (show_table (os_title os) (os_tcp os))"
    "net_file (show_os os) (ascii ''/proc/net/tcp6'') = Some (show_table (os_title os) (os_tcp6 os))"
    "net_file (show_os os) (ascii ''/proc/net/udp'') = Some (show_table (os_title os) (os_udp os))"
    "net_file (show_os os) (ascii ''/proc/net/udp6'') = Some (show_table (os_title os) (os_udp6 os))"
    by (simp_all add: show_os_def ascii_def)
  have "build_process_map (show_os os) = Some (Inr (m, names))"
    using assms scan unfolding m_def os_ok_def os_rows_def
    by (simp add: build_process_map_def build_inode_map_def parse_and_map_def paths table_read rows_read
        dir del: One_nat_def)
  moreover have "Mapping.lookup m = socket_owner os"
    unfolding m_def socket_owner_def inodes [symmetric]
    by (subst lookup_fold_update [where f = "row_entry (Mapping.lookup inodes)"]) (simp_all add: empty_mapping split: option.split)
  ultimately show thesis using that names by blast
qed

section \<open>Attribution\<close>

text \<open>A socket may serve a connection if its local side is the connection's, or the connection's port on
  any address, and its remote side is the connection's, or no peer at all.\<close>

definition any_address :: "ip_addr \<Rightarrow> ip_addr" where
  "any_address a = (case a of V4 _ \<Rightarrow> V4 (Ipv4Addr 0 0 0 0) | V6 _ \<Rightarrow> V6 (Ipv6Addr 0 0 0 0 0 0 0 0))"

definition may_serve :: "SocketKey \<Rightarrow> SocketKey \<Rightarrow> bool" where
  "may_serve k c \<longleftrightarrow> ck_protocol k = ck_protocol c \<and>
     ck_local k \<in> {ck_local c, \<lparr>ip = any_address (ip (ck_local c)), port = port (ck_local c)\<rparr>} \<and>
     ck_remote k \<in> {ck_remote c, \<lparr>ip = any_address (ip (ck_remote c)), port = 0\<rparr>}"

lemma unspecified_like_any: "unspecified_like a = any_address (ip a)"
  by (simp add: unspecified_like_def any_address_def UNSPECIFIED4_def UNSPECIFIED6_def split: ip_addr.split)

lemma candidates_serve: "insert c (set (candidates c)) = {k. may_serve k c}"
proof (rule set_eqI)
  fix k
  show "k \<in> insert c (set (candidates c)) \<longleftrightarrow> k \<in> {k. may_serve k c}"
    by (cases k; cases c) (auto simp: candidates_def may_serve_def unspecified_like_any Let_def)
qed

lemma sole_owner:
  assumes "owner c = None"
  shows "(\<exists>k \<in> S. owner k = Some pn) \<and> (\<forall>k \<in> S. owner k \<in> {None, Some pn}) \<longleftrightarrow>
    {p. \<exists>k \<in> insert c S. owner k = Some p} = {pn}"
  using assms by (auto simp: set_eq_iff) (metis not_Some_eq option.inject)+

lemma attribution:
  assumes "Mapping.lookup (cache_lookup s) = owner"
  shows "get_process_for_connection s conn = Some pn \<longleftrightarrow> owner (from_connection conn) = Some pn \<or>
    owner (from_connection conn) = None \<and> protocol conn \<in> {Tcp, Udp} \<and>
    {p. \<exists>k. may_serve k (from_connection conn) \<and> owner k = Some p} = {pn}"
proof -
  let ?c = "from_connection conn"
  have "ck_protocol ?c = protocol conn" by (simp add: from_connection_def)
  moreover have "fallback_lookup (cache_lookup s) ?c = Some pn \<longleftrightarrow> ck_protocol ?c \<in> {Tcp, Udp} \<and>
      {p. \<exists>k. may_serve k ?c \<and> owner k = Some p} = {pn}" if "owner ?c = None"
    using sole_owner [of owner ?c "set (candidates ?c)" pn, OF that] that
    by (simp add: fallback_unique assms candidates_serve Bex_def)
  ultimately show ?thesis
    by (cases "owner ?c") (simp_all add: get_process_for_connection_def Let_def assms)
qed

lemma new_lookup_read:
  assumes "os_ok os"
  obtains s where "LinuxProcessLookup_new clk (show_os os) = Some (Inr s)"
    and "Mapping.lookup (cache_lookup s) = socket_owner os" and "Mapping.lookup (pid_names s) = names_by_pid os"
proof -
  obtain m names where "build_process_map (show_os os) = Some (Inr (m, names))"
    and "Mapping.lookup m = socket_owner os" "Mapping.lookup names = names_by_pid os"
    by (rule scan_read [OF assms])
  then show thesis
    by (intro that [of "\<lparr>cache_lookup = m, cache_last_refresh = mono clk, pid_names = names\<rparr>"])
      (simp_all add: LinuxProcessLookup_new_def)
qed

text \<open>C33 (round trip). From the texts that a little-endian kernel shows of its processes and sockets, the
  lookup attributes to a connection exactly the owner of the socket with its addresses, or, if no
  such socket has a known owner, the only process that owns sockets which may serve it, bound to
  any address or without a peer; and it never stops with a panic.\<close>

theorem socket_attributed:
  assumes "os_ok os"
  shows "\<exists>s. LinuxProcessLookup_new clk (show_os os) = Some (Inr s) \<and> (\<forall>conn pn.
    get_process_for_connection s conn = Some pn \<longleftrightarrow> socket_owner os (from_connection conn) = Some pn \<or>
      socket_owner os (from_connection conn) = None \<and> protocol conn \<in> {Tcp, Udp} \<and>
      {p. \<exists>k. may_serve k (from_connection conn) \<and> socket_owner os k = Some p} = {pn})"
proof -
  obtain s where "LinuxProcessLookup_new clk (show_os os) = Some (Inr s)"
    and "Mapping.lookup (cache_lookup s) = socket_owner os"
    by (rule new_lookup_read [OF assms, where clk = clk])
  then show ?thesis using attribution by blast
qed

definition sample_row :: "socket_addr \<Rightarrow> socket_addr \<Rightarrow> nat \<Rightarrow> socket_row" where
  "sample_row l r inode = \<lparr>row_slot = ascii ''0:'', row_local = l, row_remote = r,
     row_skipped = replicate 6 (ascii ''00''), row_inode = inode, row_more = [ascii ''1''],
     row_gaps = replicate 11 [32], row_end = [32, 32]\<rparr>"

definition tcp_at :: "nat \<Rightarrow> u8 \<Rightarrow> u8 \<Rightarrow> u8 \<Rightarrow> u8 \<Rightarrow> socket_addr" where
  "tcp_at p a b c d = \<lparr>ip = V4 (Ipv4Addr a b c d), port = of_nat p\<rparr>"

definition sample_os :: os_view where
  "sample_os = \<lparr>os_items = [Other_dir (Some (ascii ''self'')),
       Process_dir \<lparr>op_pid = 812, op_comm = ascii ''sshd'', op_links = [Socket 17]\<rparr>,
       Process_dir \<lparr>op_pid = 4242, op_comm = ascii ''curl'',
         op_links = [Other_target (ascii ''pipe:[5]''), Unreadable, Socket 99]\<rparr>],
     os_title = ascii ''  sl  local_address'',
     os_tcp = [sample_row (tcp_at 22 0 0 0 0) (tcp_at 0 0 0 0 0) 17,
       sample_row (tcp_at 40000 10 0 0 1) (tcp_at 443 93 184 216 34) 99],
     os_tcp6 = [], os_udp = [], os_udp6 = []\<rparr>"

definition sample_connection :: "nat \<Rightarrow> socket_addr \<Rightarrow> Connection" where
  "sample_connection p r = Connection_new sample_clock Tcp (tcp_at p 10 0 0 1) r (PS_Tcp TcpState.Established)"

lemma socket_attributed_witness:
  "\<exists>s. LinuxProcessLookup_new sample_clock (show_os sample_os) = Some (Inr s) \<and>
     get_process_for_connection s (sample_connection 40000 (tcp_at 443 93 184 216 34)) = Some (4242, ascii ''curl'') \<and>
     get_process_for_connection s (sample_connection 22 (tcp_at 5000 192 0 2 7)) = Some (812, ascii ''sshd'')"
proof -
  have "trim (ascii ''sshd'' @ [newline]) = ascii ''sshd''" "trim (ascii ''curl'' @ [newline]) = ascii ''curl''"
    by (simp_all add: trim_ascii ascii_def newline_def is_space_def)
  then have ok: "os_ok sample_os"
    by (simp add: os_ok_def sample_os_def sample_row_def row_ok_def row_words_def word_ok_def gap_ok_def
        extract_socket_inode_def parse_uint_def starts_with_def ascii_def is_ascii_graphic_def is_ascii_digit_def
        plain_def newline_def carriage_return_def replicate_numeral Let_def)
  have owner: "socket_owner sample_os = [row_key Tcp (sample_row (tcp_at 22 0 0 0 0) (tcp_at 0 0 0 0 0) 17) \<mapsto> (812, ascii ''sshd''),
      row_key Tcp (sample_row (tcp_at 40000 10 0 0 1) (tcp_at 443 93 184 216 34) 99) \<mapsto> (4242, ascii ''curl'')]"
    by (simp add: socket_owner_def os_rows_def sample_os_def row_entry_def inode_owner_def sample_row_def
        map_filter_simps)
  show ?thesis
    using socket_attributed [OF ok, of sample_clock]
    by (auto simp: owner from_connection_def sample_connection_def Connection_new_def may_serve_def row_key_def sample_row_def
        tcp_at_def any_address_def)
qed

text \<open>A connection of IPv4 addresses is never found among sockets with IPv6 addresses, although a
  dual-stack socket shows its IPv4 peers as such: as mapped addresses in the tables for IPv6.\<close>

lemma dual_stack_missed:
  assumes "os_ok os" and "os_tcp os = []" and "list_all (\<lambda>r. \<exists>a. ip (row_local r) = V6 a) (os_tcp6 os)"
    and "protocol conn = Tcp" and "ip (local_addr conn) = V4 x"
  shows "\<exists>s. LinuxProcessLookup_new clk (show_os os) = Some (Inr s) \<and> get_process_for_connection s conn = None"
proof -
  obtain s where s: "LinuxProcessLookup_new clk (show_os os) = Some (Inr s)"
    and owner: "Mapping.lookup (cache_lookup s) = socket_owner os"
    by (rule new_lookup_read [OF assms(1), where clk = clk])
  have none: "socket_owner os k = None" if "ck_protocol k = Tcp" "ip (ck_local k) = V4 y" for k y
    using that assms(2,3)
    by (auto simp: socket_owner_def os_rows_def map_of_eq_None_iff row_entry_def row_key_def List.map_filter_def
        list_all_iff)
  have "may_serve k (from_connection conn) \<Longrightarrow> socket_owner os k = None" for k
    using assms(4,5) by (auto simp: may_serve_def from_connection_def any_address_def intro: none)
  then have "{p. \<exists>k. may_serve k (from_connection conn) \<and> socket_owner os k = Some p} = {}" by auto
  moreover have "socket_owner os (from_connection conn) = None"
    using assms(4,5) by (auto simp: from_connection_def intro!: none)
  ultimately have "get_process_for_connection s conn \<noteq> Some pn" for pn
    using attribution [OF owner, of conn pn] by (simp only: option.distinct insert_not_empty empty_not_insert simp_thms)
  then have "get_process_for_connection s conn = None" by (cases "get_process_for_connection s conn") auto
  then show ?thesis using s by blast
qed

end
