(* ===== verification/EbpfLoad.thy ===== *)
theory EbpfLoad
  imports Lookups
begin

text \<open>
  Why the tracker program could not be loaded (\<^verbatim>\<open>rustnet-host/src/linux/ebpf/loader.rs\<close> and the
  texts of \<^verbatim>\<open>rustnet-host/src/lib.rs\<close>), in the build with the feature \<open>ebpf\<close>: the check of the
  capabilities, the search for the mount that holds the program, and the reading of an error's
  text. The files, the effective user and the texts of an error's causes are arguments; so is
  whether a character outside ASCII is alphanumeric. Code that may panic returns an option.
\<close>

unbundle bit_operations_syntax

section \<open>Reasons\<close>

datatype DegradationReason =
  NotDegraded | MissingCapBpf | MissingCapPerfmon | MissingBpfCapabilities | KernelUnsupported
  | BpfPermissionDenied | KprobeAttachFailed bytes | BtfUnavailable | EbpfLoadFailed bytes | BinaryOnNosuidMount

fun description :: "DegradationReason \<Rightarrow> bytes" where
  "description NotDegraded = []"
| "description MissingCapBpf = ascii ''needs CAP_BPF''"
| "description MissingCapPerfmon = ascii ''needs CAP_PERFMON''"
| "description MissingBpfCapabilities = ascii ''needs CAP_BPF+CAP_PERFMON''"
| "description KernelUnsupported = ascii ''kernel unsupported''"
| "description BpfPermissionDenied = ascii ''BPF denied (check perf_event_paranoid / AppArmor / unprivileged_bpf_disabled)''"
| "description (KprobeAttachFailed name) =
     (if name = [] then ascii ''kprobe attach failed'' else ascii ''kprobe attach failed: '' @ name)"
| "description BtfUnavailable = ascii ''kernel BTF unavailable''"
| "description (EbpfLoadFailed s) = ascii ''eBPF load failed: '' @ s"
| "description BinaryOnNosuidMount = ascii ''file caps ignored: binary on a nosuid mount''"

definition unavailable_feature :: "DegradationReason \<Rightarrow> bytes option" where
  "unavailable_feature r = (if r = NotDegraded then None else Some (ascii ''eBPF''))"

section \<open>Capabilities\<close>

definition cap_bit :: "u64 \<Rightarrow> nat \<Rightarrow> bool" where
  "cap_bit v n \<longleftrightarrow> v AND push_bit n 1 \<noteq> 0"

definition effective_caps :: "bytes \<Rightarrow> u64 option" where
  "effective_caps status =
     (case find (\<lambda>l. starts_with l (ascii ''CapEff:'')) (lines status) of
        None \<Rightarrow> None
      | Some cap_line \<Rightarrow>
          (let ws = split_whitespace cap_line
           in if length ws \<le> 1 then None else map_option word_of_nat (uint_from_hex (2 ^ 64) (ws ! 1))))"

definition check_capabilities_detailed :: "nat \<Rightarrow> bytes option \<Rightarrow> DegradationReason" where
  "check_capabilities_detailed euid status =
     (if euid = 0 then NotDegraded
      else case Option.bind status effective_caps of
          None \<Rightarrow> MissingBpfCapabilities
        | Some cap_value \<Rightarrow>
            (let has_bpf = cap_bit cap_value 39; has_perfmon = cap_bit cap_value 38; has_sys_admin = cap_bit cap_value 21
             in if has_bpf \<and> has_perfmon then NotDegraded
                else if has_sys_admin then NotDegraded
                else if \<not> has_bpf \<and> \<not> has_perfmon then MissingBpfCapabilities
                else if \<not> has_bpf then MissingCapBpf
                else MissingCapPerfmon))"

section \<open>The mount of the program\<close>

datatype component = RootDir | CurDir | ParentDir | Normal bytes

definition component_of :: "bytes \<Rightarrow> component" where
  "component_of p = (if p = ascii ''.'' then CurDir else if p = ascii ''..'' then ParentDir else Normal p)"

text \<open>\<open>Path::components\<close>: empty parts do not count, nor does \<open>.\<close> but at the start of a relative path.\<close>

definition components :: "bytes \<Rightarrow> component list" where
  "components p =
     (let parts = split_on 47 p;
          named = map component_of (filter (\<lambda>q. q \<noteq> [] \<and> q \<noteq> ascii ''.'') parts)
      in if p = [] then []
         else if hd p = 47 then RootDir # named
         else if hd parts = ascii ''.'' then CurDir # named
         else named)"

fun is_ancestor_of_or_equal :: "component list \<Rightarrow> component list \<Rightarrow> bool" where
  "is_ancestor_of_or_equal (x # xs) (y # ys) = (if x = y then is_ancestor_of_or_equal xs ys else False)"
| "is_ancestor_of_or_equal [] _ = True"
| "is_ancestor_of_or_equal _ _ = False"

definition better_mount :: "bytes \<Rightarrow> bytes \<Rightarrow> (nat \<times> bytes) option \<Rightarrow> (nat \<times> bytes) option" where
  "better_mount exe line best =
     (let ws = split_whitespace line in
      if length ws \<le> 5 then best
      else if is_ancestor_of_or_equal (components (ws ! 4)) (components exe) \<and>
              (case best of None \<Rightarrow> True | Some (l, _) \<Rightarrow> l < length (ws ! 4))
           then Some (length (ws ! 4), ws ! 5)
           else best)"

definition executable_on_nosuid_mount :: "bytes option \<Rightarrow> bytes option \<Rightarrow> bool" where
  "executable_on_nosuid_mount exe mountinfo =
     (case (exe, mountinfo) of
        (Some exe, Some info) \<Rightarrow>
          (case fold (better_mount exe) (lines info) None of
             Some (_, options) \<Rightarrow> ascii ''nosuid'' \<in> set (split_on 44 options)
           | None \<Rightarrow> False)
      | _ \<Rightarrow> False)"

section \<open>Errors\<close>

fun after_str :: "bytes \<Rightarrow> bytes \<Rightarrow> bytes option" where
  "after_str p [] = (if p = [] then Some [] else None)"
| "after_str p (c # s) = (if starts_with (c # s) p then Some (drop (length p) (c # s)) else after_str p s)"

fun before_str :: "bytes \<Rightarrow> bytes \<Rightarrow> bytes" where
  "before_str p [] = []"
| "before_str p (c # s) = (if starts_with (c # s) p then [] else c # before_str p s)"

definition symbol_char :: "(bytes \<Rightarrow> bool) \<Rightarrow> bytes \<Rightarrow> bool" where
  "symbol_char alnum c \<longleftrightarrow>
     (if list_all (\<lambda>b. b < 128) c then list_all is_ascii_alphanumeric c else alnum c) \<or> c = ascii ''_''"

fun first_symbol :: "(bytes \<Rightarrow> bool) \<Rightarrow> bytes \<Rightarrow> bytes list \<Rightarrow> bytes option" where
  "first_symbol alnum blob [] = None"
| "first_symbol alnum blob (p # ps) =
     (case after_str p blob of
        None \<Rightarrow> first_symbol alnum blob ps
      | Some rest \<Rightarrow>
          (let name = concat (takeWhile (symbol_char alnum) (chars (before_str p rest)))
           in if name \<noteq> [] then Some name else first_symbol alnum blob ps))"

definition extract_kprobe_symbol :: "(bytes \<Rightarrow> bool) \<Rightarrow> bytes \<Rightarrow> bytes option" where
  "extract_kprobe_symbol alnum blob =
     first_symbol alnum blob [ascii ''attach kprobe '', ascii ''kprobe/'', ascii ''kprobe '' @ [39]]"

definition truncate :: "nat \<Rightarrow> bytes \<Rightarrow> bytes option" where
  "truncate n s = (if length s < n then Some s else if is_char_boundary s n then Some (take n s) else None)"

text \<open>The causes of an error, the outermost first; the text of the error is that of the first.\<close>

definition classify_libbpf_error ::
  "(bytes \<Rightarrow> bytes) \<Rightarrow> (bytes \<Rightarrow> bool) \<Rightarrow> bytes list \<Rightarrow> DegradationReason option" where
  "classify_libbpf_error unicode_lower alnum chain =
     (let blob = concat (map (\<lambda>c. to_lowercase unicode_lower c @ [newline]) chain);
          mentions = (\<lambda>ws. list_ex (\<lambda>w. contains_str blob (ascii w)) ws)
      in if mentions [''btf'', ''vmlinux'', ''co-re''] then Some BtfUnavailable
         else if mentions [''function not implemented'', ''enosys''] then Some KernelUnsupported
         else if mentions [''operation not permitted'', ''permission denied'', ''eperm'', ''eacces'', ''-eacces'']
           then Some BpfPermissionDenied
         else if mentions [''attach'', ''kprobe'', ''perf_event_open'']
           then Some (KprobeAttachFailed (case extract_kprobe_symbol alnum blob of Some name \<Rightarrow> name | None \<Rightarrow> []))
         else let text = hd chain in
              if 100 < length text then do { t \<leftarrow> truncate 100 text; Some (EbpfLoadFailed (t @ [0xE2, 0x80, 0xA6])) }
              else Some (EbpfLoadFailed text))"

text \<open>Loading: the program itself, or the texts of the error.\<close>

definition try_load ::
  "(bytes \<Rightarrow> bytes) \<Rightarrow> (bytes \<Rightarrow> bool) \<Rightarrow> nat \<Rightarrow> bytes option \<Rightarrow> bytes option \<Rightarrow> bytes option \<Rightarrow> (bytes list + 'a)
    \<Rightarrow> ('a option \<times> DegradationReason) option" where
  "try_load unicode_lower alnum euid status exe mountinfo loaded =
     (let cap_result = check_capabilities_detailed euid status in
      if cap_result \<noteq> NotDegraded
      then if cap_result \<in> {MissingCapBpf, MissingCapPerfmon, MissingBpfCapabilities} \<and>
              executable_on_nosuid_mount exe mountinfo
           then Some (None, BinaryOnNosuidMount)
           else Some (None, cap_result)
      else case loaded of
          Inr loader \<Rightarrow> Some (Some loader, NotDegraded)
        | Inl chain \<Rightarrow> do { r \<leftarrow> classify_libbpf_error unicode_lower alnum chain; Some (None, r) })"

section \<open>What loading reports\<close>

text \<open>Capabilities suffice for a superuser, with both of the modern ones, or with the old one.\<close>

lemma cap_bit_iff: "cap_bit v n \<longleftrightarrow> bit v n"
  by (simp add: cap_bit_def bit_iff_and_push_bit_not_eq_0)

lemma capabilities_suffice:
  assumes "Option.bind status effective_caps = Some v"
  shows "check_capabilities_detailed euid status = NotDegraded \<longleftrightarrow> euid = 0 \<or> bit v 39 \<and> bit v 38 \<or> bit v 21"
  using assms by (simp add: check_capabilities_detailed_def cap_bit_iff Let_def)

lemma capability_reasons:
  "check_capabilities_detailed euid status \<in> {NotDegraded, MissingCapBpf, MissingCapPerfmon, MissingBpfCapabilities}"
  by (simp add: check_capabilities_detailed_def Let_def split: option.split)

text \<open>An ancestor is a path whose components begin the other's.\<close>

lemma ancestor_prefix: "is_ancestor_of_or_equal a b \<longleftrightarrow> (\<exists>c. b = a @ c)"
  by (induction a b rule: is_ancestor_of_or_equal.induct) auto

text \<open>The mount taken is the first of the longest ones that hold the program.\<close>

definition mount_of_line :: "bytes \<Rightarrow> (bytes \<times> bytes) option" where
  "mount_of_line line =
     (let ws = split_whitespace line in if length ws \<le> 5 then None else Some (ws ! 4, ws ! 5))"

definition holds_exe :: "bytes \<Rightarrow> bytes \<times> bytes \<Rightarrow> bool" where
  "holds_exe exe m \<longleftrightarrow> (\<exists>c. components exe = components (fst m) @ c)"

lemma better_mount_simp:
  "better_mount exe line best = (case mount_of_line line of
     None \<Rightarrow> best
   | Some m \<Rightarrow> if holds_exe exe m \<and> (case best of None \<Rightarrow> True | Some b \<Rightarrow> fst b < length (fst m))
              then Some (length (fst m), snd m) else best)"
  by (simp add: better_mount_def mount_of_line_def holds_exe_def ancestor_prefix Let_def case_prod_beta' split: option.split)

lemma best_mount:
  "case fold (better_mount exe) ls None of
     None \<Rightarrow> \<forall>m \<in> set (List.map_filter mount_of_line ls). \<not> holds_exe exe m
   | Some (n, opts) \<Rightarrow> \<exists>a mp b. List.map_filter mount_of_line ls = a @ (mp, opts) # b \<and> n = length mp \<and>
       holds_exe exe (mp, opts) \<and> (\<forall>m \<in> set a. holds_exe exe m \<longrightarrow> length (fst m) < n) \<and>
       (\<forall>m \<in> set b. holds_exe exe m \<longrightarrow> length (fst m) \<le> n)"
proof (induction ls rule: rev_induct)
  case (snoc l ls)
  have app: "List.map_filter mount_of_line (ls @ [l])
      = List.map_filter mount_of_line ls @ (case mount_of_line l of None \<Rightarrow> [] | Some m \<Rightarrow> [m])"
    by (induction ls) (auto split: option.split)
  show ?case
  proof (cases "mount_of_line l")
    case None
    then have "List.map_filter mount_of_line (ls @ [l]) = List.map_filter mount_of_line ls"
      "fold (better_mount exe) (ls @ [l]) None = fold (better_mount exe) ls None"
      using app by (simp_all add: better_mount_simp [of exe l])
    then show ?thesis using snoc by (simp only:)
  next
    case (Some m)
    have all: "List.map_filter mount_of_line (ls @ [l]) = List.map_filter mount_of_line ls @ [m]"
      using app Some by simp
    have win: ?thesis
      if "fold (better_mount exe) (ls @ [l]) None = Some (length (fst m), snd m)" "holds_exe exe m"
        "\<forall>k \<in> set (List.map_filter mount_of_line ls). holds_exe exe k \<longrightarrow> length (fst k) < length (fst m)"
      unfolding that(1) all option.case prod.case using that(2,3)
      by (rule_tac exI [of _ "List.map_filter mount_of_line ls"], rule_tac exI [of _ "fst m"], rule_tac exI [of _ "[]"]) simp
    show ?thesis
    proof (cases "fold (better_mount exe) ls None")
      case None
      show ?thesis
      proof (cases "holds_exe exe m")
        case True
        then show ?thesis using snoc None Some by (intro win) (simp_all add: better_mount_simp [of exe l])
      next
        case False
        then have "fold (better_mount exe) (ls @ [l]) None = None" using None Some by (simp add: better_mount_simp [of exe l])
        then show ?thesis using snoc None False all by simp
      qed
    next
      case best: (Some b)
      obtain n opts where b: "b = (n, opts)" by (cases b)
      obtain x mp y where split: "List.map_filter mount_of_line ls = x @ (mp, opts) # y" "n = length mp"
        "holds_exe exe (mp, opts)" "\<forall>m \<in> set x. holds_exe exe m \<longrightarrow> length (fst m) < n"
        "\<forall>m \<in> set y. holds_exe exe m \<longrightarrow> length (fst m) \<le> n"
        using snoc best b by auto
      show ?thesis
      proof (cases "holds_exe exe m \<and> n < length (fst m)")
        case True
        have "\<forall>k \<in> set (x @ (mp, opts) # y). holds_exe exe k \<longrightarrow> length (fst k) < length (fst m)"
          using True split by fastforce
        then show ?thesis using True best b Some split(1) by (intro win) (simp_all add: better_mount_simp [of exe l])
      next
        case False
        then have kept: "fold (better_mount exe) (ls @ [l]) None = Some (n, opts)"
          using best b Some by (auto simp: better_mount_simp [of exe l])
        have "\<forall>k \<in> set (y @ [m]). holds_exe exe k \<longrightarrow> length (fst k) \<le> n" using split(5) False by auto
        then show ?thesis unfolding kept all split(1) option.case prod.case using split(2-4)
          by (rule_tac exI [of _ x], rule_tac exI [of _ mp], rule_tac exI [of _ "y @ [m]"]) simp
      qed
    qed
  qed
qed simp

text \<open>The text of an error that fits no known failure is cut at its hundredth byte, and that panics when
  the byte is inside a character.\<close>

lemma unknown_error:
  assumes "list_all (\<lambda>w. \<not> contains_str (concat (map (\<lambda>c. to_lowercase unicode_lower c @ [newline]) chain)) (ascii w))
    [''btf'', ''vmlinux'', ''co-re'', ''function not implemented'', ''enosys'', ''operation not permitted'',
     ''permission denied'', ''eperm'', ''eacces'', ''-eacces'', ''attach'', ''kprobe'', ''perf_event_open'']"
  shows "classify_libbpf_error unicode_lower alnum chain =
    (if length (hd chain) \<le> 100 then Some (EbpfLoadFailed (hd chain))
     else if is_char_boundary (hd chain) 100 then Some (EbpfLoadFailed (take 100 (hd chain) @ [0xE2, 0x80, 0xA6]))
     else None)"
  using assms by (simp add: classify_libbpf_error_def truncate_def Let_def)

lemma load_reason:
  "try_load unicode_lower alnum euid status exe info loaded = Some (l, r) \<Longrightarrow> (l \<noteq> None) = (r = NotDegraded)"
proof -
  have "classify_libbpf_error unicode_lower alnum chain \<noteq> Some NotDegraded" for chain
    by (auto simp: classify_libbpf_error_def Let_def Option.bind_eq_Some_conv split: if_splits)
  then show "try_load unicode_lower alnum euid status exe info loaded = Some (l, r) \<Longrightarrow> ?thesis"
    by (auto simp: try_load_def Let_def Option.bind_eq_Some_conv split: if_splits sum.splits)
qed

end
