(* ===== verification/ProcLookup.thy ===== *)
theory ProcLookup
  imports ProcFs EbpfLoad EbpfMaps Tracker
begin

text \<open>
  The Linux lookup that asks the socket map of the tracker program first and \<^verbatim>\<open>/proc\<close> second
  (\<^verbatim>\<open>rustnet-host/src/linux/enhanced.rs\<close>), and the thread that asks it for every connection without
  a process (\<^verbatim>\<open>src/app.rs\<close>). One call sees one state of the host: what the map's system calls
  return, the keys they list, the files and the clocks. The counters wrap as in a release build.
\<close>

section \<open>State\<close>

record host_view =
  hv_endian :: endian
  hv_map :: map_view
  hv_keys :: "bytes list"
  hv_files :: procfs
  hv_clock :: clock

record LookupStats =
  ebpf_hits :: u64
  procfs_hits :: u64
  cache_hits :: u64
  total_lookups :: u64
  ipv4_lookups :: u64
  ipv6_lookups :: u64
  tcp_lookups :: u64
  udp_lookups :: u64
  cache_entries :: u64
  failed_lookups :: u64
  ebpf_available :: bool

definition LookupStats_default :: LookupStats where
  "LookupStats_default = \<lparr>ebpf_hits = 0, procfs_hits = 0, cache_hits = 0, total_lookups = 0, ipv4_lookups = 0,
     ipv6_lookups = 0, tcp_lookups = 0, udp_lookups = 0, cache_entries = 0, failed_lookups = 0, ebpf_available = False\<rparr>"

record CleanupConfig =
  cleanup_interval_secs :: u64
  stale_threshold_secs :: u64

definition CleanupConfig_default :: CleanupConfig where
  "CleanupConfig_default = \<lparr>cleanup_interval_secs = 30, stale_threshold_secs = 60\<rparr>"

text \<open>The tracker, when it could be loaded, is the map it fills.\<close>

record EnhancedLinuxProcessLookup =
  ebpf_tracker :: "socket_map option"
  procfs_lookup :: LinuxProcessLookup
  unified_lookup :: ConnectionProcessMap
  unified_refresh :: instant
  lookup_stats :: LookupStats
  cleanup_config :: CleanupConfig
  last_cleanup :: instant
  degradation_reason :: DegradationReason

text \<open>Loading the tracker gives its map, if it is there, and a reason, or the text of an error.\<close>

definition enhanced_new ::
  "clock \<Rightarrow> procfs \<Rightarrow> (bytes + socket_map option \<times> DegradationReason) \<Rightarrow> CleanupConfig
    \<Rightarrow> (io_error + EnhancedLinuxProcessLookup) option" where
  "enhanced_new clk fs loaded cfg =
     do { r \<leftarrow> LinuxProcessLookup_new clk fs;
          Some (case r of
              Inl e \<Rightarrow> Inl e
            | Inr p \<Rightarrow>
                (let (tracker, reason) = (case loaded of Inr tr \<Rightarrow> tr | Inl e \<Rightarrow> (None, EbpfLoadFailed e))
                 in Inr \<lparr>ebpf_tracker = tracker, procfs_lookup = p, unified_lookup = Mapping.empty,
                   unified_refresh = mono clk - int (secs 3600), lookup_stats = LookupStats_default,
                   cleanup_config = cfg, last_cleanup = mono clk - int (secs 3600), degradation_reason = reason\<rparr>)) }"

section \<open>Lookups\<close>

definition count :: "(LookupStats \<Rightarrow> LookupStats) \<Rightarrow> EnhancedLinuxProcessLookup \<Rightarrow> EnhancedLinuxProcessLookup" where
  "count f s = s\<lparr>lookup_stats := f (lookup_stats s)\<rparr>"

definition is_ebpf_available :: "EnhancedLinuxProcessLookup \<Rightarrow> bool" where
  "is_ebpf_available s \<longleftrightarrow> ebpf_tracker s \<noteq> None"

text \<open>Durations in whole seconds; the wall clock in nanoseconds since the epoch, as 64 bits.\<close>

definition cleanup_due :: "host_view \<Rightarrow> EnhancedLinuxProcessLookup \<Rightarrow> bool" where
  "cleanup_due h s \<longleftrightarrow>
     unat (cleanup_interval_secs (cleanup_config s)) \<le> since (mono (hv_clock h)) (last_cleanup s) div 1000000000"

definition maybe_cleanup_ebpf_map :: "host_view \<Rightarrow> EnhancedLinuxProcessLookup \<Rightarrow> EnhancedLinuxProcessLookup" where
  "maybe_cleanup_ebpf_map h s =
     (if cleanup_due h s then
        let s = s\<lparr>last_cleanup := mono (hv_clock h)\<rparr> in
        case ebpf_tracker s of
          None \<Rightarrow> s
        | Some m \<Rightarrow>
            if wall (hv_clock h) < 0 then s
            else s\<lparr>ebpf_tracker := Some (fst (tracker_cleanup (hv_endian h) (hv_map h) (hv_keys h)
              (word_of_nat (nat (wall (hv_clock h)))) (stale_threshold_secs (cleanup_config s)) m))\<rparr>
      else s)"

text \<open>The name that \<^verbatim>\<open>/proc\<close> has for the process, else the one the program recorded.\<close>

definition resolve :: "host_view \<Rightarrow> ProcessInfo \<Rightarrow> EnhancedLinuxProcessLookup \<Rightarrow> process \<times> EnhancedLinuxProcessLookup" where
  "resolve h info s =
     (let (name, p) = get_process_name_by_pid (hv_files h) (pi_pid info) (procfs_lookup s)
      in ((pi_pid info, case name of Some n \<Rightarrow> n | None \<Rightarrow> pi_comm info), s\<lparr>procfs_lookup := p\<rparr>))"

definition found_by_ebpf ::
  "host_view \<Rightarrow> ProcessInfo option \<Rightarrow> EnhancedLinuxProcessLookup \<Rightarrow> process option \<times> EnhancedLinuxProcessLookup" where
  "found_by_ebpf h r s =
     (case r of
        None \<Rightarrow> (None, s)
      | Some info \<Rightarrow> (let (pn, s) = resolve h info s in (Some pn, s)))"

definition try_ebpf_lookup ::
  "host_view \<Rightarrow> Connection \<Rightarrow> EnhancedLinuxProcessLookup \<Rightarrow> process option \<times> EnhancedLinuxProcessLookup" where
  "try_ebpf_lookup h conn s =
     (case ebpf_tracker s of
        None \<Rightarrow> (None, s)
      | Some m \<Rightarrow> found_by_ebpf h
          (lookup (hv_endian h) (hv_map h) m (ip (local_addr conn)) (ip (remote_addr conn))
            (port (local_addr conn)) (port (remote_addr conn)) (protocol conn = Tcp)) s)"

definition try_ebpf_icmp_lookup ::
  "host_view \<Rightarrow> Connection \<Rightarrow> u16 \<Rightarrow> EnhancedLinuxProcessLookup \<Rightarrow> process option \<times> EnhancedLinuxProcessLookup" where
  "try_ebpf_icmp_lookup h conn ident s =
     (case ebpf_tracker s of
        None \<Rightarrow> (None, s)
      | Some m \<Rightarrow> found_by_ebpf h
          (lookup_icmp (hv_endian h) (hv_map h) m (ip (local_addr conn)) (ip (remote_addr conn)) ident) s)"

definition ebpf_first ::
  "host_view \<Rightarrow> Connection \<Rightarrow> EnhancedLinuxProcessLookup \<Rightarrow> process option \<times> EnhancedLinuxProcessLookup" where
  "ebpf_first h conn s =
     (case protocol conn of
        Tcp \<Rightarrow> try_ebpf_lookup h conn s
      | Udp \<Rightarrow> try_ebpf_lookup h conn s
      | Icmp \<Rightarrow> (case protocol_state conn of
            PS_Icmp ty (Some ident) \<Rightarrow> try_ebpf_icmp_lookup h conn ident s
          | _ \<Rightarrow> (None, s))
      | _ \<Rightarrow> (None, s))"

definition lookup_process_enhanced ::
  "host_view \<Rightarrow> Connection \<Rightarrow> EnhancedLinuxProcessLookup \<Rightarrow> process option \<times> EnhancedLinuxProcessLookup" where
  "lookup_process_enhanced h conn s =
     (case ebpf_first h conn s of
        (Some pn, s) \<Rightarrow> (Some pn, count (\<lambda>st. st\<lparr>ebpf_hits := ebpf_hits st + 1\<rparr>) s)
      | (None, s) \<Rightarrow>
          (case get_process_for_connection (procfs_lookup s) conn of
             Some pn \<Rightarrow> (Some pn, count (\<lambda>st. st\<lparr>procfs_hits := procfs_hits st + 1\<rparr>) s)
           | None \<Rightarrow> (None, s)))"

definition count_lookup :: "Connection \<Rightarrow> bool \<Rightarrow> LookupStats \<Rightarrow> LookupStats" where
  "count_lookup conn available st =
     (let st = st\<lparr>total_lookups := total_lookups st + 1\<rparr>;
          st = (case ip (local_addr conn) of
              V4 _ \<Rightarrow> st\<lparr>ipv4_lookups := ipv4_lookups st + 1\<rparr>
            | V6 _ \<Rightarrow> st\<lparr>ipv6_lookups := ipv6_lookups st + 1\<rparr>);
          st = (case protocol conn of
              Tcp \<Rightarrow> st\<lparr>tcp_lookups := tcp_lookups st + 1\<rparr>
            | Udp \<Rightarrow> st\<lparr>udp_lookups := udp_lookups st + 1\<rparr>
            | _ \<Rightarrow> st)
      in st\<lparr>ebpf_available := available\<rparr>)"

definition cached_answer :: "host_view \<Rightarrow> SocketKey \<Rightarrow> EnhancedLinuxProcessLookup \<Rightarrow> process option" where
  "cached_answer h k s =
     (if since (mono (hv_clock h)) (unified_refresh s) < secs 2 then Mapping.lookup (unified_lookup s) k else None)"

definition remember :: "SocketKey \<Rightarrow> process \<Rightarrow> EnhancedLinuxProcessLookup \<Rightarrow> EnhancedLinuxProcessLookup" where
  "remember k pn s =
     (let m = Mapping.update k pn (unified_lookup s)
      in count (\<lambda>st. st\<lparr>cache_entries := of_nat (Mapping.size m)\<rparr>) (s\<lparr>unified_lookup := m\<rparr>))"

definition enhanced_lookup ::
  "host_view \<Rightarrow> Connection \<Rightarrow> EnhancedLinuxProcessLookup \<Rightarrow> process option \<times> EnhancedLinuxProcessLookup" where
  "enhanced_lookup h conn s =
     (let s = maybe_cleanup_ebpf_map h s;
          k = from_connection conn;
          s = count (count_lookup conn (is_ebpf_available s)) s
      in case cached_answer h k s of
           Some pn \<Rightarrow> (Some pn, count (\<lambda>st. st\<lparr>cache_hits := cache_hits st + 1\<rparr>) s)
         | None \<Rightarrow>
             (case lookup_process_enhanced h conn s of
                (Some pn, s) \<Rightarrow> (Some pn, remember k pn s)
              | (None, s) \<Rightarrow> (None, count (\<lambda>st. st\<lparr>failed_lookups := failed_lookups st + 1\<rparr>) s)))"

definition enhanced_refresh ::
  "host_view \<Rightarrow> EnhancedLinuxProcessLookup \<Rightarrow> ((io_error + unit) \<times> EnhancedLinuxProcessLookup) option" where
  "enhanced_refresh h s =
     do { r \<leftarrow> procfs_refresh (hv_clock h) (hv_files h) (procfs_lookup s);
          Some (case r of
              (Inl e, p) \<Rightarrow> (Inl e, s\<lparr>procfs_lookup := p\<rparr>)
            | (Inr u, p) \<Rightarrow> (Inr u, s\<lparr>procfs_lookup := p, unified_refresh := mono (hv_clock h),
                unified_lookup := Mapping.empty\<rparr>)) }"

definition get_detection_method :: "EnhancedLinuxProcessLookup \<Rightarrow> bytes" where
  "get_detection_method s = (if is_ebpf_available s then ascii ''eBPF + procfs'' else ascii ''procfs'')"

section \<open>The enrichment thread\<close>

definition is_young :: "clock \<Rightarrow> Connection \<Rightarrow> bool" where
  "is_young clk conn \<longleftrightarrow> wall clk < created_at conn \<or> since (wall clk) (created_at conn) div 1000000000 < 10"

definition fill_in :: "process \<Rightarrow> Connection \<Rightarrow> Connection" where
  "fill_in pn conn =
     (let conn = (if process_name conn = None then conn\<lparr>process_name := Some (snd pn)\<rparr> else conn)
      in if Connection.pid conn = None then conn\<lparr>Connection.pid := Some (fst pn)\<rparr> else conn)"

text \<open>The lookup is any implementation of the trait: a function on its own state.\<close>

definition enrich ::
  "(Connection \<Rightarrow> 's \<Rightarrow> process option \<times> 's) \<Rightarrow> bool \<Rightarrow> clock \<Rightarrow> Connection \<Rightarrow> 's \<Rightarrow> Connection \<times> 's" where
  "enrich get full_pass clk conn s =
     (if process_name conn \<noteq> None \<and> Connection.pid conn \<noteq> None then (conn, s)
      else if \<not> full_pass \<and> \<not> is_young clk conn then (conn, s)
      else case get conn s of
          (Some pn, s) \<Rightarrow> (fill_in pn conn, s)
        | (None, s) \<Rightarrow> (conn, s))"

fun enrich_all ::
  "(Connection \<Rightarrow> 's \<Rightarrow> process option \<times> 's) \<Rightarrow> bool \<Rightarrow> clock \<Rightarrow> (bytes \<times> Connection) list \<Rightarrow> 's
    \<Rightarrow> (bytes \<times> Connection) list \<times> 's" where
  "enrich_all get full_pass clk [] s = ([], s)"
| "enrich_all get full_pass clk ((key, conn) # cs) s =
     (let (conn, s) = enrich get full_pass clk conn s;
          (cs, s) = enrich_all get full_pass clk cs s
      in ((key, conn) # cs, s))"

record 's enricher =
  en_lookup :: 's
  en_last_refresh :: instant
  en_last_full_pass :: instant

text \<open>One turn of the thread's loop: an error of the refresh is only logged.\<close>

definition enrich_tick ::
  "(Connection \<Rightarrow> 's \<Rightarrow> process option \<times> 's) \<Rightarrow> ('s \<Rightarrow> ((io_error + unit) \<times> 's) option) \<Rightarrow> clock
    \<Rightarrow> ConnectionTracker \<Rightarrow> 's enricher \<Rightarrow> (ConnectionTracker \<times> 's enricher) option" where
  "enrich_tick get refresh clk t e =
     (let now = mono clk in
      do { e \<leftarrow> (if secs 5 < since now (en_last_refresh e)
                then do { (r, s) \<leftarrow> refresh (en_lookup e);
                          Some (e\<lparr>en_lookup := s, en_last_refresh := now\<rparr>) }
                else Some e);
          let full_pass = (secs 2 \<le> since now (en_last_full_pass e));
              e = (if full_pass then e\<lparr>en_last_full_pass := now\<rparr> else e);
              (cs, s) = enrich_all get full_pass clk (connections t) (en_lookup e)
          in Some (t\<lparr>connections := cs\<rparr>, e\<lparr>en_lookup := s\<rparr>) })"

section \<open>What a lookup promises\<close>

text \<open>A connection after a pass, when the lookup's answer for it is \<open>r\<close>.\<close>

definition enriched :: "bool \<Rightarrow> clock \<Rightarrow> process option \<Rightarrow> Connection \<Rightarrow> Connection" where
  "enriched full_pass clk r c =
     (if process_name c \<noteq> None \<and> Connection.pid c \<noteq> None \<or> \<not> full_pass \<and> \<not> is_young clk c then c
      else case r of Some pn \<Rightarrow> fill_in pn c | None \<Rightarrow> c)"

text \<open>In a state that is good for a connection the answer for it is a function of the state, and no
  lookup, for it or for another connection, changes that answer or that the state is good for it.\<close>

locale process_lookup =
  fixes get :: "Connection \<Rightarrow> 's \<Rightarrow> process option \<times> 's"
    and answer :: "'s \<Rightarrow> Connection \<Rightarrow> process option"
    and good :: "'s \<Rightarrow> Connection \<Rightarrow> bool"
  assumes get_answer: "good s c \<Longrightarrow> fst (get c s) = answer s c"
    and get_good: "good s d \<Longrightarrow> good (snd (get c s)) d"
    and get_keeps: "good s d \<Longrightarrow> answer (snd (get c s)) d = answer s d"
begin

lemma enrich_one:
  assumes "enrich get full_pass clk c s = (c', s')"
  shows "good s d \<Longrightarrow> good s' d" "good s d \<Longrightarrow> answer s' d = answer s d"
    "good s c \<Longrightarrow> c' = enriched full_pass clk (answer s c) c"
proof -
  have "s' = s \<or> s' = snd (get c s)" using assms by (auto simp: enrich_def split: if_splits prod.splits option.splits)
  then show "good s d \<Longrightarrow> good s' d" "good s d \<Longrightarrow> answer s' d = answer s d" using get_good get_keeps by auto
  show "good s c \<Longrightarrow> c' = enriched full_pass clk (answer s c) c"
    using assms get_answer [of s c]
    by (auto simp: enrich_def enriched_def split: if_splits prod.splits option.splits)
qed

lemma enrich_all_member:
  assumes "good s c" "(key, c) \<in> set cs"
  shows "(key, enriched full_pass clk (answer s c) c) \<in> set (fst (enrich_all get full_pass clk cs s))"
  using assms
proof (induction cs arbitrary: s)
  case (Cons e cs)
  obtain k d where e: "e = (k, d)" by (cases e)
  obtain d' s' where d: "enrich get full_pass clk d s = (d', s')" by (cases "enrich get full_pass clk d s")
  note one = enrich_one [OF d]
  show ?case
  proof (cases "e = (key, c)")
    case True
    then show ?thesis using one(3) Cons.prems(1) d by (auto simp: e split: prod.split)
  next
    case False
    then have "(key, enriched full_pass clk (answer s' c) c) \<in> set (fst (enrich_all get full_pass clk cs s'))"
      using Cons.prems one(1) by (intro Cons.IH) simp_all
    then show ?thesis using one(2) [OF Cons.prems(1)] d by (auto simp: e split: prod.split)
  qed
qed simp

lemma enrich_all_good: "good s c \<Longrightarrow> good (snd (enrich_all get full_pass clk cs s)) c"
proof (induction cs arbitrary: s)
  case (Cons e cs)
  obtain k d where e: "e = (k, d)" by (cases e)
  obtain d' s' where d: "enrich get full_pass clk d s = (d', s')" by (cases "enrich get full_pass clk d s")
  show ?case using Cons.IH [of s'] enrich_one(1) [OF d Cons.prems] d by (auto simp: e split: prod.split)
qed simp

end

text \<open>Every pass leaves the keys of the table and all of a connection but its process.\<close>

lemma fill_in_fields:
  "process_name (fill_in pn c) = Some (case process_name c of None \<Rightarrow> snd pn | Some n \<Rightarrow> n)"
  "Connection.pid (fill_in pn c) = Some (case Connection.pid c of None \<Rightarrow> fst pn | Some p \<Rightarrow> p)"
  "from_connection (fill_in pn c) = from_connection c"
  by (auto simp: fill_in_def from_connection_def Let_def)

interpretation procfs_only: process_lookup "\<lambda>c s. (get_process_for_connection s c, s)" get_process_for_connection "\<lambda>s c. True"
  by unfold_locales simp_all

section \<open>Answers of the enhanced lookup\<close>

definition resolved_name :: "host_view \<Rightarrow> LinuxProcessLookup \<Rightarrow> u32 \<Rightarrow> bytes \<Rightarrow> bytes" where
  "resolved_name h p i recorded =
     (case Mapping.lookup (pid_names p) i of
        Some n \<Rightarrow> n
      | None \<Rightarrow> (case comm_file (hv_files h) i of
            Some c \<Rightarrow> if trim c = [] then recorded else trim c
          | None \<Rightarrow> recorded))"

definition ebpf_answer :: "host_view \<Rightarrow> EnhancedLinuxProcessLookup \<Rightarrow> Connection \<Rightarrow> ProcessInfo option" where
  "ebpf_answer h s conn =
     Option.bind (ebpf_tracker s) (\<lambda>m.
       case protocol conn of
         Icmp \<Rightarrow> (case protocol_state conn of
             PS_Icmp ty (Some ident) \<Rightarrow>
               lookup_icmp (hv_endian h) (hv_map h) m (ip (local_addr conn)) (ip (remote_addr conn)) ident
           | _ \<Rightarrow> None)
       | Igmp \<Rightarrow> None
       | Arp \<Rightarrow> None
       | prot \<Rightarrow> lookup (hv_endian h) (hv_map h) m (ip (local_addr conn)) (ip (remote_addr conn))
           (port (local_addr conn)) (port (remote_addr conn)) (prot = Tcp))"

definition enhanced_answer :: "host_view \<Rightarrow> EnhancedLinuxProcessLookup \<Rightarrow> Connection \<Rightarrow> process option" where
  "enhanced_answer h s conn =
     (case ebpf_answer h s conn of
        Some info \<Rightarrow> Some (pi_pid info, resolved_name h (procfs_lookup s) (pi_pid info) (pi_comm info))
      | None \<Rightarrow> get_process_for_connection (procfs_lookup s) conn)"

text \<open>What a lookup without a cleanup keeps.\<close>

definition same_answers :: "host_view \<Rightarrow> EnhancedLinuxProcessLookup \<Rightarrow> EnhancedLinuxProcessLookup \<Rightarrow> bool" where
  "same_answers h s s' \<longleftrightarrow> ebpf_tracker s' = ebpf_tracker s \<and> unified_refresh s' = unified_refresh s \<and>
     cleanup_config s' = cleanup_config s \<and> last_cleanup s' = last_cleanup s \<and>
     cache_lookup (procfs_lookup s') = cache_lookup (procfs_lookup s) \<and>
     resolved_name h (procfs_lookup s') = resolved_name h (procfs_lookup s)"

lemma same_answers_refl [simp]: "same_answers h s s"
  by (simp add: same_answers_def)

lemma same_answers_count [simp]: "same_answers h s (count f t) = same_answers h s t"
  "same_answers h (count f s) t = same_answers h s t" "ebpf_answer h (count f s) c = ebpf_answer h s c"
  "procfs_lookup (count f s) = procfs_lookup s" "ebpf_tracker (count f s) = ebpf_tracker s"
  "unified_lookup (count f s) = unified_lookup s" "cached_answer h k (count f s) = cached_answer h k s"
  by (simp_all add: same_answers_def count_def ebpf_answer_def cached_answer_def)

lemma same_answers_answer:
  "same_answers h s s' \<Longrightarrow> enhanced_answer h s' c = enhanced_answer h s c"
proof -
  assume same: "same_answers h s s'"
  then have "ebpf_answer h s' c = ebpf_answer h s c" "get_process_for_connection (procfs_lookup s') c
      = get_process_for_connection (procfs_lookup s) c"
    by (simp_all only: same_answers_def ebpf_answer_def get_process_for_connection_def)
  then show ?thesis using same by (simp add: same_answers_def enhanced_answer_def split: option.split)
qed

lemma name_by_pid:
  assumes "get_process_name_by_pid (hv_files h) i p = (r, p')"
  shows "cache_lookup p' = cache_lookup p" "resolved_name h p' = resolved_name h p"
    "resolved_name h p i recorded = (case r of Some n \<Rightarrow> n | None \<Rightarrow> recorded)"
  using assms by (auto simp: get_process_name_by_pid_def resolved_name_def Let_def lookup_update' fun_eq_iff
      split: option.splits if_splits)

lemma found_by_ebpf_answer:
  assumes "found_by_ebpf h r s = (res, s')"
  shows "res = map_option (\<lambda>i. (pi_pid i, resolved_name h (procfs_lookup s) (pi_pid i) (pi_comm i))) r"
    "same_answers h s s'" "unified_lookup s' = unified_lookup s"
proof -
  show "res = map_option (\<lambda>i. (pi_pid i, resolved_name h (procfs_lookup s) (pi_pid i) (pi_comm i))) r"
    "same_answers h s s'" "unified_lookup s' = unified_lookup s"
    using assms name_by_pid [where h = h and p = "procfs_lookup s"]
    by (auto simp: found_by_ebpf_def resolve_def same_answers_def Let_def split: option.splits prod.splits)
qed

lemma ebpf_first_answer:
  assumes "ebpf_first h c s = (res, s')"
  shows "res = map_option (\<lambda>i. (pi_pid i, resolved_name h (procfs_lookup s) (pi_pid i) (pi_comm i))) (ebpf_answer h s c)"
    "same_answers h s s'" "unified_lookup s' = unified_lookup s"
proof -
  have "\<exists>r. found_by_ebpf h r s = (res, s') \<and> ebpf_answer h s c = r"
    using assms
    by (cases "ebpf_tracker s"; cases "protocol c"; cases "protocol_state c"; cases "icmp_id (protocol_state c)")
      (auto simp: ebpf_first_def try_ebpf_lookup_def try_ebpf_icmp_lookup_def ebpf_answer_def found_by_ebpf_def)
  then show "res = map_option (\<lambda>i. (pi_pid i, resolved_name h (procfs_lookup s) (pi_pid i) (pi_comm i))) (ebpf_answer h s c)"
    "same_answers h s s'" "unified_lookup s' = unified_lookup s"
    using found_by_ebpf_answer [of h "ebpf_answer h s c" s res s'] by auto
qed

lemma lookup_process_enhanced_answer:
  assumes "lookup_process_enhanced h c s = (res, s')"
  shows "res = enhanced_answer h s c" "same_answers h s s'" "unified_lookup s' = unified_lookup s"
proof -
  obtain r s1 where first: "ebpf_first h c s = (r, s1)" by (cases "ebpf_first h c s")
  note facts = ebpf_first_answer [OF first]
  have "get_process_for_connection (procfs_lookup s1) c = get_process_for_connection (procfs_lookup s) c"
    using facts(2) by (simp only: same_answers_def get_process_for_connection_def)
  then show "res = enhanced_answer h s c" "same_answers h s s'" "unified_lookup s' = unified_lookup s"
    using assms facts unfolding lookup_process_enhanced_def first enhanced_answer_def
    by (auto split: option.splits)
qed

lemma enhanced_lookup_step:
  assumes "\<not> cleanup_due h s" "enhanced_lookup h c s = (res, s')"
  shows "res = (case cached_answer h (from_connection c) s of Some pn \<Rightarrow> Some pn | None \<Rightarrow> enhanced_answer h s c)"
    and "same_answers h s s'"
    and "unified_lookup s' = (case cached_answer h (from_connection c) s of
        Some pn \<Rightarrow> unified_lookup s
      | None \<Rightarrow> (case res of None \<Rightarrow> unified_lookup s | Some pn \<Rightarrow> Mapping.update (from_connection c) pn (unified_lookup s)))"
proof -
  let ?s = "count (count_lookup c (is_ebpf_available s)) s"
  obtain r s1 where l: "lookup_process_enhanced h c ?s = (r, s1)" by (cases "lookup_process_enhanced h c ?s")
  have "enhanced_answer h ?s c = enhanced_answer h s c"
    by (rule same_answers_answer) (simp add: same_answers_def count_def)
  note facts = lookup_process_enhanced_answer [OF l, unfolded this]
  have step: "enhanced_lookup h c s = (case cached_answer h (from_connection c) s of
        Some pn \<Rightarrow> (Some pn, count (\<lambda>st. st\<lparr>cache_hits := cache_hits st + 1\<rparr>) ?s)
      | None \<Rightarrow> (case (r, s1) of
            (Some pn, s) \<Rightarrow> (Some pn, remember (from_connection c) pn s)
          | (None, s) \<Rightarrow> (None, count (\<lambda>st. st\<lparr>failed_lookups := failed_lookups st + 1\<rparr>) s)))"
    using assms(1) by (cases "cached_answer h (from_connection c) s")
      (simp_all add: l enhanced_lookup_def maybe_cleanup_ebpf_map_def Let_def)
  have rem: "same_answers h s (remember k pn s1) = same_answers h s s1"
    "unified_lookup (remember k pn s1) = Mapping.update k pn (unified_lookup s1)" for k pn
    by (simp_all add: remember_def Let_def) (simp add: same_answers_def)
  show "res = (case cached_answer h (from_connection c) s of Some pn \<Rightarrow> Some pn | None \<Rightarrow> enhanced_answer h s c)"
    using assms(2) facts(1) unfolding step by (auto split: option.splits)
  show "same_answers h s s'"
    using assms(2) facts(2) rem unfolding step by (auto split: option.splits)
  show "unified_lookup s' = (case cached_answer h (from_connection c) s of
        Some pn \<Rightarrow> unified_lookup s
      | None \<Rightarrow> (case res of None \<Rightarrow> unified_lookup s | Some pn \<Rightarrow> Mapping.update (from_connection c) pn (unified_lookup s)))"
    using assms(2) facts(3) rem unfolding step by (auto split: option.splits)
qed

lemma cleanup_due_same: "same_answers h s s' \<Longrightarrow> cleanup_due h s' = cleanup_due h s"
  by (simp add: same_answers_def cleanup_due_def)

text \<open>Only connections of ICMP with the same addresses have the same key and different answers.\<close>

lemma answer_by_key:
  assumes "from_connection c = from_connection d" "protocol c \<noteq> Icmp"
  shows "enhanced_answer h s c = enhanced_answer h s d"
proof -
  have "protocol c = protocol d" "local_addr c = local_addr d" "remote_addr c = remote_addr d"
    using assms(1) by (simp_all add: from_connection_def)
  then have "ebpf_answer h s c = ebpf_answer h s d" using assms(2) by (cases "protocol d") (simp_all add: ebpf_answer_def)
  then show ?thesis using assms(1) by (simp add: enhanced_answer_def get_process_for_connection_def split: option.split)
qed

text \<open>The cache is right for a connection when what it would answer for it is the answer.\<close>

definition cache_right :: "host_view \<Rightarrow> EnhancedLinuxProcessLookup \<Rightarrow> Connection \<Rightarrow> bool" where
  "cache_right h s c \<longleftrightarrow>
     (case cached_answer h (from_connection c) s of None \<Rightarrow> True | Some pn \<Rightarrow> enhanced_answer h s c = Some pn)"

interpretation enhanced: process_lookup "enhanced_lookup h" "enhanced_answer h"
  "\<lambda>s c. protocol c \<noteq> Icmp \<and> \<not> cleanup_due h s \<and> cache_right h s c"
proof
  fix s :: EnhancedLinuxProcessLookup and c d :: Connection
  obtain res s' where l: "enhanced_lookup h c s = (res, s')" by (cases "enhanced_lookup h c s")
  show "fst (enhanced_lookup h c s) = enhanced_answer h s c"
    if "protocol c \<noteq> Icmp \<and> \<not> cleanup_due h s \<and> cache_right h s c"
    using that enhanced_lookup_step(1) [OF _ l] l by (auto simp: cache_right_def split: option.splits)
  assume good: "protocol d \<noteq> Icmp \<and> \<not> cleanup_due h s \<and> cache_right h s d"
  note step = enhanced_lookup_step [OF conjunct1 [OF conjunct2 [OF good]] l]
  show "enhanced_answer h (snd (enhanced_lookup h c s)) d = enhanced_answer h s d"
    using same_answers_answer [OF step(2)] l by simp
  have "case cached_answer h (from_connection d) s' of None \<Rightarrow> True | Some pn \<Rightarrow> enhanced_answer h s d = Some pn"
  proof (cases "from_connection d = from_connection c")
    case True
    then have "enhanced_answer h s d = enhanced_answer h s c" using answer_by_key good by blast
    then show ?thesis
      using good step unfolding True cache_right_def
      by (auto simp: cached_answer_def same_answers_def lookup_update' split: option.splits if_splits)
  next
    case False
    then have "cached_answer h (from_connection d) s' = cached_answer h (from_connection d) s"
      using step(2,3) by (auto simp: cached_answer_def same_answers_def lookup_update' split: option.splits)
    then show ?thesis using good by (simp add: cache_right_def)
  qed
  then show "protocol d \<noteq> Icmp \<and> \<not> cleanup_due h (snd (enhanced_lookup h c s)) \<and> cache_right h (snd (enhanced_lookup h c s)) d"
    unfolding l snd_conv cache_right_def same_answers_answer [OF step(2)] cleanup_due_same [OF step(2)]
    using good by blast
qed

lemma cache_right_empty: "cached_answer h (from_connection c) s = None \<Longrightarrow> cache_right h s c"
  by (simp add: cache_right_def)

text \<open>A due cleanup comes before the lookup.\<close>

lemma lookup_after_cleanup:
  assumes "cleanup_interval_secs (cleanup_config s) \<noteq> 0"
  shows "\<not> cleanup_due h (maybe_cleanup_ebpf_map h s)"
    and "enhanced_lookup h c s = enhanced_lookup h c (maybe_cleanup_ebpf_map h s)"
    and "cached_answer h k (maybe_cleanup_ebpf_map h s) = cached_answer h k s"
    and "procfs_lookup (maybe_cleanup_ebpf_map h s) = procfs_lookup s"
proof -
  show due: "\<not> cleanup_due h (maybe_cleanup_ebpf_map h s)"
    using assms unat_gt_0 [of "cleanup_interval_secs (cleanup_config s)"]
    by (auto simp: maybe_cleanup_ebpf_map_def cleanup_due_def Let_def since_def split: option.splits)
  then show "enhanced_lookup h c s = enhanced_lookup h c (maybe_cleanup_ebpf_map h s)"
    by (simp add: enhanced_lookup_def) (simp add: maybe_cleanup_ebpf_map_def)
  show "cached_answer h k (maybe_cleanup_ebpf_map h s) = cached_answer h k s"
    "procfs_lookup (maybe_cleanup_ebpf_map h s) = procfs_lookup s"
    by (simp_all add: maybe_cleanup_ebpf_map_def cached_answer_def Let_def split: option.split)
qed

section \<open>The counters\<close>

text \<open>The states of the lookup: the first one, then lookups and refreshes on whatever the host shows.\<close>

inductive enhanced_reachable :: "EnhancedLinuxProcessLookup \<Rightarrow> bool" where
  started: "enhanced_new clk fs loaded cfg = Some (Inr s) \<Longrightarrow> enhanced_reachable s"
| looked_up: "enhanced_reachable s \<Longrightarrow> enhanced_lookup h c s = (r, s') \<Longrightarrow> enhanced_reachable s'"
| refreshed: "enhanced_reachable s \<Longrightarrow> enhanced_refresh h s = Some (r, s') \<Longrightarrow> enhanced_reachable s'"

definition balanced :: "LookupStats \<Rightarrow> bool" where
  "balanced st \<longleftrightarrow> ebpf_hits st + procfs_hits st + cache_hits st + failed_lookups st = total_lookups st \<and>
     ipv4_lookups st + ipv6_lookups st = total_lookups st"

lemma stats_count [simp]: "lookup_stats (count f s) = f (lookup_stats s)"
  by (simp add: count_def)

lemma stats_cleanup [simp]: "lookup_stats (maybe_cleanup_ebpf_map h s) = lookup_stats s"
  by (simp add: maybe_cleanup_ebpf_map_def Let_def split: option.split)

lemma stats_ebpf_first: "ebpf_first h c s = (r, s') \<Longrightarrow> lookup_stats s' = lookup_stats s"
  by (auto simp: ebpf_first_def try_ebpf_lookup_def try_ebpf_icmp_lookup_def found_by_ebpf_def resolve_def Let_def
      split: Protocol.splits ProtocolState.splits option.splits prod.splits)

definition uncounted :: "LookupStats \<Rightarrow> bool" where
  "uncounted st \<longleftrightarrow> ebpf_hits st + procfs_hits st + cache_hits st + failed_lookups st + 1 = total_lookups st \<and>
     ipv4_lookups st + ipv6_lookups st = total_lookups st"

lemma balanced_count_lookup: "balanced st \<Longrightarrow> uncounted (count_lookup c b st)"
  by (cases "ip (local_addr c)"; cases "protocol c")
    (auto simp: balanced_def uncounted_def count_lookup_def Let_def algebra_simps)

lemma balanced_lookup:
  assumes "balanced (lookup_stats s)"
  shows "balanced (lookup_stats (snd (enhanced_lookup h c s)))"
proof -
  let ?s1 = "maybe_cleanup_ebpf_map h s"
  let ?s = "count (count_lookup c (is_ebpf_available ?s1)) ?s1"
  obtain r s' where first: "ebpf_first h c ?s = (r, s')" by (cases "ebpf_first h c ?s")
  have u: "uncounted (lookup_stats ?s)" using assms by (simp add: balanced_count_lookup)
  moreover have "lookup_stats s' = lookup_stats ?s" by (rule stats_ebpf_first [OF first])
  ultimately have u': "uncounted (lookup_stats s')" by simp
  have one: "balanced (st\<lparr>ebpf_hits := ebpf_hits st + 1\<rparr>)" "balanced (st\<lparr>procfs_hits := procfs_hits st + 1\<rparr>)"
    "balanced (st\<lparr>cache_hits := cache_hits st + 1\<rparr>)" "balanced (st\<lparr>failed_lookups := failed_lookups st + 1\<rparr>)"
    if "uncounted st" for st
    using that by (simp_all add: uncounted_def balanced_def algebra_simps)
  have size: "balanced (st\<lparr>cache_entries := n\<rparr>) = balanced st" for st n by (simp add: balanced_def)
  show ?thesis
    using one [OF u] one [OF u']
    by (cases "cached_answer h (from_connection c) ?s"; cases r; cases "get_process_for_connection (procfs_lookup s') c")
      (simp_all add: enhanced_lookup_def lookup_process_enhanced_def Let_def remember_def size first split: option.split)
qed

lemma lookup_counters_balance: "enhanced_reachable s \<Longrightarrow> balanced (lookup_stats s)"
proof (induction rule: enhanced_reachable.induct)
  case (started clk fs loaded cfg s)
  then obtain r where "LinuxProcessLookup_new clk fs = Some r" by (auto simp: enhanced_new_def Option.bind_eq_Some_conv)
  then have "lookup_stats s = LookupStats_default" using started by (cases r) (auto simp: enhanced_new_def split: prod.splits)
  then show ?case by (simp add: LookupStats_default_def balanced_def)
next
  case (looked_up s h c r s')
  then show ?case using balanced_lookup [of s h c] by simp
next
  case (refreshed s h r s')
  then obtain x p where "procfs_refresh (hv_clock h) (hv_files h) (procfs_lookup s) = Some (x, p)"
    by (auto simp: enhanced_refresh_def Option.bind_eq_Some_conv)
  then have "lookup_stats s' = lookup_stats s" using refreshed by (cases x) (auto simp: enhanced_refresh_def)
  then show ?case using refreshed by simp
qed

section \<open>Pings\<close>

text \<open>C28 (error). The cache of the lookup knows a connection by its protocol and addresses only, and
  those of ICMP have no ports: within two seconds of a refresh, a ping is attributed to the process
  found for another ping between the same hosts, whatever its identifier and whoever sends it.\<close>

theorem ping_takes_other_answer:
  assumes "protocol c = Icmp" and "from_connection d = from_connection c"
    and "\<not> cleanup_due h s" and "since (mono (hv_clock h)) (unified_refresh s) < secs 2"
    and "cached_answer h (from_connection c) s = None" and "enhanced_answer h s c = Some pn"
  shows "fst (enhanced_lookup h d (snd (enhanced_lookup h c s))) = Some pn"
proof -
  obtain r s' where l: "enhanced_lookup h c s = (r, s')" by (cases "enhanced_lookup h c s")
  obtain r' s'' where l': "enhanced_lookup h d s' = (r', s'')" by (cases "enhanced_lookup h d s'")
  note step = enhanced_lookup_step [OF assms(3) l]
  have "\<not> cleanup_due h s'" using assms(3) cleanup_due_same [OF step(2)] by simp
  from enhanced_lookup_step(1) [OF this l'] have "r' = Some pn"
    using step assms by (simp add: cached_answer_def same_answers_def lookup_update')
  then show ?thesis using l l' by simp
qed

definition sample_ping :: "u16 \<Rightarrow> Connection" where
  "sample_ping ident = Connection_new sample_clock Icmp \<lparr>ip = V4 (Ipv4Addr 10 0 0 1), port = 0\<rparr>
     \<lparr>ip = V4 (Ipv4Addr 8 8 8 8), port = 0\<rparr> (PS_Icmp 8 (Some ident))"

definition ping_value :: "nat \<Rightarrow> bytes" where
  "ping_value p = ne_bytes Little 4 p @ replicate 4 0 @ ascii ''ping'' @ replicate 12 0 @ replicate 8 0"

definition ping_key :: "u16 \<Rightarrow> bytes" where
  "ping_key ident = as_bytes Little (new_icmp_v4 (Ipv4Addr 10 0 0 1) (Ipv4Addr 8 8 8 8) ident)"

definition ping_host :: host_view where
  "ping_host = \<lparr>hv_endian = Little, hv_map = \<lparr>mv_lookup_ok = \<lambda>k. True, mv_delete_ok = \<lambda>k. True\<rparr>, hv_keys = [],
     hv_files = \<lparr>proc_dir = None, net_file = \<lambda>p. None, comm_file = \<lambda>p. None\<rparr>, hv_clock = sample_clock\<rparr>"

definition ping_state :: EnhancedLinuxProcessLookup where
  "ping_state = \<lparr>ebpf_tracker = Some [ping_key 7 \<mapsto> ping_value 4242, ping_key 8 \<mapsto> ping_value 17],
     procfs_lookup = \<lparr>cache_lookup = Mapping.empty, cache_last_refresh = 50, pid_names = Mapping.empty\<rparr>,
     unified_lookup = Mapping.empty, unified_refresh = 50, lookup_stats = LookupStats_default,
     cleanup_config = CleanupConfig_default, last_cleanup = 50, degradation_reason = NotDegraded\<rparr>"

text \<open>Two programs ping one host: asked first, the second one is found as it is; asked after the first
  one, it is taken for the first one.\<close>

lemma ping_takes_other_answer_witness:
  "fst (enhanced_lookup ping_host (sample_ping 8) ping_state) = Some (17, ascii ''ping'') \<and>
   fst (enhanced_lookup ping_host (sample_ping 8) (snd (enhanced_lookup ping_host (sample_ping 7) ping_state)))
     = Some (4242, ascii ''ping'')"
proof -
  have keys: "ping_key 7 \<noteq> ping_key 8"
    by (simp add: ping_key_def as_bytes_def new_icmp_v4_def empty_v4_def fill_v4_def ne_bytes_def le_bytes_numeral)
  have read: "length (ping_value 4242) = 32" "length (ping_value 17) = 32"
    "process_info_from (info_of_bytes Little (ping_value 4242)) = \<lparr>pi_pid = 4242, pi_uid = 0, pi_comm = ascii ''ping'', pi_timestamp = 0\<rparr>"
    "process_info_from (info_of_bytes Little (ping_value 17)) = \<lparr>pi_pid = 17, pi_uid = 0, pi_comm = ascii ''ping'', pi_timestamp = 0\<rparr>"
    by (simp_all add: ping_value_def info_of_bytes_def process_info_from_def ne_bytes_def ne_nat_def le_bytes_numeral
        ascii_def replicate_numeral)
  have lookups: "enhanced_answer ping_host ping_state (sample_ping 7) = Some (4242, ascii ''ping'')"
    "enhanced_answer ping_host ping_state (sample_ping 8) = Some (17, ascii ''ping'')"
    by (simp_all add: enhanced_answer_def ebpf_answer_def ping_host_def ping_state_def sample_ping_def Connection_new_def
        lookup_icmp_v4_def lookup_connection_def ping_key_def [symmetric] keys keys [symmetric] read resolved_name_def
        lookup_empty)
  have "\<not> cleanup_due ping_host ping_state" "cached_answer ping_host k ping_state = None"
    "since (mono (hv_clock ping_host)) (unified_refresh ping_state) < secs 2" for k
    by (simp_all add: cleanup_due_def cached_answer_def ping_host_def ping_state_def CleanupConfig_default_def
        sample_clock_def lookup_empty since_def)
  note facts = this
  have "fst (enhanced_lookup ping_host (sample_ping 8) (snd (enhanced_lookup ping_host (sample_ping 7) ping_state)))
     = Some (4242, ascii ''ping'')"
    by (rule ping_takes_other_answer [OF _ _ facts(1) facts(3) facts(2) lookups(1)])
      (simp_all add: sample_ping_def Connection_new_def from_connection_def)
  moreover have "fst (enhanced_lookup ping_host (sample_ping 8) ping_state) = Some (17, ascii ''ping'')"
    using enhanced_lookup_step(1) [OF facts(1), of "sample_ping 8"] facts(2) lookups(2) by (metis option.simps(4) prod.collapse)
  ultimately show ?thesis by blast
qed

end
