(* ===== verification/Spec2Isabelle.thy ===== *)
theory Spec2Isabelle
  imports KernelReads EbpfMaps QuicRead DnsSpec TcpRfc UiKeys AddrScope ProcRead ProcLookup
begin

text \<open>
  RustNet shows the network connections of a host with the process, the application protocol and
  the server name of each. Packets are captured, parsed and inspected; a tracker merges them into
  connections; on Linux an eBPF program records which process opened which flow. This library
  models the core of that program and proves what makes it correct.

  \<^bold>\<open>Parts and theories.\<close> Paths are below \<^verbatim>\<open>src/crates\<close>.

  \<^item> \<^emph>\<open>Prelude\<close>, \<^emph>\<open>RustStd\<close>, \<^emph>\<open>RustStr\<close>: byte images of integers in either byte order, checked byte
    and slice access, addresses, UTF-8, strings, and the option monad in which \<open>None\<close> is a panic
    (an index or slice out of bounds). \<open>returns f\<close> says that \<open>f\<close> does not panic; the rules in the
    collection \<open>no_panic\<close> prove it by structure.
  \<^item> \<^emph>\<open>CLayout\<close>, \<^emph>\<open>Vmlinux_X86\<close>, \<^emph>\<open>Vmlinux_Arm64\<close>, \<^emph>\<open>Vmlinux_Arm\<close>, \<^emph>\<open>KernelTypes\<close>: the layout rules of C and
    the kernel types of the three bundled \<^verbatim>\<open>vmlinux.h\<close> files that the eBPF program reads, with the
    offset of every field. \<^emph>\<open>KernelReads\<close> shows which memory the handlers read on them.
  \<^item> \<^emph>\<open>SocketTracker\<close>: \<^verbatim>\<open>socket_tracker.bpf.c\<close>, all seven handlers over an abstract kernel memory;
    each is refined to the flow it records (\<open>hook_flow\<close>).
  \<^item> \<^emph>\<open>EbpfMaps\<close>: \<^verbatim>\<open>maps_libbpf.rs\<close> and \<^verbatim>\<open>tracker_libbpf.rs\<close>, the user-space side of the socket map:
    keys, lookup with its retry, cleanup. The locale \<open>key_codec\<close>, interpreted on
    the wire format of the key, is the contract between the two sides.
  \<^item> \<^emph>\<open>RustFmt\<close>, \<^emph>\<open>RustText\<close>: how Rust prints numbers, addresses and sockets, each shown injective,
    so that keys built with \<open>format!\<close> determine what they are built from; and the text functions
    (lines, words, trimming, number parsing) of the line-based parsers.
  \<^item> \<^emph>\<open>DnsParse\<close>, \<^emph>\<open>DpiUdp\<close>, \<^emph>\<open>DpiText\<close>, \<^emph>\<open>DpiTcp\<close>, \<^emph>\<open>DpiTls\<close>: the payload inspection of
    \<^verbatim>\<open>network/dpi/\<close>: DNS, mDNS and LLMNR; NTP, DHCP, NetBIOS, SNMP and STUN; HTTP, SSDP, FTP and
    SSH; MQTT and BitTorrent; TLS over TCP. \<^emph>\<open>Dpi\<close> is the dispatcher of \<^verbatim>\<open>dpi/mod.rs\<close>.
  \<^item> \<^emph>\<open>QuicPacket\<close>: the packet layer of \<^verbatim>\<open>dpi/quic.rs\<close>: coalesced packets, key derivation, removal of
    header and packet protection, the frame walk that fills the reassembly buffer.
  \<^item> \<^emph>\<open>DnsSpec\<close>, \<^emph>\<open>TlsSpec\<close>, \<^emph>\<open>QuicInitial\<close>, \<^emph>\<open>QuicRead\<close>: encoders of DNS messages, TLS records and
    protected QUIC Initial packets from the RFCs, and what the inspection reads back from them.
  \<^item> \<^emph>\<open>TransportParse\<close>, \<^emph>\<open>FrameParse\<close>: the packet parser of \<^verbatim>\<open>parser.rs\<close>, \<^verbatim>\<open>protocol/\<close> and
    \<^verbatim>\<open>link_layer/\<close>, from captured bytes through the inspection to a \<open>ParsedPacket\<close>; \<open>packet_ok\<close>
    holds of all it returns.
  \<^item> \<^emph>\<open>FrameSpec\<close>, \<^emph>\<open>FrameRead\<close>: encoders of frames, packets and segments from the RFCs as the
    reference, and the proof that the parser reads back what they encode.
  \<^item> \<^emph>\<open>Pipeline\<close>, \<^emph>\<open>FlowRead\<close>: the packet-processor loop of \<^verbatim>\<open>src/src/app.rs\<close>: frames through the
    parser into the tracker and the program's totals; a flow is followed from its frames to its
    connection, its counters, its state and the server name it shows.
  \<^item> \<^emph>\<open>AddrScope\<close>, \<^emph>\<open>Lookups\<close>: \<^verbatim>\<open>network/bogon.rs\<close> against a table of CIDR blocks, and the service and
    vendor tables of \<^verbatim>\<open>network/services.rs\<close> and \<^verbatim>\<open>network/oui.rs\<close> over the text of their files.
  \<^item> \<^emph>\<open>Display\<close>, \<^emph>\<open>QueryFilter\<close>, \<^emph>\<open>UserView\<close>: the texts a connection is shown with, the filter language of
    \<^verbatim>\<open>src/src/filter.rs\<close>, and of \<^verbatim>\<open>src/src/app.rs\<close> the snapshot for the user interface, the query on
    it, the traffic history and the clear command; a flow is followed from its frames to the
    connection that a query finds.
  \<^item> \<^emph>\<open>ProcFs\<close>, \<^emph>\<open>ProcRead\<close>: \<^verbatim>\<open>rustnet-host/src/linux/process.rs\<close>, the scan of \<^verbatim>\<open>/proc\<close> for the
    processes of sockets, and what it reads from the texts that a kernel shows.
  \<^item> \<^emph>\<open>EbpfLoad\<close>, \<^emph>\<open>ProcLookup\<close>: why the tracker program could not be loaded (\<^verbatim>\<open>ebpf/loader.rs\<close>), and
    \<^verbatim>\<open>rustnet-host/src/linux/enhanced.rs\<close>, the lookup over the socket map and \<^verbatim>\<open>/proc\<close>, with the
    thread of \<^verbatim>\<open>src/src/app.rs\<close> that fills in the processes of the table. The locale
    \<open>process_lookup\<close> is the trait both lookups implement.
  \<^item> \<^emph>\<open>UiState\<close>, \<^emph>\<open>UiDraw\<close>, \<^emph>\<open>UiKeys\<close>: the terminal user interface of \<^verbatim>\<open>src/src/ui/\<close>: its state with
    the selection, filter line, sorting, grouping and scrolling; of what the tabs draw, all that can
    panic (names are cut at a number of bytes); the handlers of keys and mouse and the loop \<open>run_ui_loop\<close> of \<^verbatim>\<open>src/src/main.rs\<close>. The locale \<open>walk\<close> is what moving the selection needs of a
    list, interpreted on the flat list and the rows grouped by process; \<open>ui_run\<close> are the reachable
    states, turns of the loop interleaved with the other threads, and \<open>ui_ok\<close> their invariant.
  \<^item> \<^emph>\<open>NetTypes\<close>: the enums and records of \<^verbatim>\<open>types.rs\<close>, \<^verbatim>\<open>parser.rs\<close> and \<^verbatim>\<open>protocol/tcp.rs\<close>.
  \<^item> \<^emph>\<open>CryptoReassembly\<close>: \<^verbatim>\<open>CryptoFrameReassembler\<close>. Its specification is \<open>received\<close>, the partial map
    from stream offsets to bytes; \<open>reassembler_ok\<close> is the invariant.
  \<^item> \<^emph>\<open>QuicTls\<close>, \<^emph>\<open>QuicExtract\<close>: the TLS part of \<^verbatim>\<open>dpi/quic.rs\<close>: hostname checks, extensions, hello
    messages and the five strategies that find a server name in the reassembly buffer. An encoder
    of ClientHello messages serves as the reference for the round trip.
  \<^item> \<^emph>\<open>MergeInfo\<close>, \<^emph>\<open>MergeQuic\<close>: the merge functions of \<^verbatim>\<open>merge.rs\<close> for application information.
    The locales \<open>first_wins\<close>, \<open>latest_wins\<close>, \<open>only_forward\<close> and \<open>takes_max\<close> state their field
    policies and are interpreted on each field that follows one.
  \<^item> \<^emph>\<open>TcpTrack\<close>, \<^emph>\<open>RateTrack\<close>, \<^emph>\<open>ConnTrack\<close>: the observed TCP state machine and segment analysis,
    the rate window, creation and merge of one connection and its timeouts. \<^emph>\<open>TcpRfc\<close> is the endpoint
    of RFC 9293 as an independent reference, with the exact conditions under which the two part.
  \<^item> \<^emph>\<open>Tracker\<close>: \<^verbatim>\<open>tracker.rs\<close> and the RTT tracker; \<open>tracker_ok\<close> is the invariant, \<open>represents\<close> the
    abstraction to packet histories.
  \<^item> This theory holds the properties that span the eBPF program and its user-space side.

  \<^bold>\<open>How they interact.\<close> \<open>ingest_at\<close> finds the key of a packet (through the QUIC mapping), creates or
  merges the connection; the merge runs the TCP state machine, hands application information to
  \<open>merge_application\<close>, which for QUIC moves CRYPTO fragments into the connection's buffer and
  extracts the server name again. \<open>cleanup\<close> applies the timeouts, archives and evicts. Separately
  the eBPF handlers fill the socket map that lookups by user space read.

  \<^bold>\<open>What the lemmas show.\<close> Refinement: handlers implement \<open>hook_flow\<close>; the tracker implements the
  fold of packet histories; the shown TCP state follows an endpoint of RFC 9293. Invariants: socket map
  entries, reachable trackers, reassembly buffers, server names, the user interface. Functional behaviour and round
  trips: reassembly in any order, ClientHello server names through any fragmentation, connect and
  lookup, counters, process attribution, cleanup and eviction. Safety: no parser panics, nor does
  the user interface on ASCII input and names that fit; handlers read only the objects they are given. Bounds:
  buffers, addresses, timeouts, tables. Some lemmas and the findings in the manifest state where
  the code departs from its comments or the protocols.

  \<^bold>\<open>Conventions and bounds.\<close> Machine integers are words where they can wrap (counters, sequence
  numbers, map keys); lengths and stream offsets are naturals, which the 64 KiB buffer and QUIC's
  62-bit integers keep far from wrapping. Sums of counters wrap as in a release build. Times are
  integers and durations naturals, in nanoseconds; an operation that reads a clock takes the
  reading as an argument, one reading per operation. No definition uses fuel: every loop is
  structural or has a measure, and where one counts (records, coalesced packets, extensions) the
  limit is the code's. Hash maps are association lists with distinct keys, their order
  arbitrary; operations under a lock are atomic steps. Log output is left out.

  \<^bold>\<open>Parameters.\<close> Kernel memory, bpf helpers and libbpf calls (what is read, which updates succeed)
  are arguments, constrained only by the sizes their interface documents. HKDF, AES and AES-GCM of
  the \<^verbatim>\<open>ring\<close> library are the record \<open>quic_crypto\<close>: \<open>crypto_ok\<close> says that a block stays a block,
  \<open>aead_ok\<close> that opening undoes sealing; both have an instance in the witnesses. The gzip decoder, the
  regular expressions of \<^verbatim>\<open>regex-lite\<close>, the lower case of non-ASCII text and the texts of the
  tables, what the file system shows of \<^verbatim>\<open>/proc\<close>, the layout of the screen and the clipboard are arguments too.

  \<^bold>\<open>Not modelled.\<close> Capture (libpcap), cipher libraries, resolver and GeoIP lookups, process tables of
  systems other than Linux, floating-point rates and charts, the drawing of the terminal interface but for what can panic,
  sandboxing and configuration: see the components of the manifest for each reason.
\<close>

unbundle bit_operations_syntax

section \<open>Process attribution: the socket tracker\<close>

text \<open>A kernel invocation for the witnesses: an x86-64 socket at 8192 for
  10.0.0.1:12345 to 93.184.216.34:443, process 1234 of user 1000 and group 100, five seconds
  after boot.\<close>

definition sample_read :: "u64 \<Rightarrow> nat \<Rightarrow> bytes" where
  "sample_read a n =
     (if a = 8192 \<and> n = 4 then [93, 184, 216, 34]
      else if a = 8196 \<and> n = 4 then [10, 0, 0, 1]
      else if a = 8204 \<and> n = 2 then [1, 187]
      else if a = 8206 \<and> n = 2 then [57, 48]
      else if a = 8256 \<and> n = 16 then octets6 (Ipv6Addr 0x2001 0xdb8 0 0 0 0 0 1)
      else replicate n 0)"

definition sample_env :: bpf_env where
  "sample_env = \<lparr>current_pid_tgid = 0x4D2000004D2, current_uid_gid = 0x64000003E8,
     ktime_get_ns = 5000000000, current_task = 4096,
     current_comm = [99, 117, 114, 108] @ replicate 12 0,
     probe_read = sample_read, probe_read_str = (\<lambda>a n. (-14, replicate n 0)),
     update_ok = (\<lambda>m k. True)\<rparr>"

lemma sample_env_ok: "env_ok sample_env"
  by (auto simp: env_ok_def sample_env_def sample_read_def TASK_COMM_LEN_def)

text \<open>C1 (refinement). Every invocation of an attached eBPF program, for any socket, message and
  contents of kernel memory, does to the socket map exactly what its contract says: it is
  ignored, or it files the current process under the key of the flow it observed (addresses as
  in memory, ports as numbers) when the map accepts the update.\<close>

theorem hook_records_flow:
  assumes "env_ok env"
  shows "run_hook en K env h m = record_flow en K env (hook_flow en K env h) m"
  using assms by (rule run_hook_flow)

theorem hook_records_flow_witness:
  "run_hook Little x86_arch sample_env (TcpConnect 8192) Map.empty
     = record_flow Little x86_arch sample_env (hook_flow Little x86_arch sample_env (TcpConnect 8192)) Map.empty"
  by (rule hook_records_flow [OF sample_env_ok])

text \<open>C14 (invariant). In every state of the socket map that hooks and deletions can reach, each
  entry is filed under the 38-byte key of exactly one well-formed flow (an IPv4 or IPv6 flow of
  TCP, UDP or the matching ICMP, ports in range, no destination port for ICMP) and holds the 32
  bytes of a \<open>conn_info\<close>, so no user-space lookup meets a value of the wrong size.\<close>

theorem socket_map_well_formed:
  assumes "reachable_map en m"
  shows "(\<forall>k v. m k = Some v \<longrightarrow> length k = 38 \<and> length v = 32 \<and> (\<exists>!f. flow_ok f \<and> k = wire_key en f))
    \<and> (\<forall>mv q. \<exists>r. lookup_connection en mv m q = Inr r)"
proof -
  have "\<exists>!f. flow_ok f \<and> k = wire_key en f" if "m k = Some v" for k v
    using reachable_map_ok [OF assms] that flow_keys.entry_unique
    by (fastforce simp: map_ok_def entry_ok_def)
  then show ?thesis
    using reachable_map_bytes [OF assms] lookup_connection_no_error [OF assms] by blast
qed

theorem socket_map_well_formed_witness:
  "\<exists>m. reachable_map Little m
     \<and> (\<forall>k v. m k = Some v \<longrightarrow> length k = 38 \<and> length v = 32 \<and> (\<exists>!f. flow_ok f \<and> k = wire_key Little f))"
  using socket_map_well_formed
    [OF reachable_map.fired [OF reachable_map.created sample_env_ok, of Little x86_arch "TcpConnect 8192"]]
    reachable_map.fired [OF reachable_map.created sample_env_ok, of Little x86_arch "TcpConnect 8192"]
  by blast

text \<open>The process of a TCP connect is found by the lookup of the connection's addresses and ports.\<close>

lemma tcp_connect_lookup:
  assumes "env_ok env" and "sk \<noteq> 0"
    and "sk_bytes K env sk ''skc_rcv_saddr'' 4 = octets4 src"
    and "sk_bytes K env sk ''skc_daddr'' 4 = octets4 dst"
    and "sk_bytes K env sk ''skc_num'' 2 = ne_bytes Little 2 (unat sp)"
    and "sk_bytes K env sk ''skc_dport'' 2 = be16 dp"
    and "\<forall>k. update_ok env m k" and "\<forall>k. mv_lookup_ok mv k"
  shows "lookup Little mv (trace_tcp_connect Little K env sk m) (V4 src) (V4 dst) sp dp True
      = Some (recorded_process Little K env)"
proof -
  have "lookup_connection Little mv (run_hook Little K env (TcpConnect sk) m) (new_v4 src dst sp dp True)
      = Inr (Some (recorded_process Little K env))"
    using assms by (intro lookup_after_hook)
      (auto simp: as_bytes_new_v4_Little v4_flow_def ne_nat_port)
  then show ?thesis by (simp add: lookup_v4_def)
qed

lemma sample_sk:
  "sk_bytes x86_arch sample_env 8192 ''skc_rcv_saddr'' 4 = octets4 (Ipv4Addr 10 0 0 1)"
  "sk_bytes x86_arch sample_env 8192 ''skc_daddr'' 4 = octets4 (Ipv4Addr 93 184 216 34)"
  "sk_bytes x86_arch sample_env 8192 ''skc_num'' 2 = ne_bytes Little 2 (unat (12345 :: u16))"
  "sk_bytes x86_arch sample_env 8192 ''skc_dport'' 2 = be16 443"
  by (simp_all add: sk_bytes_def sk_addr_def core_addr_def core_off_sock sample_env_def sample_read_def
      ne_bytes_def be16_def le_bytes_numeral)

abbreviation all_ok :: map_view where
  "all_ok \<equiv> \<lparr>mv_lookup_ok = \<lambda>k. True, mv_delete_ok = \<lambda>k. True\<rparr>"

text \<open>A UDP datagram sent from a socket not bound to an address is found under the
  address the packet shows: the exact key misses, and the retry with a zero source address
  finds the sender.\<close>

theorem udp_unbound_then_lookup:
  assumes "env_ok env" and "sk \<noteq> 0" and "msg \<noteq> 0"
    and "sk_bytes K env sk ''skc_rcv_saddr'' 4 = [0, 0, 0, 0]"
    and "msg_dst4 Little K env sk msg = octets4 dst" and "dst \<noteq> UNSPECIFIED4"
    and "sk_bytes K env sk ''skc_num'' 2 = ne_bytes Little 2 (unat sp)"
    and "msg_dport Little K env sk msg = be16 dp"
    and "\<forall>k. update_ok env m k" and "\<forall>k. mv_lookup_ok mv k"
    and "src \<noteq> UNSPECIFIED4" and "m (as_bytes Little (new_v4 src dst sp dp False)) = None"
  shows "lookup Little mv (trace_udp_sendmsg Little K env sk msg m) (V4 src) (V4 dst) sp dp False
      = Some (recorded_process Little K env)"
proof -
  let ?m = "run_hook Little K env (UdpSendmsg sk msg) m"
  have d: "octets4 dst \<noteq> [0, 0, 0, 0]"
    using assms(6) octets4_inject [of dst UNSPECIFIED4] by (auto simp: UNSPECIFIED4_def)
  have s: "octets4 src \<noteq> [0, 0, 0, 0]"
    using assms(11) octets4_inject [of src UNSPECIFIED4] by (auto simp: UNSPECIFIED4_def)
  have hit: "lookup_connection Little mv ?m (new_v4 (Ipv4Addr 0 0 0 0) dst sp dp False)
      = Inr (Some (recorded_process Little K env))"
    using assms d by (intro lookup_after_hook)
      (auto simp: as_bytes_new_v4_Little v4_flow_def ne_nat_port)
  have "lookup_connection Little mv ?m (new_v4 src dst sp dp False)
      = lookup_connection Little mv m (new_v4 src dst sp dp False)"
    using assms s by (intro lookup_other_flow)
      (auto simp: as_bytes_new_v4_Little v4_flow_def wire_key_inject same_shape_def ne_nat_port
        unat_u16_bound split: if_splits)
  then show ?thesis using hit assms(10,12) by (simp add: lookup_v4_def lookup_connection_def)
qed

text \<open>A datagram to 8.8.8.8:53 from an unbound socket, its message at 16384 naming the
  destination at 20480.\<close>

definition udp_read :: "u64 \<Rightarrow> nat \<Rightarrow> bytes" where
  "udp_read a n =
     (if a = 16384 \<and> n = 8 then [0, 80, 0, 0, 0, 0, 0, 0]
      else if a = 20484 \<and> n = 4 then [8, 8, 8, 8]
      else if a = 20482 \<and> n = 2 then [0, 53]
      else if a = 8206 \<and> n = 2 then [57, 48]
      else replicate n 0)"

definition udp_env :: bpf_env where
  "udp_env = sample_env\<lparr>probe_read := udp_read\<rparr>"

text \<open>The two sides agree on IPv4 keys on little-endian hosts only: the bytes user
  space builds for an IPv4 connection are the program's key of that flow exactly when the host
  is little-endian or both addresses read the same backwards.\<close>

theorem v4_keys_agree_iff:
  "as_bytes en (new_v4 src dst sp dp is_tcp) =
     wire_key en \<lparr>fl_src = octets4 src, fl_dst = octets4 dst, fl_sport = unat sp, fl_dport = unat dp,
       fl_proto = (if is_tcp then IPPROTO_TCP else IPPROTO_UDP), fl_family = AF_INET\<rparr>
   \<longleftrightarrow> en = Little \<or> octets4 src = rev (octets4 src) \<and> octets4 dst = rev (octets4 dst)"
  unfolding new_v4_def rs_consts tracker_consts [symmetric]
  by (cases is_tcp) (simp_all add: as_bytes_v4_agree)

text \<open>For IPv6 it is the other way round: user space's key is the program's exactly
  when the host is big-endian or every four-byte group of both addresses reads the same
  backwards, so on the little-endian hosts the program is built for almost no IPv6 flow agrees.\<close>

theorem v6_keys_agree_iff:
  "as_bytes en (new_v6 src dst sp dp is_tcp) =
     wire_key en \<lparr>fl_src = octets6 src, fl_dst = octets6 dst, fl_sport = unat sp, fl_dport = unat dp,
       fl_proto = (if is_tcp then IPPROTO_TCP else IPPROTO_UDP), fl_family = AF_INET6\<rparr>
   \<longleftrightarrow> en = Big \<or> groups_palindromic (octets6 src) \<and> groups_palindromic (octets6 dst)"
  unfolding new_v6_def rs_consts tracker_consts [symmetric]
  by (cases is_tcp) (simp_all add: as_bytes_v6_agree)

text \<open>C39 (functional). Consequently, on a little-endian host an IPv6 TCP connect is invisible to the
  lookup of the very connection it recorded, for every pair of addresses that is not
  palindromic in each group: the lookup gives what it gave before the event.\<close>

theorem tcp_v6_connect_not_found:
  assumes "env_ok env"
    and "sk_bytes K env sk ''skc_v6_rcv_saddr'' 16 = octets6 src"
    and "sk_bytes K env sk ''skc_v6_daddr'' 16 = octets6 dst"
    and "sk_bytes K env sk ''skc_num'' 2 = ne_bytes Little 2 (unat sp)"
    and "sk_bytes K env sk ''skc_dport'' 2 = be16 dp"
    and "\<not> (groups_palindromic (octets6 src) \<and> groups_palindromic (octets6 dst))"
  shows "lookup Little mv (trace_tcp_v6_connect Little K env sk m) (V6 src) (V6 dst) sp dp True
      = lookup Little mv m (V6 src) (V6 dst) sp dp True"
proof -
  have "lookup_connection Little mv (run_hook Little K env (TcpV6Connect sk) m) (new_v6 src dst sp dp True)
      = lookup_connection Little mv m (new_v6 src dst sp dp True)"
  proof (rule lookup_other_flow [OF assms(1)])
    fix f assume "hook_flow Little K env (TcpV6Connect sk) = Some f"
    then have "f = \<lparr>fl_src = octets6 src, fl_dst = octets6 dst, fl_sport = unat sp, fl_dport = unat dp,
        fl_proto = IPPROTO_TCP, fl_family = AF_INET6\<rparr>"
      using assms by (simp add: v6_flow_def ne_nat_port split: if_splits)
    then show "as_bytes Little (new_v6 src dst sp dp True) \<noteq> wire_key Little f"
      using assms(6) as_bytes_v6_agree [of Little sp dp IPPROTO_TCP src dst]
      by (simp add: new_v6_def rs_consts tracker_consts)
  qed
  then show ?thesis by (simp add: lookup_v6_def)
qed

theorem tcp_v6_connect_not_found_witness:
  "lookup Little all_ok (trace_tcp_v6_connect Little x86_arch sample_env 8192 Map.empty)
     (V6 (Ipv6Addr 0x2001 0xdb8 0 0 0 0 0 1)) (V6 UNSPECIFIED6) 12345 443 True
   = lookup Little all_ok Map.empty (V6 (Ipv6Addr 0x2001 0xdb8 0 0 0 0 0 1)) (V6 UNSPECIFIED6) 12345 443 True"
proof -
  have r: "sk_bytes x86_arch sample_env 8192 ''skc_v6_rcv_saddr'' 16 = octets6 (Ipv6Addr 0x2001 0xdb8 0 0 0 0 0 1)"
    "sk_bytes x86_arch sample_env 8192 ''skc_v6_daddr'' 16 = octets6 UNSPECIFIED6"
    "sk_bytes x86_arch sample_env 8192 ''skc_num'' 2 = ne_bytes Little 2 (unat (12345 :: u16))"
    "sk_bytes x86_arch sample_env 8192 ''skc_dport'' 2 = be16 443"
    by (simp_all add: sk_bytes_def sk_addr_def core_addr_def core_off_sock sample_env_def sample_read_def
        ne_bytes_def be16_def le_bytes_numeral UNSPECIFIED6_def replicate_numeral)
  show ?thesis
    by (rule tcp_v6_connect_not_found [OF sample_env_ok r])
      (simp add: groups_palindromic_def be16_def ne_bytes_def le_bytes_numeral)
qed

text \<open>Cleanup removes an entry exactly when its key is listed, its value is readable
  and older than the threshold by the given clock, and its deletion succeeds; it changes no other
  entry, counts what it removed, and keeps the map one that the hooks could have left.\<close>

theorem cleanup_exact:
  fixes m :: socket_map
  assumes "reachable_map en m" and "distinct keys"
  shows "fst (cleanup_stale_entries en mv keys now_ns threshold m) k =
      (if k \<in> set keys \<and> mv_lookup_ok mv k \<and> mv_delete_ok mv k \<and>
          (\<exists>v. m k = Some v \<and> unat threshold < unat now_ns - ne_nat en (take 8 (drop 24 v)))
       then None else m k)
    \<and> snd (cleanup_stale_entries en mv keys now_ns threshold m)
      = card {k \<in> set keys. is_stale en mv m now_ns threshold k \<and> mv_delete_ok mv k}
    \<and> reachable_map en (fst (cleanup_stale_entries en mv keys now_ns threshold m))"
proof -
  have ts: "is_stale en mv m now_ns threshold k \<longleftrightarrow> mv_lookup_ok mv k \<and>
      (\<exists>v. m k = Some v \<and> unat threshold < unat now_ns - ne_nat en (take 8 (drop 24 v)))"
    using reachable_map_bytes [OF assms(1), of k]
    by (auto simp: is_stale_def word_less_nat_alt unat_sat_sub unat_word_of_ne_nat split: option.splits)
  have "length (filter (mv_delete_ok mv) (filter (is_stale en mv m now_ns threshold) keys))
      = card {k \<in> set keys. is_stale en mv m now_ns threshold k \<and> mv_delete_ok mv k}"
    using assms(2) by (simp add: distinct_length_filter conj_commute Int_def cong: conj_cong)
  then show ?thesis
    using delete_keys_reachable [OF assms(1)]
    by (auto simp: cleanup_stale_entries_def delete_keys_map delete_keys_count ts)
qed

theorem cleanup_exact_witness:
  "\<exists>m k. m k \<noteq> None \<and> snd (cleanup_stale_entries Little all_ok [k] 1700000000000000000 60 m)
      = card {q \<in> set [k]. is_stale Little all_ok m 1700000000000000000 60 q \<and> mv_delete_ok all_ok q}"
proof -
  let ?m = "run_hook Little x86_arch sample_env (TcpConnect 8192) Map.empty"
  have r: "reachable_map Little ?m"
    by (rule reachable_map.fired [OF reachable_map.created sample_env_ok])
  obtain f where f: "hook_flow Little x86_arch sample_env (TcpConnect 8192) = Some f" by simp
  have "update_ok sample_env Map.empty q" for q by (simp add: sample_env_def)
  then have "?m (wire_key Little f) \<noteq> None"
    by (simp only: run_hook_flow [OF sample_env_ok] f record_flow_def option.case) simp
  moreover have d: "distinct [wire_key Little f]" by simp
  note cleanup_exact [OF r d, where mv = all_ok and now_ns = 1700000000000000000 and threshold = 60,
      THEN conjunct2, THEN conjunct1]
  ultimately show ?thesis by (intro exI conjI)
qed

text \<open>Ages are measured against the wall clock although the program stamps entries
  with the time since boot: an entry is removed as soon as the wall clock is further from the
  boot clock than the threshold, however recently it was recorded.\<close>

lemma fresh_entry_wiped:
  assumes "env_ok env" and "hook_flow en K env h = Some f" and "update_ok env m (wire_key en f)"
    and "wire_key en f \<in> set keys" and "mv_lookup_ok mv (wire_key en f)" and "mv_delete_ok mv (wire_key en f)"
    and "unat (ktime_get_ns env) + unat threshold < unat now_ns"
  shows "run_hook en K env h m (wire_key en f) \<noteq> None
    \<and> fst (cleanup_stale_entries en mv keys now_ns threshold (run_hook en K env h m)) (wire_key en f) = None"
proof -
  have s: "run_hook en K env h m (wire_key en f) = Some (info_image en (get_process_info en K env zero_info))"
    using assms by (simp add: run_hook_flow record_flow_def)
  have "is_stale en mv (run_hook en K env h m) now_ns threshold (wire_key en f)"
    using assms length_process_info [OF assms(1), of en K]
      is_stale_stored [where m = "run_hook en K env h m" and k = "wire_key en f", OF s]
    by (auto simp: TASK_COMM_LEN_def)
  then show ?thesis using assms s by (simp add: cleanup_entry)
qed

section \<open>From the kernel to the connection\<close>

text \<open>C6 (functional). A process connects over IPv4 on a little-endian host, and the socket map takes and
  gives back its entries. When no cleanup of the map is due (for that, see below) and the lookup has
  no unexpired cached answer for the connection, the next pass of the enrichment thread that covers
  it gives the connection of those addresses the id of the process and the name that its files or,
  failing them, the record have, whatever other connections the table holds and whatever is cached
  for them.\<close>

theorem connect_attributed:
  assumes "env_ok env" and "sk \<noteq> 0"
    and "sk_bytes K env sk ''skc_rcv_saddr'' 4 = octets4 src"
    and "sk_bytes K env sk ''skc_daddr'' 4 = octets4 dst"
    and "sk_bytes K env sk ''skc_num'' 2 = ne_bytes Little 2 (unat sp)"
    and "sk_bytes K env sk ''skc_dport'' 2 = be16 dp"
    and "\<forall>k. update_ok env m k" and "\<forall>k. mv_lookup_ok (hv_map h) k" and "hv_endian h = Little"
    and "ebpf_tracker s = Some (trace_tcp_connect Little K env sk m)"
    and "\<not> cleanup_due h s" and "cached_answer h (from_connection c) s = None"
    and "(entry_key, c) \<in> set cs" and "protocol c = Tcp"
    and "local_addr c = \<lparr>ip = V4 src, port = sp\<rparr>" and "remote_addr c = \<lparr>ip = V4 dst, port = dp\<rparr>"
    and "Connection.pid c = None" and "process_name c = None" and "full_pass \<or> is_young clk c"
    and "tgid = ucast (drop_bit 32 (current_pid_tgid env))"
  shows "(entry_key, c\<lparr>Connection.pid := Some tgid, process_name := Some (resolved_name h (procfs_lookup s) tgid
      (pi_comm (recorded_process Little K env)))\<rparr>) \<in> set (fst (enrich_all (enhanced_lookup h) full_pass clk cs s))"
proof -
  have "enhanced_answer h s c = Some (tgid, resolved_name h (procfs_lookup s) tgid (pi_comm (recorded_process Little K env)))"
    using tcp_connect_lookup [OF assms(1-8)] assms(9,10,14-16,20)
    by (simp add: enhanced_answer_def ebpf_answer_def)
  moreover have "(entry_key, enriched full_pass clk (enhanced_answer h s c) c) \<in> set (fst (enrich_all (enhanced_lookup h) full_pass clk cs s))"
    by (rule enhanced.enrich_all_member) (use assms cache_right_empty in simp_all)
  moreover have "enriched full_pass clk (Some pn) c = c\<lparr>Connection.pid := Some (fst pn), process_name := Some (snd pn)\<rparr>" for pn
    using assms(17-19) by (auto simp: enriched_def fill_in_def)
  ultimately show ?thesis by simp
qed

definition sample_host_view :: host_view where
  "sample_host_view = \<lparr>hv_endian = Little, hv_map = all_ok, hv_keys = [],
     hv_files = \<lparr>proc_dir = None, net_file = \<lambda>p. None, comm_file = \<lambda>p. None\<rparr>,
     hv_clock = \<lparr>wall = 1700000000000000000, mono = 5000000000\<rparr>\<rparr>"

definition sample_lookup :: EnhancedLinuxProcessLookup where
  "sample_lookup = \<lparr>ebpf_tracker = Some (trace_tcp_connect Little x86_arch sample_env 8192 Map.empty),
     procfs_lookup = \<lparr>cache_lookup = Mapping.empty, cache_last_refresh = 0, pid_names = Mapping.empty\<rparr>,
     unified_lookup = Mapping.empty, unified_refresh = 0, lookup_stats = LookupStats_default,
     cleanup_config = CleanupConfig_default, last_cleanup = 0, degradation_reason = NotDegraded\<rparr>"

definition sample_connect :: Connection where
  "sample_connect = Connection_new (hv_clock sample_host_view) Tcp
     \<lparr>ip = V4 (Ipv4Addr 10 0 0 1), port = 12345\<rparr> \<lparr>ip = V4 (Ipv4Addr 93 184 216 34), port = 443\<rparr> (PS_Tcp SynSent)"

theorem connect_attributed_witness:
  "\<exists>c. Connection.pid c = Some 1234 \<and> (ascii ''k'', c) \<in>
     set (fst (enrich_all (enhanced_lookup sample_host_view) True sample_clock [(ascii ''k'', sample_connect)] sample_lookup))"
proof -
  have "(ascii ''k'', sample_connect\<lparr>Connection.pid := Some 1234, process_name := Some (resolved_name sample_host_view
      (procfs_lookup sample_lookup) 1234 (pi_comm (recorded_process Little x86_arch sample_env)))\<rparr>)
    \<in> set (fst (enrich_all (enhanced_lookup sample_host_view) True sample_clock [(ascii ''k'', sample_connect)] sample_lookup))"
    by (rule connect_attributed [OF sample_env_ok _ sample_sk, where m = Map.empty])
      (simp_all add: sample_host_view_def sample_lookup_def sample_connect_def Connection_new_def cleanup_due_def
        cached_answer_def CleanupConfig_default_def lookup_empty since_def, simp_all add: sample_env_def)
  then show ?thesis by (intro exI conjI) simp_all
qed

text \<open>C38 (error). Every thirty seconds a lookup begins with a cleanup of the socket map, which takes
  the wall clock for the age of an entry: it deletes the entry of a connect however recent, so
  that the lookup does not find a process that the files of \<^verbatim>\<open>/proc\<close> do not show.\<close>

theorem connect_lost_at_cleanup:
  assumes "env_ok env" and "sk \<noteq> 0"
    and "sk_bytes K env sk ''skc_rcv_saddr'' 4 = octets4 src"
    and "sk_bytes K env sk ''skc_daddr'' 4 = octets4 dst"
    and "sk_bytes K env sk ''skc_num'' 2 = ne_bytes Little 2 (unat sp)"
    and "sk_bytes K env sk ''skc_dport'' 2 = be16 dp"
    and "\<forall>k. update_ok env m k" and "\<forall>k. mv_lookup_ok (hv_map h) k \<and> mv_delete_ok (hv_map h) k" and "hv_endian h = Little"
    and "ebpf_tracker s = Some (trace_tcp_connect Little K env sk m)"
    and "as_bytes Little (new_v4 src dst sp dp True) \<in> set (hv_keys h)"
    and "m (as_bytes Little (new_v4 (Ipv4Addr 0 0 0 0) dst sp dp True)) = None"
    and "cleanup_config s = CleanupConfig_default" and "cleanup_due h s" and "0 \<le> wall (hv_clock h)"
    and "unat (ktime_get_ns env) + 60000000000 < unat (word_of_nat (nat (wall (hv_clock h))) :: u64)"
    and "cached_answer h (from_connection c) s = None" and "protocol c = Tcp"
    and "local_addr c = \<lparr>ip = V4 src, port = sp\<rparr>" and "remote_addr c = \<lparr>ip = V4 dst, port = dp\<rparr>"
    and "get_process_for_connection (procfs_lookup s) c = None"
  shows "fst (enhanced_lookup h c s) = None"
proof -
  let ?s = "maybe_cleanup_ebpf_map h s" and ?k = "as_bytes Little (new_v4 src dst sp dp True)"
    and ?z = "as_bytes Little (new_v4 (Ipv4Addr 0 0 0 0) dst sp dp True)"
  let ?m = "run_hook Little K env (TcpConnect sk) m"
  obtain f where f: "hook_flow Little K env (TcpConnect sk) = Some f" and k: "?k = wire_key Little f"
    using assms(2-6) by (auto simp: as_bytes_new_v4_Little v4_flow_def ne_nat_port)
  define m' where "m' = fst (cleanup_stale_entries Little (hv_map h) (hv_keys h) (word_of_nat (nat (wall (hv_clock h)))) 60000000000 ?m)"
  have tracker: "ebpf_tracker ?s = Some m'"
    using assms(9,10,13-15)
    by (simp add: maybe_cleanup_ebpf_map_def Let_def m'_def tracker_cleanup_def CleanupConfig_default_def)
  have "m' ?k = None"
    unfolding m'_def k using assms(7,8,11,16) k
    by (intro conjunct2 [OF fresh_entry_wiped [OF assms(1) f]]) simp_all
  moreover have "m' ?z = None \<or> m' ?z = ?m ?z"
    by (auto simp: m'_def cleanup_stale_entries_def delete_keys_map)
  moreover have "?m ?z = (if ?z = ?k then ?m ?k else m ?z)"
    unfolding run_hook_flow [OF assms(1)] f record_flow_def k by simp
  ultimately have "m' ?k = None" "m' ?z = None" using assms(12) by (auto split: if_splits)
  then have "ebpf_answer h ?s c = None"
    using assms(9,18-20) tracker by (simp add: ebpf_answer_def lookup_v4_def lookup_connection_def)
  moreover note after = lookup_after_cleanup(1,3,4) [where s = s and h = h]
  ultimately have none: "enhanced_answer h ?s c = None" "\<not> cleanup_due h ?s" "cached_answer h (from_connection c) ?s = None"
    using assms(13,17,21) by (simp_all add: enhanced_answer_def CleanupConfig_default_def)
  obtain r s' where l: "enhanced_lookup h c ?s = (r, s')" by (cases "enhanced_lookup h c ?s")
  have "enhanced_lookup h c s = enhanced_lookup h c ?s" using assms(13) by (intro lookup_after_cleanup(2)) (simp add: CleanupConfig_default_def)
  then show ?thesis using enhanced_lookup_step(1) [OF none(2) l] none l by simp
qed

theorem connect_lost_at_cleanup_witness:
  "fst (enhanced_lookup (sample_host_view\<lparr>hv_keys := [as_bytes Little (new_v4 (Ipv4Addr 10 0 0 1) (Ipv4Addr 93 184 216 34) 12345 443 True)]\<rparr>)
     sample_connect (sample_lookup\<lparr>last_cleanup := - 25000000000\<rparr>)) = None"
  by (rule connect_lost_at_cleanup [OF sample_env_ok _ sample_sk, where m = Map.empty])
    (simp_all add: sample_host_view_def sample_lookup_def sample_connect_def Connection_new_def cleanup_due_def
      cached_answer_def lookup_empty since_def get_process_for_connection_def fallback_lookup_def candidates_def
      from_connection_def Let_def, simp_all add: sample_env_def CleanupConfig_default_def)

text \<open>With the helper's documented result, the group id in the upper half of the
  word and the user id in the lower, the field called \<open>uid\<close> that user space reports holds the
  group id; the process id is the thread-group id.\<close>

theorem uid_is_the_group_id:
  assumes "current_uid_gid env = push_bit 32 (ucast gid) OR ucast (user :: u32)"
    and "current_pid_tgid env = push_bit 32 (ucast tgid) OR ucast (tid :: u32)"
  shows "pi_uid (recorded_process en K env) = gid \<and> pi_pid (recorded_process en K env) = tgid"
proof -
  have upper: "ucast (drop_bit 32 (push_bit 32 (ucast a) OR ucast b :: u64)) = a" for a b :: u32
    by (rule bit_word_eqI) (auto simp: bit_simps dest: bit_imp_le_length)
  show ?thesis by (simp only: recorded_process_fields assms upper)
qed

text \<open>The probed functions are called with TCP and UDP sockets, and the program reads them
  as \<open>struct sock\<close>: in every bundled header the socket is embedded at the very start of both.
  The program must be relocated: the offsets of the task's name and of the IPv6 addresses differ
  between the headers.\<close>

theorem sockets_embed_sock:
  "field_at LP64 x86_tcp6_sock [''tcp'', ''inet_conn'', ''icsk_inet'', ''sk''] = Some (0, csize LP64 x86_sock)
   \<and> field_at LP64 x86_udp6_sock [''udp'', ''inet'', ''sk''] = Some (0, csize LP64 x86_sock)
   \<and> field_at LP64 arm64_tcp6_sock [''tcp'', ''inet_conn'', ''icsk_inet'', ''sk''] = Some (0, csize LP64 arm64_sock)
   \<and> field_at LP64 arm64_udp6_sock [''udp'', ''inet'', ''sk''] = Some (0, csize LP64 arm64_sock)
   \<and> field_at ILP32 arm_tcp6_sock [''tcp'', ''inet_conn'', ''icsk_inet'', ''sk''] = Some (0, csize ILP32 arm_sock)
   \<and> field_at ILP32 arm_udp6_sock [''udp'', ''inet'', ''sk''] = Some (0, csize ILP32 arm_sock)
   \<and> distinct (map (\<lambda>K. core_off K (k_task K) [''comm'']) [x86_arch, arm64_arch, arm_arch])
   \<and> core_off x86_arch (k_sock x86_arch) [''__sk_common'', ''skc_v6_daddr'']
       \<noteq> core_off arm_arch (k_sock arm_arch) [''__sk_common'', ''skc_v6_daddr'']"
  by (simp add: core_off_def karch_defs kernel_fields)

end
